(* ===== verification/Gateway_Prelude.thy ===== *)
theory Gateway_Prelude
  imports Complex_Main "HOL-Library.Word"
begin

text \<open>
  What every component shares: JSON values as the code stores them in JSONB columns, numbers as
  exact rationals with the rounding of a DECIMAL column, the row-list model of a database table
  (SELECT, UPDATE, ORDER BY, LIMIT), and the two contracts most components satisfy: an UPDATE
  statement that keeps the primary key, and a machine whose operations keep an invariant.
\<close>

named_theorems handler_defs \<open>definitions of handlers unfolded by the functional lemmas\<close>

section \<open>JSON values\<close>

text \<open>
  The values of a \<open>Record<string, unknown>\<close>.  A \<open>Date\<close> that was written with
  \<open>toISOString()\<close> is kept as its instant.
\<close>

datatype json =
    JNull
  | JBool bool
  | JNum rat
  | JStr string
  | JTime int
  | JArr "json list"
  | JObj "(string \<times> json) list"

type_synonym payload = "(string \<times> json) list"

definition opt_str :: "string option \<Rightarrow> json" where
  "opt_str v = (case v of None \<Rightarrow> JNull | Some s \<Rightarrow> JStr s)"

definition opt_time :: "int option \<Rightarrow> json" where
  "opt_time v = (case v of None \<Rightarrow> JNull | Some t \<Rightarrow> JTime t)"

text \<open>\<open>JSON.stringify\<close> leaves out a property whose value is undefined.\<close>

definition undef_field :: "string \<Rightarrow> string option \<Rightarrow> payload" where
  "undef_field k v = (case v of None \<Rightarrow> [] | Some s \<Rightarrow> [(k, JStr s)])"

text \<open>\<open>x ? String(x) : null\<close> of a nullable text column: the empty string is falsy.\<close>

definition truthy_str :: "string option \<Rightarrow> string option" where
  "truthy_str v = (case v of None \<Rightarrow> None | Some s \<Rightarrow> if s = [] then None else Some s)"

lemma truthy_str_idem [simp]: "truthy_str (truthy_str v) = truthy_str v"
  by (simp add: truthy_str_def split: option.splits)

lemma truthy_str_simps [simp]:
  "truthy_str None = None"
  "truthy_str (Some s) = (if s = [] then None else Some s)"
  by (simp_all add: truthy_str_def)


section \<open>Numbers\<close>

text \<open>
  \<open>DECIMAL(p, s)\<close> columns round half away from zero to \<open>s\<close> digits and raise a numeric
  overflow when the rounded value needs more than \<open>p - s\<close> integer digits.
\<close>

definition pg_round :: "nat \<Rightarrow> rat \<Rightarrow> rat" where
  "pg_round s x = (let m = of_int \<lfloor>\<bar>x\<bar> * 10 ^ s + 1 / 2\<rfloor> / 10 ^ s in if x < 0 then - m else m)"

definition pg_decimal :: "nat \<Rightarrow> nat \<Rightarrow> rat \<Rightarrow> rat option" where
  "pg_decimal p s x = (let r = pg_round s x in if \<bar>r\<bar> < 10 ^ (p - s) then Some r else None)"

lemma pg_round_nonneg: "0 \<le> x \<Longrightarrow> 0 \<le> pg_round s x"
  by (simp add: pg_round_def Let_def)

lemma pg_round_error: "\<bar>pg_round s x - x\<bar> \<le> 1 / (2 * 10 ^ s)"
proof -
  have near: "\<bar>of_int \<lfloor>y * 10 ^ s + 1 / 2\<rfloor> / 10 ^ s - y\<bar> \<le> 1 / (2 * 10 ^ s)" for y :: rat
  proof -
    let ?k = "(10::rat) ^ s"
    have k: "0 < ?k" by simp
    have "\<bar>of_int \<lfloor>y * ?k + 1 / 2\<rfloor> - y * ?k\<bar> \<le> 1 / 2"
      by linarith
    then have "\<bar>of_int \<lfloor>y * ?k + 1 / 2\<rfloor> - y * ?k\<bar> / ?k \<le> (1 / 2) / ?k"
      using k by (intro divide_right_mono) auto
    moreover have "\<bar>of_int \<lfloor>y * ?k + 1 / 2\<rfloor> - y * ?k\<bar> / ?k
        = \<bar>of_int \<lfloor>y * ?k + 1 / 2\<rfloor> / ?k - y\<bar>"
      using k by (simp add: field_simps abs_divide)
    ultimately show ?thesis by simp
  qed
  show ?thesis
  proof (cases "x < 0")
    case True
    then show ?thesis using near [of "- x"] by (simp add: pg_round_def Let_def)
  next
    case False
    then show ?thesis using near [of x] by (simp add: pg_round_def Let_def)
  qed
qed

lemma floor_rat_numeral [simp]:
  "\<lfloor>(numeral a :: rat) / numeral b\<rfloor> = numeral a div numeral b"
  "\<lfloor>(1 :: rat) / numeral b\<rfloor> = 1 div numeral b"
  using floor_divide_of_int_eq [of "numeral a" "numeral b", where 'a = rat]
    floor_divide_of_int_eq [of 1 "numeral b", where 'a = rat] by simp_all

text \<open>\<open>Math.round\<close>: the nearest integer, ties towards positive infinity.\<close>

definition js_round :: "rat \<Rightarrow> int" where
  "js_round x = \<lfloor>x + 1 / 2\<rfloor>"

lemma js_round_of_int [simp]: "js_round (of_int n) = n"
  unfolding js_round_def by linarith

lemma js_round_mono: "x \<le> y \<Longrightarrow> js_round x \<le> js_round y"
  unfolding js_round_def by (simp add: floor_mono)

lemma js_round_bounds: "of_int a \<le> x \<Longrightarrow> x \<le> of_int b \<Longrightarrow> a \<le> js_round x \<and> js_round x \<le> b"
  using js_round_mono [of "of_int a" x] js_round_mono [of x "of_int b"] by simp

text \<open>The integer part, as the \<open>Date\<close> constructor takes it of its argument.\<close>

definition js_trunc :: "rat \<Rightarrow> int" where
  "js_trunc x = (if x < 0 then - \<lfloor>- x\<rfloor> else \<lfloor>x\<rfloor>)"

lemma js_trunc_of_int [simp]: "js_trunc (of_int n) = n"
  by (simp add: js_trunc_def)

text \<open>\<open>Math.max(lo, Math.min(hi, x))\<close>.\<close>

definition clamp :: "rat \<Rightarrow> rat \<Rightarrow> rat \<Rightarrow> rat" where
  "clamp lo hi x = max lo (min hi x)"

lemma clamp_bounds: "lo \<le> hi \<Longrightarrow> lo \<le> clamp lo hi x \<and> clamp lo hi x \<le> hi"
  by (simp add: clamp_def)

section \<open>Tables\<close>

text \<open>
  A table is the list of its rows in insertion order.  A SELECT is a \<open>filter\<close>,
  \<open>rows[0]\<close> the first match, an UPDATE rewrites the matching rows in place, ORDER BY is a
  stable sort (equal keys keep insertion order), LIMIT and OFFSET are \<open>take\<close> and \<open>drop\<close>.
\<close>

definition tbl_find :: "('a \<Rightarrow> bool) \<Rightarrow> 'a list \<Rightarrow> 'a option" where
  "tbl_find P rows = (case filter P rows of [] \<Rightarrow> None | r # _ \<Rightarrow> Some r)"

definition tbl_update :: "('a \<Rightarrow> bool) \<Rightarrow> ('a \<Rightarrow> 'a) \<Rightarrow> 'a list \<Rightarrow> 'a list" where
  "tbl_update P f rows = map (\<lambda>r. if P r then f r else r) rows"

text \<open>INSERT into a table with a primary key (or unique index) \<open>key\<close>: a duplicate is an error.\<close>

definition tbl_insert :: "('a \<Rightarrow> 'k) \<Rightarrow> 'a \<Rightarrow> 'a list \<Rightarrow> 'a list option" where
  "tbl_insert key row rows = (if key row \<in> set (map key rows) then None else Some (rows @ [row]))"

text \<open>A \<open>VARCHAR(n)\<close> column refuses longer values.\<close>

definition fits :: "nat \<Rightarrow> string \<Rightarrow> bool" where
  "fits n s = (length s \<le> n)"

definition order_asc :: "('a \<Rightarrow> int) \<Rightarrow> 'a list \<Rightarrow> 'a list" where
  "order_asc k rows = sort_key k rows"

definition order_desc :: "('a \<Rightarrow> int) \<Rightarrow> 'a list \<Rightarrow> 'a list" where
  "order_desc k rows = sort_key (\<lambda>r. - k r) rows"

lemma tbl_insert_SomeD:
  "tbl_insert key row rows = Some rows' \<Longrightarrow> rows' = rows @ [row] \<and> key row \<notin> key ` set rows"
  by (auto simp: tbl_insert_def split: if_splits)

lemma tbl_insert_distinct:
  "tbl_insert key row rows = Some rows' \<Longrightarrow> distinct (map key rows) \<Longrightarrow> distinct (map key rows')"
  by (auto simp: tbl_insert_def split: if_splits)

lemma tbl_find_simps [simp]:
  "tbl_find P [] = None"
  "tbl_find P (r # rows) = (if P r then Some r else tbl_find P rows)"
  by (simp_all add: tbl_find_def)

lemma tbl_find_append:
  "tbl_find P (xs @ ys) = (case tbl_find P xs of Some r \<Rightarrow> Some r | None \<Rightarrow> tbl_find P ys)"
  by (induction xs) auto

lemma tbl_find_SomeD: "tbl_find P rows = Some r \<Longrightarrow> r \<in> set rows \<and> P r"
  by (induction rows) (auto split: if_splits)

lemma tbl_find_None_iff: "tbl_find P rows = None \<longleftrightarrow> (\<forall>r \<in> set rows. \<not> P r)"
  by (induction rows) auto

lemma tbl_find_Some_of_mem: "r \<in> set rows \<Longrightarrow> P r \<Longrightarrow> \<exists>r'. tbl_find P rows = Some r'"
  by (induction rows) auto

lemma tbl_find_unique:
  "distinct (map key rows) \<Longrightarrow> r \<in> set rows \<Longrightarrow> tbl_find (\<lambda>x. key x = key r) rows = Some r"
  by (induction rows) (auto simp: rev_image_eqI)

lemma tbl_update_simps [simp]:
  "tbl_update P f [] = []"
  "tbl_update P f (r # rows) = (if P r then f r else r) # tbl_update P f rows"
  by (simp_all add: tbl_update_def)

lemma tbl_update_append [simp]:
  "tbl_update P f (xs @ ys) = tbl_update P f xs @ tbl_update P f ys"
  by (simp add: tbl_update_def)

lemma length_tbl_update [simp]: "length (tbl_update P f rows) = length rows"
  by (simp add: tbl_update_def)

lemma set_tbl_update: "set (tbl_update P f rows) = (\<lambda>r. if P r then f r else r) ` set rows"
  by (simp add: tbl_update_def)

lemma tbl_update_none: "\<forall>r \<in> set rows. \<not> P r \<Longrightarrow> tbl_update P f rows = rows"
  by (induction rows) auto

lemma in_tbl_updateE:
  assumes "r \<in> set (tbl_update P f rows)"
  obtains (old) "r \<in> set rows" "\<not> P r" | (new) r0 where "r0 \<in> set rows" "P r0" "r = f r0"
  using assms by (auto simp: set_tbl_update split: if_splits)

lemma map_tbl_update_same: "(\<And>r. g (f r) = g r) \<Longrightarrow> map g (tbl_update P f rows) = map g rows"
  by (simp add: tbl_update_def)

lemma filter_tbl_update_other:
  "(\<And>r. r \<in> set rows \<Longrightarrow> P r \<Longrightarrow> \<not> Q r \<and> \<not> Q (f r)) \<Longrightarrow> filter Q (tbl_update P f rows) = filter Q rows"
  by (induction rows) auto

lemma sorted_order_asc: "sorted (map k (order_asc k rows))"
  by (simp add: order_asc_def)

lemma set_order_asc [simp]: "set (order_asc k rows) = set rows"
  by (simp add: order_asc_def)

lemma set_order_desc [simp]: "set (order_desc k rows) = set rows"
  by (simp add: order_desc_def)

lemma length_order [simp]:
  "length (order_asc k rows) = length rows" "length (order_desc k rows) = length rows"
  by (simp_all add: order_asc_def order_desc_def)

lemma order_asc_sorted: "sorted (map k rows) \<Longrightarrow> order_asc k rows = rows"
  by (simp add: order_asc_def sort_key_id_if_sorted)

lemma sort_key_head_min:
  assumes "sort_key f xs = x # ys" "y \<in> set xs"
  shows "f x \<le> f y"
proof -
  have "sorted (map f (x # ys))" unfolding assms(1) [symmetric] by (rule sorted_sort_key)
  moreover have "y \<in> set (x # ys)" using assms(2) unfolding assms(1) [symmetric] by simp
  ultimately show ?thesis by auto
qed

lemma order_desc_head_max:
  assumes "order_desc k rows = r # rest" "x \<in> set rows"
  shows "k x \<le> k r"
proof -
  have "sorted (map (\<lambda>y. - k y) (r # rest))"
    using sorted_sort_key [of "\<lambda>y. - k y" rows]
    unfolding assms(1) [unfolded order_desc_def] .
  moreover have "x \<in> set (r # rest)"
    using assms(2) set_order_desc [of k rows] unfolding assms(1) by simp
  ultimately show ?thesis by auto
qed

text \<open>An UPDATE statement whose SET clause does not write the primary key.\<close>

locale keyed_update =
  fixes key :: "'row \<Rightarrow> 'k" and upd :: "'row \<Rightarrow> 'row"
  assumes key_upd: "key (upd r) = key r"
begin

lemma keys_kept: "map key (tbl_update P upd rows) = map key rows"
  by (rule map_tbl_update_same) (rule key_upd)

lemma distinct_kept: "distinct (map key rows) \<Longrightarrow> distinct (map key (tbl_update P upd rows))"
  by (simp add: keys_kept)

lemma find_updated:
  "tbl_find (\<lambda>r. key r = k) (tbl_update (\<lambda>r. key r = k) upd rows)
     = map_option upd (tbl_find (\<lambda>r. key r = k) rows)"
  by (induction rows) (auto simp: key_upd)

lemma find_other:
  "k' \<noteq> k \<Longrightarrow> tbl_find (\<lambda>r. key r = k') (tbl_update (\<lambda>r. key r = k) upd rows)
     = tbl_find (\<lambda>r. key r = k') rows"
  by (induction rows) (auto simp: key_upd)

end

section \<open>Strings, maps and sets of the language\<close>

text \<open>\<open>toLowerCase()\<close> on ASCII text.\<close>

definition lower_char :: "char \<Rightarrow> char" where
  "lower_char c = (let n = (of_char c :: nat) in if 65 \<le> n \<and> n \<le> 90 then char_of (n + 32) else c)"

definition to_lower :: "string \<Rightarrow> string" where
  "to_lower s = map lower_char s"

text \<open>\<open>toUpperCase()\<close> on ASCII text.\<close>

definition upper_char :: "char \<Rightarrow> char" where
  "upper_char c = (let n = (of_char c :: nat) in if 97 \<le> n \<and> n \<le> 122 then char_of (n - 32) else c)"

definition to_upper :: "string \<Rightarrow> string" where
  "to_upper s = map upper_char s"

definition join :: "string \<Rightarrow> string list \<Rightarrow> string" where
  "join sep xs = (case xs of [] \<Rightarrow> [] | y # ys \<Rightarrow> y @ concat (map (\<lambda>z. sep @ z) ys))"

text \<open>A \<open>Map\<close>: the entries in insertion order; \<open>set\<close> keeps the place of an existing key.\<close>

fun js_map_set :: "'k \<Rightarrow> 'v \<Rightarrow> ('k \<times> 'v) list \<Rightarrow> ('k \<times> 'v) list" where
  "js_map_set k v [] = [(k, v)]"
| "js_map_set k v ((k', v') # xs) = (if k' = k then (k, v) # xs else (k', v') # js_map_set k v xs)"

definition js_map_delete :: "'k \<Rightarrow> ('k \<times> 'v) list \<Rightarrow> ('k \<times> 'v) list" where
  "js_map_delete k xs = filter (\<lambda>(k', _). k' \<noteq> k) xs"

definition js_set_add :: "'a \<Rightarrow> 'a list \<Rightarrow> 'a list" where
  "js_set_add x xs = (if x \<in> set xs then xs else xs @ [x])"

lemma map_of_js_map_set [simp]: "map_of (js_map_set k v xs) = (map_of xs)(k \<mapsto> v)"
  by (induction xs) auto

lemma map_of_js_map_delete [simp]: "map_of (js_map_delete k xs) = (map_of xs)(k := None)"
  by (induction xs) (auto simp: js_map_delete_def fun_eq_iff)

lemma set_js_map_set_subset: "set (js_map_set k v xs) \<subseteq> insert (k, v) (set xs)"
proof (induction xs)
  case (Cons x xs)
  then show ?case by (cases x) auto
qed simp

lemma js_map_set_ball: "\<forall>p \<in> set xs. P p \<Longrightarrow> P (k, v) \<Longrightarrow> \<forall>p \<in> set (js_map_set k v xs). P p"
  using set_js_map_set_subset [of k v xs] by blast

lemma fst_js_map_set: "fst ` set (js_map_set k v xs) = insert k (fst ` set xs)"
  by (simp flip: dom_map_of_conv_image_fst)

lemma distinct_js_map_set: "distinct (map fst xs) \<Longrightarrow> distinct (map fst (js_map_set k v xs))"
proof (induction xs)
  case (Cons x xs)
  then show ?case using fst_js_map_set [of k v xs] by (cases x) auto
qed simp

lemma distinct_js_map_delete: "distinct (map fst xs) \<Longrightarrow> distinct (map fst (js_map_delete k xs))"
  by (simp add: js_map_delete_def distinct_map_filter)

lemma set_js_set_add [simp]: "set (js_set_add x xs) = insert x (set xs)"
  by (auto simp: js_set_add_def)

lemma distinct_js_set_add: "distinct xs \<Longrightarrow> distinct (js_set_add x xs)"
  by (simp add: js_set_add_def)

section \<open>State and errors\<close>

text \<open>
  A method that may throw: the state it leaves behind, with the error or the value.  What it did
  before it threw stays done.  \<open>andThen\<close> is \<open>await\<close>: the rest runs only after a value.
\<close>

definition andThen :: "'s \<times> ('e + 'a) \<Rightarrow> ('s \<Rightarrow> 'a \<Rightarrow> 's \<times> ('e + 'b)) \<Rightarrow> 's \<times> ('e + 'b)" where
  "andThen m k = (case m of (s, Inl x) \<Rightarrow> (s, Inl x) | (s, Inr v) \<Rightarrow> k s v)"

lemma andThen_simps [simp]:
  "andThen (s, Inl x) k = (s, Inl x)"
  "andThen (s, Inr v) k = k s v"
  by (simp_all add: andThen_def)

lemma andThenE:
  assumes "andThen m k = (s', r)"
  obtains (thrown) x where "m = (s', Inl x)" "r = Inl x"
    | (went_on) s v where "m = (s, Inr v)" "k s v = (s', r)"
  using assms by (cases m; cases "snd m") (auto simp: andThen_def)

lemma andThen_inv:
  assumes "P (fst m)" "\<And>s v. m = (s, Inr v) \<Longrightarrow> P s \<Longrightarrow> P (fst (k s v))"
  shows "P (fst (andThen m k))"
  using assms by (cases m; cases "snd m") (auto simp: andThen_def)

section \<open>Machines\<close>

text \<open>
  A component with a state and operations.  Running a list of operations keeps every invariant
  the single operations keep, and relates the ends by every preorder the single steps respect.
\<close>

locale op_machine =
  fixes step :: "'op \<Rightarrow> 's \<Rightarrow> 's" and inv :: "'s \<Rightarrow> bool"
  assumes inv_step: "inv s \<Longrightarrow> inv (step op s)"
begin

lemma inv_run: "inv s \<Longrightarrow> inv (fold step ops s)"
  by (induction ops arbitrary: s) (auto intro: inv_step)

end

locale ordered_machine = op_machine step inv
  for step :: "'op \<Rightarrow> 's \<Rightarrow> 's" and inv :: "'s \<Rightarrow> bool" +
  fixes le :: "'s \<Rightarrow> 's \<Rightarrow> bool"
  assumes le_refl: "le s s"
    and le_trans: "le s t \<Longrightarrow> le t u \<Longrightarrow> le s u"
    and le_step: "inv s \<Longrightarrow> le s (step op s)"
begin

lemma le_run: "inv s \<Longrightarrow> le s (fold step ops s)"
proof (induction ops arbitrary: s)
  case Nil
  then show ?case by (simp add: le_refl)
next
  case (Cons op ops)
  from Cons.prems have "inv (step op s)" by (rule inv_step)
  with Cons.IH have "le (step op s) (fold step ops (step op s))" by blast
  with Cons.prems show ?case by (auto intro: le_trans le_step)
qed

end

end
