(* ===== verification/Job_Queue.thy ===== *)
theory Job_Queue
  imports Gateway_Prelude "HOL-Library.Sublist"
begin

text \<open>
  The durable job queue of the worker (\<open>packages/worker/src/job-queue.ts\<close>): the jobs table, one
  function per statement, and the claim-and-process cycle.  A handler is a function on a state of
  its own (the world the job acts on); \<open>FOR UPDATE SKIP LOCKED\<close> is the parameter \<open>skip\<close>, the
  rows another transaction holds at that moment.
\<close>

datatype job_status = J_PENDING | J_RUNNING | J_SUCCEEDED | J_FAILED | J_DEAD_LETTERED

record job =
  jb_id :: string
  jb_queue :: string
  jb_type :: string
  jb_payload :: payload
  jb_key :: string
  jb_status :: job_status
  jb_attempt_count :: int
  jb_max_attempts :: int
  jb_run_at :: int
  jb_locked_at :: "int option"
  jb_locked_by :: "string option"
  jb_last_error :: "string option"
  jb_created_at :: int
  jb_updated_at :: int
  jb_completed_at :: "int option"

definition DEFAULT_QUEUE :: string where
  "DEFAULT_QUEUE = ''default''"

record queue_options =
  qo_worker_id :: string
  qo_concurrency :: nat
  qo_default_max_attempts :: int
  qo_backoff_base_ms :: int
  qo_backoff_max_ms :: int
  qo_visibility_timeout_ms :: int

record enqueue_request =
  er_type :: string
  er_payload :: payload
  er_key :: string
  er_queue :: "string option"
  er_max_attempts :: "int option"
  er_delay_ms :: "int option"

text \<open>What a handler can throw: an Error with its name and message, or any other value.\<close>

datatype js_error = JsError string string | JsThrown string

fun describe_error :: "js_error \<Rightarrow> string" where
  "describe_error (JsError name msg) = name @ '': '' @ msg"
| "describe_error (JsThrown txt) = txt"

definition computeBackoffMs :: "int \<Rightarrow> int \<Rightarrow> int \<Rightarrow> rat \<Rightarrow> int" where
  "computeBackoffMs attempt baseMs maxMs rnd =
     (let exponential = min maxMs (baseMs * 2 ^ nat (max 0 (attempt - 1)));
          half = max 1 (exponential div 2)
      in half + \<lfloor>rnd * of_int half\<rfloor>)"

definition mapJobRow :: "job \<Rightarrow> job" where
  "mapJobRow r = r\<lparr> jb_last_error := truthy_str (jb_last_error r) \<rparr>"

section \<open>Handler registry\<close>

definition registerHandler :: "string \<Rightarrow> 'h \<Rightarrow> (string \<times> 'h) list \<Rightarrow> js_error + (string \<times> 'h) list" where
  "registerHandler jobType h hs =
     (if jobType \<in> fst ` set hs
      then Inl (JsError ''Error'' (''Handler already registered for job type '' @ jobType))
      else Inr (hs @ [(jobType, h)]))"

definition getRegisteredJobTypes :: "(string \<times> 'h) list \<Rightarrow> string list" where
  "getRegisteredJobTypes hs = map fst hs"

section \<open>Statements\<close>

definition new_job :: "queue_options \<Rightarrow> int \<Rightarrow> string \<Rightarrow> enqueue_request \<Rightarrow> job" where
  "new_job opts now i r = \<lparr>
     jb_id = i,
     jb_queue = (case er_queue r of None \<Rightarrow> DEFAULT_QUEUE | Some q \<Rightarrow> q),
     jb_type = er_type r, jb_payload = er_payload r, jb_key = er_key r,
     jb_status = J_PENDING, jb_attempt_count = 0,
     jb_max_attempts = (case er_max_attempts r of None \<Rightarrow> qo_default_max_attempts opts | Some n \<Rightarrow> n),
     jb_run_at = now + (case er_delay_ms r of None \<Rightarrow> 0 | Some d \<Rightarrow> d),
     jb_locked_at = None, jb_locked_by = None, jb_last_error = None,
     jb_created_at = now, jb_updated_at = now, jb_completed_at = None \<rparr>"

text \<open>
  \<open>ON CONFLICT (idempotency_key) DO NOTHING\<close>.  The identifier \<open>i\<close> is the column's default,
  drawn by the database.  A value too long for its column raises.
\<close>

definition enqueue ::
    "queue_options \<Rightarrow> int \<Rightarrow> string \<Rightarrow> enqueue_request \<Rightarrow> job list \<Rightarrow> job list \<times> (js_error + bool)" where
  "enqueue opts now i r jobs =
     (let row = new_job opts now i r in
      if \<not> (fits 64 (jb_queue row) \<and> fits 64 (jb_type row) \<and> fits 255 (jb_key row))
      then (jobs, Inl (JsError ''error'' ''value too long''))
      else if jb_key row \<in> set (map jb_key jobs) then (jobs, Inr False)
      else case tbl_insert jb_id row jobs of
             None \<Rightarrow> (jobs, Inl (JsError ''error'' ''duplicate key''))
           | Some jobs' \<Rightarrow> (jobs', Inr True))"

definition claim_row :: "string \<Rightarrow> int \<Rightarrow> job \<Rightarrow> job" where
  "claim_row worker now j = j\<lparr> jb_status := J_RUNNING, jb_locked_at := Some now,
     jb_locked_by := Some worker, jb_attempt_count := jb_attempt_count j + 1, jb_updated_at := now \<rparr>"

definition claimable :: "int \<Rightarrow> string \<Rightarrow> (string \<Rightarrow> bool) \<Rightarrow> job \<Rightarrow> bool" where
  "claimable now q skip j =
     (jb_queue j = q \<and> jb_status j = J_PENDING \<and> jb_run_at j \<le> now \<and> \<not> skip (jb_id j))"

definition claim_selection :: "int \<Rightarrow> string \<Rightarrow> (string \<Rightarrow> bool) \<Rightarrow> nat \<Rightarrow> job list \<Rightarrow> job list" where
  "claim_selection now q skip limit jobs =
     take limit (order_asc jb_run_at (filter (claimable now q skip) jobs))"

definition claimBatch ::
    "queue_options \<Rightarrow> int \<Rightarrow> (string \<Rightarrow> bool) \<Rightarrow> nat \<Rightarrow> string \<Rightarrow> job list \<Rightarrow> job list \<times> job list" where
  "claimBatch opts now skip limit q jobs =
     (let claimed = claim_selection now q skip limit jobs
      in (tbl_update (\<lambda>j. jb_id j \<in> set (map jb_id claimed)) (claim_row (qo_worker_id opts) now) jobs,
          map (\<lambda>j. mapJobRow (claim_row (qo_worker_id opts) now j)) claimed))"

definition complete_row :: "int \<Rightarrow> job \<Rightarrow> job" where
  "complete_row now j = j\<lparr> jb_status := J_SUCCEEDED, jb_completed_at := Some now, jb_updated_at := now,
     jb_locked_at := None, jb_locked_by := None, jb_last_error := None \<rparr>"

definition complete :: "int \<Rightarrow> string \<Rightarrow> job list \<Rightarrow> job list" where
  "complete now i jobs = tbl_update (\<lambda>j. jb_id j = i) (complete_row now) jobs"

definition dead_row :: "int \<Rightarrow> string \<Rightarrow> job \<Rightarrow> job" where
  "dead_row now err j = j\<lparr> jb_status := J_DEAD_LETTERED, jb_completed_at := Some now,
     jb_updated_at := now, jb_locked_at := None, jb_locked_by := None, jb_last_error := Some err \<rparr>"

definition retry_row :: "int \<Rightarrow> int \<Rightarrow> string \<Rightarrow> job \<Rightarrow> job" where
  "retry_row now delay err j = j\<lparr> jb_status := J_PENDING, jb_run_at := now + delay,
     jb_updated_at := now, jb_locked_at := None, jb_locked_by := None, jb_last_error := Some err \<rparr>"

datatype fail_result = Retry | DeadLetter

definition fail ::
    "queue_options \<Rightarrow> int \<Rightarrow> rat \<Rightarrow> job \<Rightarrow> js_error \<Rightarrow> int option \<Rightarrow> job list \<Rightarrow> job list \<times> fail_result" where
  "fail opts now rnd j err delayMs jobs =
     (let truncated = take 2000 (describe_error err) in
      if jb_max_attempts j \<le> jb_attempt_count j
      then (tbl_update (\<lambda>r. jb_id r = jb_id j) (dead_row now truncated) jobs, DeadLetter)
      else
        let delay = (case delayMs of Some d \<Rightarrow> d
              | None \<Rightarrow> computeBackoffMs (jb_attempt_count j) (qo_backoff_base_ms opts) (qo_backoff_max_ms opts) rnd)
        in (tbl_update (\<lambda>r. jb_id r = jb_id j) (retry_row now delay truncated) jobs, Retry))"

definition stale :: "queue_options \<Rightarrow> int \<Rightarrow> job \<Rightarrow> bool" where
  "stale opts now j = (jb_status j = J_RUNNING
     \<and> (case jb_locked_at j of None \<Rightarrow> False | Some t \<Rightarrow> t < now - qo_visibility_timeout_ms opts))"

definition reclaim_row :: "int \<Rightarrow> job \<Rightarrow> job" where
  "reclaim_row now j = j\<lparr> jb_status := J_PENDING, jb_run_at := now, jb_updated_at := now,
     jb_locked_at := None, jb_locked_by := None,
     jb_last_error := Some ((case jb_last_error j of None \<Rightarrow> '''' | Some x \<Rightarrow> x @ '' | '')
        @ ''reclaimed after visibility timeout'') \<rparr>"

definition reclaimStale :: "queue_options \<Rightarrow> int \<Rightarrow> job list \<Rightarrow> job list \<times> nat" where
  "reclaimStale opts now jobs =
     (tbl_update (stale opts now) (reclaim_row now) jobs, length (filter (stale opts now) jobs))"

section \<open>The processing cycle\<close>

type_synonym 's handler = "job \<Rightarrow> 's \<Rightarrow> 's \<times> (js_error + unit)"

definition process_job ::
    "queue_options \<Rightarrow> int \<Rightarrow> (string \<Rightarrow> rat) \<Rightarrow> (string \<times> 's handler) list \<Rightarrow> job
       \<Rightarrow> job list \<times> 's \<Rightarrow> job list \<times> 's" where
  "process_job opts now rnd handlers j = (\<lambda>(jobs, s).
     case map_of handlers (jb_type j) of
       None \<Rightarrow> (fst (fail opts now (rnd (jb_id j)) (j\<lparr> jb_attempt_count := jb_max_attempts j \<rparr>)
                  (JsError ''JobHandlerMissingError'' (''No handler registered for job type '' @ jb_type j))
                  None jobs), s)
     | Some handler \<Rightarrow>
         (case handler j s of
            (s', Inr _) \<Rightarrow> (complete now (jb_id j) jobs, s')
          | (s', Inl err) \<Rightarrow> (fst (fail opts now (rnd (jb_id j)) j err None jobs), s')))"

definition runOnce ::
    "queue_options \<Rightarrow> int \<Rightarrow> (string \<Rightarrow> rat) \<Rightarrow> (string \<Rightarrow> bool) \<Rightarrow> (string \<times> 's handler) list \<Rightarrow> string
       \<Rightarrow> job list \<times> 's \<Rightarrow> (job list \<times> 's) \<times> nat" where
  "runOnce opts now rnd skip handlers q = (\<lambda>(jobs, s).
     let (jobs', batch) = claimBatch opts now skip (qo_concurrency opts) q jobs
     in (fold (process_job opts now rnd handlers) batch (jobs', s), length batch))"

text \<open>
  \<open>run\<close>: one entry per turn of the polling loop, with its instant, its random numbers, the rows
  locked elsewhere, and whether the signal is found aborted at the check before the sleep.
\<close>

record cycle =
  cy_now :: int
  cy_rnd :: "string \<Rightarrow> rat"
  cy_skip :: "string \<Rightarrow> bool"
  cy_aborted :: bool

fun run :: "queue_options \<Rightarrow> (string \<times> 's handler) list \<Rightarrow> string \<Rightarrow> cycle list \<Rightarrow> job list \<times> 's \<Rightarrow> job list \<times> 's" where
  "run opts handlers q [] w = w"
| "run opts handlers q (c # cs) (jobs, s) =
     (let jobs1 = fst (reclaimStale opts (cy_now c) jobs);
          w' = fst (runOnce opts (cy_now c) (cy_rnd c) (cy_skip c) handlers q (jobs1, s))
      in if cy_aborted c then w' else run opts handlers q cs w')"

record queue_stats =
  qs_pending :: nat
  qs_running :: nat
  qs_succeeded :: nat
  qs_dead_lettered :: nat

definition stats :: "job list \<Rightarrow> queue_stats" where
  "stats jobs = (let c = (\<lambda>s. length (filter (\<lambda>j. jb_status j = s) jobs)) in
     \<lparr> qs_pending = c J_PENDING + c J_FAILED, qs_running = c J_RUNNING,
       qs_succeeded = c J_SUCCEEDED, qs_dead_lettered = c J_DEAD_LETTERED \<rparr>)"

definition deadLetters :: "nat \<Rightarrow> job list \<Rightarrow> job list" where
  "deadLetters limit jobs = map mapJobRow (take limit
     (order_desc jb_created_at (filter (\<lambda>j. jb_status j = J_DEAD_LETTERED) jobs)))"

section \<open>Row facts\<close>

lemma claim_row_simps [simp]:
  "jb_id (claim_row w now j) = jb_id j" "jb_key (claim_row w now j) = jb_key j"
  "jb_status (claim_row w now j) = J_RUNNING" "jb_attempt_count (claim_row w now j) = jb_attempt_count j + 1"
  "jb_max_attempts (claim_row w now j) = jb_max_attempts j" "jb_locked_at (claim_row w now j) = Some now"
  "jb_locked_by (claim_row w now j) = Some w" "jb_queue (claim_row w now j) = jb_queue j"
  by (simp_all add: claim_row_def)

lemma complete_row_simps [simp]:
  "jb_id (complete_row now j) = jb_id j" "jb_key (complete_row now j) = jb_key j"
  "jb_status (complete_row now j) = J_SUCCEEDED" "jb_attempt_count (complete_row now j) = jb_attempt_count j"
  "jb_max_attempts (complete_row now j) = jb_max_attempts j" "jb_locked_at (complete_row now j) = None"
  "jb_locked_by (complete_row now j) = None"
  by (simp_all add: complete_row_def)

lemma dead_row_simps [simp]:
  "jb_id (dead_row now x j) = jb_id j" "jb_key (dead_row now x j) = jb_key j"
  "jb_status (dead_row now x j) = J_DEAD_LETTERED" "jb_attempt_count (dead_row now x j) = jb_attempt_count j"
  "jb_max_attempts (dead_row now x j) = jb_max_attempts j" "jb_locked_at (dead_row now x j) = None"
  "jb_locked_by (dead_row now x j) = None"
  by (simp_all add: dead_row_def)

lemma retry_row_simps [simp]:
  "jb_id (retry_row now d x j) = jb_id j" "jb_key (retry_row now d x j) = jb_key j"
  "jb_status (retry_row now d x j) = J_PENDING" "jb_attempt_count (retry_row now d x j) = jb_attempt_count j"
  "jb_max_attempts (retry_row now d x j) = jb_max_attempts j" "jb_locked_at (retry_row now d x j) = None"
  "jb_locked_by (retry_row now d x j) = None" "jb_run_at (retry_row now d x j) = now + d"
  by (simp_all add: retry_row_def)

lemma reclaim_row_simps [simp]:
  "jb_id (reclaim_row now j) = jb_id j" "jb_key (reclaim_row now j) = jb_key j"
  "jb_status (reclaim_row now j) = J_PENDING" "jb_attempt_count (reclaim_row now j) = jb_attempt_count j"
  "jb_max_attempts (reclaim_row now j) = jb_max_attempts j" "jb_locked_at (reclaim_row now j) = None"
  "jb_locked_by (reclaim_row now j) = None"
  by (simp_all add: reclaim_row_def)

lemma mapJobRow_simps [simp]:
  "jb_id (mapJobRow j) = jb_id j" "jb_type (mapJobRow j) = jb_type j" "jb_payload (mapJobRow j) = jb_payload j"
  "jb_attempt_count (mapJobRow j) = jb_attempt_count j" "jb_max_attempts (mapJobRow j) = jb_max_attempts j"
  "jb_status (mapJobRow j) = jb_status j"
  by (simp_all add: mapJobRow_def)

text \<open>No statement writes the primary key or the idempotency key.\<close>

interpretation jc: keyed_update jb_id "claim_row w now" for w now by unfold_locales simp
interpretation jd: keyed_update jb_id "complete_row now" for now by unfold_locales simp
interpretation jl: keyed_update jb_id "dead_row now x" for now x by unfold_locales simp
interpretation jr: keyed_update jb_id "retry_row now d x" for now d x by unfold_locales simp
interpretation js: keyed_update jb_id "reclaim_row now" for now by unfold_locales simp
interpretation kc: keyed_update jb_key "claim_row w now" for w now by unfold_locales simp
interpretation kd: keyed_update jb_key "complete_row now" for now by unfold_locales simp
interpretation kl: keyed_update jb_key "dead_row now x" for now x by unfold_locales simp
interpretation kr: keyed_update jb_key "retry_row now d x" for now d x by unfold_locales simp
interpretation ks: keyed_update jb_key "reclaim_row now" for now by unfold_locales simp

lemmas job_keys_kept = jc.keys_kept jd.keys_kept jl.keys_kept jr.keys_kept js.keys_kept
  kc.keys_kept kd.keys_kept kl.keys_kept kr.keys_kept ks.keys_kept

section \<open>The queue as a machine\<close>

definition lock_ok :: "job \<Rightarrow> bool" where
  "lock_ok j = (if jb_status j = J_RUNNING then jb_locked_at j \<noteq> None \<and> jb_locked_by j \<noteq> None
               else jb_locked_at j = None \<and> jb_locked_by j = None)"

definition jobs_ok :: "job list \<Rightarrow> bool" where
  "jobs_ok jobs = (distinct (map jb_id jobs) \<and> distinct (map jb_key jobs) \<and> list_all lock_ok jobs)"

datatype queue_op =
    Q_enqueue queue_options int string enqueue_request
  | Q_claim queue_options int "string \<Rightarrow> bool" nat string
  | Q_complete int string
  | Q_fail queue_options int rat job js_error "int option"
  | Q_reclaim queue_options int

fun queue_step :: "queue_op \<Rightarrow> job list \<Rightarrow> job list" where
  "queue_step (Q_enqueue opts now i r) jobs = fst (enqueue opts now i r jobs)"
| "queue_step (Q_claim opts now skip limit q) jobs = fst (claimBatch opts now skip limit q jobs)"
| "queue_step (Q_complete now i) jobs = complete now i jobs"
| "queue_step (Q_fail opts now rnd j x d) jobs = fst (fail opts now rnd j x d jobs)"
| "queue_step (Q_reclaim opts now) jobs = fst (reclaimStale opts now jobs)"

lemma enqueue_ok: "jobs_ok jobs \<Longrightarrow> jobs_ok (fst (enqueue opts now i r jobs))"
  by (auto simp: enqueue_def Let_def jobs_ok_def tbl_insert_def lock_ok_def new_job_def)

lemma claimBatch_ok: "jobs_ok jobs \<Longrightarrow> jobs_ok (fst (claimBatch opts now skip limit q jobs))"
  by (auto simp: claimBatch_def Let_def jobs_ok_def job_keys_kept list_all_iff set_tbl_update lock_ok_def)

lemma complete_ok: "jobs_ok jobs \<Longrightarrow> jobs_ok (complete now i jobs)"
  by (auto simp: complete_def jobs_ok_def job_keys_kept list_all_iff set_tbl_update lock_ok_def)

lemma fail_ok: "jobs_ok jobs \<Longrightarrow> jobs_ok (fst (fail opts now rnd j x d jobs))"
  by (auto simp: fail_def Let_def jobs_ok_def job_keys_kept list_all_iff set_tbl_update lock_ok_def)

lemma reclaimStale_ok: "jobs_ok jobs \<Longrightarrow> jobs_ok (fst (reclaimStale opts now jobs))"
  by (auto simp: reclaimStale_def jobs_ok_def job_keys_kept list_all_iff set_tbl_update lock_ok_def)

text \<open>A job is never lost: its identifier, key and place stay, whatever happens to its status.\<close>

definition jobs_le :: "job list \<Rightarrow> job list \<Rightarrow> bool" where
  "jobs_le a b = (prefix (map jb_id a) (map jb_id b) \<and> prefix (map jb_key a) (map jb_key b))"

interpretation jq: ordered_machine queue_step jobs_ok jobs_le
proof
  show "jobs_ok (queue_step op jobs)" if "jobs_ok jobs" for op jobs
    using that by (cases op) (simp_all add: enqueue_ok claimBatch_ok complete_ok fail_ok reclaimStale_ok)
  show "jobs_le a a" for a by (simp add: jobs_le_def)
  show "jobs_le a b \<Longrightarrow> jobs_le b c \<Longrightarrow> jobs_le a c" for a b c
    by (auto simp: jobs_le_def intro: prefix_order.order_trans)
  show "jobs_le jobs (queue_step op jobs)" if "jobs_ok jobs" for op jobs
    by (cases op) (auto simp: jobs_le_def enqueue_def claimBatch_def complete_def fail_def reclaimStale_def
        Let_def tbl_insert_def job_keys_kept)
qed

end
