(* ===== verification/Intent_Types.thy ===== *)
theory Intent_Types
  imports Gateway_Prelude
begin

text \<open>
  The intent state machine of \<open>packages/shared/src/types/payment-intent.ts\<close>: its states, the
  transition table, the event types, the state an event leads to, and what the table allows as a
  graph: which states are final, what every path to a settlement has passed through.
\<close>

datatype intent_state =
    CREATED | QUOTED | AWAITING_PAYMENT | DETECTED | CONFIRMING | ROUTING | SETTLING | SETTLED
  | UNDERPAID | OVERPAID | MISDIRECTED | EXPIRED | REFUNDING | FAILED

fun VALID_TRANSITIONS :: "intent_state \<Rightarrow> intent_state list" where
  "VALID_TRANSITIONS CREATED = [QUOTED, EXPIRED, FAILED]"
| "VALID_TRANSITIONS QUOTED = [AWAITING_PAYMENT, EXPIRED, FAILED]"
| "VALID_TRANSITIONS AWAITING_PAYMENT = [DETECTED, EXPIRED, FAILED]"
| "VALID_TRANSITIONS DETECTED = [CONFIRMING, UNDERPAID, OVERPAID, MISDIRECTED]"
| "VALID_TRANSITIONS CONFIRMING = [ROUTING, FAILED]"
| "VALID_TRANSITIONS ROUTING = [SETTLING, FAILED]"
| "VALID_TRANSITIONS SETTLING = [SETTLED, FAILED]"
| "VALID_TRANSITIONS SETTLED = []"
| "VALID_TRANSITIONS UNDERPAID = [AWAITING_PAYMENT, REFUNDING, FAILED]"
| "VALID_TRANSITIONS OVERPAID = [SETTLING, REFUNDING, FAILED]"
| "VALID_TRANSITIONS MISDIRECTED = [REFUNDING, FAILED]"
| "VALID_TRANSITIONS EXPIRED = []"
| "VALID_TRANSITIONS REFUNDING = [SETTLED, FAILED]"
| "VALID_TRANSITIONS FAILED = []"

definition isValidTransition :: "('s \<Rightarrow> 's list) \<Rightarrow> 's \<Rightarrow> 's \<Rightarrow> bool" where
  "isValidTransition table from_s to_s = (to_s \<in> set (table from_s))"

datatype event_type =
    INTENT_CREATED | QUOTE_GENERATED | PAYMENT_AWAITED | QUOTE_EXPIRED | DEPOSIT_DETECTED
  | CONFIRMATION_RECEIVED | ROUTE_SELECTED | SETTLEMENT_INITIATED | SETTLEMENT_CONFIRMED
  | UNDERPAYMENT_DETECTED | OVERPAYMENT_DETECTED | MISDIRECTED_PAYMENT | REFUND_INITIATED
  | REFUND_CONFIRMED | EV_FAILED

fun getExpectedNextState :: "event_type \<Rightarrow> intent_state" where
  "getExpectedNextState INTENT_CREATED = CREATED"
| "getExpectedNextState QUOTE_GENERATED = QUOTED"
| "getExpectedNextState PAYMENT_AWAITED = AWAITING_PAYMENT"
| "getExpectedNextState QUOTE_EXPIRED = EXPIRED"
| "getExpectedNextState DEPOSIT_DETECTED = DETECTED"
| "getExpectedNextState CONFIRMATION_RECEIVED = CONFIRMING"
| "getExpectedNextState ROUTE_SELECTED = ROUTING"
| "getExpectedNextState SETTLEMENT_INITIATED = SETTLING"
| "getExpectedNextState SETTLEMENT_CONFIRMED = SETTLED"
| "getExpectedNextState UNDERPAYMENT_DETECTED = UNDERPAID"
| "getExpectedNextState OVERPAYMENT_DETECTED = OVERPAID"
| "getExpectedNextState MISDIRECTED_PAYMENT = MISDIRECTED"
| "getExpectedNextState REFUND_INITIATED = REFUNDING"
| "getExpectedNextState REFUND_CONFIRMED = SETTLED"
| "getExpectedNextState EV_FAILED = FAILED"

text \<open>The values are strings in the source; these are the texts that reach payloads and messages.\<close>

fun state_name :: "intent_state \<Rightarrow> string" where
  "state_name CREATED = ''CREATED''"
| "state_name QUOTED = ''QUOTED''"
| "state_name AWAITING_PAYMENT = ''AWAITING_PAYMENT''"
| "state_name DETECTED = ''DETECTED''"
| "state_name CONFIRMING = ''CONFIRMING''"
| "state_name ROUTING = ''ROUTING''"
| "state_name SETTLING = ''SETTLING''"
| "state_name SETTLED = ''SETTLED''"
| "state_name UNDERPAID = ''UNDERPAID''"
| "state_name OVERPAID = ''OVERPAID''"
| "state_name MISDIRECTED = ''MISDIRECTED''"
| "state_name EXPIRED = ''EXPIRED''"
| "state_name REFUNDING = ''REFUNDING''"
| "state_name FAILED = ''FAILED''"

fun event_name :: "event_type \<Rightarrow> string" where
  "event_name INTENT_CREATED = ''INTENT_CREATED''"
| "event_name QUOTE_GENERATED = ''QUOTE_GENERATED''"
| "event_name PAYMENT_AWAITED = ''PAYMENT_AWAITED''"
| "event_name QUOTE_EXPIRED = ''QUOTE_EXPIRED''"
| "event_name DEPOSIT_DETECTED = ''DEPOSIT_DETECTED''"
| "event_name CONFIRMATION_RECEIVED = ''CONFIRMATION_RECEIVED''"
| "event_name ROUTE_SELECTED = ''ROUTE_SELECTED''"
| "event_name SETTLEMENT_INITIATED = ''SETTLEMENT_INITIATED''"
| "event_name SETTLEMENT_CONFIRMED = ''SETTLEMENT_CONFIRMED''"
| "event_name UNDERPAYMENT_DETECTED = ''UNDERPAYMENT_DETECTED''"
| "event_name OVERPAYMENT_DETECTED = ''OVERPAYMENT_DETECTED''"
| "event_name MISDIRECTED_PAYMENT = ''MISDIRECTED_PAYMENT''"
| "event_name REFUND_INITIATED = ''REFUND_INITIATED''"
| "event_name REFUND_CONFIRMED = ''REFUND_CONFIRMED''"
| "event_name EV_FAILED = ''FAILED''"

instantiation intent_state :: enum
begin

definition enum_intent_state :: "intent_state list" where
  "enum_intent_state = [CREATED, QUOTED, AWAITING_PAYMENT, DETECTED, CONFIRMING, ROUTING, SETTLING,
     SETTLED, UNDERPAID, OVERPAID, MISDIRECTED, EXPIRED, REFUNDING, FAILED]"

definition enum_all_intent_state :: "(intent_state \<Rightarrow> bool) \<Rightarrow> bool" where
  "enum_all_intent_state P = list_all P enum_class.enum"

definition enum_ex_intent_state :: "(intent_state \<Rightarrow> bool) \<Rightarrow> bool" where
  "enum_ex_intent_state P = list_ex P enum_class.enum"

instance
proof
  show UNIV: "(UNIV :: intent_state set) = set enum_class.enum"
  proof (rule set_eqI)
    fix s :: intent_state
    show "s \<in> UNIV \<longleftrightarrow> s \<in> set enum_class.enum"
      by (cases s) (simp_all add: enum_intent_state_def)
  qed
  show "distinct (enum_class.enum :: intent_state list)"
    by (simp add: enum_intent_state_def)
  show "enum_class.enum_all P \<longleftrightarrow> Ball UNIV P" for P :: "intent_state \<Rightarrow> bool"
    by (simp add: enum_all_intent_state_def UNIV list_all_iff)
  show "enum_class.enum_ex P \<longleftrightarrow> Bex UNIV P" for P :: "intent_state \<Rightarrow> bool"
    by (simp add: enum_ex_intent_state_def UNIV list_ex_iff)
qed

end

section \<open>The table as a graph\<close>

abbreviation allowed :: "intent_state \<Rightarrow> intent_state \<Rightarrow> bool" where
  "allowed \<equiv> isValidTransition VALID_TRANSITIONS"

lemma allowed_iff: "allowed s t \<longleftrightarrow> t \<in> set (VALID_TRANSITIONS s)"
  by (simp add: isValidTransition_def)

definition is_final :: "intent_state \<Rightarrow> bool" where
  "is_final s = (VALID_TRANSITIONS s = [])"

lemma is_final_iff: "is_final s \<longleftrightarrow> s \<in> {SETTLED, EXPIRED, FAILED}"
  by (cases s) (simp_all add: is_final_def)

lemma allowed_not_created: "\<not> allowed s CREATED"
  by (cases s) (simp_all add: allowed_iff)

lemma final_stuck: "is_final s \<Longrightarrow> \<not> allowed s t"
  by (simp add: is_final_def allowed_iff)

text \<open>A path of the table that stays inside a set of states.\<close>

inductive path_in :: "intent_state set \<Rightarrow> intent_state \<Rightarrow> intent_state \<Rightarrow> bool"
  for A :: "intent_state set" where
  path_refl: "s \<in> A \<Longrightarrow> path_in A s s"
| path_step: "path_in A s t \<Longrightarrow> allowed t u \<Longrightarrow> u \<in> A \<Longrightarrow> path_in A s u"

inductive_cases path_inE: "path_in A s t"

text \<open>
  A path ends inside every set that contains its start and that the table does not leave (within
  \<open>A\<close>).  This is how the safety facts below are proved: name the closed set.
\<close>

lemma path_in_closed:
  assumes "path_in A s t" "s \<in> C"
    and "\<And>x y. x \<in> C \<Longrightarrow> allowed x y \<Longrightarrow> y \<in> A \<Longrightarrow> y \<in> C"
  shows "t \<in> C"
  using assms by (induction rule: path_in.induct) auto

lemma path_in_trans: "path_in A s t \<Longrightarrow> path_in A t u \<Longrightarrow> path_in A s u"
  by (rotate_tac, induction rule: path_in.induct) (auto intro: path_step)

section \<open>Replaying an event log\<close>

text \<open>
  The reference for the stored state: start in CREATED on the creation event, then follow the
  events, each of which must be allowed.
\<close>

primrec replay_from :: "intent_state \<Rightarrow> event_type list \<Rightarrow> intent_state option" where
  "replay_from s [] = Some s"
| "replay_from s (e # es) =
     (if allowed s (getExpectedNextState e) then replay_from (getExpectedNextState e) es else None)"

fun replay :: "event_type list \<Rightarrow> intent_state option" where
  "replay (INTENT_CREATED # es) = replay_from CREATED es"
| "replay _ = None"

lemma replay_from_append:
  "replay_from s (es @ fs) = (case replay_from s es of None \<Rightarrow> None | Some t \<Rightarrow> replay_from t fs)"
  by (induction es arbitrary: s) auto

lemma replay_snoc:
  assumes "replay es = Some s" "allowed s (getExpectedNextState e)"
  shows "replay (es @ [e]) = Some (getExpectedNextState e)"
  using assms by (cases es rule: replay.cases) (auto simp: replay_from_append)

lemma replay_from_path: "replay_from s es = Some t \<Longrightarrow> path_in UNIV s t"
proof (induction es arbitrary: t rule: rev_induct)
  case (snoc e es)
  then obtain u where "replay_from s es = Some u" "allowed u t"
    by (auto simp: replay_from_append split: option.splits if_splits)
  with snoc.IH show ?case by (auto intro: path_step)
qed (auto intro: path_refl)

text \<open>A log that leads to a state has recorded an event for every state no path can avoid.\<close>

lemma replay_from_avoid:
  "replay_from s es = Some t \<Longrightarrow> s \<in> A \<Longrightarrow> \<forall>e \<in> set es. getExpectedNextState e \<in> A
     \<Longrightarrow> path_in A s t"
proof (induction es arbitrary: t rule: rev_induct)
  case (snoc e es)
  then obtain u where "replay_from s es = Some u" "allowed u (getExpectedNextState e)"
      "t = getExpectedNextState e"
    by (auto simp: replay_from_append split: option.splits if_splits)
  with snoc show ?case by (auto intro: path_step)
qed (auto intro: path_refl)

lemma no_settlement_avoiding_deposit:
  assumes "path_in (- {DETECTED}) CREATED t"
  shows "t \<in> {CREATED, QUOTED, AWAITING_PAYMENT, EXPIRED, FAILED}"
proof (rule path_in_closed [OF assms])
  fix x y assume "x \<in> {CREATED, QUOTED, AWAITING_PAYMENT, EXPIRED, FAILED}" "allowed x y"
    "y \<in> - {DETECTED}"
  then show "y \<in> {CREATED, QUOTED, AWAITING_PAYMENT, EXPIRED, FAILED}"
    by (auto simp: allowed_iff)
qed simp

lemma next_detected_iff: "getExpectedNextState e = DETECTED \<longleftrightarrow> e = DEPOSIT_DETECTED"
  by (cases e) simp_all

lemma replay_deposit_recorded:
  assumes "replay es = Some t" "t \<notin> {CREATED, QUOTED, AWAITING_PAYMENT, EXPIRED, FAILED}"
  shows "DEPOSIT_DETECTED \<in> set es"
proof (rule ccontr)
  assume no: "DEPOSIT_DETECTED \<notin> set es"
  from assms(1) obtain fs where es: "es = INTENT_CREATED # fs" "replay_from CREATED fs = Some t"
    by (cases es rule: replay.cases) auto
  have "path_in (- {DETECTED}) CREATED t"
    by (rule replay_from_avoid [OF es(2)]) (use no es(1) in \<open>auto simp: next_detected_iff\<close>)
  then show False using no_settlement_avoiding_deposit assms(2) by blast
qed

section \<open>Rank of progress\<close>

text \<open>From every state some final state is reachable: no intent can get stuck by the table.\<close>

lemma path_to_final: "\<exists>t. is_final t \<and> path_in UNIV s t"
proof -
  have one: "allowed s t \<Longrightarrow> path_in UNIV s t" for s t
    by (auto intro: path_step path_refl)
  have "path_in UNIV DETECTED FAILED"
    by (rule path_in_trans [OF one one, of _ CONFIRMING]) (simp_all add: allowed_iff)
  moreover have "s \<noteq> DETECTED \<Longrightarrow> \<not> is_final s \<Longrightarrow> allowed s FAILED"
    by (cases s) (simp_all add: allowed_iff is_final_def)
  ultimately show ?thesis
    by (cases "is_final s"; cases "s = DETECTED")
       (use path_refl [of _ UNIV] one in \<open>auto simp: is_final_iff\<close>)
qed

end
