(* ===== verification/Merchants.thy ===== *)
theory Merchants
  imports Gateway_Prelude
begin

text \<open>
  The merchants table and its read side, \<open>MerchantConfigService\<close>
  (\<open>packages/payment-intent/src/merchant-config.service.ts\<close>).  The row also carries the
  authentication columns of migration 009.  The primary key is a VARCHAR(255)
  (\<open>packages/db/src/migrations/001_create_merchants.sql\<close>), so an identifier of any spelling, no UUID
  among them too, is looked up and not found; the statement does not fail on it.
\<close>

record merchant =
  m_id :: string
  m_name :: string
  m_settlement_asset :: string
  m_settlement_chain :: string
  m_settlement_address :: string
  m_accepted_chains :: "string list"
  m_accepted_assets :: "string list"
  m_fee_percentage :: rat
  m_kyc_threshold :: rat
  m_quote_ttl_seconds :: int
  m_webhook_url :: "string option"
  m_compliance_status :: string
  m_api_key_hash :: "string option"
  m_email :: "string option"
  m_password_hash :: "string option"
  m_password_salt :: "string option"
  m_created_at :: int
  m_updated_at :: int

definition map_merchant_row :: "merchant \<Rightarrow> merchant" where
  "map_merchant_row r = r\<lparr> m_webhook_url := truthy_str (m_webhook_url r) \<rparr>"

definition getById :: "merchant list \<Rightarrow> string \<Rightarrow> merchant option" where
  "getById ms i = map_option map_merchant_row (tbl_find (\<lambda>m. m_id m = i) ms)"

definition getByApiKeyHash :: "merchant list \<Rightarrow> string \<Rightarrow> merchant option" where
  "getByApiKeyHash ms h = map_option map_merchant_row (tbl_find (\<lambda>m. m_api_key_hash m = Some h) ms)"

text \<open>\<open>ORDER BY name\<close> follows the database's collation, given here by a sort key.\<close>

definition getAll :: "(string \<Rightarrow> int) \<Rightarrow> merchant list \<Rightarrow> merchant list" where
  "getAll collate ms = map map_merchant_row
     (order_asc (\<lambda>m. collate (m_name m)) (filter (\<lambda>m. m_compliance_status m = ''COMPLIANT'') ms))"

definition isCompliant :: "merchant list \<Rightarrow> string \<Rightarrow> bool" where
  "isCompliant ms i = (case getById ms i of
     None \<Rightarrow> False | Some m \<Rightarrow> m_compliance_status m = ''COMPLIANT'')"

lemma map_merchant_row_simps [simp]:
  "m_id (map_merchant_row r) = m_id r"
  "m_accepted_assets (map_merchant_row r) = m_accepted_assets r"
  "m_accepted_chains (map_merchant_row r) = m_accepted_chains r"
  "m_quote_ttl_seconds (map_merchant_row r) = m_quote_ttl_seconds r"
  "m_compliance_status (map_merchant_row r) = m_compliance_status r"
  "m_webhook_url (map_merchant_row r) = truthy_str (m_webhook_url r)"
  by (simp_all add: map_merchant_row_def)

lemma getById_SomeD: "getById ms i = Some m \<Longrightarrow> m_id m = i \<and> i \<in> m_id ` set ms"
  by (auto simp: getById_def dest!: tbl_find_SomeD)

lemma getAll_compliant:
  "distinct (map m_id ms) \<Longrightarrow> m \<in> set (getAll c ms) \<Longrightarrow> isCompliant ms (m_id m)"
  by (auto simp: getAll_def isCompliant_def getById_def tbl_find_unique)

end
