(* ===== verification/Intent_Repository.thy ===== *)
theory Intent_Repository
  imports Intent_Types Merchants "HOL-Library.Sublist"
begin

text \<open>
  \<open>PaymentIntentRepository\<close> (\<open>packages/payment-intent/src/payment-intent.repository.ts\<close>): the
  payment_intents and intent_events tables and the three statements that write them.  A
  transaction holds the row lock from its SELECT to its COMMIT, so an operation is one step; an
  error rolls the tables back.  The invariant says that the event log determines the state.
\<close>

record payment_intent =
  pi_id :: string
  pi_merchant_id :: string
  pi_order_ref :: string
  pi_target_amount :: rat
  pi_target_asset :: string
  pi_target_chain :: string
  pi_accepted_assets :: "string list"
  pi_quoted_rate :: "rat option"
  pi_deposit_address :: "string option"
  pi_deposit_asset :: "string option"
  pi_deposit_chain :: "string option"
  pi_quote_expires_at :: "int option"
  pi_state :: intent_state
  pi_version :: int
  pi_created_at :: int
  pi_updated_at :: int

record new_intent =
  ni_merchant_id :: string
  ni_order_ref :: string
  ni_target_amount :: rat
  ni_target_asset :: string
  ni_target_chain :: string
  ni_accepted_assets :: "string list"

record intent_event =
  ev_id :: string
  ev_intent_id :: string
  ev_type :: event_type
  ev_payload :: payload
  ev_version :: int
  ev_created_at :: int

text \<open>
  The errors the payment-intent package throws: its error classes, the plain errors of the
  repository, and a statement the database refuses (constraint, overflow, length).
\<close>

datatype gateway_error =
    ValidationError string
  | IntentNotFoundError string
  | QuoteExpiredError string
  | IntentNotFound string
  | InvalidStateTransition intent_state intent_state
  | ConcurrentModification string
  | DbError string

type_synonym 'a outcome = "gateway_error + 'a"

text \<open>
  The tables of the package, with the number of identifiers handed out so far.  The environment
  of an operation is its instant and \<open>generateId\<close> (\<open>crypto.randomUUID\<close>): the n-th identifier.
\<close>

record intent_db =
  db_merchants :: "merchant list"
  db_intents :: "payment_intent list"
  db_events :: "intent_event list"
  db_ids :: nat

record env =
  e_now :: int
  e_uuid :: "nat \<Rightarrow> string"

definition mapRow :: "payment_intent \<Rightarrow> payment_intent" where
  "mapRow r = r\<lparr> pi_deposit_address := truthy_str (pi_deposit_address r),
                 pi_deposit_asset := truthy_str (pi_deposit_asset r),
                 pi_deposit_chain := truthy_str (pi_deposit_chain r) \<rparr>"

section \<open>Writing\<close>

definition create_payload :: "new_intent \<Rightarrow> payload" where
  "create_payload d =
     [(''merchant_id'', JStr (ni_merchant_id d)), (''order_ref'', JStr (ni_order_ref d)),
      (''target_amount'', JNum (ni_target_amount d)), (''target_asset'', JStr (ni_target_asset d)),
      (''target_chain'', JStr (ni_target_chain d)),
      (''accepted_assets'', JArr (map JStr (ni_accepted_assets d)))]"

definition new_row :: "env \<Rightarrow> string \<Rightarrow> new_intent \<Rightarrow> rat \<Rightarrow> payment_intent" where
  "new_row e i d amount = \<lparr>
     pi_id = i, pi_merchant_id = ni_merchant_id d, pi_order_ref = ni_order_ref d,
     pi_target_amount = amount, pi_target_asset = ni_target_asset d,
     pi_target_chain = ni_target_chain d, pi_accepted_assets = ni_accepted_assets d,
     pi_quoted_rate = None, pi_deposit_address = None, pi_deposit_asset = None,
     pi_deposit_chain = None, pi_quote_expires_at = None,
     pi_state = CREATED, pi_version = 1, pi_created_at = e_now e, pi_updated_at = e_now e \<rparr>"

text \<open>The INSERT of the row: foreign key, column sizes, DECIMAL(20, 8), primary key.\<close>

definition insert_intent :: "env \<Rightarrow> string \<Rightarrow> new_intent \<Rightarrow> intent_db \<Rightarrow> payment_intent list option" where
  "insert_intent e i d db =
     (if ni_merchant_id d \<in> set (map m_id (db_merchants db)) \<and> fits 255 (ni_order_ref d)
         \<and> fits 20 (ni_target_asset d) \<and> fits 20 (ni_target_chain d)
      then (case pg_decimal 20 8 (ni_target_amount d) of
              None \<Rightarrow> None
            | Some amount \<Rightarrow> tbl_insert pi_id (new_row e i d amount) (db_intents db))
      else None)"

definition new_event :: "string \<Rightarrow> string \<Rightarrow> event_type \<Rightarrow> payload \<Rightarrow> int \<Rightarrow> int \<Rightarrow> intent_event" where
  "new_event ei i ty pl v t = \<lparr> ev_id = ei, ev_intent_id = i, ev_type = ty, ev_payload = pl,
     ev_version = v, ev_created_at = t \<rparr>"

definition create_intent :: "env \<Rightarrow> new_intent \<Rightarrow> intent_db \<Rightarrow> intent_db \<times> payment_intent outcome" where
  "create_intent e d db =
     (let i = e_uuid e (db_ids db); ei = e_uuid e (Suc (db_ids db)) in
      case insert_intent e i d db of
        None \<Rightarrow> (db\<lparr> db_ids := Suc (db_ids db) \<rparr>, Inl (DbError ''payment_intents''))
      | Some rows \<Rightarrow>
          (case tbl_insert ev_id (new_event ei i INTENT_CREATED (create_payload d) 1 (e_now e))
                  (db_events db) of
             None \<Rightarrow> (db\<lparr> db_ids := Suc (Suc (db_ids db)) \<rparr>, Inl (DbError ''intent_events''))
           | Some evs \<Rightarrow>
               (db\<lparr> db_intents := rows, db_events := evs, db_ids := Suc (Suc (db_ids db)) \<rparr>,
                Inr (mapRow (last rows)))))"

definition set_state :: "intent_state \<Rightarrow> int \<Rightarrow> int \<Rightarrow> payment_intent \<Rightarrow> payment_intent" where
  "set_state s v t r = r\<lparr> pi_state := s, pi_version := v, pi_updated_at := t \<rparr>"

definition transition ::
    "env \<Rightarrow> string \<Rightarrow> event_type \<Rightarrow> payload \<Rightarrow> intent_db \<Rightarrow> intent_db \<times> payment_intent outcome" where
  "transition e i ty pl db =
     (case tbl_find (\<lambda>r. pi_id r = i) (db_intents db) of
        None \<Rightarrow> (db, Inl (IntentNotFound i))
      | Some row \<Rightarrow>
          (let current = mapRow row; nextState = getExpectedNextState ty in
           if \<not> isValidTransition VALID_TRANSITIONS (pi_state current) nextState
           then (db, Inl (InvalidStateTransition (pi_state current) nextState))
           else
             let newVersion = pi_version current + 1;
                 hit = (\<lambda>r. pi_id r = i \<and> pi_version r = pi_version current);
                 rows = tbl_update hit (set_state nextState newVersion (e_now e)) (db_intents db)
             in case tbl_find hit (db_intents db) of
                  None \<Rightarrow> (db, Inl (ConcurrentModification i))
                | Some r \<Rightarrow>
                    (case tbl_insert ev_id
                            (new_event (e_uuid e (db_ids db)) i ty pl newVersion (e_now e))
                            (db_events db) of
                       None \<Rightarrow> (db\<lparr> db_ids := Suc (db_ids db) \<rparr>, Inl (DbError ''intent_events''))
                     | Some evs \<Rightarrow>
                         (db\<lparr> db_intents := rows, db_events := evs, db_ids := Suc (db_ids db) \<rparr>,
                          Inr (mapRow (set_state nextState newVersion (e_now e) r))))))"

record deposit_details =
  dd_address :: string
  dd_asset :: string
  dd_chain :: string

definition set_quote ::
    "rat \<Rightarrow> int \<Rightarrow> deposit_details option \<Rightarrow> int \<Rightarrow> payment_intent \<Rightarrow> payment_intent" where
  "set_quote rate expires deposit t r = r\<lparr>
     pi_quoted_rate := Some rate,
     pi_quote_expires_at := Some expires,
     pi_deposit_address := (case deposit of None \<Rightarrow> pi_deposit_address r | Some d \<Rightarrow> Some (dd_address d)),
     pi_deposit_asset := (case deposit of None \<Rightarrow> pi_deposit_asset r | Some d \<Rightarrow> Some (dd_asset d)),
     pi_deposit_chain := (case deposit of None \<Rightarrow> pi_deposit_chain r | Some d \<Rightarrow> Some (dd_chain d)),
     pi_updated_at := t \<rparr>"

definition updateQuote ::
    "env \<Rightarrow> string \<Rightarrow> rat \<Rightarrow> int \<Rightarrow> deposit_details option \<Rightarrow> intent_db
       \<Rightarrow> intent_db \<times> payment_intent outcome" where
  "updateQuote e i rate expires deposit db =
     (case tbl_find (\<lambda>r. pi_id r = i) (db_intents db) of
        None \<Rightarrow> (db, Inl (IntentNotFound i))
      | Some row \<Rightarrow>
          (case pg_decimal 20 8 rate of
             None \<Rightarrow> (db, Inl (DbError ''quoted_rate''))
           | Some rate' \<Rightarrow>
               if (case deposit of None \<Rightarrow> True
                   | Some d \<Rightarrow> fits 255 (dd_address d) \<and> fits 20 (dd_asset d) \<and> fits 20 (dd_chain d))
               then (db\<lparr> db_intents := tbl_update (\<lambda>r. pi_id r = i)
                           (set_quote rate' expires deposit (e_now e)) (db_intents db) \<rparr>,
                     Inr (mapRow (set_quote rate' expires deposit (e_now e) row)))
               else (db, Inl (DbError ''deposit details''))))"

section \<open>Reading\<close>

definition findById :: "intent_db \<Rightarrow> string \<Rightarrow> payment_intent option" where
  "findById db i = map_option mapRow (tbl_find (\<lambda>r. pi_id r = i) (db_intents db))"

definition findByMerchantId :: "intent_db \<Rightarrow> string \<Rightarrow> nat \<Rightarrow> nat \<Rightarrow> payment_intent list" where
  "findByMerchantId db m limit off = map mapRow (take limit (drop off
     (order_desc pi_created_at (filter (\<lambda>r. pi_merchant_id r = m) (db_intents db)))))"

definition findByOrderRef :: "intent_db \<Rightarrow> string \<Rightarrow> payment_intent option" where
  "findByOrderRef db ref = map_option mapRow (tbl_find (\<lambda>r. pi_order_ref r = ref) (db_intents db))"

definition findByState :: "intent_db \<Rightarrow> intent_state \<Rightarrow> nat \<Rightarrow> payment_intent list" where
  "findByState db s limit = map mapRow (take limit
     (order_asc pi_updated_at (filter (\<lambda>r. pi_state r = s) (db_intents db))))"

definition findExpiredIntents :: "int \<Rightarrow> intent_db \<Rightarrow> payment_intent list" where
  "findExpiredIntents now db = map mapRow (filter
     (\<lambda>r. pi_state r \<in> {QUOTED, AWAITING_PAYMENT}
        \<and> (case pi_quote_expires_at r of None \<Rightarrow> False | Some t \<Rightarrow> t < now)) (db_intents db))"

definition getEvents :: "intent_db \<Rightarrow> string \<Rightarrow> intent_event list" where
  "getEvents db i = order_asc ev_created_at (filter (\<lambda>v. ev_intent_id v = i) (db_events db))"

definition getCountByState :: "intent_db \<Rightarrow> string \<Rightarrow> intent_state \<Rightarrow> nat option" where
  "getCountByState db m s =
     (let n = length (filter (\<lambda>r. pi_merchant_id r = m \<and> pi_state r = s) (db_intents db))
      in if n = 0 then None else Some n)"

definition expects_deposit :: "intent_state \<Rightarrow> bool" where
  "expects_deposit s = (s \<in> {QUOTED, AWAITING_PAYMENT, UNDERPAID})"

definition findAwaitingDepositAt :: "intent_db \<Rightarrow> string \<Rightarrow> string \<Rightarrow> payment_intent option" where
  "findAwaitingDepositAt db chain addr =
     (case order_desc pi_created_at (filter
         (\<lambda>r. pi_deposit_chain r = Some chain \<and> pi_deposit_address r = Some addr
            \<and> expects_deposit (pi_state r)) (db_intents db)) of
        [] \<Rightarrow> None | r # _ \<Rightarrow> Some (mapRow r))"

definition findAwaitingDeposits :: "intent_db \<Rightarrow> string option \<Rightarrow> payment_intent list" where
  "findAwaitingDeposits db chain = map mapRow (order_asc pi_created_at (filter
     (\<lambda>r. pi_deposit_address r \<noteq> None \<and> expects_deposit (pi_state r)
        \<and> (case truthy_str chain of None \<Rightarrow> True | Some c \<Rightarrow> pi_deposit_chain r = Some c))
     (db_intents db)))"

definition countByState :: "intent_db \<Rightarrow> intent_state \<Rightarrow> nat" where
  "countByState db s = length (filter (\<lambda>r. pi_state r = s) (db_intents db))"

lemma mapRow_simps [simp]:
  "pi_id (mapRow r) = pi_id r" "pi_state (mapRow r) = pi_state r"
  "pi_version (mapRow r) = pi_version r" "pi_merchant_id (mapRow r) = pi_merchant_id r"
  "pi_target_amount (mapRow r) = pi_target_amount r"
  "pi_order_ref (mapRow r) = pi_order_ref r" "pi_target_asset (mapRow r) = pi_target_asset r"
  "pi_target_chain (mapRow r) = pi_target_chain r" "pi_created_at (mapRow r) = pi_created_at r"
  "pi_updated_at (mapRow r) = pi_updated_at r"
  "pi_quote_expires_at (mapRow r) = pi_quote_expires_at r"
  "pi_quoted_rate (mapRow r) = pi_quoted_rate r"
  "pi_deposit_address (mapRow r) = truthy_str (pi_deposit_address r)"
  "pi_deposit_asset (mapRow r) = truthy_str (pi_deposit_asset r)"
  "pi_deposit_chain (mapRow r) = truthy_str (pi_deposit_chain r)"
  by (simp_all add: mapRow_def)

lemma set_state_simps [simp]:
  "pi_id (set_state s v t r) = pi_id r" "pi_state (set_state s v t r) = s"
  "pi_version (set_state s v t r) = v" "pi_updated_at (set_state s v t r) = t"
  "pi_merchant_id (set_state s v t r) = pi_merchant_id r"
  "pi_target_amount (set_state s v t r) = pi_target_amount r"
  by (simp_all add: set_state_def)

lemma set_quote_simps [simp]:
  "pi_id (set_quote q x d t r) = pi_id r" "pi_state (set_quote q x d t r) = pi_state r"
  "pi_version (set_quote q x d t r) = pi_version r"
  "pi_merchant_id (set_quote q x d t r) = pi_merchant_id r"
  "pi_target_amount (set_quote q x d t r) = pi_target_amount r"
  by (simp_all add: set_quote_def)

lemma new_row_simps [simp]:
  "pi_id (new_row e i d a) = i" "pi_state (new_row e i d a) = CREATED"
  "pi_version (new_row e i d a) = 1" "pi_merchant_id (new_row e i d a) = ni_merchant_id d"
  "pi_target_amount (new_row e i d a) = a"
  by (simp_all add: new_row_def)

lemma new_event_simps [simp]:
  "ev_id (new_event ei i ty pl v t) = ei" "ev_intent_id (new_event ei i ty pl v t) = i"
  "ev_type (new_event ei i ty pl v t) = ty" "ev_version (new_event ei i ty pl v t) = v"
  "ev_created_at (new_event ei i ty pl v t) = t" "ev_payload (new_event ei i ty pl v t) = pl"
  by (simp_all add: new_event_def)

interpretation st: keyed_update pi_id "set_state s v t" for s v t
  by unfold_locales simp

interpretation qt: keyed_update pi_id "set_quote q x d t" for q x d t
  by unfold_locales simp

end
