(* ===== verification/Deposit_Watcher.thy ===== *)
theory Deposit_Watcher
  imports Job_Queue Intent_Repository
begin

text \<open>
  The deposit watcher (\<open>packages/worker/src/deposit-watcher.ts\<close>) and the job names
  (\<open>job-types.ts\<close>).  The chain clients are outside: what the watcher tells them
  (\<open>watchDeposits\<close> and the unsubscribe functions it gets back) is a trace of calls, and a deposit
  they report is an input.
\<close>

definition QUEUE_DEPOSITS :: string where "QUEUE_DEPOSITS = ''deposits''"
definition QUEUE_WEBHOOKS :: string where "QUEUE_WEBHOOKS = ''webhooks''"
definition QUEUE_SETTLEMENT :: string where "QUEUE_SETTLEMENT = ''settlements''"
definition JOB_DEPOSIT_RECORD :: string where "JOB_DEPOSIT_RECORD = ''deposit.record''"
definition JOB_DEPOSIT_CONFIRM :: string where "JOB_DEPOSIT_CONFIRM = ''deposit.confirm''"
definition JOB_DEPOSIT_UNATTRIBUTED :: string where "JOB_DEPOSIT_UNATTRIBUTED = ''deposit.unattributed''"

record asset_info =
  as_address :: string
  as_symbol :: string
  as_decimals :: nat
  as_name :: string

record deposit_event =
  de_tx_hash :: string
  de_from :: string
  de_to :: string
  de_asset :: asset_info
  de_amount :: string
  de_block_number :: nat

definition depositIdempotencyKey :: "string \<Rightarrow> deposit_event \<Rightarrow> string" where
  "depositIdempotencyKey chainId e = join '':''
     [''deposit'', chainId, to_lower (de_tx_hash e), to_lower (de_to e),
      to_lower (as_address (de_asset e)), de_amount e]"

text \<open>
  \<open>Number(amount)\<close> on the texts the chain clients produce: the empty text is 0, a run of digits
  its value; any other text is read as not finite.
\<close>

definition digit_value :: "char \<Rightarrow> int option" where
  "digit_value c = (let n = (of_char c :: int) in if 48 \<le> n \<and> n \<le> 57 then Some (n - 48) else None)"

fun digits_value :: "int \<Rightarrow> string \<Rightarrow> int option" where
  "digits_value acc [] = Some acc"
| "digits_value acc (c # cs) = (case digit_value c of None \<Rightarrow> None | Some d \<Rightarrow> digits_value (10 * acc + d) cs)"

definition normalizeAmount :: "string \<Rightarrow> nat \<Rightarrow> rat option" where
  "normalizeAmount amount decimals =
     (case digits_value 0 amount of None \<Rightarrow> None | Some n \<Rightarrow> Some (of_int n / 10 ^ decimals))"

text \<open>\<open>JSON.stringify(NaN)\<close> is null.\<close>

definition num_json :: "rat option \<Rightarrow> json" where
  "num_json v = (case v of None \<Rightarrow> JNull | Some x \<Rightarrow> JNum x)"

section \<open>State\<close>

datatype watch_call = Watch string string | Unwatch string string

record watcher =
  dw_subscriptions :: "(string \<times> string list) list"
  dw_started :: bool
  dw_received :: nat
  dw_attributed :: nat
  dw_unattributed :: nat
  dw_last_event_at :: "int option"
  dw_calls :: "watch_call list"

definition new_watcher :: watcher where
  "new_watcher = \<lparr> dw_subscriptions = [], dw_started = False, dw_received = 0, dw_attributed = 0,
     dw_unattributed = 0, dw_last_event_at = None, dw_calls = [] \<rparr>"

text \<open>\<open>byChain\<close>: the deposit addresses per chain, in the order of the query.\<close>

definition by_chain_step ::
    "payment_intent \<Rightarrow> (string \<times> string list) list \<Rightarrow> (string \<times> string list) list" where
  "by_chain_step p m =
     (case (pi_deposit_address p, pi_deposit_chain p) of
        (Some addr, Some chain) \<Rightarrow>
          js_map_set chain (js_set_add addr (case map_of m chain of None \<Rightarrow> [] | Some xs \<Rightarrow> xs)) m
      | _ \<Rightarrow> m)"

definition by_chain :: "payment_intent list \<Rightarrow> (string \<times> string list) list" where
  "by_chain ps = fold by_chain_step ps []"

text \<open>One chain client of the refresh: subscribe the new addresses, then drop the old ones.\<close>

definition refresh_chain :: "(string \<times> string list) list \<Rightarrow> string \<Rightarrow> watcher \<Rightarrow> watcher" where
  "refresh_chain wanted_by chain w =
     (let wanted = (case map_of wanted_by chain of None \<Rightarrow> [] | Some xs \<Rightarrow> xs);
          current = (case map_of (dw_subscriptions w) chain of None \<Rightarrow> [] | Some xs \<Rightarrow> xs);
          added = filter (\<lambda>a. a \<notin> set current) wanted;
          current1 = current @ added;
          dropped = filter (\<lambda>a. a \<notin> set wanted) current1;
          current2 = filter (\<lambda>a. a \<in> set wanted) current1
      in w\<lparr> dw_calls := dw_calls w @ map (Watch chain) added @ map (Unwatch chain) dropped,
            dw_subscriptions := js_map_set chain current2 (dw_subscriptions w) \<rparr>)"

definition refresh :: "string list \<Rightarrow> intent_db \<Rightarrow> watcher \<Rightarrow> watcher" where
  "refresh clients db w = fold (refresh_chain (by_chain (findAwaitingDeposits db None))) clients w"

definition watcher_start :: "string list \<Rightarrow> intent_db \<Rightarrow> watcher \<Rightarrow> watcher" where
  "watcher_start clients db w = (if dw_started w then w else refresh clients db (w\<lparr> dw_started := True \<rparr>))"

definition watcher_stop :: "watcher \<Rightarrow> watcher" where
  "watcher_stop w = w\<lparr> dw_calls := dw_calls w
       @ concat (map (\<lambda>(chain, addrs). map (Unwatch chain) addrs) (dw_subscriptions w)),
     dw_subscriptions := [], dw_started := False \<rparr>"

record watcher_stats =
  ws_watched_addresses :: nat
  ws_chains :: nat
  ws_received :: nat
  ws_attributed :: nat
  ws_unattributed :: nat
  ws_last_event_at :: "int option"

definition watcher_getStats :: "watcher \<Rightarrow> watcher_stats" where
  "watcher_getStats w = \<lparr> ws_watched_addresses = sum_list (map (\<lambda>(_, addrs). length addrs) (dw_subscriptions w)),
     ws_chains = length (dw_subscriptions w), ws_received = dw_received w, ws_attributed = dw_attributed w,
     ws_unattributed = dw_unattributed w, ws_last_event_at = dw_last_event_at w \<rparr>"

section \<open>A deposit is reported\<close>

definition unattributed_request :: "string \<Rightarrow> deposit_event \<Rightarrow> enqueue_request" where
  "unattributed_request chainId e = \<lparr> er_type = JOB_DEPOSIT_UNATTRIBUTED,
     er_payload = [(''chainId'', JStr chainId), (''address'', JStr (de_to e)), (''txHash'', JStr (de_tx_hash e)),
       (''amount'', JStr (de_amount e)), (''asset'', JStr (as_symbol (de_asset e))),
       (''blockNumber'', JNum (of_nat (de_block_number e)))],
     er_key = depositIdempotencyKey chainId e @ '':unattributed'',
     er_queue = Some QUEUE_DEPOSITS, er_max_attempts = None, er_delay_ms = None \<rparr>"

definition record_request :: "string \<Rightarrow> deposit_event \<Rightarrow> payment_intent \<Rightarrow> enqueue_request" where
  "record_request chainId e p = \<lparr> er_type = JOB_DEPOSIT_RECORD,
     er_payload = [(''intentId'', JStr (pi_id p)), (''txHash'', JStr (de_tx_hash e)),
       (''amount'', num_json (normalizeAmount (de_amount e) (as_decimals (de_asset e)))),
       (''sourceChain'', JStr chainId), (''sourceAsset'', JStr (as_symbol (de_asset e))),
       (''blockNumber'', JNum (of_nat (de_block_number e)))],
     er_key = depositIdempotencyKey chainId e,
     er_queue = Some QUEUE_DEPOSITS, er_max_attempts = None, er_delay_ms = None \<rparr>"

definition onDeposit ::
    "queue_options \<Rightarrow> int \<Rightarrow> string \<Rightarrow> intent_db \<Rightarrow> string \<Rightarrow> deposit_event \<Rightarrow> watcher \<times> job list
       \<Rightarrow> (watcher \<times> job list) \<times> (js_error + bool)" where
  "onDeposit opts now fresh db chainId e = (\<lambda>(w, jobs).
     let w1 = w\<lparr> dw_received := dw_received w + 1, dw_last_event_at := Some now \<rparr> in
     case findAwaitingDepositAt db chainId (de_to e) of
       None \<Rightarrow>
         (let (jobs', r) = enqueue opts now fresh (unattributed_request chainId e) jobs
          in ((w1\<lparr> dw_unattributed := dw_unattributed w + 1 \<rparr>, jobs'), r))
     | Some p \<Rightarrow>
         (let (jobs', r) = enqueue opts now fresh (record_request chainId e p) jobs
          in ((w1\<lparr> dw_attributed := dw_attributed w + 1 \<rparr>, jobs'), r)))"

definition resolveIntent :: "intent_db \<Rightarrow> string \<Rightarrow> string \<Rightarrow> payment_intent option" where
  "resolveIntent db chainId addr = findAwaitingDepositAt db chainId addr"

section \<open>Lemmas\<close>

text \<open>\<open>byChain\<close> holds, for each chain, exactly the deposit addresses of the intents on it.\<close>

lemma by_chain_fold:
  "set (case map_of (fold by_chain_step ps m) c of None \<Rightarrow> [] | Some xs \<Rightarrow> xs)
     = set (case map_of m c of None \<Rightarrow> [] | Some xs \<Rightarrow> xs)
       \<union> {a. \<exists>p \<in> set ps. pi_deposit_chain p = Some c \<and> pi_deposit_address p = Some a}"
proof (induction ps arbitrary: m)
  case (Cons p ps)
  have "set (case map_of (by_chain_step p m) c of None \<Rightarrow> [] | Some xs \<Rightarrow> xs)
      = set (case map_of m c of None \<Rightarrow> [] | Some xs \<Rightarrow> xs)
        \<union> {a. pi_deposit_chain p = Some c \<and> pi_deposit_address p = Some a}"
    by (auto simp: by_chain_step_def split: option.splits)
  with Cons.IH [of "by_chain_step p m"] show ?case by auto
qed simp

lemma by_chain_set:
  "set (case map_of (by_chain ps) c of None \<Rightarrow> [] | Some xs \<Rightarrow> xs)
     = {a. \<exists>p \<in> set ps. pi_deposit_chain p = Some c \<and> pi_deposit_address p = Some a}"
  by (simp add: by_chain_def by_chain_fold)

text \<open>What the chain clients hold after the calls so far: subscribed and not unsubscribed since.\<close>

definition apply_call :: "watch_call \<Rightarrow> (string \<times> string) set \<Rightarrow> (string \<times> string) set" where
  "apply_call c s = (case c of Watch ch a \<Rightarrow> insert (ch, a) s | Unwatch ch a \<Rightarrow> s - {(ch, a)})"

definition live :: "watch_call list \<Rightarrow> (string \<times> string) set" where
  "live calls = fold apply_call calls {}"

definition subscribed :: "watcher \<Rightarrow> (string \<times> string) set" where
  "subscribed w = {(c, a). \<exists>xs. map_of (dw_subscriptions w) c = Some xs \<and> a \<in> set xs}"

lemma fold_watch: "fold apply_call (map (Watch c) as) s = s \<union> {c} \<times> set as"
  by (induction as arbitrary: s) (auto simp: apply_call_def)

lemma fold_unwatch: "fold apply_call (map (Unwatch c) as) s = s - {c} \<times> set as"
  by (induction as arbitrary: s) (auto simp: apply_call_def)

definition wanted_on :: "(string \<times> string list) list \<Rightarrow> string \<Rightarrow> string list" where
  "wanted_on m c = (case map_of m c of None \<Rightarrow> [] | Some xs \<Rightarrow> xs)"

lemma refresh_chain_subs:
  "subscribed (refresh_chain m c w) = (subscribed w - {c} \<times> UNIV) \<union> {c} \<times> set (wanted_on m c)"
  by (auto simp: refresh_chain_def Let_def subscribed_def wanted_on_def split: option.splits if_splits)

lemma refresh_chain_live:
  assumes "live (dw_calls w) = subscribed w"
  shows "live (dw_calls (refresh_chain m c w)) = subscribed (refresh_chain m c w)"
proof -
  have "live (dw_calls (refresh_chain m c w))
      = (subscribed w \<union> {c} \<times> set (wanted_on m c)) - {c} \<times> - set (wanted_on m c)"
    using assms
    by (auto simp: refresh_chain_def Let_def live_def fold_watch fold_unwatch wanted_on_def subscribed_def
        split: option.splits)
  then show ?thesis by (auto simp: refresh_chain_subs)
qed

lemma refresh_fold:
  "subscribed (fold (refresh_chain m) cs w) = (subscribed w - set cs \<times> UNIV)
     \<union> {(c, a). c \<in> set cs \<and> a \<in> set (wanted_on m c)}"
  by (induction cs arbitrary: w) (auto simp: refresh_chain_subs)

lemma refresh_fold_live:
  "live (dw_calls w) = subscribed w
     \<Longrightarrow> live (dw_calls (fold (refresh_chain m) cs w)) = subscribed (fold (refresh_chain m) cs w)"
  by (induction cs arbitrary: w) (simp_all add: refresh_chain_live)

lemma enqueue_PENDING:
  assumes "enqueue opts now i r jobs = (jobs', Inr True)"
  shows "jobs' = jobs @ [new_job opts now i r]"
  using assms by (auto simp: enqueue_def Let_def tbl_insert_def split: if_splits)

end
