(* ===== verification/Confirmation_Tracker.thy ===== *)
theory Confirmation_Tracker
  imports Deposit_Watcher
begin

text \<open>
  The confirmation tracker (\<open>packages/worker/src/confirmation-tracker.ts\<close>): one sweep over the
  DETECTED intents.  A chain client is its confirmation depth and its \<open>getTransactionStatus\<close>.
\<close>

datatype tx_state = TX_PENDING | TX_CONFIRMING | TX_CONFIRMED | TX_FAILED

record tx_status =
  ts_status :: tx_state
  ts_confirmations :: int

record chain_view =
  cv_chain_id :: string
  cv_depth :: int
  cv_tx_status :: "string \<Rightarrow> string + tx_status"

record tracker =
  ct_running :: bool
  ct_sweeps :: nat
  ct_examined :: nat
  ct_confirmed :: nat
  ct_awaiting :: nat
  ct_last_sweep_at :: "int option"
  ct_last_error :: "string option"

definition new_tracker :: tracker where
  "new_tracker = \<lparr> ct_running = False, ct_sweeps = 0, ct_examined = 0, ct_confirmed = 0, ct_awaiting = 0,
     ct_last_sweep_at = None, ct_last_error = None \<rparr>"

text \<open>\<open>chainIndex\<close>: a later client of the same chain replaces an earlier one.\<close>

definition chain_index :: "chain_view list \<Rightarrow> (string \<times> chain_view) list" where
  "chain_index cs = fold (\<lambda>c m. js_map_set (cv_chain_id c) c m) cs []"

definition event_tx_hash :: "intent_event \<Rightarrow> string option" where
  "event_tx_hash v = (if ev_type v \<noteq> DEPOSIT_DETECTED then None
     else case map_of (ev_payload v) ''tx_hash'' of
            Some (JStr h) \<Rightarrow> if h = [] then None else Some h
          | _ \<Rightarrow> None)"

definition findDepositTxHash :: "intent_db \<Rightarrow> string \<Rightarrow> string option" where
  "findDepositTxHash db i =
     (case filter (\<lambda>h. h \<noteq> None) (map event_tx_hash (rev (getEvents db i))) of [] \<Rightarrow> None | h # _ \<Rightarrow> h)"

definition confirm_key :: "string \<Rightarrow> string \<Rightarrow> string" where
  "confirm_key chainId txHash = ''confirm:'' @ chainId @ '':'' @ txHash"

definition confirm_request :: "string \<Rightarrow> string \<Rightarrow> string \<Rightarrow> int \<Rightarrow> enqueue_request" where
  "confirm_request i chainId txHash n = \<lparr> er_type = JOB_DEPOSIT_CONFIRM,
     er_payload = [(''intentId'', JStr i), (''txHash'', JStr txHash), (''confirmations'', JNum (of_int n))],
     er_key = confirm_key chainId txHash, er_queue = Some QUEUE_DEPOSITS, er_max_attempts = None,
     er_delay_ms = None \<rparr>"

text \<open>One intent of the sweep.  An error of the insert leaves the loop.\<close>

definition examine ::
    "queue_options \<Rightarrow> int \<Rightarrow> (job list \<Rightarrow> string) \<Rightarrow> intent_db \<Rightarrow> (string \<times> chain_view) list
       \<Rightarrow> payment_intent \<Rightarrow> tracker \<times> job list \<Rightarrow> (tracker \<times> job list) \<times> (js_error + unit)" where
  "examine opts now fresh db index p = (\<lambda>(t, jobs).
     let t1 = t\<lparr> ct_examined := ct_examined t + 1 \<rparr>; same = ((t1, jobs), Inr ()) in
     case pi_deposit_chain p of
       None \<Rightarrow> same
     | Some chainId \<Rightarrow>
         (case map_of index chainId of
            None \<Rightarrow> same
          | Some client \<Rightarrow>
              (case findDepositTxHash db (pi_id p) of
                 None \<Rightarrow> same
               | Some txHash \<Rightarrow>
                   (case cv_tx_status client txHash of
                      Inl msg \<Rightarrow> ((t1\<lparr> ct_last_error := Some msg \<rparr>, jobs), Inr ())
                    | Inr st \<Rightarrow>
                        if ts_status st = TX_FAILED then same
                        else if ts_confirmations st < cv_depth client
                        then ((t1\<lparr> ct_awaiting := ct_awaiting t1 + 1 \<rparr>, jobs), Inr ())
                        else (case enqueue opts now (fresh jobs)
                                  (confirm_request (pi_id p) chainId txHash (ts_confirmations st)) jobs of
                                (jobs', Inl x) \<Rightarrow> ((t1, jobs'), Inl x)
                              | (jobs', Inr _) \<Rightarrow> ((t1\<lparr> ct_confirmed := ct_confirmed t1 + 1 \<rparr>, jobs'), Inr ()))))))"

fun sweep_loop ::
    "queue_options \<Rightarrow> int \<Rightarrow> (job list \<Rightarrow> string) \<Rightarrow> intent_db \<Rightarrow> (string \<times> chain_view) list
       \<Rightarrow> payment_intent list \<Rightarrow> tracker \<times> job list \<Rightarrow> (tracker \<times> job list) \<times> (js_error + unit)" where
  "sweep_loop opts now fresh db index [] s = (s, Inr ())"
| "sweep_loop opts now fresh db index (p # ps) s =
     andThen (examine opts now fresh db index p s) (\<lambda>s _. sweep_loop opts now fresh db index ps s)"

definition tracker_runOnce ::
    "queue_options \<Rightarrow> int \<Rightarrow> (job list \<Rightarrow> string) \<Rightarrow> intent_db \<Rightarrow> chain_view list \<Rightarrow> nat option
       \<Rightarrow> tracker \<times> job list \<Rightarrow> (tracker \<times> job list) \<times> (js_error + nat)" where
  "tracker_runOnce opts now fresh db clients batchSize = (\<lambda>(t, jobs).
     let detected = findByState db DETECTED (case batchSize of None \<Rightarrow> 100 | Some n \<Rightarrow> n);
         t1 = t\<lparr> ct_sweeps := ct_sweeps t + 1, ct_last_sweep_at := Some now \<rparr>
     in andThen (sweep_loop opts now fresh db (chain_index clients) detected (t1, jobs))
          (\<lambda>s _. (s, Inr (length detected))))"

definition tracker_start :: "tracker \<Rightarrow> tracker" where
  "tracker_start t = t\<lparr> ct_running := True \<rparr>"

definition tracker_stop :: "tracker \<Rightarrow> tracker" where
  "tracker_stop t = t\<lparr> ct_running := False \<rparr>"

text \<open>\<open>getStats\<close>: the counters, the last sweep and the last error.\<close>

definition tracker_getStats :: "tracker \<Rightarrow> nat \<times> nat \<times> nat \<times> nat \<times> int option \<times> string option" where
  "tracker_getStats t = (ct_sweeps t, ct_examined t, ct_confirmed t, ct_awaiting t, ct_last_sweep_at t, ct_last_error t)"

section \<open>Lemmas\<close>

text \<open>
  A sweep only adds jobs; each new one is a confirmation of a DETECTED intent whose transaction has
  not failed and has reached the depth of its chain.
\<close>

definition justified :: "intent_db \<Rightarrow> (string \<times> chain_view) list \<Rightarrow> payment_intent list \<Rightarrow> job \<Rightarrow> bool" where
  "justified db index ps j = (\<exists>p \<in> set ps. \<exists>chain client h st.
     pi_deposit_chain p = Some chain \<and> map_of index chain = Some client
     \<and> findDepositTxHash db (pi_id p) = Some h \<and> cv_tx_status client h = Inr st
     \<and> ts_status st \<noteq> TX_FAILED \<and> cv_depth client \<le> ts_confirmations st
     \<and> jb_type j = JOB_DEPOSIT_CONFIRM \<and> jb_key j = confirm_key chain h
     \<and> map_of (jb_payload j) ''intentId'' = Some (JStr (pi_id p)))"

lemma justified_mono: "justified db index ps j \<Longrightarrow> set ps \<subseteq> set qs \<Longrightarrow> justified db index qs j"
  unfolding justified_def by blast

lemma justified_head: "justified db index [p] j \<Longrightarrow> justified db index (p # ps) j"
  by (erule justified_mono) simp

lemma justified_tail: "justified db index ps j \<Longrightarrow> justified db index (p # ps) j"
  by (erule justified_mono) auto

lemma enqueue_new:
  assumes "enqueue opts now i r jobs = (jobs', x)"
  shows "jobs' = jobs \<or> jobs' = jobs @ [new_job opts now i r]"
  using assms by (auto simp: enqueue_def Let_def tbl_insert_def split: if_splits)

lemma examine_adds:
  assumes "examine opts now fresh db index p (t, jobs) = ((t', jobs'), r)"
  shows "\<exists>new. jobs' = jobs @ new \<and> (\<forall>j \<in> set new. justified db index [p] j)"
proof -
  have conf: "justified db index [p] (new_job opts now i (confirm_request (pi_id p) chain h (ts_confirmations st)))"
    if "pi_deposit_chain p = Some chain" "map_of index chain = Some client"
      "findDepositTxHash db (pi_id p) = Some h" "cv_tx_status client h = Inr st"
      "ts_status st \<noteq> TX_FAILED" "\<not> ts_confirmations st < cv_depth client" for chain client h st i
    using that by (auto simp: justified_def new_job_def confirm_request_def not_less)
  show ?thesis
    using assms
    by (auto simp: examine_def Let_def split: option.splits sum.splits if_splits prod.splits
        dest!: enqueue_new intro: conf)
qed

lemma sweep_adds:
  "sweep_loop opts now fresh db index ps (t, jobs) = ((t', jobs'), r)
     \<Longrightarrow> \<exists>new. jobs' = jobs @ new \<and> (\<forall>j \<in> set new. justified db index ps j)"
proof (induction ps arbitrary: t jobs)
  case (Cons p ps)
  obtain t1 jobs1 r1 where e: "examine opts now fresh db index p (t, jobs) = ((t1, jobs1), r1)"
    by (metis prod.collapse)
  from examine_adds [OF e] obtain new1 where n1: "jobs1 = jobs @ new1" "\<forall>j \<in> set new1. justified db index [p] j"
    by blast
  show ?case
  proof (cases r1)
    case (Inl x)
    with Cons.prems e n1 show ?thesis by (auto intro: justified_head)
  next
    case (Inr u)
    with Cons.prems e obtain new2 where "jobs' = jobs1 @ new2" "\<forall>j \<in> set new2. justified db index ps j"
      using Cons.IH by fastforce
    with n1 show ?thesis
      by (auto intro!: exI [of _ "new1 @ new2"] intro: justified_head justified_tail)
  qed
qed simp

end
