(* ===== verification/Intent_Invariant.thy ===== *)
theory Intent_Invariant
  imports Intent_Repository
begin

text \<open>
  What the repository's writes keep: identifiers are unique, the version of an intent is the
  number of its events, and replaying the events gives its state.  What they respect: the event
  log only grows, an intent never disappears, its order data never changes, and its state moves
  along the transition table.
\<close>

definition events_of :: "intent_event list \<Rightarrow> string \<Rightarrow> intent_event list" where
  "events_of evs i = filter (\<lambda>v. ev_intent_id v = i) evs"

definition intent_ok :: "intent_event list \<Rightarrow> payment_intent \<Rightarrow> bool" where
  "intent_ok evs p = (let es = events_of evs (pi_id p) in
     map ev_version es = map int [1..<Suc (length es)]
     \<and> pi_version p = int (length es)
     \<and> replay (map ev_type es) = Some (pi_state p))"

definition db_ok :: "intent_db \<Rightarrow> bool" where
  "db_ok db =
     (distinct (map pi_id (db_intents db)) \<and> distinct (map ev_id (db_events db))
      \<and> list_all (intent_ok (db_events db)) (db_intents db)
      \<and> list_all (\<lambda>v. ev_intent_id v \<in> set (map pi_id (db_intents db))) (db_events db)
      \<and> list_all (\<lambda>p. pi_merchant_id p \<in> set (map m_id (db_merchants db))) (db_intents db))"

lemma db_ok_ids [simp]: "db_ok (db\<lparr> db_ids := n \<rparr>) = db_ok db"
  by (simp add: db_ok_def)

lemma events_of_append [simp]:
  "events_of (evs @ [v]) i = (if ev_intent_id v = i then events_of evs i @ [v] else events_of evs i)"
  by (simp add: events_of_def)

lemma events_of_empty: "\<forall>v \<in> set evs. ev_intent_id v \<noteq> i \<Longrightarrow> events_of evs i = []"
  by (simp add: events_of_def)

section \<open>The shape of each write\<close>

lemma hit_is_row:
  assumes "distinct (map pi_id rows)" "tbl_find (\<lambda>r. pi_id r = i) rows = Some row"
  shows "tbl_find (\<lambda>r. pi_id r = i \<and> pi_version r = pi_version row) rows = Some row"
    and "tbl_update (\<lambda>r. pi_id r = i \<and> pi_version r = pi_version row) f rows
           = tbl_update (\<lambda>r. pi_id r = i) f rows"
proof -
  have same: "r \<in> set rows \<Longrightarrow> pi_id r = i \<Longrightarrow> r = row" for r
    using assms tbl_find_SomeD [OF assms(2)] by (metis distinct_map inj_onD)
  show "tbl_update (\<lambda>r. pi_id r = i \<and> pi_version r = pi_version row) f rows
           = tbl_update (\<lambda>r. pi_id r = i) f rows"
    unfolding tbl_update_def by (rule map_cong [OF refl]) (use same in auto)
  have "filter (\<lambda>r. pi_id r = i \<and> pi_version r = pi_version row) rows = filter (\<lambda>r. pi_id r = i) rows"
    by (rule filter_cong [OF refl]) (use same in auto)
  then show "tbl_find (\<lambda>r. pi_id r = i \<and> pi_version r = pi_version row) rows = Some row"
    using assms(2) by (simp add: tbl_find_def)
qed

lemma transitionE:
  assumes "transition e i ty pl db = (db', res)" "distinct (map pi_id (db_intents db))"
  obtains (refused) x where "res = Inl x" "db_intents db' = db_intents db"
      "db_events db' = db_events db" "db_merchants db' = db_merchants db"
    | (written) row where "tbl_find (\<lambda>r. pi_id r = i) (db_intents db) = Some row"
      "allowed (pi_state row) (getExpectedNextState ty)"
      "e_uuid e (db_ids db) \<notin> ev_id ` set (db_events db)"
      "db_intents db' = tbl_update (\<lambda>r. pi_id r = i)
         (set_state (getExpectedNextState ty) (pi_version row + 1) (e_now e)) (db_intents db)"
      "db_events db' = db_events db
         @ [new_event (e_uuid e (db_ids db)) i ty pl (pi_version row + 1) (e_now e)]"
      "db_merchants db' = db_merchants db"
      "res = Inr (mapRow (set_state (getExpectedNextState ty) (pi_version row + 1) (e_now e) row))"
proof (cases "tbl_find (\<lambda>r. pi_id r = i) (db_intents db)")
  case None
  with assms(1) show ?thesis by (auto simp: transition_def intro: refused)
next
  case (Some row)
  note hit = hit_is_row [OF assms(2) Some]
  show ?thesis
  proof (cases "allowed (pi_state row) (getExpectedNextState ty)")
    case False
    with assms(1) Some show ?thesis by (auto simp: transition_def Let_def intro: refused)
  next
    case True
    show ?thesis
    proof (cases "e_uuid e (db_ids db) \<in> ev_id ` set (db_events db)")
      case True
      with assms(1) Some \<open>allowed _ _\<close> show ?thesis
        by (auto simp: transition_def Let_def hit tbl_insert_def intro: refused)
    next
      case False
      with assms(1) Some \<open>allowed _ _\<close> show ?thesis
        by (intro written [of row]) (auto simp: transition_def Let_def hit tbl_insert_def)
    qed
  qed
qed

lemma createE:
  assumes "create_intent e d db = (db', res)"
  obtains (refused) x where "res = Inl x" "db_intents db' = db_intents db"
      "db_events db' = db_events db" "db_merchants db' = db_merchants db"
    | (written) amount i ei where "pg_decimal 20 8 (ni_target_amount d) = Some amount"
      "ni_merchant_id d \<in> m_id ` set (db_merchants db)"
      "i = e_uuid e (db_ids db)" "i \<notin> pi_id ` set (db_intents db)"
      "ei \<notin> ev_id ` set (db_events db)"
      "db_intents db' = db_intents db @ [new_row e i d amount]"
      "db_events db' = db_events db @ [new_event ei i INTENT_CREATED (create_payload d) 1 (e_now e)]"
      "db_merchants db' = db_merchants db" "res = Inr (mapRow (new_row e i d amount))"
proof (cases "insert_intent e (e_uuid e (db_ids db)) d db")
  case None
  with assms show ?thesis by (auto simp: create_intent_def Let_def intro: refused)
next
  case (Some rows)
  then obtain amount where "pg_decimal 20 8 (ni_target_amount d) = Some amount"
      "ni_merchant_id d \<in> m_id ` set (db_merchants db)"
      "rows = db_intents db @ [new_row e (e_uuid e (db_ids db)) d amount]"
      "e_uuid e (db_ids db) \<notin> pi_id ` set (db_intents db)"
    by (auto simp: insert_intent_def split: if_splits option.splits dest: tbl_insert_SomeD)
  note rows = this
  show ?thesis
  proof (cases "e_uuid e (Suc (db_ids db)) \<in> ev_id ` set (db_events db)")
    case True
    with assms Some show ?thesis
      by (intro refused [of "DbError ''intent_events''"])
         (auto simp: create_intent_def Let_def tbl_insert_def)
  next
    case False
    with assms Some rows show ?thesis
      by (intro written [of amount "e_uuid e (db_ids db)" "e_uuid e (Suc (db_ids db))"])
         (auto simp: create_intent_def Let_def tbl_insert_def)
  qed
qed

lemma updateQuoteE:
  assumes "updateQuote e i rate expires dep db = (db', res)"
  obtains (refused) x where "res = Inl x" "db' = db"
    | (written) row rate' where "tbl_find (\<lambda>r. pi_id r = i) (db_intents db) = Some row"
      "pg_decimal 20 8 rate = Some rate'"
      "db' = db\<lparr> db_intents := tbl_update (\<lambda>r. pi_id r = i)
         (set_quote rate' expires dep (e_now e)) (db_intents db) \<rparr>"
      "res = Inr (mapRow (set_quote rate' expires dep (e_now e) row))"
  using assms by (auto simp: updateQuote_def split: option.splits if_splits intro: refused written)

section \<open>The invariant\<close>

lemma create_ok:
  assumes "db_ok db" "create_intent e d db = (db', res)"
  shows "db_ok db'"
  using assms(2)
proof (cases rule: createE)
  case refused
  with assms(1) show ?thesis by (simp add: db_ok_def)
next
  case (written amount i ei)
  from assms(1) written(4) have "events_of (db_events db) i = []"
    by (intro events_of_empty) (auto simp: db_ok_def list_all_iff)
  moreover have "p \<in> set (db_intents db) \<Longrightarrow> pi_id p \<noteq> i" for p
    using written(4) by auto
  ultimately show ?thesis
    using assms(1) written
    by (auto simp: db_ok_def list_all_iff intent_ok_def Let_def isValidTransition_def)
qed

lemma transition_ok:
  assumes "db_ok db" "transition e i ty pl db = (db', res)"
  shows "db_ok db'"
proof -
  have dist: "distinct (map pi_id (db_intents db))" using assms(1) by (simp add: db_ok_def)
  show ?thesis using assms(2) dist
  proof (cases rule: transitionE)
    case refused
    with assms(1) show ?thesis by (simp add: db_ok_def)
  next
    case (written row)
    note find = tbl_find_SomeD [OF written(1)]
    have same: "r \<in> set (db_intents db) \<Longrightarrow> pi_id r = i \<Longrightarrow> r = row" for r
      using dist find by (metis distinct_map inj_onD)
    have ok: "intent_ok (db_events db') p" if p: "p \<in> set (db_intents db')" for p
      using p unfolding written(4)
    proof (cases rule: in_tbl_updateE)
      case old
      with assms(1) have "intent_ok (db_events db) p" by (simp add: db_ok_def list_all_iff)
      with old(2) show ?thesis by (simp add: written(5) intent_ok_def Let_def)
    next
      case (new r0)
      then have p: "p = set_state (getExpectedNextState ty) (pi_version row + 1) (e_now e) row"
        using same by auto
      from assms(1) find have "intent_ok (db_events db) row" by (simp add: db_ok_def list_all_iff)
      with find written(2) show ?thesis
        by (auto simp: p written(5) intent_ok_def Let_def intro: replay_snoc)
    qed
    have ids: "map pi_id (db_intents db') = map pi_id (db_intents db)"
      unfolding written(4) by (rule st.keys_kept)
    have fk: "list_all (\<lambda>p. pi_merchant_id p \<in> set (map m_id (db_merchants db))) (db_intents db')"
      using assms(1) unfolding written(4) by (auto simp: db_ok_def list_all_iff set_tbl_update)
    show ?thesis
      using assms(1) ok ids fk find dist written(3)
      by (auto simp: db_ok_def list_all_iff written(5,6) simp flip: image_set)
  qed
qed

lemma updateQuote_ok:
  assumes "db_ok db" "updateQuote e i rate expires dep db = (db', res)"
  shows "db_ok db'"
  using assms(2)
proof (cases rule: updateQuoteE)
  case refused
  with assms(1) show ?thesis by simp
next
  case (written row rate')
  have ids: "map pi_id (db_intents db') = map pi_id (db_intents db)"
    unfolding written(3) by (simp add: qt.keys_kept)
  moreover have "intent_ok evs (set_quote rate' expires dep (e_now e) p) = intent_ok evs p" for evs p
    by (simp add: intent_ok_def Let_def)
  ultimately show ?thesis
    using assms(1) by (auto simp: db_ok_def list_all_iff written(3) set_tbl_update simp flip: image_set)
qed

section \<open>Progress\<close>

text \<open>What may have happened to an intent between two moments.\<close>

definition same_order :: "payment_intent \<Rightarrow> payment_intent \<Rightarrow> bool" where
  "same_order p q = (pi_id q = pi_id p \<and> pi_merchant_id q = pi_merchant_id p
     \<and> pi_order_ref q = pi_order_ref p \<and> pi_target_amount q = pi_target_amount p
     \<and> pi_target_asset q = pi_target_asset p \<and> pi_target_chain q = pi_target_chain p
     \<and> pi_accepted_assets q = pi_accepted_assets p \<and> pi_created_at q = pi_created_at p)"

definition intent_le :: "payment_intent \<Rightarrow> payment_intent \<Rightarrow> bool" where
  "intent_le p q = (same_order p q \<and> pi_version p \<le> pi_version q
     \<and> path_in UNIV (pi_state p) (pi_state q))"

definition db_le :: "intent_db \<Rightarrow> intent_db \<Rightarrow> bool" where
  "db_le db db' = (prefix (db_events db) (db_events db') \<and> db_merchants db' = db_merchants db
     \<and> (\<forall>i p. tbl_find (\<lambda>r. pi_id r = i) (db_intents db) = Some p
          \<longrightarrow> (\<exists>q. tbl_find (\<lambda>r. pi_id r = i) (db_intents db') = Some q \<and> intent_le p q)))"

lemma intent_le_refl [simp]: "intent_le p p"
  by (simp add: intent_le_def same_order_def path_refl)

lemma intent_le_trans: "intent_le p q \<Longrightarrow> intent_le q r \<Longrightarrow> intent_le p r"
  unfolding intent_le_def same_order_def by (auto intro: path_in_trans)

lemma db_le_refl: "db_le db db"
  by (auto simp: db_le_def)

lemma db_le_trans:
  assumes "db_le a b" "db_le b c"
  shows "db_le a c"
  unfolding db_le_def
proof (intro conjI allI impI)
  show "prefix (db_events a) (db_events c)"
    using assms by (auto simp: db_le_def intro: prefix_order.order_trans)
  show "db_merchants c = db_merchants a" using assms by (simp add: db_le_def)
  fix i p assume "tbl_find (\<lambda>r. pi_id r = i) (db_intents a) = Some p"
  with assms(1) obtain q where q: "tbl_find (\<lambda>r. pi_id r = i) (db_intents b) = Some q" "intent_le p q"
    unfolding db_le_def by blast
  with assms(2) obtain r where "tbl_find (\<lambda>r. pi_id r = i) (db_intents c) = Some r" "intent_le q r"
    unfolding db_le_def by blast
  with q(2) show "\<exists>r. tbl_find (\<lambda>r. pi_id r = i) (db_intents c) = Some r \<and> intent_le p r"
    by (auto intro: intent_le_trans)
qed

lemma db_le_same:
  "db_intents db' = db_intents db \<Longrightarrow> db_events db' = db_events db \<Longrightarrow> db_merchants db' = db_merchants db
     \<Longrightarrow> db_le db db'"
  by (auto simp: db_le_def)

lemma create_le:
  assumes "create_intent e d db = (db', res)"
  shows "db_le db db'"
  using assms
proof (cases rule: createE)
  case refused
  then show ?thesis by (intro db_le_same) simp_all
next
  case written
  then show ?thesis by (auto simp: db_le_def tbl_find_append)
qed

lemma transition_le:
  assumes "db_ok db" "transition e i ty pl db = (db', res)"
  shows "db_le db db'"
proof -
  have dist: "distinct (map pi_id (db_intents db))" using assms(1) by (simp add: db_ok_def)
  show ?thesis using assms(2) dist
  proof (cases rule: transitionE)
    case refused
    then show ?thesis by (intro db_le_same) simp_all
  next
    case (written row)
    let ?f = "set_state (getExpectedNextState ty) (pi_version row + 1) (e_now e)"
    have le: "intent_le row (?f row)"
      using written(2) by (auto simp: intent_le_def same_order_def set_state_def
          intro: path_step path_refl)
    have "\<exists>q. tbl_find (\<lambda>r. pi_id r = j) (tbl_update (\<lambda>r. pi_id r = i) ?f (db_intents db)) = Some q
        \<and> intent_le p q" if "tbl_find (\<lambda>r. pi_id r = j) (db_intents db) = Some p" for j p
      using that written(1) le by (cases "j = i") (auto simp: st.find_updated st.find_other)
    then show ?thesis by (simp add: db_le_def written)
  qed
qed

lemma updateQuote_le:
  assumes "updateQuote e i rate expires dep db = (db', res)"
  shows "db_le db db'"
  using assms
proof (cases rule: updateQuoteE)
  case refused
  then show ?thesis by (simp add: db_le_refl)
next
  case (written row rate')
  let ?f = "set_quote rate' expires dep (e_now e)"
  have le: "intent_le r (?f r)" for r
    by (simp add: intent_le_def same_order_def set_quote_def path_refl)
  have "\<exists>q. tbl_find (\<lambda>r. pi_id r = j) (tbl_update (\<lambda>r. pi_id r = i) ?f (db_intents db)) = Some q
      \<and> intent_le p q" if "tbl_find (\<lambda>r. pi_id r = j) (db_intents db) = Some p" for j p
    using that le by (cases "j = i") (auto simp: qt.find_updated qt.find_other)
  then show ?thesis by (simp add: db_le_def written)
qed

section \<open>The repository as a machine\<close>

text \<open>Its writes, and an identifier drawn by another service.\<close>

datatype repo_op =
    Op_create env new_intent
  | Op_transition env string event_type payload
  | Op_updateQuote env string rat int "deposit_details option"
  | Op_generateId

fun repo_step :: "repo_op \<Rightarrow> intent_db \<Rightarrow> intent_db" where
  "repo_step (Op_create e d) db = fst (create_intent e d db)"
| "repo_step (Op_transition e i ty pl) db = fst (transition e i ty pl db)"
| "repo_step (Op_updateQuote e i rate x dep) db = fst (updateQuote e i rate x dep db)"
| "repo_step Op_generateId db = db\<lparr> db_ids := Suc (db_ids db) \<rparr>"

interpretation repo: ordered_machine repo_step db_ok db_le
proof
  show "db_ok (repo_step op db)" if "db_ok db" for op db
    using that
    by (cases op) (auto intro: create_ok transition_ok updateQuote_ok prod.collapse [symmetric])
  show "db_le db db" for db by (rule db_le_refl)
  show "db_le a b \<Longrightarrow> db_le b c \<Longrightarrow> db_le a c" for a b c by (rule db_le_trans)
  show "db_le db (repo_step op db)" if "db_ok db" for op db
    using that
    by (cases op) (auto intro: create_le transition_le updateQuote_le db_le_same
        prod.collapse [symmetric])
qed

text \<open>A caller of the repository has run some list of its operations.\<close>

definition repo_runs :: "intent_db \<Rightarrow> intent_db \<Rightarrow> bool" where
  "repo_runs db db' = (\<exists>ops. db' = fold repo_step ops db)"

lemma repo_runs_refl [simp, intro]: "repo_runs db db"
  unfolding repo_runs_def by (rule exI [of _ "[]"]) simp

lemma repo_runs_trans [trans]: "repo_runs a b \<Longrightarrow> repo_runs b c \<Longrightarrow> repo_runs a c"
  unfolding repo_runs_def
proof (elim exE)
  fix xs ys assume "b = fold repo_step xs a" "c = fold repo_step ys b"
  then show "\<exists>ops. c = fold repo_step ops a" by (intro exI [of _ "xs @ ys"]) simp
qed

lemma repo_runs_step: "repo_runs db (repo_step op db)"
  unfolding repo_runs_def by (rule exI [of _ "[op]"]) simp

lemma repo_runs_ops [intro]:
  "create_intent e d db = (db', res1) \<Longrightarrow> repo_runs db db'"
  "transition e i ty pl db = (db', res2) \<Longrightarrow> repo_runs db db'"
  "updateQuote e i rate x dep db = (db', res3) \<Longrightarrow> repo_runs db db'"
  using repo_runs_step [of db "Op_create e d"] repo_runs_step [of db "Op_transition e i ty pl"]
    repo_runs_step [of db "Op_updateQuote e i rate x dep"] by simp_all

lemma repo_runs_id [simp, intro]: "repo_runs db (db\<lparr> db_ids := Suc (db_ids db) \<rparr>)"
  using repo_runs_step [of db Op_generateId] by simp

lemma repo_runs_ok: "repo_runs db db' \<Longrightarrow> db_ok db \<Longrightarrow> db_ok db'"
  unfolding repo_runs_def using repo.inv_run by blast

lemma repo_runs_le: "repo_runs db db' \<Longrightarrow> db_ok db \<Longrightarrow> db_le db db'"
  unfolding repo_runs_def using repo.le_run by blast

end
