(* ===== verification/Webhook_Delivery.thy ===== *)
theory Webhook_Delivery
  imports Intent_Invariant
begin

text \<open>
  \<open>WebhookDeliveryService\<close> (\<open>packages/payment-intent/src/webhook-delivery.service.ts\<close>): the
  webhook_deliveries table, one row per intent and event type, the immediate attempt and the
  retry sweep.  The HTTP request and the HMAC are parameters; \<open>gw_sent\<close> is the trace of the
  requests that left the process.
\<close>

datatype delivery_status = D_PENDING | D_DELIVERED | D_FAILED

record delivery =
  wd_id :: string
  wd_intent_id :: string
  wd_event_type :: event_type
  wd_webhook_url :: string
  wd_payload :: payload
  wd_status :: delivery_status
  wd_attempt_count :: nat
  wd_last_attempt_at :: "int option"
  wd_last_error :: "string option"
  wd_next_retry_at :: "int option"
  wd_created_at :: int
  wd_updated_at :: "int option"
  wd_completed_at :: "int option"

text \<open>What \<open>fetch\<close> comes back with: a response, or an exception (network, time limit).\<close>

datatype http_outcome = Response int string | FetchError string

record sent_request =
  sr_url :: string
  sr_event :: event_type
  sr_delivery_id :: string
  sr_signature :: json
  sr_body :: payload

record gateway =
  gw_db :: intent_db
  gw_deliveries :: "delivery list"
  gw_sent :: "sent_request list"

record webhook_env =
  w_env :: env
  w_sign :: "string \<Rightarrow> event_type \<Rightarrow> payload \<Rightarrow> string"
  w_post :: "sent_request \<Rightarrow> http_outcome"
  w_status_error :: "int \<Rightarrow> string \<Rightarrow> string"

definition RETRY_DELAYS_MS :: "int list" where
  "RETRY_DELAYS_MS = [0, 1000, 5000, 30000, 300000]"

definition MAX_ATTEMPTS :: nat where
  "MAX_ATTEMPTS = 5"

text \<open>\<open>RETRY_DELAYS_MS[n] ?? RETRY_DELAYS_MS[RETRY_DELAYS_MS.length - 1] ?? 0\<close>\<close>

definition retry_delay :: "nat \<Rightarrow> int" where
  "retry_delay n = (if n < length RETRY_DELAYS_MS then RETRY_DELAYS_MS ! n else last RETRY_DELAYS_MS)"

definition getDelivery :: "delivery list \<Rightarrow> string \<Rightarrow> delivery option" where
  "getDelivery rows i = tbl_find (\<lambda>d. wd_id d = i) rows"

definition set_delivery_status ::
    "int \<Rightarrow> delivery_status \<Rightarrow> nat \<Rightarrow> int option \<Rightarrow> string option \<Rightarrow> delivery \<Rightarrow> delivery" where
  "set_delivery_status now s n retry_at err d = d\<lparr>
     wd_status := s, wd_attempt_count := n, wd_last_attempt_at := Some now,
     wd_next_retry_at := retry_at, wd_last_error := truthy_str err,
     wd_completed_at := (if s \<in> {D_DELIVERED, D_FAILED} then Some now else wd_completed_at d) \<rparr>"

definition updateDeliveryStatus ::
    "int \<Rightarrow> string \<Rightarrow> delivery_status \<Rightarrow> nat \<Rightarrow> int option \<Rightarrow> string option \<Rightarrow> delivery list \<Rightarrow> delivery list" where
  "updateDeliveryStatus now i s n retry_at err rows =
     tbl_update (\<lambda>d. wd_id d = i) (set_delivery_status now s n retry_at err) rows"

definition upsertDelivery ::
    "webhook_env \<Rightarrow> string \<Rightarrow> event_type \<Rightarrow> string \<Rightarrow> payload \<Rightarrow> gateway \<Rightarrow> gateway \<times> string outcome" where
  "upsertDelivery w i ty url pl g =
     (let now = e_now (w_env w);
          fresh = e_uuid (w_env w) (db_ids (gw_db g));
          g1 = g\<lparr> gw_db := (gw_db g)\<lparr> db_ids := Suc (db_ids (gw_db g)) \<rparr> \<rparr>;
          same = (\<lambda>d. wd_intent_id d = i \<and> wd_event_type d = ty)
      in case tbl_find same (gw_deliveries g) of
           Some d \<Rightarrow>
             (g1\<lparr> gw_deliveries := tbl_update same
                    (\<lambda>d. d\<lparr> wd_payload := pl, wd_webhook_url := url, wd_updated_at := Some now \<rparr>)
                    (gw_deliveries g) \<rparr>, Inr (wd_id d))
         | None \<Rightarrow>
             (case tbl_insert wd_id
                 \<lparr> wd_id = fresh, wd_intent_id = i, wd_event_type = ty, wd_webhook_url = url,
                   wd_payload = pl, wd_status = D_PENDING, wd_attempt_count = 0,
                   wd_last_attempt_at = None, wd_last_error = None, wd_next_retry_at = None,
                   wd_created_at = now, wd_updated_at = None, wd_completed_at = None \<rparr>
                 (gw_deliveries g) of
                None \<Rightarrow> (g1, Inl (DbError ''webhook_deliveries''))
              | Some rows \<Rightarrow> (g1\<lparr> gw_deliveries := rows \<rparr>, Inr fresh)))"

definition request_of :: "delivery \<Rightarrow> sent_request" where
  "request_of d = \<lparr> sr_url = wd_webhook_url d, sr_event = wd_event_type d, sr_delivery_id = wd_id d,
     sr_signature = (case map_of (wd_payload d) ''signature'' of None \<Rightarrow> JStr [] | Some s \<Rightarrow> s),
     sr_body = wd_payload d \<rparr>"

definition attemptDelivery :: "webhook_env \<Rightarrow> string \<Rightarrow> gateway \<Rightarrow> gateway" where
  "attemptDelivery w i g =
     (let now = e_now (w_env w) in
      case getDelivery (gw_deliveries g) i of
        None \<Rightarrow> g
      | Some d \<Rightarrow>
          (let attempt = wd_attempt_count d + 1;
               delayMs = retry_delay (attempt - 1);
               upd = (\<lambda>s retry_at err g. g\<lparr> gw_deliveries :=
                        updateDeliveryStatus now i s attempt retry_at err (gw_deliveries g) \<rparr>)
           in if 1 < attempt then upd D_PENDING (Some (now + delayMs)) None g
              else
                let g1 = g\<lparr> gw_sent := gw_sent g @ [request_of d] \<rparr>;
                    failed = (\<lambda>msg. if MAX_ATTEMPTS \<le> attempt then upd D_FAILED None (Some msg) g1
                                   else upd D_PENDING (Some (now + retry_delay attempt)) (Some msg) g1)
                in case w_post w (request_of d) of
                     Response code txt \<Rightarrow>
                       if 200 \<le> code \<and> code \<le> 299 then upd D_DELIVERED None None g1
                       else failed (w_status_error w code txt)
                   | FetchError msg \<Rightarrow> failed msg))"

definition deliverWebhook ::
    "webhook_env \<Rightarrow> payment_intent \<Rightarrow> event_type \<Rightarrow> payload \<Rightarrow> gateway \<Rightarrow> gateway \<times> unit outcome" where
  "deliverWebhook w p ty data g =
     (case getById (db_merchants (gw_db g)) (pi_merchant_id p) of
        None \<Rightarrow> (g, Inr ())
      | Some m \<Rightarrow>
          (case m_webhook_url m of
             None \<Rightarrow> (g, Inr ())
           | Some url \<Rightarrow>
               andThen (upsertDelivery w (pi_id p) ty url
                 [(''intent_id'', JStr (pi_id p)), (''event_type'', JStr (event_name ty)),
                  (''state'', JStr (state_name (pi_state p))), (''timestamp'', JTime (e_now (w_env w))),
                  (''data'', JObj data), (''signature'', JStr (w_sign w (pi_id p) ty data))] g)
                 (\<lambda>g i. (attemptDelivery w i g, Inr ()))))"

text \<open>The rows the retry sweep selects, and the sweep.\<close>

definition due_deliveries :: "int \<Rightarrow> delivery list \<Rightarrow> delivery list" where
  "due_deliveries now rows = take 100 (order_asc wd_created_at (filter
     (\<lambda>d. wd_status d = D_PENDING \<and> wd_attempt_count d < MAX_ATTEMPTS
        \<and> (case wd_next_retry_at d of None \<Rightarrow> True | Some t \<Rightarrow> t \<le> now)) rows))"

definition processRetries :: "webhook_env \<Rightarrow> gateway \<Rightarrow> gateway \<times> nat" where
  "processRetries w g =
     (let ids = map wd_id (due_deliveries (e_now (w_env w)) (gw_deliveries g))
      in (fold (attemptDelivery w) ids g, length ids))"

definition getStats :: "delivery list \<Rightarrow> nat \<times> nat \<times> nat" where
  "getStats rows =
     (let c = (\<lambda>s. length (filter (\<lambda>d. wd_status d = s) rows)) in (c D_PENDING, c D_DELIVERED, c D_FAILED))"

section \<open>Lemmas\<close>

lemma set_delivery_status_simps [simp]:
  "wd_id (set_delivery_status now s n r x d) = wd_id d"
  "wd_intent_id (set_delivery_status now s n r x d) = wd_intent_id d"
  "wd_event_type (set_delivery_status now s n r x d) = wd_event_type d"
  "wd_status (set_delivery_status now s n r x d) = s"
  "wd_attempt_count (set_delivery_status now s n r x d) = n"
  by (simp_all add: set_delivery_status_def)

interpretation wd: keyed_update wd_id "set_delivery_status now s n r x" for now s n r x
  by unfold_locales simp

text \<open>One row per intent and event type: the UNIQUE constraint the upsert relies on.\<close>

definition delivery_key :: "delivery \<Rightarrow> string \<times> event_type" where
  "delivery_key d = (wd_intent_id d, wd_event_type d)"

definition deliveries_ok :: "delivery list \<Rightarrow> bool" where
  "deliveries_ok rows = (distinct (map wd_id rows) \<and> distinct (map delivery_key rows))"

lemma attemptDelivery_db [simp]: "gw_db (attemptDelivery w i g) = gw_db g"
  by (simp add: attemptDelivery_def Let_def split: option.splits http_outcome.splits)

lemma upsertDelivery_db: "gw_db (fst (upsertDelivery w i ty url pl g))
    = (gw_db g)\<lparr> db_ids := Suc (db_ids (gw_db g)) \<rparr>"
  by (simp add: upsertDelivery_def Let_def split: option.splits)

lemma andThen_gw_db: "(\<And>s v. gw_db (fst (k s v)) = gw_db s) \<Longrightarrow> gw_db (fst (andThen m k)) = gw_db (fst m)"
  by (cases m; cases "snd m") auto

lemma deliverWebhook_db: "gw_db (fst (deliverWebhook w p ty data g)) = gw_db g
    \<or> gw_db (fst (deliverWebhook w p ty data g)) = (gw_db g)\<lparr> db_ids := Suc (db_ids (gw_db g)) \<rparr>"
  by (simp add: deliverWebhook_def andThen_gw_db upsertDelivery_db split: option.splits)

lemma deliverWebhook_runs: "repo_runs (gw_db g) (gw_db (fst (deliverWebhook w p ty data g)))"
  using deliverWebhook_db [of w p ty data g] by (elim disjE) simp_all

lemma deliverWebhook_tables [simp]:
  "db_intents (gw_db (fst (deliverWebhook w p ty data g))) = db_intents (gw_db g)"
  "db_events (gw_db (fst (deliverWebhook w p ty data g))) = db_events (gw_db g)"
  "db_merchants (gw_db (fst (deliverWebhook w p ty data g))) = db_merchants (gw_db g)"
  using deliverWebhook_db [of w p ty data g] by (elim disjE; simp)+

lemma upsertDelivery_ok:
  assumes "deliveries_ok (gw_deliveries g)"
  shows "deliveries_ok (gw_deliveries (fst (upsertDelivery w i ty url pl g)))"
proof (cases "tbl_find (\<lambda>d. wd_intent_id d = i \<and> wd_event_type d = ty) (gw_deliveries g)")
  case None
  then have "(i, ty) \<notin> delivery_key ` set (gw_deliveries g)"
    by (auto simp: tbl_find_None_iff delivery_key_def)
  with None assms show ?thesis
    by (auto simp: upsertDelivery_def Let_def deliveries_ok_def tbl_insert_def delivery_key_def)
next
  case (Some d)
  with assms show ?thesis
    by (simp add: upsertDelivery_def Let_def deliveries_ok_def map_tbl_update_same delivery_key_def)
qed

lemma updateDeliveryStatus_ok:
  "deliveries_ok rows \<Longrightarrow> deliveries_ok (updateDeliveryStatus now i s n r x rows)"
  by (simp add: updateDeliveryStatus_def deliveries_ok_def map_tbl_update_same delivery_key_def)

lemma attemptDelivery_ok:
  "deliveries_ok (gw_deliveries g) \<Longrightarrow> deliveries_ok (gw_deliveries (attemptDelivery w i g))"
  by (auto simp: attemptDelivery_def Let_def updateDeliveryStatus_ok split: option.splits http_outcome.splits)

lemma deliverWebhook_ok:
  "deliveries_ok (gw_deliveries g) \<Longrightarrow> deliveries_ok (gw_deliveries (fst (deliverWebhook w p ty data g)))"
  by (simp add: deliverWebhook_def upsertDelivery_ok attemptDelivery_ok
      andThen_inv [where P = "\<lambda>g. deliveries_ok (gw_deliveries g)"] split: option.splits)

section \<open>A row is posted at most once\<close>

text \<open>Once a row counts an attempt, an attempt only moves its retry time.\<close>

lemma attempt_again:
  assumes "getDelivery (gw_deliveries g) i = Some d" "1 \<le> wd_attempt_count d"
  shows "attemptDelivery w i g = g\<lparr> gw_deliveries := updateDeliveryStatus (e_now (w_env w)) i D_PENDING
     (wd_attempt_count d + 1) (Some (e_now (w_env w) + retry_delay (wd_attempt_count d))) None
     (gw_deliveries g) \<rparr>"
  using assms by (simp add: attemptDelivery_def Let_def)

definition attempted :: "delivery list \<Rightarrow> bool" where
  "attempted rows = list_all (\<lambda>d. 1 \<le> wd_attempt_count d) rows"

lemma attemptDelivery_attempted:
  assumes "attempted (gw_deliveries g)"
  shows "gw_sent (attemptDelivery w i g) = gw_sent g \<and> attempted (gw_deliveries (attemptDelivery w i g))
     \<and> (\<forall>d \<in> set (gw_deliveries (attemptDelivery w i g)).
          wd_status d = D_PENDING \<or> d \<in> set (gw_deliveries g))"
proof (cases "getDelivery (gw_deliveries g) i")
  case None
  with assms show ?thesis by (simp add: attemptDelivery_def)
next
  case (Some d)
  then have "d \<in> set (gw_deliveries g)" by (auto simp: getDelivery_def dest: tbl_find_SomeD)
  with assms have "1 \<le> wd_attempt_count d" by (simp add: attempted_def list_all_iff)
  from attempt_again [OF Some this] assms show ?thesis
    by (auto simp: attempted_def list_all_iff updateDeliveryStatus_def set_tbl_update split: if_splits)
qed

lemma fold_attempted:
  assumes "attempted (gw_deliveries g)"
  shows "gw_sent (fold (attemptDelivery w) ids g) = gw_sent g
     \<and> attempted (gw_deliveries (fold (attemptDelivery w) ids g))
     \<and> (\<forall>d \<in> set (gw_deliveries (fold (attemptDelivery w) ids g)).
          wd_status d = D_PENDING \<or> d \<in> set (gw_deliveries g))"
  using assms
proof (induction ids arbitrary: g)
  case (Cons i ids)
  note step = attemptDelivery_attempted [OF Cons.prems, of w i]
  from Cons.IH [of "attemptDelivery w i g"] step show ?case by (auto simp: Ball_def)
qed simp

text \<open>Every delivery is attempted in the call that records it, so no stored row is unattempted.\<close>

lemma attemptDelivery_completes:
  assumes "\<forall>d \<in> set (gw_deliveries g). 1 \<le> wd_attempt_count d \<or> wd_id d = i"
  shows "attempted (gw_deliveries (attemptDelivery w i g))"
proof (cases "getDelivery (gw_deliveries g) i")
  case None
  then have "attemptDelivery w i g = g" by (simp add: attemptDelivery_def)
  with None assms show ?thesis
    by (auto simp: attempted_def list_all_iff getDelivery_def tbl_find_None_iff)
next
  case (Some d)
  have upd: "attempted (updateDeliveryStatus now i s (Suc n) r x (gw_deliveries g))" for now s n r x
    using assms by (auto simp: attempted_def list_all_iff updateDeliveryStatus_def set_tbl_update)
  from Some show ?thesis by (simp add: attemptDelivery_def Let_def upd split: http_outcome.splits)
qed

lemma deliverWebhook_attempted:
  assumes "attempted (gw_deliveries g)"
  shows "attempted (gw_deliveries (fst (deliverWebhook w p ty data g)))"
proof -
  have "attempted (gw_deliveries (fst (andThen (upsertDelivery w i ty url pl g)
      (\<lambda>g i. (attemptDelivery w i g, Inr ())))))" for i url pl
  proof (cases "upsertDelivery w i ty url pl g")
    case (Pair g1 r)
    show ?thesis
    proof (cases r)
      case (Inl x)
      with Pair assms show ?thesis
        by (auto simp: upsertDelivery_def Let_def split: option.splits)
    next
      case (Inr k)
      with Pair assms have "\<forall>d \<in> set (gw_deliveries g1). 1 \<le> wd_attempt_count d \<or> wd_id d = k"
        by (auto simp: upsertDelivery_def Let_def attempted_def list_all_iff set_tbl_update
            split: option.splits dest!: tbl_insert_SomeD)
      with Pair Inr show ?thesis by (simp add: attemptDelivery_completes)
    qed
  qed
  with assms show ?thesis by (simp add: deliverWebhook_def split: option.splits)
qed

end
