(* ===== verification/Intent_Service.thy ===== *)
theory Intent_Service
  imports Webhook_Delivery
begin

text \<open>
  \<open>PaymentIntentService\<close> (\<open>packages/payment-intent/src/payment-intent.service.ts\<close>): the handlers
  of the intent lifecycle, each a read, the guards, one or two repository writes and a webhook.
  Every clock read of one call is the same instant, the one of its environment.
\<close>

definition on_db :: "(intent_db \<Rightarrow> intent_db \<times> 'a outcome) \<Rightarrow> gateway \<Rightarrow> gateway \<times> 'a outcome" where
  "on_db f g = (case f (gw_db g) of (db, r) \<Rightarrow> (g\<lparr> gw_db := db \<rparr>, r))"

definition svc_transition ::
    "webhook_env \<Rightarrow> string \<Rightarrow> event_type \<Rightarrow> payload \<Rightarrow> gateway \<Rightarrow> gateway \<times> payment_intent outcome" where
  "svc_transition w i ty pl = on_db (transition (w_env w) i ty pl)"

text \<open>
  The tail the handlers share: transition, deliver the webhook of the new state, return it.
\<close>

definition transition_and_deliver ::
    "webhook_env \<Rightarrow> string \<Rightarrow> event_type \<Rightarrow> payload \<Rightarrow> payload \<Rightarrow> gateway \<Rightarrow> gateway \<times> payment_intent outcome"
  where
  "transition_and_deliver w i ty pl data g =
     andThen (svc_transition w i ty pl g) (\<lambda>g updated.
       andThen (deliverWebhook w updated ty data g) (\<lambda>g _. (g, Inr updated)))"

definition createIntent :: "webhook_env \<Rightarrow> new_intent \<Rightarrow> gateway \<Rightarrow> gateway \<times> payment_intent outcome" where
  "createIntent w d g =
     (case getById (db_merchants (gw_db g)) (ni_merchant_id d) of
        None \<Rightarrow> (g, Inl (ValidationError ''Merchant not found''))
      | Some m \<Rightarrow>
          if ni_target_asset d \<notin> set (m_accepted_assets m)
          then (g, Inl (ValidationError ''Target asset not accepted by merchant''))
          else if ni_target_chain d \<notin> set (m_accepted_chains m)
          then (g, Inl (ValidationError ''Target chain not accepted by merchant''))
          else if ni_target_amount d \<le> 0
          then (g, Inl (ValidationError ''Target amount must be positive''))
          else if 1000000 < ni_target_amount d
          then (g, Inl (ValidationError ''Target amount exceeds maximum''))
          else andThen (on_db (create_intent (w_env w) d) g) (\<lambda>g intent.
                 andThen (deliverWebhook w intent INTENT_CREATED
                   [(''merchant_id'', JStr (pi_merchant_id intent)),
                    (''order_ref'', JStr (pi_order_ref intent)),
                    (''target_amount'', JNum (pi_target_amount intent)),
                    (''target_asset'', JStr (pi_target_asset intent)),
                    (''target_chain'', JStr (pi_target_chain intent))] g)
                   (\<lambda>g _. (g, Inr intent))))"

record quote =
  q_rate :: rat
  q_expires_at :: int
  q_deposit_address :: string
  q_deposit_asset :: string
  q_deposit_chain :: string

definition quote_json :: "quote \<Rightarrow> json" where
  "quote_json q = JObj [(''rate'', JNum (q_rate q)), (''expires_at'', JTime (q_expires_at q)),
     (''deposit_address'', JStr (q_deposit_address q)), (''deposit_asset'', JStr (q_deposit_asset q)),
     (''deposit_chain'', JStr (q_deposit_chain q))]"

text \<open>\<open>merchant?.quote_ttl_seconds || 300\<close>: zero and a missing merchant both mean 300.\<close>

definition ttl_seconds :: "merchant option \<Rightarrow> int" where
  "ttl_seconds m = (case m of None \<Rightarrow> 300
     | Some x \<Rightarrow> if m_quote_ttl_seconds x = 0 then 300 else m_quote_ttl_seconds x)"

definition generateQuote ::
    "webhook_env \<Rightarrow> string \<Rightarrow> rat \<Rightarrow> string \<Rightarrow> string \<Rightarrow> string \<Rightarrow> gateway
       \<Rightarrow> gateway \<times> (payment_intent \<times> quote) outcome" where
  "generateQuote w i rate addr asset chain g =
     (case findById (gw_db g) i of
        None \<Rightarrow> (g, Inl (IntentNotFoundError i))
      | Some intent \<Rightarrow>
          if \<not> isValidTransition VALID_TRANSITIONS (pi_state intent) QUOTED
          then (g, Inl (ValidationError (''Cannot generate quote in state: '' @ state_name (pi_state intent))))
          else
            let ttl = ttl_seconds (getById (db_merchants (gw_db g)) (pi_merchant_id intent));
                expiresAt = e_now (w_env w) + ttl * 1000;
                q = \<lparr> q_rate = rate, q_expires_at = expiresAt, q_deposit_address = addr,
                      q_deposit_asset = asset, q_deposit_chain = chain \<rparr>
            in andThen (on_db (updateQuote (w_env w) i rate expiresAt
                  (Some \<lparr> dd_address = addr, dd_asset = asset, dd_chain = chain \<rparr>)) g) (\<lambda>g _.
               andThen (svc_transition w i QUOTE_GENERATED
                  [(''rate'', JNum rate), (''deposit_address'', JStr addr), (''deposit_asset'', JStr asset),
                   (''deposit_chain'', JStr chain), (''expires_at'', JTime expiresAt)] g) (\<lambda>g t.
               andThen (deliverWebhook w t QUOTE_GENERATED [(''quote'', quote_json q)] g) (\<lambda>g _.
                 (g, Inr (t, q))))))"

definition awaitPayment :: "webhook_env \<Rightarrow> string \<Rightarrow> gateway \<Rightarrow> gateway \<times> payment_intent outcome" where
  "awaitPayment w i g =
     (case findById (gw_db g) i of
        None \<Rightarrow> (g, Inl (IntentNotFoundError i))
      | Some intent \<Rightarrow>
          if \<not> isValidTransition VALID_TRANSITIONS (pi_state intent) AWAITING_PAYMENT
          then (g, Inl (ValidationError (''Cannot await payment in state: '' @ state_name (pi_state intent))))
          else svc_transition w i PAYMENT_AWAITED
                 [(''deposit_address'', opt_str (pi_deposit_address intent)),
                  (''deposit_asset'', opt_str (pi_deposit_asset intent)),
                  (''deposit_chain'', opt_str (pi_deposit_chain intent)),
                  (''quote_expires_at'', opt_time (pi_quote_expires_at intent)),
                  (''awaited_at'', JTime (e_now (w_env w)))] g)"

definition tolerance :: rat where
  "tolerance = 1 / 100"

definition quote_expired :: "int \<Rightarrow> payment_intent \<Rightarrow> bool" where
  "quote_expired now p = (case pi_quote_expires_at p of None \<Rightarrow> False | Some t \<Rightarrow> t < now)"

definition detectDeposit ::
    "webhook_env \<Rightarrow> string \<Rightarrow> string \<Rightarrow> rat \<Rightarrow> string \<Rightarrow> string \<Rightarrow> gateway
       \<Rightarrow> gateway \<times> payment_intent outcome" where
  "detectDeposit w i txHash amount sourceChain sourceAsset g =
     (case findById (gw_db g) i of
        None \<Rightarrow> (g, Inl (IntentNotFoundError i))
      | Some intent \<Rightarrow>
          if quote_expired (e_now (w_env w)) intent
          then andThen (svc_transition w i QUOTE_EXPIRED [(''expired_at'', JTime (e_now (w_env w)))] g)
                 (\<lambda>g _. (g, Inl (QuoteExpiredError i)))
          else
            let expected = pi_target_amount intent in
            if amount < expected * (1 - tolerance)
            then transition_and_deliver w i UNDERPAYMENT_DETECTED
                   [(''expected'', JNum expected), (''received'', JNum amount),
                    (''shortfall'', JNum (expected - amount)), (''tx_hash'', JStr txHash),
                    (''source_chain'', JStr sourceChain), (''source_asset'', JStr sourceAsset)]
                   [(''expected'', JNum expected), (''received'', JNum amount),
                    (''shortfall'', JNum (expected - amount)), (''tx_hash'', JStr txHash)] g
            else if expected * (1 + tolerance) < amount
            then transition_and_deliver w i OVERPAYMENT_DETECTED
                   [(''expected'', JNum expected), (''received'', JNum amount),
                    (''excess'', JNum (amount - expected)), (''tx_hash'', JStr txHash),
                    (''source_chain'', JStr sourceChain), (''source_asset'', JStr sourceAsset)]
                   [(''expected'', JNum expected), (''received'', JNum amount),
                    (''excess'', JNum (amount - expected)), (''tx_hash'', JStr txHash)] g
            else transition_and_deliver w i DEPOSIT_DETECTED
                   [(''tx_hash'', JStr txHash), (''amount'', JNum amount),
                    (''source_chain'', JStr sourceChain), (''source_asset'', JStr sourceAsset),
                    (''detected_at'', JTime (e_now (w_env w)))]
                   [(''tx_hash'', JStr txHash), (''amount'', JNum amount),
                    (''source_chain'', JStr sourceChain), (''source_asset'', JStr sourceAsset)] g)"

definition recordDeposit ::
    "webhook_env \<Rightarrow> string \<Rightarrow> string \<Rightarrow> rat \<Rightarrow> string \<Rightarrow> string \<Rightarrow> gateway
       \<Rightarrow> gateway \<times> payment_intent outcome" where
  "recordDeposit w i txHash amount sourceChain sourceAsset g =
     (case findById (gw_db g) i of
        None \<Rightarrow> (g, Inl (IntentNotFoundError i))
      | Some intent \<Rightarrow>
          if pi_state intent \<notin> {QUOTED, AWAITING_PAYMENT, UNDERPAID} then (g, Inr intent)
          else
            andThen (if pi_state intent = QUOTED then awaitPayment w i g else (g, Inr intent)) (\<lambda>g _.
              case detectDeposit w i txHash amount sourceChain sourceAsset g of
                (g, Inr p) \<Rightarrow> (g, Inr p)
              | (g, Inl x) \<Rightarrow>
                  (case x of
                     QuoteExpiredError _ \<Rightarrow>
                       (case findById (gw_db g) i of Some expired \<Rightarrow> (g, Inr expired) | None \<Rightarrow> (g, Inl x))
                   | _ \<Rightarrow> (g, Inl x))))"

definition confirmDeposit :: "webhook_env \<Rightarrow> string \<Rightarrow> rat \<Rightarrow> gateway \<Rightarrow> gateway \<times> payment_intent outcome" where
  "confirmDeposit w i confirmationCount g =
     (case findById (gw_db g) i of
        None \<Rightarrow> (g, Inl (IntentNotFoundError i))
      | Some _ \<Rightarrow> transition_and_deliver w i CONFIRMATION_RECEIVED
          [(''confirmation_count'', JNum confirmationCount), (''confirmed_at'', JTime (e_now (w_env w)))]
          [(''confirmation_count'', JNum confirmationCount)] g)"

definition selectRoute ::
    "webhook_env \<Rightarrow> string \<Rightarrow> string \<Rightarrow> string \<Rightarrow> rat \<Rightarrow> rat \<Rightarrow> gateway \<Rightarrow> gateway \<times> payment_intent outcome" where
  "selectRoute w i routeId provider estimatedFee estimatedTime g =
     (case findById (gw_db g) i of
        None \<Rightarrow> (g, Inl (IntentNotFoundError i))
      | Some _ \<Rightarrow> transition_and_deliver w i ROUTE_SELECTED
          [(''route_id'', JStr routeId), (''provider'', JStr provider), (''estimated_fee'', JNum estimatedFee),
           (''estimated_time'', JNum estimatedTime), (''selected_at'', JTime (e_now (w_env w)))]
          [(''route_id'', JStr routeId), (''provider'', JStr provider), (''estimated_fee'', JNum estimatedFee),
           (''estimated_time'', JNum estimatedTime)] g)"

definition initiateSettlement :: "webhook_env \<Rightarrow> string \<Rightarrow> rat \<Rightarrow> gateway \<Rightarrow> gateway \<times> payment_intent outcome" where
  "initiateSettlement w i settlementAmount g =
     (case findById (gw_db g) i of
        None \<Rightarrow> (g, Inl (IntentNotFoundError i))
      | Some _ \<Rightarrow> transition_and_deliver w i SETTLEMENT_INITIATED
          [(''settlement_amount'', JNum settlementAmount), (''initiated_at'', JTime (e_now (w_env w)))]
          [(''settlement_amount'', JNum settlementAmount)] g)"

definition confirmSettlement :: "webhook_env \<Rightarrow> string \<Rightarrow> string \<Rightarrow> gateway \<Rightarrow> gateway \<times> payment_intent outcome" where
  "confirmSettlement w i txHash g =
     (case findById (gw_db g) i of
        None \<Rightarrow> (g, Inl (IntentNotFoundError i))
      | Some _ \<Rightarrow> transition_and_deliver w i SETTLEMENT_CONFIRMED
          [(''settlement_tx_hash'', JStr txHash), (''settled_at'', JTime (e_now (w_env w)))]
          [(''settlement_tx_hash'', JStr txHash)] g)"

definition failIntent ::
    "webhook_env \<Rightarrow> string \<Rightarrow> string \<Rightarrow> string option \<Rightarrow> gateway \<Rightarrow> gateway \<times> payment_intent outcome" where
  "failIntent w i reason err g =
     (case findById (gw_db g) i of
        None \<Rightarrow> (g, Inl (IntentNotFoundError i))
      | Some _ \<Rightarrow> transition_and_deliver w i EV_FAILED
          ([(''reason'', JStr reason)] @ undef_field ''error'' err @ [(''failed_at'', JTime (e_now (w_env w)))])
          ([(''reason'', JStr reason)] @ undef_field ''error'' err) g)"

definition getIntent :: "gateway \<Rightarrow> string \<Rightarrow> payment_intent option" where
  "getIntent g i = findById (gw_db g) i"

definition getIntentWithEvents :: "gateway \<Rightarrow> string \<Rightarrow> (payment_intent \<times> intent_event list) option" where
  "getIntentWithEvents g i = (case findById (gw_db g) i of
     None \<Rightarrow> None | Some p \<Rightarrow> Some (p, getEvents (gw_db g) i))"

definition getMerchantIntents :: "gateway \<Rightarrow> string \<Rightarrow> nat option \<Rightarrow> nat option \<Rightarrow> payment_intent list" where
  "getMerchantIntents g m limit off = findByMerchantId (gw_db g) m
     (case limit of None \<Rightarrow> 50 | Some n \<Rightarrow> n) (case off of None \<Rightarrow> 0 | Some n \<Rightarrow> n)"

definition getMerchantStats :: "gateway \<Rightarrow> string \<Rightarrow> intent_state \<Rightarrow> nat option" where
  "getMerchantStats g m = getCountByState (gw_db g) m"

text \<open>
  One turn of the expiry sweep: a throw is caught and logged; the webhook carries the intent as
  it was read, before the transition.
\<close>

definition expire_one :: "webhook_env \<Rightarrow> payment_intent \<Rightarrow> gateway \<Rightarrow> gateway" where
  "expire_one w intent g = fst
     (andThen (svc_transition w (pi_id intent) QUOTE_EXPIRED [(''expired_at'', JTime (e_now (w_env w)))] g)
        (\<lambda>g _. deliverWebhook w intent QUOTE_EXPIRED [(''intent_id'', JStr (pi_id intent))] g))"

definition processExpiredQuotes :: "webhook_env \<Rightarrow> gateway \<Rightarrow> gateway \<times> nat" where
  "processExpiredQuotes w g =
     (let expired = findExpiredIntents (e_now (w_env w)) (gw_db g)
      in (fold (expire_one w) expired g, length expired))"

end
