(* ===== verification/Worker.thy ===== *)
theory Worker
  imports Confirmation_Tracker Intent_Service
begin

text \<open>
  The worker process: its job handlers (\<open>packages/worker/src/job-handlers.ts\<close>), the chain
  registry (\<open>packages/chain-abstraction/src/chain-registry.ts\<close>), the health endpoint's decisions
  (\<open>health-server.ts\<close>) and the composition (\<open>composition.ts\<close>) as a machine whose steps are a
  watcher refresh, a reported deposit, a confirmation sweep and a turn of the queue loop.
\<close>

section \<open>Job handlers\<close>

text \<open>How an error of the intent service looks to the queue.\<close>

fun error_of :: "gateway_error \<Rightarrow> js_error" where
  "error_of (ValidationError msg) = JsError ''GatewayError'' msg"
| "error_of (IntentNotFoundError i) = JsError ''GatewayError'' (''Payment intent not found: '' @ i)"
| "error_of (QuoteExpiredError i) = JsError ''GatewayError'' (''Quote has expired for intent: '' @ i)"
| "error_of (IntentNotFound i) = JsError ''Error'' (''Intent not found: '' @ i)"
| "error_of (InvalidStateTransition s t) =
     JsError ''Error'' (''Invalid state transition from '' @ state_name s @ '' to '' @ state_name t)"
| "error_of (ConcurrentModification i) =
     JsError ''Error'' (''Concurrent modification detected for intent: '' @ i)"
| "error_of (DbError what) = JsError ''error'' what"

definition requireString :: "payload \<Rightarrow> string \<Rightarrow> js_error + string" where
  "requireString pl key = (case map_of pl key of
     Some (JStr s) \<Rightarrow>
       if s = [] then Inl (JsError ''Error'' (''Job payload missing required string field '' @ key)) else Inr s
   | _ \<Rightarrow> Inl (JsError ''Error'' (''Job payload missing required string field '' @ key)))"

definition requireNumber :: "payload \<Rightarrow> string \<Rightarrow> js_error + rat" where
  "requireNumber pl key = (case map_of pl key of
     Some (JNum x) \<Rightarrow> Inr x
   | _ \<Rightarrow> Inl (JsError ''Error'' (''Job payload missing required numeric field '' @ key)))"

definition lift_service :: "gateway \<times> payment_intent outcome \<Rightarrow> gateway \<times> (js_error + unit)" where
  "lift_service r = (case r of (g, Inl x) \<Rightarrow> (g, Inl (error_of x)) | (g, Inr _) \<Rightarrow> (g, Inr ()))"

definition handleDepositRecord :: "webhook_env \<Rightarrow> gateway handler" where
  "handleDepositRecord w j g =
     andThen (g, requireString (jb_payload j) ''intentId'') (\<lambda>g intentId.
     andThen (g, requireString (jb_payload j) ''txHash'') (\<lambda>g txHash.
     andThen (g, requireString (jb_payload j) ''sourceChain'') (\<lambda>g sourceChain.
     andThen (g, requireString (jb_payload j) ''sourceAsset'') (\<lambda>g sourceAsset.
     andThen (g, requireNumber (jb_payload j) ''amount'') (\<lambda>g amount.
       lift_service (recordDeposit w intentId txHash amount sourceChain sourceAsset g))))))"

definition handleDepositConfirm :: "webhook_env \<Rightarrow> gateway handler" where
  "handleDepositConfirm w j g =
     andThen (g, requireString (jb_payload j) ''intentId'') (\<lambda>g intentId.
     andThen (g, requireNumber (jb_payload j) ''confirmations'') (\<lambda>g confirmations.
       lift_service (confirmDeposit w intentId confirmations g)))"

definition handleDepositUnattributed :: "gateway handler" where
  "handleDepositUnattributed j g = (g, Inr ())"

definition registerJobHandlers ::
    "webhook_env \<Rightarrow> (string \<times> gateway handler) list \<Rightarrow> js_error + (string \<times> gateway handler) list" where
  "registerJobHandlers w hs =
     (case registerHandler JOB_DEPOSIT_RECORD (handleDepositRecord w) hs of
        Inl x \<Rightarrow> Inl x
      | Inr hs1 \<Rightarrow>
          (case registerHandler JOB_DEPOSIT_CONFIRM (handleDepositConfirm w) hs1 of
             Inl x \<Rightarrow> Inl x
           | Inr hs2 \<Rightarrow> registerHandler JOB_DEPOSIT_UNATTRIBUTED handleDepositUnattributed hs2))"

definition worker_handlers :: "webhook_env \<Rightarrow> (string \<times> gateway handler) list" where
  "worker_handlers w = (case registerJobHandlers w [] of Inl _ \<Rightarrow> [] | Inr hs \<Rightarrow> hs)"

lemma worker_handlers_eq: "worker_handlers w =
    [(JOB_DEPOSIT_RECORD, handleDepositRecord w), (JOB_DEPOSIT_CONFIRM, handleDepositConfirm w),
     (JOB_DEPOSIT_UNATTRIBUTED, handleDepositUnattributed)]"
  by (simp add: worker_handlers_def registerJobHandlers_def registerHandler_def JOB_DEPOSIT_RECORD_def
      JOB_DEPOSIT_CONFIRM_def JOB_DEPOSIT_UNATTRIBUTED_def)

section \<open>The chain registry\<close>

record 'c registry =
  rg_clients :: "(string \<times> 'c) list"
  rg_names :: "(string \<times> string) list"

definition empty_registry :: "'c registry" where
  "empty_registry = \<lparr> rg_clients = [], rg_names = [] \<rparr>"

definition registry_register :: "string \<Rightarrow> string \<Rightarrow> 'c \<Rightarrow> 'c registry \<Rightarrow> js_error + 'c registry" where
  "registry_register chainId chainName c r =
     (if map_of (rg_clients r) chainId \<noteq> None
      then Inl (JsError ''Error'' (''Chain client already registered for chainId: '' @ chainId))
      else Inr (r\<lparr> rg_clients := js_map_set chainId c (rg_clients r),
                  rg_names := js_map_set (to_lower chainName) chainId (rg_names r) \<rparr>))"

definition registry_get :: "'c registry \<Rightarrow> string \<Rightarrow> js_error + 'c" where
  "registry_get r chainId = (case map_of (rg_clients r) chainId of
     None \<Rightarrow> Inl (JsError ''GatewayError'' (''Chain not supported: '' @ chainId)) | Some c \<Rightarrow> Inr c)"

definition registry_getByName :: "'c registry \<Rightarrow> string \<Rightarrow> 'c option" where
  "registry_getByName r name = (case truthy_str (map_of (rg_names r) (to_lower name)) of
     None \<Rightarrow> None | Some i \<Rightarrow> map_of (rg_clients r) i)"

definition registry_tryGet :: "'c registry \<Rightarrow> string \<Rightarrow> 'c option" where
  "registry_tryGet r chainId = map_of (rg_clients r) chainId"

definition registry_getAll :: "'c registry \<Rightarrow> 'c list" where
  "registry_getAll r = map snd (rg_clients r)"

definition getSupportedChainIds :: "'c registry \<Rightarrow> string list" where
  "getSupportedChainIds r = map fst (rg_clients r)"

definition getSupportedChainNames :: "'c registry \<Rightarrow> string list" where
  "getSupportedChainNames r = map fst (rg_names r)"

definition isSupported :: "'c registry \<Rightarrow> string \<Rightarrow> bool" where
  "isSupported r chainId = (map_of (rg_clients r) chainId \<noteq> None)"

definition registry_unregister :: "('c \<Rightarrow> string) \<Rightarrow> string \<Rightarrow> 'c registry \<Rightarrow> 'c registry \<times> bool" where
  "registry_unregister name chainId r = (case map_of (rg_clients r) chainId of
     None \<Rightarrow> (r, False)
   | Some c \<Rightarrow> (r\<lparr> rg_clients := js_map_delete chainId (rg_clients r),
                   rg_names := js_map_delete (to_lower (name c)) (rg_names r) \<rparr>, True))"

definition registry_size :: "'c registry \<Rightarrow> nat" where
  "registry_size r = length (rg_clients r)"

section \<open>Health\<close>

text \<open>\<open>/health/ready\<close>: the database answers and at least one chain has a subscription entry.\<close>

definition readiness_status :: "bool \<Rightarrow> watcher_stats \<Rightarrow> int" where
  "readiness_status database ws = (if database \<and> 0 < ws_chains ws then 200 else 503)"

section \<open>The process\<close>

record world =
  wo_gateway :: gateway
  wo_jobs :: "job list"
  wo_watcher :: watcher
  wo_tracker :: tracker

record worker_config_view =
  wv_opts :: queue_options
  wv_chains :: "chain_view list"

definition on_queue :: "(job list \<times> gateway \<Rightarrow> job list \<times> gateway) \<Rightarrow> world \<Rightarrow> world" where
  "on_queue f s = (case f (wo_jobs s, wo_gateway s) of (jobs, g) \<Rightarrow> s\<lparr> wo_jobs := jobs, wo_gateway := g \<rparr>)"

text \<open>\<open>start()\<close> subscribes, starts the sweeps and polls \<open>queue.run(signal)\<close> with its default queue.\<close>

definition worker_start :: "worker_config_view \<Rightarrow> world \<Rightarrow> world" where
  "worker_start c s = s\<lparr>
     wo_watcher := watcher_start (map cv_chain_id (wv_chains c)) (gw_db (wo_gateway s)) (wo_watcher s),
     wo_tracker := tracker_start (wo_tracker s) \<rparr>"

definition worker_stop :: "world \<Rightarrow> world" where
  "worker_stop s = s\<lparr> wo_tracker := tracker_stop (wo_tracker s), wo_watcher := watcher_stop (wo_watcher s) \<rparr>"

datatype worker_op =
    W_start
  | W_refresh
  | W_deposit int string string deposit_event
  | W_sweep int "job list \<Rightarrow> string"
  | W_queue webhook_env "cycle list"
  | W_stop

fun worker_step :: "worker_config_view \<Rightarrow> worker_op \<Rightarrow> world \<Rightarrow> world" where
  "worker_step c W_start s = worker_start c s"
| "worker_step c W_refresh s =
     s\<lparr> wo_watcher := refresh (map cv_chain_id (wv_chains c)) (gw_db (wo_gateway s)) (wo_watcher s) \<rparr>"
| "worker_step c (W_deposit now fresh chainId e) s =
     (case fst (onDeposit (wv_opts c) now fresh (gw_db (wo_gateway s)) chainId e (wo_watcher s, wo_jobs s)) of
        (w, jobs) \<Rightarrow> s\<lparr> wo_watcher := w, wo_jobs := jobs \<rparr>)"
| "worker_step c (W_sweep now fresh) s =
     (case fst (tracker_runOnce (wv_opts c) now fresh (gw_db (wo_gateway s)) (wv_chains c) None
             (wo_tracker s, wo_jobs s)) of
        (t, jobs) \<Rightarrow> s\<lparr> wo_tracker := t, wo_jobs := jobs \<rparr>)"
| "worker_step c (W_queue w cycles) s =
     on_queue (run (wv_opts c) (worker_handlers w) DEFAULT_QUEUE cycles) s"
| "worker_step c W_stop s = worker_stop s"

end
