(* ===== verification/Job_Queue_Properties.thy ===== *)
theory Job_Queue_Properties
  imports Job_Queue
begin

text \<open>
  What the queue promises: one row per idempotency key, claims that are disjoint and bounded,
  bounded backoff, a cycle that leaves no claimed job running, attempts bounded by the maximum as
  long as no worker dies; and what it does not: a job whose worker dies is retried for ever.
\<close>

section \<open>Enqueueing\<close>

text \<open>C13: enqueueing is idempotent and loses nothing: after a successful enqueue the key has a row,
  and enqueueing the same key again, whatever happened to the queue in between, adds no row and
  answers false; at every moment a key has at most one row.\<close>

theorem enqueue_idempotent:
  assumes "jobs_ok jobs" "enqueue opts now i r jobs = (jobs1, Inr b)"
    and "fits 64 (jb_queue (new_job opts2 now2 i2 r))"
  shows "enqueue opts2 now2 i2 r (fold queue_step ops jobs1) = (fold queue_step ops jobs1, Inr False)
     \<and> length (filter (\<lambda>j. jb_key j = er_key r) (fold queue_step ops jobs1)) = 1"
proof -
  have fit: "fits 64 (er_type r)" "fits 255 (er_key r)" and key: "er_key r \<in> set (map jb_key jobs1)"
    using assms(2)
    by (auto simp: enqueue_def Let_def new_job_def tbl_insert_def split: if_splits)
  have ok1: "jobs_ok jobs1" using enqueue_ok [OF assms(1), of opts now i r] assms(2) by simp
  then have ok: "jobs_ok (fold queue_step ops jobs1)" by (rule jq.inv_run)
  have "prefix (map jb_key jobs1) (map jb_key (fold queue_step ops jobs1))"
    using jq.le_run [OF ok1] by (simp add: jobs_le_def)
  with key have key': "er_key r \<in> set (map jb_key (fold queue_step ops jobs1))"
    using set_mono_prefix by fastforce
  then have "enqueue opts2 now2 i2 r (fold queue_step ops jobs1) = (fold queue_step ops jobs1, Inr False)"
    using fit assms(3) by (simp add: enqueue_def Let_def new_job_def)
  moreover have "length (filter (\<lambda>j. jb_key j = k) js) = 1"
    if "distinct (map jb_key js)" "k \<in> set (map jb_key js)" for k and js :: "job list"
    using that by (induction js) (auto simp: filter_empty_conv image_iff)
  ultimately show ?thesis using ok key' by (simp add: jobs_ok_def)
qed

definition ex_opts :: queue_options where
  "ex_opts = \<lparr> qo_worker_id = ''w1'', qo_concurrency = 4, qo_default_max_attempts = 3,
     qo_backoff_base_ms = 1000, qo_backoff_max_ms = 300000, qo_visibility_timeout_ms = 120000 \<rparr>"

definition ex_req :: enqueue_request where
  "ex_req = \<lparr> er_type = ''deposit.record'', er_payload = [], er_key = ''k1'', er_queue = None,
     er_max_attempts = None, er_delay_ms = None \<rparr>"

definition ex_job :: job where
  "ex_job = new_job ex_opts 0 ''j1'' ex_req"

theorem enqueue_idempotent_witness:
  "length (filter (\<lambda>j. jb_key j = ''k1'') (fold queue_step [Q_claim ex_opts 5 (\<lambda>_. False) 4 ''default'',
     Q_complete 6 ''j1''] [ex_job])) = 1"
proof -
  have "jobs_ok []" "enqueue ex_opts 0 ''j1'' ex_req [] = ([ex_job], Inr True)"
      "fits 64 (jb_queue (new_job ex_opts 7 ''j2'' ex_req))" "er_key ex_req = ''k1''"
    by (simp_all add: jobs_ok_def enqueue_def ex_job_def Let_def tbl_insert_def fits_def new_job_def
        ex_req_def DEFAULT_QUEUE_def)
  then show ?thesis using enqueue_idempotent by metis
qed

section \<open>Claiming\<close>

lemma claim_selection_sub:
  "j \<in> set (claim_selection now q skip limit jobs) \<Longrightarrow> j \<in> set jobs \<and> claimable now q skip j"
  by (auto simp: claim_selection_def dest!: in_set_takeD)

lemma claim_selection_distinct:
  assumes "distinct (map jb_id jobs)"
  shows "distinct (map jb_id (claim_selection now q skip limit jobs))"
proof -
  have "distinct (map jb_id (filter (claimable now q skip) jobs))"
    using assms by (simp add: distinct_map_filter)
  then have "distinct (map jb_id (order_asc jb_run_at (filter (claimable now q skip) jobs)))"
    by (auto simp: order_asc_def distinct_map distinct_sort)
  then show ?thesis unfolding claim_selection_def by (metis distinct_take take_map)
qed

lemma batch_ids: "map jb_id (snd (claimBatch opts now skip limit q jobs))
    = map jb_id (claim_selection now q skip limit jobs)"
  by (simp add: claimBatch_def Let_def comp_def)

lemma same_id_row: "distinct (map jb_id jobs) \<Longrightarrow> j \<in> set jobs \<Longrightarrow> k \<in> set jobs \<Longrightarrow> jb_id j = jb_id k \<Longrightarrow> j = k"
  by (metis distinct_map inj_onD)

lemma claimBatch_row:
  assumes "distinct (map jb_id jobs)" "j \<in> set (snd (claimBatch opts now skip limit q jobs))"
  obtains r where "r \<in> set jobs" "claimable now q skip r" "j = mapJobRow (claim_row (qo_worker_id opts) now r)"
    "claim_row (qo_worker_id opts) now r \<in> set (fst (claimBatch opts now skip limit q jobs))"
proof -
  from assms(2) obtain r where r: "r \<in> set (claim_selection now q skip limit jobs)"
      "j = mapJobRow (claim_row (qo_worker_id opts) now r)"
    by (auto simp: claimBatch_def Let_def)
  with claim_selection_sub [OF r(1)] show ?thesis
    by (intro that [of r]) (auto simp: claimBatch_def Let_def set_tbl_update)
qed

text \<open>C12: a claim takes at most \<open>limit\<close> jobs, all of them due, pending and of the queue asked for;
  they become RUNNING under the worker's lock with one more attempt, every other row is untouched,
  and a second claim by another worker at any later time gets none of them.\<close>

theorem claimBatch_safe:
  assumes "jobs_ok jobs" "claimBatch opts now skip limit q jobs = (jobs1, batch)"
    and "claimBatch opts2 now2 skip2 limit2 q2 jobs1 = (jobs2, batch2)"
  shows "length batch \<le> limit
    \<and> (\<forall>j \<in> set batch. \<exists>r \<in> set jobs. jb_id r = jb_id j \<and> jb_status r = J_PENDING \<and> jb_run_at r \<le> now
           \<and> jb_queue r = q \<and> claim_row (qo_worker_id opts) now r \<in> set jobs1)
    \<and> (\<forall>r \<in> set jobs. jb_id r \<notin> jb_id ` set batch \<longrightarrow> r \<in> set jobs1)
    \<and> jb_id ` set batch \<inter> jb_id ` set batch2 = {}"
proof -
  have dist: "distinct (map jb_id jobs)" "distinct (map jb_id jobs1)"
    using assms(1) claimBatch_ok [OF assms(1), of opts now skip limit q] assms(2) by (simp_all add: jobs_ok_def)
  have b: "batch = snd (claimBatch opts now skip limit q jobs)"
    and j1: "jobs1 = fst (claimBatch opts now skip limit q jobs)" using assms(2) by simp_all
  show ?thesis
  proof (intro conjI)
  show "length batch \<le> limit" using assms(2) by (auto simp: claimBatch_def Let_def claim_selection_def)
  show "\<forall>j \<in> set batch. \<exists>r \<in> set jobs. jb_id r = jb_id j \<and> jb_status r = J_PENDING \<and> jb_run_at r \<le> now
           \<and> jb_queue r = q \<and> claim_row (qo_worker_id opts) now r \<in> set jobs1"
  proof
    fix j assume "j \<in> set batch"
    then obtain r where "r \<in> set jobs" "claimable now q skip r" "j = mapJobRow (claim_row (qo_worker_id opts) now r)"
        "claim_row (qo_worker_id opts) now r \<in> set jobs1"
      using claimBatch_row [OF dist(1)] unfolding b j1 by metis
    then show "\<exists>r \<in> set jobs. jb_id r = jb_id j \<and> jb_status r = J_PENDING \<and> jb_run_at r \<le> now
           \<and> jb_queue r = q \<and> claim_row (qo_worker_id opts) now r \<in> set jobs1"
      by (auto simp: claimable_def)
  qed
  have ids: "jb_id ` set batch = jb_id ` set (claim_selection now q skip limit jobs)"
    using batch_ids [of opts now skip limit q jobs] unfolding b by (metis list.set_map)
  show "\<forall>r \<in> set jobs. jb_id r \<notin> jb_id ` set batch \<longrightarrow> r \<in> set jobs1"
    unfolding ids j1 by (auto simp: claimBatch_def Let_def set_tbl_update image_iff)
  show "jb_id ` set batch \<inter> jb_id ` set batch2 = {}"
  proof (rule ccontr)
    assume "jb_id ` set batch \<inter> jb_id ` set batch2 \<noteq> {}"
    then obtain j k where jk: "j \<in> set batch" "k \<in> set batch2" "jb_id j = jb_id k" by auto
    obtain r where r: "jb_id r = jb_id j" "claim_row (qo_worker_id opts) now r \<in> set jobs1"
      using claimBatch_row [OF dist(1)] jk(1) unfolding b j1 by (metis claim_row_simps(1) mapJobRow_simps(1))
    obtain r2 where r2: "r2 \<in> set jobs1" "claimable now2 q2 skip2 r2" "jb_id r2 = jb_id k"
      using claimBatch_row [OF dist(2)] jk(2) assms(3)
      by (metis claim_row_simps(1) mapJobRow_simps(1) snd_conv)
    have "r2 = claim_row (qo_worker_id opts) now r"
      using same_id_row [OF dist(2) r2(1) r(2)] r(1) r2(3) jk(3) by simp
    then show False using r2(2) by (simp add: claimable_def)
  qed
qed
qed

theorem claimBatch_safe_witness:
  "jb_id ` set (snd (claimBatch ex_opts 5 (\<lambda>_. False) 4 ''default'' [ex_job]))
     \<inter> jb_id ` set (snd (claimBatch ex_opts 9 (\<lambda>_. False) 4 ''default''
         (fst (claimBatch ex_opts 5 (\<lambda>_. False) 4 ''default'' [ex_job])))) = {}"
proof -
  have "jobs_ok [ex_job]" by (simp add: jobs_ok_def lock_ok_def ex_job_def new_job_def)
  from claimBatch_safe [OF this prod.collapse [symmetric] prod.collapse [symmetric]] show ?thesis by blast
qed

section \<open>Backoff\<close>

text \<open>The retry delay is at least 1 ms, at least half of the capped exponential delay and never
  above the cap (or 1 ms): the jitter neither hammers a failing dependency nor exceeds the limit.\<close>

theorem computeBackoffMs_bounds:
  assumes "0 \<le> rnd" "rnd < 1" "0 \<le> baseMs"
  shows "1 \<le> computeBackoffMs attempt baseMs maxMs rnd
    \<and> min maxMs (baseMs * 2 ^ nat (max 0 (attempt - 1))) div 2 \<le> computeBackoffMs attempt baseMs maxMs rnd
    \<and> computeBackoffMs attempt baseMs maxMs rnd \<le> max 1 maxMs"
proof -
  define e where "e = min maxMs (baseMs * 2 ^ nat (max 0 (attempt - 1)))"
  define half where "half = max 1 (e div 2)"
  have h: "1 \<le> half" "e div 2 \<le> half" by (simp_all add: half_def)
  have "0 \<le> rnd * of_int half" using assms(1) h(1) by simp
  then have f0: "0 \<le> \<lfloor>rnd * of_int half\<rfloor>" by simp
  have "rnd * of_int half < of_int half" using assms(2) h(1) by simp
  then have f1: "\<lfloor>rnd * of_int half\<rfloor> \<le> half - 1" by (simp add: floor_less_iff)
  have c: "computeBackoffMs attempt baseMs maxMs rnd = half + \<lfloor>rnd * of_int half\<rfloor>"
    by (simp add: computeBackoffMs_def Let_def half_def e_def)
  have lo: "1 \<le> computeBackoffMs attempt baseMs maxMs rnd" using c f0 h(1) by linarith
  have mid: "min maxMs (baseMs * 2 ^ nat (max 0 (attempt - 1))) div 2 \<le> computeBackoffMs attempt baseMs maxMs rnd"
    using c f0 h(2) unfolding e_def by linarith
  have "e \<le> maxMs" by (simp add: e_def)
  moreover have "2 * (e div 2) \<le> e" by simp
  then have "half + (half - 1) \<le> max 1 e" unfolding half_def by linarith
  ultimately have "computeBackoffMs attempt baseMs maxMs rnd \<le> max 1 maxMs" using c f1 by linarith
  with lo mid show ?thesis by blast
qed

theorem computeBackoffMs_bounds_witness:
  "1 \<le> computeBackoffMs 4 1000 300000 (1 / 2) \<and> computeBackoffMs 4 1000 300000 (1 / 2) = 6000"
  using computeBackoffMs_bounds [of "1 / 2" 1000 4 300000] by (simp add: computeBackoffMs_def)

section \<open>A processing cycle\<close>

text \<open>Attempts left for every job that may still be claimed, none used beyond the maximum.\<close>

definition attempts_ok :: "job \<Rightarrow> bool" where
  "attempts_ok j = ((jb_status j = J_PENDING \<longrightarrow> jb_attempt_count j < jb_max_attempts j)
     \<and> (jb_status j = J_RUNNING \<longrightarrow> jb_attempt_count j \<le> jb_max_attempts j))"

definition idle :: "job list \<Rightarrow> bool" where
  "idle jobs = list_all (\<lambda>j. jb_status j \<noteq> J_RUNNING \<and> attempts_ok j) jobs"

text \<open>What processing one claimed job does to the table: its row is settled, the others stay.\<close>

definition settled_as :: "job \<Rightarrow> job \<Rightarrow> bool" where
  "settled_as r j = (jb_id r = jb_id j \<and> jb_status r \<in> {J_SUCCEEDED, J_PENDING, J_DEAD_LETTERED} \<and> attempts_ok r)"

lemma fail_row:
  "\<exists>f. fst (fail opts now rnd j x d jobs) = tbl_update (\<lambda>r. jb_id r = jb_id j) f jobs
     \<and> (\<forall>r. jb_id (f r) = jb_id r \<and> jb_status (f r) \<in> {J_PENDING, J_DEAD_LETTERED}
         \<and> jb_attempt_count (f r) = jb_attempt_count r \<and> jb_max_attempts (f r) = jb_max_attempts r
         \<and> (jb_status (f r) = J_PENDING \<longrightarrow> jb_attempt_count j < jb_max_attempts j))"
  by (auto simp: fail_def Let_def)

lemma process_job_row:
  "\<exists>f. fst (process_job opts now rnd handlers j (jobs, s)) = tbl_update (\<lambda>r. jb_id r = jb_id j) f jobs
     \<and> (\<forall>r. jb_id (f r) = jb_id r \<and> jb_status (f r) \<in> {J_SUCCEEDED, J_PENDING, J_DEAD_LETTERED}
         \<and> jb_attempt_count (f r) = jb_attempt_count r \<and> jb_max_attempts (f r) = jb_max_attempts r
         \<and> (jb_status (f r) = J_PENDING \<longrightarrow> jb_attempt_count j < jb_max_attempts j))"
proof (cases "map_of handlers (jb_type j)")
  case None
  then show ?thesis
    using fail_row [of opts now "rnd (jb_id j)" "j\<lparr> jb_attempt_count := jb_max_attempts j \<rparr>"]
    by (fastforce simp: process_job_def)
next
  case (Some h)
  obtain s' r where h: "h j s = (s', r)" by fastforce
  show ?thesis
  proof (cases r)
    case (Inl err)
    then show ?thesis using Some h fail_row [of opts now "rnd (jb_id j)" j err None jobs]
      by (fastforce simp: process_job_def)
  next
    case (Inr u)
    then show ?thesis using Some h
      by (intro exI [of _ "complete_row now"]) (simp add: process_job_def complete_def)
  qed
qed

text \<open>
  The loop over a claimed batch: if every running row is the one its batch entry describes, all
  rows are idle at the end.
\<close>

definition described :: "job list \<Rightarrow> job list \<Rightarrow> bool" where
  "described batch jobs = (distinct (map jb_id jobs) \<and> distinct (map jb_id batch)
     \<and> list_all attempts_ok jobs
     \<and> (\<forall>r \<in> set jobs. jb_status r = J_RUNNING \<longrightarrow> (\<exists>j \<in> set batch. jb_id j = jb_id r))
     \<and> (\<forall>j \<in> set batch. \<forall>r \<in> set jobs. jb_id r = jb_id j \<longrightarrow>
          jb_attempt_count r = jb_attempt_count j \<and> jb_max_attempts r = jb_max_attempts j))"

lemma process_job_described:
  assumes "described (j # batch) jobs"
  shows "described batch (fst (process_job opts now rnd handlers j (jobs, s)))"
proof -
  obtain f where f: "fst (process_job opts now rnd handlers j (jobs, s)) = tbl_update (\<lambda>r. jb_id r = jb_id j) f jobs"
    "\<And>r. jb_id (f r) = jb_id r \<and> jb_status (f r) \<in> {J_SUCCEEDED, J_PENDING, J_DEAD_LETTERED}
         \<and> jb_attempt_count (f r) = jb_attempt_count r \<and> jb_max_attempts (f r) = jb_max_attempts r
         \<and> (jb_status (f r) = J_PENDING \<longrightarrow> jb_attempt_count j < jb_max_attempts j)"
    using process_job_row [of opts now rnd handlers j jobs s] by blast
  let ?jobs = "tbl_update (\<lambda>r. jb_id r = jb_id j) f jobs"
  have "map jb_id ?jobs = map jb_id jobs" using f(2) by (intro map_tbl_update_same) simp
  moreover have "attempts_ok x" if "x \<in> set ?jobs" for x
    using that
  proof (cases rule: in_tbl_updateE)
    case old
    with assms show ?thesis by (simp add: described_def list_all_iff)
  next
    case (new r)
    then have "jb_attempt_count r = jb_attempt_count j" "jb_max_attempts r = jb_max_attempts j"
      using assms by (auto simp: described_def)
    with f(2) [of r] new show ?thesis by (auto simp: attempts_ok_def)
  qed
  moreover have "\<exists>k \<in> set batch. jb_id k = jb_id x" if x: "x \<in> set ?jobs" "jb_status x = J_RUNNING" for x
    using x(1)
  proof (cases rule: in_tbl_updateE)
    case old
    then obtain k where "k \<in> set (j # batch)" "jb_id k = jb_id x"
      using assms x(2) by (fastforce simp: described_def)
    with old(2) show ?thesis by auto
  next
    case (new r)
    with f(2) [of r] x(2) show ?thesis by auto
  qed
  moreover have "jb_attempt_count x = jb_attempt_count k \<and> jb_max_attempts x = jb_max_attempts k"
    if "k \<in> set batch" "x \<in> set ?jobs" "jb_id x = jb_id k" for k x
    using that(2)
  proof (cases rule: in_tbl_updateE)
    case old
    with assms that show ?thesis by (simp add: described_def)
  next
    case (new r)
    with assms that f(2) [of r] show ?thesis by (auto simp: described_def image_iff)
  qed
  ultimately show ?thesis using assms by (simp add: f(1) described_def list_all_iff)
qed

lemma fold_described:
  "described batch jobs \<Longrightarrow> described [] (fst (fold (process_job opts now rnd handlers) batch (jobs, s)))"
proof (induction batch arbitrary: jobs s)
  case (Cons j batch)
  obtain jobs' s' where p: "process_job opts now rnd handlers j (jobs, s) = (jobs', s')" by fastforce
  with process_job_described [OF Cons.prems, of opts now rnd handlers s] Cons.IH [of jobs' s'] show ?case
    by simp
qed simp

lemma claim_described:
  assumes "distinct (map jb_id jobs)" "idle jobs"
  shows "described (snd (claimBatch opts now skip limit q jobs)) (fst (claimBatch opts now skip limit q jobs))"
proof -
  let ?sel = "claim_selection now q skip limit jobs"
  let ?jobs = "tbl_update (\<lambda>j. jb_id j \<in> set (map jb_id ?sel)) (claim_row (qo_worker_id opts) now) jobs"
  have sel: "j \<in> set ?sel \<Longrightarrow> j \<in> set jobs \<and> jb_status j = J_PENDING" for j
    using claim_selection_sub by (auto simp: claimable_def)
  have attempts: "attempts_ok x" if "x \<in> set ?jobs" for x
    using that
  proof (cases rule: in_tbl_updateE)
    case old
    with assms(2) show ?thesis by (simp add: idle_def list_all_iff)
  next
    case (new r)
    then obtain k where "k \<in> set ?sel" "jb_id k = jb_id r" by auto
    with sel same_id_row [OF assms(1)] new(1) have "jb_status r = J_PENDING" by metis
    with assms(2) new show ?thesis by (auto simp: idle_def list_all_iff attempts_ok_def)
  qed
  have running: "\<exists>k \<in> set ?sel. jb_id k = jb_id x" if "x \<in> set ?jobs" "jb_status x = J_RUNNING" for x
    using that(1) by (cases rule: in_tbl_updateE) (use assms(2) that(2) in \<open>auto simp: idle_def list_all_iff\<close>)
  have same: "jb_attempt_count x = jb_attempt_count k + 1 \<and> jb_max_attempts x = jb_max_attempts k"
    if "k \<in> set ?sel" "x \<in> set ?jobs" "jb_id x = jb_id k" for k x
    using that(2)
  proof (cases rule: in_tbl_updateE)
    case old
    with that show ?thesis by auto
  next
    case (new r)
    with that sel same_id_row [OF assms(1), of r k] show ?thesis by auto
  qed
  have "distinct (map jb_id ?jobs)" using assms(1) by (simp add: job_keys_kept)
  moreover have "distinct (map jb_id (map (\<lambda>j. mapJobRow (claim_row (qo_worker_id opts) now j)) ?sel))"
    using claim_selection_distinct [OF assms(1)] by (simp add: comp_def)
  ultimately show ?thesis
    using attempts running same by (auto simp: claimBatch_def Let_def described_def list_all_iff)
qed

lemma runOnce_idle:
  assumes "distinct (map jb_id jobs)" "idle jobs"
  shows "distinct (map jb_id (fst (fst (runOnce opts now rnd skip handlers q (jobs, s)))))
     \<and> idle (fst (fst (runOnce opts now rnd skip handlers q (jobs, s))))"
proof -
  have "described [] (fst (fst (runOnce opts now rnd skip handlers q (jobs, s))))"
    using fold_described [OF claim_described [OF assms]]
    by (simp add: runOnce_def case_prod_beta)
  then show ?thesis by (auto simp: described_def idle_def list_all_iff)
qed

lemma reclaim_idle: "idle jobs \<Longrightarrow> fst (reclaimStale opts now jobs) = jobs"
  unfolding reclaimStale_def by (auto simp: idle_def list_all_iff stale_def intro!: tbl_update_none)

text \<open>While no worker dies in the middle of a job, the polling loop settles every job it claims
  and never uses more attempts than the job has: from a table with no job running and attempts
  left for every pending job, any number of turns, with any handlers, clocks and random numbers,
  ends in such a table again.\<close>

theorem run_keeps_attempts_bounded:
  assumes "distinct (map jb_id jobs)" "idle jobs"
  shows "idle (fst (run opts handlers q cycles (jobs, s)))"
  using assms
proof (induction cycles arbitrary: jobs s)
  case (Cons c cycles)
  let ?w = "fst (runOnce opts (cy_now c) (cy_rnd c) (cy_skip c) handlers q (jobs, s))"
  have r: "fst (reclaimStale opts (cy_now c) jobs) = jobs" using Cons.prems(2) by (rule reclaim_idle)
  obtain jobs' s' where w: "?w = (jobs', s')" by fastforce
  with runOnce_idle [OF Cons.prems, of opts "cy_now c" "cy_rnd c" "cy_skip c" handlers q s]
  have "distinct (map jb_id jobs')" "idle jobs'" by simp_all
  with Cons.IH [of jobs' s'] show ?case by (simp add: r w Let_def)
qed simp

definition ex_failing :: "(string \<times> nat handler) list" where
  "ex_failing = [(''deposit.record'', \<lambda>_ n. (n + 1, Inl (JsError ''Error'' ''boom'')))]"

definition ex_cycle :: "int \<Rightarrow> cycle" where
  "ex_cycle t = \<lparr> cy_now = t, cy_rnd = (\<lambda>_. 0), cy_skip = (\<lambda>_. False), cy_aborted = False \<rparr>"

theorem run_keeps_attempts_bounded_witness:
  "idle (fst (run ex_opts ex_failing ''default'' [ex_cycle 0, ex_cycle 10000, ex_cycle 20000, ex_cycle 30000]
      ([ex_job], 0)))
   \<and> map jb_status (fst (run ex_opts ex_failing ''default''
      [ex_cycle 0, ex_cycle 10000, ex_cycle 20000, ex_cycle 30000] ([ex_job], 0))) = [J_DEAD_LETTERED]
   \<and> snd (run ex_opts ex_failing ''default''
      [ex_cycle 0, ex_cycle 10000, ex_cycle 20000, ex_cycle 30000] ([ex_job], 0)) = 3"
proof (intro conjI)
  have "distinct (map jb_id [ex_job])" "idle [ex_job]"
    by (simp_all add: idle_def attempts_ok_def ex_job_def new_job_def ex_req_def ex_opts_def)
  then show "idle (fst (run ex_opts ex_failing ''default''
      [ex_cycle 0, ex_cycle 10000, ex_cycle 20000, ex_cycle 30000] ([ex_job], 0)))"
    by (rule run_keeps_attempts_bounded)
qed code_simp+

section \<open>A job whose worker dies\<close>

text \<open>One turn of a worker that claims a job and dies: the next turn reclaims it.\<close>

definition crash_turn :: "queue_options \<Rightarrow> int \<Rightarrow> job list \<Rightarrow> job list" where
  "crash_turn opts t jobs =
     fst (reclaimStale opts (t + qo_visibility_timeout_ms opts + 1)
        (fst (claimBatch opts t (\<lambda>_. False) 1 DEFAULT_QUEUE jobs)))"

lemma crash_turn_one:
  assumes "jb_status j = J_PENDING" "jb_queue j = DEFAULT_QUEUE" "jb_run_at j \<le> t"
  shows "crash_turn opts t [j] = [reclaim_row (t + qo_visibility_timeout_ms opts + 1) (claim_row (qo_worker_id opts) t j)]"
  using assms
  by (simp add: crash_turn_def claimBatch_def Let_def claim_selection_def claimable_def order_asc_def
      reclaimStale_def stale_def)

text \<open>Attempts are not bounded when workers die: for every n there is a schedule of n claims,
  each followed by a crash and the visibility timeout, after which the job has used n attempts,
  more than its maximum, is still PENDING and will be claimed again: it is never dead-lettered.\<close>

theorem crash_loop_never_dead_letters:
  assumes "jb_status j = J_PENDING" "jb_queue j = DEFAULT_QUEUE"
  shows "\<exists>ts k. length ts = n \<and> fold (crash_turn opts) ts [j] = [k] \<and> jb_status k = J_PENDING
     \<and> jb_attempt_count k = jb_attempt_count j + int n \<and> jb_max_attempts k = jb_max_attempts j"
  using assms
proof (induction n arbitrary: j)
  case 0
  then show ?case by (intro exI [of _ "[]"]) simp
next
  case (Suc n)
  let ?k = "reclaim_row (jb_run_at j + qo_visibility_timeout_ms opts + 1)
      (claim_row (qo_worker_id opts) (jb_run_at j) j)"
  have one: "crash_turn opts (jb_run_at j) [j] = [?k]" using Suc.prems by (intro crash_turn_one) simp_all
  have "jb_queue ?k = DEFAULT_QUEUE" using Suc.prems(2) by (simp add: reclaim_row_def)
  then obtain ts k where "length ts = n" "fold (crash_turn opts) ts [?k] = [k]" "jb_status k = J_PENDING"
      "jb_attempt_count k = jb_attempt_count ?k + int n" "jb_max_attempts k = jb_max_attempts ?k"
    using Suc.IH [of ?k] by auto
  with one show ?case by (intro exI [of _ "jb_run_at j # ts"] exI [of _ k]) simp
qed

theorem crash_loop_never_dead_letters_witness:
  "\<exists>ts k. length ts = 10 \<and> fold (crash_turn ex_opts) ts [ex_job] = [k] \<and> jb_status k = J_PENDING
     \<and> jb_attempt_count k = 10 \<and> jb_max_attempts k = 3"
proof -
  have "jb_status ex_job = J_PENDING" "jb_queue ex_job = DEFAULT_QUEUE" "jb_attempt_count ex_job = 0"
      "jb_max_attempts ex_job = 3"
    by (simp_all add: ex_job_def new_job_def ex_req_def ex_opts_def)
  with crash_loop_never_dead_letters [of ex_job 10 ex_opts] show ?thesis by simp
qed

text \<open>A late failure resurrects a finished job: \<open>fail\<close> does not ask who holds the lock, so when
  a worker whose job was reclaimed and completed by another reports its own failure, the
  SUCCEEDED row becomes PENDING again and the work is repeated.\<close>

theorem late_failure_resurrects:
  assumes "jb_attempt_count j < jb_max_attempts j" "jobs_ok jobs" "r \<in> set jobs" "jb_id r = jb_id j"
  shows "\<exists>k \<in> set (fst (fail opts now rnd j err None (complete t (jb_id j) jobs))).
           jb_id k = jb_id j \<and> jb_status k = J_PENDING"
proof -
  let ?k = "retry_row now (computeBackoffMs (jb_attempt_count j) (qo_backoff_base_ms opts)
      (qo_backoff_max_ms opts) rnd) (take 2000 (describe_error err)) (complete_row t r)"
  have "complete_row t r \<in> set (complete t (jb_id j) jobs)"
    using assms(3,4) by (auto simp: complete_def set_tbl_update)
  then have "?k \<in> set (fst (fail opts now rnd j err None (complete t (jb_id j) jobs)))"
    using assms(1,4) by (auto simp: fail_def Let_def set_tbl_update)
  then show ?thesis using assms(4) by (intro bexI [of _ ?k]) simp_all
qed

theorem late_failure_resurrects_witness:
  "\<exists>k \<in> set (fst (fail ex_opts 9 0 ex_job (JsThrown ''late'') None (complete 5 (jb_id ex_job) [ex_job]))).
      jb_id k = ''j1'' \<and> jb_status k = J_PENDING"
proof -
  have "jb_attempt_count ex_job < jb_max_attempts ex_job" "jobs_ok [ex_job]" "jb_id ex_job = ''j1''"
    by (simp_all add: ex_job_def new_job_def ex_req_def ex_opts_def jobs_ok_def lock_ok_def)
  with late_failure_resurrects [of ex_job "[ex_job]" ex_job] show ?thesis by auto
qed

end
