(* ===== verification/Intent_Lifecycle.thy ===== *)
theory Intent_Lifecycle
  imports Intent_Service
begin

text \<open>
  The lifecycle properties of the intent service: every handler is a run of repository writes, so
  every sequence of calls keeps the event-log invariant and moves intents along the transition
  table; what each guard lets through; what a recorded deposit leads to; what the expiry sweep
  and the webhook retries do.
\<close>

section \<open>Every handler is a run of repository writes\<close>

definition gw_runs :: "gateway \<Rightarrow> gateway \<Rightarrow> bool" where
  "gw_runs g g' = (repo_runs (gw_db g) (gw_db g') \<and> prefix (gw_sent g) (gw_sent g')
     \<and> (deliveries_ok (gw_deliveries g) \<longrightarrow> deliveries_ok (gw_deliveries g'))
     \<and> (attempted (gw_deliveries g) \<longrightarrow> attempted (gw_deliveries g')))"

lemma gw_runs_refl [simp, intro]: "gw_runs g g"
  by (simp add: gw_runs_def)

lemma gw_runs_trans [trans]: "gw_runs a b \<Longrightarrow> gw_runs b c \<Longrightarrow> gw_runs a c"
  by (auto simp: gw_runs_def intro: repo_runs_trans prefix_order.order_trans)

lemma gw_runs_andThen:
  assumes "gw_runs g (fst m)" "\<And>s v. gw_runs s (fst (k s v))"
  shows "gw_runs g (fst (andThen m k))"
proof (rule andThen_inv [where P = "gw_runs g"])
  show "gw_runs g (fst m)" by (rule assms(1))
  show "gw_runs g (fst (k s v))" if "gw_runs g s" for s v
    using that assms(2) by (rule gw_runs_trans)
qed

lemma on_db_runs: "(\<And>db. repo_runs db (fst (f db))) \<Longrightarrow> gw_runs g (fst (on_db f g))"
proof -
  assume "\<And>db. repo_runs db (fst (f db))"
  then have "repo_runs (gw_db g) (fst (f (gw_db g)))" .
  then show ?thesis by (cases "f (gw_db g)") (simp add: on_db_def gw_runs_def)
qed

lemma svc_transition_runs: "gw_runs g (fst (svc_transition w i ty pl g))"
  unfolding svc_transition_def by (rule on_db_runs) (rule repo_runs_ops(2) [OF prod.collapse [symmetric]])

lemma attemptDelivery_sent: "prefix (gw_sent g) (gw_sent (attemptDelivery w i g))"
  by (auto simp: attemptDelivery_def Let_def split: option.splits http_outcome.splits)

lemma upsertDelivery_sent [simp]: "gw_sent (fst (upsertDelivery w i ty url pl g)) = gw_sent g"
  by (simp add: upsertDelivery_def Let_def split: option.splits)

lemma deliverWebhook_sent: "prefix (gw_sent g) (gw_sent (fst (deliverWebhook w p ty data g)))"
proof -
  have "prefix (gw_sent g) (gw_sent (fst (andThen (upsertDelivery w (pi_id p) ty url pl g)
      (\<lambda>g i. (attemptDelivery w i g, Inr ())))))" for url pl
    by (rule andThen_inv [where P = "\<lambda>g'. prefix (gw_sent g) (gw_sent g')"])
       (auto intro: prefix_order.order_trans attemptDelivery_sent)
  then show ?thesis by (simp add: deliverWebhook_def split: option.splits)
qed

lemma deliverWebhook_gw_runs: "gw_runs g (fst (deliverWebhook w p ty data g))"
  by (simp add: gw_runs_def deliverWebhook_runs deliverWebhook_sent deliverWebhook_ok
      deliverWebhook_attempted)

lemma attemptDelivery_gw_runs: "gw_runs g (attemptDelivery w i g)"
  by (simp add: gw_runs_def attemptDelivery_sent attemptDelivery_ok attemptDelivery_attempted)

lemmas runs_intros = gw_runs_andThen svc_transition_runs deliverWebhook_gw_runs on_db_runs
  repo_runs_ops(1) [OF prod.collapse [symmetric]] repo_runs_ops(3) [OF prod.collapse [symmetric]]

lemma transition_and_deliver_runs: "gw_runs g (fst (transition_and_deliver w i ty pl data g))"
  unfolding transition_and_deliver_def by (intro runs_intros) simp_all

lemma createIntent_runs: "gw_runs g (fst (createIntent w d g))"
proof -
  have "gw_runs g (fst (andThen (on_db (create_intent (w_env w) d) g) (\<lambda>g intent.
      andThen (deliverWebhook w intent INTENT_CREATED (pl intent) g) (\<lambda>g _. (g, Inr intent)))))" for pl
    by (intro runs_intros) simp_all
  then show ?thesis by (simp add: createIntent_def split: option.splits)
qed

lemma generateQuote_runs: "gw_runs g (fst (generateQuote w i rate addr asset chain g))"
proof -
  have "gw_runs g (fst (andThen (on_db (updateQuote (w_env w) i rate x dep) g) (\<lambda>g _.
      andThen (svc_transition w i QUOTE_GENERATED pl g) (\<lambda>g t.
      andThen (deliverWebhook w t QUOTE_GENERATED data g) (\<lambda>g _. (g, Inr (t, q)))))))"
    for x dep pl data and q :: quote
    by (intro runs_intros) simp_all
  then show ?thesis by (simp add: generateQuote_def Let_def split: option.splits)
qed

lemma awaitPayment_runs: "gw_runs g (fst (awaitPayment w i g))"
  by (simp add: awaitPayment_def svc_transition_runs split: option.splits)

lemma detectDeposit_runs: "gw_runs g (fst (detectDeposit w i tx a sc sa g))"
proof -
  have "gw_runs g (fst (andThen (svc_transition w i QUOTE_EXPIRED pl g)
      (\<lambda>g _. (g, Inl (QuoteExpiredError i) :: payment_intent outcome))))" for pl
    by (intro runs_intros) simp_all
  then show ?thesis
    by (simp add: detectDeposit_def Let_def transition_and_deliver_runs split: option.splits)
qed

lemma recordDeposit_runs: "gw_runs g (fst (recordDeposit w i tx a sc sa g))"
proof -
  have tail: "gw_runs g (fst (case detectDeposit w i tx a sc sa g of
        (g, Inr p) \<Rightarrow> (g, Inr p)
      | (g, Inl x) \<Rightarrow> (case x of
           QuoteExpiredError _ \<Rightarrow> (case findById (gw_db g) i of Some expired \<Rightarrow> (g, Inr expired)
                                     | None \<Rightarrow> (g, Inl x))
         | _ \<Rightarrow> (g, Inl x))))" for g :: gateway
    using detectDeposit_runs [of g w i tx a sc sa]
    by (auto split: prod.splits sum.splits gateway_error.splits option.splits)
  show ?thesis
    unfolding recordDeposit_def
    by (auto split: option.splits intro!: gw_runs_andThen tail awaitPayment_runs)
qed

lemma simple_handlers_run:
  "gw_runs g (fst (confirmDeposit w i n g))"
  "gw_runs g (fst (selectRoute w i r pr fee tm g))"
  "gw_runs g (fst (initiateSettlement w i amt g))"
  "gw_runs g (fst (confirmSettlement w i tx g))"
  "gw_runs g (fst (failIntent w i reason err g))"
  by (simp_all add: confirmDeposit_def selectRoute_def initiateSettlement_def confirmSettlement_def
      failIntent_def transition_and_deliver_runs split: option.splits)

lemma expire_one_runs: "gw_runs g (expire_one w p g)"
  unfolding expire_one_def by (intro runs_intros)

lemma fold_runs: "(\<And>x g. gw_runs g (f x g)) \<Longrightarrow> gw_runs g (fold f xs g)"
  by (induction xs arbitrary: g) (auto intro: gw_runs_trans)

section \<open>The service as a machine\<close>

datatype service_op =
    S_createIntent webhook_env new_intent
  | S_generateQuote webhook_env string rat string string string
  | S_awaitPayment webhook_env string
  | S_detectDeposit webhook_env string string rat string string
  | S_recordDeposit webhook_env string string rat string string
  | S_confirmDeposit webhook_env string rat
  | S_selectRoute webhook_env string string string rat rat
  | S_initiateSettlement webhook_env string rat
  | S_confirmSettlement webhook_env string string
  | S_failIntent webhook_env string string "string option"
  | S_processExpiredQuotes webhook_env
  | S_processRetries webhook_env

fun service_step :: "service_op \<Rightarrow> gateway \<Rightarrow> gateway" where
  "service_step (S_createIntent w d) g = fst (createIntent w d g)"
| "service_step (S_generateQuote w i r a s c) g = fst (generateQuote w i r a s c g)"
| "service_step (S_awaitPayment w i) g = fst (awaitPayment w i g)"
| "service_step (S_detectDeposit w i tx a sc sa) g = fst (detectDeposit w i tx a sc sa g)"
| "service_step (S_recordDeposit w i tx a sc sa) g = fst (recordDeposit w i tx a sc sa g)"
| "service_step (S_confirmDeposit w i n) g = fst (confirmDeposit w i n g)"
| "service_step (S_selectRoute w i r p f t) g = fst (selectRoute w i r p f t g)"
| "service_step (S_initiateSettlement w i a) g = fst (initiateSettlement w i a g)"
| "service_step (S_confirmSettlement w i tx) g = fst (confirmSettlement w i tx g)"
| "service_step (S_failIntent w i r x) g = fst (failIntent w i r x g)"
| "service_step (S_processExpiredQuotes w) g = fst (processExpiredQuotes w g)"
| "service_step (S_processRetries w) g = fst (processRetries w g)"

lemma service_step_runs: "gw_runs g (service_step op g)"
  by (cases op)
     (simp_all add: createIntent_runs generateQuote_runs awaitPayment_runs detectDeposit_runs
        recordDeposit_runs simple_handlers_run processExpiredQuotes_def processRetries_def Let_def
        fold_runs expire_one_runs attemptDelivery_gw_runs)

definition gw_ok :: "gateway \<Rightarrow> bool" where
  "gw_ok g = (db_ok (gw_db g) \<and> deliveries_ok (gw_deliveries g) \<and> attempted (gw_deliveries g))"

definition gw_le :: "gateway \<Rightarrow> gateway \<Rightarrow> bool" where
  "gw_le g g' = (db_le (gw_db g) (gw_db g') \<and> prefix (gw_sent g) (gw_sent g'))"

lemma gw_runs_ok: "gw_runs g g' \<Longrightarrow> gw_ok g \<Longrightarrow> gw_ok g'"
  by (auto simp: gw_runs_def gw_ok_def intro: repo_runs_ok)

interpretation svc: ordered_machine service_step gw_ok gw_le
proof
  show "gw_ok (service_step op g)" if "gw_ok g" for op g
    using service_step_runs that by (rule gw_runs_ok)
  show "gw_le g g" for g by (simp add: gw_le_def db_le_refl)
  show "gw_le a b \<Longrightarrow> gw_le b c \<Longrightarrow> gw_le a c" for a b c
    by (auto simp: gw_le_def intro: db_le_trans prefix_order.order_trans)
  show "gw_le g (service_step op g)" if "gw_ok g" for op g
    using service_step_runs [of g op] that
    by (auto simp: gw_le_def gw_runs_def gw_ok_def intro: repo_runs_le)
qed

section \<open>Reading back\<close>

lemma gw_ok_distinct: "gw_ok g \<Longrightarrow> distinct (map pi_id (db_intents (gw_db g)))"
  by (simp add: gw_ok_def db_ok_def)

text \<open>What a successful transition did, seen through \<open>findById\<close>.\<close>

lemma svc_transitionE:
  assumes "svc_transition w i ty pl g = (g', res)" "gw_ok g"
  obtains (refused) x where "res = Inl x" "db_intents (gw_db g') = db_intents (gw_db g)"
      "db_events (gw_db g') = db_events (gw_db g)"
    | (moved) p where "findById (gw_db g) i = Some p"
      "allowed (pi_state p) (getExpectedNextState ty)"
      "res = Inr (mapRow (set_state (getExpectedNextState ty) (pi_version p + 1) (e_now (w_env w)) p))"
      "findById (gw_db g') i
        = Some (mapRow (set_state (getExpectedNextState ty) (pi_version p + 1) (e_now (w_env w)) p))"
      "\<exists>ei. db_events (gw_db g') = db_events (gw_db g)
         @ [new_event ei i ty pl (pi_version p + 1) (e_now (w_env w))]"
proof -
  obtain db' where tr: "transition (w_env w) i ty pl (gw_db g) = (db', res)" "gw_db g' = db'"
    using assms(1) by (auto simp: svc_transition_def on_db_def split: prod.splits)
  have mm: "mapRow (set_state s v t (mapRow r)) = mapRow (set_state s v t r)" for s v t r
    by (simp add: mapRow_def set_state_def)
  from tr(1) gw_ok_distinct [OF assms(2)] show ?thesis
  proof (cases rule: transitionE)
    case refused
    then show ?thesis using tr(2) by (intro that(1)) auto
  next
    case (written row)
    then show ?thesis using tr(2)
      by (intro that(2) [of "mapRow row"]) (auto simp: findById_def st.find_updated mm)
  qed
qed

lemma findById_deliver [simp]:
  "findById (gw_db (fst (deliverWebhook w p ty data g))) i = findById (gw_db g) i"
  by (simp add: findById_def)

lemma findById_id: "findById db i = Some p \<Longrightarrow> pi_id p = i"
  by (auto simp: findById_def dest: tbl_find_SomeD)

lemma transition_and_deliverE:
  assumes "transition_and_deliver w i ty pl data g = (g', res)" "gw_ok g"
  obtains (refused) x where "res = Inl x" "db_intents (gw_db g') = db_intents (gw_db g)"
      "db_events (gw_db g') = db_events (gw_db g)"
    | (moved) p where "findById (gw_db g) i = Some p"
      "allowed (pi_state p) (getExpectedNextState ty)"
      "findById (gw_db g')  i
        = Some (mapRow (set_state (getExpectedNextState ty) (pi_version p + 1) (e_now (w_env w)) p))"
      "\<exists>ei. db_events (gw_db g') = db_events (gw_db g)
         @ [new_event ei i ty pl (pi_version p + 1) (e_now (w_env w))]"
      "\<exists>x. res = Inl x
        \<or> res = Inr (mapRow (set_state (getExpectedNextState ty) (pi_version p + 1) (e_now (w_env w)) p))"
proof -
  obtain g1 r1 where t: "svc_transition w i ty pl g = (g1, r1)" by fastforce
  from t assms(2) show ?thesis
  proof (cases rule: svc_transitionE)
    case (refused x)
    with assms(1) t show ?thesis by (intro that(1) [of x]) (auto simp: transition_and_deliver_def)
  next
    case (moved p)
    let ?p = "mapRow (set_state (getExpectedNextState ty) (pi_version p + 1) (e_now (w_env w)) p)"
    obtain g2 r2 where d: "deliverWebhook w ?p ty data g1 = (g2, r2)" by fastforce
    with assms(1) t moved have g': "g' = g2" "res = (case r2 of Inl x \<Rightarrow> Inl x | Inr _ \<Rightarrow> Inr ?p)"
      by (auto simp: transition_and_deliver_def andThen_def split: sum.splits)
    have "findById (gw_db g2) i = findById (gw_db g1) i" "db_events (gw_db g2) = db_events (gw_db g1)"
      using findById_deliver [of w ?p ty data g1 i] deliverWebhook_tables(2) [of w ?p ty data g1]
      by (simp_all add: d)
    with moved g' show ?thesis
      by (intro that(2) [of p]) (auto split: sum.splits)
  qed
qed

end
