(* ===== verification/Intent_Properties.thy ===== *)
theory Intent_Properties
  imports Intent_Lifecycle
begin

text \<open>
  The properties of the payment-intent package, each with its witness: the event log determines
  the state, no settlement without a detected deposit, the guards of createIntent, the amounts
  detectDeposit lets through, recordDeposit is idempotent, the expiry sweep, the webhook retries.
\<close>

section \<open>Exact effect of a transition\<close>

text \<open>The identifiers still to be handed out are new.\<close>

definition fresh_ids :: "env \<Rightarrow> intent_db \<Rightarrow> bool" where
  "fresh_ids e db = (inj (e_uuid e) \<and> (\<forall>n \<ge> db_ids db. e_uuid e n \<notin> ev_id ` set (db_events db)))"

lemma fresh_ids_later: "fresh_ids e db \<Longrightarrow> fresh_ids e (db\<lparr> db_ids := Suc (db_ids db) \<rparr>)"
  by (simp add: fresh_ids_def)

lemma svc_transition_invalid:
  "findById (gw_db g) i = Some p \<Longrightarrow> \<not> allowed (pi_state p) (getExpectedNextState ty)
     \<Longrightarrow> svc_transition w i ty pl g = (g, Inl (InvalidStateTransition (pi_state p) (getExpectedNextState ty)))"
  by (auto simp: svc_transition_def on_db_def transition_def findById_def Let_def)

lemma transition_and_deliver_invalid:
  "findById (gw_db g) i = Some p \<Longrightarrow> \<not> allowed (pi_state p) (getExpectedNextState ty)
     \<Longrightarrow> transition_and_deliver w i ty pl data g
          = (g, Inl (InvalidStateTransition (pi_state p) (getExpectedNextState ty)))"
  by (simp add: transition_and_deliver_def svc_transition_invalid)

lemma svc_transition_valid:
  assumes "gw_ok g" "findById (gw_db g) i = Some p" "allowed (pi_state p) (getExpectedNextState ty)"
    and "e_uuid (w_env w) (db_ids (gw_db g)) \<notin> ev_id ` set (db_events (gw_db g))"
  obtains row g' where "p = mapRow row"
    "svc_transition w i ty pl g = (g', Inr (mapRow
       (set_state (getExpectedNextState ty) (pi_version p + 1) (e_now (w_env w)) p)))"
    "db_intents (gw_db g') = tbl_update (\<lambda>r. pi_id r = i)
       (set_state (getExpectedNextState ty) (pi_version p + 1) (e_now (w_env w))) (db_intents (gw_db g))"
    "db_events (gw_db g') = db_events (gw_db g) @ [new_event (e_uuid (w_env w) (db_ids (gw_db g))) i ty pl
       (pi_version p + 1) (e_now (w_env w))]"
    "db_ids (gw_db g') = Suc (db_ids (gw_db g))" "db_merchants (gw_db g') = db_merchants (gw_db g)"
    "gw_deliveries g' = gw_deliveries g" "gw_sent g' = gw_sent g"
proof -
  from assms(2) obtain row where row: "tbl_find (\<lambda>r. pi_id r = i) (db_intents (gw_db g)) = Some row"
    "p = mapRow row" by (auto simp: findById_def)
  have mm: "mapRow (set_state s v t (mapRow r)) = mapRow (set_state s v t r)" for s v t r
    by (simp add: mapRow_def set_state_def)
  note hit = hit_is_row [OF gw_ok_distinct [OF assms(1)] row(1)]
  obtain g' where g': "g' = g\<lparr> gw_db := (gw_db g)\<lparr>
      db_intents := tbl_update (\<lambda>r. pi_id r = i)
        (set_state (getExpectedNextState ty) (pi_version p + 1) (e_now (w_env w))) (db_intents (gw_db g)),
      db_events := db_events (gw_db g) @ [new_event (e_uuid (w_env w) (db_ids (gw_db g))) i ty pl
        (pi_version p + 1) (e_now (w_env w))],
      db_ids := Suc (db_ids (gw_db g)) \<rparr> \<rparr>" by blast
  show ?thesis
    by (rule that [of row g'])
       (use assms row hit in \<open>auto simp: g' svc_transition_def on_db_def transition_def Let_def tbl_insert_def mm\<close>)
qed

section \<open>The event log\<close>

definition empty_gateway :: "merchant list \<Rightarrow> gateway" where
  "empty_gateway ms = \<lparr> gw_db = \<lparr> db_merchants = ms, db_intents = [], db_events = [], db_ids = 0 \<rparr>,
     gw_deliveries = [], gw_sent = [] \<rparr>"

lemma empty_gateway_ok: "gw_ok (empty_gateway ms)"
  by (simp add: gw_ok_def empty_gateway_def db_ok_def deliveries_ok_def attempted_def)

lemma run_ok: "gw_ok (fold service_step ops (empty_gateway ms))"
  using svc.inv_run empty_gateway_ok by blast

lemma found_ok:
  assumes "gw_ok g" "findById (gw_db g) i = Some p"
  shows "replay (map ev_type (events_of (db_events (gw_db g)) i)) = Some (pi_state p)
    \<and> pi_version p = int (length (events_of (db_events (gw_db g)) i))
    \<and> map ev_version (events_of (db_events (gw_db g)) i)
        = map int [1..<Suc (length (events_of (db_events (gw_db g)) i))]"
proof -
  from assms(2) obtain r where r: "r \<in> set (db_intents (gw_db g))" "pi_id r = i" "p = mapRow r"
    by (auto simp: findById_def dest!: tbl_find_SomeD)
  with assms(1) have "intent_ok (db_events (gw_db g)) r"
    by (auto simp: gw_ok_def db_ok_def list_all_iff)
  with r show ?thesis by (simp add: intent_ok_def Let_def)
qed

text \<open>A concrete merchant, environment and run, shared by the witnesses.\<close>

definition ex_merchant :: merchant where
  "ex_merchant = \<lparr> m_id = ''m'', m_name = ''Shop'', m_settlement_asset = ''USDC'',
     m_settlement_chain = ''1'', m_settlement_address = ''0xshop'', m_accepted_chains = [''1''],
     m_accepted_assets = [''USDC''], m_fee_percentage = 1, m_kyc_threshold = 10000,
     m_quote_ttl_seconds = 300, m_webhook_url = Some ''https://shop'', m_compliance_status = ''COMPLIANT'',
     m_api_key_hash = None, m_email = None, m_password_hash = None, m_password_salt = None,
     m_created_at = 0, m_updated_at = 0 \<rparr>"

definition ex_new :: new_intent where
  "ex_new = \<lparr> ni_merchant_id = ''m'', ni_order_ref = ''o1'', ni_target_amount = 100,
     ni_target_asset = ''USDC'', ni_target_chain = ''1'', ni_accepted_assets = [''USDC''] \<rparr>"

definition ex_uuid :: "nat \<Rightarrow> string" where
  "ex_uuid n = replicate (Suc n) CHR ''u''"

definition ex_env :: "int \<Rightarrow> webhook_env" where
  "ex_env t = \<lparr> w_env = \<lparr> e_now = t, e_uuid = ex_uuid \<rparr>, w_sign = (\<lambda>_ _ _. ''sig''),
     w_post = (\<lambda>_. Response 200 ''OK''), w_status_error = (\<lambda>_ m. m) \<rparr>"

definition ex_ops :: "service_op list" where
  "ex_ops = [S_createIntent (ex_env 0) ex_new, S_generateQuote (ex_env 1) (ex_uuid 0) 1 ''0xdep'' ''USDC'' ''1'',
     S_recordDeposit (ex_env 2) (ex_uuid 0) ''tx'' 100 ''1'' ''USDC'', S_confirmDeposit (ex_env 3) (ex_uuid 0) 12,
     S_selectRoute (ex_env 4) (ex_uuid 0) ''r'' ''lifi'' 1 60, S_initiateSettlement (ex_env 5) (ex_uuid 0) 99,
     S_confirmSettlement (ex_env 6) (ex_uuid 0) ''stx'']"

text \<open>C1: after any sequence of service calls from empty tables, the stored state of an intent is
  exactly what replaying its event log gives, its version is the number of its events, and the
  events are numbered 1, 2, 3, ...: the log is a complete audit trail.\<close>

theorem event_log_determines_state:
  assumes "findById (gw_db (fold service_step ops (empty_gateway ms))) i = Some p"
  shows "replay (map ev_type (events_of (db_events (gw_db (fold service_step ops (empty_gateway ms)))) i))
           = Some (pi_state p)
    \<and> pi_version p = int (length (events_of (db_events (gw_db (fold service_step ops (empty_gateway ms)))) i))
    \<and> map ev_version (events_of (db_events (gw_db (fold service_step ops (empty_gateway ms)))) i)
           = map int [1..<Suc (nat (pi_version p))]"
  using found_ok [OF run_ok assms] by simp_all

lemma ex_run_state: "map_option pi_state (findById (gw_db (fold service_step ex_ops
    (empty_gateway [ex_merchant]))) (ex_uuid 0)) = Some SETTLED"
  by code_simp

lemma ex_run_found:
  obtains p where "findById (gw_db (fold service_step ex_ops (empty_gateway [ex_merchant]))) (ex_uuid 0) = Some p"
    "pi_state p = SETTLED"
  using ex_run_state by auto

theorem event_log_determines_state_witness:
  "replay (map ev_type (events_of (db_events (gw_db (fold service_step ex_ops (empty_gateway [ex_merchant]))))
      (ex_uuid 0))) = Some SETTLED"
  by (rule ex_run_found) (use event_log_determines_state in fastforce)

text \<open>C3: no intent is settled, confirmed, routed or refunded unless a deposit was detected for it:
  from empty tables, an intent outside the states before a deposit has a DEPOSIT_DETECTED event.\<close>

theorem no_settlement_without_deposit:
  assumes "findById (gw_db (fold service_step ops (empty_gateway ms))) i = Some p"
    and "pi_state p \<notin> {CREATED, QUOTED, AWAITING_PAYMENT, EXPIRED, FAILED}"
  shows "\<exists>v \<in> set (db_events (gw_db (fold service_step ops (empty_gateway ms)))).
           ev_intent_id v = i \<and> ev_type v = DEPOSIT_DETECTED"
proof -
  have "DEPOSIT_DETECTED
      \<in> set (map ev_type (events_of (db_events (gw_db (fold service_step ops (empty_gateway ms)))) i))"
    using found_ok [OF run_ok assms(1)] assms(2) by (intro replay_deposit_recorded) auto
  then show ?thesis by (auto simp: events_of_def)
qed

theorem no_settlement_without_deposit_witness:
  "\<exists>v \<in> set (db_events (gw_db (fold service_step ex_ops (empty_gateway [ex_merchant])))).
      ev_intent_id v = ex_uuid 0 \<and> ev_type v = DEPOSIT_DETECTED"
  by (rule ex_run_found) (rule no_settlement_without_deposit, assumption, simp)

text \<open>C14: between any two moments an intent never disappears, its order data (merchant, amount,
  asset, chain) never changes, its version never decreases, its state moves along the transition
  table, and the event log only grows.\<close>

theorem intent_progress:
  assumes "gw_ok g" "findById (gw_db g) i = Some p"
  shows "\<exists>q. findById (gw_db (fold service_step ops g)) i = Some q \<and> intent_le p q
     \<and> prefix (db_events (gw_db g)) (db_events (gw_db (fold service_step ops g)))"
proof -
  have le: "db_le (gw_db g) (gw_db (fold service_step ops g))"
    using svc.le_run [OF assms(1)] by (simp add: gw_le_def)
  from assms(2) obtain r where r: "tbl_find (\<lambda>r. pi_id r = i) (db_intents (gw_db g)) = Some r" "p = mapRow r"
    by (auto simp: findById_def)
  with le obtain q where "tbl_find (\<lambda>r. pi_id r = i) (db_intents (gw_db (fold service_step ops g))) = Some q"
    "intent_le r q" unfolding db_le_def by blast
  moreover have "intent_le (mapRow r) (mapRow q)"
    using \<open>intent_le r q\<close> by (simp add: intent_le_def same_order_def mapRow_def)
  ultimately show ?thesis using le r(2) by (auto simp: findById_def db_le_def)
qed

theorem intent_progress_witness:
  "\<exists>q. findById (gw_db (fold service_step (drop 1 ex_ops)
         (fold service_step (take 1 ex_ops) (empty_gateway [ex_merchant])))) (ex_uuid 0) = Some q
     \<and> pi_target_amount q = 100"
proof -
  have "map_option pi_target_amount (findById (gw_db (fold service_step (take 1 ex_ops)
      (empty_gateway [ex_merchant]))) (ex_uuid 0)) = Some 100"
    by code_simp
  then obtain p where p: "findById (gw_db (fold service_step (take 1 ex_ops) (empty_gateway [ex_merchant])))
      (ex_uuid 0) = Some p" "pi_target_amount p = 100" by auto
  from intent_progress [OF run_ok p(1), of "drop 1 ex_ops"] p(2) show ?thesis
    by (auto simp: intent_le_def same_order_def)
qed

section \<open>Deposits\<close>

lemma detect_cases:
  assumes "gw_ok g" "findById (gw_db g) i = Some p" "pi_state p = AWAITING_PAYMENT"
    and "\<not> quote_expired (e_now (w_env w)) p"
    and "e_uuid (w_env w) (db_ids (gw_db g)) \<notin> ev_id ` set (db_events (gw_db g))"
  shows "if amount < pi_target_amount p * (99 / 100)
         then detectDeposit w i tx amount sc sa g = (g, Inl (InvalidStateTransition AWAITING_PAYMENT UNDERPAID))
         else if pi_target_amount p * (101 / 100) < amount
         then detectDeposit w i tx amount sc sa g = (g, Inl (InvalidStateTransition AWAITING_PAYMENT OVERPAID))
         else \<exists>q ev. findById (gw_db (fst (detectDeposit w i tx amount sc sa g))) i = Some q
                \<and> pi_state q = DETECTED \<and> pi_version q = pi_version p + 1
                \<and> db_events (gw_db (fst (detectDeposit w i tx amount sc sa g))) = db_events (gw_db g) @ [ev]
                \<and> ev_type ev = DEPOSIT_DETECTED \<and> ev_intent_id ev = i"
proof -
  have bad: "transition_and_deliver w i ty pl data g
      = (g, Inl (InvalidStateTransition AWAITING_PAYMENT (getExpectedNextState ty)))"
    if "getExpectedNextState ty \<in> {UNDERPAID, OVERPAID}" for ty pl data
    using transition_and_deliver_invalid [OF assms(2), where ty = ty] that assms(3)
    by (auto simp: allowed_iff)
  have good: "\<exists>q ev. findById (gw_db (fst (transition_and_deliver w i DEPOSIT_DETECTED pl data g))) i = Some q
        \<and> pi_state q = DETECTED \<and> pi_version q = pi_version p + 1
        \<and> db_events (gw_db (fst (transition_and_deliver w i DEPOSIT_DETECTED pl data g)))
            = db_events (gw_db g) @ [ev]
        \<and> ev_type ev = DEPOSIT_DETECTED \<and> ev_intent_id ev = i" for pl data
  proof -
    have al: "allowed (pi_state p) (getExpectedNextState DEPOSIT_DETECTED)"
      using assms(3) by (simp add: allowed_iff)
    obtain g' res where t: "transition_and_deliver w i DEPOSIT_DETECTED pl data g = (g', res)" by fastforce
    from t assms(1) show ?thesis
    proof (cases rule: transition_and_deliverE)
      case (refused x)
      obtain r g1 where "svc_transition w i DEPOSIT_DETECTED pl g = (g1, Inr r)"
        "length (db_events (gw_db g1)) = Suc (length (db_events (gw_db g)))"
        by (rule svc_transition_valid [OF assms(1,2) al assms(5), where pl = pl]) auto
      then have "length (db_events (gw_db (fst (transition_and_deliver w i DEPOSIT_DETECTED pl data g))))
          = Suc (length (db_events (gw_db g)))"
        by (simp add: transition_and_deliver_def andThen_inv
            [where P = "\<lambda>g'. length (db_events (gw_db g')) = Suc (length (db_events (gw_db g)))"])
      with t refused show ?thesis by simp
    next
      case (moved q)
      with assms(2) t show ?thesis by auto
    qed
  qed
  show ?thesis
    using assms(2,4) bad [of UNDERPAYMENT_DETECTED] bad [of OVERPAYMENT_DETECTED] good
    by (simp add: detectDeposit_def Let_def tolerance_def)
qed

text \<open>C15: for an intent that awaits payment on a live quote, an amount within 1% of the target
  moves it to DETECTED with one logged event; an amount below or above is classified UNDERPAID or
  OVERPAID, which the transition table refuses: the call throws and nothing is written.\<close>

theorem detectDeposit_classifies:
  assumes "gw_ok g" "findById (gw_db g) i = Some p" "pi_state p = AWAITING_PAYMENT"
    and "\<not> quote_expired (e_now (w_env w)) p"
    and "e_uuid (w_env w) (db_ids (gw_db g)) \<notin> ev_id ` set (db_events (gw_db g))"
  shows "if amount < pi_target_amount p * (99 / 100)
         then detectDeposit w i tx amount sc sa g = (g, Inl (InvalidStateTransition AWAITING_PAYMENT UNDERPAID))
         else if pi_target_amount p * (101 / 100) < amount
         then detectDeposit w i tx amount sc sa g = (g, Inl (InvalidStateTransition AWAITING_PAYMENT OVERPAID))
         else \<exists>q ev. findById (gw_db (fst (detectDeposit w i tx amount sc sa g))) i = Some q
                \<and> pi_state q = DETECTED \<and> pi_version q = pi_version p + 1
                \<and> db_events (gw_db (fst (detectDeposit w i tx amount sc sa g))) = db_events (gw_db g) @ [ev]
                \<and> ev_type ev = DEPOSIT_DETECTED \<and> ev_intent_id ev = i"
  by (rule detect_cases [OF assms])

lemma transition_not_expired_error: "snd (transition e i ty pl db) \<noteq> Inl (QuoteExpiredError j)"
  by (simp add: transition_def Let_def split: option.splits)

lemma svc_transition_not_expired_error: "svc_transition w i ty pl g \<noteq> (g', Inl (QuoteExpiredError j))"
  using transition_not_expired_error [of "w_env w" i ty pl "gw_db g" j]
  by (auto simp: svc_transition_def on_db_def split: prod.splits)

lemma upsertDelivery_not_expired_error: "snd (upsertDelivery w i ty url pl g) \<noteq> Inl (QuoteExpiredError j)"
  by (simp add: upsertDelivery_def Let_def split: option.splits)

lemma deliverWebhook_not_expired_error: "snd (deliverWebhook w p ty data g) \<noteq> Inl (QuoteExpiredError j)"
proof -
  have "snd (andThen (upsertDelivery w i ty url pl g) (\<lambda>g i. (attemptDelivery w i g, Inr ())))
      \<noteq> Inl (QuoteExpiredError j)" for i url pl
    using upsertDelivery_not_expired_error [of w i ty url pl g j]
    by (cases "upsertDelivery w i ty url pl g"; cases "snd (upsertDelivery w i ty url pl g)") auto
  then show ?thesis by (simp add: deliverWebhook_def split: option.splits)
qed

lemma transition_and_deliver_not_expired_error:
  "snd (transition_and_deliver w i ty pl data g) \<noteq> Inl (QuoteExpiredError j)"
proof -
  obtain g1 r1 where t: "svc_transition w i ty pl g = (g1, r1)" by fastforce
  then have "r1 \<noteq> Inl (QuoteExpiredError j)"
    using svc_transition_not_expired_error by metis
  moreover have "snd (andThen (deliverWebhook w u ty data g1) (\<lambda>g _. (g, Inr u))) \<noteq> Inl (QuoteExpiredError j)"
    for u
    using deliverWebhook_not_expired_error [of w u ty data g1 j]
    by (cases "deliverWebhook w u ty data g1"; cases "snd (deliverWebhook w u ty data g1)") auto
  ultimately show ?thesis
    by (cases r1) (simp_all add: transition_and_deliver_def t)
qed

lemma transition_and_deliver_Inr:
  assumes "transition_and_deliver w i ty pl data g = (g', Inr q)" "gw_ok g" "findById (gw_db g) i = Some p"
  shows "findById (gw_db g') i = Some q \<and> pi_state q = getExpectedNextState ty
    \<and> allowed (pi_state p) (getExpectedNextState ty)"
  using assms(1,2)
proof (cases rule: transition_and_deliverE)
  case (moved r)
  with assms(3) show ?thesis by auto
qed simp

text \<open>A deposit on an expected intent either is detected, or finds the quote expired, or throws.\<close>

lemma detectDeposit_result:
  assumes "gw_ok g" "findById (gw_db g) i = Some p" "pi_state p \<in> {AWAITING_PAYMENT, UNDERPAID}"
    and "detectDeposit w i tx amount sc sa g = (g', res)"
  shows "(case res of Inr q \<Rightarrow> findById (gw_db g') i = Some q \<and> pi_state q = DETECTED
     | Inl (QuoteExpiredError _) \<Rightarrow> (\<exists>q. findById (gw_db g') i = Some q \<and> pi_state q = EXPIRED)
     | Inl _ \<Rightarrow> True)"
proof (cases "quote_expired (e_now (w_env w)) p")
  case True
  obtain g1 r1 where t: "svc_transition w i QUOTE_EXPIRED [(''expired_at'', JTime (e_now (w_env w)))] g = (g1, r1)"
    by fastforce
  with assms(2,4) True have r: "g' = g1" "res = (case r1 of Inl x \<Rightarrow> Inl x | Inr _ \<Rightarrow> Inl (QuoteExpiredError i))"
    by (auto simp: detectDeposit_def andThen_def split: sum.splits)
  from t assms(1) show ?thesis
  proof (cases rule: svc_transitionE)
    case (refused x)
    have "r1 \<noteq> Inl (QuoteExpiredError j)" for j
      using t svc_transition_not_expired_error by metis
    with refused r show ?thesis by (auto split: gateway_error.splits)
  next
    case moved
    with r show ?thesis by simp
  qed
next
  case False
  have td: "(case res of Inr q \<Rightarrow> findById (gw_db g') i = Some q \<and> pi_state q = DETECTED
     | Inl (QuoteExpiredError _) \<Rightarrow> (\<exists>q. findById (gw_db g') i = Some q \<and> pi_state q = EXPIRED)
     | Inl _ \<Rightarrow> True)"
    if e: "transition_and_deliver w i ty pl data g = (g', res)"
      and ty: "ty \<in> {UNDERPAYMENT_DETECTED, OVERPAYMENT_DETECTED, DEPOSIT_DETECTED}" for ty pl data
  proof (cases res)
    case (Inl x)
    then show ?thesis
      using transition_and_deliver_not_expired_error [of w i ty pl data g] e
      by (auto split: gateway_error.splits)
  next
    case (Inr q)
    with transition_and_deliver_Inr [OF _ assms(1,2)] e ty assms(3) show ?thesis
      by (fastforce simp: allowed_iff)
  qed
  show ?thesis
    using assms(2,4) False
    by (auto simp: detectDeposit_def Let_def split: if_splits intro!: td)
qed

lemma awaitPayment_Inr:
  assumes "awaitPayment w i g = (g', Inr q)" "gw_ok g"
  shows "findById (gw_db g') i = Some q \<and> pi_state q = AWAITING_PAYMENT"
proof -
  from assms(1) obtain pl where "svc_transition w i PAYMENT_AWAITED pl g = (g', Inr q)"
    by (auto simp: awaitPayment_def split: option.splits if_splits)
  then show ?thesis using assms(2) by (cases rule: svc_transitionE) auto
qed

lemma recordDeposit_result:
  assumes "gw_ok g" "recordDeposit w i tx amount sc sa g = (g', Inr p)"
  shows "findById (gw_db g') i = Some p \<and> pi_state p \<notin> {QUOTED, AWAITING_PAYMENT, UNDERPAID}"
proof -
  from assms(2) obtain p0 where p0: "findById (gw_db g) i = Some p0"
    by (auto simp: recordDeposit_def split: option.splits)
  show ?thesis
  proof (cases "pi_state p0 \<in> {QUOTED, AWAITING_PAYMENT, UNDERPAID}")
    case False
    with assms(2) p0 show ?thesis by (auto simp: recordDeposit_def)
  next
    case True
    from assms(2) p0 True obtain g1 q1 g2 r2 where
      first: "(if pi_state p0 = QUOTED then awaitPayment w i g else (g, Inr p0)) = (g1, Inr q1)"
      and detect: "detectDeposit w i tx amount sc sa g1 = (g2, r2)"
      and res: "(case r2 of Inr p \<Rightarrow> (g2, Inr p) | Inl x \<Rightarrow> (case x of
           QuoteExpiredError _ \<Rightarrow> (case findById (gw_db g2) i of Some expired \<Rightarrow> (g2, Inr expired)
                                     | None \<Rightarrow> (g2, Inl x))
         | _ \<Rightarrow> (g2, Inl x))) = (g', Inr p)"
      by (auto simp: recordDeposit_def elim!: andThenE split: prod.splits)
    have "gw_ok g1 \<and> findById (gw_db g1) i = Some q1 \<and> pi_state q1 \<in> {AWAITING_PAYMENT, UNDERPAID}"
      using first True p0 assms(1) awaitPayment_Inr [of w i g g1 q1]
        gw_runs_ok [OF awaitPayment_runs [of g w i]]
      by (auto split: if_splits)
    then show ?thesis
      using detectDeposit_result [of g1 i q1 w tx amount sc sa g2 r2] detect res
      by (auto split: sum.splits gateway_error.splits option.splits)
  qed
qed

text \<open>C16: recordDeposit is idempotent: once a call has returned an intent, repeating it (with any
  transfer, at any later time) returns the same intent and changes nothing.\<close>

theorem recordDeposit_idempotent:
  assumes "gw_ok g" "recordDeposit w i tx amount sc sa g = (g', Inr p)"
  shows "recordDeposit w' i tx' amount' sc' sa' g' = (g', Inr p)"
  using recordDeposit_result [OF assms] by (auto simp: recordDeposit_def)

theorem recordDeposit_idempotent_witness:
  "\<exists>g p. gw_ok g \<and> pi_state p = DETECTED
     \<and> recordDeposit (ex_env 9) (ex_uuid 0) ''other'' 7 ''1'' ''USDC'' g = (g, Inr p)"
proof -
  let ?g = "fold service_step (take 2 ex_ops) (empty_gateway [ex_merchant])"
  let ?r = "recordDeposit (ex_env 2) (ex_uuid 0) ''tx'' 100 ''1'' ''USDC'' ?g"
  have "(case snd ?r of Inl _ \<Rightarrow> False | Inr p \<Rightarrow> pi_state p = DETECTED)" by code_simp
  then obtain p where r: "?r = (fst ?r, Inr p)" "pi_state p = DETECTED"
    by (cases ?r) (auto split: sum.splits)
  from recordDeposit_idempotent [OF run_ok r(1)] r(2) gw_runs_ok [OF recordDeposit_runs run_ok]
  show ?thesis by blast
qed

theorem detectDeposit_classifies_witness:
  "\<exists>g. detectDeposit (ex_env 2) (ex_uuid 0) ''tx'' 98 ''1'' ''USDC'' g
     = (g, Inl (InvalidStateTransition AWAITING_PAYMENT UNDERPAID))"
proof -
  let ?ops = "take 2 ex_ops @ [S_awaitPayment (ex_env 1) (ex_uuid 0)]"
  let ?g = "fold service_step ?ops (empty_gateway [ex_merchant])"
  have "(case findById (gw_db ?g) (ex_uuid 0) of None \<Rightarrow> False
     | Some p \<Rightarrow> pi_state p = AWAITING_PAYMENT \<and> \<not> quote_expired (e_now (w_env (ex_env 2))) p
         \<and> e_uuid (w_env (ex_env 2)) (db_ids (gw_db ?g)) \<notin> ev_id ` set (db_events (gw_db ?g))
         \<and> 98 < pi_target_amount p * (99 / 100))"
    by code_simp
  then obtain p where p: "findById (gw_db ?g) (ex_uuid 0) = Some p" "pi_state p = AWAITING_PAYMENT"
      "\<not> quote_expired (e_now (w_env (ex_env 2))) p"
      "e_uuid (w_env (ex_env 2)) (db_ids (gw_db ?g)) \<notin> ev_id ` set (db_events (gw_db ?g))"
      "98 < pi_target_amount p * (99 / 100)"
    by (auto split: option.splits)
  from detectDeposit_classifies [OF run_ok p(1-4), of 98 "''tx''" "''1''" "''USDC''"] p(5)
  show ?thesis by auto
qed

text \<open>An intent that is UNDERPAID accepts no further deposit: whatever arrives, the call throws
  and the tables are unchanged, although recordDeposit lists the top-up as a supported path.\<close>

theorem underpaid_topup_rejected:
  assumes "findById (gw_db g) i = Some p" "pi_state p = UNDERPAID"
  shows "\<exists>x. recordDeposit w i tx amount sc sa g = (g, Inl x)"
proof -
  have no: "\<not> allowed UNDERPAID t" if "t \<in> {EXPIRED, DETECTED, UNDERPAID, OVERPAID}" for t
    using that by (auto simp: allowed_iff)
  have "\<exists>s. detectDeposit w i tx amount sc sa g = (g, Inl (InvalidStateTransition UNDERPAID s))"
    using assms no
    by (simp add: detectDeposit_def Let_def svc_transition_invalid transition_and_deliver_invalid)
  then show ?thesis using assms by (auto simp: recordDeposit_def)
qed

definition ex_underpaid :: payment_intent where
  "ex_underpaid = \<lparr> pi_id = ''i'', pi_merchant_id = ''m'', pi_order_ref = ''o'', pi_target_amount = 100,
     pi_target_asset = ''USDC'', pi_target_chain = ''1'', pi_accepted_assets = [], pi_quoted_rate = Some 1,
     pi_deposit_address = Some ''0xdep'', pi_deposit_asset = Some ''USDC'', pi_deposit_chain = Some ''1'',
     pi_quote_expires_at = Some 1000, pi_state = UNDERPAID, pi_version = 5, pi_created_at = 0,
     pi_updated_at = 0 \<rparr>"

theorem underpaid_topup_rejected_witness:
  "\<exists>x g. findById (gw_db g) ''i'' \<noteq> None \<and> recordDeposit (ex_env 2) ''i'' ''tx'' 100 ''1'' ''USDC'' g = (g, Inl x)"
proof -
  let ?g = "(empty_gateway [ex_merchant])\<lparr> gw_db := \<lparr> db_merchants = [ex_merchant],
      db_intents = [ex_underpaid], db_events = [], db_ids = 0 \<rparr> \<rparr>"
  have "findById (gw_db ?g) ''i'' = Some ex_underpaid" "pi_state ex_underpaid = UNDERPAID"
    by (simp_all add: findById_def ex_underpaid_def mapRow_def)
  from underpaid_topup_rejected [OF this] this show ?thesis by blast
qed

section \<open>Creation and quotes\<close>

definition order_acceptable :: "merchant list \<Rightarrow> new_intent \<Rightarrow> bool" where
  "order_acceptable ms d = (case getById ms (ni_merchant_id d) of
     None \<Rightarrow> False
   | Some m \<Rightarrow> ni_target_asset d \<in> set (m_accepted_assets m) \<and> ni_target_chain d \<in> set (m_accepted_chains m)
       \<and> 0 < ni_target_amount d \<and> ni_target_amount d \<le> 1000000)"

lemma pg_decimal_amount:
  assumes "0 < x" "x \<le> 1000000"
  shows "\<exists>y. pg_decimal 20 8 x = Some y \<and> 0 \<le> y \<and> \<bar>y - x\<bar> \<le> 1 / 200000000"
proof -
  have e: "\<bar>pg_round 8 x - x\<bar> \<le> 1 / 200000000" using pg_round_error [of 8 x] by simp
  have nn: "0 \<le> pg_round 8 x" using assms by (simp add: pg_round_nonneg)
  have "pg_round 8 x \<le> x + 1" using e by linarith
  then have "\<bar>pg_round 8 x\<bar> < 10 ^ 12" using nn assms by simp
  with e nn show ?thesis by (simp add: pg_decimal_def Let_def)
qed

text \<open>C29: createIntent accepts exactly the orders of a known merchant for one of its assets and
  chains with 0 < amount <= 1000000; a rejected order writes nothing and sends nothing.\<close>

theorem createIntent_accepts_iff:
  assumes "fresh_ids (w_env w) (gw_db g)"
    and "\<forall>n \<ge> db_ids (gw_db g). e_uuid (w_env w) n \<notin> pi_id ` set (db_intents (gw_db g))"
    and "fits 255 (ni_order_ref d)" "fits 20 (ni_target_asset d)" "fits 20 (ni_target_chain d)"
  shows "if order_acceptable (db_merchants (gw_db g)) d
         then \<exists>row ev. db_intents (gw_db (fst (createIntent w d g))) = db_intents (gw_db g) @ [row]
                \<and> db_events (gw_db (fst (createIntent w d g))) = db_events (gw_db g) @ [ev]
                \<and> pi_state row = CREATED \<and> pi_version row = 1 \<and> pi_merchant_id row = ni_merchant_id d
                \<and> \<bar>pi_target_amount row - ni_target_amount d\<bar> \<le> 1 / 200000000
                \<and> ev_type ev = INTENT_CREATED \<and> ev_intent_id ev = pi_id row
         else \<exists>msg. createIntent w d g = (g, Inl (ValidationError msg))"
proof (cases "order_acceptable (db_merchants (gw_db g)) d")
  case False
  then show ?thesis
    by (auto simp: order_acceptable_def createIntent_def not_less split: option.splits)
next
  case True
  let ?i = "e_uuid (w_env w) (db_ids (gw_db g))" and ?ei = "e_uuid (w_env w) (Suc (db_ids (gw_db g)))"
  from True obtain m where m: "getById (db_merchants (gw_db g)) (ni_merchant_id d) = Some m"
      "ni_target_asset d \<in> set (m_accepted_assets m)" "ni_target_chain d \<in> set (m_accepted_chains m)"
      "0 < ni_target_amount d" "ni_target_amount d \<le> 1000000"
    by (auto simp: order_acceptable_def split: option.splits)
  obtain y where y: "pg_decimal 20 8 (ni_target_amount d) = Some y"
      "\<bar>y - ni_target_amount d\<bar> \<le> 1 / 200000000"
    using pg_decimal_amount [OF m(4,5)] by blast
  have fk: "ni_merchant_id d \<in> set (map m_id (db_merchants (gw_db g)))"
    using getById_SomeD [OF m(1)] by simp
  have fresh: "?i \<notin> pi_id ` set (db_intents (gw_db g))" "?ei \<notin> ev_id ` set (db_events (gw_db g))"
    using assms(1,2) by (simp_all add: fresh_ids_def)
  define row where "row = new_row (w_env w) ?i d y"
  define ev where "ev = new_event ?ei ?i INTENT_CREATED (create_payload d) 1 (e_now (w_env w))"
  have ins: "insert_intent (w_env w) ?i d (gw_db g) = Some (db_intents (gw_db g) @ [row])"
    using fk assms(3-5) y fresh(1) by (simp add: insert_intent_def tbl_insert_def row_def)
  have cr: "create_intent (w_env w) d (gw_db g) = ((gw_db g)\<lparr> db_intents := db_intents (gw_db g) @ [row],
      db_events := db_events (gw_db g) @ [ev], db_ids := Suc (Suc (db_ids (gw_db g))) \<rparr>, Inr (mapRow row))"
    using ins fresh(2) by (simp add: create_intent_def Let_def tbl_insert_def ev_def)
  have "db_intents (gw_db (fst (createIntent w d g))) = db_intents (gw_db g) @ [row]
      \<and> db_events (gw_db (fst (createIntent w d g))) = db_events (gw_db g) @ [ev]"
    using m cr
    by (simp add: createIntent_def on_db_def not_less not_le andThen_inv
        [where P = "\<lambda>g'. db_intents (gw_db g') = db_intents (gw_db g) @ [row]
           \<and> db_events (gw_db g') = db_events (gw_db g) @ [ev]"])
  then show ?thesis using True y(2) by (auto simp: row_def ev_def)
qed

theorem createIntent_accepts_iff_witness:
  "\<exists>row. db_intents (gw_db (fst (createIntent (ex_env 0) ex_new (empty_gateway [ex_merchant])))) = [row]
     \<and> pi_state row = CREATED"
proof -
  have inj: "inj ex_uuid" by (rule injI) (simp add: ex_uuid_def replicate_eq_replicate)
  have h: "fresh_ids (w_env (ex_env 0)) (gw_db (empty_gateway [ex_merchant]))"
    "\<forall>n \<ge> db_ids (gw_db (empty_gateway [ex_merchant])). e_uuid (w_env (ex_env 0)) n
       \<notin> pi_id ` set (db_intents (gw_db (empty_gateway [ex_merchant])))"
    by (simp_all add: fresh_ids_def ex_env_def empty_gateway_def inj)
  have f: "fits 255 (ni_order_ref ex_new)" "fits 20 (ni_target_asset ex_new)"
      "fits 20 (ni_target_chain ex_new)" "order_acceptable (db_merchants (gw_db (empty_gateway [ex_merchant]))) ex_new"
    by code_simp+
  have "db_intents (gw_db (empty_gateway [ex_merchant])) = []" by (simp add: empty_gateway_def)
  with createIntent_accepts_iff [OF h f(1-3)] f(4) show ?thesis by auto
qed

section \<open>The expiry sweep\<close>

definition due :: "int \<Rightarrow> payment_intent \<Rightarrow> bool" where
  "due now p = (pi_state p \<in> {QUOTED, AWAITING_PAYMENT} \<and> quote_expired now p)"

lemma expire_one_effect:
  assumes "gw_ok g" "fresh_ids (w_env w) (gw_db g)" "findById (gw_db g) (pi_id p) = Some q"
    and "pi_state q \<in> {QUOTED, AWAITING_PAYMENT}"
  shows "fresh_ids (w_env w) (gw_db (expire_one w p g))"
    and "map_option pi_state (findById (gw_db (expire_one w p g)) j)
       = (if j = pi_id p then Some EXPIRED else map_option pi_state (findById (gw_db g) j))"
proof -
  let ?pl = "[(''expired_at'', JTime (e_now (w_env w)))]"
  have al: "allowed (pi_state q) (getExpectedNextState QUOTE_EXPIRED)"
    using assms(4) by (auto simp: allowed_iff)
  have nf: "e_uuid (w_env w) (db_ids (gw_db g)) \<notin> ev_id ` set (db_events (gw_db g))"
    using assms(2) by (simp add: fresh_ids_def)
  obtain row g1 r where t: "q = mapRow row" "svc_transition w (pi_id p) QUOTE_EXPIRED ?pl g = (g1, Inr r)"
      "db_intents (gw_db g1) = tbl_update (\<lambda>r. pi_id r = pi_id p)
         (set_state EXPIRED (pi_version q + 1) (e_now (w_env w))) (db_intents (gw_db g))"
      "db_events (gw_db g1) = db_events (gw_db g)
         @ [new_event (e_uuid (w_env w) (db_ids (gw_db g))) (pi_id p) QUOTE_EXPIRED ?pl (pi_version q + 1) (e_now (w_env w))]"
      "db_ids (gw_db g1) = Suc (db_ids (gw_db g))"
    by (rule svc_transition_valid [OF assms(1,3) al nf, where pl = ?pl]) auto
  have fr: "fresh_ids (w_env w) (gw_db g1)"
    using assms(2) by (auto simp: fresh_ids_def t(4,5) dest: injD)
  let ?d = "deliverWebhook w p QUOTE_EXPIRED [(''intent_id'', JStr (pi_id p))] g1"
  have e: "expire_one w p g = fst ?d" by (simp add: expire_one_def t(2))
  show "fresh_ids (w_env w) (gw_db (expire_one w p g))"
    using deliverWebhook_db [of w p QUOTE_EXPIRED "[(''intent_id'', JStr (pi_id p))]" g1] fr
    by (auto simp: e fresh_ids_later)
  have "findById (gw_db (expire_one w p g)) j = findById (gw_db g1) j" by (simp add: e)
  moreover have "map_option pi_state (findById (gw_db g1) j)
       = (if j = pi_id p then Some EXPIRED else map_option pi_state (findById (gw_db g) j))"
    using assms(3) by (auto simp: findById_def t(3) st.find_updated st.find_other)
  ultimately show "map_option pi_state (findById (gw_db (expire_one w p g)) j)
       = (if j = pi_id p then Some EXPIRED else map_option pi_state (findById (gw_db g) j))" by simp
qed

lemma fold_expire:
  assumes "gw_ok g" "fresh_ids (w_env w) (gw_db g)" "distinct (map pi_id ps)"
    and "\<forall>p \<in> set ps. \<exists>q. findById (gw_db g) (pi_id p) = Some q \<and> pi_state q \<in> {QUOTED, AWAITING_PAYMENT}"
  shows "map_option pi_state (findById (gw_db (fold (expire_one w) ps g)) j)
     = (if j \<in> pi_id ` set ps then Some EXPIRED else map_option pi_state (findById (gw_db g) j))"
  using assms
proof (induction ps arbitrary: g)
  case (Cons p ps)
  then obtain q where q: "findById (gw_db g) (pi_id p) = Some q" "pi_state q \<in> {QUOTED, AWAITING_PAYMENT}"
    by auto
  note eff = expire_one_effect [OF Cons.prems(1,2) q]
  have ok: "gw_ok (expire_one w p g)" using expire_one_runs Cons.prems(1) by (rule gw_runs_ok)
  have "\<exists>q. findById (gw_db (expire_one w p g)) (pi_id r) = Some q \<and> pi_state q \<in> {QUOTED, AWAITING_PAYMENT}"
    if r: "r \<in> set ps" for r
  proof -
    have "pi_id r \<noteq> pi_id p" using Cons.prems(3) r by (auto simp: image_iff)
    moreover obtain q where "findById (gw_db g) (pi_id r) = Some q" "pi_state q \<in> {QUOTED, AWAITING_PAYMENT}"
      using Cons.prems(4) r by auto
    ultimately have "map_option pi_state (findById (gw_db (expire_one w p g)) (pi_id r)) = Some (pi_state q)"
      using eff(2) [of "pi_id r"] by simp
    then show ?thesis using \<open>pi_state q \<in> _\<close> by auto
  qed
  then have "map_option pi_state (findById (gw_db (fold (expire_one w) ps (expire_one w p g))) j)
      = (if j \<in> pi_id ` set ps then Some EXPIRED
         else map_option pi_state (findById (gw_db (expire_one w p g)) j))"
    using Cons.prems(3) by (intro Cons.IH [OF ok eff(1)]) auto
  then show ?case by (auto simp: eff(2))
qed simp

text \<open>After processExpiredQuotes every intent that was QUOTED or AWAITING_PAYMENT with a quote
  older than now is EXPIRED, and every other intent has the state it had.\<close>

theorem processExpiredQuotes_expires:
  assumes "gw_ok g" "fresh_ids (w_env w) (gw_db g)"
  shows "map_option pi_state (findById (gw_db (fst (processExpiredQuotes w g))) i)
    = map_option (\<lambda>p. if due (e_now (w_env w)) p then EXPIRED else pi_state p) (findById (gw_db g) i)"
proof -
  let ?ps = "findExpiredIntents (e_now (w_env w)) (gw_db g)"
  let ?rows = "db_intents (gw_db g)"
  let ?due = "\<lambda>r. due (e_now (w_env w)) (mapRow r)"
  have ps: "?ps = map mapRow (filter ?due ?rows)"
    unfolding findExpiredIntents_def
    by (rule arg_cong [of _ _ "map mapRow"], rule filter_cong [OF refl])
       (auto simp: due_def quote_expired_def)
  have dist: "distinct (map pi_id ?rows)" using assms(1) by (rule gw_ok_distinct)
  have "distinct (map pi_id ?ps)"
    using dist by (simp add: ps comp_def distinct_map_filter)
  moreover have "\<forall>p \<in> set ?ps. \<exists>q. findById (gw_db g) (pi_id p) = Some q \<and> pi_state q \<in> {QUOTED, AWAITING_PAYMENT}"
    using tbl_find_unique [OF dist] by (auto simp: ps findById_def due_def)
  ultimately have "map_option pi_state (findById (gw_db (fold (expire_one w) ?ps g)) i)
     = (if i \<in> pi_id ` set ?ps then Some EXPIRED else map_option pi_state (findById (gw_db g) i))"
    by (rule fold_expire [OF assms])
  moreover have "i \<in> pi_id ` set ?ps \<longleftrightarrow> (\<exists>p. findById (gw_db g) i = Some p \<and> due (e_now (w_env w)) p)"
    using tbl_find_unique [OF dist]
    by (auto simp: ps findById_def image_iff dest!: tbl_find_SomeD)
  ultimately show ?thesis
    by (cases "findById (gw_db g) i") (auto simp: processExpiredQuotes_def Let_def)
qed

lemma ex_uuid_inj: "inj ex_uuid"
  by (rule injI) (simp add: ex_uuid_def replicate_eq_replicate)

lemma ex_fresh:
  assumes "list_all (\<lambda>v. length (ev_id v) \<le> db_ids db) (db_events db)"
  shows "fresh_ids (w_env (ex_env t)) db"
proof -
  have "e_uuid (w_env (ex_env t)) n \<noteq> ev_id v" if "v \<in> set (db_events db)" "db_ids db \<le> n" for n v
  proof
    assume "e_uuid (w_env (ex_env t)) n = ev_id v"
    then have "length (ev_id v) = Suc n" by (auto simp: ex_env_def ex_uuid_def dest: sym)
    with that assms show False by (auto simp: list_all_iff)
  qed
  then show ?thesis using ex_uuid_inj by (auto simp: fresh_ids_def ex_env_def)
qed

theorem processExpiredQuotes_expires_witness:
  "map_option pi_state (findById (gw_db (fst (processExpiredQuotes (ex_env 900000)
      (fold service_step (take 2 ex_ops) (empty_gateway [ex_merchant]))))) (ex_uuid 0)) = Some EXPIRED"
proof -
  let ?g = "fold service_step (take 2 ex_ops) (empty_gateway [ex_merchant])"
  have f: "list_all (\<lambda>v. length (ev_id v) \<le> db_ids (gw_db ?g)) (db_events (gw_db ?g))" by code_simp
  have "map_option (\<lambda>p. if due (e_now (w_env (ex_env 900000))) p then EXPIRED else pi_state p)
      (findById (gw_db ?g) (ex_uuid 0)) = Some EXPIRED" by code_simp
  with processExpiredQuotes_expires [OF run_ok ex_fresh [OF f], of 900000 "ex_uuid 0"] show ?thesis by simp
qed

section \<open>Webhook retries\<close>

text \<open>The retry sweep never sends a request: whatever the service has done and however the
  endpoint behaves, any number of sweeps leaves the trace of requests as it was, and every row it
  touches is PENDING: a webhook whose first attempt failed is never delivered and never FAILED.\<close>

theorem processRetries_never_sends:
  assumes "g = fold service_step ops (empty_gateway ms)"
  shows "gw_sent (fold (\<lambda>w g. fst (processRetries w g)) ws g) = gw_sent g
     \<and> (\<forall>d. d \<in> set (gw_deliveries (fold (\<lambda>w g. fst (processRetries w g)) ws g))
          \<longrightarrow> wd_status d = D_PENDING \<or> d \<in> set (gw_deliveries g))"
proof -
  have "attempted (gw_deliveries g)" using run_ok assms by (simp add: gw_ok_def)
  then show ?thesis
  proof (induction ws arbitrary: g)
    case (Cons w ws)
    let ?g = "fst (processRetries w g)"
    have g': "gw_sent ?g = gw_sent g \<and> attempted (gw_deliveries ?g)
        \<and> (\<forall>d \<in> set (gw_deliveries ?g). wd_status d = D_PENDING \<or> d \<in> set (gw_deliveries g))"
      using fold_attempted [OF Cons.prems, of w] by (simp add: processRetries_def Let_def)
    with Cons.IH [of ?g] show ?case by auto
  qed simp
qed

theorem processRetries_never_sends_witness:
  "gw_sent (fold (\<lambda>w g. fst (processRetries w g)) [ex_env 5000, ex_env 900000]
      (fold service_step (take 2 ex_ops) (empty_gateway [ex_merchant])))
   = gw_sent (fold service_step (take 2 ex_ops) (empty_gateway [ex_merchant]))"
  using processRetries_never_sends [OF refl] by blast

section \<open>Quotes\<close>

lemma generateQuote_row:
  assumes "gw_ok g" "generateQuote w i rate a s c g = (g', Inr (p, q))"
  obtains r where "tbl_find (\<lambda>r. pi_id r = i) (db_intents (gw_db g')) = Some r" "p = mapRow r"
    "pi_state r = QUOTED" "pi_deposit_address r = Some a" "pi_deposit_chain r = Some c"
    "pi_quote_expires_at r = Some (q_expires_at q)"
proof -
  let ?x = "q_expires_at q"
  from assms(2) obtain dep g1 u g2 pl data where
    upd: "on_db (updateQuote (w_env w) i rate ?x (Some \<lparr> dd_address = a, dd_asset = s, dd_chain = c \<rparr>)) g
        = (g1, Inr u)"
    and tr: "svc_transition w i QUOTE_GENERATED pl g1 = (g2, Inr p)"
    and g': "g' = fst (deliverWebhook w p QUOTE_GENERATED data g2)"
    by (auto simp: generateQuote_def Let_def split: option.splits if_splits elim!: andThenE)
       (metis fst_conv)
  obtain db1 where db1: "updateQuote (w_env w) i rate ?x
      (Some \<lparr> dd_address = a, dd_asset = s, dd_chain = c \<rparr>) (gw_db g) = (db1, Inr u)" "g1 = g\<lparr> gw_db := db1 \<rparr>"
    using upd by (auto simp: on_db_def split: prod.splits)
  have r1: "\<exists>r1. tbl_find (\<lambda>r. pi_id r = i) (db_intents (gw_db g1)) = Some r1 \<and>
      pi_deposit_address r1 = Some a \<and> pi_deposit_chain r1 = Some c \<and> pi_quote_expires_at r1 = Some ?x"
    using db1(1)
  proof (cases rule: updateQuoteE)
    case (written row rate')
    then show ?thesis by (auto simp: db1(2) qt.find_updated) (simp_all add: set_quote_def)
  qed simp
  have d1: "distinct (map pi_id (db_intents (gw_db g1)))"
    using gw_runs_ok [OF on_db_runs assms(1)] upd repo_runs_ops(3) [OF prod.collapse [symmetric]]
    by (metis fst_conv gw_ok_distinct)
  obtain db2 where db2: "transition (w_env w) i QUOTE_GENERATED pl (gw_db g1) = (db2, Inr p)"
      "g2 = g1\<lparr> gw_db := db2 \<rparr>"
    using tr by (auto simp: svc_transition_def on_db_def split: prod.splits)
  from db2(1) d1 show ?thesis
  proof (cases rule: transitionE)
    case (written row)
    with r1 db2(2) g' show ?thesis
      by (intro that) (auto simp: st.find_updated set_state_def)
  qed simp
qed

text \<open>C30: a generated quote makes the deposit resolvable: looking up its chain and address finds an
  intent that expects a deposit there, never one older than the quoted intent, and the quoted
  intent itself when no other one expects a deposit at that address.\<close>

theorem quoted_deposit_resolvable:
  assumes "gw_ok g" "generateQuote w i rate addr asset chain g = (g', Inr (p, q))"
  shows "\<exists>r. findAwaitingDepositAt (gw_db g') chain addr = Some r \<and> expects_deposit (pi_state r)
     \<and> pi_created_at p \<le> pi_created_at r
     \<and> ((\<forall>x \<in> set (db_intents (gw_db g')). pi_deposit_chain x = Some chain \<and> pi_deposit_address x = Some addr
            \<and> expects_deposit (pi_state x) \<longrightarrow> pi_id x = i) \<longrightarrow> pi_id r = i)"
proof -
  obtain r where r: "tbl_find (\<lambda>r. pi_id r = i) (db_intents (gw_db g')) = Some r" "p = mapRow r"
    "pi_state r = QUOTED" "pi_deposit_address r = Some addr" "pi_deposit_chain r = Some chain"
    by (rule generateQuote_row [OF assms])
  let ?P = "\<lambda>r. pi_deposit_chain r = Some chain \<and> pi_deposit_address r = Some addr \<and> expects_deposit (pi_state r)"
  let ?rows = "filter ?P (db_intents (gw_db g'))"
  have mem: "r \<in> set ?rows" using tbl_find_SomeD [OF r(1)] r by (simp add: expects_deposit_def)
  then obtain h t where h: "order_desc pi_created_at ?rows = h # t"
    by (cases "order_desc pi_created_at ?rows") (metis empty_iff list.set(1) set_order_desc, blast)
  then have "h \<in> set ?rows" by (metis list.set_intros(1) set_order_desc)
  moreover have "pi_created_at r \<le> pi_created_at h" using h mem by (rule order_desc_head_max)
  ultimately show ?thesis using h r(2) by (auto simp: findAwaitingDepositAt_def)
qed

theorem quoted_deposit_resolvable_witness:
  "\<exists>(g' :: gateway) r. findAwaitingDepositAt (gw_db g') ''1'' ''0xdep'' = Some r \<and> expects_deposit (pi_state r)"
proof -
  let ?g = "fold service_step (take 1 ex_ops) (empty_gateway [ex_merchant])"
  let ?r = "generateQuote (ex_env 1) (ex_uuid 0) 1 ''0xdep'' ''USDC'' ''1'' ?g"
  have "case snd ?r of Inl _ \<Rightarrow> False | Inr _ \<Rightarrow> True" by code_simp
  then obtain p q where "?r = (fst ?r, Inr (p, q))" by (cases ?r) (auto split: sum.splits)
  from quoted_deposit_resolvable [OF run_ok this] obtain r where
    "findAwaitingDepositAt (gw_db (fst ?r)) ''1'' ''0xdep'' = Some r" "expects_deposit (pi_state r)"
    by blast
  then show ?thesis by blast
qed

end
