(* ===== verification/Worker_Properties.thy ===== *)
theory Worker_Properties
  imports Worker Job_Queue_Properties Intent_Properties
begin

text \<open>
  The properties of the worker: its subscriptions follow the database, a confirmation job is only
  enqueued when it is due, a reported deposit reaches the state machine when its queue is polled,
  and the process as composed polls another queue.
\<close>

section \<open>Subscriptions\<close>

text \<open>After a refresh the chain clients are subscribed, on every enabled chain, to exactly the
  deposit addresses of the intents that expect a payment there, provided the watcher's book of
  subscriptions was right before (as it is when it starts).\<close>

theorem refresh_subscribes_exactly:
  assumes "live (dw_calls w) = subscribed w" "c \<in> set clients"
  shows "((c, a) \<in> live (dw_calls (refresh clients db w))) = (\<exists>p \<in> set (findAwaitingDeposits db None). pi_deposit_chain p = Some c \<and> pi_deposit_address p = Some a)
     \<and> live (dw_calls (refresh clients db w)) = subscribed (refresh clients db w)"
proof -
  have book: "live (dw_calls (refresh clients db w)) = subscribed (refresh clients db w)"
    unfolding refresh_def by (rule refresh_fold_live) (rule assms(1))
  have "set (wanted_on (by_chain (findAwaitingDeposits db None)) c)
      = {a. \<exists>p \<in> set (findAwaitingDeposits db None). pi_deposit_chain p = Some c \<and> pi_deposit_address p = Some a}"
    unfolding wanted_on_def by (rule by_chain_set)
  with assms(2) have "(c, a) \<in> live (dw_calls (refresh clients db w))
     \<longleftrightarrow> (\<exists>p \<in> set (findAwaitingDeposits db None). pi_deposit_chain p = Some c \<and> pi_deposit_address p = Some a)"
    unfolding book unfolding refresh_def refresh_fold by auto
  with book show ?thesis by blast
qed

theorem refresh_subscribes_exactly_witness:
  "(''1'', ''0xdep'') \<in> live (dw_calls (refresh [''1''] (gw_db (fold service_step (take 2 ex_ops)
      (empty_gateway [ex_merchant]))) new_watcher))"
proof -
  let ?db = "gw_db (fold service_step (take 2 ex_ops) (empty_gateway [ex_merchant]))"
  have "live (dw_calls new_watcher) = subscribed new_watcher"
    by (simp add: new_watcher_def live_def subscribed_def)
  moreover have "list_ex (\<lambda>p. pi_deposit_chain p = Some ''1'' \<and> pi_deposit_address p = Some ''0xdep'')
      (findAwaitingDeposits ?db None)" by code_simp
  ultimately show ?thesis
    using refresh_subscribes_exactly [of new_watcher "''1''" "[''1'']"] by (auto simp: list_ex_iff)
qed

section \<open>Confirmations\<close>

text \<open>A sweep only adds jobs, and each job it adds confirms a DETECTED intent whose logged deposit
  transaction has not failed and has at least the confirmation depth of its chain.\<close>

theorem sweep_confirms_only_due:
  assumes "tracker_runOnce opts now fresh db clients None (t, jobs) = ((t', jobs'), r)"
  shows "\<exists>new. jobs' = jobs @ new \<and> (\<forall>j \<in> set new. \<exists>(p :: payment_intent) chain client h st.
     findById db (pi_id p) \<noteq> None \<and> pi_state p = DETECTED \<and> pi_deposit_chain p = Some chain
     \<and> map_of (chain_index clients) chain = Some client \<and> findDepositTxHash db (pi_id p) = Some h
     \<and> cv_tx_status client h = Inr st \<and> ts_status st \<noteq> TX_FAILED \<and> cv_depth client \<le> ts_confirmations st
     \<and> jb_type j = JOB_DEPOSIT_CONFIRM \<and> map_of (jb_payload j) ''intentId'' = Some (JStr (pi_id p)))"
proof -
  let ?t = "t\<lparr> ct_sweeps := ct_sweeps t + 1, ct_last_sweep_at := Some now \<rparr>"
  let ?ps = "findByState db DETECTED 100"
  obtain t1 jobs1 r1 where l: "sweep_loop opts now fresh db (chain_index clients) ?ps (?t, jobs) = ((t1, jobs1), r1)"
    by (metis prod.collapse)
  with assms have "jobs' = jobs1" by (cases r1) (auto simp: tracker_runOnce_def Let_def)
  with sweep_adds [OF l] obtain new where new: "jobs' = jobs @ new"
      "\<forall>j \<in> set new. justified db (chain_index clients) ?ps j" by blast
  have "findById db (pi_id p) \<noteq> None \<and> pi_state p = DETECTED" if "p \<in> set ?ps" for p
    using that tbl_find_Some_of_mem [of _ "db_intents db" "\<lambda>r. pi_id r = pi_id p"]
    by (fastforce simp: findByState_def findById_def dest!: in_set_takeD)
  note found = this
  have "\<exists>(p :: payment_intent) chain client h st.
     findById db (pi_id p) \<noteq> None \<and> pi_state p = DETECTED \<and> pi_deposit_chain p = Some chain
     \<and> map_of (chain_index clients) chain = Some client \<and> findDepositTxHash db (pi_id p) = Some h
     \<and> cv_tx_status client h = Inr st \<and> ts_status st \<noteq> TX_FAILED \<and> cv_depth client \<le> ts_confirmations st
     \<and> jb_type j = JOB_DEPOSIT_CONFIRM \<and> map_of (jb_payload j) ''intentId'' = Some (JStr (pi_id p))"
    if "j \<in> set new" for j
  proof -
    from new(2) that obtain p where p: "p \<in> set ?ps" "justified db (chain_index clients) [p] j"
      unfolding justified_def by auto
    with found [OF p(1)] show ?thesis unfolding justified_def by auto
  qed
  with new(1) show ?thesis by blast
qed

definition ex_chain :: chain_view where
  "ex_chain = \<lparr> cv_chain_id = ''1'', cv_depth = 12, cv_tx_status =
     (\<lambda>_. Inr \<lparr> ts_status = TX_CONFIRMED, ts_confirmations = 20 \<rparr>) \<rparr>"

theorem sweep_confirms_only_due_witness:
  "\<exists>p :: payment_intent. pi_state p = DETECTED \<and> findDepositTxHash (gw_db (fold service_step (take 3 ex_ops)
      (empty_gateway [ex_merchant]))) (pi_id p) = Some ''tx''"
proof -
  let ?db = "gw_db (fold service_step (take 3 ex_ops) (empty_gateway [ex_merchant]))"
  let ?r = "tracker_runOnce ex_opts 9 (\<lambda>js. ''j'') ?db [ex_chain] None (new_tracker, [])"
  have one: "length (snd (fst ?r)) = 1" by code_simp
  have all: "list_all (\<lambda>h. h = Some ''tx'') (map (\<lambda>p. findDepositTxHash ?db (pi_id p)) (db_intents ?db))"
    by code_simp
  have "?r = ((fst (fst ?r), snd (fst ?r)), snd ?r)" by simp
  from sweep_confirms_only_due [OF this] one obtain p :: payment_intent where
    p: "findById ?db (pi_id p) \<noteq> None" "pi_state p = DETECTED"
    by (cases "snd (fst ?r)") auto
  then obtain q where "q \<in> set (db_intents ?db)" "pi_id q = pi_id p"
    by (auto simp: findById_def dest!: tbl_find_SomeD)
  with all have "findDepositTxHash ?db (pi_id p) = Some ''tx''"
    unfolding list_all_iff set_map by (metis imageI)
  with p(2) show ?thesis by blast
qed

section \<open>The queue that is polled\<close>

definition waiting_elsewhere :: "job \<Rightarrow> bool" where
  "waiting_elsewhere j = (jb_queue j = QUEUE_DEPOSITS \<and> jb_status j = J_PENDING \<and> jb_attempt_count j = 0)"

lemma new_job_waiting: "er_queue r = Some QUEUE_DEPOSITS \<Longrightarrow> waiting_elsewhere (new_job opts now i r)"
  by (simp add: waiting_elsewhere_def new_job_def)

lemma enqueue_waiting:
  "list_all waiting_elsewhere jobs \<Longrightarrow> er_queue r = Some QUEUE_DEPOSITS
     \<Longrightarrow> list_all waiting_elsewhere (fst (enqueue opts now i r jobs))"
  using enqueue_new [of opts now i r jobs] new_job_waiting
  by (cases "enqueue opts now i r jobs") fastforce

lemma onDeposit_waiting:
  "list_all waiting_elsewhere jobs
     \<Longrightarrow> list_all waiting_elsewhere (snd (fst (onDeposit opts now fresh db chainId e (w, jobs))))"
  using enqueue_waiting [of jobs]
  by (auto simp: onDeposit_def Let_def unattributed_request_def record_request_def
      split: option.splits prod.splits) (metis (no_types, lifting) enqueue_request.select_convs(4) fst_conv)+

lemma sweep_loop_waiting:
  "list_all waiting_elsewhere jobs
     \<Longrightarrow> list_all waiting_elsewhere (snd (fst (sweep_loop opts now fresh db index ps (t, jobs))))"
proof (induction ps arbitrary: t jobs)
  case (Cons p ps)
  obtain t1 jobs1 r1 where e: "examine opts now fresh db index p (t, jobs) = ((t1, jobs1), r1)"
    by (metis prod.collapse)
  have "jobs1 = jobs \<or> (\<exists>i r. er_queue r = Some QUEUE_DEPOSITS \<and> jobs1 = fst (enqueue opts now i r jobs))"
    using e
    by (auto simp: examine_def Let_def split: option.splits sum.splits if_splits prod.splits)
       (metis confirm_request_def enqueue_request.select_convs(4) fst_conv)+
  then have "list_all waiting_elsewhere jobs1" using Cons.prems enqueue_waiting by auto
  with Cons.IH [of jobs1 t1] e show ?case by (cases r1) simp_all
qed simp

lemma default_not_deposits: "DEFAULT_QUEUE \<noteq> QUEUE_DEPOSITS"
  by (simp add: DEFAULT_QUEUE_def QUEUE_DEPOSITS_def)

lemma run_default_nothing:
  assumes "list_all waiting_elsewhere jobs"
  shows "run opts handlers DEFAULT_QUEUE cycles (jobs, s) = (jobs, s)"
proof (induction cycles)
  case (Cons c cycles)
  have r: "fst (reclaimStale opts (cy_now c) jobs) = jobs"
    using assms unfolding reclaimStale_def
    by (auto simp: list_all_iff waiting_elsewhere_def stale_def intro!: tbl_update_none)
  have none: "filter (claimable t DEFAULT_QUEUE skip) jobs = []" for t skip
    using assms default_not_deposits
    by (auto simp: filter_empty_conv list_all_iff waiting_elsewhere_def claimable_def)
  have "claimBatch opts t skip n DEFAULT_QUEUE jobs = (jobs, [])" for t skip n
    by (simp add: claimBatch_def Let_def claim_selection_def none order_asc_def tbl_update_none)
  with r Cons show ?case by (simp add: runOnce_def Let_def)
qed simp

text \<open>The worker as composed never processes a deposit: its loop polls the queue named default
  while the watcher and the tracker enqueue into deposits.  From a table without jobs, after any
  operations (deposits, sweeps, turns of the loop, at any times), every job is still PENDING with
  no attempt and the intents, their events and the webhooks are exactly as they were.\<close>

theorem composed_worker_never_processes:
  assumes "wo_jobs s = []"
  shows "wo_gateway (fold (worker_step c) ops s) = wo_gateway s
     \<and> list_all (\<lambda>j. jb_queue j = QUEUE_DEPOSITS \<and> jb_status j = J_PENDING \<and> jb_attempt_count j = 0)
         (wo_jobs (fold (worker_step c) ops s))"
proof -
  have step: "wo_gateway (worker_step c op s) = wo_gateway s \<and> list_all waiting_elsewhere (wo_jobs (worker_step c op s))"
    if "list_all waiting_elsewhere (wo_jobs s)" for op s
  proof (cases op)
    case (W_deposit now fresh chainId e)
    with that onDeposit_waiting show ?thesis by (simp split: prod.splits) (metis fst_conv snd_conv)
  next
    case (W_sweep now fresh)
    let ?t = "(wo_tracker s)\<lparr> ct_sweeps := ct_sweeps (wo_tracker s) + 1, ct_last_sweep_at := Some now \<rparr>"
    let ?l = "sweep_loop (wv_opts c) now fresh (gw_db (wo_gateway s)) (chain_index (wv_chains c))
        (findByState (gw_db (wo_gateway s)) DETECTED 100) (?t, wo_jobs s)"
    have "list_all waiting_elsewhere (snd (fst ?l))" using that by (rule sweep_loop_waiting)
    with W_sweep show ?thesis
      by (cases ?l; cases "snd ?l") (auto simp: tracker_runOnce_def Let_def split: prod.splits)
  next
    case (W_queue w cycles)
    with that show ?thesis by (simp add: on_queue_def run_default_nothing)
  qed (use that in \<open>simp_all add: worker_start_def worker_stop_def\<close>)
  have "wo_gateway (fold (worker_step c) ops s) = wo_gateway s
      \<and> list_all waiting_elsewhere (wo_jobs (fold (worker_step c) ops s))"
    if "list_all waiting_elsewhere (wo_jobs s)" for s
    using that by (induction ops arbitrary: s) (auto simp: step)
  from this [of s] assms show ?thesis by (simp add: list_all_iff waiting_elsewhere_def)
qed

definition ex_deposit :: deposit_event where
  "ex_deposit = \<lparr> de_tx_hash = ''0xAB'', de_from = ''0xc'', de_to = ''0xdep'', de_asset =
     \<lparr> as_address = ''0xT'', as_symbol = ''USDC'', as_decimals = 6, as_name = ''USD Coin'' \<rparr>,
     de_amount = ''100000000'', de_block_number = 7 \<rparr>"

definition ex_world :: world where
  "ex_world = \<lparr> wo_gateway = fold service_step (take 2 ex_ops) (empty_gateway [ex_merchant]), wo_jobs = [],
     wo_watcher = new_watcher, wo_tracker = new_tracker \<rparr>"

theorem composed_worker_never_processes_witness:
  "wo_gateway (fold (worker_step \<lparr> wv_opts = ex_opts, wv_chains = [ex_chain] \<rparr>)
      [W_start, W_deposit 5 ''j1'' ''1'' ex_deposit, W_queue (ex_env 9) [ex_cycle 9, ex_cycle 5000]] ex_world)
     = wo_gateway ex_world
   \<and> length (wo_jobs (fold (worker_step \<lparr> wv_opts = ex_opts, wv_chains = [ex_chain] \<rparr>)
      [W_start, W_deposit 5 ''j1'' ''1'' ex_deposit, W_queue (ex_env 9) [ex_cycle 9, ex_cycle 5000]] ex_world)) = 1"
proof (intro conjI)
  have "wo_jobs ex_world = []" by (simp add: ex_world_def)
  then show "wo_gateway (fold (worker_step \<lparr> wv_opts = ex_opts, wv_chains = [ex_chain] \<rparr>)
      [W_start, W_deposit 5 ''j1'' ''1'' ex_deposit, W_queue (ex_env 9) [ex_cycle 9, ex_cycle 5000]] ex_world)
     = wo_gateway ex_world"
    using composed_worker_never_processes by blast
qed code_simp

end
