(* ===== verification/Ledger.thy ===== *)
theory Ledger
  imports Intent_Repository Job_Queue
begin

text \<open>
  The double-entry ledger (\<open>packages/settlement/src/ledger.repository.ts\<close> and
  \<open>ledger.service.ts\<close>): an append-only table whose rows debit one account and credit another.
\<close>

datatype entry_type = LE_DEPOSIT | LE_FEE | LE_SETTLEMENT | LE_REFUND | LE_FX_GAIN_LOSS

record ledger_entry =
  le_id :: string
  le_intent_id :: string
  le_type :: entry_type
  le_amount :: rat
  le_asset :: string
  le_chain :: string
  le_debit :: string
  le_credit :: string
  le_metadata :: "payload option"
  le_created_at :: int

record new_entry =
  ne_intent_id :: string
  ne_type :: entry_type
  ne_amount :: rat
  ne_asset :: string
  ne_chain :: string
  ne_debit :: string
  ne_credit :: string
  ne_metadata :: "payload option"

text \<open>The table with the number of identifiers drawn from \<open>crypto.randomUUID\<close>.\<close>

record ledger =
  lg_entries :: "ledger_entry list"
  lg_ids :: nat

section \<open>Repository\<close>

definition entry_of :: "env \<Rightarrow> string \<Rightarrow> new_entry \<Rightarrow> rat \<Rightarrow> ledger_entry" where
  "entry_of e i p amount = \<lparr> le_id = i, le_intent_id = ne_intent_id p, le_type = ne_type p,
     le_amount = amount, le_asset = ne_asset p, le_chain = ne_chain p, le_debit = ne_debit p,
     le_credit = ne_credit p, le_metadata = ne_metadata p, le_created_at = e_now e \<rparr>"

text \<open>The value returned is the entry as built in memory; the row holds the amount as DECIMAL(20, 8).\<close>

definition create_entry :: "env \<Rightarrow> new_entry \<Rightarrow> ledger \<Rightarrow> ledger \<times> (js_error + ledger_entry)" where
  "create_entry e p l =
     (let i = e_uuid e (lg_ids l); l1 = l\<lparr> lg_ids := Suc (lg_ids l) \<rparr> in
      if \<not> (fits 20 (ne_asset p) \<and> fits 20 (ne_chain p) \<and> fits 255 (ne_debit p) \<and> fits 255 (ne_credit p))
      then (l1, Inl (JsError ''error'' ''value too long''))
      else case pg_decimal 20 8 (ne_amount p) of
             None \<Rightarrow> (l1, Inl (JsError ''error'' ''numeric field overflow''))
           | Some amount \<Rightarrow>
               (case tbl_insert le_id (entry_of e i p amount) (lg_entries l) of
                  None \<Rightarrow> (l1, Inl (JsError ''error'' ''duplicate key''))
                | Some rows \<Rightarrow> (l1\<lparr> lg_entries := rows \<rparr>, Inr (entry_of e i p (ne_amount p)))))"

definition entries_by_intent :: "ledger \<Rightarrow> string \<Rightarrow> ledger_entry list" where
  "entries_by_intent l i = order_asc le_created_at (filter (\<lambda>x. le_intent_id x = i) (lg_entries l))"

definition findByAccount :: "ledger \<Rightarrow> string \<Rightarrow> int \<Rightarrow> int \<Rightarrow> ledger_entry list" where
  "findByAccount l acc t0 t1 = order_asc le_created_at (filter
     (\<lambda>x. (le_debit x = acc \<or> le_credit x = acc) \<and> t0 \<le> le_created_at x \<and> le_created_at x \<le> t1) (lg_entries l))"

definition getBalance :: "ledger \<Rightarrow> string \<Rightarrow> string \<Rightarrow> rat" where
  "getBalance l acc asset =
     (let rows = filter (\<lambda>x. (le_debit x = acc \<or> le_credit x = acc) \<and> le_asset x = asset) (lg_entries l);
          debits = sum_list (map (\<lambda>x. if le_debit x = acc then le_amount x else 0) rows);
          credits = sum_list (map (\<lambda>x. if le_credit x = acc then le_amount x else 0) rows)
      in debits - credits)"

definition getMerchantBalance :: "ledger \<Rightarrow> string \<Rightarrow> string \<Rightarrow> rat" where
  "getMerchantBalance l m asset = getBalance l (''merchant:'' @ m) asset"

definition getTotalFees :: "ledger \<Rightarrow> int \<Rightarrow> int \<Rightarrow> rat \<times> nat" where
  "getTotalFees l t0 t1 =
     (let rows = filter (\<lambda>x. le_type x = LE_FEE \<and> t0 \<le> le_created_at x \<and> le_created_at x \<le> t1) (lg_entries l)
      in (sum_list (map le_amount rows), length rows))"

record consistency =
  cs_is_consistent :: bool
  cs_total_debits :: rat
  cs_total_credits :: rat
  cs_difference :: rat

definition verifyConsistency :: "ledger \<Rightarrow> consistency" where
  "verifyConsistency l =
     (let total_debits = sum_list (map le_amount (lg_entries l));
          total_credits = sum_list (map le_amount (lg_entries l))
      in \<lparr> cs_is_consistent = \<bar>total_debits - total_credits\<bar> < 1 / 10000, cs_total_debits = total_debits,
           cs_total_credits = total_credits, cs_difference = total_debits - total_credits \<rparr>)"

definition findByType :: "ledger \<Rightarrow> entry_type \<Rightarrow> int \<Rightarrow> int \<Rightarrow> ledger_entry list" where
  "findByType l ty t0 t1 = order_asc le_created_at (filter
     (\<lambda>x. le_type x = ty \<and> t0 \<le> le_created_at x \<and> le_created_at x \<le> t1) (lg_entries l))"

section \<open>Service\<close>

record deposit_record =
  dr_intent_id :: string
  dr_amount :: rat
  dr_asset :: string
  dr_chain :: string
  dr_customer_id :: string
  dr_tx_hash :: string
  dr_source_address :: string

record fee_record =
  fr_intent_id :: string
  fr_amount :: rat
  fr_asset :: string
  fr_chain :: string
  fr_merchant_id :: string
  fr_fee_type :: string
  fr_percentage :: rat

record refund_record =
  rr_intent_id :: string
  rr_amount :: rat
  rr_asset :: string
  rr_chain :: string
  rr_merchant_id :: string
  rr_customer_id :: string
  rr_tx_hash :: string
  rr_reason :: string

definition ledger_recordDeposit :: "env \<Rightarrow> deposit_record \<Rightarrow> ledger \<Rightarrow> ledger \<times> (js_error + ledger_entry)" where
  "ledger_recordDeposit e d = create_entry e
     \<lparr> ne_intent_id = dr_intent_id d, ne_type = LE_DEPOSIT, ne_amount = dr_amount d, ne_asset = dr_asset d,
       ne_chain = dr_chain d, ne_debit = ''pending:'' @ dr_intent_id d,
       ne_credit = ''customer:'' @ dr_customer_id d,
       ne_metadata = Some [(''tx_hash'', JStr (dr_tx_hash d)), (''source_address'', JStr (dr_source_address d))] \<rparr>"

definition recordFee :: "env \<Rightarrow> fee_record \<Rightarrow> ledger \<Rightarrow> ledger \<times> (js_error + ledger_entry)" where
  "recordFee e f = create_entry e
     \<lparr> ne_intent_id = fr_intent_id f, ne_type = LE_FEE, ne_amount = fr_amount f, ne_asset = fr_asset f,
       ne_chain = fr_chain f, ne_debit = ''merchant:'' @ fr_merchant_id f, ne_credit = ''revenue:fees'',
       ne_metadata = Some [(''fee_type'', JStr (fr_fee_type f)), (''percentage'', JNum (fr_percentage f))] \<rparr>"

text \<open>The part of a settlement the ledger records.\<close>

record settlement_fields =
  sf_intent_id :: string
  sf_merchant_id :: string
  sf_amount :: rat
  sf_asset :: string
  sf_chain :: string
  sf_destination :: string
  sf_tx_hash :: "string option"

definition recordSettlement :: "env \<Rightarrow> settlement_fields \<Rightarrow> ledger \<Rightarrow> ledger \<times> (js_error + ledger_entry)" where
  "recordSettlement e s = create_entry e
     \<lparr> ne_intent_id = sf_intent_id s, ne_type = LE_SETTLEMENT, ne_amount = sf_amount s, ne_asset = sf_asset s,
       ne_chain = sf_chain s, ne_debit = ''pending:'' @ sf_intent_id s,
       ne_credit = ''merchant:'' @ sf_merchant_id s,
       ne_metadata = Some [(''tx_hash'', opt_str (sf_tx_hash s)), (''destination_address'', JStr (sf_destination s))] \<rparr>"

definition recordRefund :: "env \<Rightarrow> refund_record \<Rightarrow> ledger \<Rightarrow> ledger \<times> (js_error + ledger_entry)" where
  "recordRefund e r = create_entry e
     \<lparr> ne_intent_id = rr_intent_id r, ne_type = LE_REFUND, ne_amount = rr_amount r, ne_asset = rr_asset r,
       ne_chain = rr_chain r, ne_debit = ''merchant:'' @ rr_merchant_id r,
       ne_credit = ''customer:'' @ rr_customer_id r,
       ne_metadata = Some [(''tx_hash'', JStr (rr_tx_hash r)), (''reason'', JStr (rr_reason r))] \<rparr>"

definition recordFxGainLoss ::
    "env \<Rightarrow> string \<Rightarrow> string \<Rightarrow> string \<Rightarrow> rat \<Rightarrow> ledger \<Rightarrow> ledger \<times> (js_error + ledger_entry)" where
  "recordFxGainLoss e intentId asset chain gain =
     (let isGain = 0 \<le> gain in create_entry e
     \<lparr> ne_intent_id = intentId, ne_type = LE_FX_GAIN_LOSS, ne_amount = \<bar>gain\<bar>, ne_asset = asset,
       ne_chain = chain, ne_debit = (if isGain then ''revenue:fx'' else ''expense:fx''),
       ne_credit = (if isGain then ''expense:fx'' else ''revenue:fx''),
       ne_metadata = Some [(''type'', JStr (if isGain then ''gain'' else ''loss''))] \<rparr>)"

record statement =
  sm_account :: string
  sm_entries :: "ledger_entry list"
  sm_total_debits :: rat
  sm_total_credits :: rat
  sm_closing_balance :: rat

definition getStatement :: "ledger \<Rightarrow> string \<Rightarrow> int \<Rightarrow> int \<Rightarrow> statement" where
  "getStatement l acc t0 t1 =
     (let es = findByAccount l acc t0 t1;
          totals = fold (\<lambda>x (d, c). (if le_debit x = acc then d + le_amount x else d,
                                     if le_credit x = acc then c + le_amount x else c)) es (0, 0)
      in \<lparr> sm_account = acc, sm_entries = es, sm_total_debits = fst totals, sm_total_credits = snd totals,
           sm_closing_balance = fst totals - snd totals \<rparr>)"

definition calculateSettlementAmount :: "rat \<Rightarrow> rat \<Rightarrow> rat" where
  "calculateSettlementAmount targetAmount feePercentage =
     (let fee = targetAmount * (feePercentage / 100)
      in of_int (js_round ((targetAmount - fee) * 100000000)) / 100000000)"

section \<open>Balances\<close>

text \<open>What one row contributes to the balance of an account.\<close>

definition posting :: "string \<Rightarrow> string \<Rightarrow> ledger_entry \<Rightarrow> rat" where
  "posting acc asset x = (if le_asset x = asset
     then (if le_debit x = acc then le_amount x else 0) - (if le_credit x = acc then le_amount x else 0) else 0)"

lemma getBalance_postings: "getBalance l acc asset = sum_list (map (posting acc asset) (lg_entries l))"
proof -
  have "sum_list (map (\<lambda>x. if le_debit x = acc then le_amount x else 0)
        (filter (\<lambda>x. (le_debit x = acc \<or> le_credit x = acc) \<and> le_asset x = asset) xs))
      - sum_list (map (\<lambda>x. if le_credit x = acc then le_amount x else 0)
        (filter (\<lambda>x. (le_debit x = acc \<or> le_credit x = acc) \<and> le_asset x = asset) xs))
      = sum_list (map (posting acc asset) xs)" for xs
    by (induction xs) (auto simp: posting_def algebra_simps)
  then show ?thesis by (simp add: getBalance_def Let_def)
qed

lemma create_entryE:
  assumes "create_entry e p l = (l', res)"
  obtains (refused) x where "res = Inl x" "lg_entries l' = lg_entries l"
    | (posted) amount where "pg_decimal 20 8 (ne_amount p) = Some amount"
      "lg_entries l' = lg_entries l @ [entry_of e (e_uuid e (lg_ids l)) p amount]"
      "res = Inr (entry_of e (e_uuid e (lg_ids l)) p (ne_amount p))"
  using assms
  by (auto simp: create_entry_def Let_def split: if_splits option.splits dest!: tbl_insert_SomeD
      intro: refused posted)

text \<open>What a new entry adds to the balance of an account: its stored amount to the debited one, and
  the same amount less to the credited one, in its asset only.\<close>

definition moves :: "new_entry \<Rightarrow> string \<Rightarrow> string \<Rightarrow> rat" where
  "moves p acc asset = (if asset = ne_asset p
     then (if acc = ne_debit p then pg_round 8 (ne_amount p) else 0)
        - (if acc = ne_credit p then pg_round 8 (ne_amount p) else 0) else 0)"

lemma entry_of_simps [simp]:
  "le_id (entry_of e i p a) = i" "le_intent_id (entry_of e i p a) = ne_intent_id p"
  "le_amount (entry_of e i p a) = a" "le_asset (entry_of e i p a) = ne_asset p"
  "le_debit (entry_of e i p a) = ne_debit p" "le_credit (entry_of e i p a) = ne_credit p"
  "le_type (entry_of e i p a) = ne_type p" "le_created_at (entry_of e i p a) = e_now e"
  by (simp_all add: entry_of_def)

lemma create_entry_balance:
  assumes "create_entry e p l = (l', Inr x)"
  shows "getBalance l' acc asset = getBalance l acc asset + moves p acc asset"
  using assms
  by (cases rule: create_entryE)
     (auto simp: getBalance_postings posting_def moves_def pg_decimal_def Let_def split: if_splits)

lemma sum_postings_zero:
  assumes "distinct accs" "le_debit x \<in> set accs" "le_credit x \<in> set accs"
  shows "sum_list (map (\<lambda>a. posting a asset x) accs) = 0"
proof -
  have one: "sum_list (map (\<lambda>a. if k = a then v else 0) as) = (if k \<in> set as then v else 0)"
    if "distinct as" for as k and v :: rat
    using that by (induction as) auto
  have "sum_list (map (\<lambda>a. posting a asset x) accs)
      = (if le_asset x = asset
         then sum_list (map (\<lambda>a. if le_debit x = a then le_amount x else 0) accs)
            - sum_list (map (\<lambda>a. if le_credit x = a then le_amount x else 0) accs) else 0)"
    by (simp add: posting_def sum_list_subtractf)
  with one [OF assms(1)] assms(2,3) show ?thesis by simp
qed

lemma sum_balances_zero:
  assumes "distinct accs" "\<forall>x \<in> set xs. le_debit x \<in> set accs \<and> le_credit x \<in> set accs"
  shows "sum_list (map (\<lambda>a. sum_list (map (posting a asset) xs)) accs) = 0"
  using assms(2)
proof (induction xs)
  case (Cons x xs)
  then show ?case using sum_postings_zero [OF assms(1)] by (simp add: sum_list_addf)
qed simp

end
