(* ===== verification/Settlement.thy ===== *)
theory Settlement
  imports Ledger Confirmation_Tracker "HOL-Library.Sublist"
begin

text \<open>
  Merchant payouts (\<open>packages/settlement/src/settlement.repository.ts\<close> and
  \<open>settlement.service.ts\<close>).  The chain client is a parameter: its gas estimate, its submission,
  its status and the clock at every poll.  A timer set with \<open>setTimeout\<close> is an entry of
  \<open>ss_timers\<close>; the transaction that a payout builds an entry of \<open>ss_payouts\<close>, and the data that
  is really handed to the chain client an entry of \<open>ss_submitted\<close>: the placeholder signature
  keeps the two addresses of the transaction and not its value.
\<close>

datatype settlement_status = S_PENDING | S_PROCESSING | S_COMPLETED | S_FAILED | S_RETRYING

record settlement =
  se_id :: string
  se_intent_id :: string
  se_merchant_id :: string
  se_amount :: rat
  se_asset :: string
  se_chain :: string
  se_destination :: string
  se_status :: settlement_status
  se_tx_hash :: "string option"
  se_created_at :: int
  se_updated_at :: int
  se_completed_at :: "int option"

record new_settlement =
  ns_intent_id :: string
  ns_merchant_id :: string
  ns_amount :: rat
  ns_asset :: string
  ns_chain :: string
  ns_destination :: string

record settlement_update =
  su_status :: "settlement_status option"
  su_tx_hash :: "string option"
  su_completed_at :: "int option"

record unsigned_tx =
  tx_from :: string
  tx_to :: string
  tx_value :: rat
  tx_data :: string

record settle_state =
  ss_settlements :: "settlement list"
  ss_ledger :: ledger
  ss_ids :: nat
  ss_timers :: "(string \<times> int) list"
  ss_payouts :: "unsigned_tx list"
  ss_submitted :: "string list"

record chain_client =
  cc_depth :: int
  cc_estimateGas :: "unsigned_tx \<Rightarrow> js_error + unit"
  cc_submit :: "string \<Rightarrow> js_error + string"
  cc_status :: "string \<Rightarrow> nat \<Rightarrow> js_error + tx_status"
  cc_elapsed :: "nat \<Rightarrow> int"

text \<open>The environment adds the foreign keys: which intents and merchants exist.\<close>

record settle_env =
  sv_env :: env
  sv_ledger_env :: env
  sv_fk :: "string \<Rightarrow> string \<Rightarrow> bool"

section \<open>Repository\<close>

definition settlement_row :: "env \<Rightarrow> string \<Rightarrow> new_settlement \<Rightarrow> rat \<Rightarrow> settlement" where
  "settlement_row e i p amount = \<lparr> se_id = i, se_intent_id = ns_intent_id p, se_merchant_id = ns_merchant_id p,
     se_amount = amount, se_asset = ns_asset p, se_chain = ns_chain p, se_destination = ns_destination p,
     se_status = S_PENDING, se_tx_hash = None, se_created_at = e_now e, se_updated_at = e_now e,
     se_completed_at = None \<rparr>"

definition create_settlement ::
    "settle_env \<Rightarrow> new_settlement \<Rightarrow> settle_state \<Rightarrow> settle_state \<times> (js_error + settlement)" where
  "create_settlement v p s =
     (let e = sv_env v; i = e_uuid e (ss_ids s); s1 = s\<lparr> ss_ids := Suc (ss_ids s) \<rparr> in
      if \<not> (sv_fk v (ns_intent_id p) (ns_merchant_id p) \<and> fits 20 (ns_asset p) \<and> fits 20 (ns_chain p)
            \<and> fits 255 (ns_destination p))
      then (s1, Inl (JsError ''error'' ''constraint''))
      else case pg_decimal 20 8 (ns_amount p) of
             None \<Rightarrow> (s1, Inl (JsError ''error'' ''numeric field overflow''))
           | Some amount \<Rightarrow>
               (case tbl_insert se_id (settlement_row e i p amount) (ss_settlements s) of
                  None \<Rightarrow> (s1, Inl (JsError ''error'' ''duplicate key''))
                | Some rows \<Rightarrow> (s1\<lparr> ss_settlements := rows \<rparr>, Inr (settlement_row e i p (ns_amount p)))))"

definition findSettlement :: "settle_state \<Rightarrow> string \<Rightarrow> settlement option" where
  "findSettlement s i = tbl_find (\<lambda>r. se_id r = i) (ss_settlements s)"

definition update_row :: "int \<Rightarrow> settlement_update \<Rightarrow> settlement \<Rightarrow> settlement" where
  "update_row now u r = r\<lparr>
     se_status := (case su_status u of None \<Rightarrow> se_status r | Some x \<Rightarrow> x),
     se_tx_hash := (case su_tx_hash u of None \<Rightarrow> se_tx_hash r | Some h \<Rightarrow> Some h),
     se_completed_at := (case su_completed_at u of None \<Rightarrow> se_completed_at r | Some t \<Rightarrow> Some t),
     se_updated_at := now \<rparr>"

definition update_settlement ::
    "int \<Rightarrow> string \<Rightarrow> settlement_update \<Rightarrow> settle_state \<Rightarrow> settle_state \<times> (js_error + settlement)" where
  "update_settlement now i u s =
     (case findSettlement s i of
        None \<Rightarrow> (s, Inl (JsError ''Error'' (''Settlement not found: '' @ i)))
      | Some r \<Rightarrow>
          if (case su_tx_hash u of None \<Rightarrow> True | Some h \<Rightarrow> fits 255 h)
          then (s\<lparr> ss_settlements := tbl_update (\<lambda>r. se_id r = i) (update_row now u) (ss_settlements s) \<rparr>,
                Inr (update_row now u r))
          else (s, Inl (JsError ''error'' ''value too long'')))"

definition findByIntentId :: "settle_state \<Rightarrow> string \<Rightarrow> settlement option" where
  "findByIntentId s i = tbl_find (\<lambda>r. se_intent_id r = i) (ss_settlements s)"

definition settlements_of_merchant :: "settle_state \<Rightarrow> string \<Rightarrow> settlement list" where
  "settlements_of_merchant s m = order_desc se_created_at (filter (\<lambda>r. se_merchant_id r = m) (ss_settlements s))"

definition findPending :: "settle_state \<Rightarrow> settlement list" where
  "findPending s = order_asc se_created_at
     (filter (\<lambda>r. se_status r \<in> {S_PENDING, S_RETRYING}) (ss_settlements s))"

text \<open>\<open>findRetryable\<close> reads a column \<open>metadata\<close>, which no migration adds to the table: the statement is refused.\<close>

definition findRetryable :: "int \<Rightarrow> settle_state \<Rightarrow> js_error + settlement list" where
  "findRetryable maxRetries s = Inl (JsError ''error'' ''column metadata does not exist'')"

definition getMerchantSettledTotal :: "settle_state \<Rightarrow> string \<Rightarrow> int \<Rightarrow> int \<Rightarrow> rat \<times> nat" where
  "getMerchantSettledTotal s m t0 t1 =
     (let rows = filter (\<lambda>r. se_merchant_id r = m \<and> se_status r = S_COMPLETED
            \<and> (case se_completed_at r of None \<Rightarrow> False | Some t \<Rightarrow> t0 \<le> t \<and> t \<le> t1)) (ss_settlements s)
      in (sum_list (map se_amount rows), length rows))"

section \<open>The on-chain part\<close>

definition hot_wallet :: string where
  "hot_wallet = ''0x0000000000000000000000000000000000000000''"

definition signTransaction :: "unsigned_tx \<Rightarrow> string" where
  "signTransaction tx = ''0x'' @ tx_from tx @ tx_to tx"

definition executeTransaction ::
    "chain_client \<Rightarrow> settlement \<Rightarrow> settle_state \<Rightarrow> settle_state \<times> (js_error + string)" where
  "executeTransaction c r s =
     (let tx = \<lparr> tx_from = hot_wallet, tx_to = se_destination r, tx_value = se_amount r, tx_data = ''0x'' \<rparr>
      in case cc_estimateGas c tx of
           Inl x \<Rightarrow> (s, Inl x)
         | Inr _ \<Rightarrow> (s\<lparr> ss_payouts := ss_payouts s @ [tx], ss_submitted := ss_submitted s @ [signTransaction tx] \<rparr>,
                    cc_submit c (signTransaction tx)))"

text \<open>A \<open>SettlementFailedError\<close>: the reason is a detail, not part of the message.\<close>

definition settlement_failed :: "string \<Rightarrow> js_error" where
  "settlement_failed i = JsError ''GatewayError'' (''Settlement failed: '' @ i)"

definition maxWaitTime :: int where
  "maxWaitTime = 300000"

definition pollInterval :: int where
  "pollInterval = 2000"

text \<open>
  The polling loop.  \<open>cc_elapsed n\<close> is the clock at its n-th test minus the start; \<open>None\<close> means
  that the fuel ran out.
\<close>

fun wait_loop :: "chain_client \<Rightarrow> string \<Rightarrow> nat \<Rightarrow> nat \<Rightarrow> (js_error + unit) option" where
  "wait_loop c h 0 n = None"
| "wait_loop c h (Suc fuel) n =
     (if cc_elapsed c n < maxWaitTime
      then case cc_status c h n of
             Inl x \<Rightarrow> Some (Inl x)
           | Inr st \<Rightarrow>
               if cc_depth c \<le> ts_confirmations st then Some (Inr ())
               else if ts_status st = TX_FAILED then Some (Inl (settlement_failed h))
               else wait_loop c h fuel (Suc n)
      else Some (Inl (settlement_failed h)))"

definition wait_fuel :: nat where
  "wait_fuel = 151"

definition waitForConfirmation :: "chain_client \<Rightarrow> string \<Rightarrow> (js_error + unit) option" where
  "waitForConfirmation c h = wait_loop c h wait_fuel 0"

text \<open>\<open>delay(pollInterval)\<close> separates two tests of the loop.\<close>

definition clock_advances :: "chain_client \<Rightarrow> bool" where
  "clock_advances c = (0 \<le> cc_elapsed c 0 \<and> (\<forall>n. cc_elapsed c n + pollInterval \<le> cc_elapsed c (Suc n)))"

section \<open>Service\<close>

definition str_includes :: "string \<Rightarrow> string \<Rightarrow> bool" where
  "str_includes p m = list_ex (\<lambda>s. take (length p) s = p) (suffixes m)"

fun error_message :: "js_error \<Rightarrow> string" where
  "error_message (JsError _ msg) = msg"
| "error_message (JsThrown txt) = txt"

definition isRetryableError :: "js_error \<Rightarrow> bool" where
  "isRetryableError x = list_ex (\<lambda>p. str_includes p (error_message x))
     [''NETWORK_ERROR'', ''TIMEOUT'', ''INSUFFICIENT_GAS'', ''ECONNRESET'']"

definition MAX_RETRIES :: nat where "MAX_RETRIES = 3"
definition BASE_RETRY_DELAY :: int where "BASE_RETRY_DELAY = 1000"

definition getRetryCount :: "string \<Rightarrow> nat" where
  "getRetryCount _ = 0"

definition handleSettlementFailure ::
    "int \<Rightarrow> string \<Rightarrow> js_error \<Rightarrow> settle_state \<Rightarrow> settle_state \<times> (js_error + settlement)" where
  "handleSettlementFailure now i x s =
     andThen (update_settlement now i \<lparr> su_status = Some S_FAILED, su_tx_hash = None, su_completed_at = None \<rparr> s)
       (\<lambda>s _. (if isRetryableError x \<and> getRetryCount i < MAX_RETRIES
               then s\<lparr> ss_timers := ss_timers s @ [(i, BASE_RETRY_DELAY * 2 ^ getRetryCount i)] \<rparr> else s,
               Inl (settlement_failed i)))"

definition retrySettlement ::
    "int \<Rightarrow> string \<Rightarrow> settle_state \<Rightarrow> settle_state \<times> (js_error + settlement)" where
  "retrySettlement now i s =
     (case findSettlement s i of
        None \<Rightarrow> (s, Inl (settlement_failed i))
      | Some r \<Rightarrow>
          if se_status r \<noteq> S_FAILED \<and> se_status r \<noteq> S_RETRYING then (s, Inl (settlement_failed i))
          else update_settlement now i \<lparr> su_status = Some S_RETRYING, su_tx_hash = None, su_completed_at = None \<rparr> s)"

definition on_ledger :: "(ledger \<Rightarrow> ledger \<times> 'r) \<Rightarrow> settle_state \<Rightarrow> settle_state \<times> 'r" where
  "on_ledger f s = (case f (ss_ledger s) of (l, r) \<Rightarrow> (s\<lparr> ss_ledger := l \<rparr>, r))"

text \<open>Steps 7 and 8: the fee entry when there is a fee, and the payout entry.\<close>

definition settle_fee ::
    "settle_env \<Rightarrow> payment_intent \<Rightarrow> merchant \<Rightarrow> rat \<Rightarrow> settle_state \<Rightarrow> settle_state \<times> (js_error + unit)" where
  "settle_fee v intent m amount s =
     (if 0 < m_fee_percentage m
      then andThen (on_ledger (recordFee (sv_ledger_env v) \<lparr> fr_intent_id = pi_id intent,
             fr_amount = pi_target_amount intent - amount, fr_asset = m_settlement_asset m,
             fr_chain = m_settlement_chain m, fr_merchant_id = m_id m, fr_fee_type = ''PLATFORM'',
             fr_percentage = m_fee_percentage m \<rparr>) s) (\<lambda>s _. (s, Inr ()))
      else (s, Inr ()))"

definition settle_record :: "settle_env \<Rightarrow> settlement \<Rightarrow> settle_state \<Rightarrow> settle_state \<times> (js_error + ledger_entry)" where
  "settle_record v d = on_ledger (recordSettlement (sv_ledger_env v) \<lparr> sf_intent_id = se_intent_id d,
     sf_merchant_id = se_merchant_id d, sf_amount = se_amount d, sf_asset = se_asset d,
     sf_chain = se_chain d, sf_destination = se_destination d, sf_tx_hash = se_tx_hash d \<rparr>)"

text \<open>The body of the \<open>try\<close> after the confirmation: complete, record the fee, record the payout.\<close>

definition settle_finish ::
    "settle_env \<Rightarrow> payment_intent \<Rightarrow> merchant \<Rightarrow> rat \<Rightarrow> settlement \<Rightarrow> settle_state
       \<Rightarrow> settle_state \<times> (js_error + settlement)" where
  "settle_finish v intent m amount r s =
     andThen (update_settlement (e_now (sv_env v)) (se_id r)
        \<lparr> su_status = Some S_COMPLETED, su_tx_hash = None, su_completed_at = Some (e_now (sv_env v)) \<rparr> s) (\<lambda>s d.
     andThen (settle_fee v intent m amount s) (\<lambda>s _.
     andThen (settle_record v d s) (\<lambda>s _. (s, Inr d))))"

text \<open>The body of the \<open>try\<close>; \<open>None\<close> only when the polling loop runs out of fuel.\<close>

definition settle_try ::
    "settle_env \<Rightarrow> payment_intent \<Rightarrow> merchant \<Rightarrow> chain_client \<Rightarrow> rat \<Rightarrow> settlement \<Rightarrow> settle_state
       \<Rightarrow> (settle_state \<times> (js_error + settlement)) option" where
  "settle_try v intent m c amount r s =
     (case executeTransaction c r s of
        (s, Inl x) \<Rightarrow> Some (s, Inl x)
      | (s, Inr h) \<Rightarrow>
          (case update_settlement (e_now (sv_env v)) (se_id r)
               \<lparr> su_status = Some S_PROCESSING, su_tx_hash = Some h, su_completed_at = None \<rparr> s of
             (s, Inl x) \<Rightarrow> Some (s, Inl x)
           | (s, Inr _) \<Rightarrow>
               (case waitForConfirmation c h of
                  None \<Rightarrow> None
                | Some (Inl x) \<Rightarrow> Some (s, Inl x)
                | Some (Inr _) \<Rightarrow> Some (settle_finish v intent m amount r s))))"

definition settleIntent ::
    "settle_env \<Rightarrow> payment_intent \<Rightarrow> merchant \<Rightarrow> chain_client \<Rightarrow> settle_state
       \<Rightarrow> (settle_state \<times> (js_error + settlement)) option" where
  "settleIntent v intent m c s =
     (let amount = calculateSettlementAmount (pi_target_amount intent) (m_fee_percentage m) in
      case create_settlement v \<lparr> ns_intent_id = pi_id intent, ns_merchant_id = m_id m, ns_amount = amount,
             ns_asset = m_settlement_asset m, ns_chain = m_settlement_chain m,
             ns_destination = m_settlement_address m \<rparr> s of
        (s, Inl x) \<Rightarrow> Some (s, Inl x)
      | (s, Inr r) \<Rightarrow>
          (case settle_try v intent m c amount r s of
             None \<Rightarrow> None
           | Some (s, Inr d) \<Rightarrow> Some (s, Inr d)
           | Some (s, Inl x) \<Rightarrow> Some (handleSettlementFailure (e_now (sv_env v)) (se_id r) x s)))"

end
