(* ===== verification/Settlement_Properties.thy ===== *)
theory Settlement_Properties
  imports Settlement
begin

text \<open>
  The properties of the ledger and of payouts: the accounts a settlement moves, the settlement amount,
  the confirmation wait, what a successful and a failed settlement leave behind.
\<close>

section \<open>Ledger\<close>

definition ex_ledger_env :: env where
  "ex_ledger_env = \<lparr> e_now = 0, e_uuid = (\<lambda>n. replicate (Suc n) CHR ''l'') \<rparr>"

definition ex_entry :: new_entry where
  "ex_entry = \<lparr> ne_intent_id = ''i'', ne_type = LE_DEPOSIT, ne_amount = 5 / 2, ne_asset = ''USDC'', ne_chain = ''1'',
     ne_debit = ''pending:i'', ne_credit = ''customer:c'', ne_metadata = None \<rparr>"

definition ex_ledger :: ledger where
  "ex_ledger = \<lparr> lg_entries = [], lg_ids = 0 \<rparr>"

text \<open>The escrow account of an intent is never released: the deposit and the settlement both
  debit it, so after both its balance has grown by the deposit plus the payout, where the comments
  say the settlement decreases it.\<close>

theorem escrow_never_released:
  assumes "ledger_recordDeposit e d l = (l1, Inr x)" "recordSettlement e2 s l1 = (l2, Inr y)"
    and "sf_intent_id s = dr_intent_id d" "sf_asset s = dr_asset d"
  shows "getBalance l2 (''pending:'' @ dr_intent_id d) (dr_asset d)
       = getBalance l (''pending:'' @ dr_intent_id d) (dr_asset d)
         + pg_round 8 (dr_amount d) + pg_round 8 (sf_amount s)"
  using create_entry_balance [OF assms(1) [unfolded ledger_recordDeposit_def]]
    create_entry_balance [OF assms(2) [unfolded recordSettlement_def]] assms(3,4) by (simp add: moves_def)

theorem escrow_never_released_witness:
  "\<exists>(d :: deposit_record) (s :: settlement_fields) l1 l2 x y. dr_amount d = 100 \<and> sf_amount s = 99
     \<and> ledger_recordDeposit ex_ledger_env d ex_ledger = (l1, Inr x)
     \<and> recordSettlement ex_ledger_env s l1 = (l2, Inr y) \<and> getBalance l2 ''pending:i'' ''USDC'' = 199"
proof -
  let ?d = "\<lparr> dr_intent_id = ''i'', dr_amount = 100, dr_asset = ''USDC'', dr_chain = ''1'', dr_customer_id = ''c'',
      dr_tx_hash = ''t'', dr_source_address = ''a'' \<rparr>"
  let ?s = "\<lparr> sf_intent_id = ''i'', sf_merchant_id = ''m'', sf_amount = 99, sf_asset = ''USDC'', sf_chain = ''1'',
      sf_destination = ''d'', sf_tx_hash = None \<rparr>"
  let ?r1 = "ledger_recordDeposit ex_ledger_env ?d ex_ledger"
  let ?r2 = "recordSettlement ex_ledger_env ?s (fst ?r1)"
  have "case snd ?r1 of Inl _ \<Rightarrow> False | Inr _ \<Rightarrow> True" "case snd ?r2 of Inl _ \<Rightarrow> False | Inr _ \<Rightarrow> True" by code_simp+
  then obtain x y where r: "?r1 = (fst ?r1, Inr x)" "?r2 = (fst ?r2, Inr y)"
    by (cases ?r1; cases ?r2) (auto split: sum.splits)
  have "pg_round 8 100 = 100" "pg_round 8 99 = 99" by (simp_all add: pg_round_def)
  moreover have "getBalance ex_ledger a b = 0" for a b by (simp add: getBalance_postings ex_ledger_def)
  ultimately have "getBalance (fst ?r2) ''pending:i'' ''USDC'' = 199"
    using escrow_never_released [OF r] by simp
  then show ?thesis using r by (metis deposit_record.select_convs(2) settlement_fields.select_convs(3))
qed

section \<open>The settlement amount\<close>

lemma js_round_close: "\<bar>of_int (js_round x) - x\<bar> \<le> 1 / 2"
  unfolding js_round_def by linarith

lemma settlement_amount_close:
  assumes "0 \<le> t" "0 \<le> f" "f \<le> 100"
  shows "\<bar>calculateSettlementAmount t f - t * (1 - f / 100)\<bar> \<le> 1 / 200000000
     \<and> 0 \<le> calculateSettlementAmount t f
     \<and> (t = of_int k / 100000000 \<longrightarrow> calculateSettlementAmount t f \<le> t)"
proof -
  let ?y = "(t - t * (f / 100)) * 100000000"
  have close: "\<bar>of_int (js_round ?y) - ?y\<bar> \<le> 1 / 2" by (rule js_round_close)
  have nonneg: "0 \<le> ?y" using mult_left_mono [OF assms(3) assms(1)] by (simp add: mult.commute)
  then have "0 \<le> js_round ?y" unfolding js_round_def by simp
  then have "(0 :: rat) \<le> of_int (js_round ?y)" by simp
  moreover have "\<bar>of_int (js_round ?y) / 100000000 - t * (1 - f / 100)\<bar> \<le> 1 / 200000000"
  proof -
    define z :: rat and e where "z = of_int (js_round ?y)" and "e = t * (1 - f / 100)"
    have "?y = e * 100000000" by (simp add: e_def algebra_simps)
    then have "\<bar>z - e * 100000000\<bar> \<le> 1 / 2" using close by (simp add: z_def)
    then have "\<bar>z / 100000000 - e\<bar> \<le> 1 / 200000000" by linarith
    then show ?thesis by (simp add: z_def e_def)
  qed
  moreover have "of_int (js_round ?y) / 100000000 \<le> t" if "t = of_int k / 100000000"
  proof -
    have "?y \<le> of_int k" using that assms(1,2) by (simp add: algebra_simps)
    then have "js_round ?y \<le> k" using js_round_mono [of ?y "of_int k"] unfolding js_round_of_int by blast
    then have "(of_int (js_round ?y) :: rat) \<le> of_int k" by (simp only: of_int_le_iff)
    then have "of_int (js_round ?y) / 100000000 \<le> (of_int k :: rat) / 100000000"
      by (rule divide_right_mono) simp
    then show ?thesis by (simp only: that [symmetric])
  qed
  ultimately show ?thesis by (simp add: calculateSettlementAmount_def Let_def)
qed

text \<open>The payout is within half of 10^-8 of target minus percentage fee, never negative, and for an
  amount with at most 8 decimals (any amount read from the database) never more than the target.\<close>

theorem settlement_amount_bounds:
  assumes "0 \<le> t" "0 \<le> f" "f \<le> 100"
  shows "\<bar>calculateSettlementAmount t f - t * (1 - f / 100)\<bar> \<le> 1 / 200000000
     \<and> 0 \<le> calculateSettlementAmount t f
     \<and> (t = of_int k / 100000000 \<longrightarrow> calculateSettlementAmount t f \<le> t)"
  by (rule settlement_amount_close [OF assms])

theorem settlement_amount_bounds_witness:
  "calculateSettlementAmount 100 (5 / 2) \<le> 100 \<and> calculateSettlementAmount 100 (5 / 2) = 195 / 2"
  using settlement_amount_bounds [of 100 "5 / 2" 10000000000]
  by (simp add: calculateSettlementAmount_def js_round_def)

section \<open>Waiting for confirmation\<close>

lemma wait_loop_enough:
  assumes "clock_advances c" "maxWaitTime - cc_elapsed c n \<le> pollInterval * int fuel"
  shows "\<exists>r. wait_loop c h (Suc fuel) n = Some r"
  using assms(2)
proof (induction fuel arbitrary: n)
  case 0
  then show ?case by simp
next
  case (Suc fuel)
  have "cc_elapsed c n + pollInterval \<le> cc_elapsed c (Suc n)"
    using assms(1) by (simp add: clock_advances_def)
  then have "maxWaitTime - cc_elapsed c (Suc n) \<le> pollInterval * int fuel"
    using Suc.prems by (simp add: algebra_simps)
  then obtain r where "wait_loop c h (Suc fuel) (Suc n) = Some r" using Suc.IH by blast
  then show ?case
    by (subst wait_loop.simps(2)) (auto split: sum.splits simp del: wait_loop.simps(2))
qed

lemma wait_loop_confirmed:
  "wait_loop c h fuel n = Some (Inr ()) \<Longrightarrow>
     \<exists>k st. n \<le> k \<and> k < n + fuel \<and> cc_elapsed c k < maxWaitTime \<and> cc_status c h k = Inr st
       \<and> cc_depth c \<le> ts_confirmations st"
proof (induction fuel arbitrary: n)
  case (Suc fuel)
  then obtain st where st: "cc_elapsed c n < maxWaitTime" "cc_status c h n = Inr st"
      "cc_depth c \<le> ts_confirmations st \<or> wait_loop c h fuel (Suc n) = Some (Inr ())"
    by (auto split: if_splits sum.splits)
  show ?case
  proof (cases "cc_depth c \<le> ts_confirmations st")
    case True
    with st show ?thesis by auto
  next
    case False
    with st Suc.IH [of "Suc n"] obtain k st' where "Suc n \<le> k" "k < Suc n + fuel" "cc_elapsed c k < maxWaitTime"
        "cc_status c h k = Inr st'" "cc_depth c \<le> ts_confirmations st'" by blast
    then show ?thesis by (intro exI [of _ k] exI [of _ st']) simp
  qed
qed simp

text \<open>C31: the confirmation wait always ends, within 151 polls of a clock that moves at least by the poll
  interval between two tests, and it reports a confirmation only if some poll inside the five
  minutes saw the transaction at the chain's confirmation depth.\<close>

theorem waitForConfirmation_returns:
  assumes "clock_advances c"
  shows "\<exists>r. waitForConfirmation c h = Some r
     \<and> (r = Inr () \<longrightarrow> (\<exists>k st. k < 151 \<and> cc_elapsed c k < 300000 \<and> cc_status c h k = Inr st
                         \<and> cc_depth c \<le> ts_confirmations st))"
proof -
  have "0 \<le> cc_elapsed c 0" using assms by (simp add: clock_advances_def)
  then have "maxWaitTime - cc_elapsed c 0 \<le> pollInterval * int 150"
    by (simp add: maxWaitTime_def pollInterval_def)
  from wait_loop_enough [OF assms this, of h] obtain r where "waitForConfirmation c h = Some r"
    by (auto simp: waitForConfirmation_def wait_fuel_def simp del: wait_loop.simps)
  moreover have "\<exists>k st. k < 151 \<and> cc_elapsed c k < 300000 \<and> cc_status c h k = Inr st
      \<and> cc_depth c \<le> ts_confirmations st" if "waitForConfirmation c h = Some (Inr ())"
    using wait_loop_confirmed [OF that [unfolded waitForConfirmation_def]]
    by (auto simp: wait_fuel_def maxWaitTime_def)
  ultimately show ?thesis by blast
qed

definition ex_client :: chain_client where
  "ex_client = \<lparr> cc_depth = 12, cc_estimateGas = (\<lambda>_. Inr ()), cc_submit = (\<lambda>_. Inr ''0xtx''),
     cc_status = (\<lambda>_ n. Inr \<lparr> ts_status = TX_CONFIRMING, ts_confirmations = 6 * int n \<rparr>),
     cc_elapsed = (\<lambda>n. 2000 * int n) \<rparr>"

theorem waitForConfirmation_returns_witness:
  "waitForConfirmation ex_client ''0xtx'' = Some (Inr ())
   \<and> (\<exists>k st. k < 151 \<and> cc_status ex_client ''0xtx'' k = Inr st \<and> 12 \<le> ts_confirmations st)"
proof -
  have w: "waitForConfirmation ex_client ''0xtx'' = Some (Inr ())" by code_simp
  have "clock_advances ex_client" by (simp add: clock_advances_def ex_client_def pollInterval_def)
  from waitForConfirmation_returns [OF this, of "''0xtx''"] w
  obtain k st where "k < 151" "cc_status ex_client ''0xtx'' k = Inr st" "cc_depth ex_client \<le> ts_confirmations st"
    by auto
  then have "12 \<le> ts_confirmations st" by (simp add: ex_client_def)
  with \<open>k < 151\<close> \<open>cc_status ex_client ''0xtx'' k = Inr st\<close> w show ?thesis by blast
qed

section \<open>Settling an intent\<close>

lemma update_row_id [simp]: "se_id (update_row now u r) = se_id r"
  by (simp add: update_row_def)

interpretation su: keyed_update se_id "update_row now u" for now u
  by unfold_locales simp

lemma update_settlementE:
  assumes "update_settlement now i u s = (s', res)"
  obtains (refused) x where "res = Inl x" "s' = s"
    | (updated) r where "findSettlement s i = Some r" "res = Inr (update_row now u r)"
      "s' = s\<lparr> ss_settlements := tbl_update (\<lambda>r. se_id r = i) (update_row now u) (ss_settlements s) \<rparr>"
      "findSettlement s' i = Some (update_row now u r)"
  using assms
  by (auto simp: update_settlement_def findSettlement_def su.find_updated split: option.splits if_splits
      intro: refused updated)

lemma executeTransaction_rows [simp]:
  "ss_settlements (fst (executeTransaction c r s)) = ss_settlements s"
  "ss_ledger (fst (executeTransaction c r s)) = ss_ledger s"
  by (simp_all add: executeTransaction_def Let_def split: sum.splits)

lemma on_ledger_rows [simp]:
  "ss_settlements (fst (on_ledger f s)) = ss_settlements s" "ss_payouts (fst (on_ledger f s)) = ss_payouts s"
  "ss_submitted (fst (on_ledger f s)) = ss_submitted s"
  by (simp_all add: on_ledger_def split: prod.splits)

lemma settlement_row_simps [simp]:
  "se_id (settlement_row e i p a) = i" "se_amount (settlement_row e i p a) = a"
  "se_destination (settlement_row e i p a) = ns_destination p" "se_intent_id (settlement_row e i p a) = ns_intent_id p"
  "se_asset (settlement_row e i p a) = ns_asset p" "se_merchant_id (settlement_row e i p a) = ns_merchant_id p"
  by (simp_all add: settlement_row_def)

lemma create_settlementE:
  assumes "create_settlement v p s = (s', res)"
  obtains (refused) x where "res = Inl x" "ss_settlements s' = ss_settlements s" "ss_ledger s' = ss_ledger s"
      "ss_payouts s' = ss_payouts s" "ss_submitted s' = ss_submitted s"
    | (created) amount i where "pg_decimal 20 8 (ns_amount p) = Some amount"
      "i \<notin> se_id ` set (ss_settlements s)"
      "ss_settlements s' = ss_settlements s @ [settlement_row (sv_env v) i p amount]"
      "res = Inr (settlement_row (sv_env v) i p (ns_amount p))" "ss_ledger s' = ss_ledger s"
      "ss_payouts s' = ss_payouts s" "ss_submitted s' = ss_submitted s"
  using assms
  by (auto simp: create_settlement_def Let_def split: if_splits option.splits dest!: tbl_insert_SomeD
      intro: refused created)

lemma update_row_simps [simp]:
  "se_amount (update_row now u r) = se_amount r" "se_intent_id (update_row now u r) = se_intent_id r"
  "se_asset (update_row now u r) = se_asset r" "se_merchant_id (update_row now u r) = se_merchant_id r"
  "se_status (update_row now u r) = (case su_status u of None \<Rightarrow> se_status r | Some x \<Rightarrow> x)"
  "se_tx_hash (update_row now u r) = (case su_tx_hash u of None \<Rightarrow> se_tx_hash r | Some h \<Rightarrow> Some h)"
  by (simp_all add: update_row_def)

text \<open>Amounts with at most 8 decimals survive the DECIMAL(20, 8) columns.\<close>

definition on_grid :: "rat \<Rightarrow> bool" where
  "on_grid x = (of_int \<lfloor>x * 100000000\<rfloor> = x * 100000000)"

lemma on_grid_of_int: "on_grid (of_int n / 100000000)"
  by (simp add: on_grid_def)

lemma on_gridE: "on_grid x \<Longrightarrow> \<exists>n. x = of_int n / 100000000"
proof -
  assume g: "on_grid x"
  have "x = x * 100000000 / 100000000" by simp
  also have "\<dots> = of_int \<lfloor>x * 100000000\<rfloor> / 100000000" using g by (simp only: on_grid_def)
  finally show ?thesis by blast
qed

lemma on_grid_diff: "on_grid x \<Longrightarrow> on_grid y \<Longrightarrow> on_grid (x - y)"
proof -
  assume "on_grid x" "on_grid y"
  then obtain a b where "x = of_int a / 100000000" "y = of_int b / 100000000" by (blast dest: on_gridE)
  then have "x - y = of_int (a - b) / 100000000" by (simp add: diff_divide_distrib)
  then show "on_grid (x - y)" using on_grid_of_int by metis
qed

lemma pg_round_grid:
  assumes "on_grid x" "0 \<le> x"
  shows "pg_round 8 x = x"
proof -
  obtain n where n: "x = of_int n / 100000000" using on_gridE [OF assms(1)] by blast
  have "\<lfloor>of_int n + 1 / 2 :: rat\<rfloor> = n" by linarith
  with n assms(2) show ?thesis by (simp add: pg_round_def Let_def)
qed

lemma pg_decimal_grid: "pg_decimal 20 8 x = Some y \<Longrightarrow> on_grid x \<Longrightarrow> 0 \<le> x \<Longrightarrow> y = x"
  by (auto simp: pg_decimal_def Let_def pg_round_grid split: if_splits)

lemma settlement_amount_grid: "on_grid (calculateSettlementAmount t f)"
  unfolding calculateSettlementAmount_def Let_def by (rule on_grid_of_int)

lemma settlement_amount_no_fee: "on_grid t \<Longrightarrow> calculateSettlementAmount t 0 = t"
  by (auto simp: calculateSettlementAmount_def dest!: on_gridE)

text \<open>What the fee entry and the payout entry do to the balances.\<close>

definition fee_moves :: "merchant \<Rightarrow> rat \<Rightarrow> string \<Rightarrow> string \<Rightarrow> rat" where
  "fee_moves m fee acc asset = (if asset = m_settlement_asset m
     then (if acc = ''merchant:'' @ m_id m then pg_round 8 fee else 0)
        - (if acc = ''revenue:fees'' then pg_round 8 fee else 0) else 0)"

definition payout_moves :: "settlement \<Rightarrow> string \<Rightarrow> string \<Rightarrow> rat" where
  "payout_moves r acc asset = (if asset = se_asset r
     then (if acc = ''pending:'' @ se_intent_id r then pg_round 8 (se_amount r) else 0)
        - (if acc = ''merchant:'' @ se_merchant_id r then pg_round 8 (se_amount r) else 0) else 0)"

lemma settle_fee_books:
  assumes "settle_fee v intent m amount s = (s', Inr ())"
  shows "getBalance (ss_ledger s') acc asset = getBalance (ss_ledger s) acc asset
     + (if 0 < m_fee_percentage m then fee_moves m (pi_target_amount intent - amount) acc asset else 0)"
  using assms
  by (auto simp: settle_fee_def on_ledger_def recordFee_def fee_moves_def moves_def split: if_splits prod.splits
      elim!: andThenE dest!: create_entry_balance [where acc = acc and asset = asset])

lemma settle_record_books:
  assumes "settle_record v d s = (s', Inr y)"
  shows "getBalance (ss_ledger s') acc asset = getBalance (ss_ledger s) acc asset + payout_moves d acc asset"
  using assms
  by (auto simp: settle_record_def on_ledger_def recordSettlement_def payout_moves_def moves_def split: prod.splits
      dest!: create_entry_balance [where acc = acc and asset = asset])

text \<open>What the end of a successful settlement did to the rows and the ledger.\<close>

lemma settle_finish_done:
  assumes "settle_finish v intent m amount r s = (s', Inr d)"
  obtains old where "findSettlement s (se_id r) = Some old"
    "d = update_row (e_now (sv_env v)) \<lparr> su_status = Some S_COMPLETED, su_tx_hash = None,
           su_completed_at = Some (e_now (sv_env v)) \<rparr> old"
    "findSettlement s' (se_id r) = Some d" "ss_payouts s' = ss_payouts s" "ss_submitted s' = ss_submitted s"
    "map le_amount (lg_entries (ss_ledger s')) = map le_amount (lg_entries (ss_ledger s))
       @ (if 0 < m_fee_percentage m then [pg_round 8 (pi_target_amount intent - amount)] else [])
       @ [pg_round 8 (se_amount old)]"
    "\<exists>y \<in> set (lg_entries (ss_ledger s')). le_intent_id y = se_intent_id old \<and> le_type y = LE_SETTLEMENT"
    "\<forall>acc asset. getBalance (ss_ledger s') acc asset = getBalance (ss_ledger s) acc asset
       + (if 0 < m_fee_percentage m then fee_moves m (pi_target_amount intent - amount) acc asset else 0)
       + payout_moves old acc asset"
proof -
  let ?u = "\<lparr> su_status = Some S_COMPLETED, su_tx_hash = None, su_completed_at = Some (e_now (sv_env v)) \<rparr>"
  from assms [unfolded settle_finish_def] obtain s1 d1 where
    upd: "update_settlement (e_now (sv_env v)) (se_id r) ?u s = (s1, Inr d1)"
    and k1: "andThen (settle_fee v intent m amount s1) (\<lambda>s _.
       andThen (settle_record v d1 s) (\<lambda>s _. (s, Inr d1))) = (s', Inr d)"
    by (rule andThenE) simp_all
  from k1 obtain s2 where fee: "settle_fee v intent m amount s1 = (s2, Inr ())"
    and k2: "andThen (settle_record v d1 s2) (\<lambda>s _. (s, Inr d1)) = (s', Inr d)"
    by (rule andThenE) simp_all
  from k2 obtain s3 y where pay: "settle_record v d1 s2 = (s3, Inr y)" and last: "s' = s3" "d = d1"
    by (rule andThenE) simp_all
  have post: "map le_amount (lg_entries l') = map le_amount (lg_entries l) @ [pg_round 8 (ne_amount p)]"
    if "create_entry e p l = (l', Inr z)" for e p l l' z
    using that by (cases rule: create_entryE) (auto simp: pg_decimal_def Let_def split: if_splits)
  have rows: "ss_settlements s2 = ss_settlements s1" "ss_payouts s2 = ss_payouts s1" "ss_submitted s2 = ss_submitted s1"
    "map le_amount (lg_entries (ss_ledger s2)) = map le_amount (lg_entries (ss_ledger s1))
       @ (if 0 < m_fee_percentage m then [pg_round 8 (pi_target_amount intent - amount)] else [])"
    using fee
    by (auto simp: settle_fee_def on_ledger_def recordFee_def split: if_splits prod.splits elim!: andThenE dest!: post)
  have rows3: "ss_settlements s3 = ss_settlements s2" "ss_payouts s3 = ss_payouts s2" "ss_submitted s3 = ss_submitted s2"
    "map le_amount (lg_entries (ss_ledger s3)) = map le_amount (lg_entries (ss_ledger s2)) @ [pg_round 8 (se_amount d1)]"
    using pay by (auto simp: settle_record_def on_ledger_def recordSettlement_def split: prod.splits dest!: post)
  have "\<exists>y \<in> set (lg_entries l'). le_intent_id y = ne_intent_id p \<and> le_type y = ne_type p"
    if "create_entry e p l = (l', Inr z)" for e p l l' z
    using that by (cases rule: create_entryE) auto
  then have entry: "\<exists>y \<in> set (lg_entries (ss_ledger s3)). le_intent_id y = se_intent_id d1 \<and> le_type y = LE_SETTLEMENT"
    using pay by (fastforce simp: settle_record_def on_ledger_def recordSettlement_def split: prod.splits)
  note books = settle_fee_books [OF fee] settle_record_books [OF pay]
  from upd show ?thesis
  proof (cases rule: update_settlementE)
    case (updated old)
    then show ?thesis using rows rows3 last entry books
      by (intro that [of old]) (auto simp: findSettlement_def payout_moves_def)
  qed simp
qed

text \<open>The rows while one settlement is under way: the old ones, and its own as the last.\<close>

definition own_row :: "settlement list \<Rightarrow> string \<Rightarrow> string \<Rightarrow> settle_state \<Rightarrow> bool" where
  "own_row rows i j s = (i \<notin> se_id ` set rows
     \<and> (\<exists>r. ss_settlements s = rows @ [r] \<and> se_id r = i \<and> se_intent_id r = j))"

lemma update_own:
  assumes "own_row rows i j s" "update_settlement now i u s = (s', res)"
  shows "own_row rows i j s' \<and> ss_payouts s' = ss_payouts s
     \<and> (su_tx_hash u = None \<longrightarrow> (\<forall>x. su_status u = Some x \<longrightarrow> se_status (last (ss_settlements s')) = x))"
proof -
  from assms(1) obtain r where r: "i \<notin> se_id ` set rows" "ss_settlements s = rows @ [r]" "se_id r = i"
      "se_intent_id r = j" by (auto simp: own_row_def)
  have none: "tbl_update (\<lambda>r. se_id r = i) f rows = rows" for f
    using r(1) by (intro tbl_update_none) auto
  have "tbl_find (\<lambda>r. se_id r = i) rows = None" using r(1) by (auto simp: tbl_find_None_iff)
  with r assms(2) none show ?thesis
    by (auto simp: update_settlement_def findSettlement_def tbl_find_append own_row_def
        split: option.splits if_splits)
qed

lemma andThen_own:
  assumes "own_row rows i j (fst m) \<and> ss_payouts (fst m) = ps"
    and "\<And>s v. own_row rows i j s \<and> ss_payouts s = ps \<Longrightarrow> own_row rows i j (fst (k s v)) \<and> ss_payouts (fst (k s v)) = ps"
  shows "own_row rows i j (fst (andThen m k)) \<and> ss_payouts (fst (andThen m k)) = ps"
  using assms by (cases m; cases "snd m") (auto simp: andThen_def)

lemma on_ledger_own: "own_row rows i j s \<and> ss_payouts s = ps
    \<Longrightarrow> own_row rows i j (fst (on_ledger f s)) \<and> ss_payouts (fst (on_ledger f s)) = ps"
  by (simp add: own_row_def)

lemma settle_finish_own:
  assumes "own_row rows i j s" "se_id r = i"
  shows "own_row rows i j (fst (settle_finish v intent m amount r s))
     \<and> ss_payouts (fst (settle_finish v intent m amount r s)) = ss_payouts s"
proof -
  have fee: "own_row rows i j (fst (settle_fee v intent m amount s)) \<and> ss_payouts (fst (settle_fee v intent m amount s)) = ps"
    if "own_row rows i j s \<and> ss_payouts s = ps" for s ps
    using that by (auto simp: settle_fee_def intro!: andThen_own on_ledger_own)
  have upd: "own_row rows i j (fst (update_settlement now i u s)) \<and> ss_payouts (fst (update_settlement now i u s)) = ss_payouts s"
    for now u
    using update_own [OF assms(1), of now u] by (cases "update_settlement now i u s") auto
  have rec: "own_row rows i j (fst (settle_record v d s)) \<and> ss_payouts (fst (settle_record v d s)) = ps"
    if "own_row rows i j s \<and> ss_payouts s = ps" for d s ps
    using that unfolding settle_record_def by (rule on_ledger_own)
  show ?thesis
    unfolding settle_finish_def assms(2)
  proof (rule andThen_own [OF upd])
    fix s1 d1 assume 1: "own_row rows i j s1 \<and> ss_payouts s1 = ss_payouts s"
    show "own_row rows i j (fst (andThen (settle_fee v intent m amount s1) (\<lambda>s _. andThen (settle_record v d1 s) (\<lambda>s _. (s, Inr d1)))))
      \<and> ss_payouts (fst (andThen (settle_fee v intent m amount s1) (\<lambda>s _. andThen (settle_record v d1 s) (\<lambda>s _. (s, Inr d1))))) = ss_payouts s"
      by (intro andThen_own fee [OF 1] rec) simp_all
  qed
qed

lemma settle_try_own:
  assumes "own_row rows i j s" "se_id r = i" "settle_try v intent m c amount r s = Some (s', res)"
  shows "own_row rows i j s' \<and> (ss_payouts s' = ss_payouts s \<or> (\<exists>tx. ss_payouts s' = ss_payouts s @ [tx]))"
proof -
  obtain s1 x1 where e: "executeTransaction c r s = (s1, x1)" by fastforce
  have o1: "own_row rows i j s1" using assms(1) executeTransaction_rows [of c r s] by (simp add: own_row_def e)
  have p1: "ss_payouts s1 = ss_payouts s \<or> (\<exists>tx. ss_payouts s1 = ss_payouts s @ [tx])"
    using e by (auto simp: executeTransaction_def Let_def split: sum.splits)
  show ?thesis
  proof (cases x1)
    case (Inl x)
    with assms(3) e o1 p1 show ?thesis by (simp add: settle_try_def)
  next
    case (Inr h)
    obtain s2 x2 where u: "update_settlement (e_now (sv_env v)) i
        \<lparr> su_status = Some S_PROCESSING, su_tx_hash = Some h, su_completed_at = None \<rparr> s1 = (s2, x2)" by fastforce
    note o2 = update_own [OF o1 u]
    have "s' = s2 \<or> s' = fst (settle_finish v intent m amount r s2)"
      using assms(2,3) e Inr u by (auto simp: settle_try_def split: sum.splits option.splits)
    then show ?thesis using o2 p1 settle_finish_own [of rows i j s2 r v intent m amount] assms(2) by auto
  qed
qed

text \<open>Up to the wait: the new row carries the amount, one payout for it was submitted, and its hash is stored.\<close>

lemma payout_submitted:
  assumes "create_settlement v p s = (s1, Inr r)" "executeTransaction c r s1 = (s3, Inr h)"
    and "update_settlement (e_now (sv_env v)) (se_id r)
        \<lparr> su_status = Some S_PROCESSING, su_tx_hash = Some h, su_completed_at = None \<rparr> s3 = (s4, Inr u)"
    and "on_grid (ns_amount p)" "0 \<le> ns_amount p"
  obtains i tx row where "se_id r = i" "findSettlement s4 i = Some row" "own_row (ss_settlements s) i (ns_intent_id p) s1"
    "se_id row = i" "se_amount row = ns_amount p" "se_tx_hash row = Some h" "se_intent_id row = ns_intent_id p"
    "se_intent_id r = ns_intent_id p" "se_asset row = ns_asset p" "se_merchant_id row = ns_merchant_id p"
    "ss_ledger s4 = ss_ledger s" "ss_payouts s4 = ss_payouts s @ [tx]" "tx_to tx = ns_destination p" "tx_value tx = ns_amount p"
    "ss_submitted s4 = ss_submitted s @ [signTransaction tx]"
proof -
  from assms(1) obtain amount i where row: "pg_decimal 20 8 (ns_amount p) = Some amount" "i \<notin> se_id ` set (ss_settlements s)"
      "ss_settlements s1 = ss_settlements s @ [settlement_row (sv_env v) i p amount]"
      "r = settlement_row (sv_env v) i p (ns_amount p)" "ss_ledger s1 = ss_ledger s" "ss_payouts s1 = ss_payouts s"
      "ss_submitted s1 = ss_submitted s"
    by (cases rule: create_settlementE) auto
  have a: "amount = ns_amount p" using pg_decimal_grid [OF row(1) assms(4,5)] .
  have "\<forall>x \<in> set (ss_settlements s). se_id x \<noteq> i" using row(2) by auto
  then have f1: "findSettlement s1 i = Some (settlement_row (sv_env v) i p (ns_amount p))"
    by (auto simp: findSettlement_def row(3) a tbl_find_append tbl_find_None_iff split: option.splits
        dest: tbl_find_SomeD)
  obtain tx where tx: "ss_payouts s3 = ss_payouts s @ [tx]" "tx_to tx = ns_destination p" "tx_value tx = ns_amount p"
      "ss_submitted s3 = ss_submitted s @ [signTransaction tx]"
    using assms(2) row(4,6,7) by (auto simp: executeTransaction_def Let_def settlement_row_def split: sum.splits)
  have s3: "ss_settlements s3 = ss_settlements s1" "ss_ledger s3 = ss_ledger s1"
    using executeTransaction_rows [of c r s1] assms(2) by simp_all
  from assms(3) obtain r0 where up: "findSettlement s3 i = Some r0" "findSettlement s4 i = Some (update_row (e_now (sv_env v))
        \<lparr> su_status = Some S_PROCESSING, su_tx_hash = Some h, su_completed_at = None \<rparr> r0)"
      "ss_ledger s4 = ss_ledger s3" "ss_payouts s4 = ss_payouts s3" "ss_submitted s4 = ss_submitted s3"
    by (cases rule: update_settlementE) (auto simp: row(4))
  have r0: "r0 = settlement_row (sv_env v) i p (ns_amount p)" using up(1) f1 by (simp add: findSettlement_def s3(1))
  have "own_row (ss_settlements s) i (ns_intent_id p) s1" using row(2,3) by (simp add: own_row_def)
  then show ?thesis using up tx s3 row(4,5) by (intro that [OF _ up(2)]) (simp_all add: r0)
qed

text \<open>The fee and the payout of an amount on the grid are booked unrounded and add up to it.\<close>

lemma booked_amounts:
  assumes "on_grid amt" "0 \<le> amt" "0 \<le> fee" "fee \<le> 100"
  defines "net \<equiv> calculateSettlementAmount amt fee"
  shows "0 \<le> net" "on_grid net" "sum_list ((if 0 < fee then [pg_round 8 (amt - net)] else []) @ [pg_round 8 net]) = amt"
proof -
  obtain k where k: "amt = of_int k / 100000000" using on_gridE [OF assms(1)] by blast
  have net: "0 \<le> net" "net \<le> amt" "on_grid net"
    unfolding net_def using settlement_amount_close [OF assms(2-4), of k] k settlement_amount_grid by blast+
  then have round: "pg_round 8 net = net" "pg_round 8 (amt - net) = amt - net"
    using on_grid_diff [OF assms(1) net(3)] by (simp_all add: pg_round_grid)
  have "net = amt" if "\<not> 0 < fee"
  proof -
    have "fee = 0" using that assms(3) by simp
    then show ?thesis using settlement_amount_no_fee [OF assms(1)] by (simp add: net_def)
  qed
  then show "0 \<le> net" "on_grid net" "sum_list ((if 0 < fee then [pg_round 8 (amt - net)] else []) @ [pg_round 8 net]) = amt"
    using net round by simp_all
qed

lemma booked_fee:
  assumes "on_grid amt" "0 \<le> amt" "0 \<le> fee" "fee \<le> 100"
  defines "net \<equiv> calculateSettlementAmount amt fee"
  shows "pg_round 8 (amt - net) = amt - net" "\<not> 0 < fee \<Longrightarrow> net = amt"
    "\<bar>(amt - net) - amt * fee / 100\<bar> \<le> 1 / 200000000" "0 \<le> amt - net"
proof -
  obtain k where k: "amt = of_int k / 100000000" using on_gridE [OF assms(1)] by blast
  have net: "0 \<le> net" "net \<le> amt" "on_grid net" "\<bar>net - amt * (1 - fee / 100)\<bar> \<le> 1 / 200000000"
    unfolding net_def using settlement_amount_close [OF assms(2-4), of k] k settlement_amount_grid by blast+
  show "pg_round 8 (amt - net) = amt - net" using on_grid_diff [OF assms(1) net(3)] net(2) by (simp add: pg_round_grid)
  show "0 \<le> amt - net" using net(2) by simp
  have "amt * (1 - fee / 100) = amt - amt * fee / 100" by (simp add: algebra_simps)
  then show "\<bar>(amt - net) - amt * fee / 100\<bar> \<le> 1 / 200000000" using net(4) by linarith
  show "net = amt" if "\<not> 0 < fee"
  proof -
    have "fee = 0" using that assms(3) by simp
    then show ?thesis using settlement_amount_no_fee [OF assms(1)] by (simp add: net_def)
  qed
qed

text \<open>Both entries together: the escrow of the intent and the merchant against the fee income.  The fee is
  what the payout leaves of the target amount.\<close>

definition settlement_moves :: "payment_intent \<Rightarrow> merchant \<Rightarrow> rat \<Rightarrow> string \<Rightarrow> string \<Rightarrow> rat" where
  "settlement_moves intent m net acc asset = (let fee = pi_target_amount intent - net in
     if asset \<noteq> m_settlement_asset m then 0
     else if acc = ''pending:'' @ pi_id intent then net
     else if acc = ''merchant:'' @ m_id m then fee - net
     else if acc = ''revenue:fees'' then - fee else 0)"

lemma booked_moves:
  assumes "on_grid (pi_target_amount intent)" "0 \<le> pi_target_amount intent"
    and "0 \<le> m_fee_percentage m" "m_fee_percentage m \<le> 100"
    and "se_amount r = calculateSettlementAmount (pi_target_amount intent) (m_fee_percentage m)"
    and "se_asset r = m_settlement_asset m" "se_merchant_id r = m_id m" "se_intent_id r = pi_id intent"
  shows "(if 0 < m_fee_percentage m then fee_moves m (pi_target_amount intent - se_amount r) acc asset else 0)
     + payout_moves r acc asset = settlement_moves intent m (se_amount r) acc asset"
  using booked_amounts [OF assms(1-4)] booked_fee [OF assms(1-4)] assms(5-8)
  by (auto simp: fee_moves_def payout_moves_def settlement_moves_def Let_def pg_round_grid)

lemma settleIntent_done:
  assumes "settleIntent v intent m c s = Some (s', Inr d)" "on_grid (pi_target_amount intent)"
    and "0 \<le> pi_target_amount intent" "0 \<le> m_fee_percentage m" "m_fee_percentage m \<le> 100"
  shows "\<exists>h tx new. findSettlement s' (se_id d) = Some d \<and> se_status d = S_COMPLETED \<and> se_intent_id d = pi_id intent
     \<and> se_tx_hash d = Some h \<and> waitForConfirmation c h = Some (Inr ())
     \<and> ss_payouts s' = ss_payouts s @ [tx] \<and> ss_submitted s' = ss_submitted s @ [signTransaction tx] \<and> tx_to tx = m_settlement_address m \<and> tx_value tx = se_amount d
     \<and> map le_amount (lg_entries (ss_ledger s')) = map le_amount (lg_entries (ss_ledger s)) @ new
     \<and> sum_list new = pi_target_amount intent
     \<and> se_amount d = calculateSettlementAmount (pi_target_amount intent) (m_fee_percentage m)
     \<and> (\<exists>y \<in> set (lg_entries (ss_ledger s')). le_intent_id y = pi_id intent \<and> le_type y = LE_SETTLEMENT)
     \<and> (\<exists>i. own_row (ss_settlements s) i (pi_id intent) s')
     \<and> (\<forall>acc asset. getBalance (ss_ledger s') acc asset = getBalance (ss_ledger s) acc asset
          + settlement_moves intent m (se_amount d) acc asset)"
proof -
  let ?amt = "calculateSettlementAmount (pi_target_amount intent) (m_fee_percentage m)"
  let ?p = "\<lparr> ns_intent_id = pi_id intent, ns_merchant_id = m_id m, ns_amount = ?amt,
      ns_asset = m_settlement_asset m, ns_chain = m_settlement_chain m, ns_destination = m_settlement_address m \<rparr>"
  note amt = booked_amounts [OF assms(2-5)]
  from assms(1) obtain s1 r where
    cr: "create_settlement v ?p s = (s1, Inr r)" and tr: "settle_try v intent m c ?amt r s1 = Some (s', Inr d)"
    by (auto simp: settleIntent_def Let_def handleSettlementFailure_def split: prod.splits sum.splits option.splits
        elim!: andThenE)
  from tr obtain s3 h s4 u where
    ex: "executeTransaction c r s1 = (s3, Inr h)"
    and up: "update_settlement (e_now (sv_env v)) (se_id r)
        \<lparr> su_status = Some S_PROCESSING, su_tx_hash = Some h, su_completed_at = None \<rparr> s3 = (s4, Inr u)"
    and wt: "waitForConfirmation c h = Some (Inr ())"
    and fin: "settle_finish v intent m ?amt r s4 = (s', Inr d)"
    by (auto simp: settle_try_def split: prod.splits sum.splits option.splits)
  obtain i tx row where row: "se_id r = i" "findSettlement s4 i = Some row" "own_row (ss_settlements s) i (pi_id intent) s1"
    "se_id row = i" "se_amount row = ?amt" "se_tx_hash row = Some h" "se_intent_id row = pi_id intent" "se_intent_id r = pi_id intent"
    "se_asset row = m_settlement_asset m" "se_merchant_id row = m_id m"
    "ss_ledger s4 = ss_ledger s" "ss_payouts s4 = ss_payouts s @ [tx]" "tx_to tx = m_settlement_address m" "tx_value tx = ?amt"
    "ss_submitted s4 = ss_submitted s @ [signTransaction tx]"
    by (rule payout_submitted [OF cr ex up]) (use amt in simp_all)
  from fin obtain old where old: "findSettlement s4 (se_id r) = Some old"
    "d = update_row (e_now (sv_env v)) \<lparr> su_status = Some S_COMPLETED, su_tx_hash = None,
           su_completed_at = Some (e_now (sv_env v)) \<rparr> old"
    "findSettlement s' (se_id r) = Some d" "ss_payouts s' = ss_payouts s4" "ss_submitted s' = ss_submitted s4"
    "map le_amount (lg_entries (ss_ledger s')) = map le_amount (lg_entries (ss_ledger s4))
       @ (if 0 < m_fee_percentage m then [pg_round 8 (pi_target_amount intent - ?amt)] else [])
       @ [pg_round 8 (se_amount old)]"
    "\<exists>y \<in> set (lg_entries (ss_ledger s')). le_intent_id y = se_intent_id old \<and> le_type y = LE_SETTLEMENT"
    "\<forall>acc asset. getBalance (ss_ledger s') acc asset = getBalance (ss_ledger s4) acc asset
       + (if 0 < m_fee_percentage m then fee_moves m (pi_target_amount intent - ?amt) acc asset else 0)
       + payout_moves old acc asset"
    by (rule settle_finish_done)
  have o: "old = row" using old(1) row(1,2) by simp
  have "own_row (ss_settlements s) i (pi_id intent) s'" using settle_try_own [OF _ _ tr] row(1,3,8) by simp
  moreover have "\<forall>acc asset. getBalance (ss_ledger s') acc asset = getBalance (ss_ledger s) acc asset
      + settlement_moves intent m ?amt acc asset"
    using old(8) booked_moves [OF assms(2-5) row(5,9,10,7)] unfolding o row(5) row(11) by (simp only: add.assoc simp_thms)
  moreover have "se_amount d = ?amt" using old(2) row(5) o by simp
  ultimately show ?thesis using old(2-7) row wt amt(3) unfolding o
    by (intro exI [of _ h] exI [of _ tx]
        exI [of _ "(if 0 < m_fee_percentage m then [pg_round 8 (pi_target_amount intent - ?amt)] else []) @ [pg_round 8 ?amt]"])
      (simp, blast)
qed

text \<open>C4: a settlement that returns has paid once, after its transaction was seen at confirmation depth,
  its row is COMPLETED with that transaction, and its ledger entries (fee and payout) add up to
  exactly the target amount of the intent: nothing is created or lost by fees and rounding.
  What was handed to the chain client for the payout is the placeholder signature of its transaction, once.\<close>

theorem settleIntent_conserves:
  assumes "settleIntent v intent m c s = Some (s', Inr d)" "on_grid (pi_target_amount intent)"
    and "0 \<le> pi_target_amount intent" "0 \<le> m_fee_percentage m" "m_fee_percentage m \<le> 100"
  shows "\<exists>h tx new. findSettlement s' (se_id d) = Some d \<and> se_status d = S_COMPLETED \<and> se_intent_id d = pi_id intent
     \<and> se_tx_hash d = Some h \<and> waitForConfirmation c h = Some (Inr ())
     \<and> ss_payouts s' = ss_payouts s @ [tx] \<and> tx_to tx = m_settlement_address m \<and> tx_value tx = se_amount d
     \<and> ss_submitted s' = ss_submitted s @ [signTransaction tx]
     \<and> map le_amount (lg_entries (ss_ledger s')) = map le_amount (lg_entries (ss_ledger s)) @ new
     \<and> sum_list new = pi_target_amount intent"
  using settleIntent_done [OF assms] by blast

definition ex_intent :: payment_intent where
  "ex_intent = \<lparr> pi_id = ''i'', pi_merchant_id = ''m'', pi_order_ref = ''o'', pi_target_amount = 100,
     pi_target_asset = ''USDC'', pi_target_chain = ''1'', pi_accepted_assets = [], pi_quoted_rate = Some 1,
     pi_deposit_address = Some ''0xdep'', pi_deposit_asset = Some ''USDC'', pi_deposit_chain = Some ''1'',
     pi_quote_expires_at = Some 1000, pi_state = SETTLING, pi_version = 5, pi_created_at = 0, pi_updated_at = 0 \<rparr>"

definition ex_shop :: merchant where
  "ex_shop = \<lparr> m_id = ''m'', m_name = ''Shop'', m_settlement_asset = ''USDC'', m_settlement_chain = ''1'',
     m_settlement_address = ''0xshop'', m_accepted_chains = [''1''], m_accepted_assets = [''USDC''],
     m_fee_percentage = 5 / 2, m_kyc_threshold = 10000, m_quote_ttl_seconds = 300, m_webhook_url = None,
     m_compliance_status = ''COMPLIANT'', m_api_key_hash = None, m_email = None, m_password_hash = None,
     m_password_salt = None, m_created_at = 0, m_updated_at = 0 \<rparr>"

definition ex_settle_env :: settle_env where
  "ex_settle_env = \<lparr> sv_env = ex_ledger_env, sv_ledger_env = ex_ledger_env, sv_fk = (\<lambda>_ _. True) \<rparr>"

definition ex_settle :: settle_state where
  "ex_settle = \<lparr> ss_settlements = [], ss_ledger = ex_ledger, ss_ids = 0, ss_timers = [], ss_payouts = [],
     ss_submitted = [] \<rparr>"

theorem settleIntent_conserves_witness:
  "\<exists>s' d new. settleIntent ex_settle_env ex_intent ex_shop ex_client ex_settle = Some (s', Inr d)
     \<and> map le_amount (lg_entries (ss_ledger s')) = new \<and> sum_list new = 100"
proof -
  let ?r = "settleIntent ex_settle_env ex_intent ex_shop ex_client ex_settle"
  have "case ?r of None \<Rightarrow> False | Some (_, Inl _) \<Rightarrow> False | Some (_, Inr _) \<Rightarrow> True" by code_simp
  then obtain s' d where r: "?r = Some (s', Inr d)" by (auto split: option.splits prod.splits sum.splits)
  have "on_grid (pi_target_amount ex_intent)" by (simp add: on_grid_def ex_intent_def)
  moreover have "0 \<le> pi_target_amount ex_intent" "0 \<le> m_fee_percentage ex_shop" "m_fee_percentage ex_shop \<le> 100"
      "pi_target_amount ex_intent = 100" "lg_entries (ss_ledger ex_settle) = []"
    by (simp_all add: ex_intent_def ex_shop_def ex_settle_def ex_ledger_def)
  ultimately show ?thesis using settleIntent_conserves [OF r] r by fastforce
qed

text \<open>The submitted data keeps the addresses of the payout and not its value.\<close>

lemma signed_without_value: "signTransaction (tx\<lparr> tx_value := x \<rparr>) = signTransaction tx"
  by (simp add: signTransaction_def)

text \<open>C19: the books of a settlement that returns: in the merchant's settlement asset the escrow account
  of the intent is debited the payout, the merchant account is credited the payout and debited the fee,
  the fee income is credited the fee, and no other balance changes; the fee is what the payout leaves of
  the target amount, the merchant's percentage up to half of 10^-8.\<close>

theorem settlement_books_accounts:
  assumes "settleIntent v intent m c s = Some (s', Inr d)" "on_grid (pi_target_amount intent)"
    and "0 \<le> pi_target_amount intent" "0 \<le> m_fee_percentage m" "m_fee_percentage m \<le> 100"
  defines "fee \<equiv> pi_target_amount intent - se_amount d"
  shows "getBalance (ss_ledger s') acc asset = getBalance (ss_ledger s) acc asset
       + (if asset \<noteq> m_settlement_asset m then 0
          else if acc = ''pending:'' @ pi_id intent then se_amount d
          else if acc = ''merchant:'' @ m_id m then fee - se_amount d
          else if acc = ''revenue:fees'' then - fee else 0)
     \<and> 0 \<le> fee \<and> \<bar>fee - pi_target_amount intent * m_fee_percentage m / 100\<bar> \<le> 1 / 200000000"
proof -
  from settleIntent_done [OF assms(1-5)] have
    amt: "se_amount d = calculateSettlementAmount (pi_target_amount intent) (m_fee_percentage m)"
    and "getBalance (ss_ledger s') acc asset = getBalance (ss_ledger s) acc asset
      + settlement_moves intent m (se_amount d) acc asset" by blast+
  then show ?thesis
    using booked_fee(3,4) [OF assms(2-5)] unfolding fee_def settlement_moves_def Let_def amt by blast
qed

theorem settlement_books_accounts_witness:
  "\<exists>s' d. settleIntent ex_settle_env ex_intent ex_shop ex_client ex_settle = Some (s', Inr d)
     \<and> se_amount d = 195 / 2 \<and> getBalance (ss_ledger s') ''pending:i'' ''USDC'' = 195 / 2
     \<and> getBalance (ss_ledger s') ''merchant:m'' ''USDC'' = - 95
     \<and> getBalance (ss_ledger s') ''revenue:fees'' ''USDC'' = - (5 / 2)"
proof -
  let ?r = "settleIntent ex_settle_env ex_intent ex_shop ex_client ex_settle"
  have "case ?r of None \<Rightarrow> False | Some (_, Inl _) \<Rightarrow> False | Some (_, Inr d) \<Rightarrow> se_amount d = 195 / 2" by code_simp
  then obtain s' d where r: "?r = Some (s', Inr d)" "se_amount d = 195 / 2"
    by (auto split: option.splits prod.splits sum.splits)
  have "on_grid (pi_target_amount ex_intent)" by (simp add: on_grid_def ex_intent_def)
  moreover have "0 \<le> pi_target_amount ex_intent" "0 \<le> m_fee_percentage ex_shop" "m_fee_percentage ex_shop \<le> 100"
      "pi_target_amount ex_intent = 100" "pi_id ex_intent = ''i''" "m_id ex_shop = ''m''" "m_settlement_asset ex_shop = ''USDC''"
      "getBalance (ss_ledger ex_settle) a b = 0" for a b
    by (simp_all add: ex_intent_def ex_shop_def ex_settle_def ex_ledger_def getBalance_postings)
  ultimately show ?thesis
    using settlement_books_accounts [OF r(1), of "''pending:i''" "''USDC''"]
      settlement_books_accounts [OF r(1), of "''merchant:m''" "''USDC''"]
      settlement_books_accounts [OF r(1), of "''revenue:fees''" "''USDC''"] r
    by (intro exI [of _ s'] exI [of _ d]) simp
qed

section \<open>A settlement that fails\<close>

text \<open>A settlement that throws after its row was created leaves the other rows alone, has submitted
  at most one payout, and always ends with its row FAILED, also when the payout was already
  confirmed and only the bookkeeping after it failed.\<close>

theorem failed_settlement_marked:
  assumes "settleIntent v intent m c s = Some (s', Inl x)" "ss_settlements s' \<noteq> ss_settlements s"
  shows "\<exists>r. ss_settlements s' = ss_settlements s @ [r] \<and> se_status r = S_FAILED \<and> se_intent_id r = pi_id intent
     \<and> (ss_payouts s' = ss_payouts s \<or> (\<exists>tx. ss_payouts s' = ss_payouts s @ [tx]))"
proof -
  let ?amt = "calculateSettlementAmount (pi_target_amount intent) (m_fee_percentage m)"
  let ?p = "\<lparr> ns_intent_id = pi_id intent, ns_merchant_id = m_id m, ns_amount = ?amt,
      ns_asset = m_settlement_asset m, ns_chain = m_settlement_chain m, ns_destination = m_settlement_address m \<rparr>"
  obtain s1 r1 where cr: "create_settlement v ?p s = (s1, r1)" by fastforce
  then show ?thesis
  proof (cases rule: create_settlementE)
    case refused
    with assms cr show ?thesis by (auto simp: settleIntent_def Let_def)
  next
    case (created amount i)
    let ?r = "settlement_row (sv_env v) i ?p ?amt"
    have own: "own_row (ss_settlements s) i (pi_id intent) s1" using created by (simp add: own_row_def)
    obtain s2 y where tried: "settle_try v intent m c ?amt ?r s1 = Some (s2, Inl y)"
      and fail: "handleSettlementFailure (e_now (sv_env v)) i y s2 = (s', Inl x)"
      using assms(1) cr created(4)
      by (auto simp: settleIntent_def Let_def split: option.splits prod.splits sum.splits)
    have own2: "own_row (ss_settlements s) i (pi_id intent) s2"
        "ss_payouts s2 = ss_payouts s \<or> (\<exists>tx. ss_payouts s2 = ss_payouts s @ [tx])"
      using settle_try_own [OF own _ tried] created(6) by simp_all
    obtain s3 z where u: "update_settlement (e_now (sv_env v)) i
        \<lparr> su_status = Some S_FAILED, su_tx_hash = None, su_completed_at = None \<rparr> s2 = (s3, z)" by fastforce
    have rows: "ss_settlements s' = ss_settlements s3" "ss_payouts s' = ss_payouts s3"
      using fail u by (cases z; auto simp: handleSettlementFailure_def split: if_splits)+
    from update_own [OF own2(1) u] own2(2) rows show ?thesis by (auto simp: own_row_def)
  qed
qed

text \<open>The clash of identifiers in the ledger is one way the bookkeeping can fail.\<close>

definition ex_broken_env :: settle_env where
  "ex_broken_env = ex_settle_env\<lparr> sv_ledger_env := \<lparr> e_now = 0, e_uuid = (\<lambda>_. ''same'') \<rparr> \<rparr>"

theorem failed_settlement_marked_witness:
  "\<exists>s' r x tx. settleIntent ex_broken_env ex_intent ex_shop ex_client ex_settle = Some (s', Inl x)
     \<and> ss_settlements s' = [r] \<and> se_status r = S_FAILED \<and> ss_payouts s' = [tx]
     \<and> waitForConfirmation ex_client ''0xtx'' = Some (Inr ())"
proof -
  let ?r = "settleIntent ex_broken_env ex_intent ex_shop ex_client ex_settle"
  have "case ?r of None \<Rightarrow> False | Some (s', Inr _) \<Rightarrow> False
      | Some (s', Inl _) \<Rightarrow> length (ss_payouts s') = 1 \<and> ss_settlements s' \<noteq> []" by code_simp
  then obtain s' x where r: "?r = Some (s', Inl x)" "length (ss_payouts s') = 1" "ss_settlements s' \<noteq> []"
    by (auto split: option.splits prod.splits sum.splits)
  have "ss_settlements ex_settle = []" by (simp add: ex_settle_def)
  then obtain row where "ss_settlements s' = [row]" "se_status row = S_FAILED"
    using failed_settlement_marked [OF r(1)] r(3) by auto
  moreover obtain tx where "ss_payouts s' = [tx]" using r(2) by (auto simp: length_Suc_conv)
  moreover have "waitForConfirmation ex_client ''0xtx'' = Some (Inr ())" by code_simp
  ultimately show ?thesis using r(1) by blast
qed

end
