(* ===== verification/Rate_Lock.thy ===== *)
theory Rate_Lock
  imports Intent_Repository Job_Queue
begin

text \<open>
  Rate locks (\<open>packages/rate-lock/src/rate-lock.service.ts\<close>): an in-memory \<open>Map\<close> of locks, each
  an exchange rate with a spread and a time to live.  The price oracle is a parameter, every
  call of the clock a time argument of its own.
\<close>

datatype rate_lock_status = RL_ACTIVE | RL_EXPIRED | RL_CONSUMED | RL_CANCELLED

record rate_lock =
  rl_id :: string
  rl_intent_id :: string
  rl_merchant_id :: string
  rl_asset :: string
  rl_base_asset :: string
  rl_locked_rate :: rat
  rl_live_rate :: rat
  rl_spread_bps :: rat
  rl_ttl_seconds :: rat
  rl_status :: rate_lock_status
  rl_created_at :: int
  rl_expires_at :: int
  rl_consumed_at :: "int option"

record rate_lock_result =
  rr_lock :: rate_lock
  rr_spread_applied :: rat
  rr_payment_window :: rat

record spread_config =
  sp_base_bps :: rat
  sp_volatility_bps :: rat
  sp_max_bps :: rat
  sp_default_ttl :: rat
  sp_min_ttl :: rat
  sp_max_ttl :: rat

definition DEFAULT_SPREAD_CONFIG :: spread_config where
  "DEFAULT_SPREAD_CONFIG = \<lparr> sp_base_bps = 50, sp_volatility_bps = 25, sp_max_bps = 200,
     sp_default_ttl = 300, sp_min_ttl = 60, sp_max_ttl = 600 \<rparr>"

definition HIGH_VOLATILITY_ASSETS :: "string list" where
  "HIGH_VOLATILITY_ASSETS = [''DOGE'', ''SHIB'', ''PEPE'', ''FLOKI'', ''WIF'', ''BONK'', ''ARB'', ''OP'', ''MATIC'']"

datatype rate_error =
    OracleError js_error
  | InvalidPrice string string rat
  | RateLockNotFoundError string
  | RateLockExpiredError string string
  | RateLockAlreadyConsumedError string

text \<open>The \<open>Map\<close> from lock id to lock, with the number of identifiers drawn.\<close>

record rate_store =
  rs_locks :: "(string \<times> rate_lock) list"
  rs_ids :: nat

section \<open>Service\<close>

definition calculateSpread :: "spread_config \<Rightarrow> string \<Rightarrow> rat" where
  "calculateSpread cfg asset =
     (let spread = (if to_upper asset \<in> set HIGH_VOLATILITY_ASSETS
                    then sp_base_bps cfg + sp_volatility_bps cfg else sp_base_bps cfg)
      in min spread (sp_max_bps cfg))"

definition new_lock ::
    "spread_config \<Rightarrow> env \<Rightarrow> string \<Rightarrow> string \<Rightarrow> string \<Rightarrow> string \<Rightarrow> rat \<Rightarrow> rat \<Rightarrow> rate_store \<Rightarrow> rate_lock" where
  "new_lock cfg e intentId merchantId asset baseAsset liveRate clampedTtl s =
     (let spreadBps = calculateSpread cfg asset;
          lockedRate = liveRate * (1 + spreadBps / 10000)
      in \<lparr> rl_id = e_uuid e (rs_ids s), rl_intent_id = intentId, rl_merchant_id = merchantId,
           rl_asset = to_upper asset, rl_base_asset = to_upper baseAsset,
           rl_locked_rate = lockedRate, rl_live_rate = liveRate, rl_spread_bps = spreadBps,
           rl_ttl_seconds = clampedTtl, rl_status = RL_ACTIVE, rl_created_at = e_now e,
           rl_expires_at = js_trunc (of_int (e_now e) + clampedTtl * 1000),
           rl_consumed_at = None \<rparr>)"

definition clamped_ttl :: "spread_config \<Rightarrow> rat option \<Rightarrow> rat" where
  "clamped_ttl cfg ttlSeconds =
     (let effectiveTtl = (case ttlSeconds of None \<Rightarrow> sp_default_ttl cfg | Some t \<Rightarrow> t)
      in clamp (sp_min_ttl cfg) (sp_max_ttl cfg) effectiveTtl)"

definition createLock ::
    "spread_config \<Rightarrow> (string \<Rightarrow> string \<Rightarrow> js_error + rat) \<Rightarrow> env \<Rightarrow> string \<Rightarrow> string \<Rightarrow> string \<Rightarrow> string
       \<Rightarrow> rat option \<Rightarrow> rate_store \<Rightarrow> rate_store \<times> (rate_error + rate_lock_result)" where
  "createLock cfg getPrice e intentId merchantId asset baseAsset ttlSeconds s =
     (case getPrice asset baseAsset of
        Inl x \<Rightarrow> (s, Inl (OracleError x))
      | Inr liveRate \<Rightarrow>
          if liveRate \<le> 0 then (s, Inl (InvalidPrice asset baseAsset liveRate))
          else
            let lock = new_lock cfg e intentId merchantId asset baseAsset liveRate (clamped_ttl cfg ttlSeconds) s
            in (s\<lparr> rs_locks := js_map_set (rl_id lock) lock (rs_locks s), rs_ids := Suc (rs_ids s) \<rparr>,
                Inr \<lparr> rr_lock = lock, rr_spread_applied = rl_spread_bps lock,
                      rr_payment_window = clamped_ttl cfg ttlSeconds \<rparr>))"

lemma new_lock_simps [simp]:
  "rl_id (new_lock cfg e i m a b live ttl s) = e_uuid e (rs_ids s)"
  "rl_intent_id (new_lock cfg e i m a b live ttl s) = i"
  "rl_status (new_lock cfg e i m a b live ttl s) = RL_ACTIVE"
  "rl_created_at (new_lock cfg e i m a b live ttl s) = e_now e"
  by (simp_all add: new_lock_def Let_def)

lemma clamped_ttl_bounds:
  "sp_min_ttl cfg \<le> sp_max_ttl cfg \<Longrightarrow> sp_min_ttl cfg \<le> clamped_ttl cfg t \<and> clamped_ttl cfg t \<le> sp_max_ttl cfg"
  unfolding clamped_ttl_def Let_def by (rule clamp_bounds)

definition getLock :: "rate_store \<Rightarrow> string \<Rightarrow> rate_lock option" where
  "getLock s intentId = tbl_find (\<lambda>l. rl_intent_id l = intentId) (map snd (rs_locks s))"

definition put_lock :: "rate_lock \<Rightarrow> rate_store \<Rightarrow> rate_store" where
  "put_lock l s = s\<lparr> rs_locks := js_map_set (rl_id l) l (rs_locks s) \<rparr>"

text \<open>\<open>t1\<close> is the clock at the expiry test, \<open>t2\<close> the clock when the lock is consumed.\<close>

definition consumeLock :: "int \<Rightarrow> int \<Rightarrow> string \<Rightarrow> rate_store \<Rightarrow> rate_store \<times> (rate_error + rate_lock)" where
  "consumeLock t1 t2 intentId s =
     (case getLock s intentId of
        None \<Rightarrow> (s, Inl (RateLockNotFoundError intentId))
      | Some l \<Rightarrow>
          if rl_status l = RL_EXPIRED then (s, Inl (RateLockExpiredError (rl_id l) intentId))
          else if rl_status l = RL_CONSUMED then (s, Inl (RateLockAlreadyConsumedError (rl_id l)))
          else if t1 > rl_expires_at l
          then (put_lock (l\<lparr> rl_status := RL_EXPIRED \<rparr>) s, Inl (RateLockExpiredError (rl_id l) intentId))
          else (let l' = l\<lparr> rl_status := RL_CONSUMED, rl_consumed_at := Some t2 \<rparr> in (put_lock l' s, Inr l')))"

definition cancelLock :: "string \<Rightarrow> rate_store \<Rightarrow> rate_store" where
  "cancelLock intentId s =
     (case getLock s intentId of None \<Rightarrow> s | Some l \<Rightarrow> put_lock (l\<lparr> rl_status := RL_CANCELLED \<rparr>) s)"

definition isLockValid :: "int \<Rightarrow> string \<Rightarrow> rate_store \<Rightarrow> rate_store \<times> bool" where
  "isLockValid t intentId s =
     (case getLock s intentId of
        None \<Rightarrow> (s, False)
      | Some l \<Rightarrow>
          if rl_status l \<noteq> RL_ACTIVE then (s, False)
          else if t > rl_expires_at l then (put_lock (l\<lparr> rl_status := RL_EXPIRED \<rparr>) s, False)
          else (s, True))"

text \<open>One turn of the cleanup loop: the entries left of this one, and what it adds to the count.\<close>

definition cleanup_one :: "int \<Rightarrow> string \<times> rate_lock \<Rightarrow> (string \<times> rate_lock) list \<times> nat" where
  "cleanup_one now kl =
     (let l = snd kl; late = (rl_status l = RL_ACTIVE \<and> now > rl_expires_at l);
          l1 = (if late then l\<lparr> rl_status := RL_EXPIRED \<rparr> else l);
          old = (now - rl_created_at l > 24 * 60 * 60 * 1000)
      in (if old then [] else [(fst kl, l1)], of_bool late + of_bool old))"

definition cleanupExpiredLocks :: "int \<Rightarrow> rate_store \<Rightarrow> rate_store \<times> nat" where
  "cleanupExpiredLocks now s =
     (let turns = map (cleanup_one now) (rs_locks s)
      in (s\<lparr> rs_locks := concat (map fst turns) \<rparr>, sum_list (map snd turns)))"

section \<open>The invariant\<close>

definition lock_ok :: "spread_config \<Rightarrow> rate_lock \<Rightarrow> bool" where
  "lock_ok cfg l = (0 < rl_live_rate l \<and> rl_locked_rate l = rl_live_rate l * (1 + rl_spread_bps l / 10000)
     \<and> rl_spread_bps l = min (sp_base_bps cfg + (if rl_asset l \<in> set HIGH_VOLATILITY_ASSETS
                                               then sp_volatility_bps cfg else 0)) (sp_max_bps cfg)
     \<and> sp_min_ttl cfg \<le> rl_ttl_seconds l \<and> rl_ttl_seconds l \<le> sp_max_ttl cfg
     \<and> rl_expires_at l = js_trunc (of_int (rl_created_at l) + rl_ttl_seconds l * 1000))"

definition rate_inv :: "spread_config \<Rightarrow> (nat \<Rightarrow> string) \<Rightarrow> rate_store \<Rightarrow> bool" where
  "rate_inv cfg uuid s = (distinct (map fst (rs_locks s))
     \<and> (\<forall>(k, l) \<in> set (rs_locks s). k = rl_id l \<and> lock_ok cfg l \<and> k \<in> uuid ` {..<rs_ids s}))"

lemma lock_ok_status [simp]:
  "lock_ok cfg (l\<lparr> rl_status := x \<rparr>) = lock_ok cfg l"
  "lock_ok cfg (l\<lparr> rl_status := x, rl_consumed_at := y \<rparr>) = lock_ok cfg l"
  by (simp_all add: lock_ok_def)

lemma rate_inv_put:
  assumes "rate_inv cfg uuid s" "lock_ok cfg l" "rl_id l \<in> uuid ` {..<rs_ids s}"
  shows "rate_inv cfg uuid (put_lock l s)"
proof -
  have "distinct (map fst (js_map_set (rl_id l) l (rs_locks s)))"
    using assms(1) by (simp add: rate_inv_def distinct_js_map_set)
  moreover have "k = rl_id l' \<and> lock_ok cfg l' \<and> k \<in> uuid ` {..<rs_ids s}"
    if "(k, l') \<in> set (js_map_set (rl_id l) l (rs_locks s))" for k l'
  proof (cases "(k, l') = (rl_id l, l)")
    case True
    then show ?thesis using assms by simp
  next
    case False
    then have "(k, l') \<in> set (rs_locks s)"
      using that set_js_map_set_subset [of "rl_id l" l "rs_locks s"] by auto
    then show ?thesis using assms(1) unfolding rate_inv_def by auto
  qed
  ultimately show ?thesis unfolding rate_inv_def put_lock_def by auto
qed

lemma getLock_SomeD:
  assumes "getLock s i = Some l" "rate_inv cfg uuid s"
  shows "map_of (rs_locks s) (rl_id l) = Some l" "rl_intent_id l = i" "lock_ok cfg l"
    "rl_id l \<in> uuid ` {..<rs_ids s}"
proof -
  from assms(1) have l: "l \<in> snd ` set (rs_locks s)" and i: "rl_intent_id l = i"
    unfolding getLock_def by (auto dest!: tbl_find_SomeD)
  then obtain k where k: "(k, l) \<in> set (rs_locks s)" by force
  with assms(2) have id: "k = rl_id l" "lock_ok cfg l" "k \<in> uuid ` {..<rs_ids s}" and d: "distinct (map fst (rs_locks s))"
    by (auto simp: rate_inv_def)
  from k d id(1) show "map_of (rs_locks s) (rl_id l) = Some l" by simp
  show "rl_intent_id l = i" by (rule i)
  show "lock_ok cfg l" by (rule id(2))
  from id show "rl_id l \<in> uuid ` {..<rs_ids s}" by simp
qed

lemma cleanup_one_cases:
  "fst (cleanup_one now kl) = [] \<or> fst (cleanup_one now kl) = [kl]
     \<or> fst (cleanup_one now kl) = [(fst kl, (snd kl)\<lparr> rl_status := RL_EXPIRED \<rparr>)] \<and> rl_status (snd kl) = RL_ACTIVE"
  by (cases kl) (simp add: cleanup_one_def Let_def)

definition swept :: "int \<Rightarrow> (string \<times> rate_lock) list \<Rightarrow> (string \<times> rate_lock) list" where
  "swept now xs = concat (map fst (map (cleanup_one now) xs))"

lemma swept_simps [simp]:
  "swept now [] = []"
  "swept now (x # xs) = fst (cleanup_one now x) @ swept now xs"
  by (simp_all add: swept_def)

lemma cleanup_keys: "fst ` set (swept now xs) \<subseteq> fst ` set xs"
proof (induction xs)
  case (Cons x xs)
  then show ?case using cleanup_one_cases [of now x] by auto
qed simp

lemma cleanup_distinct: "distinct (map fst xs) \<Longrightarrow> distinct (map fst (swept now xs))"
proof (induction xs)
  case (Cons x xs)
  then have "fst x \<notin> fst ` set (swept now xs)"
    using cleanup_keys [of now xs] by auto
  then show ?case using Cons cleanup_one_cases [of now x] by (auto simp: rev_image_eqI)
qed simp

lemma cleanup_mem:
  assumes "(k, l) \<in> set (swept now xs)"
  shows "\<exists>l0. (k, l0) \<in> set xs \<and> (l = l0 \<or> rl_status l0 = RL_ACTIVE \<and> l = l0\<lparr> rl_status := RL_EXPIRED \<rparr>)"
proof -
  from assms obtain x where x: "x \<in> set xs" "(k, l) \<in> set (fst (cleanup_one now x))"
    by (auto simp: swept_def)
  with cleanup_one_cases [of now x] show ?thesis by (cases x) auto
qed

lemma cleanup_locks: "rs_locks (fst (cleanupExpiredLocks now s)) = swept now (rs_locks s)"
  "rs_ids (fst (cleanupExpiredLocks now s)) = rs_ids s"
  by (simp_all add: cleanupExpiredLocks_def swept_def Let_def)

lemma rate_inv_cleanup:
  assumes "rate_inv cfg uuid s"
  shows "rate_inv cfg uuid (fst (cleanupExpiredLocks now s))"
proof -
  have "distinct (map fst (swept now (rs_locks s)))"
    using assms cleanup_distinct by (auto simp: rate_inv_def)
  moreover have "k = rl_id l \<and> lock_ok cfg l \<and> k \<in> uuid ` {..<rs_ids s}"
    if kl: "(k, l) \<in> set (swept now (rs_locks s))" for k l
  proof -
    from cleanup_mem [OF kl] obtain l0 where l0: "(k, l0) \<in> set (rs_locks s)"
      "l = l0 \<or> l = l0\<lparr> rl_status := RL_EXPIRED \<rparr>" by blast
    with assms have "k = rl_id l0" "lock_ok cfg l0" "k \<in> uuid ` {..<rs_ids s}"
      by (auto simp: rate_inv_def)
    with l0(2) show ?thesis by auto
  qed
  ultimately show ?thesis unfolding rate_inv_def cleanup_locks by blast
qed

lemma map_of_swept:
  assumes "map_of (swept now xs) k = Some l" "distinct (map fst xs)"
  shows "\<exists>l0. map_of xs k = Some l0 \<and> (l = l0 \<or> rl_status l0 = RL_ACTIVE)"
  using cleanup_mem [OF map_of_SomeD [OF assms(1)]] assms(2) by auto

end
