(* ===== verification/Rate_Lock_Properties.thy ===== *)
theory Rate_Lock_Properties
  imports Rate_Lock
begin

text \<open>
  The rate-lock service as a machine: any sequence of calls, each with its own clock values and
  oracle answer, over one stream of lock identifiers.
\<close>

datatype rate_op =
    RO_create string string string string "rat option" int "js_error + rat"
  | RO_consume int int string
  | RO_cancel string
  | RO_valid int string
  | RO_cleanup int

text \<open>A call: the store it leaves, and the identifier of the lock it consumed, if it consumed one.\<close>

fun rate_step :: "spread_config \<Rightarrow> (nat \<Rightarrow> string) \<Rightarrow> rate_op \<Rightarrow> rate_store \<Rightarrow> rate_store \<times> string list" where
  "rate_step cfg uuid (RO_create i m a b ttl now price) s =
     (fst (createLock cfg (\<lambda>_ _. price) \<lparr> e_now = now, e_uuid = uuid \<rparr> i m a b ttl s), [])"
| "rate_step cfg uuid (RO_consume t1 t2 i) s =
     (case consumeLock t1 t2 i s of (s', Inl _) \<Rightarrow> (s', []) | (s', Inr l) \<Rightarrow> (s', [rl_id l]))"
| "rate_step cfg uuid (RO_cancel i) s = (cancelLock i s, [])"
| "rate_step cfg uuid (RO_valid t i) s = (fst (isLockValid t i s), [])"
| "rate_step cfg uuid (RO_cleanup now) s = (fst (cleanupExpiredLocks now s), [])"

definition rate_next :: "spread_config \<Rightarrow> (nat \<Rightarrow> string) \<Rightarrow> rate_op \<Rightarrow> rate_store \<Rightarrow> rate_store" where
  "rate_next cfg uuid op s = fst (rate_step cfg uuid op s)"

definition no_locks :: rate_store where
  "no_locks = \<lparr> rs_locks = [], rs_ids = 0 \<rparr>"

fun consumed_locks :: "spread_config \<Rightarrow> (nat \<Rightarrow> string) \<Rightarrow> rate_op list \<Rightarrow> rate_store \<Rightarrow> string list" where
  "consumed_locks cfg uuid [] s = []"
| "consumed_locks cfg uuid (op # ops) s =
     snd (rate_step cfg uuid op s) @ consumed_locks cfg uuid ops (rate_next cfg uuid op s)"

fun is_cancel :: "rate_op \<Rightarrow> bool" where
  "is_cancel (RO_cancel _) = True"
| "is_cancel _ = False"

section \<open>The machine keeps the invariant\<close>

lemma createLockE:
  assumes "createLock cfg price e i m a b ttl s = (s', r)"
  obtains (refused) x where "s' = s" "r = Inl x"
    | (locked) l live where "price a b = Inr live" "0 < live"
      "l = new_lock cfg e i m a b live (clamped_ttl cfg ttl) s"
      "s' = s\<lparr> rs_locks := js_map_set (rl_id l) l (rs_locks s), rs_ids := Suc (rs_ids s) \<rparr>"
      "r = Inr \<lparr> rr_lock = l, rr_spread_applied = rl_spread_bps l, rr_payment_window = clamped_ttl cfg ttl \<rparr>"
  using assms
  by (auto simp: createLock_def Let_def not_le split: sum.splits if_splits intro: refused locked)

lemma new_lock_ok:
  assumes "0 < live" "sp_min_ttl cfg \<le> sp_max_ttl cfg"
  shows "lock_ok cfg (new_lock cfg e i m a b live (clamped_ttl cfg ttl) s)"
  using assms(1) clamped_ttl_bounds [OF assms(2), of ttl]
  by (simp add: lock_ok_def new_lock_def calculateSpread_def Let_def)

lemma rate_inv_create:
  assumes "rate_inv cfg uuid s" "sp_min_ttl cfg \<le> sp_max_ttl cfg" "e_uuid e = uuid"
  shows "rate_inv cfg uuid (fst (createLock cfg price e i m a b ttl s))"
proof (cases "createLock cfg price e i m a b ttl s")
  case (Pair s' r)
  then show ?thesis
  proof (cases rule: createLockE)
    case (locked l live)
    let ?s = "s\<lparr> rs_ids := Suc (rs_ids s) \<rparr>"
    have "rate_inv cfg uuid ?s" using assms(1) by (fastforce simp: rate_inv_def)
    moreover have "lock_ok cfg l"
      unfolding locked(3) using locked(2) assms(2) by (rule new_lock_ok)
    moreover have "rl_id l \<in> uuid ` {..<rs_ids ?s}" using locked(3) assms(3) by simp
    ultimately have "rate_inv cfg uuid (put_lock l ?s)" by (rule rate_inv_put)
    moreover have "put_lock l ?s = s'" by (simp add: put_lock_def locked(4))
    ultimately show ?thesis using Pair by simp
  qed (use Pair assms in simp)
qed

lemma rate_inv_consume:
  "rate_inv cfg uuid s \<Longrightarrow> rate_inv cfg uuid (fst (consumeLock t1 t2 i s))"
  by (auto simp: consumeLock_def Let_def dest: getLock_SomeD split: option.splits intro!: rate_inv_put)

lemma rate_inv_cancel: "rate_inv cfg uuid s \<Longrightarrow> rate_inv cfg uuid (cancelLock i s)"
  by (auto simp: cancelLock_def dest: getLock_SomeD split: option.splits intro!: rate_inv_put)

lemma rate_inv_valid: "rate_inv cfg uuid s \<Longrightarrow> rate_inv cfg uuid (fst (isLockValid t i s))"
  by (auto simp: isLockValid_def dest: getLock_SomeD split: option.splits intro!: rate_inv_put)

lemma fst_consume_step: "fst (rate_step cfg uuid (RO_consume t1 t2 i) s) = fst (consumeLock t1 t2 i s)"
  by (simp split: prod.splits sum.splits)

lemma rate_inv_step:
  assumes "sp_min_ttl cfg \<le> sp_max_ttl cfg" "rate_inv cfg uuid s"
  shows "rate_inv cfg uuid (rate_next cfg uuid op s)"
  using assms fst_consume_step
  by (cases op) (auto simp del: rate_step.simps(2)
      simp: rate_next_def rate_inv_create rate_inv_consume rate_inv_cancel rate_inv_valid rate_inv_cleanup)

lemma rate_inv_empty: "rate_inv cfg uuid no_locks"
  by (simp add: rate_inv_def no_locks_def)

definition rate_ok :: "spread_config \<Rightarrow> (nat \<Rightarrow> string) \<Rightarrow> rate_store \<Rightarrow> bool" where
  "rate_ok cfg uuid s = (sp_min_ttl cfg \<le> sp_max_ttl cfg \<longrightarrow> rate_inv cfg uuid s)"

interpretation rate_machine: op_machine "rate_next cfg uuid" "rate_ok cfg uuid" for cfg uuid
  by unfold_locales (simp add: rate_ok_def rate_inv_step)

lemma rate_inv_run:
  assumes "sp_min_ttl cfg \<le> sp_max_ttl cfg" "rate_inv cfg uuid s"
  shows "rate_inv cfg uuid (fold (rate_next cfg uuid) ops s)"
  using rate_machine.inv_run [of cfg uuid s ops] assms by (simp add: rate_ok_def)

section \<open>Consumption\<close>

text \<open>The locks with identifiers in C are out of the store or CONSUMED in it.\<close>

definition spent :: "(nat \<Rightarrow> string) \<Rightarrow> string set \<Rightarrow> rate_store \<Rightarrow> bool" where
  "spent uuid C s = (\<forall>k \<in> C. k \<in> uuid ` {..<rs_ids s}
     \<and> (\<forall>l. map_of (rs_locks s) k = Some l \<longrightarrow> rl_status l = RL_CONSUMED))"

lemma spentD: "spent uuid C s \<Longrightarrow> map_of (rs_locks s) k = Some l \<Longrightarrow> rl_status l \<noteq> RL_CONSUMED \<Longrightarrow> k \<notin> C"
  by (auto simp: spent_def)

lemma spent_put:
  assumes "spent uuid C s" "rl_id l \<notin> C"
  shows "spent uuid C (put_lock l s)"
  using assms by (auto simp: spent_def put_lock_def)

lemma map_of_put [simp]: "map_of (rs_locks (put_lock l s)) = (map_of (rs_locks s))(rl_id l \<mapsto> l)"
  by (simp add: put_lock_def)

lemma rs_ids_put [simp]: "rs_ids (put_lock l s) = rs_ids s"
  by (simp add: put_lock_def)

lemma consumeLockE:
  assumes "consumeLock t1 t2 i s = (s', r)" "rate_inv cfg uuid s"
  obtains (kept) x where "s' = s" "r = Inl x"
    | (expired) l x where "getLock s i = Some l" "rl_status l \<noteq> RL_CONSUMED" "rl_expires_at l < t1"
      "s' = put_lock (l\<lparr> rl_status := RL_EXPIRED \<rparr>) s" "r = Inl x"
    | (consumed) l where "getLock s i = Some l" "rl_status l \<noteq> RL_CONSUMED" "t1 \<le> rl_expires_at l"
      "s' = put_lock (l\<lparr> rl_status := RL_CONSUMED, rl_consumed_at := Some t2 \<rparr>) s"
      "r = Inr (l\<lparr> rl_status := RL_CONSUMED, rl_consumed_at := Some t2 \<rparr>)"
  using assms(1)
  by (auto simp: consumeLock_def Let_def not_less split: option.splits if_splits intro: kept expired consumed)

lemma spent_step:
  assumes inj: "inj uuid" and inv: "rate_inv cfg uuid s" and sp: "spent uuid C s" and nc: "\<not> is_cancel op"
  shows "spent uuid (C \<union> set (snd (rate_step cfg uuid op s))) (rate_next cfg uuid op s)
    \<and> set (snd (rate_step cfg uuid op s)) \<inter> C = {} \<and> distinct (snd (rate_step cfg uuid op s))"
proof (cases op)
  case (RO_create i m a b ttl now price)
  obtain s' r where c: "createLock cfg (\<lambda>_ _. price) \<lparr> e_now = now, e_uuid = uuid \<rparr> i m a b ttl s = (s', r)"
    by (rule prod.exhaust)
  then have "spent uuid C s'"
  proof (cases rule: createLockE)
    case (locked l live)
    have "rl_id l \<notin> C" using sp inj by (auto simp: locked(3) spent_def inj_eq)
    then show ?thesis using sp by (auto simp: locked(4) spent_def less_Suc_eq)
  qed (use sp in simp)
  then show ?thesis using c RO_create by (simp add: rate_next_def)
next
  case (RO_consume t1 t2 i)
  obtain s' r where c: "consumeLock t1 t2 i s = (s', r)" by (rule prod.exhaust)
  show ?thesis using c inv
  proof (cases rule: consumeLockE)
    case (kept x)
    then show ?thesis using sp c RO_consume by (simp add: rate_next_def)
  next
    case (expired l x)
    from spentD [OF sp getLock_SomeD(1) [OF expired(1) inv] expired(2)] have "rl_id l \<notin> C" .
    then show ?thesis using sp c RO_consume expired(4,5) by (simp add: rate_next_def spent_put)
  next
    case (consumed l)
    note l = getLock_SomeD [OF consumed(1) inv]
    from spentD [OF sp l(1) consumed(2)] have "rl_id l \<notin> C" .
    then show ?thesis using sp c RO_consume consumed(4,5) l(4)
      by (auto simp: rate_next_def spent_def)
  qed
next
  case (RO_valid t i)
  have "spent uuid C (fst (isLockValid t i s))"
    using sp spentD [OF sp getLock_SomeD(1) [OF _ inv]]
    by (auto simp: isLockValid_def spent_put split: option.splits)
  then show ?thesis using RO_valid by (simp add: rate_next_def)
next
  case (RO_cleanup now)
  have d: "distinct (map fst (rs_locks s))" using inv by (simp add: rate_inv_def)
  have "spent uuid C (fst (cleanupExpiredLocks now s))"
    using sp map_of_swept [OF _ d] unfolding spent_def cleanup_locks by fastforce
  then show ?thesis using RO_cleanup by (simp add: rate_next_def)
qed (use nc in simp)

lemma consumed_locks_spent:
  assumes "inj uuid" "sp_min_ttl cfg \<le> sp_max_ttl cfg"
  shows "rate_inv cfg uuid s \<Longrightarrow> spent uuid C s \<Longrightarrow> \<not> list_ex is_cancel ops
    \<Longrightarrow> set (consumed_locks cfg uuid ops s) \<inter> C = {} \<and> distinct (consumed_locks cfg uuid ops s)"
proof (induction ops arbitrary: s C)
  case (Cons op ops)
  let ?new = "snd (rate_step cfg uuid op s)"
  from Cons.prems(3) have nc: "\<not> is_cancel op" "\<not> list_ex is_cancel ops" by simp_all
  note st = spent_step [OF assms(1) Cons.prems(1,2) nc(1)]
  from Cons.IH [OF rate_inv_step [OF assms(2) Cons.prems(1)] conjunct1 [OF st] nc(2)] st
  show ?case by auto
qed simp

section \<open>A lock left alone\<close>

text \<open>The calls that may touch the lock of intent i before the instant T.\<close>

fun leaves_alone :: "string \<Rightarrow> int \<Rightarrow> rate_op \<Rightarrow> bool" where
  "leaves_alone i T (RO_create j _ _ _ _ _ _) = (j \<noteq> i)"
| "leaves_alone i T (RO_consume _ _ j) = (j \<noteq> i)"
| "leaves_alone i T (RO_cancel j) = (j \<noteq> i)"
| "leaves_alone i T (RO_valid t _) = (t \<le> T)"
| "leaves_alone i T (RO_cleanup t) = (t \<le> T)"

definition sole_lock :: "rate_lock \<Rightarrow> rate_store \<Rightarrow> bool" where
  "sole_lock l s = (map_of (rs_locks s) (rl_id l) = Some l
     \<and> (\<forall>k x. map_of (rs_locks s) k = Some x \<longrightarrow> rl_intent_id x = rl_intent_id l \<longrightarrow> x = l))"

lemma sole_lockI:
  "map_of (rs_locks s) (rl_id l) = Some l
    \<Longrightarrow> (\<And>k x. map_of (rs_locks s) k = Some x \<Longrightarrow> rl_intent_id x = rl_intent_id l \<Longrightarrow> x = l) \<Longrightarrow> sole_lock l s"
  unfolding sole_lock_def by blast

lemma sole_lockD:
  assumes "sole_lock l s"
  shows "map_of (rs_locks s) (rl_id l) = Some l"
    "map_of (rs_locks s) k = Some x \<Longrightarrow> rl_intent_id x = rl_intent_id l \<Longrightarrow> x = l"
  using assms unfolding sole_lock_def by blast+

lemma sole_lock_get:
  assumes "sole_lock l s" "rate_inv cfg uuid s"
  shows "getLock s (rl_intent_id l) = Some l"
proof -
  have "l \<in> set (map snd (rs_locks s))"
    using imageI [OF map_of_SomeD [OF sole_lockD(1) [OF assms(1)]], of snd] by simp
  then obtain l' where l': "getLock s (rl_intent_id l) = Some l'"
    unfolding getLock_def
    using tbl_find_Some_of_mem [of l "map snd (rs_locks s)" "\<lambda>x. rl_intent_id x = rl_intent_id l"] by auto
  with sole_lockD(2) [OF assms(1)] getLock_SomeD(1,2) [OF l' assms(2)] show ?thesis by blast
qed

lemma sole_lock_put:
  assumes "sole_lock l s" "getLock s i = Some x" "rate_inv cfg uuid s" "i \<noteq> rl_intent_id l"
    and "rl_id y = rl_id x" "rl_intent_id y = rl_intent_id x"
  shows "sole_lock l (put_lock y s)"
proof (rule sole_lockI)
  note x = getLock_SomeD(1,2) [OF assms(2,3)]
  have "rl_id x \<noteq> rl_id l"
  proof
    assume "rl_id x = rl_id l"
    then have "map_of (rs_locks s) (rl_id l) = Some x" using x(1) by metis
    then have "x = l" using sole_lockD(1) [OF assms(1)] by (metis option.inject)
    then show False using x(2) assms(4) by simp
  qed
  then show "map_of (rs_locks (put_lock y s)) (rl_id l) = Some l"
    using assms(5) sole_lockD(1) [OF assms(1)] by simp
  fix k z
  assume "map_of (rs_locks (put_lock y s)) k = Some z" "rl_intent_id z = rl_intent_id l"
  then show "z = l"
    using assms(4,6) x(2) sole_lockD(2) [OF assms(1), of k z] by (auto split: if_splits)
qed

lemma sole_lock_consume:
  assumes "sole_lock l s" "rate_inv cfg uuid s" "i \<noteq> rl_intent_id l"
  shows "sole_lock l (fst (consumeLock t1 t2 i s))"
proof (cases "consumeLock t1 t2 i s")
  case (Pair s' r)
  then show ?thesis using assms(2)
  proof (cases rule: consumeLockE)
    case (expired x e)
    then show ?thesis using Pair sole_lock_put [OF assms(1) expired(1) assms(2,3)] by simp
  next
    case (consumed x)
    then show ?thesis using Pair sole_lock_put [OF assms(1) consumed(1) assms(2,3)] by simp
  qed (use Pair assms in simp)
qed

lemma sole_lock_cleanup:
  assumes "sole_lock l s" "rate_inv cfg uuid s" "t \<le> rl_expires_at l" "rl_expires_at l \<le> rl_created_at l + 86400000"
  shows "sole_lock l (fst (cleanupExpiredLocks t s))"
proof -
  have d: "distinct (map fst (rs_locks s))" using assms(2) by (simp add: rate_inv_def)
  have mem: "(rl_id l, l) \<in> set (rs_locks s)" by (rule map_of_SomeD [OF sole_lockD(1) [OF assms(1)]])
  have "fst (cleanup_one t (rl_id l, l)) = [(rl_id l, l)]"
    using assms(3,4) by (auto simp: cleanup_one_def Let_def)
  with mem have "(rl_id l, l) \<in> set (swept t (rs_locks s))" unfolding swept_def by force
  then have here: "map_of (swept t (rs_locks s)) (rl_id l) = Some l"
    using cleanup_distinct [OF d] by simp
  have "x = l" if "map_of (swept t (rs_locks s)) k = Some x" "rl_intent_id x = rl_intent_id l" for k x
  proof -
    from cleanup_mem [OF map_of_SomeD [OF that(1)]] obtain x0 where
      x0: "(k, x0) \<in> set (rs_locks s)" "x = x0 \<or> x = x0\<lparr> rl_status := RL_EXPIRED \<rparr>" by blast
    then have "map_of (rs_locks s) k = Some x0" "rl_intent_id x0 = rl_intent_id l"
      using d that(2) by auto
    with sole_lockD(2) [OF assms(1)] have "x0 = l" by blast
    moreover from this x0(1) assms(2) have "k = rl_id l" by (auto simp: rate_inv_def)
    ultimately show ?thesis using that(1) here by simp
  qed
  then show ?thesis using here by (intro sole_lockI) (simp_all add: cleanup_locks)
qed

lemma sole_lock_step:
  assumes "sole_lock l s" "rate_inv cfg uuid s" "inj uuid" "leaves_alone (rl_intent_id l) (rl_expires_at l) op"
    and "rl_status l = RL_ACTIVE" "rl_expires_at l \<le> rl_created_at l + 86400000"
  shows "sole_lock l (rate_next cfg uuid op s)"
proof (cases op)
  case (RO_create i m a b ttl now price)
  obtain s' r where c: "createLock cfg (\<lambda>_ _. price) \<lparr> e_now = now, e_uuid = uuid \<rparr> i m a b ttl s = (s', r)"
    by (rule prod.exhaust)
  then have "sole_lock l s'"
  proof (cases rule: createLockE)
    case (locked x live)
    have "rl_id l \<in> uuid ` {..<rs_ids s}"
      using getLock_SomeD(4) [OF sole_lock_get [OF assms(1,2)] assms(2)] .
    then have "rl_id x \<noteq> rl_id l" using assms(3) by (auto simp: locked(3) inj_eq)
    moreover have "rl_intent_id x \<noteq> rl_intent_id l" using assms(4) RO_create by (simp add: locked(3))
    ultimately show ?thesis
      using sole_lockD [OF assms(1)] by (intro sole_lockI) (auto simp: locked(4) split: if_splits)
  qed (use assms in simp)
  then show ?thesis using c RO_create by (simp add: rate_next_def)
next
  case (RO_consume t1 t2 i)
  then show ?thesis
    using assms(4) sole_lock_consume [OF assms(1,2)] fst_consume_step by (simp add: rate_next_def del: rate_step.simps(2))
next
  case (RO_cancel i)
  then show ?thesis
    using assms(4) assms(1) sole_lock_put [OF assms(1) _ assms(2)]
    by (auto simp: rate_next_def cancelLock_def split: option.splits)
next
  case (RO_valid t i)
  show ?thesis
  proof (cases "i = rl_intent_id l")
    case True
    then show ?thesis
      using RO_valid assms(1,4,5) sole_lock_get [OF assms(1,2)]
      by (simp add: rate_next_def isLockValid_def)
  next
    case False
    then show ?thesis
      using RO_valid assms(1) sole_lock_put [OF assms(1) _ assms(2)]
      by (auto simp: rate_next_def isLockValid_def split: option.splits)
  qed
next
  case (RO_cleanup t)
  then show ?thesis using sole_lock_cleanup [OF assms(1,2)] assms(4,6) by (simp add: rate_next_def)
qed

lemma sole_lock_run:
  assumes "sp_min_ttl cfg \<le> sp_max_ttl cfg" "inj uuid" "rl_status l = RL_ACTIVE"
    and "rl_expires_at l \<le> rl_created_at l + 86400000"
  shows "sole_lock l s \<Longrightarrow> rate_inv cfg uuid s \<Longrightarrow> \<forall>op \<in> set ops. leaves_alone (rl_intent_id l) (rl_expires_at l) op
    \<Longrightarrow> sole_lock l (fold (rate_next cfg uuid) ops s)"
proof (induction ops arbitrary: s)
  case (Cons op ops)
  then have "sole_lock l (rate_next cfg uuid op s)" "rate_inv cfg uuid (rate_next cfg uuid op s)"
    using sole_lock_step [OF Cons.prems(1,2) assms(2)] assms(3,4) rate_inv_step [OF assms(1)] by auto
  with Cons show ?case by simp
qed simp

section \<open>Properties\<close>

text \<open>An example: identifiers that are strings of x, and the lock of ETH at 2000 with defaults.\<close>

definition demo_uuid :: "nat \<Rightarrow> string" where
  "demo_uuid n = replicate n (CHR ''x'')"

lemma inj_demo_uuid: "inj demo_uuid"
  by (rule injI) (metis demo_uuid_def length_replicate)

definition demo_lock :: rate_lock where
  "demo_lock = \<lparr> rl_id = demo_uuid 0, rl_intent_id = ''i'', rl_merchant_id = ''m'', rl_asset = ''ETH'',
     rl_base_asset = ''USD'', rl_locked_rate = 2010, rl_live_rate = 2000, rl_spread_bps = 50,
     rl_ttl_seconds = 300, rl_status = RL_ACTIVE, rl_created_at = 1000, rl_expires_at = 301000,
     rl_consumed_at = None \<rparr>"

text \<open>C32: Whatever is called in whatever order, every lock in the store has a locked rate equal to
  the positive live rate raised by its spread, a spread of at most the configured maximum, a
  time to live within the configured bounds, and an expiry at most one millisecond before the end
  of that time and never after it (for creation at a time that is not negative).\<close>

theorem rate_locks_well_formed:
  assumes "sp_min_ttl cfg \<le> sp_max_ttl cfg" "0 \<le> sp_min_ttl cfg"
    and "0 \<le> sp_base_bps cfg" "0 \<le> sp_volatility_bps cfg" "0 \<le> sp_max_bps cfg"
    and "l \<in> snd ` set (rs_locks (fold (rate_next cfg uuid) ops no_locks))"
  shows "rl_live_rate l \<le> rl_locked_rate l
    \<and> rl_locked_rate l \<le> rl_live_rate l * (1 + sp_max_bps cfg / 10000)
    \<and> 0 < rl_live_rate l
    \<and> sp_min_ttl cfg \<le> rl_ttl_seconds l \<and> rl_ttl_seconds l \<le> sp_max_ttl cfg
    \<and> (0 \<le> rl_created_at l \<longrightarrow> of_int (rl_expires_at l - rl_created_at l) \<le> rl_ttl_seconds l * 1000
         \<and> rl_ttl_seconds l * 1000 - 1 < of_int (rl_expires_at l - rl_created_at l))"
proof -
  have "lock_ok cfg l"
    using rate_inv_run [OF assms(1) rate_inv_empty, of uuid ops] assms(6) unfolding rate_inv_def by auto
  then have live: "0 < rl_live_rate l"
    and rate: "rl_locked_rate l = rl_live_rate l * (1 + rl_spread_bps l / 10000)"
    and bps: "0 \<le> rl_spread_bps l" "rl_spread_bps l \<le> sp_max_bps cfg"
    and ttl: "sp_min_ttl cfg \<le> rl_ttl_seconds l" "rl_ttl_seconds l \<le> sp_max_ttl cfg"
    and ex: "rl_expires_at l = js_trunc (of_int (rl_created_at l) + rl_ttl_seconds l * 1000)"
    using assms(3-5) by (auto simp: lock_ok_def)
  have "rl_live_rate l * 1 \<le> rl_locked_rate l"
    unfolding rate using live bps by (intro mult_left_mono) auto
  moreover have "rl_locked_rate l \<le> rl_live_rate l * (1 + sp_max_bps cfg / 10000)"
    unfolding rate using live bps by (intro mult_left_mono) auto
  moreover have "of_int (rl_expires_at l - rl_created_at l) \<le> rl_ttl_seconds l * 1000
       \<and> rl_ttl_seconds l * 1000 - 1 < of_int (rl_expires_at l - rl_created_at l)" if "0 \<le> rl_created_at l"
  proof -
    have "0 \<le> of_int (rl_created_at l) + rl_ttl_seconds l * 1000"
      using that ttl(1) assms(2) by simp
    then have "rl_expires_at l = \<lfloor>of_int (rl_created_at l) + rl_ttl_seconds l * 1000\<rfloor>"
      unfolding ex js_trunc_def by simp
    then show ?thesis by (auto, linarith+)
  qed
  ultimately show ?thesis using live ttl by simp
qed

theorem rate_locks_well_formed_witness:
  "rl_locked_rate demo_lock \<le> rl_live_rate demo_lock * (1 + sp_max_bps DEFAULT_SPREAD_CONFIG / 10000)
    \<and> of_int (rl_expires_at demo_lock - rl_created_at demo_lock) \<le> rl_ttl_seconds demo_lock * 1000"
  using rate_locks_well_formed [of DEFAULT_SPREAD_CONFIG demo_lock demo_uuid
      "[RO_create ''i'' ''m'' ''ETH'' ''USD'' None 1000 (Inr 2000)]"]
  by (simp add: DEFAULT_SPREAD_CONFIG_def no_locks_def createLock_def new_lock_def rate_next_def
      demo_lock_def calculateSpread_def clamped_ttl_def clamp_def to_upper_def upper_char_def HIGH_VOLATILITY_ASSETS_def Let_def js_trunc_def)


text \<open>C18: While no lock is cancelled, no lock is consumed twice: over any sequence of calls the
  identifiers of the locks that \<open>consumeLock\<close> returned are pairwise different.\<close>

theorem rate_lock_consumed_once:
  assumes "inj uuid" "sp_min_ttl cfg \<le> sp_max_ttl cfg" "\<not> list_ex is_cancel ops"
  shows "distinct (consumed_locks cfg uuid ops no_locks)"
  using consumed_locks_spent [OF assms(1,2) rate_inv_empty _ assms(3), of "{}"] by (simp add: spent_def)

theorem rate_lock_consumed_once_witness:
  "distinct (consumed_locks DEFAULT_SPREAD_CONFIG demo_uuid
      [RO_create ''i'' ''m'' ''ETH'' ''USD'' None 1000 (Inr 2000), RO_consume 2000 2000 ''i'', RO_consume 2001 2001 ''i'']
      no_locks)"
  by (rule rate_lock_consumed_once) (simp_all add: inj_demo_uuid DEFAULT_SPREAD_CONFIG_def)


text \<open>Cancelling does not stop a lock from being consumed: after any calls, when an intent has a
  lock that is not past its expiry, \<open>consumeLock\<close> right after \<open>cancelLock\<close> returns that lock, also
  when it had been consumed or had expired before.\<close>

theorem cancelled_lock_consumable:
  assumes "sp_min_ttl cfg \<le> sp_max_ttl cfg" "s = fold (rate_next cfg uuid) ops no_locks"
    and "getLock s i = Some l" "t1 \<le> rl_expires_at l"
  shows "snd (consumeLock t1 t2 i (cancelLock i s))
    = Inr (l\<lparr> rl_status := RL_CONSUMED, rl_consumed_at := Some t2 \<rparr>)"
proof -
  have inv: "rate_inv cfg uuid s" unfolding assms(2) by (rule rate_inv_run [OF assms(1) rate_inv_empty])
  let ?c = "l\<lparr> rl_status := RL_CANCELLED \<rparr>"
  have id: "map_of (rs_locks s) (rl_id l) = Some l" by (rule getLock_SomeD(1) [OF assms(3) inv])
  have ids: "\<forall>(k, x) \<in> set (rs_locks s). k = rl_id x" using inv by (auto simp: rate_inv_def)
  have "tbl_find (\<lambda>x. rl_intent_id x = i) (map snd (js_map_set (rl_id l) ?c xs)) = Some ?c"
    if "\<forall>(k, x) \<in> set xs. k = rl_id x" "tbl_find (\<lambda>x. rl_intent_id x = i) (map snd xs) = Some l" for xs
    using that by (induction xs) (auto split: if_splits dest: tbl_find_SomeD)
  from this [OF ids assms(3) [unfolded getLock_def]]
  have "getLock (put_lock ?c s) i = Some ?c" by (simp add: getLock_def put_lock_def)
  then show ?thesis using assms(3,4) by (simp add: cancelLock_def consumeLock_def Let_def)
qed

theorem cancelled_lock_consumable_witness:
  "snd (consumeLock 301000 5 ''i'' (cancelLock ''i''
      (fold (rate_next DEFAULT_SPREAD_CONFIG demo_uuid)
         [RO_create ''i'' ''m'' ''ETH'' ''USD'' None 1000 (Inr 2000), RO_consume 2000 2000 ''i''] no_locks)))
    = Inr (demo_lock\<lparr> rl_status := RL_CONSUMED, rl_consumed_at := Some 5 \<rparr>)"
  using cancelled_lock_consumable [of DEFAULT_SPREAD_CONFIG
      "fold (rate_next DEFAULT_SPREAD_CONFIG demo_uuid)
         [RO_create ''i'' ''m'' ''ETH'' ''USD'' None 1000 (Inr 2000), RO_consume 2000 2000 ''i''] no_locks"
      demo_uuid "[RO_create ''i'' ''m'' ''ETH'' ''USD'' None 1000 (Inr 2000), RO_consume 2000 2000 ''i'']"
      "''i''" "demo_lock\<lparr> rl_status := RL_CONSUMED, rl_consumed_at := Some 2000 \<rparr>" 301000 5]
  by (simp add: DEFAULT_SPREAD_CONFIG_def no_locks_def getLock_def createLock_def new_lock_def rate_next_def
      consumeLock_def put_lock_def demo_lock_def calculateSpread_def clamped_ttl_def clamp_def to_upper_def
      upper_char_def HIGH_VOLATILITY_ASSETS_def Let_def js_trunc_def)


text \<open>The quoted rate is honoured: when \<open>createLock\<close> gives an intent without a lock a lock of at
  most 24 hours, then after any calls for other intents, validity checks and cleanups up to its
  expiry, \<open>consumeLock\<close> at any time up to the expiry returns that lock with its locked rate,
  the live rate of the oracle raised by the spread.\<close>

theorem locked_rate_honoured:
  assumes "inj uuid" "sp_min_ttl cfg \<le> sp_max_ttl cfg" "sp_max_ttl cfg \<le> 86400" "0 \<le> now + 1000 * \<lfloor>sp_min_ttl cfg\<rfloor>"
    and "s0 = fold (rate_next cfg uuid) before no_locks" "getLock s0 i = None"
    and "createLock cfg price \<lparr> e_now = now, e_uuid = uuid \<rparr> i m a b ttl s0 = (s1, Inr res)"
    and "\<forall>op \<in> set after. leaves_alone i (rl_expires_at (rr_lock res)) op"
    and "t1 \<le> rl_expires_at (rr_lock res)"
  shows "\<exists>live. price a b = Inr live
    \<and> rl_locked_rate (rr_lock res) = live * (1 + calculateSpread cfg a / 10000)
    \<and> snd (consumeLock t1 t2 i (fold (rate_next cfg uuid) after s1))
        = Inr ((rr_lock res)\<lparr> rl_status := RL_CONSUMED, rl_consumed_at := Some t2 \<rparr>)"
  using assms(7)
proof (cases rule: createLockE)
  case (locked l live)
  have inv0: "rate_inv cfg uuid s0"
    unfolding assms(5) by (rule rate_inv_run [OF assms(2) rate_inv_empty])
  have inv1: "rate_inv cfg uuid s1"
    using rate_inv_create [OF inv0 assms(2), of "\<lparr> e_now = now, e_uuid = uuid \<rparr>" price i m a b ttl] assms(7) by simp
  have l: "rr_lock res = l" using locked(5) by simp
  have none: "rl_intent_id x \<noteq> i" if "map_of (rs_locks s0) k = Some x" for k x
    using assms(6) map_of_SomeD [OF that] unfolding getLock_def by (force simp: tbl_find_None_iff)
  have sole: "sole_lock l s1"
    using none by (intro sole_lockI) (auto simp: locked(3,4) split: if_splits)
  have ttl: "sp_min_ttl cfg \<le> clamped_ttl cfg ttl" "clamped_ttl cfg ttl \<le> 86400"
    using clamped_ttl_bounds [OF assms(2), of ttl] assms(3) by auto
  have "0 \<le> (of_int (now + 1000 * \<lfloor>sp_min_ttl cfg\<rfloor>) :: rat)" using assms(4) by linarith
  then have pos: "0 \<le> of_int now + clamped_ttl cfg ttl * 1000" using ttl(1) by (simp, linarith)
  have "rl_expires_at l = \<lfloor>of_int now + clamped_ttl cfg ttl * 1000\<rfloor>"
    using pos by (simp add: locked(3) new_lock_def Let_def js_trunc_def)
  moreover have "\<lfloor>of_int now + clamped_ttl cfg ttl * 1000\<rfloor> \<le> now + 86400000" using ttl(2) by linarith
  ultimately have day: "rl_expires_at l \<le> rl_created_at l + 86400000" by (simp add: locked(3))
  have il: "rl_intent_id l = i" "rl_status l = RL_ACTIVE" by (simp_all add: locked(3))
  let ?s = "fold (rate_next cfg uuid) after s1"
  have "sole_lock l ?s"
    using sole_lock_run [OF assms(2,1) il(2) day sole inv1] assms(8) il(1) l by simp
  from sole_lock_get [OF this rate_inv_run [OF assms(2) inv1]] have "getLock ?s i = Some l" using il(1) by simp
  then have "snd (consumeLock t1 t2 i ?s) = Inr (l\<lparr> rl_status := RL_CONSUMED, rl_consumed_at := Some t2 \<rparr>)"
    using assms(9) il(2) l by (simp add: consumeLock_def Let_def)
  moreover have "rl_locked_rate l = live * (1 + calculateSpread cfg a / 10000)"
    by (simp add: locked(3) new_lock_def Let_def)
  ultimately show ?thesis using locked(1) l by blast
qed simp

theorem locked_rate_honoured_witness:
  "\<exists>live. (Inr 2000 :: js_error + rat) = Inr live
    \<and> rl_locked_rate demo_lock = live * (1 + calculateSpread DEFAULT_SPREAD_CONFIG ''ETH'' / 10000)
    \<and> snd (consumeLock 301000 301001 ''i''
         (fold (rate_next DEFAULT_SPREAD_CONFIG demo_uuid)
           [RO_create ''j'' ''m'' ''BTC'' ''USD'' None 1000 (Inr 50000), RO_cleanup 300000, RO_valid 301000 ''i'']
           \<lparr> rs_locks = [(demo_uuid 0, demo_lock)], rs_ids = 1 \<rparr>))
        = Inr (demo_lock\<lparr> rl_status := RL_CONSUMED, rl_consumed_at := Some 301001 \<rparr>)"
  using locked_rate_honoured [of demo_uuid DEFAULT_SPREAD_CONFIG 1000 no_locks "[]" "''i''"
      "\<lambda>_ _. Inr 2000" "''m''" "''ETH''" "''USD''" None "\<lparr> rs_locks = [(demo_uuid 0, demo_lock)], rs_ids = 1 \<rparr>"
      "\<lparr> rr_lock = demo_lock, rr_spread_applied = 50, rr_payment_window = 300 \<rparr>"
      "[RO_create ''j'' ''m'' ''BTC'' ''USD'' None 1000 (Inr 50000), RO_cleanup 300000, RO_valid 301000 ''i'']"
      301000 301001]
  by (simp add: inj_demo_uuid DEFAULT_SPREAD_CONFIG_def no_locks_def getLock_def createLock_def new_lock_def
      demo_lock_def calculateSpread_def clamped_ttl_def clamp_def to_upper_def upper_char_def
      HIGH_VOLATILITY_ASSETS_def Let_def js_trunc_def)


end
