(* ===== verification/Price_Oracle.thy ===== *)
theory Price_Oracle
  imports Job_Queue
begin

text \<open>
  Price oracles (\<open>packages/rate-lock/src/price-oracle.service.ts\<close>): the CoinGecko and Chainlink
  adapters with their caches, and the aggregator.  The HTTP answer and the on-chain feed read are
  parameters; prices are exact rationals, confidences reals (the aggregator takes a root).
\<close>

record price_quote =
  pq_asset :: string
  pq_base_asset :: string
  pq_price :: rat
  pq_timestamp :: int
  pq_source :: string
  pq_confidence :: real

datatype oracle_error =
    FetchFailed js_error
  | CoinGeckoApiError int
  | NoPriceData string
  | UnsupportedBase string
  | EthersMissing
  | NoFeedConfigured string
  | AllFeedsFailed string
  | FeedReadFailed js_error
  | StalePrice string int
  | InvalidFeedPrice string rat
  | NoValidPrice string string

text \<open>A quote cache: from key to quote and expiry.\<close>

type_synonym quote_cache = "(string \<times> price_quote \<times> rat) list"

definition price_key :: "string \<Rightarrow> string \<Rightarrow> string" where
  "price_key asset baseAsset = to_lower asset @ '':'' @ to_lower baseAsset"

section \<open>CoinGecko\<close>

text \<open>The answer of the price endpoint: its status and, per coin, the numbers by field.\<close>

record cg_response =
  cg_ok :: bool
  cg_status :: int
  cg_data :: "(string \<times> (string \<times> rat) list) list"

definition coin_ids :: "(string \<times> string) list" where
  "coin_ids = [
     (''BTC'', ''bitcoin''),
     (''ETH'', ''ethereum''),
     (''USDT'', ''tether''),
     (''USDC'', ''usd-coin''),
     (''DAI'', ''dai''),
     (''SOL'', ''solana''),
     (''MATIC'', ''matic-network''),
     (''POL'', ''matic-network''),
     (''ARB'', ''arbitrum''),
     (''OP'', ''optimism''),
     (''TRX'', ''tron''),
     (''DOGE'', ''dogecoin''),
     (''SHIB'', ''shiba-inu''),
     (''PEPE'', ''pepe''),
     (''AVAX'', ''avalanche-2''),
     (''BNB'', ''binancecoin''),
     (''XRP'', ''ripple''),
     (''ADA'', ''cardano''),
     (''DOT'', ''polkadot''),
     (''LINK'', ''chainlink''),
     (''UNI'', ''uniswap''),
     (''AAVE'', ''aave'')]"

definition getCoinGeckoId :: "string \<Rightarrow> string" where
  "getCoinGeckoId asset = (case map_of coin_ids (to_upper asset) of None \<Rightarrow> to_lower asset | Some c \<Rightarrow> c)"

definition cg_timestamp :: "int \<Rightarrow> (string \<times> rat) list \<Rightarrow> int" where
  "cg_timestamp now d =
     (case map_of d ''last_updated_at'' of None \<Rightarrow> now | Some t \<Rightarrow> if t = 0 then now else js_trunc (t * 1000))"

definition cg_quote :: "int \<Rightarrow> string \<Rightarrow> string \<Rightarrow> (string \<times> rat) list \<Rightarrow> rat \<Rightarrow> price_quote" where
  "cg_quote now asset baseAsset d price =
     \<lparr> pq_asset = to_upper asset, pq_base_asset = to_upper baseAsset, pq_price = price,
       pq_timestamp = cg_timestamp now d, pq_source = ''coingecko'', pq_confidence = 95 / 100 \<rparr>"

definition missing_quote :: "int \<Rightarrow> string \<Rightarrow> string \<Rightarrow> string \<Rightarrow> price_quote" where
  "missing_quote now source asset baseAsset =
     \<lparr> pq_asset = to_upper asset, pq_base_asset = to_upper baseAsset, pq_price = 0, pq_timestamp = now,
       pq_source = source, pq_confidence = 0 \<rparr>"

definition cg_lookup :: "cg_response \<Rightarrow> string \<Rightarrow> string \<Rightarrow> ((string \<times> rat) list \<times> rat) option" where
  "cg_lookup resp coin vs =
     (case map_of (cg_data resp) coin of None \<Rightarrow> None
      | Some d \<Rightarrow> (case map_of d vs of None \<Rightarrow> None | Some price \<Rightarrow> Some (d, price)))"

definition coingecko_getPrice ::
    "rat \<Rightarrow> (string \<Rightarrow> string \<Rightarrow> js_error + cg_response) \<Rightarrow> int \<Rightarrow> string \<Rightarrow> string \<Rightarrow> quote_cache
       \<Rightarrow> quote_cache \<times> (oracle_error + price_quote)" where
  "coingecko_getPrice ttlMs fetch now asset baseAsset cache =
     (let key = price_key asset baseAsset; vs = to_lower baseAsset; coin = getCoinGeckoId asset;
          query = (case fetch coin vs of
             Inl x \<Rightarrow> (cache, Inl (FetchFailed x))
           | Inr resp \<Rightarrow>
               if \<not> cg_ok resp then (cache, Inl (CoinGeckoApiError (cg_status resp)))
               else (case cg_lookup resp coin vs of
                  None \<Rightarrow> (cache, Inl (NoPriceData asset))
                | Some (d, price) \<Rightarrow>
                    let q = cg_quote now asset baseAsset d price
                    in (js_map_set key (q, of_int now + ttlMs) cache, Inr q)))
      in case map_of cache key of
           None \<Rightarrow> query
         | Some (q, expiresAt) \<Rightarrow> if expiresAt > of_int now then (cache, Inr q) else query)"

text \<open>The batch query; \<open>split\<close> cuts the joined identifiers at commas.\<close>

fun split_comma :: "string \<Rightarrow> string list" where
  "split_comma [] = [[]]"
| "split_comma (c # cs) = (if c = CHR '','' then [] # split_comma cs
     else (case split_comma cs of [] \<Rightarrow> [[c]] | w # ws \<Rightarrow> (c # w) # ws))"

definition coingecko_getPrices ::
    "(string \<Rightarrow> string \<Rightarrow> js_error + cg_response) \<Rightarrow> int \<Rightarrow> string list \<Rightarrow> string \<Rightarrow> oracle_error + price_quote list" where
  "coingecko_getPrices fetch now assets baseAsset =
     (let coinIds = join '','' (map getCoinGeckoId assets); vs = to_lower baseAsset
      in case fetch coinIds vs of
           Inl x \<Rightarrow> Inl (FetchFailed x)
         | Inr resp \<Rightarrow>
             if \<not> cg_ok resp then Inl (CoinGeckoApiError (cg_status resp))
             else Inr (map (\<lambda>(asset, index).
               let parts = split_comma coinIds;
                   coin = (if index < length parts then parts ! index else to_lower asset)
               in (case cg_lookup resp coin vs of
                     None \<Rightarrow> missing_quote now ''coingecko'' asset baseAsset
                   | Some (d, price) \<Rightarrow> cg_quote now asset baseAsset d price)) (zip assets [0..<length assets])))"

definition coingecko_isHealthy ::
    "rat \<Rightarrow> (string \<Rightarrow> string \<Rightarrow> js_error + cg_response) \<Rightarrow> int \<Rightarrow> quote_cache \<Rightarrow> quote_cache \<times> bool" where
  "coingecko_isHealthy ttlMs fetch now cache =
     (case coingecko_getPrice ttlMs fetch now ''bitcoin'' ''usd'' cache of
        (c, Inl _) \<Rightarrow> (c, False) | (c, Inr _) \<Rightarrow> (c, True))"

section \<open>Chainlink\<close>

definition CHAINLINK_FEEDS :: "(string \<times> (nat \<times> string) list) list" where
  "CHAINLINK_FEEDS = [
     (''ETH'', [(1, ''0x5f4eC3Df9cbd43714FE2740f5E3616155c5b8419''),
        (137, ''0xAB594600376Ec9fD91A8929489aB60d37370871''),
        (42161, ''0x639Fe6ab55C921f74e7fac1ee960C0B6293ba612''),
        (10, ''0x13e3Ee699D190924892C76d03aB7596CaE20c1E''),
        (8453, ''0x71041dddad3595F9CED3DcCFBe3D1C4b13259712'')]),
     (''BTC'', [(1, ''0xF4030086522a5bEEa4988F8cA5B36dbC97BeE88c''),
        (137, ''0xc907E116054Ad103354f2D350FD2514433D57F6f''),
        (42161, ''0x6ce18b86e1e04cdab7098fa86a5f4a7fbaa7417a'')]),
     (''LINK'', [(1, ''0x2c1d072e956AFFC0D435Cb7AC38EF18d24d9127c''),
        (137, ''0xd9FFdb71760576bdc02F71a19eB4f0bD7D0EAD37'')]),
     (''USDC'', [(1, ''0x8fFfF89722A27f4d180eBe9089f8a98c5cA7f06c'')]),
     (''USDT'', [(1, ''0x3E7e18F96831Be8527d974F8a1c98E442c8BF72a'')]),
     (''MATIC'', [(1, ''0x56e537a6C316c66887a5408F301a375808F8156e''),
        (137, ''0x0d78787C368Da3a736eaC3CE5426B0326271a87e'')]),
     (''ARB'', [(42161, ''0x5402B5F40310bDED796c7D0F3FF6683f5C4cF2F9'')]),
     (''OP'', [(10, ''0x099a2476cC49bA519D227E8f7626a48390C8a32E'')]),
     (''SOL'', [(1, ''0x4ffC43a60e009B551865A93d232E33Fce9f01507'')])]"

text \<open>A feed read: the decimals, the answer and the update time in seconds.\<close>

type_synonym feed_reader = "string \<Rightarrow> js_error + nat \<times> int \<times> int"

definition fetchFromFeed ::
    "rat \<Rightarrow> feed_reader \<Rightarrow> int \<Rightarrow> string \<Rightarrow> string \<Rightarrow> string \<Rightarrow> quote_cache
       \<Rightarrow> quote_cache \<times> (oracle_error + price_quote)" where
  "fetchFromFeed ttlMs read now feedAddress asset key cache =
     (case read feedAddress of
        Inl x \<Rightarrow> (cache, Inl (FeedReadFailed x))
      | Inr (decimals, answer, updatedAt) \<Rightarrow>
          let price = of_int answer / 10 ^ decimals; timestamp = updatedAt * 1000
          in if now - timestamp > 60 * 60 * 1000 then (cache, Inl (StalePrice asset timestamp))
             else if price \<le> 0 then (cache, Inl (InvalidFeedPrice asset price))
             else let q = \<lparr> pq_asset = asset, pq_base_asset = ''USD'', pq_price = price,
                            pq_timestamp = timestamp, pq_source = ''chainlink'', pq_confidence = 98 / 100 \<rparr>
                  in (js_map_set key (q, of_int now + ttlMs) cache, Inr q))"

text \<open>The loop over the chains; the last error is kept for the end.\<close>

fun try_feeds ::
    "rat \<Rightarrow> feed_reader \<Rightarrow> int \<Rightarrow> string \<Rightarrow> string \<Rightarrow> (nat \<times> string) list \<Rightarrow> nat list \<Rightarrow> oracle_error option
       \<Rightarrow> quote_cache \<Rightarrow> quote_cache \<times> (oracle_error + price_quote)" where
  "try_feeds ttlMs read now asset key feeds [] lastError cache =
     (cache, Inl (case lastError of None \<Rightarrow> AllFeedsFailed asset | Some x \<Rightarrow> x))"
| "try_feeds ttlMs read now asset key feeds (c # cs) lastError cache =
     (case map_of feeds c of
        None \<Rightarrow> try_feeds ttlMs read now asset key feeds cs lastError cache
      | Some a \<Rightarrow>
          (case fetchFromFeed ttlMs read now a (to_upper asset) key cache of
             (cache', Inr q) \<Rightarrow> (cache', Inr q)
           | (cache', Inl x) \<Rightarrow> try_feeds ttlMs read now asset key feeds cs (Some x) cache'))"

definition chainlink_getPrice ::
    "rat \<Rightarrow> bool \<Rightarrow> feed_reader \<Rightarrow> int \<Rightarrow> string \<Rightarrow> string \<Rightarrow> quote_cache
       \<Rightarrow> quote_cache \<times> (oracle_error + price_quote)" where
  "chainlink_getPrice ttlMs ethers read now asset baseAsset cache =
     (let key = price_key asset baseAsset;
          query = (if to_lower baseAsset \<noteq> ''usd'' then (cache, Inl (UnsupportedBase baseAsset))
                   else if \<not> ethers then (cache, Inl EthersMissing)
                   else (case map_of CHAINLINK_FEEDS (to_upper asset) of
                           None \<Rightarrow> (cache, Inl (NoFeedConfigured asset))
                         | Some feeds \<Rightarrow> try_feeds ttlMs read now asset key feeds [1, 137, 42161, 10, 8453] None cache))
      in case map_of cache key of
           None \<Rightarrow> query
         | Some (q, expiresAt) \<Rightarrow> if expiresAt > of_int now then (cache, Inr q) else query)"

fun chainlink_getPrices ::
    "rat \<Rightarrow> bool \<Rightarrow> feed_reader \<Rightarrow> int \<Rightarrow> string list \<Rightarrow> string \<Rightarrow> quote_cache \<Rightarrow> quote_cache \<times> price_quote list" where
  "chainlink_getPrices ttlMs ethers read now [] baseAsset cache = (cache, [])"
| "chainlink_getPrices ttlMs ethers read now (a # rest) baseAsset cache =
     (case chainlink_getPrice ttlMs ethers read now a baseAsset cache of (cache1, r) \<Rightarrow>
      (case chainlink_getPrices ttlMs ethers read now rest baseAsset cache1 of (cache2, qs) \<Rightarrow>
        (cache2, (case r of Inl _ \<Rightarrow> missing_quote now ''chainlink'' a baseAsset | Inr q \<Rightarrow> q) # qs)))"

definition chainlink_isHealthy ::
    "rat \<Rightarrow> bool \<Rightarrow> feed_reader \<Rightarrow> int \<Rightarrow> quote_cache \<Rightarrow> quote_cache \<times> bool" where
  "chainlink_isHealthy ttlMs ethers read now cache =
     (case chainlink_getPrice ttlMs ethers read now ''ETH'' ''usd'' cache of
        (c, Inl _) \<Rightarrow> (c, False) | (c, Inr _) \<Rightarrow> (c, True))"

section \<open>The aggregator\<close>

text \<open>An oracle as the aggregator sees it: a name, an answer and a health check.\<close>

record price_oracle =
  or_name :: string
  or_getPrice :: "string \<Rightarrow> string \<Rightarrow> oracle_error + price_quote"
  or_isHealthy :: "oracle_error + bool"

definition aggregator_name :: "price_oracle list \<Rightarrow> string" where
  "aggregator_name os = ''aggregator('' @ join ''+'' (map or_name os) @ '')''"

definition accepted_quotes :: "price_oracle list \<Rightarrow> real \<Rightarrow> string \<Rightarrow> string \<Rightarrow> price_quote list" where
  "accepted_quotes os minConfidence asset baseAsset =
     filter (\<lambda>q. minConfidence \<le> pq_confidence q \<and> 0 < pq_price q)
       (concat (map (\<lambda>o'. case or_getPrice o' asset baseAsset of Inl _ \<Rightarrow> [] | Inr q \<Rightarrow> [q]) os))"

definition calculateConfidence :: "price_quote list \<Rightarrow> real" where
  "calculateConfidence quotes =
     (case quotes of
        [q] \<Rightarrow> pq_confidence q
      | _ \<Rightarrow>
          let prices = map pq_price quotes;
              mean = sum_list prices / of_nat (length prices);
              variance = sum_list (map (\<lambda>p. (p - mean) ^ 2) prices) / of_nat (length prices);
              coefficientOfVariation = sqrt (of_rat variance) / of_rat mean
          in min (max 0 (1 - coefficientOfVariation * 10)) 1)"

definition median_price :: "price_quote list \<Rightarrow> rat" where
  "median_price quotes =
     (let prices = sort (map pq_price quotes); medianIndex = length prices div 2
      in if medianIndex < length prices then prices ! medianIndex else 0)"

definition aggregator_getPrice ::
    "price_oracle list \<Rightarrow> real \<Rightarrow> int \<Rightarrow> string \<Rightarrow> string \<Rightarrow> oracle_error + price_quote" where
  "aggregator_getPrice os minConfidence now asset baseAsset =
     (let successful = accepted_quotes os minConfidence asset baseAsset
      in if successful = [] then Inl (NoValidPrice asset baseAsset)
         else Inr \<lparr> pq_asset = to_upper asset, pq_base_asset = to_upper baseAsset,
                    pq_price = median_price successful, pq_timestamp = now,
                    pq_source = aggregator_name os, pq_confidence = calculateConfidence successful \<rparr>)"

definition aggregator_getPrices ::
    "price_oracle list \<Rightarrow> real \<Rightarrow> int \<Rightarrow> string list \<Rightarrow> string \<Rightarrow> oracle_error + price_quote list" where
  "aggregator_getPrices os minConfidence now assets baseAsset =
     fold (\<lambda>a r. case r of Inl x \<Rightarrow> Inl x
        | Inr qs \<Rightarrow> (case aggregator_getPrice os minConfidence now a baseAsset of
            Inl x \<Rightarrow> Inl x | Inr q \<Rightarrow> Inr (qs @ [q]))) assets (Inr [])"

definition aggregator_isHealthy :: "price_oracle list \<Rightarrow> bool" where
  "aggregator_isHealthy os = list_ex (\<lambda>o'. or_isHealthy o' = Inr True) os"

section \<open>The median resists a minority\<close>

lemma median_in_range:
  assumes "length quotes < 2 * length (filter (\<lambda>q. a \<le> pq_price q \<and> pq_price q \<le> b) quotes)"
  shows "a \<le> median_price quotes \<and> median_price quotes \<le> b"
proof -
  let ?ps = "sort (map pq_price quotes)"
  let ?n = "length quotes"
  let ?P = "\<lambda>p. a \<le> p \<and> p \<le> b"
  have len: "length ?ps = ?n" by simp
  have pos: "?n div 2 < ?n" using assms by (cases quotes) auto
  have med: "median_price quotes = ?ps ! (?n div 2)"
    using pos by (simp add: median_price_def Let_def)
  have "length (filter (\<lambda>q. ?P (pq_price q)) quotes) = length (filter ?P (map pq_price quotes))"
    by (simp add: filter_map comp_def)
  also have "\<dots> = length (filter ?P ?ps)"
    by (simp only: filter_sort length_sort)
  finally have maj: "?n < 2 * card {i. i < ?n \<and> ?P (?ps ! i)}"
    using assms len by (simp add: length_filter_conv_card)
  have mono: "?ps ! i \<le> ?ps ! j" if "i \<le> j" "j < ?n" for i j
    using that len by (intro sorted_nth_mono) auto
  have "\<not> ?ps ! (?n div 2) < a"
  proof
    assume lt: "?ps ! (?n div 2) < a"
    have "{i. i < ?n \<and> ?P (?ps ! i)} \<subseteq> {?n div 2<..<?n}"
      using mono [OF _ pos] lt by (auto simp: not_less) (meson leI le_less_trans not_less)
    from card_mono [OF _ this] maj show False by simp
  qed
  moreover have "\<not> b < ?ps ! (?n div 2)"
  proof
    assume lt: "b < ?ps ! (?n div 2)"
    have "{i. i < ?n \<and> ?P (?ps ! i)} \<subseteq> {..<?n div 2}"
      using mono lt by (auto simp: not_less) (meson leI less_le_trans not_less)
    from card_mono [OF _ this] maj show False by simp
  qed
  ultimately show ?thesis unfolding med by simp
qed

section \<open>Chainlink freshness\<close>

definition feed_cache_ok :: "rat \<Rightarrow> quote_cache \<Rightarrow> bool" where
  "feed_cache_ok ttlMs cache = (\<forall>(k, q, e) \<in> set cache.
     0 < pq_price q \<and> e \<le> of_int (pq_timestamp q) + 3600000 + ttlMs)"

lemma fetchFromFeed_ok:
  assumes "fetchFromFeed ttlMs read now a asset key cache = (cache', r)" "feed_cache_ok ttlMs cache"
  shows "feed_cache_ok ttlMs cache'
    \<and> (case r of Inl _ \<Rightarrow> True | Inr q \<Rightarrow> 0 < pq_price q \<and> now \<le> pq_timestamp q + 3600000)"
proof -
  have put: "feed_cache_ok ttlMs (js_map_set key (q, of_int now + ttlMs) cache)"
    if "0 < pq_price q" "now \<le> pq_timestamp q + 3600000" for q
  proof -
    have "of_int now \<le> (of_int (pq_timestamp q) + 3600000 :: rat)" using that(2) by linarith
    then show ?thesis
      using that(1) assms(2) set_js_map_set_subset [of key "(q, of_int now + ttlMs)" cache]
      by (fastforce simp: feed_cache_ok_def)
  qed
  show ?thesis
    using assms by (auto simp: fetchFromFeed_def Let_def not_le not_less intro!: put
        split: sum.splits prod.splits if_splits)
qed

lemma try_feeds_ok:
  "try_feeds ttlMs read now asset key feeds cs le cache = (cache', r) \<Longrightarrow> feed_cache_ok ttlMs cache
    \<Longrightarrow> feed_cache_ok ttlMs cache'
      \<and> (case r of Inl _ \<Rightarrow> True | Inr q \<Rightarrow> 0 < pq_price q \<and> now \<le> pq_timestamp q + 3600000)"
proof (induction cs arbitrary: le cache)
  case (Cons c cs)
  show ?case
  proof (cases "map_of feeds c")
    case None
    then show ?thesis using Cons by simp
  next
    case (Some a)
    obtain cache1 r1 where f: "fetchFromFeed ttlMs read now a (to_upper asset) key cache = (cache1, r1)"
      by (rule prod.exhaust)
    note ok = fetchFromFeed_ok [OF f Cons.prems(2)]
    show ?thesis
    proof (cases r1)
      case (Inl x)
      then show ?thesis using Cons.IH [of "Some x" cache1] Cons.prems(1) ok f Some by simp
    next
      case (Inr q)
      then show ?thesis using Cons.prems(1) ok f Some by auto
    qed
  qed
qed auto

lemma chainlink_getPrice_ok:
  assumes "chainlink_getPrice ttlMs ethers read now asset baseAsset cache = (cache', r)" "feed_cache_ok ttlMs cache"
  shows "feed_cache_ok ttlMs cache'
    \<and> (case r of Inl _ \<Rightarrow> True
       | Inr q \<Rightarrow> 0 < pq_price q \<and> of_int now \<le> of_int (pq_timestamp q) + 3600000 + max 0 ttlMs)"
proof -
  have grow: "of_int now \<le> (of_int t + 3600000 + max 0 ttlMs :: rat)" if "now \<le> t + 3600000" for t
  proof -
    have "of_int now \<le> (of_int t + 3600000 :: rat)" using that by linarith
    then show ?thesis by linarith
  qed
  have feeds: "feed_cache_ok ttlMs c \<and> (case r' of Inl _ \<Rightarrow> True
       | Inr q \<Rightarrow> 0 < pq_price q \<and> of_int now \<le> of_int (pq_timestamp q) + 3600000 + max 0 ttlMs)"
    if "try_feeds ttlMs read now asset key fs cs None cache = (c, r')" for key fs cs c r'
    using try_feeds_ok [OF that assms(2)] grow by (auto split: sum.splits)
  show ?thesis
  proof (cases "\<exists>q e. map_of cache (price_key asset baseAsset) = Some (q, e) \<and> of_int now < e")
    case True
    then obtain q e where qe: "map_of cache (price_key asset baseAsset) = Some (q, e)" "of_int now < e" by blast
    with assms(1) have "cache' = cache" "r = Inr q" by (auto simp: chainlink_getPrice_def Let_def)
    moreover have "0 < pq_price q" "e \<le> of_int (pq_timestamp q) + 3600000 + ttlMs"
      using assms(2) map_of_SomeD [OF qe(1)] by (auto simp: feed_cache_ok_def)
    ultimately show ?thesis using assms(2) qe(2) by auto
  next
    case False
    then show ?thesis
      using assms by (auto simp: chainlink_getPrice_def Let_def simp del: try_feeds.simps
          split: option.splits if_splits dest!: feeds)
  qed
qed

text \<open>A call of the Chainlink oracle: whether ethers is there, the feeds, the instant and the pair.\<close>

type_synonym feed_call = "bool \<times> feed_reader \<times> int \<times> string \<times> string"

definition feed_step :: "rat \<Rightarrow> feed_call \<Rightarrow> quote_cache \<Rightarrow> quote_cache" where
  "feed_step ttlMs call cache = (case call of (ethers, read, now, asset, baseAsset) \<Rightarrow>
     fst (chainlink_getPrice ttlMs ethers read now asset baseAsset cache))"

interpretation feed_machine: op_machine "feed_step ttlMs" "feed_cache_ok ttlMs" for ttlMs
proof
  fix s op
  assume "feed_cache_ok ttlMs s"
  then have "feed_cache_ok ttlMs (fst (chainlink_getPrice ttlMs e read now a b s))" for e read now a b
    using chainlink_getPrice_ok [OF prod.collapse [symmetric]] by blast
  then show "feed_cache_ok ttlMs (feed_step ttlMs op s)"
    by (cases op) (simp add: feed_step_def)
qed

section \<open>Properties\<close>

text \<open>C17: When more than half of the quotes the aggregator accepts lie between a and b, its answer
  lies between a and b: a minority of oracles cannot move the price out of the range of the
  majority, whatever it answers.\<close>

theorem aggregate_resists_minority:
  assumes "length (accepted_quotes os minConfidence asset baseAsset)
      < 2 * length (filter (\<lambda>q. a \<le> pq_price q \<and> pq_price q \<le> b) (accepted_quotes os minConfidence asset baseAsset))"
  shows "\<exists>q. aggregator_getPrice os minConfidence now asset baseAsset = Inr q
    \<and> a \<le> pq_price q \<and> pq_price q \<le> b \<and> 0 < pq_price q"
proof -
  let ?qs = "accepted_quotes os minConfidence asset baseAsset"
  have ne: "?qs \<noteq> []" using assms by auto
  have "pq_price x \<in> {0<..}" if "x \<in> set ?qs" for x using that by (auto simp: accepted_quotes_def)
  moreover have "median_price ?qs \<in> pq_price ` set ?qs"
  proof -
    have "length ?qs div 2 < length ?qs" using ne by (cases ?qs) auto
    then have "median_price ?qs \<in> set (sort (map pq_price ?qs))"
      unfolding median_price_def Let_def by (simp del: set_sort add: nth_mem)
    then show ?thesis by simp
  qed
  ultimately have "0 < median_price ?qs" by auto
  then show ?thesis
    using median_in_range [OF assms] ne by (simp add: aggregator_getPrice_def Let_def)
qed

theorem aggregate_resists_minority_witness:
  "\<exists>q. aggregator_getPrice
      [\<lparr> or_name = ''a'', or_getPrice = (\<lambda>_ _. Inr \<lparr> pq_asset = ''ETH'', pq_base_asset = ''USD'', pq_price = 2000,
           pq_timestamp = 0, pq_source = ''a'', pq_confidence = 95 / 100 \<rparr>), or_isHealthy = Inr True \<rparr>,
       \<lparr> or_name = ''b'', or_getPrice = (\<lambda>_ _. Inr \<lparr> pq_asset = ''ETH'', pq_base_asset = ''USD'', pq_price = 9,
           pq_timestamp = 0, pq_source = ''b'', pq_confidence = 1 \<rparr>), or_isHealthy = Inr True \<rparr>,
       \<lparr> or_name = ''c'', or_getPrice = (\<lambda>_ _. Inr \<lparr> pq_asset = ''ETH'', pq_base_asset = ''USD'', pq_price = 2010,
           pq_timestamp = 0, pq_source = ''c'', pq_confidence = 98 / 100 \<rparr>), or_isHealthy = Inr True \<rparr>]
      (8 / 10) 0 ''ETH'' ''USD'' = Inr q \<and> 2000 \<le> pq_price q \<and> pq_price q \<le> 2010 \<and> 0 < pq_price q"
  by (rule aggregate_resists_minority) (simp add: accepted_quotes_def)

text \<open>Whatever was asked before, a Chainlink price is positive and its on-chain update is at most
  one hour plus the cache time old when it is returned.\<close>

theorem chainlink_price_fresh:
  assumes "snd (chainlink_getPrice ttlMs ethers read now asset baseAsset (fold (feed_step ttlMs) calls [])) = Inr q"
  shows "0 < pq_price q \<and> of_int (now - pq_timestamp q) \<le> 3600000 + max 0 ttlMs"
proof -
  have "feed_cache_ok ttlMs (fold (feed_step ttlMs) calls [])"
    by (rule feed_machine.inv_run) (simp add: feed_cache_ok_def)
  from chainlink_getPrice_ok [OF _ this, of ethers read now asset baseAsset] assms show ?thesis
    by (cases "chainlink_getPrice ttlMs ethers read now asset baseAsset (fold (feed_step ttlMs) calls [])") auto
qed

theorem chainlink_price_fresh_witness:
  "0 < pq_price \<lparr> pq_asset = ''BTC'', pq_base_asset = ''USD'', pq_price = 50000, pq_timestamp = 7000000,
       pq_source = ''chainlink'', pq_confidence = 98 / 100 \<rparr>
    \<and> of_int (8000000 - 7000000) \<le> 3600000 + max 0 (60000 :: rat)"
  using chainlink_price_fresh [of 60000 True "\<lambda>_. Inr (2, 5000000, 7000)" 8000000 "''BTC''" "''USD''" "[]"
      "\<lparr> pq_asset = ''BTC'', pq_base_asset = ''USD'', pq_price = 50000, pq_timestamp = 7000000,
         pq_source = ''chainlink'', pq_confidence = 98 / 100 \<rparr>"]
  by (simp add: chainlink_getPrice_def price_key_def to_lower_def lower_char_def to_upper_def upper_char_def
      CHAINLINK_FEEDS_def fetchFromFeed_def Let_def)

end
