(* ===== verification/Risk_Scorer.thy ===== *)
theory Risk_Scorer
  imports Job_Queue
begin

text \<open>
  \<open>BasicRiskScorer\<close> and \<open>InMemorySanctionsProvider\<close>
  (\<open>packages/rate-lock/src/basic-risk-scorer.ts\<close>) with the types of
  \<open>packages/shared/src/types/compliance.ts\<close> and \<open>risk.ts\<close>.  A sanctions provider is a parameter
  that may reject; the cache is the state.  The address hash is computed on 32-bit words.
\<close>

unbundle bit_operations_syntax

section \<open>Types\<close>

datatype risk_level = RISK_LOW | RISK_MEDIUM | RISK_HIGH | RISK_CRITICAL

fun risk_rank :: "risk_level \<Rightarrow> nat" where
  "risk_rank RISK_LOW = 0"
| "risk_rank RISK_MEDIUM = 1"
| "risk_rank RISK_HIGH = 2"
| "risk_rank RISK_CRITICAL = 3"

lemma risk_rank_inj: "risk_rank a = risk_rank b \<Longrightarrow> a = b"
  by (cases a; cases b) simp_all

instantiation risk_level :: linorder
begin

definition less_eq_risk_level :: "risk_level \<Rightarrow> risk_level \<Rightarrow> bool" where
  "less_eq_risk_level a b = (risk_rank a \<le> risk_rank b)"

definition less_risk_level :: "risk_level \<Rightarrow> risk_level \<Rightarrow> bool" where
  "less_risk_level a b = (risk_rank a < risk_rank b)"

instance
  by standard (auto simp: less_eq_risk_level_def less_risk_level_def intro: risk_rank_inj)

end

datatype risk_flag =
  SANCTIONED | MIXER | DARKNET | SCAM | HIGH_RISK_JURISDICTION | VELOCITY_ANOMALY | NEW_ADDRESS

record sanctions_match =
  sm_list_name :: string
  sm_match_score :: rat
  sm_entity_name :: string
  sm_entity_details :: payload

record risk_details =
  rd_sanctions_match :: "sanctions_match option"
  rd_wallet_age :: rat
  rd_transaction_count :: rat
  rd_total_volume :: rat
  rd_known_associations :: "string list"
  rd_jurisdiction_risk :: rat

record risk_result =
  rk_address :: string
  rk_chain :: string
  rk_score :: rat
  rk_level :: risk_level
  rk_flags :: "risk_flag list"
  rk_details :: risk_details
  rk_screened_at :: int
  rk_expires_at :: int

record tx_info =
  ti_from :: string
  ti_to :: string
  ti_amount :: rat
  ti_asset :: string
  ti_chain :: string
  ti_timestamp :: int

record risk_config =
  rc_wallet_age_weight :: rat
  rc_tx_count_weight :: rat
  rc_volume_weight :: rat
  rc_sanctions_weight :: rat
  rc_high_threshold :: rat
  rc_critical_threshold :: rat
  rc_cache_ttl :: rat

definition DEFAULT_RISK_CONFIG :: risk_config where
  "DEFAULT_RISK_CONFIG = \<lparr> rc_wallet_age_weight = 2/10, rc_tx_count_weight = 2/10, rc_volume_weight = 2/10,
     rc_sanctions_weight = 4/10, rc_high_threshold = 60, rc_critical_threshold = 80, rc_cache_ttl = 3600 \<rparr>"

record sanctions_entry =
  sn_address :: string
  sn_chain :: string
  sn_list_name :: string
  sn_entity_name :: string
  sn_added_at :: int
  sn_reason :: string

datatype factor_type = F_WALLET_AGE | F_TX_COUNT | F_VOLUME | F_SANCTIONS | F_MIXER | F_DARKNET

text \<open>
  The details text of a factor: the JSON text of an object (which \<open>JSON.parse\<close> reads back), plain
  text (which it refuses), or the text of an estimate with its number.
\<close>

datatype factor_details = FD_json payload | FD_text string | FD_estimate string int

record risk_factor =
  fa_type :: factor_type
  fa_score :: rat
  fa_weight :: rat
  fa_details :: factor_details

section \<open>The address hash\<close>

definition hash_step :: "32 word \<Rightarrow> char \<Rightarrow> 32 word" where
  "hash_step h c = push_bit 5 h - h + of_nat (of_char c)"

definition simpleHash :: "string \<Rightarrow> int" where
  "simpleHash str = \<bar>sint (foldl hash_step 0 str)\<bar>"

definition estimateWalletAge :: "string \<Rightarrow> int" where
  "estimateWalletAge address = simpleHash address mod 60 + 20"

definition estimateTxCount :: "string \<Rightarrow> int" where
  "estimateTxCount address = simpleHash (address @ '':txcount'') mod 70 + 10"

definition estimateVolume :: "string \<Rightarrow> int" where
  "estimateVolume address = simpleHash (address @ '':volume'') mod 60 + 20"

section \<open>Scores\<close>

type_synonym sanctions_provider = "string \<Rightarrow> string \<Rightarrow> unit + sanctions_entry option"

definition sanctions_factor :: "risk_config \<Rightarrow> unit + sanctions_entry option \<Rightarrow> risk_factor" where
  "sanctions_factor cfg answer =
     (case answer of
        Inr (Some x) \<Rightarrow> \<lparr> fa_type = F_SANCTIONS, fa_score = 100, fa_weight = rc_sanctions_weight cfg,
          fa_details = FD_json [(''listName'', JStr (sn_list_name x)), (''entityName'', JStr (sn_entity_name x)),
                                (''reason'', JStr (sn_reason x))] \<rparr>
      | Inr None \<Rightarrow> \<lparr> fa_type = F_SANCTIONS, fa_score = 0, fa_weight = rc_sanctions_weight cfg,
          fa_details = FD_text ''No sanctions match'' \<rparr>
      | Inl _ \<Rightarrow> \<lparr> fa_type = F_SANCTIONS, fa_score = 0, fa_weight = rc_sanctions_weight cfg,
          fa_details = FD_text ''Sanctions check unavailable'' \<rparr>)"

definition calculateRiskFactors ::
    "risk_config \<Rightarrow> sanctions_provider option \<Rightarrow> string \<Rightarrow> string \<Rightarrow> risk_factor list" where
  "calculateRiskFactors cfg provider address chain =
     (case provider of None \<Rightarrow> [] | Some p \<Rightarrow> [sanctions_factor cfg (p address chain)]) @
     [\<lparr> fa_type = F_WALLET_AGE, fa_score = of_int (estimateWalletAge address),
        fa_weight = rc_wallet_age_weight cfg,
        fa_details = FD_estimate ''Estimated wallet age score'' (estimateWalletAge address) \<rparr>,
      \<lparr> fa_type = F_TX_COUNT, fa_score = of_int (estimateTxCount address),
        fa_weight = rc_tx_count_weight cfg,
        fa_details = FD_estimate ''Estimated transaction count score'' (estimateTxCount address) \<rparr>,
      \<lparr> fa_type = F_VOLUME, fa_score = of_int (estimateVolume address),
        fa_weight = rc_volume_weight cfg,
        fa_details = FD_estimate ''Estimated volume score'' (estimateVolume address) \<rparr>]"

definition calculateTotalScore :: "risk_factor list \<Rightarrow> rat" where
  "calculateTotalScore factors =
     (if factors = [] then 0
      else let (totalWeight, weightedSum) =
                 fold (\<lambda>f (w, sm). (w + fa_weight f, sm + fa_score f * fa_weight f)) factors (0, 0)
           in if totalWeight = 0 then 0 else of_int (js_round (weightedSum / totalWeight * 100)) / 100)"

definition determineRiskLevel :: "risk_config \<Rightarrow> rat \<Rightarrow> risk_level" where
  "determineRiskLevel cfg score =
     (if rc_critical_threshold cfg \<le> score then RISK_CRITICAL
      else if rc_high_threshold cfg \<le> score then RISK_HIGH
      else if 30 \<le> score then RISK_MEDIUM else RISK_LOW)"

definition extractFlags :: "risk_factor list \<Rightarrow> risk_flag list" where
  "extractFlags factors = concat (map (\<lambda>f. if 80 \<le> fa_score f
     then (case fa_type f of F_SANCTIONS \<Rightarrow> [SANCTIONED] | F_WALLET_AGE \<Rightarrow> [NEW_ADDRESS] | _ \<Rightarrow> []) else []) factors)"

definition calculateTransactionRisk :: "tx_info \<Rightarrow> rat \<times> risk_flag list" where
  "calculateTransactionRisk tx =
     ((if ti_amount tx > 100000 then 10 else 0)
      + (if ti_amount tx / 1000 = of_int \<lfloor>ti_amount tx / 1000\<rfloor> \<and> ti_amount tx > 0 then 5 else 0), [])"

section \<open>The scorer\<close>

text \<open>The cache: from key to score and expiry.\<close>

type_synonym risk_cache = "(string \<times> rat \<times> int) list"

definition cache_key :: "string \<Rightarrow> string \<Rightarrow> string" where
  "cache_key address chain = to_lower address @ '':'' @ chain"

definition expiry :: "risk_config \<Rightarrow> int \<Rightarrow> int" where
  "expiry cfg now = js_trunc (of_int now + rc_cache_ttl cfg * 1000)"

definition buildCachedResult :: "risk_config \<Rightarrow> int \<Rightarrow> string \<Rightarrow> string \<Rightarrow> rat \<Rightarrow> risk_result" where
  "buildCachedResult cfg now address chain score =
     \<lparr> rk_address = address, rk_chain = chain, rk_score = score, rk_level = determineRiskLevel cfg score,
       rk_flags = (if 80 \<le> score then [SANCTIONED] else if 60 \<le> score then [NEW_ADDRESS] else []),
       rk_details = \<lparr> rd_sanctions_match = None, rd_wallet_age = 0, rd_transaction_count = 0,
                      rd_total_volume = 0, rd_known_associations = [], rd_jurisdiction_risk = 0 \<rparr>,
       rk_screened_at = now, rk_expires_at = expiry cfg now \<rparr>"

text \<open>\<open>String(parsed[k] ?? 'unknown')\<close> of a text field.\<close>

definition text_field :: "payload \<Rightarrow> string \<Rightarrow> string" where
  "text_field p k = (case map_of p k of Some (JStr v) \<Rightarrow> v | _ \<Rightarrow> ''unknown'')"

definition match_of :: "factor_details \<Rightarrow> sanctions_match" where
  "match_of d =
     (case d of
        FD_json p \<Rightarrow> \<lparr> sm_list_name = text_field p ''listName'', sm_match_score = 100,
          sm_entity_name = text_field p ''entityName'',
          sm_entity_details = [(''reason'', JStr (text_field p ''reason''))] \<rparr>
      | FD_text t \<Rightarrow> \<lparr> sm_list_name = ''unknown'', sm_match_score = 100, sm_entity_name = ''unknown'',
          sm_entity_details = [(''reason'', JStr t)] \<rparr>
      | FD_estimate t _ \<Rightarrow> \<lparr> sm_list_name = ''unknown'', sm_match_score = 100, sm_entity_name = ''unknown'',
          sm_entity_details = [(''reason'', JStr t)] \<rparr>)"

definition factor_score :: "factor_type \<Rightarrow> risk_factor list \<Rightarrow> rat" where
  "factor_score ty factors = (case tbl_find (\<lambda>f. fa_type f = ty) factors of None \<Rightarrow> 0 | Some f \<Rightarrow> fa_score f)"

definition fresh_result ::
    "risk_config \<Rightarrow> sanctions_provider option \<Rightarrow> int \<Rightarrow> string \<Rightarrow> string \<Rightarrow> risk_result" where
  "fresh_result cfg provider now address chain =
     (let factors = calculateRiskFactors cfg provider address chain;
          sanctionsFactor = tbl_find (\<lambda>f. fa_type f = F_SANCTIONS) factors;
          hasMatch = (case sanctionsFactor of None \<Rightarrow> False | Some f \<Rightarrow> 80 \<le> fa_score f);
          totalScore = (if hasMatch then 100 else calculateTotalScore factors)
      in \<lparr> rk_address = address, rk_chain = chain, rk_score = totalScore,
           rk_level = determineRiskLevel cfg totalScore, rk_flags = extractFlags factors,
           rk_details = \<lparr>
             rd_sanctions_match = (case sanctionsFactor of None \<Rightarrow> None
                | Some f \<Rightarrow> if hasMatch then Some (match_of (fa_details f)) else None),
             rd_wallet_age = factor_score F_WALLET_AGE factors,
             rd_transaction_count = factor_score F_TX_COUNT factors,
             rd_total_volume = factor_score F_VOLUME factors,
             rd_known_associations = [], rd_jurisdiction_risk = 0 \<rparr>,
           rk_screened_at = now, rk_expires_at = expiry cfg now \<rparr>)"

definition screenAddress ::
    "risk_config \<Rightarrow> sanctions_provider option \<Rightarrow> int \<Rightarrow> string \<Rightarrow> string \<Rightarrow> risk_cache \<Rightarrow> risk_cache \<times> risk_result" where
  "screenAddress cfg provider now address chain cache =
     (let key = cache_key address chain;
          fresh = (let result = fresh_result cfg provider now address chain
                   in (js_map_set key (rk_score result, rk_expires_at result) cache, result))
      in case map_of cache key of
           None \<Rightarrow> fresh
         | Some (score, expiresAt) \<Rightarrow>
             if expiresAt > now then (cache, buildCachedResult cfg now address chain score) else fresh)"

definition screenTransaction ::
    "risk_config \<Rightarrow> sanctions_provider option \<Rightarrow> int \<Rightarrow> tx_info \<Rightarrow> risk_cache \<Rightarrow> risk_cache \<times> risk_result" where
  "screenTransaction cfg provider now tx cache =
     (let (cache', sourceRisk) = screenAddress cfg provider now (ti_from tx) (ti_chain tx) cache;
          txRisk = calculateTransactionRisk tx;
          adjusted = min 100 (rk_score sourceRisk + fst txRisk)
      in (cache', sourceRisk\<lparr> rk_score := adjusted, rk_level := determineRiskLevel cfg adjusted,
                              rk_flags := rk_flags sourceRisk @ snd txRisk \<rparr>))"

definition getRiskScore :: "int \<Rightarrow> risk_cache \<Rightarrow> string \<Rightarrow> rat" where
  "getRiskScore now cache address =
     (case map_of cache (to_lower address @ '':cached'') of
        None \<Rightarrow> 0 | Some (score, expiresAt) \<Rightarrow> if expiresAt > now then score else 0)"

section \<open>The in-memory sanctions provider\<close>

type_synonym sanctions_store = "(string \<times> sanctions_entry) list"

definition addEntry :: "sanctions_entry \<Rightarrow> sanctions_store \<Rightarrow> sanctions_store" where
  "addEntry x st = js_map_set (cache_key (sn_address x) (sn_chain x)) x st"

definition sanctions_new :: "sanctions_entry list \<Rightarrow> sanctions_store" where
  "sanctions_new xs = fold addEntry xs []"

definition checkSanctions :: "sanctions_store \<Rightarrow> sanctions_provider" where
  "checkSanctions st address chain = Inr (map_of st (cache_key address chain))"

definition getFlaggedAddresses :: "sanctions_store \<Rightarrow> string \<Rightarrow> sanctions_entry list" where
  "getFlaggedAddresses st chain = filter (\<lambda>x. sn_chain x = chain) (map snd st)"

definition removeEntry :: "string \<Rightarrow> string \<Rightarrow> sanctions_store \<Rightarrow> sanctions_store \<times> bool" where
  "removeEntry address chain st =
     (let key = cache_key address chain in (js_map_delete key st, key \<in> fst ` set st))"

end
