(* ===== verification/Compliance_Gate.thy ===== *)
theory Compliance_Gate
  imports Risk_Scorer
begin

text \<open>
  \<open>ComplianceGate\<close> (\<open>packages/rate-lock/src/compliance-gate.ts\<close>) over any \<open>IRiskScorer\<close>, the
  contract a scorer has to meet for the gate to be safe, and its interpretation on
  \<open>BasicRiskScorer\<close> with the in-memory sanctions list.
\<close>

text \<open>What a scorer may throw: \<open>ScreeningUnavailableError\<close> (provider and reason), or another error.\<close>

datatype screening_error = ScreeningUnavailable string string | OtherError js_error

text \<open>\<open>IRiskScorer\<close>: the two screening methods, with the state of the scorer.\<close>

record 's scorer =
  sc_screenAddress :: "int \<Rightarrow> string \<Rightarrow> string \<Rightarrow> 's \<Rightarrow> 's \<times> (screening_error + risk_result)"
  sc_screenTransaction :: "int \<Rightarrow> tx_info \<Rightarrow> 's \<Rightarrow> 's \<times> (screening_error + risk_result)"

record gate =
  g_blocked_addresses :: "string list"
  g_blocked_chains :: "string list"

record risk_assessment =
  ra_address :: string
  ra_chain :: string
  ra_total_score :: rat
  ra_level :: risk_level
  ra_factors :: "risk_factor list"
  ra_flags :: "risk_flag list"
  ra_assessed_at :: int
  ra_expires_at :: int

text \<open>The reason of a refusal, with the numbers its text shows.\<close>

datatype gate_reason =
    ManuallyBlocked
  | ChainNotSupported string
  | OnSanctionsList
  | CriticalAddress rat
  | HighRiskLargeAmount rat
  | CriticalTransaction rat
  | SourceOnSanctionsList
  | SourceMixerOrDarknet

record gate_result =
  gr_allowed :: bool
  gr_reason :: "gate_reason option"
  gr_assessment :: risk_assessment

definition buildRiskAssessment ::
    "int \<Rightarrow> string \<Rightarrow> string \<Rightarrow> rat \<Rightarrow> risk_level \<Rightarrow> risk_flag list \<Rightarrow> risk_assessment" where
  "buildRiskAssessment now address chain totalScore level flags =
     \<lparr> ra_address = address, ra_chain = chain, ra_total_score = totalScore, ra_level = level,
       ra_factors =
         (if SANCTIONED \<in> set flags then [\<lparr> fa_type = F_SANCTIONS, fa_score = 100, fa_weight = 4/10,
            fa_details = FD_text ''Address is on sanctions list'' \<rparr>] else []) @
         (if NEW_ADDRESS \<in> set flags then [\<lparr> fa_type = F_WALLET_AGE, fa_score = 80, fa_weight = 2/10,
            fa_details = FD_text ''New wallet detected'' \<rparr>] else []) @
         (if MIXER \<in> set flags then [\<lparr> fa_type = F_MIXER, fa_score = 90, fa_weight = 3/10,
            fa_details = FD_text ''Address associated with mixer'' \<rparr>] else []) @
         (if DARKNET \<in> set flags then [\<lparr> fa_type = F_DARKNET, fa_score = 95, fa_weight = 3/10,
            fa_details = FD_text ''Address associated with darknet'' \<rparr>] else []),
       ra_flags = flags, ra_assessed_at = now, ra_expires_at = now + 3600000 \<rparr>"

definition buildBlockedAssessment :: "int \<Rightarrow> string \<Rightarrow> string \<Rightarrow> risk_assessment" where
  "buildBlockedAssessment now address chain =
     \<lparr> ra_address = address, ra_chain = chain, ra_total_score = 100, ra_level = RISK_CRITICAL,
       ra_factors = [], ra_flags = [SANCTIONED], ra_assessed_at = now, ra_expires_at = now + 3600000 \<rparr>"

definition refuse :: "gate_reason \<Rightarrow> risk_assessment \<Rightarrow> gate_result" where
  "refuse why a = \<lparr> gr_allowed = False, gr_reason = Some why, gr_assessment = a \<rparr>"

definition allow :: "risk_assessment \<Rightarrow> gate_result" where
  "allow a = \<lparr> gr_allowed = True, gr_reason = None, gr_assessment = a \<rparr>"

text \<open>What \<open>checkAddress\<close> decides on a screening result.\<close>

definition decide_address :: "int \<Rightarrow> string \<Rightarrow> string \<Rightarrow> rat \<Rightarrow> risk_result \<Rightarrow> gate_result" where
  "decide_address now address chain amount r =
     (let a = buildRiskAssessment now address chain (rk_score r) (rk_level r) (rk_flags r)
      in if SANCTIONED \<in> set (rk_flags r) then refuse OnSanctionsList a
         else if rk_level r = RISK_CRITICAL then refuse (CriticalAddress (rk_score r)) a
         else if rk_level r = RISK_HIGH \<and> amount > 50000 then refuse (HighRiskLargeAmount amount) a
         else allow a)"

definition checkAddress ::
    "'s scorer \<Rightarrow> int \<Rightarrow> gate \<Rightarrow> string \<Rightarrow> string \<Rightarrow> rat \<Rightarrow> 's \<Rightarrow> 's \<times> (screening_error + gate_result)" where
  "checkAddress sc now g address chain amount s =
     (if to_lower address \<in> set (g_blocked_addresses g)
      then (s, Inr (refuse ManuallyBlocked (buildBlockedAssessment now address chain)))
      else if chain \<in> set (g_blocked_chains g)
      then (s, Inr (refuse (ChainNotSupported chain) (buildBlockedAssessment now address chain)))
      else andThen (sc_screenAddress sc now address chain s)
             (\<lambda>s r. (s, Inr (decide_address now address chain amount r))))"

definition decide_transaction :: "int \<Rightarrow> tx_info \<Rightarrow> risk_result \<Rightarrow> gate_result" where
  "decide_transaction now tx r =
     (let a = buildRiskAssessment now (ti_from tx) (ti_chain tx) (rk_score r) (rk_level r) (rk_flags r)
      in if rk_level r = RISK_CRITICAL then refuse (CriticalTransaction (rk_score r)) a
         else if SANCTIONED \<in> set (rk_flags r) then refuse SourceOnSanctionsList a
         else if MIXER \<in> set (rk_flags r) \<or> DARKNET \<in> set (rk_flags r) then refuse SourceMixerOrDarknet a
         else allow a)"

definition checkTransaction :: "'s scorer \<Rightarrow> int \<Rightarrow> tx_info \<Rightarrow> 's \<Rightarrow> 's \<times> (screening_error + gate_result)" where
  "checkTransaction sc now tx s =
     andThen (sc_screenTransaction sc now tx s) (\<lambda>s r. (s, Inr (decide_transaction now tx r)))"

definition blockAddress :: "string \<Rightarrow> gate \<Rightarrow> gate" where
  "blockAddress a g = g\<lparr> g_blocked_addresses := js_set_add (to_lower a) (g_blocked_addresses g) \<rparr>"

definition unblockAddress :: "string \<Rightarrow> gate \<Rightarrow> gate" where
  "unblockAddress a g = g\<lparr> g_blocked_addresses := filter (\<lambda>x. x \<noteq> to_lower a) (g_blocked_addresses g) \<rparr>"

definition blockChain :: "string \<Rightarrow> gate \<Rightarrow> gate" where
  "blockChain c g = g\<lparr> g_blocked_chains := js_set_add c (g_blocked_chains g) \<rparr>"

definition unblockChain :: "string \<Rightarrow> gate \<Rightarrow> gate" where
  "unblockChain c g = g\<lparr> g_blocked_chains := filter (\<lambda>x. x \<noteq> c) (g_blocked_chains g) \<rparr>"

section \<open>The contract of a scorer\<close>

text \<open>
  While its invariant holds, a scorer gives scores between 0 and 100, derives the level from the
  score, and raises the alarm (level CRITICAL or flag SANCTIONED) for a forbidden set of addresses.
\<close>

definition alarming :: "risk_result \<Rightarrow> bool" where
  "alarming r = (rk_level r = RISK_CRITICAL \<or> SANCTIONED \<in> set (rk_flags r))"

locale risk_screening =
  fixes sc :: "'s scorer" and inv :: "'s \<Rightarrow> bool" and level_of :: "rat \<Rightarrow> risk_level"
    and forbidden :: "string \<Rightarrow> string \<Rightarrow> bool"
  assumes inv_address: "inv s \<Longrightarrow> inv (fst (sc_screenAddress sc now a c s))"
    and inv_transaction: "inv s \<Longrightarrow> inv (fst (sc_screenTransaction sc now tx s))"
    and address_score: "inv s \<Longrightarrow> sc_screenAddress sc now a c s = (s', Inr r)
        \<Longrightarrow> 0 \<le> rk_score r \<and> rk_score r \<le> 100 \<and> rk_level r = level_of (rk_score r)"
    and transaction_score: "inv s \<Longrightarrow> sc_screenTransaction sc now tx s = (s', Inr r)
        \<Longrightarrow> 0 \<le> rk_score r \<and> rk_score r \<le> 100 \<and> rk_level r = level_of (rk_score r)"
    and address_forbidden: "inv s \<Longrightarrow> forbidden a c \<Longrightarrow> sc_screenAddress sc now a c s = (s', Inr r)
        \<Longrightarrow> alarming r"
    and transaction_forbidden: "inv s \<Longrightarrow> forbidden (ti_from tx) (ti_chain tx)
        \<Longrightarrow> sc_screenTransaction sc now tx s = (s', Inr r) \<Longrightarrow> alarming r"
begin

lemma gate_inv:
  "inv s \<Longrightarrow> inv (fst (checkAddress sc now g a c amount s))"
  "inv s \<Longrightarrow> inv (fst (checkTransaction sc now tx s))"
  unfolding checkAddress_def checkTransaction_def
  using inv_address inv_transaction by (auto intro!: andThen_inv [where P = inv])

lemma address_allowed:
  assumes "inv s" "checkAddress sc now g a c amount s = (s', Inr d)" "gr_allowed d"
  shows "\<exists>score. ra_total_score (gr_assessment d) = score \<and> 0 \<le> score \<and> score \<le> 100
    \<and> level_of score \<noteq> RISK_CRITICAL \<and> (amount > 50000 \<longrightarrow> level_of score \<noteq> RISK_HIGH)
    \<and> \<not> forbidden a c"
proof -
  from assms(2,3) obtain r where r: "sc_screenAddress sc now a c s = (s', Inr r)"
    "d = decide_address now a c amount r"
    by (auto simp: checkAddress_def refuse_def andThen_def split: if_splits sum.splits prod.splits)
  note ok = address_score [OF assms(1) r(1)]
  have crit: "rk_level r \<noteq> RISK_CRITICAL" "\<not> alarming r"
    and high: "amount > 50000 \<Longrightarrow> rk_level r \<noteq> RISK_HIGH"
    and score: "ra_total_score (gr_assessment d) = rk_score r"
    using assms(3) unfolding r(2)
    by (auto simp: decide_address_def buildRiskAssessment_def refuse_def allow_def alarming_def Let_def split: if_splits)
  from crit address_forbidden [OF assms(1) _ r(1)] have "\<not> forbidden a c" by blast
  with ok crit high score show ?thesis by auto
qed

lemma transaction_allowed:
  assumes "inv s" "checkTransaction sc now tx s = (s', Inr d)" "gr_allowed d"
  shows "\<not> forbidden (ti_from tx) (ti_chain tx)
    \<and> level_of (ra_total_score (gr_assessment d)) \<noteq> RISK_CRITICAL"
proof -
  from assms(2,3) obtain r where r: "sc_screenTransaction sc now tx s = (s', Inr r)"
    "d = decide_transaction now tx r"
    by (auto simp: checkTransaction_def andThen_def split: sum.splits prod.splits)
  have crit: "rk_level r \<noteq> RISK_CRITICAL" "\<not> alarming r" and score: "ra_total_score (gr_assessment d) = rk_score r"
    using assms(3) unfolding r(2)
    by (auto simp: decide_transaction_def buildRiskAssessment_def refuse_def allow_def alarming_def Let_def split: if_splits)
  with transaction_score [OF assms(1) r(1)] transaction_forbidden [OF assms(1) _ r(1)] show ?thesis by auto
qed

end

section \<open>The basic scorer meets it\<close>

definition basic_scorer :: "risk_config \<Rightarrow> sanctions_provider option \<Rightarrow> risk_cache scorer" where
  "basic_scorer cfg provider =
     \<lparr> sc_screenAddress = (\<lambda>now a c s. case screenAddress cfg provider now a c s of (s', r) \<Rightarrow> (s', Inr r)),
       sc_screenTransaction = (\<lambda>now tx s. case screenTransaction cfg provider now tx s of (s', r) \<Rightarrow> (s', Inr r)) \<rparr>"

text \<open>A configuration with weights that are not negative, thresholds in order and reachable.\<close>

definition config_ok :: "risk_config \<Rightarrow> bool" where
  "config_ok cfg = (0 \<le> rc_wallet_age_weight cfg \<and> 0 \<le> rc_tx_count_weight cfg \<and> 0 \<le> rc_volume_weight cfg
     \<and> 0 \<le> rc_sanctions_weight cfg \<and> 30 \<le> rc_high_threshold cfg
     \<and> rc_high_threshold cfg \<le> rc_critical_threshold cfg \<and> rc_critical_threshold cfg \<le> 100)"

definition cache_ok :: "risk_config \<Rightarrow> sanctions_store \<Rightarrow> risk_cache \<Rightarrow> bool" where
  "cache_ok cfg st cache = (config_ok cfg
     \<and> (\<forall>(k, score, e) \<in> set cache. 0 \<le> score \<and> score \<le> 100 \<and> (k \<in> fst ` set st \<longrightarrow> score = 100)))"

lemma hash_scores:
  "20 \<le> estimateWalletAge a \<and> estimateWalletAge a \<le> 79"
  "10 \<le> estimateTxCount a \<and> estimateTxCount a \<le> 79"
  "20 \<le> estimateVolume a \<and> estimateVolume a \<le> 79"
proof -
  have mod: "(0::int) \<le> h mod n \<and> h mod n \<le> n - 1" if "0 < n" for h n :: int
    using pos_mod_bound [OF that, of h] pos_mod_sign [OF that, of h] by simp
  show "20 \<le> estimateWalletAge a \<and> estimateWalletAge a \<le> 79"
    using mod [of 60] by (simp add: estimateWalletAge_def)
  show "10 \<le> estimateTxCount a \<and> estimateTxCount a \<le> 79"
    using mod [of 70] by (simp add: estimateTxCount_def)
  show "20 \<le> estimateVolume a \<and> estimateVolume a \<le> 79"
    using mod [of 60] by (simp add: estimateVolume_def)
qed

lemma weighted_sums:
  assumes "\<forall>f \<in> set fs. 0 \<le> fa_weight f \<and> 0 \<le> fa_score f \<and> fa_score f \<le> 100"
    and "0 \<le> w" "0 \<le> sm" "sm \<le> 100 * w"
  shows "case fold (\<lambda>f (w, sm). (w + fa_weight f, sm + fa_score f * fa_weight f)) fs (w, sm) of
    (w', sm') \<Rightarrow> 0 \<le> w' \<and> 0 \<le> sm' \<and> sm' \<le> 100 * w'"
  using assms
proof (induction fs arbitrary: w sm)
  case (Cons f fs)
  have "fa_score f * fa_weight f \<le> 100 * fa_weight f" "0 \<le> fa_score f * fa_weight f"
    using Cons.prems(1) by (auto intro: mult_right_mono)
  then show ?case
    using Cons.prems Cons.IH [of "w + fa_weight f" "sm + fa_score f * fa_weight f"] by (simp add: algebra_simps)
qed simp

lemma calculateTotalScore_bounds:
  assumes "\<forall>f \<in> set fs. 0 \<le> fa_weight f \<and> 0 \<le> fa_score f \<and> fa_score f \<le> 100"
  shows "0 \<le> calculateTotalScore fs \<and> calculateTotalScore fs \<le> 100"
proof -
  obtain w sm where ws: "fold (\<lambda>f (w, sm). (w + fa_weight f, sm + fa_score f * fa_weight f)) fs (0, 0) = (w, sm)"
    by (rule prod.exhaust)
  with weighted_sums [OF assms, of 0 0] have b: "0 \<le> w" "0 \<le> sm" "sm \<le> 100 * w" by auto
  show ?thesis
  proof (cases "w = 0")
    case False
    with b have "0 \<le> sm / w * 100" "sm / w * 100 \<le> 10000" by (auto simp: field_simps)
    then have r: "0 \<le> js_round (sm / w * 100)" "js_round (sm / w * 100) \<le> 10000"
      using js_round_bounds [of 0 "sm / w * 100" 10000] by simp_all
    then have "(of_int (js_round (sm / w * 100)) :: rat) \<le> 10000" by linarith
    with r show ?thesis using ws False by (simp add: calculateTotalScore_def Let_def)
  qed (use ws in \<open>simp add: calculateTotalScore_def Let_def\<close>)
qed

lemma factor_bounds:
  assumes "config_ok cfg" "f \<in> set (calculateRiskFactors cfg provider a c)"
  shows "0 \<le> fa_weight f \<and> 0 \<le> fa_score f \<and> fa_score f \<le> 100"
proof -
  have snc: "fa_weight (sanctions_factor cfg x) = rc_sanctions_weight cfg
      \<and> 0 \<le> fa_score (sanctions_factor cfg x) \<and> fa_score (sanctions_factor cfg x) \<le> 100" for x
    by (simp add: sanctions_factor_def split: sum.splits option.splits)
  have est: "0 \<le> (of_int n :: rat) \<and> (of_int n :: rat) \<le> 100" if "0 \<le> n" "n \<le> 100" for n
    using that by simp
  have "(\<exists>x. f = sanctions_factor cfg x) \<or> 0 \<le> fa_weight f
      \<and> (\<exists>n \<in> {estimateWalletAge a, estimateTxCount a, estimateVolume a}. fa_score f = of_int n)"
    using assms by (auto simp: calculateRiskFactors_def config_ok_def split: option.splits)
  then have "(\<exists>x. f = sanctions_factor cfg x)
      \<or> (\<exists>n. 0 \<le> n \<and> n \<le> 100 \<and> fa_score f = of_int n \<and> 0 \<le> fa_weight f)"
    using hash_scores [of a] by fastforce
  then show ?thesis using snc est assms(1) by (auto simp: config_ok_def)
qed

lemma fresh_result_ok:
  assumes "config_ok cfg"
  shows "0 \<le> rk_score (fresh_result cfg provider now a c) \<and> rk_score (fresh_result cfg provider now a c) \<le> 100
    \<and> rk_level (fresh_result cfg provider now a c)
        = determineRiskLevel cfg (rk_score (fresh_result cfg provider now a c))"
  using calculateTotalScore_bounds [of "calculateRiskFactors cfg provider a c"] factor_bounds [OF assms]
  by (simp add: fresh_result_def Let_def)

lemma fresh_result_listed:
  "cache_key a c \<in> fst ` set st \<Longrightarrow> rk_score (fresh_result cfg (Some (checkSanctions st)) now a c) = 100"
proof -
  assume "cache_key a c \<in> fst ` set st"
  then obtain x where "map_of st (cache_key a c) = Some x"
    by (metis dom_map_of_conv_image_fst domD)
  then show ?thesis
    by (simp add: fresh_result_def Let_def calculateRiskFactors_def checkSanctions_def sanctions_factor_def)
qed

lemma screenAddress_cases:
  obtains (cached) score e where "map_of cache (cache_key a c) = Some (score, e)" "now < e"
      "screenAddress cfg p now a c cache = (cache, buildCachedResult cfg now a c score)"
  | (fresh) "screenAddress cfg p now a c cache
      = (js_map_set (cache_key a c) (rk_score (fresh_result cfg p now a c), rk_expires_at (fresh_result cfg p now a c)) cache,
         fresh_result cfg p now a c)"
proof (cases "\<exists>score e. map_of cache (cache_key a c) = Some (score, e) \<and> now < e")
  case True
  then show ?thesis using cached by (auto simp: screenAddress_def Let_def)
next
  case False
  then show ?thesis using fresh by (auto simp: screenAddress_def Let_def split: option.splits)
qed

lemma screenAddress_ok:
  assumes "cache_ok cfg st cache" "screenAddress cfg (Some (checkSanctions st)) now a c cache = (cache', r)"
  shows "cache_ok cfg st cache' \<and> 0 \<le> rk_score r \<and> rk_score r \<le> 100
    \<and> rk_level r = determineRiskLevel cfg (rk_score r)
    \<and> (cache_key a c \<in> fst ` set st \<longrightarrow> rk_score r = 100)"
proof (cases rule: screenAddress_cases [of cache a c now cfg "Some (checkSanctions st)"])
  case (cached score e)
  with assms map_of_SomeD [OF cached(1)] show ?thesis
    by (auto simp: cache_ok_def buildCachedResult_def)
next
  case fresh
  let ?r = "fresh_result cfg (Some (checkSanctions st)) now a c"
  have cfg: "config_ok cfg" using assms(1) by (simp add: cache_ok_def)
  have "cache_ok cfg st (js_map_set (cache_key a c) (rk_score ?r, rk_expires_at ?r) cache)"
    using assms(1) fresh_result_ok [OF cfg] fresh_result_listed unfolding cache_ok_def
    by (intro conjI js_map_set_ball) simp_all
  then show ?thesis
    using fresh assms(2) fresh_result_ok [OF cfg] fresh_result_listed by auto
qed

lemma determineRiskLevel_mono:
  assumes "config_ok cfg" "x \<le> y"
  shows "determineRiskLevel cfg x \<le> determineRiskLevel cfg y"
  using assms by (auto simp: determineRiskLevel_def config_ok_def less_eq_risk_level_def)

lemma level_100: "config_ok cfg \<Longrightarrow> determineRiskLevel cfg 100 = RISK_CRITICAL"
  by (simp add: determineRiskLevel_def config_ok_def)

lemma transaction_risk_nonneg: "0 \<le> fst (calculateTransactionRisk tx)"
  by (simp add: calculateTransactionRisk_def)

lemma screenTransaction_ok:
  assumes "cache_ok cfg st cache" "screenTransaction cfg (Some (checkSanctions st)) now tx cache = (cache', r)"
  shows "cache_ok cfg st cache' \<and> 0 \<le> rk_score r \<and> rk_score r \<le> 100
    \<and> rk_level r = determineRiskLevel cfg (rk_score r)
    \<and> (cache_key (ti_from tx) (ti_chain tx) \<in> fst ` set st \<longrightarrow> rk_score r = 100)"
proof -
  obtain c0 r0 where s: "screenAddress cfg (Some (checkSanctions st)) now (ti_from tx) (ti_chain tx) cache = (c0, r0)"
    by (rule prod.exhaust)
  from screenAddress_ok [OF assms(1) s] assms(2) transaction_risk_nonneg [of tx] show ?thesis
    unfolding screenTransaction_def s Let_def by (auto simp: min_def)
qed

text \<open>The forbidden addresses are those whose key is on the list.\<close>

definition listed :: "sanctions_store \<Rightarrow> string \<Rightarrow> string \<Rightarrow> bool" where
  "listed st a c = (cache_key a c \<in> fst ` set st)"

interpretation basic: risk_screening "basic_scorer cfg (Some (checkSanctions st))" "cache_ok cfg st"
  "determineRiskLevel cfg" "listed st" for cfg st
proof
  fix s now a c
  assume "cache_ok cfg st s"
  then show "cache_ok cfg st (fst (sc_screenAddress (basic_scorer cfg (Some (checkSanctions st))) now a c s))"
    using screenAddress_ok by (auto simp: basic_scorer_def split: prod.splits)
next
  fix s now tx
  assume "cache_ok cfg st s"
  then show "cache_ok cfg st (fst (sc_screenTransaction (basic_scorer cfg (Some (checkSanctions st))) now tx s))"
    using screenTransaction_ok by (auto simp: basic_scorer_def split: prod.splits)
next
  fix s s' now a c r
  assume ok: "cache_ok cfg st s" and "sc_screenAddress (basic_scorer cfg (Some (checkSanctions st))) now a c s = (s', Inr r)"
  then have scr: "screenAddress cfg (Some (checkSanctions st)) now a c s = (s', r)"
    by (auto simp: basic_scorer_def split: prod.splits)
  note res = screenAddress_ok [OF ok scr]
  show "0 \<le> rk_score r \<and> rk_score r \<le> 100 \<and> rk_level r = determineRiskLevel cfg (rk_score r)" using res by simp
  show "alarming r" if "listed st a c"
    using that res ok level_100 by (auto simp: listed_def cache_ok_def alarming_def)
next
  fix s s' now tx r
  assume ok: "cache_ok cfg st s" and "sc_screenTransaction (basic_scorer cfg (Some (checkSanctions st))) now tx s = (s', Inr r)"
  then have scr: "screenTransaction cfg (Some (checkSanctions st)) now tx s = (s', r)"
    by (auto simp: basic_scorer_def split: prod.splits)
  note res = screenTransaction_ok [OF ok scr]
  show "0 \<le> rk_score r \<and> rk_score r \<le> 100 \<and> rk_level r = determineRiskLevel cfg (rk_score r)" using res by simp
  show "alarming r" if "listed st (ti_from tx) (ti_chain tx)"
    using that res ok level_100 by (auto simp: listed_def cache_ok_def alarming_def)
qed

section \<open>Any sequence of checks\<close>

datatype gate_op =
    GO_address int gate string string rat
  | GO_transaction int tx_info

fun gate_step :: "'s scorer \<Rightarrow> gate_op \<Rightarrow> 's \<Rightarrow> 's" where
  "gate_step sc (GO_address now g a c amount) s = fst (checkAddress sc now g a c amount s)"
| "gate_step sc (GO_transaction now tx) s = fst (checkTransaction sc now tx s)"

interpretation gate_machine: op_machine "gate_step (basic_scorer cfg (Some (checkSanctions st)))" "cache_ok cfg st"
  for cfg st
proof
  fix s op
  assume "cache_ok cfg st s"
  then show "cache_ok cfg st (gate_step (basic_scorer cfg (Some (checkSanctions st))) op s)"
    using basic.gate_inv by (cases op) auto
qed

lemma cache_ok_run:
  "config_ok cfg \<Longrightarrow> cache_ok cfg st (fold (gate_step (basic_scorer cfg (Some (checkSanctions st)))) ops [])"
  by (rule gate_machine.inv_run) (simp add: cache_ok_def)

lemma listed_sanctions_new:
  assumes "x \<in> set entries" "to_lower a = to_lower (sn_address x)"
  shows "listed (sanctions_new entries) a (sn_chain x)"
proof -
  have keys: "fst ` set (fold addEntry xs st) = (\<lambda>x. cache_key (sn_address x) (sn_chain x)) ` set xs \<union> fst ` set st"
    for xs st
    by (induction xs arbitrary: st) (auto simp: addEntry_def fst_js_map_set)
  have "cache_key a (sn_chain x) = cache_key (sn_address x) (sn_chain x)"
    using assms(2) by (simp add: cache_key_def)
  then show ?thesis using assms(1) by (simp add: listed_def sanctions_new_def keys)
qed

lemma basic_never_throws:
  "\<exists>d. snd (checkAddress (basic_scorer cfg p) now g a c amount s) = Inr d"
  "\<exists>d. snd (checkTransaction (basic_scorer cfg p) now tx s) = Inr d"
  by (auto simp: checkAddress_def checkTransaction_def basic_scorer_def split: prod.splits)

section \<open>Properties\<close>

text \<open>C9: An address on the sanctions list never passes: after any sequence of checks, at any time,
  with any spelling of the address, neither an address check nor a check of a transaction it sends
  is allowed, also when the answer comes from the cache of the scorer.\<close>

theorem sanctioned_never_allowed:
  fixes cfg and entries :: "sanctions_entry list"
  defines "sc \<equiv> basic_scorer cfg (Some (checkSanctions (sanctions_new entries)))"
  assumes "config_ok cfg" "x \<in> set entries" "to_lower (ti_from tx) = to_lower (sn_address x)" "ti_chain tx = sn_chain x"
  shows "(\<exists>d. snd (checkAddress sc now g (ti_from tx) (ti_chain tx) amount (fold (gate_step sc) ops [])) = Inr d
        \<and> \<not> gr_allowed d)
    \<and> (\<exists>d. snd (checkTransaction sc now tx (fold (gate_step sc) ops [])) = Inr d \<and> \<not> gr_allowed d)"
proof -
  let ?s = "fold (gate_step sc) ops []"
  have ok: "cache_ok cfg (sanctions_new entries) ?s"
    unfolding sc_def by (rule cache_ok_run [OF assms(2)])
  have bad: "listed (sanctions_new entries) (ti_from tx) (ti_chain tx)"
    unfolding assms(5) by (rule listed_sanctions_new [OF assms(3,4)])
  from basic_never_throws(1) obtain d where
    d: "snd (checkAddress sc now g (ti_from tx) (ti_chain tx) amount ?s) = Inr d" unfolding sc_def by blast
  from basic_never_throws(2) obtain d' where
    d': "snd (checkTransaction sc now tx ?s) = Inr d'" unfolding sc_def by blast
  from basic.address_allowed [OF ok, folded sc_def] d bad have "\<not> gr_allowed d"
    by (metis prod.collapse)
  moreover from basic.transaction_allowed [OF ok, folded sc_def] d' bad have "\<not> gr_allowed d'"
    by (metis prod.collapse)
  ultimately show ?thesis using d d' by blast
qed

theorem sanctioned_never_allowed_witness:
  "\<exists>d. snd (checkTransaction (basic_scorer DEFAULT_RISK_CONFIG (Some (checkSanctions (sanctions_new
      [\<lparr> sn_address = ''0xAB'', sn_chain = ''eth'', sn_list_name = ''OFAC'', sn_entity_name = ''E'',
         sn_added_at = 0, sn_reason = ''r'' \<rparr>])))) 7
      \<lparr> ti_from = ''0xab'', ti_to = ''t'', ti_amount = 5, ti_asset = ''ETH'', ti_chain = ''eth'', ti_timestamp = 7 \<rparr> [])
    = Inr d \<and> \<not> gr_allowed d"
proof -
  let ?x = "\<lparr> sn_address = ''0xAB'', sn_chain = ''eth'', sn_list_name = ''OFAC'', sn_entity_name = ''E'',
    sn_added_at = 0, sn_reason = ''r'' \<rparr>"
  let ?tx = "\<lparr> ti_from = ''0xab'', ti_to = ''t'', ti_amount = 5, ti_asset = ''ETH'', ti_chain = ''eth'', ti_timestamp = 7 \<rparr>"
  have cfg: "config_ok DEFAULT_RISK_CONFIG" by (simp add: config_ok_def DEFAULT_RISK_CONFIG_def)
  have low: "to_lower (ti_from ?tx) = to_lower (sn_address ?x)" by code_simp
  have eth: "ti_chain ?tx = sn_chain ?x" by simp
  have mem: "?x \<in> set [?x]" by simp
  from sanctioned_never_allowed [OF cfg mem low eth, of 7 _ _ "[]"] show ?thesis by simp
qed

text \<open>After any sequence of checks, an address check that is allowed had a score between 0 and
  100 below the CRITICAL threshold, and below the HIGH threshold when the amount is above 50000.\<close>

theorem allowed_means_low_risk:
  assumes "config_ok cfg"
    and "s = fold (gate_step (basic_scorer cfg (Some (checkSanctions st)))) ops []"
    and "snd (checkAddress (basic_scorer cfg (Some (checkSanctions st))) now g a c amount s) = Inr d" "gr_allowed d"
  shows "0 \<le> ra_total_score (gr_assessment d) \<and> ra_total_score (gr_assessment d) < rc_critical_threshold cfg
    \<and> (ra_total_score (gr_assessment d) < rc_high_threshold cfg \<or> amount \<le> 50000)"
proof -
  have "cache_ok cfg st s" unfolding assms(2) by (rule cache_ok_run [OF assms(1)])
  moreover obtain s' where
    "checkAddress (basic_scorer cfg (Some (checkSanctions st))) now g a c amount s = (s', Inr d)"
    using assms(3) by (metis prod.collapse)
  ultimately obtain score where sc: "ra_total_score (gr_assessment d) = score" "0 \<le> score"
    "determineRiskLevel cfg score \<noteq> RISK_CRITICAL"
    "amount > 50000 \<longrightarrow> determineRiskLevel cfg score \<noteq> RISK_HIGH"
    using basic.address_allowed [OF _ _ assms(4)] by blast
  then show ?thesis by (auto simp: determineRiskLevel_def not_le not_less split: if_splits)
qed

lemma example_estimates:
  "estimateWalletAge ''a'' = 57" "estimateTxCount ''a'' = 10" "estimateVolume ''a'' = 55"
  by (simp_all add: estimateWalletAge_def estimateTxCount_def estimateVolume_def simpleHash_def hash_step_def)

theorem allowed_means_low_risk_witness:
  "0 \<le> ra_total_score (gr_assessment (allow (buildRiskAssessment 7 ''a'' ''eth'' (2440/100) RISK_LOW [])))
    \<and> ra_total_score (gr_assessment (allow (buildRiskAssessment 7 ''a'' ''eth'' (2440/100) RISK_LOW []))) < 80"
proof -
  have "snd (checkAddress (basic_scorer DEFAULT_RISK_CONFIG (Some (checkSanctions [])))
      7 \<lparr> g_blocked_addresses = [], g_blocked_chains = [] \<rparr> ''a'' ''eth'' 100
      (fold (gate_step (basic_scorer DEFAULT_RISK_CONFIG (Some (checkSanctions [])))) [] []))
    = Inr (allow (buildRiskAssessment 7 ''a'' ''eth'' (2440/100) RISK_LOW []))"
    by (simp add: checkAddress_def basic_scorer_def screenAddress_def fresh_result_def Let_def
        calculateRiskFactors_def sanctions_factor_def checkSanctions_def calculateTotalScore_def
        example_estimates DEFAULT_RISK_CONFIG_def js_round_def extractFlags_def determineRiskLevel_def
        decide_address_def)
  from allowed_means_low_risk [OF _ refl this] show ?thesis
    by (simp add: config_ok_def DEFAULT_RISK_CONFIG_def allow_def)
qed

text \<open>When the sanctions provider rejects, the gate decides as if the address had no match, and the
  result is cached: until it expires no later answer of the provider is asked for.\<close>

theorem sanctions_outage_fails_open:
  assumes "p a c = Inl ()"
    and "s' = fst (checkAddress (basic_scorer cfg (Some p)) now g a c amount s)"
    and "map_of s (cache_key a c) = None" "now' < expiry cfg now"
    and "to_lower a \<notin> set (g_blocked_addresses g)" "c \<notin> set (g_blocked_chains g)"
  shows "checkAddress (basic_scorer cfg (Some p)) now g a c amount s
      = checkAddress (basic_scorer cfg (Some (\<lambda>_ _. Inr None))) now g a c amount s
    \<and> checkAddress (basic_scorer cfg (Some p')) now' g' a c amount' s'
      = checkAddress (basic_scorer cfg None) now' g' a c amount' s'"
proof -
  let ?n = "\<lambda>_ _. Inr None"
  let ?F = "fresh_result cfg (Some p) now a c"
  have "calculateTotalScore (calculateRiskFactors cfg (Some p) a c) = calculateTotalScore (calculateRiskFactors cfg (Some ?n) a c)"
    "extractFlags (calculateRiskFactors cfg (Some p) a c) = extractFlags (calculateRiskFactors cfg (Some ?n) a c)"
    using assms(1)
    by (simp_all add: calculateTotalScore_def extractFlags_def calculateRiskFactors_def sanctions_factor_def)
  then have same: "?F = fresh_result cfg (Some ?n) now a c"
    using assms(1)
    by (simp add: fresh_result_def Let_def calculateRiskFactors_def sanctions_factor_def factor_score_def)
  have ex: "rk_expires_at ?F = expiry cfg now" by (simp add: fresh_result_def Let_def)
  have "s' = js_map_set (cache_key a c) (rk_score ?F, expiry cfg now) s"
    using assms(2,3,5,6) ex by (simp add: checkAddress_def basic_scorer_def screenAddress_def Let_def)
  then have "screenAddress cfg q now' a c s' = (s', buildCachedResult cfg now' a c (rk_score ?F))" for q
    using assms(4) by (simp add: screenAddress_def Let_def)
  then have "checkAddress (basic_scorer cfg (Some p')) now' g' a c amount' s'
      = checkAddress (basic_scorer cfg None) now' g' a c amount' s'"
    by (simp add: checkAddress_def basic_scorer_def)
  moreover have "screenAddress cfg (Some p) now a c s = screenAddress cfg (Some ?n) now a c s"
    using assms(3) same by (simp add: screenAddress_def)
  ultimately show ?thesis by (simp add: checkAddress_def basic_scorer_def)
qed

theorem sanctions_outage_fails_open_witness:
  "checkAddress (basic_scorer DEFAULT_RISK_CONFIG (Some (\<lambda>_ _. Inl ()))) 7
      \<lparr> g_blocked_addresses = [], g_blocked_chains = [] \<rparr> ''a'' ''eth'' 100 []
    = checkAddress (basic_scorer DEFAULT_RISK_CONFIG (Some (\<lambda>_ _. Inr None))) 7
      \<lparr> g_blocked_addresses = [], g_blocked_chains = [] \<rparr> ''a'' ''eth'' 100 []"
  using sanctions_outage_fails_open [of "\<lambda>_ _. Inl ()" "''a''" "''eth''" _ DEFAULT_RISK_CONFIG 7
      "\<lparr> g_blocked_addresses = [], g_blocked_chains = [] \<rparr>" 100 "[]" 8]
  by (simp add: expiry_def DEFAULT_RISK_CONFIG_def js_trunc_def)

end
