(* ===== verification/Velocity_Checker.thy ===== *)
theory Velocity_Checker
  imports Risk_Scorer
begin

text \<open>
  \<open>VelocityChecker\<close> (\<open>packages/compliance/src/velocity-checker.ts\<close>): per address and chain the
  transactions of a sliding window.
\<close>

record velocity_config =
  vc_duration_ms :: int
  vc_max_transactions :: nat
  vc_max_amount :: rat

definition DEFAULT_VELOCITY_CONFIG :: velocity_config where
  "DEFAULT_VELOCITY_CONFIG = \<lparr> vc_duration_ms = 60 * 60 * 1000, vc_max_transactions = 20, vc_max_amount = 100000 \<rparr>"

record transaction_record =
  tr_amount :: rat
  tr_timestamp :: int

text \<open>A score is a number, \<open>NaN\<close> when 0 is divided by a maximum of 0, or minus infinity when a negative total is.\<close>

datatype velocity_number = VNum rat | VMinusInfinity | VNaN

definition v_add :: "velocity_number \<Rightarrow> velocity_number \<Rightarrow> velocity_number" where
  "v_add a b = (case (a, b) of (VNum x, VNum y) \<Rightarrow> VNum (x + y)
     | (VNaN, _) \<Rightarrow> VNaN | (_, VNaN) \<Rightarrow> VNaN | _ \<Rightarrow> VMinusInfinity)"

text \<open>No time since the last transaction stands for \<open>Infinity\<close>.\<close>

record velocity_result =
  vr_exceeded :: bool
  vr_score :: velocity_number
  vr_flags :: "risk_flag list"
  vr_transaction_count :: nat
  vr_total_amount :: rat
  vr_average_amount :: rat
  vr_time_since_last :: "int option"
  vr_window_duration :: int

type_synonym velocity_windows = "(string \<times> transaction_record list) list"

definition getWindowRecords :: "velocity_windows \<Rightarrow> string \<Rightarrow> transaction_record list" where
  "getWindowRecords ws key = (case map_of ws key of None \<Rightarrow> [] | Some rs \<Rightarrow> rs)"

text \<open>\<open>Math.min(cap, x / m * cap)\<close>.\<close>

definition capped_share :: "rat \<Rightarrow> rat \<Rightarrow> rat \<Rightarrow> velocity_number" where
  "capped_share cap x m = (if m = 0 then (if x = 0 then VNaN else if 0 < x then VNum cap else VMinusInfinity)
     else VNum (min cap (x / m * cap)))"

definition below :: "int option \<Rightarrow> int \<Rightarrow> bool" where
  "below t limit = (case t of None \<Rightarrow> False | Some d \<Rightarrow> d < limit)"

definition calculateVelocityScore :: "velocity_config \<Rightarrow> nat \<Rightarrow> rat \<Rightarrow> rat \<Rightarrow> int option \<Rightarrow> velocity_number" where
  "calculateVelocityScore cfg count totalAmount average sinceLast =
     (let countScore = capped_share 30 (of_nat count) (of_nat (vc_max_transactions cfg));
          amountScore = capped_share 30 totalAmount (vc_max_amount cfg);
          avgScore = capped_share 20 average 10000;
          rapid = VNum (if below sinceLast 60000 then 20 else if below sinceLast 300000 then 10 else 0)
      in case v_add (v_add (v_add countScore amountScore) avgScore) rapid of
           VNum score \<Rightarrow> VNum (min 100 (of_int (js_round score)))
         | v \<Rightarrow> v)"

definition determineFlags :: "velocity_config \<Rightarrow> nat \<Rightarrow> rat \<Rightarrow> int option \<Rightarrow> risk_flag list" where
  "determineFlags cfg count average sinceLast =
     (if of_nat count > (of_nat (vc_max_transactions cfg) * (8 / 10) :: rat) then [VELOCITY_ANOMALY] else [])
     @ (if count > 5 \<and> average > 9000 \<and> average < 10000 then [VELOCITY_ANOMALY] else [])
     @ (if below sinceLast 60000 \<and> count > 3 then [VELOCITY_ANOMALY] else [])"

definition time_since_last :: "transaction_record list \<Rightarrow> int option" where
  "time_since_last rs =
     (case order_desc tr_timestamp rs of a # b # _ \<Rightarrow> Some (tr_timestamp a - tr_timestamp b) | _ \<Rightarrow> None)"

definition velocity_key :: "tx_info \<Rightarrow> string" where
  "velocity_key tx = to_lower (ti_from tx) @ '':'' @ ti_chain tx"

definition checkVelocity ::
    "velocity_config \<Rightarrow> int \<Rightarrow> tx_info \<Rightarrow> velocity_windows \<Rightarrow> velocity_windows \<times> velocity_result" where
  "checkVelocity cfg now tx ws =
     (let key = velocity_key tx;
          records = getWindowRecords ws key @ [\<lparr> tr_amount = ti_amount tx, tr_timestamp = ti_timestamp tx \<rparr>];
          valid = filter (\<lambda>r. now - tr_timestamp r \<le> vc_duration_ms cfg) records;
          count = length valid;
          totalAmount = sum_list (map tr_amount valid);
          average = (if count > 0 then totalAmount / of_nat count else 0);
          sinceLast = time_since_last valid
      in (js_map_set key valid ws,
          \<lparr> vr_exceeded = (count > vc_max_transactions cfg \<or> totalAmount > vc_max_amount cfg),
            vr_score = calculateVelocityScore cfg count totalAmount average sinceLast,
            vr_flags = determineFlags cfg count average sinceLast,
            vr_transaction_count = count, vr_total_amount = totalAmount, vr_average_amount = average,
            vr_time_since_last = sinceLast, vr_window_duration = vc_duration_ms cfg \<rparr>))"

definition getHistory :: "velocity_windows \<Rightarrow> string \<Rightarrow> string \<Rightarrow> transaction_record list" where
  "getHistory ws address chain = getWindowRecords ws (to_lower address @ '':'' @ chain)"

definition clearHistory :: "string \<Rightarrow> string \<Rightarrow> velocity_windows \<Rightarrow> velocity_windows" where
  "clearHistory address chain ws = js_map_delete (to_lower address @ '':'' @ chain) ws"

section \<open>The window is the recent history\<close>

text \<open>The transactions of a history of checks that fall in the window of an address at an instant.\<close>

definition recent :: "velocity_config \<Rightarrow> int \<Rightarrow> string \<Rightarrow> (int \<times> tx_info) list \<Rightarrow> transaction_record list" where
  "recent cfg now key hist = map (\<lambda>(_, tx). \<lparr> tr_amount = ti_amount tx, tr_timestamp = ti_timestamp tx \<rparr>)
     (filter (\<lambda>(_, tx). velocity_key tx = key \<and> now - ti_timestamp tx \<le> vc_duration_ms cfg) hist)"

definition velocity_run :: "velocity_config \<Rightarrow> (int \<times> tx_info) list \<Rightarrow> velocity_windows" where
  "velocity_run cfg hist = fold (\<lambda>(now, tx) ws. fst (checkVelocity cfg now tx ws)) hist []"

lemma checkVelocity_window:
  "getWindowRecords (fst (checkVelocity cfg now tx ws)) k
     = (if k = velocity_key tx
        then filter (\<lambda>r. now - tr_timestamp r \<le> vc_duration_ms cfg)
               (getWindowRecords ws k @ [\<lparr> tr_amount = ti_amount tx, tr_timestamp = ti_timestamp tx \<rparr>])
        else getWindowRecords ws k)"
  by (simp add: checkVelocity_def Let_def getWindowRecords_def)

lemma recent_append: "recent cfg now k (hist @ [(t, tx)]) = recent cfg now k hist @
    (if velocity_key tx = k \<and> now - ti_timestamp tx \<le> vc_duration_ms cfg
     then [\<lparr> tr_amount = ti_amount tx, tr_timestamp = ti_timestamp tx \<rparr>] else [])"
  by (simp add: recent_def)

lemma recent_filter:
  assumes "now \<le> later"
  shows "filter (\<lambda>r. later - tr_timestamp r \<le> vc_duration_ms cfg) (recent cfg now k hist) = recent cfg later k hist"
  using assms by (induction hist) (auto simp: recent_def)

text \<open>A stored window filtered at a later instant is the recent history at that instant.\<close>

lemma window_recent:
  assumes "sorted (map fst hist)" "\<forall>(t, _) \<in> set hist. t \<le> now"
  shows "filter (\<lambda>r. now - tr_timestamp r \<le> vc_duration_ms cfg) (getWindowRecords (velocity_run cfg hist) k)
    = recent cfg now k hist"
  using assms
proof (induction hist arbitrary: now rule: rev_induct)
  case Nil
  then show ?case by (simp add: velocity_run_def getWindowRecords_def recent_def)
next
  case (snoc c hist)
  obtain t tx where c: "c = (t, tx)" by (cases c)
  have sorted: "sorted (map fst hist)" and upto: "\<forall>(t', _) \<in> set hist. t' \<le> t" and t: "t \<le> now"
    using snoc.prems by (auto simp: c sorted_append)
  have below: "\<forall>(t', _) \<in> set hist. t' \<le> now" using upto t by auto
  have run: "velocity_run cfg (hist @ [c]) = fst (checkVelocity cfg t tx (velocity_run cfg hist))"
    by (simp add: velocity_run_def c)
  show ?case
  proof (cases "k = velocity_key tx")
    case True
    have "getWindowRecords (velocity_run cfg (hist @ [c])) k = recent cfg t k (hist @ [c])"
      unfolding run checkVelocity_window unfolding c recent_append using snoc.IH [OF sorted upto] True by simp
    then show ?thesis by (simp only: recent_filter [OF t])
  next
    case False
    then show ?thesis
      unfolding run checkVelocity_window unfolding c recent_append using snoc.IH [OF sorted below] by simp
  qed
qed

text \<open>A share is no number only where a maximum is 0.\<close>

lemma capped_share_values:
  "capped_share cap x m = VNaN \<longleftrightarrow> m = 0 \<and> x = 0"
  "capped_share cap x m = VMinusInfinity \<longleftrightarrow> m = 0 \<and> x < 0"
  by (simp_all add: capped_share_def)

lemma v_add_cases:
  "v_add a b = VNaN \<longleftrightarrow> a = VNaN \<or> b = VNaN"
  "v_add a b = VMinusInfinity \<longleftrightarrow> a \<noteq> VNaN \<and> b \<noteq> VNaN \<and> (a = VMinusInfinity \<or> b = VMinusInfinity)"
  by (cases a; cases b; simp add: v_add_def)+

lemma calculateVelocityScore_cases:
  "case calculateVelocityScore cfg n sum_amount average sinceLast of
     VNum s \<Rightarrow> s \<le> 100
   | VMinusInfinity \<Rightarrow> vc_max_amount cfg = 0 \<and> sum_amount < 0
   | VNaN \<Rightarrow> vc_max_amount cfg = 0 \<and> sum_amount = 0 \<or> vc_max_transactions cfg = 0 \<and> n = 0"
proof -
  define raw where "raw = v_add (v_add (v_add (capped_share 30 (of_nat n) (of_nat (vc_max_transactions cfg)))
      (capped_share 30 sum_amount (vc_max_amount cfg))) (capped_share 20 average 10000))
    (VNum (if below sinceLast 60000 then 20 else if below sinceLast 300000 then 10 else 0))"
  have score: "calculateVelocityScore cfg n sum_amount average sinceLast =
      (case raw of VNum s \<Rightarrow> VNum (min 100 (of_int (js_round s))) | v \<Rightarrow> v)"
    by (simp add: calculateVelocityScore_def raw_def Let_def)
  have nan: "raw = VNaN \<Longrightarrow> vc_max_amount cfg = 0 \<and> sum_amount = 0 \<or> vc_max_transactions cfg = 0 \<and> n = 0"
    by (auto simp only: raw_def v_add_cases capped_share_values of_nat_eq_0_iff velocity_number.distinct)
  have minus: "raw = VMinusInfinity \<Longrightarrow> vc_max_amount cfg = 0 \<and> sum_amount < 0"
    by (auto simp only: raw_def v_add_cases capped_share_values of_nat_less_0_iff velocity_number.distinct)
  show ?thesis
    unfolding score using nan minus by (cases raw) simp_all
qed

lemma checkVelocity_result:
  assumes "v = filter (\<lambda>r. now - tr_timestamp r \<le> vc_duration_ms cfg)
      (getWindowRecords ws (velocity_key tx) @ [\<lparr> tr_amount = ti_amount tx, tr_timestamp = ti_timestamp tx \<rparr>])"
  shows "vr_transaction_count (snd (checkVelocity cfg now tx ws)) = length v"
    "vr_total_amount (snd (checkVelocity cfg now tx ws)) = sum_list (map tr_amount v)"
    "vr_exceeded (snd (checkVelocity cfg now tx ws))
      \<longleftrightarrow> vc_max_transactions cfg < length v \<or> vc_max_amount cfg < sum_list (map tr_amount v)"
    "vr_score (snd (checkVelocity cfg now tx ws)) = calculateVelocityScore cfg (length v) (sum_list (map tr_amount v))
       (if length v > 0 then sum_list (map tr_amount v) / of_nat (length v) else 0) (time_since_last v)"
  unfolding checkVelocity_def Let_def assms by simp_all

text \<open>C22: After any sequence of checks at instants that do not go back, a check counts and sums exactly the
  transactions of that address and chain (this one included) that are not older than the window, and
  it is exceeded exactly when they are more than the maximal number or amount.  Its score is at most 100, and a
  number unless a maximum is configured as 0.\<close>

theorem velocity_sliding_window:
  assumes "sorted (map fst hist)" "\<forall>(t, _) \<in> set hist. t \<le> now"
    and "snd (checkVelocity cfg now tx (velocity_run cfg hist)) = r"
  shows "vr_transaction_count r = length (recent cfg now (velocity_key tx) (hist @ [(now, tx)]))
    \<and> vr_total_amount r = sum_list (map tr_amount (recent cfg now (velocity_key tx) (hist @ [(now, tx)])))
    \<and> (vr_exceeded r \<longleftrightarrow> vc_max_transactions cfg < length (recent cfg now (velocity_key tx) (hist @ [(now, tx)]))
        \<or> vc_max_amount cfg < sum_list (map tr_amount (recent cfg now (velocity_key tx) (hist @ [(now, tx)]))))
    \<and> (case vr_score r of
          VNum s \<Rightarrow> s \<le> 100
        | VMinusInfinity \<Rightarrow> vc_max_amount cfg = 0 \<and> vr_total_amount r < 0
        | VNaN \<Rightarrow> vc_max_amount cfg = 0 \<and> vr_total_amount r = 0 \<or> vc_max_transactions cfg = 0 \<and> vr_transaction_count r = 0)"
proof -
  have valid: "filter (\<lambda>r. now - tr_timestamp r \<le> vc_duration_ms cfg)
      (getWindowRecords (velocity_run cfg hist) (velocity_key tx)
        @ [\<lparr> tr_amount = ti_amount tx, tr_timestamp = ti_timestamp tx \<rparr>])
    = recent cfg now (velocity_key tx) (hist @ [(now, tx)])"
    using window_recent [OF assms(1,2)] by (simp add: recent_append)
  note result = checkVelocity_result [OF valid [symmetric]]
  show ?thesis
    unfolding assms(3) [symmetric] result
    using calculateVelocityScore_cases by (intro conjI refl) (auto split: velocity_number.splits)
qed

definition demo_tx :: "rat \<Rightarrow> int \<Rightarrow> tx_info" where
  "demo_tx amount t = \<lparr> ti_from = ''0xA'', ti_to = ''b'', ti_amount = amount, ti_asset = ''ETH'', ti_chain = ''eth'',
     ti_timestamp = t \<rparr>"

theorem velocity_sliding_window_witness:
  "vr_total_amount (snd (checkVelocity DEFAULT_VELOCITY_CONFIG 3700000 (demo_tx 5 3700000)
      (velocity_run DEFAULT_VELOCITY_CONFIG [(10, demo_tx 70 10), (200000, demo_tx 30 200000)]))) = 35"
proof -
  let ?h = "[(10 :: int, demo_tx 70 10), (200000, demo_tx 30 200000)]"
  have "sorted (map fst ?h)" "\<forall>(t, _) \<in> set ?h. t \<le> (3700000 :: int)" by simp_all
  from velocity_sliding_window [OF this refl, of DEFAULT_VELOCITY_CONFIG "demo_tx 5 3700000"] show ?thesis
    by (simp add: recent_def demo_tx_def velocity_key_def DEFAULT_VELOCITY_CONFIG_def)
qed

end
