(* ===== verification/Compliance_Orchestrator.thy ===== *)
theory Compliance_Orchestrator
  imports Compliance_Gate Velocity_Checker
begin

text \<open>
  \<open>ComplianceOrchestrator\<close> (\<open>packages/compliance/src/compliance-orchestrator.ts\<close>): the three
  screening points, each a risk scoring by any \<open>IRiskScorer\<close>, a velocity check, a decision and
  an entry of the audit log.
\<close>

record compliance_config =
  cf_auto_block_threshold :: rat
  cf_review_threshold :: rat
  cf_enable_velocity :: bool
  cf_velocity_window_ms :: int
  cf_velocity_max_transactions :: nat
  cf_velocity_max_amount :: rat

definition DEFAULT_CONFIG :: compliance_config where
  "DEFAULT_CONFIG = \<lparr> cf_auto_block_threshold = 90, cf_review_threshold = 70, cf_enable_velocity = True,
     cf_velocity_window_ms = 60 * 60 * 1000, cf_velocity_max_transactions = 20, cf_velocity_max_amount = 100000 \<rparr>"

definition velocity_of :: "compliance_config \<Rightarrow> velocity_config" where
  "velocity_of cfg = \<lparr> vc_duration_ms = cf_velocity_window_ms cfg,
     vc_max_transactions = cf_velocity_max_transactions cfg, vc_max_amount = cf_velocity_max_amount cfg \<rparr>"

datatype audit_decision = AD_ALLOW | AD_BLOCK | AD_REVIEW

text \<open>No level stands for the text UNKNOWN.\<close>

record audit_entry =
  ae_id :: string
  ae_intent_id :: string
  ae_address :: string
  ae_chain :: string
  ae_action :: string
  ae_decision :: audit_decision
  ae_risk_score :: rat
  ae_risk_level :: "risk_level option"
  ae_flags :: "risk_flag list"
  ae_details :: payload
  ae_timestamp :: int

text \<open>The reason of a decision, with the numbers or the error text it shows.\<close>

datatype block_reason =
    SanctionsListed
  | CriticalRiskLevel rat
  | HighRiskLarge rat
  | VelocityLimitExceeded
  | RequiresManualReview
  | ScreeningDown string string

record compliance_result =
  cr_intent_id :: string
  cr_source_risk :: "risk_result option"
  cr_destination_risk :: "risk_result option"
  cr_kyc_required :: bool
  cr_kyc_verified :: bool
  cr_blocked :: bool
  cr_block_reason :: "block_reason option"
  cr_screened_at :: int

record 's orchestrator =
  oc_scorer :: 's
  oc_velocity :: velocity_windows
  oc_log :: "audit_entry list"

section \<open>Decision and log\<close>

definition makeDecision ::
    "compliance_config \<Rightarrow> risk_result \<Rightarrow> velocity_result option \<Rightarrow> rat \<Rightarrow> bool \<times> block_reason option" where
  "makeDecision cfg risk velocity amount =
     (if SANCTIONED \<in> set (rk_flags risk) then (True, Some SanctionsListed)
      else if rk_level risk = RISK_CRITICAL then (True, Some (CriticalRiskLevel (rk_score risk)))
      else if rk_level risk = RISK_HIGH \<and> amount > 50000 then (True, Some (HighRiskLarge amount))
      else if (case velocity of None \<Rightarrow> False | Some v \<Rightarrow> vr_exceeded v) then (True, Some VelocityLimitExceeded)
      else if cf_review_threshold cfg \<le> rk_score risk then (False, Some RequiresManualReview)
      else (False, None))"

text \<open>Appends an entry; its identifier (\<open>audit-\<close> with the time and a random text) is a parameter.\<close>

definition logAuditEntry ::
    "string \<Rightarrow> int \<Rightarrow> string \<Rightarrow> string \<Rightarrow> string \<Rightarrow> string \<Rightarrow> audit_decision \<Rightarrow> rat \<Rightarrow> risk_level option
       \<Rightarrow> risk_flag list \<Rightarrow> payload \<Rightarrow> 's orchestrator \<Rightarrow> 's orchestrator" where
  "logAuditEntry aid now intentId address chain action decision score level flags details s =
     s\<lparr> oc_log := oc_log s @ [\<lparr> ae_id = aid, ae_intent_id = intentId, ae_address = address, ae_chain = chain,
          ae_action = action, ae_decision = decision, ae_risk_score = score, ae_risk_level = level,
          ae_flags = flags, ae_details = details, ae_timestamp = now \<rparr>] \<rparr>"

definition screening_message :: "string \<Rightarrow> string \<Rightarrow> string" where
  "screening_message provider reason = ''Screening provider '' @ provider @ '' is unavailable: '' @ reason
     @ ''. Payment cannot proceed (fail-closed).''"

text \<open>
  The catch block, the same in the three methods up to the noun of the reason: fail closed on
  \<open>ScreeningUnavailableError\<close>, rethrow anything else.
\<close>

definition fail_closed ::
    "string \<Rightarrow> int \<Rightarrow> string \<Rightarrow> string \<Rightarrow> string \<Rightarrow> string \<Rightarrow> string \<Rightarrow> rat \<Rightarrow> screening_error \<Rightarrow> 's orchestrator
       \<Rightarrow> 's orchestrator \<times> (screening_error + compliance_result)" where
  "fail_closed aid now intentId address chain action noun amount x s =
     (case x of
        OtherError e \<Rightarrow> (s, Inl x)
      | ScreeningUnavailable provider reason \<Rightarrow>
          (logAuditEntry aid now intentId address chain action AD_BLOCK (- 1) None []
             [(''amount'', JNum amount), (''screeningError'', JStr (screening_message provider reason)),
              (''failClosed'', JBool True)] s,
           Inr \<lparr> cr_intent_id = intentId, cr_source_risk = None, cr_destination_risk = None,
                 cr_kyc_required = True, cr_kyc_verified = False, cr_blocked = True,
                 cr_block_reason = Some (ScreeningDown (screening_message provider reason) noun),
                 cr_screened_at = now \<rparr>))"

section \<open>Screening points\<close>

definition run_velocity ::
    "compliance_config \<Rightarrow> int \<Rightarrow> tx_info \<Rightarrow> 's orchestrator \<Rightarrow> 's orchestrator \<times> velocity_result option" where
  "run_velocity cfg now tx s =
     (if cf_enable_velocity cfg
      then (case checkVelocity (velocity_of cfg) now tx (oc_velocity s) of
              (ws, v) \<Rightarrow> (s\<lparr> oc_velocity := ws \<rparr>, Some v))
      else (s, None))"

definition velocity_flags :: "velocity_result option \<Rightarrow> risk_flag list" where
  "velocity_flags v = (case v of None \<Rightarrow> [] | Some r \<Rightarrow> vr_flags r)"

definition screenIntentCreation ::
    "'s scorer \<Rightarrow> compliance_config \<Rightarrow> string \<Rightarrow> int \<Rightarrow> string \<Rightarrow> string \<Rightarrow> string \<Rightarrow> rat \<Rightarrow> 's orchestrator
       \<Rightarrow> 's orchestrator \<times> (screening_error + compliance_result)" where
  "screenIntentCreation sc cfg aid now intentId address chain amount s =
     (case sc_screenAddress sc now address chain (oc_scorer s) of
        (k, Inl x) \<Rightarrow> fail_closed aid now intentId address chain ''INTENT_CREATION'' ''Payment'' amount x (s\<lparr> oc_scorer := k \<rparr>)
      | (k, Inr risk) \<Rightarrow>
          (let (s1, v) = run_velocity cfg now \<lparr> ti_from = address, ti_to = [], ti_amount = amount, ti_asset = [],
                 ti_chain = chain, ti_timestamp = now \<rparr> (s\<lparr> oc_scorer := k \<rparr>);
               (blocked, reason) = makeDecision cfg risk v amount
           in (logAuditEntry aid now intentId address chain ''INTENT_CREATION'' (if blocked then AD_BLOCK else AD_ALLOW)
                 (rk_score risk) (Some (rk_level risk)) (rk_flags risk @ velocity_flags v)
                 [(''amount'', JNum amount),
                  (''velocityExceeded'', JBool (case v of None \<Rightarrow> False | Some r \<Rightarrow> vr_exceeded r))] s1,
               Inr \<lparr> cr_intent_id = intentId, cr_source_risk = Some risk, cr_destination_risk = None,
                     cr_kyc_required = amount > 10000, cr_kyc_verified = False, cr_blocked = blocked,
                     cr_block_reason = reason, cr_screened_at = now \<rparr>)))"

definition screenDeposit ::
    "'s scorer \<Rightarrow> compliance_config \<Rightarrow> string \<Rightarrow> int \<Rightarrow> string \<Rightarrow> tx_info \<Rightarrow> 's orchestrator
       \<Rightarrow> 's orchestrator \<times> (screening_error + compliance_result)" where
  "screenDeposit sc cfg aid now intentId tx s =
     (case sc_screenTransaction sc now tx (oc_scorer s) of
        (k, Inl x) \<Rightarrow> fail_closed aid now intentId (ti_from tx) (ti_chain tx) ''DEPOSIT_DETECTION'' ''Deposit''
                        (ti_amount tx) x (s\<lparr> oc_scorer := k \<rparr>)
      | (k, Inr risk) \<Rightarrow>
          (let (s1, v) = run_velocity cfg now tx (s\<lparr> oc_scorer := k \<rparr>);
               (blocked, reason) = makeDecision cfg risk v (ti_amount tx)
           in (logAuditEntry aid now intentId (ti_from tx) (ti_chain tx) ''DEPOSIT_DETECTION''
                 (if blocked then AD_BLOCK else AD_ALLOW) (rk_score risk) (Some (rk_level risk))
                 (rk_flags risk @ velocity_flags v)
                 [(''amount'', JNum (ti_amount tx)), (''txHash'', JStr (ti_from tx))] s1,
               Inr \<lparr> cr_intent_id = intentId, cr_source_risk = Some risk, cr_destination_risk = None,
                     cr_kyc_required = ti_amount tx > 10000, cr_kyc_verified = False, cr_blocked = blocked,
                     cr_block_reason = reason, cr_screened_at = now \<rparr>)))"

definition screenSettlement ::
    "'s scorer \<Rightarrow> compliance_config \<Rightarrow> string \<Rightarrow> int \<Rightarrow> string \<Rightarrow> string \<Rightarrow> string \<Rightarrow> rat \<Rightarrow> 's orchestrator
       \<Rightarrow> 's orchestrator \<times> (screening_error + compliance_result)" where
  "screenSettlement sc cfg aid now intentId address chain amount s =
     (case sc_screenAddress sc now address chain (oc_scorer s) of
        (k, Inl x) \<Rightarrow> fail_closed aid now intentId address chain ''SETTLEMENT'' ''Settlement'' amount x (s\<lparr> oc_scorer := k \<rparr>)
      | (k, Inr risk) \<Rightarrow>
          (let (blocked, reason) = makeDecision cfg risk None amount
           in (logAuditEntry aid now intentId address chain ''SETTLEMENT'' (if blocked then AD_BLOCK else AD_ALLOW)
                 (rk_score risk) (Some (rk_level risk)) (rk_flags risk) [(''amount'', JNum amount)]
                 (s\<lparr> oc_scorer := k \<rparr>),
               Inr \<lparr> cr_intent_id = intentId, cr_source_risk = None, cr_destination_risk = Some risk,
                     cr_kyc_required = amount > 10000, cr_kyc_verified = False, cr_blocked = blocked,
                     cr_block_reason = reason, cr_screened_at = now \<rparr>)))"

section \<open>Reading the log\<close>

text \<open>A filter text that is empty counts as absent.\<close>

record audit_filters =
  af_intent_id :: "string option"
  af_address :: "string option"
  af_action :: "string option"
  af_decision :: "audit_decision option"
  af_start :: "int option"
  af_end :: "int option"

definition given :: "'a option \<Rightarrow> ('a \<Rightarrow> bool) \<Rightarrow> bool" where
  "given f P = (case f of None \<Rightarrow> True | Some x \<Rightarrow> P x)"

definition getAuditLog :: "audit_filters option \<Rightarrow> 's orchestrator \<Rightarrow> audit_entry list" where
  "getAuditLog filters s =
     (case filters of None \<Rightarrow> oc_log s
      | Some f \<Rightarrow> filter (\<lambda>e. given (truthy_str (af_intent_id f)) (\<lambda>x. ae_intent_id e = x)
          \<and> given (truthy_str (af_address f)) (\<lambda>x. ae_address e = x)
          \<and> given (truthy_str (af_action f)) (\<lambda>x. ae_action e = x)
          \<and> given (af_decision f) (\<lambda>x. ae_decision e = x)
          \<and> given (af_start f) (\<lambda>x. ae_timestamp e \<ge> x)
          \<and> given (af_end f) (\<lambda>x. ae_timestamp e \<le> x)) (oc_log s))"

record compliance_stats =
  ct_total :: nat
  ct_allowed :: nat
  ct_blocked :: nat
  ct_review :: nat
  ct_block_rate :: rat

definition compliance_getStats :: "'s orchestrator \<Rightarrow> compliance_stats" where
  "compliance_getStats s =
     (let n = length (oc_log s);
          blocked = length (filter (\<lambda>e. ae_decision e = AD_BLOCK) (oc_log s))
      in \<lparr> ct_total = n,
           ct_allowed = length (filter (\<lambda>e. ae_decision e = AD_ALLOW) (oc_log s)),
           ct_blocked = blocked,
           ct_review = length (filter (\<lambda>e. ae_decision e = AD_REVIEW) (oc_log s)),
           ct_block_rate = (if n > 0 then of_nat blocked / of_nat n * 100 else 0) \<rparr>)"

section \<open>Any screening\<close>

datatype screening =
    SG_intent string int string string string rat
  | SG_deposit string int string tx_info
  | SG_settlement string int string string string rat

fun screen ::
    "'s scorer \<Rightarrow> compliance_config \<Rightarrow> screening \<Rightarrow> 's orchestrator
       \<Rightarrow> 's orchestrator \<times> (screening_error + compliance_result)" where
  "screen sc cfg (SG_intent aid now i a c amount) s = screenIntentCreation sc cfg aid now i a c amount s"
| "screen sc cfg (SG_deposit aid now i tx) s = screenDeposit sc cfg aid now i tx s"
| "screen sc cfg (SG_settlement aid now i a c amount) s = screenSettlement sc cfg aid now i a c amount s"

text \<open>The subject of a screening.\<close>

fun subject :: "screening \<Rightarrow> string \<times> string" where
  "subject (SG_intent aid now i a c amount) = (a, c)"
| "subject (SG_deposit aid now i tx) = (ti_from tx, ti_chain tx)"
| "subject (SG_settlement aid now i a c amount) = (a, c)"

text \<open>What the scorer answers in a screening.\<close>

fun risk_answer :: "'s scorer \<Rightarrow> screening \<Rightarrow> 's \<Rightarrow> 's \<times> (screening_error + risk_result)" where
  "risk_answer sc (SG_intent aid now i a c amount) k = sc_screenAddress sc now a c k"
| "risk_answer sc (SG_deposit aid now i tx) k = sc_screenTransaction sc now tx k"
| "risk_answer sc (SG_settlement aid now i a c amount) k = sc_screenAddress sc now a c k"

lemma run_velocityE:
  assumes "run_velocity cfg now tx s = (s1, v)"
  shows "oc_log s1 = oc_log s" "oc_scorer s1 = oc_scorer s"
  using assms by (auto simp: run_velocity_def split: if_splits prod.splits)

lemma makeDecision_allows:
  "makeDecision cfg risk v amount = (False, why)
     \<Longrightarrow> SANCTIONED \<notin> set (rk_flags risk) \<and> rk_level risk \<noteq> RISK_CRITICAL"
  by (auto simp: makeDecision_def split: if_splits)

lemma fail_closed_outcome:
  "fail_closed aid now i a c action noun amount (OtherError x) s = (s, Inl (OtherError x))"
  "\<exists>d e. fail_closed aid now i a c action noun amount (ScreeningUnavailable p why) s = (s\<lparr> oc_log := oc_log s @ [e] \<rparr>, Inr d)
     \<and> cr_blocked d \<and> ae_decision e = AD_BLOCK"
  by (simp add: fail_closed_def)
    (simp add: fail_closed_def logAuditEntry_def, rule exI, rule conjI, rule refl, simp)

text \<open>What a screening does to the log, given the scorer's answer, the state after it and the result.\<close>

definition screened ::
    "screening_error + risk_result \<Rightarrow> 's orchestrator \<Rightarrow> 's orchestrator \<Rightarrow> screening_error + compliance_result \<Rightarrow> bool" where
  "screened ans s s' r =
     (case ans of
        Inl (OtherError x) \<Rightarrow> r = Inl (OtherError x) \<and> oc_log s' = oc_log s
      | Inl (ScreeningUnavailable p why) \<Rightarrow>
          (\<exists>d e. r = Inr d \<and> cr_blocked d \<and> oc_log s' = oc_log s @ [e] \<and> ae_decision e = AD_BLOCK)
      | Inr risk \<Rightarrow>
          (\<exists>d e. r = Inr d \<and> oc_log s' = oc_log s @ [e] \<and> ae_decision e = (if cr_blocked d then AD_BLOCK else AD_ALLOW)
             \<and> (\<not> cr_blocked d \<longrightarrow> SANCTIONED \<notin> set (rk_flags risk) \<and> rk_level risk \<noteq> RISK_CRITICAL)))"

lemma screened_fail:
  assumes "fail_closed aid now i a c action noun amount x (s\<lparr> oc_scorer := k \<rparr>) = (s', r)"
  shows "oc_scorer s' = k \<and> screened (Inl x) s s' r"
proof (cases x)
  case (ScreeningUnavailable p why)
  from fail_closed_outcome(2) [of aid now i a c action noun amount p why "s\<lparr> oc_scorer := k \<rparr>"] obtain d e where
    "s' = s\<lparr> oc_scorer := k, oc_log := oc_log s @ [e] \<rparr>" "r = Inr d" "cr_blocked d" "ae_decision e = AD_BLOCK"
    using assms unfolding ScreeningUnavailable by auto
  then show ?thesis by (simp add: screened_def ScreeningUnavailable)
next
  case (OtherError x)
  with assms show ?thesis by (auto simp: fail_closed_outcome screened_def)
qed

lemma screened_answer:
  assumes "makeDecision cfg risk v amount = (blocked, why)" "oc_log s1 = oc_log s" "cr_blocked d = blocked"
    and "ae_decision e = (if blocked then AD_BLOCK else AD_ALLOW)" "oc_log s' = oc_log s1 @ [e]"
  shows "screened (Inr risk) s s' (Inr d)"
  using assms makeDecision_allows [of cfg risk v amount why] by (auto simp: screened_def)

lemma screen_outcome:
  assumes "screen sc cfg g s = (s', r)" "risk_answer sc g (oc_scorer s) = (k, ans)"
  shows "oc_scorer s' = k \<and> screened ans s s' r"
proof (cases ans)
  case (Inl x)
  then show ?thesis
    using assms
    by (cases g) (auto simp: screenIntentCreation_def screenDeposit_def screenSettlement_def
        dest: screened_fail [THEN conjunct1] screened_fail [THEN conjunct2])
next
  case (Inr risk)
  show ?thesis
  proof (cases g)
    case (SG_intent aid now i a c amount)
    let ?tx = "\<lparr> ti_from = a, ti_to = [], ti_amount = amount, ti_asset = [], ti_chain = c, ti_timestamp = now \<rparr>"
    obtain s1 v where v: "run_velocity cfg now ?tx (s\<lparr> oc_scorer := k \<rparr>) = (s1, v)" by (rule prod.exhaust)
    obtain b w where d: "makeDecision cfg risk v amount = (b, w)" by (rule prod.exhaust)
    note same = run_velocityE [OF v]
    show ?thesis
      using assms same unfolding SG_intent Inr
      by (auto simp: screenIntentCreation_def v d logAuditEntry_def intro!: screened_answer [OF d])
  next
    case (SG_deposit aid now i tx)
    obtain s1 v where v: "run_velocity cfg now tx (s\<lparr> oc_scorer := k \<rparr>) = (s1, v)" by (rule prod.exhaust)
    obtain b w where d: "makeDecision cfg risk v (ti_amount tx) = (b, w)" by (rule prod.exhaust)
    note same = run_velocityE [OF v]
    show ?thesis
      using assms same unfolding SG_deposit Inr
      by (auto simp: screenDeposit_def v d logAuditEntry_def intro!: screened_answer [OF d])
  next
    case (SG_settlement aid now i a c amount)
    obtain b w where d: "makeDecision cfg risk None amount = (b, w)" by (rule prod.exhaust)
    show ?thesis
      using assms unfolding SG_settlement Inr
      by (auto simp: screenSettlement_def d logAuditEntry_def intro!: screened_answer [OF d, where ?s1.0 = s])
  qed
qed

section \<open>Runs\<close>

text \<open>A run of screenings: the state it leaves, and per screening the scorer's answer and the result.\<close>

fun screens ::
    "'s scorer \<Rightarrow> compliance_config \<Rightarrow> screening list \<Rightarrow> 's orchestrator
       \<Rightarrow> 's orchestrator \<times> ((screening_error + risk_result) \<times> (screening_error + compliance_result)) list" where
  "screens sc cfg [] s = (s, [])"
| "screens sc cfg (g # gs) s =
     (case screen sc cfg g s of (s1, r) \<Rightarrow>
      (case screens sc cfg gs s1 of (s2, out) \<Rightarrow> (s2, (snd (risk_answer sc g (oc_scorer s)), r) # out)))"

definition idle :: "'s \<Rightarrow> 's orchestrator" where
  "idle k = \<lparr> oc_scorer = k, oc_velocity = [], oc_log = [] \<rparr>"

definition returned :: "(screening_error + compliance_result) list \<Rightarrow> compliance_result list" where
  "returned rs = concat (map (\<lambda>r. case r of Inl _ \<Rightarrow> [] | Inr d \<Rightarrow> [d]) rs)"

definition decision_of :: "compliance_result \<Rightarrow> audit_decision" where
  "decision_of d = (if cr_blocked d then AD_BLOCK else AD_ALLOW)"

text \<open>A result that lets the payment go on rests on an answer of the scorer that is neither sanctioned nor critical.\<close>

definition cleared_safely :: "(screening_error + risk_result) \<times> (screening_error + compliance_result) \<Rightarrow> bool" where
  "cleared_safely p = (case snd p of
       Inl _ \<Rightarrow> True
     | Inr d \<Rightarrow> cr_blocked d \<or> (\<exists>risk. fst p = Inr risk \<and> SANCTIONED \<notin> set (rk_flags risk) \<and> rk_level risk \<noteq> RISK_CRITICAL))"

lemma screened_decision:
  assumes "screened ans s s' r"
  shows "map ae_decision (oc_log s') = map ae_decision (oc_log s) @ map decision_of (returned [r])
    \<and> cleared_safely (ans, r)"
  using assms
  by (auto simp: screened_def returned_def decision_of_def cleared_safely_def split: sum.splits screening_error.splits)

lemma screens_log:
  "screens sc cfg gs s = (s', out)
     \<Longrightarrow> map ae_decision (oc_log s') = map ae_decision (oc_log s) @ map decision_of (returned (map snd out))
       \<and> list_all cleared_safely out"
proof (induction gs arbitrary: s s' out)
  case (Cons g gs)
  obtain s1 r where g: "screen sc cfg g s = (s1, r)" by (rule prod.exhaust)
  obtain k ans where a: "risk_answer sc g (oc_scorer s) = (k, ans)" by (rule prod.exhaust)
  obtain s2 out' where gs: "screens sc cfg gs s1 = (s2, out')" by (rule prod.exhaust)
  have eq: "s' = s2" "out = (ans, r) # out'" using Cons.prems g gs a by simp_all
  from screened_decision [OF conjunct2 [OF screen_outcome [OF g a]]] Cons.IH [OF gs] show ?case
    unfolding eq by (simp add: returned_def)
qed (simp add: returned_def)

lemma stats_of_decisions:
  "ct_total (compliance_getStats s) = length (map ae_decision (oc_log s))"
  "ct_allowed (compliance_getStats s) = length (filter (\<lambda>x. x = AD_ALLOW) (map ae_decision (oc_log s)))"
  "ct_blocked (compliance_getStats s) = length (filter (\<lambda>x. x = AD_BLOCK) (map ae_decision (oc_log s)))"
  "ct_review (compliance_getStats s) = length (filter (\<lambda>x. x = AD_REVIEW) (map ae_decision (oc_log s)))"
  by (simp_all add: compliance_getStats_def Let_def filter_map comp_def)

section \<open>A client of the scorer contract\<close>

context risk_screening
begin

lemma forbidden_blocked:
  assumes "inv (oc_scorer s)" "subject g = (a, c)" "forbidden a c" "screen sc cfg g s = (s', Inr d)"
  shows "cr_blocked d"
proof -
  obtain k ans where a: "risk_answer sc g (oc_scorer s) = (k, ans)" by (rule prod.exhaust)
  have crit: "alarming risk" if "ans = Inr risk" for risk
    using assms(1-3) a that address_forbidden transaction_forbidden by (cases g) auto
  from screened_decision [OF conjunct2 [OF screen_outcome [OF assms(4) a]]] crit show ?thesis
    by (auto simp: cleared_safely_def alarming_def)
qed

lemma screen_keeps_inv: "inv (oc_scorer s) \<Longrightarrow> inv (oc_scorer (fst (screen sc cfg g s)))"
proof -
  assume i: "inv (oc_scorer s)"
  obtain s1 r where g: "screen sc cfg g s = (s1, r)" by (rule prod.exhaust)
  obtain k ans where a: "risk_answer sc g (oc_scorer s) = (k, ans)" by (rule prod.exhaust)
  have "inv (fst (risk_answer sc g (oc_scorer s)))"
    using i inv_address inv_transaction by (cases g) auto
  then show ?thesis using screen_outcome [OF g a] g a by simp
qed

end

section \<open>Properties\<close>

text \<open>C10: Fail closed and fully logged: over any run of screenings with any scorer, a result that is not
  blocked rests on an answer of the scorer that is neither sanctioned nor CRITICAL (in particular an
  unavailable scorer blocks); the log has exactly one entry per returned result, BLOCK for a
  blocked one and ALLOW for another, so that a decision that requires review is never logged so.\<close>

theorem screenings_fail_closed_and_logged:
  assumes "screens sc cfg gs (idle k) = (s, out)"
  shows "list_all cleared_safely out
    \<and> ct_total (compliance_getStats s) = length (returned (map snd out))
    \<and> ct_blocked (compliance_getStats s) = length (filter cr_blocked (returned (map snd out)))
    \<and> ct_allowed (compliance_getStats s) = length (filter (\<lambda>d. \<not> cr_blocked d) (returned (map snd out)))
    \<and> ct_review (compliance_getStats s) = 0"
proof -
  from screens_log [OF assms] have log: "map ae_decision (oc_log s) = map decision_of (returned (map snd out))"
    and safe: "list_all cleared_safely out" by (simp_all add: idle_def)
  show ?thesis
    unfolding stats_of_decisions log using safe
    by (simp add: filter_map comp_def decision_of_def)
qed

theorem screenings_fail_closed_and_logged_witness:
  "ct_blocked (compliance_getStats (fst (screens
      \<lparr> sc_screenAddress = (\<lambda>_ _ _ k. (k, Inl (ScreeningUnavailable ''chainalysis'' ''HTTP 500''))),
         sc_screenTransaction = (\<lambda>_ _ k. (k, Inl (ScreeningUnavailable ''chainalysis'' ''HTTP 500''))) \<rparr>
      DEFAULT_CONFIG [SG_intent ''x'' 5 ''i'' ''a'' ''eth'' 100] (idle ())))) = 1"
proof -
  let ?sc = "\<lparr> sc_screenAddress = (\<lambda>_ _ _ k. (k, Inl (ScreeningUnavailable ''chainalysis'' ''HTTP 500''))),
    sc_screenTransaction = (\<lambda>_ _ k. (k, Inl (ScreeningUnavailable ''chainalysis'' ''HTTP 500''))) \<rparr> :: unit scorer"
  obtain s out where run: "screens ?sc DEFAULT_CONFIG [SG_intent ''x'' 5 ''i'' ''a'' ''eth'' 100] (idle ()) = (s, out)"
    by (rule prod.exhaust)
  have "map cr_blocked (returned (map snd out)) = [True]"
    using run by (auto simp: screenIntentCreation_def fail_closed_def returned_def)
  then have "length (filter cr_blocked (returned (map snd out))) = 1"
    by (cases "returned (map snd out)") auto
  then show ?thesis using screenings_fail_closed_and_logged [OF run] run by simp
qed

end
