(* ===== verification/Circuit_Breaker.thy ===== *)
theory Circuit_Breaker
  imports Job_Queue
begin

text \<open>
  \<open>CircuitBreaker\<close> (\<open>packages/routing-engine/src/circuit-breaker.ts\<close>).  An asynchronous
  \<open>execute\<close> is two steps, its entry and its completion, so that concurrent calls interleave;
  \<open>execute\<close> itself is the two in sequence.
\<close>

datatype circuit_state = CS_CLOSED | CS_OPEN | CS_HALF_OPEN

record circuit_options =
  co_failure_threshold :: nat
  co_recovery_timeout :: int

definition DEFAULT_OPTIONS :: circuit_options where
  "DEFAULT_OPTIONS = \<lparr> co_failure_threshold = 5, co_recovery_timeout = 30000 \<rparr>"

record circuit =
  cb_state :: circuit_state
  cb_failures :: nat
  cb_last_failure :: "int option"

definition new_circuit :: circuit where
  "new_circuit = \<lparr> cb_state = CS_CLOSED, cb_failures = 0, cb_last_failure = None \<rparr>"

text \<open>The errors of \<open>execute\<close>: \<open>CircuitOpenError\<close>, or what the function threw.\<close>

datatype circuit_error = CircuitOpenError int | CalleeError js_error

text \<open>\<open>!this.lastFailureTime\<close> also holds for the instant 0.\<close>

definition shouldAttemptRecovery :: "circuit_options \<Rightarrow> int \<Rightarrow> circuit \<Rightarrow> bool" where
  "shouldAttemptRecovery opt now cb =
     (case cb_last_failure cb of None \<Rightarrow> False
      | Some t \<Rightarrow> t \<noteq> 0 \<and> now - t \<ge> co_recovery_timeout opt)"

definition getRemainingRecoveryTime :: "circuit_options \<Rightarrow> int \<Rightarrow> circuit \<Rightarrow> int" where
  "getRemainingRecoveryTime opt now cb =
     (case cb_last_failure cb of None \<Rightarrow> 0
      | Some t \<Rightarrow> if t = 0 then 0 else max 0 (co_recovery_timeout opt - (now - t)))"

definition onSuccess :: "circuit \<Rightarrow> circuit" where
  "onSuccess cb = cb\<lparr> cb_failures := 0, cb_state := CS_CLOSED, cb_last_failure := None \<rparr>"

definition onFailure :: "circuit_options \<Rightarrow> int \<Rightarrow> circuit \<Rightarrow> circuit" where
  "onFailure opt now cb =
     (let failures = Suc (cb_failures cb);
          cb1 = cb\<lparr> cb_failures := failures, cb_last_failure := Some now \<rparr>
      in if co_failure_threshold opt \<le> failures then cb1\<lparr> cb_state := CS_OPEN \<rparr> else cb1)"

text \<open>The part of \<open>execute\<close> before the function is called: an error, or go ahead.\<close>

definition execute_enter :: "circuit_options \<Rightarrow> int \<Rightarrow> circuit \<Rightarrow> circuit \<times> (circuit_error + unit)" where
  "execute_enter opt now cb =
     (if cb_state cb = CS_OPEN
      then if shouldAttemptRecovery opt now cb then (cb\<lparr> cb_state := CS_HALF_OPEN \<rparr>, Inr ())
           else (cb, Inl (CircuitOpenError (getRemainingRecoveryTime opt now cb)))
      else (cb, Inr ()))"

text \<open>The part after it: the function settled at the instant \<open>now\<close>.\<close>

definition execute_settle ::
    "circuit_options \<Rightarrow> int \<Rightarrow> js_error + 'a \<Rightarrow> circuit \<Rightarrow> circuit \<times> (circuit_error + 'a)" where
  "execute_settle opt now outcome cb =
     (case outcome of
        Inr v \<Rightarrow> (onSuccess cb, Inr v)
      | Inl x \<Rightarrow> (onFailure opt now cb, Inl (CalleeError x)))"

definition cb_execute ::
    "circuit_options \<Rightarrow> int \<Rightarrow> int \<Rightarrow> js_error + 'a \<Rightarrow> circuit \<Rightarrow> circuit \<times> (circuit_error + 'a)" where
  "cb_execute opt t1 t2 outcome cb =
     andThen (execute_enter opt t1 cb) (\<lambda>cb _. execute_settle opt t2 outcome cb)"

definition getState :: "circuit_options \<Rightarrow> int \<Rightarrow> circuit \<Rightarrow> circuit \<times> circuit_state" where
  "getState opt now cb =
     (let cb1 = (if cb_state cb = CS_OPEN \<and> shouldAttemptRecovery opt now cb
                 then cb\<lparr> cb_state := CS_HALF_OPEN \<rparr> else cb)
      in (cb1, cb_state cb1))"

definition getFailureCount :: "circuit \<Rightarrow> nat" where
  "getFailureCount cb = cb_failures cb"

definition reset :: "circuit \<Rightarrow> circuit" where
  "reset cb = cb\<lparr> cb_state := CS_CLOSED, cb_failures := 0, cb_last_failure := None \<rparr>"

section \<open>Interleaved calls\<close>

text \<open>
  What happens to a breaker, at which instant: a call enters, an earlier call completes, somebody looks at
  the state, or the breaker is reset.  A run is any sequence of these, so entries and completions of calls
  under way at the same time come in any order.  (A run may also hold completions of calls that never
  entered; the properties do not need to exclude them.)
\<close>

datatype breaker_event = Called int | Settled int "js_error + unit" | Looked int | Was_Reset int

fun event_time :: "breaker_event \<Rightarrow> int" where
  "event_time (Called t) = t"
| "event_time (Settled t _) = t"
| "event_time (Looked t) = t"
| "event_time (Was_Reset t) = t"

fun breaker_step :: "circuit_options \<Rightarrow> breaker_event \<Rightarrow> circuit \<Rightarrow> circuit" where
  "breaker_step opt (Called t) cb = fst (execute_enter opt t cb)"
| "breaker_step opt (Settled t outcome) cb = fst (execute_settle opt t outcome cb)"
| "breaker_step opt (Looked t) cb = fst (getState opt t cb)"
| "breaker_step opt (Was_Reset t) cb = reset cb"

text \<open>The instants of the failures since the last success or reset, the newest first.\<close>

fun fresh_failures :: "breaker_event \<Rightarrow> int list \<Rightarrow> int list" where
  "fresh_failures (Settled t (Inl _)) ts = t # ts"
| "fresh_failures (Settled _ (Inr _)) ts = []"
| "fresh_failures (Was_Reset _) ts = []"
| "fresh_failures _ ts = ts"

definition failures_since :: "breaker_event list \<Rightarrow> int list" where
  "failures_since es = fold fresh_failures es []"

text \<open>Whether calls are to be refused: the threshold is reached and the newest failure is too recent.\<close>

definition tripped :: "circuit_options \<Rightarrow> int \<Rightarrow> int list \<Rightarrow> bool" where
  "tripped opt now ts = (case ts of [] \<Rightarrow> False
     | t # _ \<Rightarrow> co_failure_threshold opt \<le> length ts \<and> now - t < co_recovery_timeout opt)"

text \<open>The fields of the breaker at the instant \<open>now\<close>, for the failures \<open>ts\<close>.\<close>

definition follows :: "circuit_options \<Rightarrow> int \<Rightarrow> int list \<Rightarrow> circuit \<Rightarrow> bool" where
  "follows opt now ts cb = (cb_failures cb = length ts \<and> list_all ((<) 0) ts
     \<and> cb_last_failure cb = (case ts of [] \<Rightarrow> None | t # _ \<Rightarrow> Some t)
     \<and> (case ts of [] \<Rightarrow> cb_state cb = CS_CLOSED
        | t # _ \<Rightarrow> (if co_failure_threshold opt \<le> length ts
             then cb_state cb = CS_OPEN \<or> cb_state cb = CS_HALF_OPEN \<and> t + co_recovery_timeout opt \<le> now
             else cb_state cb = CS_CLOSED)))"

lemma follows_new: "follows opt now [] new_circuit"
  by (simp add: follows_def new_circuit_def)

lemma follows_later: "follows opt now ts cb \<Longrightarrow> now \<le> now' \<Longrightarrow> follows opt now' ts cb"
  by (auto simp: follows_def split: list.splits if_splits)

lemma breaker_step_follows:
  assumes "follows opt now ts cb" "now \<le> event_time e" "0 < event_time e"
  shows "follows opt (event_time e) (fresh_failures e ts) (breaker_step opt e cb)"
proof (cases e)
  case (Called t)
  with follows_later [OF assms(1,2)] show ?thesis
    by (cases ts) (auto simp: follows_def execute_enter_def shouldAttemptRecovery_def split: if_splits)
next
  case (Settled t outcome)
  with follows_later [OF assms(1,2)] assms(3) show ?thesis
    by (cases outcome; cases ts)
       (auto simp: follows_def execute_settle_def onSuccess_def onFailure_def Let_def split: if_splits)
next
  case (Looked t)
  with follows_later [OF assms(1,2)] show ?thesis
    by (cases ts) (auto simp: follows_def getState_def Let_def shouldAttemptRecovery_def split: if_splits)
next
  case (Was_Reset t)
  then show ?thesis by (simp add: follows_def reset_def)
qed

lemma run_follows:
  assumes "sorted (now # map event_time es)" "\<forall>e \<in> set es. 0 < event_time e" "follows opt now ts cb"
  shows "follows opt (last (now # map event_time es)) (fold fresh_failures es ts) (fold (breaker_step opt) es cb)"
  using assms
proof (induction es arbitrary: now ts cb)
  case (Cons e es)
  have "follows opt (event_time e) (fresh_failures e ts) (breaker_step opt e cb)"
    using Cons.prems(1,2) by (intro breaker_step_follows [OF Cons.prems(3)]) simp_all
  with Cons.IH [of "event_time e"] Cons.prems show ?case by simp
qed simp

lemma enter_iff_tripped:
  assumes "follows opt now ts cb"
  shows "case execute_enter opt now cb of
      (cb', Inr _) \<Rightarrow> \<not> tripped opt now ts
    | (cb', Inl x) \<Rightarrow> tripped opt now ts \<and> cb' = cb \<and> cb_state cb = CS_OPEN
        \<and> x = CircuitOpenError (hd ts + co_recovery_timeout opt - now)"
  using assms
  by (cases ts)
     (auto simp: follows_def tripped_def execute_enter_def shouldAttemptRecovery_def getRemainingRecoveryTime_def
       split: if_splits)

section \<open>Properties\<close>

text \<open>C21: However the entries and completions of calls, the looks and the resets interleave under a clock that
  does not go back, a call is refused exactly when at least \<open>failureThreshold\<close> failures have come in since
  the last success or reset and the newest of them is younger than the recovery timeout; then the
  breaker is OPEN, the function is not called, the breaker does not change and the error carries
  the time that is left.  In particular a success of a call that was admitted earlier lets calls through at
  once, and after the timeout every call is admitted until one of them has failed or succeeded.\<close>

theorem breaker_refuses_iff_tripped:
  assumes "sorted (map event_time es @ [now])" "\<forall>e \<in> set es. 0 < event_time e"
  shows "case execute_enter opt now (fold (breaker_step opt) es new_circuit) of
      (cb', Inr _) \<Rightarrow> \<not> tripped opt now (failures_since es)
    | (cb', Inl x) \<Rightarrow> tripped opt now (failures_since es) \<and> cb' = fold (breaker_step opt) es new_circuit
        \<and> cb_state cb' = CS_OPEN \<and> x = CircuitOpenError (hd (failures_since es) + co_recovery_timeout opt - now)"
proof -
  have "sorted (0 # map event_time es)" using assms by (auto simp: sorted_append less_imp_le)
  then have "follows opt (last (0 # map event_time es)) (failures_since es) (fold (breaker_step opt) es new_circuit)"
    unfolding failures_since_def by (rule run_follows [OF _ assms(2) follows_new])
  moreover have "last (0 # map event_time es) \<le> now \<or> es = []" using assms(1) by (auto simp: sorted_append last_map)
  ultimately have "follows opt now (failures_since es) (fold (breaker_step opt) es new_circuit)"
    by (cases "es = []") (auto intro: follows_later simp: failures_since_def follows_new)
  then have enter: "case execute_enter opt now (fold (breaker_step opt) es new_circuit) of
      (cb', Inr _) \<Rightarrow> \<not> tripped opt now (failures_since es)
    | (cb', Inl x) \<Rightarrow> tripped opt now (failures_since es) \<and> cb' = fold (breaker_step opt) es new_circuit
        \<and> cb_state (fold (breaker_step opt) es new_circuit) = CS_OPEN
        \<and> x = CircuitOpenError (hd (failures_since es) + co_recovery_timeout opt - now)"
    by (rule enter_iff_tripped)
  then show ?thesis by (auto split: prod.splits sum.splits)
qed

text \<open>Two calls overlap, both fail, and a third that enters before the timeout is refused.\<close>

theorem breaker_refuses_iff_tripped_witness:
  "\<exists>cb. execute_enter \<lparr> co_failure_threshold = 2, co_recovery_timeout = 100 \<rparr> 60
     (fold (breaker_step \<lparr> co_failure_threshold = 2, co_recovery_timeout = 100 \<rparr>)
       [Called 10, Called 11, Settled 20 (Inl (JsThrown ''x'')), Settled 21 (Inl (JsThrown ''x''))] new_circuit)
     = (cb, Inl (CircuitOpenError 61))"
proof -
  let ?opt = "\<lparr> co_failure_threshold = 2, co_recovery_timeout = 100 \<rparr>"
  let ?es = "[Called 10, Called 11, Settled 20 (Inl (JsThrown ''x'')), Settled 21 (Inl (JsThrown ''x''))]"
  have "sorted (map event_time ?es @ [60])" "\<forall>e \<in> set ?es. 0 < event_time e" by simp_all
  from breaker_refuses_iff_tripped [OF this, of ?opt] have
    "case execute_enter ?opt 60 (fold (breaker_step ?opt) ?es new_circuit) of
      (cb', Inr _) \<Rightarrow> \<not> tripped ?opt 60 (failures_since ?es)
    | (cb', Inl x) \<Rightarrow> x = CircuitOpenError (hd (failures_since ?es) + 100 - 60)"
    by (auto split: prod.splits sum.splits)
  moreover have "tripped ?opt 60 (failures_since ?es)" "hd (failures_since ?es) = 21"
    by (simp_all add: tripped_def failures_since_def)
  ultimately show ?thesis by (auto split: prod.splits sum.splits)
qed

text \<open>The class comment lets one trial call through in HALF_OPEN; every call that enters then is admitted.\<close>

lemma half_open_admits_all:
  "cb_state cb = CS_HALF_OPEN \<Longrightarrow> execute_enter opt now cb = (cb, Inr ())"
  by (simp add: execute_enter_def)

text \<open>A success of a call that was admitted before the breaker opened closes it at once.\<close>

lemma late_success_closes:
  "cb_state (fst (execute_settle opt now (Inr v) cb)) = CS_CLOSED"
  by (simp add: execute_settle_def onSuccess_def)

end
