(* ===== verification/Route_Engine.thy ===== *)
theory Route_Engine
  imports Circuit_Breaker
begin

text \<open>
  Route selection (\<open>packages/routing-engine/src/route-scorer.ts\<close>, \<open>provider-registry.ts\<close>,
  \<open>base-route-provider.ts\<close> and \<open>route-engine.ts\<close>).  A provider's API is a parameter: how its raw
  quote and execution calls settle, and how long they take.  The state is the registry, each
  provider with its circuit breaker.  A number that an adapter computed from the text of an answer may be
  \<open>NaN\<close>: such numbers are options, \<open>None\<close> being \<open>NaN\<close>.
\<close>

type_synonym js_number = "rat option"

text \<open>Arithmetic that may meet \<open>NaN\<close>, and comparisons, which are false on it.\<close>

definition nan_op :: "(rat \<Rightarrow> rat \<Rightarrow> rat) \<Rightarrow> js_number \<Rightarrow> js_number \<Rightarrow> js_number" where
  "nan_op f a b = (case (a, b) of (Some x, Some y) \<Rightarrow> Some (f x y) | _ \<Rightarrow> None)"

definition holds_num :: "(rat \<Rightarrow> bool) \<Rightarrow> js_number \<Rightarrow> bool" where
  "holds_num P v = (case v of None \<Rightarrow> False | Some x \<Rightarrow> P x)"

record route_step =
  st_chain :: string
  st_protocol :: string
  st_action :: string
  st_input_amount :: js_number
  st_output_amount :: js_number
  st_fee :: js_number

record route_quote =
  rq_id :: string
  rq_provider :: string
  rq_source_chain :: string
  rq_source_asset :: string
  rq_source_amount :: rat
  rq_target_chain :: string
  rq_target_asset :: string
  rq_target_amount :: js_number
  rq_steps :: "route_step list"
  rq_estimated_fee :: js_number
  rq_estimated_time :: js_number
  rq_security_score :: rat
  rq_reliability_score :: rat
  rq_expires_at :: int

record quote_params =
  qp_source_chain :: string
  qp_source_asset :: string
  qp_source_amount :: rat
  qp_target_chain :: string
  qp_target_asset :: string
  qp_target_amount :: rat

record route_score =
  rs_total :: js_number
  rs_fee :: js_number
  rs_time :: js_number
  rs_security :: rat
  rs_reliability :: rat

record preferences =
  mp_max_fee :: rat
  mp_max_time :: rat
  mp_fee_weight :: rat
  mp_time_weight :: rat
  mp_security_weight :: rat
  mp_reliability_weight :: rat

definition DEFAULT_PREFERENCES :: preferences where
  "DEFAULT_PREFERENCES = \<lparr> mp_max_fee = 100, mp_max_time = 3600, mp_fee_weight = 3/10, mp_time_weight = 2/10,
     mp_security_weight = 3/10, mp_reliability_weight = 2/10 \<rparr>"

section \<open>Scorer\<close>

text \<open>A division by a zero maximum is infinite, so that the score is 0; \<open>NaN\<close> is not at most 0 and stays.\<close>

definition normalizeUpTo :: "rat \<Rightarrow> js_number \<Rightarrow> js_number" where
  "normalizeUpTo maximum v = map_option
     (\<lambda>x. if x \<le> 0 then 1 else if maximum = 0 then 0 else max 0 (1 - x / maximum)) v"

definition normalizeFeeScore :: "preferences \<Rightarrow> js_number \<Rightarrow> js_number" where
  "normalizeFeeScore p fee = normalizeUpTo (mp_max_fee p) fee"

definition normalizeTimeScore :: "preferences \<Rightarrow> js_number \<Rightarrow> js_number" where
  "normalizeTimeScore p time = normalizeUpTo (mp_max_time p) time"

definition normalizeSecurityScore :: "rat \<Rightarrow> rat" where
  "normalizeSecurityScore score = max 0 (min 1 (score / 100))"

definition normalizeReliabilityScore :: "rat \<Rightarrow> rat" where
  "normalizeReliabilityScore score = max 0 (min 1 (score / 100))"

definition score :: "preferences \<Rightarrow> route_quote \<Rightarrow> route_score" where
  "score p q =
     (let feeScore = normalizeFeeScore p (rq_estimated_fee q);
          timeScore = normalizeTimeScore p (rq_estimated_time q);
          securityScore = normalizeSecurityScore (rq_security_score q);
          reliabilityScore = normalizeReliabilityScore (rq_reliability_score q)
      in \<lparr> rs_total = nan_op (\<lambda>f t. f * mp_fee_weight p + t * mp_time_weight p
             + securityScore * mp_security_weight p + reliabilityScore * mp_reliability_weight p) feeScore timeScore,
           rs_fee = feeScore, rs_time = timeScore, rs_security = securityScore,
           rs_reliability = reliabilityScore \<rparr>)"

text \<open>
  \<open>sort\<close> with the difference of the totals.  When some total is \<open>NaN\<close> the comparison is inconsistent and the
  order is the implementation's: a parameter \<open>arrange\<close>, of which only the elements are known.
\<close>

definition total_number :: "route_score \<Rightarrow> rat" where
  "total_number s = (case rs_total s of None \<Rightarrow> 0 | Some x \<Rightarrow> x)"

type_synonym scored_quotes = "(route_quote \<times> route_score) list"

definition rank :: "(scored_quotes \<Rightarrow> scored_quotes) \<Rightarrow> preferences \<Rightarrow> route_quote list \<Rightarrow> scored_quotes" where
  "rank arrange p quotes = (let scored = map (\<lambda>q. (q, score p q)) quotes in
     if list_all (\<lambda>(_, s). rs_total s \<noteq> None) scored then sort_key (\<lambda>(_, s). - total_number s) scored
     else arrange scored)"

definition selectBest ::
    "(scored_quotes \<Rightarrow> scored_quotes) \<Rightarrow> preferences \<Rightarrow> route_quote list \<Rightarrow> (route_quote \<times> route_score) option" where
  "selectBest arrange p quotes = (if quotes = [] then None
     else case rank arrange p quotes of [] \<Rightarrow> None | x # _ \<Rightarrow> Some x)"

section \<open>Providers and their registry\<close>

datatype route_status = RT_PENDING | RT_EXECUTING | RT_COMPLETED | RT_FAILED | RT_REFUNDED

record execution_result =
  er_execution_id :: string
  er_status :: route_status
  er_transaction_hashes :: "string list"
  er_actual_fee :: rat
  er_actual_time :: rat

text \<open>
  A provider derived from \<open>BaseRouteProvider\<close>: \<open>fetchRawQuote\<close> followed by \<open>normalizeQuote\<close>,
  \<open>executeRaw\<close> followed by \<open>normalizeResult\<close>, \<open>fetchStatus\<close>, and the latency of a quote.
\<close>

record provider =
  pv_name :: string
  pv_chains :: "string list"
  pv_options :: circuit_options
  pv_breaker :: circuit
  pv_quote :: "quote_params \<Rightarrow> js_error + route_quote"
  pv_latency :: "quote_params \<Rightarrow> int"
  pv_execute :: "route_quote \<Rightarrow> js_error + execution_result"
  pv_status :: "string \<Rightarrow> js_error + route_status"

definition provider_quote :: "int \<Rightarrow> quote_params \<Rightarrow> provider \<Rightarrow> provider \<times> (circuit_error + route_quote)" where
  "provider_quote now params p =
     (case cb_execute (pv_options p) now (now + pv_latency p params) (pv_quote p params) (pv_breaker p) of
        (cb, r) \<Rightarrow> (p\<lparr> pv_breaker := cb \<rparr>, r))"

definition provider_execute ::
    "int \<Rightarrow> int \<Rightarrow> route_quote \<Rightarrow> provider \<Rightarrow> provider \<times> (circuit_error + execution_result)" where
  "provider_execute t1 t2 q p =
     (case cb_execute (pv_options p) t1 t2 (pv_execute p q) (pv_breaker p) of
        (cb, r) \<Rightarrow> (p\<lparr> pv_breaker := cb \<rparr>, r))"

definition isHealthy :: "int \<Rightarrow> provider \<Rightarrow> provider \<times> bool" where
  "isHealthy now p =
     (case getState (pv_options p) now (pv_breaker p) of
        (cb, st) \<Rightarrow> (p\<lparr> pv_breaker := cb \<rparr>, st \<noteq> CS_OPEN))"

definition resetCircuit :: "provider \<Rightarrow> provider" where
  "resetCircuit p = p\<lparr> pv_breaker := reset (pv_breaker p) \<rparr>"

type_synonym provider_registry = "(string \<times> provider) list"

definition register :: "provider \<Rightarrow> provider_registry \<Rightarrow> js_error + provider_registry" where
  "register p reg =
     (if pv_name p \<in> fst ` set reg
      then Inl (JsError ''Error'' (''Provider already registered: '' @ pv_name p))
      else Inr (js_map_set (pv_name p) p reg))"

definition unregister :: "string \<Rightarrow> provider_registry \<Rightarrow> provider_registry \<times> bool" where
  "unregister name reg = (js_map_delete name reg, name \<in> fst ` set reg)"

definition get_provider :: "provider_registry \<Rightarrow> string \<Rightarrow> provider option" where
  "get_provider reg name = map_of reg name"

definition getNames :: "provider_registry \<Rightarrow> string list" where
  "getNames reg = map fst reg"

definition all_providers :: "provider_registry \<Rightarrow> provider list" where
  "all_providers reg = map snd reg"

definition supports :: "string \<Rightarrow> string \<Rightarrow> provider \<Rightarrow> bool" where
  "supports source target p = (source \<in> set (pv_chains p) \<and> target \<in> set (pv_chains p))"

definition getSupportedProviders :: "provider_registry \<Rightarrow> string \<Rightarrow> string \<Rightarrow> provider list" where
  "getSupportedProviders reg source target = filter (supports source target) (all_providers reg)"

definition getProvidersForChain :: "provider_registry \<Rightarrow> string \<Rightarrow> provider list" where
  "getProvidersForChain reg chain = filter (\<lambda>p. chain \<in> set (pv_chains p)) (all_providers reg)"

definition registry_count :: "provider_registry \<Rightarrow> nat" where
  "registry_count reg = length reg"

definition has_provider :: "provider_registry \<Rightarrow> string \<Rightarrow> bool" where
  "has_provider reg name = (name \<in> fst ` set reg)"

section \<open>Engine\<close>

record engine_config =
  ec_quote_timeout :: int
  ec_min_quotes :: nat
  ec_skip_open :: bool

definition DEFAULT_ENGINE_CONFIG :: engine_config where
  "DEFAULT_ENGINE_CONFIG = \<lparr> ec_quote_timeout = 5000, ec_min_quotes = 1, ec_skip_open = True \<rparr>"

datatype route_error = NoValidQuotes | ProviderUnavailable string | RouteFailed circuit_error

text \<open>
  One element of the parallel fetch.  A breaker that is open rejects at once; otherwise the call
  races the timeout.  A call that loses the race settles later and still reaches its breaker.
\<close>

definition fetch_one :: "engine_config \<Rightarrow> int \<Rightarrow> quote_params \<Rightarrow> provider \<Rightarrow> provider \<times> route_quote option" where
  "fetch_one cfg now params p =
     (case provider_quote now params p of
        (p', Inl _) \<Rightarrow> (p', None)
      | (p', Inr q) \<Rightarrow> (p', if pv_latency p params < ec_quote_timeout cfg then Some q else None))"

definition fetchQuotesParallel ::
    "engine_config \<Rightarrow> int \<Rightarrow> quote_params \<Rightarrow> provider list \<Rightarrow> provider list \<times> route_quote list" where
  "fetchQuotesParallel cfg now params ps =
     (let results = map (fetch_one cfg now params) ps
      in (map fst results, concat (map (\<lambda>(_, q). case q of None \<Rightarrow> [] | Some x \<Rightarrow> [x]) results)))"

text \<open>Providers are objects: what a call does to their breaker is seen in the registry.\<close>

definition put_providers :: "provider list \<Rightarrow> provider_registry \<Rightarrow> provider_registry" where
  "put_providers ps reg = fold (\<lambda>p r. js_map_set (pv_name p) p r) ps reg"

definition selectBestRoute ::
    "(scored_quotes \<Rightarrow> scored_quotes) \<Rightarrow> engine_config \<Rightarrow> preferences \<Rightarrow> int \<Rightarrow> int \<Rightarrow> quote_params \<Rightarrow> provider_registry
       \<Rightarrow> provider_registry \<times> (route_error + route_quote \<times> route_score)" where
  "selectBestRoute arrange cfg prefs t1 t2 params reg =
     (let supported = getSupportedProviders reg (qp_source_chain params) (qp_target_chain params);
          checked = (if ec_skip_open cfg then map (isHealthy t1) supported else map (\<lambda>p. (p, True)) supported);
          reg1 = put_providers (map fst checked) reg;
          providers = map fst (filter snd checked)
      in if providers = [] then (reg1, Inl NoValidQuotes)
         else
           let (asked, quotes) = fetchQuotesParallel cfg t1 params providers;
               reg2 = put_providers asked reg1;
               validQuotes = filter (\<lambda>q. rq_expires_at q > t2) quotes
           in if length validQuotes < ec_min_quotes cfg then (reg2, Inl NoValidQuotes)
              else (case selectBest arrange prefs validQuotes of
                      None \<Rightarrow> (reg2, Inl NoValidQuotes)
                    | Some best \<Rightarrow> (reg2, Inr best)))"

definition executeRoute ::
    "int \<Rightarrow> int \<Rightarrow> route_quote \<Rightarrow> provider_registry \<Rightarrow> provider_registry \<times> (route_error + execution_result)" where
  "executeRoute t1 t2 q reg =
     (case get_provider reg (rq_provider q) of
        None \<Rightarrow> (reg, Inl (ProviderUnavailable (rq_provider q)))
      | Some p \<Rightarrow>
          (case provider_execute t1 t2 q p of
             (p', Inl x) \<Rightarrow> (put_providers [p'] reg, Inl (RouteFailed x))
           | (p', Inr r) \<Rightarrow> (put_providers [p'] reg, Inr r)))"

definition getExecutionStatus :: "provider_registry \<Rightarrow> string \<Rightarrow> string \<Rightarrow> route_error + route_status" where
  "getExecutionStatus reg name executionId =
     (case get_provider reg name of
        None \<Rightarrow> Inl (ProviderUnavailable name)
      | Some p \<Rightarrow> (case pv_status p executionId of
          Inl x \<Rightarrow> Inl (RouteFailed (CalleeError x)) | Inr st \<Rightarrow> Inr st))"

definition getAllRoutes ::
    "(scored_quotes \<Rightarrow> scored_quotes) \<Rightarrow> engine_config \<Rightarrow> preferences \<Rightarrow> int \<Rightarrow> int \<Rightarrow> quote_params \<Rightarrow> provider_registry
       \<Rightarrow> provider_registry \<times> (route_quote \<times> route_score) list" where
  "getAllRoutes arrange cfg prefs t1 t2 params reg =
     (let providers = getSupportedProviders reg (qp_source_chain params) (qp_target_chain params)
      in if providers = [] then (reg, [])
         else let (asked, quotes) = fetchQuotesParallel cfg t1 params providers
              in (put_providers asked reg, rank arrange prefs (filter (\<lambda>q. rq_expires_at q > t2) quotes)))"

section \<open>Scores\<close>

lemma normalizeUpTo_bounds: "0 \<le> m \<Longrightarrow> normalizeUpTo m v = Some y \<Longrightarrow> 0 \<le> y \<and> y \<le> 1"
  by (auto simp: normalizeUpTo_def divide_nonneg_nonneg)

text \<open>The total of a quote is a number exactly when its fee and its time are.\<close>

lemma score_is_number: "rs_total (score p q) = None \<longleftrightarrow> rq_estimated_fee q = None \<or> rq_estimated_time q = None"
  by (auto simp: score_def Let_def normalizeFeeScore_def normalizeTimeScore_def normalizeUpTo_def nan_op_def
      split: option.splits)

lemma score_bounds:
  assumes "0 \<le> mp_max_fee p" "0 \<le> mp_max_time p" "0 \<le> mp_fee_weight p" "0 \<le> mp_time_weight p"
    and "0 \<le> mp_security_weight p" "0 \<le> mp_reliability_weight p" "rs_total (score p q) = Some x"
  shows "0 \<le> x \<and> x \<le> mp_fee_weight p + mp_time_weight p + mp_security_weight p + mp_reliability_weight p"
proof -
  have w: "0 \<le> x * v \<and> x * v \<le> v" if "0 \<le> x" "x \<le> 1" "0 \<le> v" for x v :: rat
    using that by (simp add: mult_left_le_one_le)
  have sec: "0 \<le> normalizeSecurityScore z \<and> normalizeSecurityScore z \<le> 1"
    "0 \<le> normalizeReliabilityScore z \<and> normalizeReliabilityScore z \<le> 1" for z
    by (simp_all add: normalizeSecurityScore_def normalizeReliabilityScore_def)
  from assms(7) obtain f t where ft: "normalizeUpTo (mp_max_fee p) (rq_estimated_fee q) = Some f"
      "normalizeUpTo (mp_max_time p) (rq_estimated_time q) = Some t"
      "x = f * mp_fee_weight p + t * mp_time_weight p + normalizeSecurityScore (rq_security_score q) * mp_security_weight p
         + normalizeReliabilityScore (rq_reliability_score q) * mp_reliability_weight p"
    by (auto simp: score_def Let_def nan_op_def normalizeFeeScore_def normalizeTimeScore_def split: option.splits)
  show ?thesis
    using w [of f "mp_fee_weight p"] w [of t "mp_time_weight p"]
      w [of "normalizeSecurityScore (rq_security_score q)" "mp_security_weight p"]
      w [of "normalizeReliabilityScore (rq_reliability_score q)" "mp_reliability_weight p"]
      normalizeUpTo_bounds [OF assms(1) ft(1)] normalizeUpTo_bounds [OF assms(2) ft(2)] sec assms
    by (simp add: ft(3))
qed

text \<open>No better total, where both are numbers.\<close>

definition no_better :: "route_score \<Rightarrow> route_score \<Rightarrow> bool" where
  "no_better s' s = (case (rs_total s', rs_total s) of (Some x, Some y) \<Rightarrow> x \<le> y | _ \<Rightarrow> False)"

lemma rank_elements:
  assumes "set (arrange (map (\<lambda>q. (q, score p q)) quotes)) = set (map (\<lambda>q. (q, score p q)) quotes)"
  shows "set (rank arrange p quotes) = set (map (\<lambda>q. (q, score p q)) quotes)"
  using assms unfolding rank_def Let_def by simp

lemma selectBest_spec:
  assumes "set (arrange (map (\<lambda>q. (q, score p q)) quotes)) = set (map (\<lambda>q. (q, score p q)) quotes)"
  shows "case selectBest arrange p quotes of
     None \<Rightarrow> quotes = []
   | Some (q, s) \<Rightarrow> q \<in> set quotes \<and> s = score p q
       \<and> ((\<forall>q' \<in> set quotes. rs_total (score p q') \<noteq> None) \<longrightarrow> (\<forall>q' \<in> set quotes. no_better (score p q') s))"
proof (cases "rank arrange p quotes")
  case Nil
  then have "quotes = []" using rank_elements [where arrange = arrange and p = p and quotes = quotes, OF assms] by simp
  then show ?thesis by (simp add: selectBest_def)
next
  case (Cons x rest)
  obtain q s where x: "x = (q, s)" by (cases x)
  have ne: "quotes \<noteq> []" using Cons rank_elements [where arrange = arrange and p = p and quotes = quotes, OF assms] by force
  have "x \<in> set (rank arrange p quotes)" using Cons by simp
  then have "x \<in> set (map (\<lambda>q. (q, score p q)) quotes)" using rank_elements [where arrange = arrange and p = p and quotes = quotes, OF assms] by simp
  then have q: "q \<in> set quotes" "s = score p q" by (auto simp: x)
  have "no_better (score p q') s" if nums: "\<forall>q' \<in> set quotes. rs_total (score p q') \<noteq> None" and q': "q' \<in> set quotes" for q'
  proof -
    have "rank arrange p quotes = sort_key (\<lambda>(_, s). - total_number s) (map (\<lambda>q. (q, score p q)) quotes)"
      using nums by (auto simp: rank_def Let_def list_all_iff)
    from sort_key_head_min [OF this [unfolded Cons, symmetric], of "(q', score p q')"] q'
    have "total_number (score p q') \<le> total_number s" by (auto simp: x)
    then show ?thesis using nums q q' by (auto simp: no_better_def total_number_def split: option.splits)
  qed
  with q Cons x ne show ?thesis by (auto simp: selectBest_def)
qed

section \<open>Quotes\<close>

lemma isHealthy_same [simp]:
  "pv_quote (fst (isHealthy now p)) = pv_quote p" "pv_latency (fst (isHealthy now p)) = pv_latency p"
  "pv_options (fst (isHealthy now p)) = pv_options p"
  by (simp_all add: isHealthy_def split: prod.splits)

text \<open>The quote a provider gives in time: its breaker admits the call, and the call succeeds fast enough.\<close>

definition offer_of :: "engine_config \<Rightarrow> int \<Rightarrow> quote_params \<Rightarrow> provider \<Rightarrow> route_quote option" where
  "offer_of cfg now params p =
     (case pv_quote p params of
        Inl _ \<Rightarrow> None
      | Inr q \<Rightarrow> if snd (isHealthy now p) \<and> pv_latency p params < ec_quote_timeout cfg then Some q else None)"

lemma fetch_one_offer: "snd (fetch_one cfg now params p) = offer_of cfg now params p"
  by (auto simp: fetch_one_def offer_of_def provider_quote_def cb_execute_def execute_enter_def execute_settle_def
      isHealthy_def getState_def Let_def split: sum.splits prod.splits if_splits)

lemma offer_of_checked: "snd (isHealthy now p) \<Longrightarrow> offer_of cfg now params (fst (isHealthy now p)) = offer_of cfg now params p"
  by (auto simp: offer_of_def isHealthy_def getState_def Let_def split: sum.splits)

text \<open>
  What the selection has to choose from: the offers of the registered providers for both chains
  that have not expired when the answers are in.
\<close>

definition route_offers :: "engine_config \<Rightarrow> int \<Rightarrow> int \<Rightarrow> quote_params \<Rightarrow> provider_registry \<Rightarrow> route_quote list" where
  "route_offers cfg t1 t2 params reg =
     filter (\<lambda>q. rq_expires_at q > t2)
       (List.map_filter (offer_of cfg t1 params)
          (getSupportedProviders reg (qp_source_chain params) (qp_target_chain params)))"

lemma fetched_offers:
  "snd (fetchQuotesParallel cfg now params ps) = List.map_filter (offer_of cfg now params) ps"
  unfolding fetchQuotesParallel_def Let_def
proof (induction ps)
  case (Cons p ps)
  then show ?case
    using fetch_one_offer [of cfg now params p]
    by (cases "fetch_one cfg now params p") (simp add: map_filter_simps split: option.splits)
qed (simp add: map_filter_simps)

lemma checked_offers:
  "List.map_filter (offer_of cfg t1 params) (map fst (filter snd (map (isHealthy t1) ps)))
     = List.map_filter (offer_of cfg t1 params) ps"
proof (induction ps)
  case (Cons p ps)
  show ?case
  proof (cases "snd (isHealthy t1 p)")
    case True
    then show ?thesis using Cons offer_of_checked [OF True] by (simp add: map_filter_simps split: option.splits)
  next
    case False
    then have "offer_of cfg t1 params p = None" by (simp add: offer_of_def split: sum.splits)
    with False Cons show ?thesis by (simp add: map_filter_simps)
  qed
qed simp

section \<open>Properties\<close>

text \<open>C5: \<open>selectBestRoute\<close> returns, with its score, an offer that no other offer beats, the offers being
  the unexpired quotes that healthy registered providers for both chains give within the timeout;
  it throws NoValidQuotes exactly when there is no offer or fewer than the required number.  When an
  adapter computed \<open>NaN\<close> for the fee or the time of an offer, the order of the sort is not determined,
  and only that an offer is returned is known.\<close>

theorem selectBestRoute_optimal:
  assumes "\<forall>xs. set (arrange xs) = set xs"
  shows "case snd (selectBestRoute arrange cfg prefs t1 t2 params reg) of
     Inr (q, s) \<Rightarrow> q \<in> set (route_offers cfg t1 t2 params reg) \<and> s = score prefs q
       \<and> (if list_all (\<lambda>q'. rq_estimated_fee q' \<noteq> None \<and> rq_estimated_time q' \<noteq> None) (route_offers cfg t1 t2 params reg)
          then list_all (\<lambda>q'. no_better (score prefs q') s) (route_offers cfg t1 t2 params reg) else True)
       \<and> ec_min_quotes cfg \<le> length (route_offers cfg t1 t2 params reg)
   | Inl x \<Rightarrow> x = NoValidQuotes \<and> (route_offers cfg t1 t2 params reg = []
       \<or> length (route_offers cfg t1 t2 params reg) < ec_min_quotes cfg)"
proof -
  let ?sup = "getSupportedProviders reg (qp_source_chain params) (qp_target_chain params)"
  let ?checked = "if ec_skip_open cfg then map (isHealthy t1) ?sup else map (\<lambda>p. (p, True)) ?sup"
  let ?ps = "map fst (filter snd ?checked)"
  let ?offers = "route_offers cfg t1 t2 params reg"
  have offers: "filter (\<lambda>q. rq_expires_at q > t2) (snd (fetchQuotesParallel cfg t1 params ?ps)) = ?offers"
    unfolding fetched_offers route_offers_def
    by (cases "ec_skip_open cfg") (simp_all add: checked_offers comp_def)
  have none: "?offers = []" if "?ps = []"
    using offers unfolding that fetchQuotesParallel_def by simp
  obtain asked quotes where fq: "fetchQuotesParallel cfg t1 params ?ps = (asked, quotes)" by (rule prod.exhaust)
  have snd_eq: "snd (selectBestRoute arrange cfg prefs t1 t2 params reg) =
    (if ?ps = [] then Inl NoValidQuotes else if length ?offers < ec_min_quotes cfg then Inl NoValidQuotes
     else case selectBest arrange prefs ?offers of None \<Rightarrow> Inl NoValidQuotes | Some best \<Rightarrow> Inr best)"
    using offers unfolding selectBestRoute_def Let_def fq by (auto split: option.splits)
  show ?thesis
    unfolding snd_eq using none selectBest_spec [where arrange = arrange and p = prefs and quotes = ?offers] assms
    by (cases "selectBest arrange prefs ?offers") (auto simp: list_all_iff score_is_number split: if_splits)
qed

text \<open>An example: a cheap and an expensive provider for the same pair of chains.\<close>

definition demo_quote :: "string \<Rightarrow> rat \<Rightarrow> route_quote" where
  "demo_quote name fee = \<lparr> rq_id = name, rq_provider = name, rq_source_chain = ''eth'', rq_source_asset = ''ETH'',
     rq_source_amount = 1, rq_target_chain = ''pol'', rq_target_asset = ''USDC'', rq_target_amount = Some 2000,
     rq_steps = [], rq_estimated_fee = Some fee, rq_estimated_time = Some 60, rq_security_score = 90,
     rq_reliability_score = 90, rq_expires_at = 5000 \<rparr>"

definition demo_provider :: "string \<Rightarrow> rat \<Rightarrow> provider" where
  "demo_provider name fee = \<lparr> pv_name = name, pv_chains = [''eth'', ''pol''], pv_options = DEFAULT_OPTIONS,
     pv_breaker = new_circuit, pv_quote = (\<lambda>_. Inr (demo_quote name fee)), pv_latency = (\<lambda>_. 100),
     pv_execute = (\<lambda>_. Inl (JsThrown ''x'')), pv_status = (\<lambda>_. Inr RT_PENDING) \<rparr>"

definition demo_params :: quote_params where
  "demo_params = \<lparr> qp_source_chain = ''eth'', qp_source_asset = ''ETH'', qp_source_amount = 1,
     qp_target_chain = ''pol'', qp_target_asset = ''USDC'', qp_target_amount = 2000 \<rparr>"

theorem selectBestRoute_optimal_witness:
  "no_better (score DEFAULT_PREFERENCES (demo_quote ''dear'' 50)) (score DEFAULT_PREFERENCES (demo_quote ''cheap'' 5))"
proof -
  let ?reg = "[(''dear'', demo_provider ''dear'' 50), (''cheap'', demo_provider ''cheap'' 5)]"
  let ?offers = "route_offers DEFAULT_ENGINE_CONFIG 1000 1100 demo_params ?reg"
  have best: "case snd (selectBestRoute rev DEFAULT_ENGINE_CONFIG DEFAULT_PREFERENCES 1000 1100 demo_params ?reg) of
      Inl _ \<Rightarrow> False | Inr (q, s) \<Rightarrow> q = demo_quote ''cheap'' 5"
    by code_simp
  have offers: "demo_quote ''dear'' 50 \<in> set ?offers"
      "list_all (\<lambda>q. rq_estimated_fee q \<noteq> None \<and> rq_estimated_time q \<noteq> None) ?offers"
    by code_simp+
  have "\<forall>xs. set (rev xs) = set (xs :: scored_quotes)" by simp
  from selectBestRoute_optimal [OF this, where cfg = DEFAULT_ENGINE_CONFIG and prefs = DEFAULT_PREFERENCES and ?t1.0 = 1000
      and ?t2.0 = 1100 and params = demo_params and reg = ?reg] best offers
  show ?thesis by (auto simp: list_all_iff split: sum.splits)
qed

text \<open>One \<open>NaN\<close> spoils the ranking: an engine that leaves such a list in its order returns the expensive offer.\<close>

definition nan_provider :: provider where
  "nan_provider = (demo_provider ''nan'' 0)\<lparr> pv_quote := (\<lambda>_. Inr ((demo_quote ''nan'' 0)\<lparr> rq_estimated_fee := None \<rparr>)) \<rparr>"

lemma nan_fee_spoils_ranking:
  "map_sum id (rq_id \<circ> fst) (snd (selectBestRoute id DEFAULT_ENGINE_CONFIG DEFAULT_PREFERENCES 1000 1100 demo_params
     [(''dear'', demo_provider ''dear'' 50), (''nan'', nan_provider), (''cheap'', demo_provider ''cheap'' 5)])) = Inr ''dear''"
  by code_simp

end
