(* ===== verification/Recovery.thy ===== *)
theory Recovery
  imports Intent_Repository Job_Queue
begin

text \<open>
  Recovery of failed payments (\<open>packages/recovery/src/recovery.repository.ts\<close> and
  \<open>recovery.service.ts\<close>): the recovery_cases table and the service that detects, verifies and
  resolves cases.  Chain clients are a parameter, of which the service uses whether one is there
  and its address validation.
\<close>

datatype case_type = RC_MISDIRECTED | RC_UNDERPAID | RC_OVERPAID | RC_STUCK

datatype case_status = RC_DETECTED | RC_VERIFYING | RC_RESOLVING | RC_RESOLVED | RC_FAILED

datatype resolution_action =
  AUTO_REFUND | AUTO_CREDIT | TOP_UP_LINK | RE_QUOTE | FEE_BUMP | RELAYER_ACCELERATION

record recovery_case =
  rc_id :: string
  rc_related_intent_id :: "string option"
  rc_case_type :: case_type
  rc_status :: case_status
  rc_customer_address :: string
  rc_customer_chain :: string
  rc_intended_chain :: string
  rc_asset :: string
  rc_amount :: rat
  rc_tx_hash :: "string option"
  rc_resolution_action :: "resolution_action option"
  rc_resolution_tx_hash :: "string option"
  rc_created_at :: int
  rc_updated_at :: int
  rc_resolved_at :: "int option"

record new_case =
  nc_related_intent_id :: "string option"
  nc_case_type :: case_type
  nc_customer_address :: string
  nc_customer_chain :: string
  nc_intended_chain :: string
  nc_asset :: string
  nc_amount :: rat
  nc_tx_hash :: "string option"

text \<open>The fields of an update; the outer option is \<open>undefined\<close>, the inner one null.\<close>

record case_update =
  cu_status :: "case_status option"
  cu_resolution_action :: "resolution_action option"
  cu_resolution_tx_hash :: "string option option"
  cu_resolved_at :: "int option option"

definition no_update :: case_update where
  "no_update = \<lparr> cu_status = None, cu_resolution_action = None, cu_resolution_tx_hash = None, cu_resolved_at = None \<rparr>"

record recovery_db =
  rv_cases :: "recovery_case list"
  rv_ids :: nat

section \<open>Repository\<close>

definition case_of :: "env \<Rightarrow> string \<Rightarrow> new_case \<Rightarrow> rat \<Rightarrow> recovery_case" where
  "case_of e i p amount = \<lparr> rc_id = i, rc_related_intent_id = nc_related_intent_id p, rc_case_type = nc_case_type p,
     rc_status = RC_DETECTED, rc_customer_address = nc_customer_address p, rc_customer_chain = nc_customer_chain p,
     rc_intended_chain = nc_intended_chain p, rc_asset = nc_asset p, rc_amount = amount, rc_tx_hash = nc_tx_hash p,
     rc_resolution_action = None, rc_resolution_tx_hash = None, rc_created_at = e_now e, rc_updated_at = e_now e,
     rc_resolved_at = None \<rparr>"

text \<open>\<open>fk\<close> says which intents exist; the row returned is the stored one.\<close>

definition create_case ::
    "(string \<Rightarrow> bool) \<Rightarrow> env \<Rightarrow> new_case \<Rightarrow> recovery_db \<Rightarrow> recovery_db \<times> (js_error + recovery_case)" where
  "create_case fk e p s =
     (let i = e_uuid e (rv_ids s); s1 = s\<lparr> rv_ids := Suc (rv_ids s) \<rparr> in
      if \<not> ((case nc_related_intent_id p of None \<Rightarrow> True | Some x \<Rightarrow> fk x) \<and> fits 255 (nc_customer_address p)
            \<and> fits 20 (nc_customer_chain p) \<and> fits 20 (nc_intended_chain p) \<and> fits 20 (nc_asset p)
            \<and> (case nc_tx_hash p of None \<Rightarrow> True | Some h \<Rightarrow> fits 255 h))
      then (s1, Inl (JsError ''error'' ''constraint''))
      else case pg_decimal 20 8 (nc_amount p) of
             None \<Rightarrow> (s1, Inl (JsError ''error'' ''numeric field overflow''))
           | Some amount \<Rightarrow>
               (case tbl_insert rc_id (case_of e i p amount) (rv_cases s) of
                  None \<Rightarrow> (s1, Inl (JsError ''error'' ''duplicate key''))
                | Some rows \<Rightarrow> (s1\<lparr> rv_cases := rows \<rparr>, Inr (case_of e i p amount))))"

definition findCase :: "recovery_db \<Rightarrow> string \<Rightarrow> recovery_case option" where
  "findCase s i = tbl_find (\<lambda>r. rc_id r = i) (rv_cases s)"

definition apply_update :: "int \<Rightarrow> case_update \<Rightarrow> recovery_case \<Rightarrow> recovery_case" where
  "apply_update now u r = r\<lparr>
     rc_status := (case cu_status u of None \<Rightarrow> rc_status r | Some x \<Rightarrow> x),
     rc_resolution_action := (case cu_resolution_action u of None \<Rightarrow> rc_resolution_action r | Some a \<Rightarrow> Some a),
     rc_resolution_tx_hash := (case cu_resolution_tx_hash u of None \<Rightarrow> rc_resolution_tx_hash r | Some h \<Rightarrow> h),
     rc_resolved_at := (case cu_resolved_at u of None \<Rightarrow> rc_resolved_at r | Some t \<Rightarrow> t),
     rc_updated_at := now \<rparr>"

definition update_case ::
    "int \<Rightarrow> string \<Rightarrow> case_update \<Rightarrow> recovery_db \<Rightarrow> recovery_db \<times> (js_error + recovery_case)" where
  "update_case now i u s =
     (case findCase s i of
        None \<Rightarrow> (s, Inl (JsError ''Error'' (''Recovery case not found: '' @ i)))
      | Some r \<Rightarrow>
          if (case cu_resolution_tx_hash u of Some (Some h) \<Rightarrow> fits 255 h | _ \<Rightarrow> True)
          then (s\<lparr> rv_cases := tbl_update (\<lambda>r. rc_id r = i) (apply_update now u) (rv_cases s) \<rparr>,
                Inr (apply_update now u r))
          else (s, Inl (JsError ''error'' ''value too long'')))"

definition findByTypeAndStatus :: "recovery_db \<Rightarrow> case_type \<Rightarrow> case_status \<Rightarrow> recovery_case list" where
  "findByTypeAndStatus s ty st =
     order_asc rc_created_at (filter (\<lambda>r. rc_case_type r = ty \<and> rc_status r = st) (rv_cases s))"

definition cases_of_intent :: "recovery_db \<Rightarrow> string \<Rightarrow> recovery_case list" where
  "cases_of_intent s i = order_desc rc_created_at (filter (\<lambda>r. rc_related_intent_id r = Some i) (rv_cases s))"

definition findByCustomerAddress :: "recovery_db \<Rightarrow> string \<Rightarrow> string \<Rightarrow> recovery_case list" where
  "findByCustomerAddress s a c = order_desc rc_created_at
     (filter (\<lambda>r. rc_customer_address r = a \<and> rc_customer_chain r = c) (rv_cases s))"

definition is_stuck :: "int \<Rightarrow> recovery_case \<Rightarrow> bool" where
  "is_stuck cutoff r = (rc_case_type r = RC_STUCK \<and> rc_status r \<in> {RC_DETECTED, RC_VERIFYING} \<and> rc_created_at r < cutoff)"

definition findStuckTransactions :: "int \<Rightarrow> int \<Rightarrow> recovery_db \<Rightarrow> recovery_case list" where
  "findStuckTransactions now maxAgeMs s = order_asc rc_created_at (filter (is_stuck (now - maxAgeMs)) (rv_cases s))"

definition recovery_getStats :: "recovery_db \<Rightarrow> case_type \<Rightarrow> case_status \<Rightarrow> nat" where
  "recovery_getStats s ty st = length (filter (\<lambda>r. rc_case_type r = ty \<and> rc_status r = st) (rv_cases s))"

section \<open>Detection and verification\<close>

definition detect ::
    "case_type \<Rightarrow> (string \<Rightarrow> bool) \<Rightarrow> env \<Rightarrow> string option \<Rightarrow> string \<Rightarrow> string \<Rightarrow> string \<Rightarrow> string \<Rightarrow> rat \<Rightarrow> string
       \<Rightarrow> recovery_db \<Rightarrow> recovery_db \<times> (js_error + recovery_case)" where
  "detect ty fk e intentId address chain intended asset amount txHash = create_case fk e
     \<lparr> nc_related_intent_id = intentId, nc_case_type = ty, nc_customer_address = address, nc_customer_chain = chain,
       nc_intended_chain = intended, nc_asset = asset, nc_amount = amount, nc_tx_hash = Some txHash \<rparr>"

definition detectMisdirected where "detectMisdirected = detect RC_MISDIRECTED"

definition detectStuck ::
    "(string \<Rightarrow> bool) \<Rightarrow> env \<Rightarrow> string \<Rightarrow> string \<Rightarrow> string \<Rightarrow> string \<Rightarrow> string \<Rightarrow> rat \<Rightarrow> string
       \<Rightarrow> recovery_db \<Rightarrow> recovery_db \<times> (js_error + recovery_case)" where
  "detectStuck fk e intentId = detect RC_STUCK fk e (Some intentId)"

text \<open>The expected amount is passed and not stored.\<close>

definition detectUnderpayment ::
    "(string \<Rightarrow> bool) \<Rightarrow> env \<Rightarrow> string \<Rightarrow> string \<Rightarrow> string \<Rightarrow> string \<Rightarrow> string \<Rightarrow> rat \<Rightarrow> rat \<Rightarrow> string
       \<Rightarrow> recovery_db \<Rightarrow> recovery_db \<times> (js_error + recovery_case)" where
  "detectUnderpayment fk e intentId address chain intended asset expected received =
     detect RC_UNDERPAID fk e (Some intentId) address chain intended asset received"

definition detectOverpayment ::
    "(string \<Rightarrow> bool) \<Rightarrow> env \<Rightarrow> string \<Rightarrow> string \<Rightarrow> string \<Rightarrow> string \<Rightarrow> string \<Rightarrow> rat \<Rightarrow> rat \<Rightarrow> string
       \<Rightarrow> recovery_db \<Rightarrow> recovery_db \<times> (js_error + recovery_case)" where
  "detectOverpayment fk e intentId address chain intended asset expected received =
     detect RC_OVERPAID fk e (Some intentId) address chain intended asset received"

text \<open>The chain clients by chain: the address validation of each, which may throw.\<close>

type_synonym clients = "(string \<times> (string \<Rightarrow> js_error + bool)) list"

record ownership_proof =
  op_address :: string
  op_signature :: string
  op_message :: string
  op_verified :: bool
  op_verified_at :: "int option"

definition is_hex :: "char \<Rightarrow> bool" where
  "is_hex c = (let n = (of_char c :: nat) in (48 \<le> n \<and> n \<le> 57) \<or> (97 \<le> n \<and> n \<le> 102) \<or> (65 \<le> n \<and> n \<le> 70))"

text \<open>The pattern \<open>^0x[0-9a-fA-F]{130}$\<close>.\<close>

definition is_signature :: "string \<Rightarrow> bool" where
  "is_signature s = (take 2 s = ''0x'' \<and> length s = 132 \<and> list_all is_hex (drop 2 s))"

definition verifyOwnership ::
    "clients \<Rightarrow> int \<Rightarrow> string \<Rightarrow> string \<Rightarrow> string \<Rightarrow> string \<Rightarrow> ownership_proof" where
  "verifyOwnership cl now address signature message chain =
     (let verified = (case map_of cl chain of
            None \<Rightarrow> False
          | Some validate \<Rightarrow> (case validate address of
              Inl _ \<Rightarrow> False
            | Inr ok \<Rightarrow> is_signature signature \<and> ok \<and> 0 < length message))
      in \<lparr> op_address = address, op_signature = signature, op_message = message, op_verified = verified,
           op_verified_at = (if verified then Some now else None) \<rparr>)"

section \<open>Resolution\<close>

datatype resolution_message =
    CaseNotFound string
  | NoChainClient string
  | RefundSent rat string string
  | Credited rat string
  | TopUpFailed
  | TopUpGenerated string int
  | ReQuoted rat string
  | FeeBumpInitiated "string option"
  | AccelerationSubmitted "string option"
  | ErrorText js_error

record resolution_result =
  rx_action :: resolution_action
  rx_success :: bool
  rx_tx_hash :: "string option"
  rx_message :: resolution_message

record top_up_link =
  tl_id :: string
  tl_case_id :: string
  tl_amount :: rat
  tl_asset :: string
  tl_chain :: string
  tl_address :: string
  tl_expires_at :: int
  tl_created_at :: int

record recovery_config =
  rf_stuck_timeout_ms :: int
  rf_confirmation_timeout_ms :: int
  rf_top_up_ttl_seconds :: int
  rf_underpayment_tolerance :: rat
  rf_max_auto_refund_usd :: rat

definition RECOVERY_DEFAULT_CONFIG :: recovery_config where
  "RECOVERY_DEFAULT_CONFIG = \<lparr> rf_stuck_timeout_ms = 30 * 60 * 1000, rf_confirmation_timeout_ms = 5 * 60 * 1000,
     rf_top_up_ttl_seconds = 3600, rf_underpayment_tolerance = 1, rf_max_auto_refund_usd = 10000 \<rparr>"

text \<open>\<open>randomUUID().replace(/-/g, '').slice(0, n)\<close> after 0x.\<close>

definition hex_of_uuid :: "nat \<Rightarrow> string \<Rightarrow> string" where
  "hex_of_uuid n u = ''0x'' @ take n (filter (\<lambda>c. c \<noteq> CHR ''-'') u)"

definition getRelatedIntent :: "recovery_case \<Rightarrow> payment_intent option" where
  "getRelatedIntent _ = None"

definition generateTopUpLink ::
    "recovery_config \<Rightarrow> env \<Rightarrow> string \<Rightarrow> recovery_db \<Rightarrow> recovery_db \<times> top_up_link option" where
  "generateTopUpLink cfg e caseId s =
     (case findCase s caseId of
        None \<Rightarrow> (s, None)
      | Some r \<Rightarrow>
          if rc_case_type r \<noteq> RC_UNDERPAID then (s, None)
          else (case getRelatedIntent r of
                  None \<Rightarrow> (s, None)
                | Some intent \<Rightarrow>
                    (s\<lparr> rv_ids := rv_ids s + 2 \<rparr>,
                     Some \<lparr> tl_id = e_uuid e (Suc (rv_ids s)), tl_case_id = caseId,
                       tl_amount = pi_target_amount intent - rc_amount r, tl_asset = rc_asset r,
                       tl_chain = rc_customer_chain r, tl_address = hex_of_uuid 40 (e_uuid e (rv_ids s)),
                       tl_expires_at = e_now e + rf_top_up_ttl_seconds cfg * 1000, tl_created_at = e_now e \<rparr>)))"

definition with_client ::
    "clients \<Rightarrow> resolution_action \<Rightarrow> env \<Rightarrow> recovery_case \<Rightarrow> resolution_message \<Rightarrow> recovery_db
       \<Rightarrow> recovery_db \<times> resolution_result" where
  "with_client cl action e r message s =
     (case map_of cl (rc_customer_chain r) of
        None \<Rightarrow> (s, \<lparr> rx_action = action, rx_success = False, rx_tx_hash = None,
                     rx_message = NoChainClient (rc_customer_chain r) \<rparr>)
      | Some _ \<Rightarrow> (s\<lparr> rv_ids := Suc (rv_ids s) \<rparr>,
          \<lparr> rx_action = action, rx_success = True, rx_tx_hash = Some (hex_of_uuid 64 (e_uuid e (rv_ids s))),
            rx_message = message \<rparr>))"

definition executeAutoRefund :: "clients \<Rightarrow> env \<Rightarrow> recovery_case \<Rightarrow> recovery_db \<Rightarrow> recovery_db \<times> resolution_result" where
  "executeAutoRefund cl e r s =
     with_client cl AUTO_REFUND e r (RefundSent (rc_amount r) (rc_asset r) (rc_customer_address r)) s"

definition executeRelayerAcceleration ::
    "clients \<Rightarrow> env \<Rightarrow> recovery_case \<Rightarrow> recovery_db \<Rightarrow> recovery_db \<times> resolution_result" where
  "executeRelayerAcceleration cl e r s =
     with_client cl RELAYER_ACCELERATION e r (AccelerationSubmitted (rc_tx_hash r)) s"

definition executeTopUpLink ::
    "recovery_config \<Rightarrow> env \<Rightarrow> recovery_case \<Rightarrow> recovery_db \<Rightarrow> recovery_db \<times> resolution_result" where
  "executeTopUpLink cfg e r s =
     (case generateTopUpLink cfg e (rc_id r) s of
        (s, None) \<Rightarrow> (s, \<lparr> rx_action = TOP_UP_LINK, rx_success = False, rx_tx_hash = None, rx_message = TopUpFailed \<rparr>)
      | (s, Some l) \<Rightarrow> (s, \<lparr> rx_action = TOP_UP_LINK, rx_success = True, rx_tx_hash = None,
                           rx_message = TopUpGenerated (tl_address l) (tl_expires_at l) \<rparr>))"

definition simple_success :: "resolution_action \<Rightarrow> resolution_message \<Rightarrow> resolution_result" where
  "simple_success action message = \<lparr> rx_action = action, rx_success = True, rx_tx_hash = None, rx_message = message \<rparr>"

definition execute_action ::
    "recovery_config \<Rightarrow> clients \<Rightarrow> env \<Rightarrow> resolution_action \<Rightarrow> recovery_case \<Rightarrow> recovery_db
       \<Rightarrow> recovery_db \<times> resolution_result" where
  "execute_action cfg cl e action r s =
     (case action of
        AUTO_REFUND \<Rightarrow> executeAutoRefund cl e r s
      | AUTO_CREDIT \<Rightarrow> (s, simple_success AUTO_CREDIT (Credited (rc_amount r) (rc_asset r)))
      | TOP_UP_LINK \<Rightarrow> executeTopUpLink cfg e r s
      | RE_QUOTE \<Rightarrow> (s, simple_success RE_QUOTE (ReQuoted (rc_amount r) (rc_asset r)))
      | FEE_BUMP \<Rightarrow> (s, simple_success FEE_BUMP (FeeBumpInitiated (rc_tx_hash r)))
      | RELAYER_ACCELERATION \<Rightarrow> executeRelayerAcceleration cl e r s)"

definition resolve ::
    "recovery_config \<Rightarrow> clients \<Rightarrow> env \<Rightarrow> string \<Rightarrow> resolution_action \<Rightarrow> recovery_db
       \<Rightarrow> recovery_db \<times> (js_error + resolution_result)" where
  "resolve cfg cl e caseId action s =
     (case findCase s caseId of
        None \<Rightarrow> (s, Inr \<lparr> rx_action = action, rx_success = False, rx_tx_hash = None, rx_message = CaseNotFound caseId \<rparr>)
      | Some r \<Rightarrow>
          andThen (update_case (e_now e) caseId
              (no_update\<lparr> cu_status := Some RC_RESOLVING, cu_resolution_action := Some action \<rparr>) s) (\<lambda>s _.
            (case execute_action cfg cl e action r s of (s, result) \<Rightarrow>
              (case update_case (e_now e) caseId
                  (no_update\<lparr> cu_status := Some (if rx_success result then RC_RESOLVED else RC_FAILED),
                     cu_resolution_tx_hash := Some (rx_tx_hash result),
                     cu_resolved_at := Some (if rx_success result then Some (e_now e) else None) \<rparr>) s of
                 (s, Inr _) \<Rightarrow> (s, Inr result)
               | (s, Inl x) \<Rightarrow>
                   andThen (update_case (e_now e) caseId (no_update\<lparr> cu_status := Some RC_FAILED \<rparr>) s)
                     (\<lambda>s _. (s, Inr \<lparr> rx_action = action, rx_success = False, rx_tx_hash = None,
                                    rx_message = ErrorText x \<rparr>))))))"

definition autoRefund where "autoRefund cfg cl e caseId = resolve cfg cl e caseId AUTO_REFUND"
definition autoCredit where "autoCredit cfg cl e caseId = resolve cfg cl e caseId AUTO_CREDIT"

fun accelerate_all :: "recovery_config \<Rightarrow> clients \<Rightarrow> env \<Rightarrow> recovery_case list \<Rightarrow> recovery_db \<Rightarrow> recovery_db \<times> nat" where
  "accelerate_all cfg cl e [] s = (s, 0)"
| "accelerate_all cfg cl e (r # rs) s =
     (case resolve cfg cl e (rc_id r) RELAYER_ACCELERATION s of (s1, res) \<Rightarrow>
      (case accelerate_all cfg cl e rs s1 of (s2, n) \<Rightarrow>
        (s2, (case res of Inr x \<Rightarrow> if rx_success x then Suc n else n | Inl _ \<Rightarrow> n))))"

definition processStuckTransactions ::
    "recovery_config \<Rightarrow> clients \<Rightarrow> env \<Rightarrow> recovery_db \<Rightarrow> recovery_db \<times> nat" where
  "processStuckTransactions cfg cl e s =
     accelerate_all cfg cl e (findStuckTransactions (e_now e) (rf_stuck_timeout_ms cfg) s) s"

section \<open>What a resolution does\<close>

interpretation case_row: keyed_update rc_id "apply_update now u" for now u
  by unfold_locales (simp add: apply_update_def)

lemma fits_hex_of_uuid: "n \<le> 253 \<Longrightarrow> fits 255 (hex_of_uuid n u)"
  by (simp add: hex_of_uuid_def fits_def)

lemma update_case_some:
  assumes "findCase s i = Some r" "case cu_resolution_tx_hash u of Some (Some h) \<Rightarrow> fits 255 h | _ \<Rightarrow> True"
  shows "\<exists>s'. update_case now i u s = (s', Inr (apply_update now u r)) \<and> findCase s' i = Some (apply_update now u r)
    \<and> (\<forall>j. j \<noteq> i \<longrightarrow> findCase s' j = findCase s j) \<and> map rc_id (rv_cases s') = map rc_id (rv_cases s)
    \<and> rv_ids s' = rv_ids s"
  using assms case_row.find_updated [of i now u "rv_cases s"] case_row.find_other [of _ i now u "rv_cases s"]
    case_row.keys_kept [of _ now u "rv_cases s"]
  by (auto simp: update_case_def findCase_def)

lemma apply_update_simps [simp]:
  "rc_id (apply_update now u r) = rc_id r" "rc_customer_chain (apply_update now u r) = rc_customer_chain r"
  "rc_case_type (apply_update now u r) = rc_case_type r"
  "rc_status (apply_update now u r) = (case cu_status u of None \<Rightarrow> rc_status r | Some x \<Rightarrow> x)"
  "rc_resolution_tx_hash (apply_update now u r) = (case cu_resolution_tx_hash u of None \<Rightarrow> rc_resolution_tx_hash r | Some h \<Rightarrow> h)"
  by (simp_all add: apply_update_def)

lemma execute_action_effect:
  assumes "execute_action cfg cl e action r s = (s', x)"
  shows "rv_cases s' = rv_cases s \<and> rv_ids s \<le> rv_ids s' \<and> (case rx_tx_hash x of Some h \<Rightarrow> fits 255 h | None \<Rightarrow> True)"
  using assms
  by (cases action)
    (auto simp: fits_hex_of_uuid execute_action_def executeAutoRefund_def executeRelayerAcceleration_def executeTopUpLink_def
      with_client_def generateTopUpLink_def getRelatedIntent_def simple_success_def
      split: option.splits if_splits)

text \<open>The row and the result that a resolution of an existing case leaves; other cases are untouched.\<close>

lemma resolve_some:
  assumes "findCase s i = Some r" "execute_action cfg cl e action r (s\<lparr> rv_cases := rows \<rparr>) = (s1, x)"
    and "rows = tbl_update (\<lambda>r. rc_id r = i) (apply_update (e_now e)
        (no_update\<lparr> cu_status := Some RC_RESOLVING, cu_resolution_action := Some action \<rparr>)) (rv_cases s)"
  shows "\<exists>s' r'. resolve cfg cl e i action s = (s', Inr x) \<and> findCase s' i = Some r'
    \<and> rc_status r' = (if rx_success x then RC_RESOLVED else RC_FAILED) \<and> rc_resolution_tx_hash r' = rx_tx_hash x
    \<and> rc_customer_chain r' = rc_customer_chain r \<and> rv_ids s' = rv_ids s1
    \<and> (\<forall>j. j \<noteq> i \<longrightarrow> findCase s' j = findCase s j) \<and> map rc_id (rv_cases s') = map rc_id (rv_cases s)"
proof -
  let ?u = "no_update\<lparr> cu_status := Some RC_RESOLVING, cu_resolution_action := Some action \<rparr>"
  let ?v = "no_update\<lparr> cu_status := Some (if rx_success x then RC_RESOLVED else RC_FAILED),
    cu_resolution_tx_hash := Some (rx_tx_hash x),
    cu_resolved_at := Some (if rx_success x then Some (e_now e) else None) \<rparr>"
  have u: "update_case (e_now e) i ?u s = (s\<lparr> rv_cases := rows \<rparr>, Inr (apply_update (e_now e) ?u r))"
    using assms(1,3) by (simp add: update_case_def no_update_def)
  obtain s0 where s0: "update_case (e_now e) i ?u s = (s0, Inr (apply_update (e_now e) ?u r))"
    "findCase s0 i = Some (apply_update (e_now e) ?u r)" "\<forall>j. j \<noteq> i \<longrightarrow> findCase s0 j = findCase s j"
    "map rc_id (rv_cases s0) = map rc_id (rv_cases s)"
    using update_case_some [OF assms(1), of ?u "e_now e"] by (auto simp: no_update_def)
  have eq0: "s0 = s\<lparr> rv_cases := rows \<rparr>" using u s0(1) by simp
  note ex = execute_action_effect [OF assms(2)]
  have same: "findCase s1 j = findCase s0 j" for j using ex by (simp add: findCase_def eq0)
  have "case cu_resolution_tx_hash ?v of Some (Some h) \<Rightarrow> fits 255 h | _ \<Rightarrow> True"
    using ex by (simp split: option.splits)
  from update_case_some [OF _ this, of s1 i _ "e_now e"] obtain s' where
    s': "update_case (e_now e) i ?v s1 = (s', Inr (apply_update (e_now e) ?v (apply_update (e_now e) ?u r)))"
    "findCase s' i = Some (apply_update (e_now e) ?v (apply_update (e_now e) ?u r))"
    "\<forall>j. j \<noteq> i \<longrightarrow> findCase s' j = findCase s1 j" "map rc_id (rv_cases s') = map rc_id (rv_cases s1)"
    "rv_ids s' = rv_ids s1"
    using same [of i] s0(2) by auto
  have "resolve cfg cl e i action s = (s', Inr x)"
    using assms(1,2) u s'(1) by (simp add: resolve_def)
  moreover have "map rc_id (rv_cases s') = map rc_id (rv_cases s)"
    using s'(4) s0(4) ex by (simp add: eq0)
  ultimately show ?thesis
    using s'(2,3,5) same s0(3)
    by (intro exI [of _ s'] exI [of _ "apply_update (e_now e) ?v (apply_update (e_now e) ?u r)"]) simp
qed

text \<open>The two actions that need a chain client of the customer's chain.\<close>

lemma with_client_outcome:
  "\<exists>s1 x. with_client cl action e r message s = (s1, x) \<and> rx_success x = (map_of cl (rc_customer_chain r) \<noteq> None)
     \<and> rv_ids s1 = (if map_of cl (rc_customer_chain r) = None then rv_ids s else Suc (rv_ids s))
     \<and> rx_tx_hash x = (if map_of cl (rc_customer_chain r) = None then None
                      else Some (hex_of_uuid 64 (e_uuid e (rv_ids s))))"
  by (simp add: with_client_def split: option.splits)

lemma resolve_client_action:
  assumes "findCase s i = Some r" "action \<in> {AUTO_REFUND, RELAYER_ACCELERATION}"
  shows "\<exists>s' r' x. resolve cfg cl e i action s = (s', Inr x) \<and> findCase s' i = Some r'
    \<and> rx_success x = (map_of cl (rc_customer_chain r) \<noteq> None)
    \<and> rc_status r' = (if rx_success x then RC_RESOLVED else RC_FAILED)
    \<and> rx_tx_hash x = (if rx_success x then Some (hex_of_uuid 64 (e_uuid e (rv_ids s))) else None)
    \<and> rv_ids s' = (if rx_success x then Suc (rv_ids s) else rv_ids s)
    \<and> rc_customer_chain r' = rc_customer_chain r
    \<and> (\<forall>j. j \<noteq> i \<longrightarrow> findCase s' j = findCase s j) \<and> map rc_id (rv_cases s') = map rc_id (rv_cases s)"
proof -
  let ?rows = "tbl_update (\<lambda>r. rc_id r = i) (apply_update (e_now e)
    (no_update\<lparr> cu_status := Some RC_RESOLVING, cu_resolution_action := Some action \<rparr>)) (rv_cases s)"
  have "\<exists>m. execute_action cfg cl e action r (s\<lparr> rv_cases := ?rows \<rparr>)
      = with_client cl action e r m (s\<lparr> rv_cases := ?rows \<rparr>)"
    using assms(2) by (auto simp: execute_action_def executeAutoRefund_def executeRelayerAcceleration_def)
  then obtain m where m: "execute_action cfg cl e action r (s\<lparr> rv_cases := ?rows \<rparr>)
      = with_client cl action e r m (s\<lparr> rv_cases := ?rows \<rparr>)" by blast
  from with_client_outcome [of cl action e r m "s\<lparr> rv_cases := ?rows \<rparr>"] obtain s1 x where
    x: "with_client cl action e r m (s\<lparr> rv_cases := ?rows \<rparr>) = (s1, x)"
    "rx_success x = (map_of cl (rc_customer_chain r) \<noteq> None)"
    "rv_ids s1 = (if map_of cl (rc_customer_chain r) = None then rv_ids s else Suc (rv_ids s))"
    "rx_tx_hash x = (if map_of cl (rc_customer_chain r) = None then None
                     else Some (hex_of_uuid 64 (e_uuid e (rv_ids s))))" by auto
  from resolve_some [OF assms(1) m [unfolded x(1)] refl] obtain s' r' where
    "resolve cfg cl e i action s = (s', Inr x)" "findCase s' i = Some r'"
    "rc_status r' = (if rx_success x then RC_RESOLVED else RC_FAILED)"
    "rc_customer_chain r' = rc_customer_chain r" "rv_ids s' = rv_ids s1"
    "\<forall>j. j \<noteq> i \<longrightarrow> findCase s' j = findCase s j" "map rc_id (rv_cases s') = map rc_id (rv_cases s)"
    by blast
  with x(2-4) show ?thesis by auto
qed

section \<open>The sweep of stuck transactions\<close>

lemma accelerate_all_effect:
  assumes "\<forall>r \<in> set rs. findCase s (rc_id r) = Some r" "distinct (map rc_id rs)"
  shows "(\<forall>r \<in> set rs. \<exists>r'. findCase (fst (accelerate_all cfg cl e rs s)) (rc_id r) = Some r'
        \<and> rc_status r' = (if map_of cl (rc_customer_chain r) = None then RC_FAILED else RC_RESOLVED))
    \<and> (\<forall>j. j \<notin> rc_id ` set rs \<longrightarrow> findCase (fst (accelerate_all cfg cl e rs s)) j = findCase s j)
    \<and> map rc_id (rv_cases (fst (accelerate_all cfg cl e rs s))) = map rc_id (rv_cases s)
    \<and> snd (accelerate_all cfg cl e rs s) = length (filter (\<lambda>r. map_of cl (rc_customer_chain r) \<noteq> None) rs)"
  using assms
proof (induction rs arbitrary: s)
  case (Cons r rs)
  from Cons.prems(1) have r: "findCase s (rc_id r) = Some r" by simp
  obtain s1 r' x where res: "resolve cfg cl e (rc_id r) RELAYER_ACCELERATION s = (s1, Inr x)"
    "findCase s1 (rc_id r) = Some r'" "rx_success x = (map_of cl (rc_customer_chain r) \<noteq> None)"
    "rc_status r' = (if rx_success x then RC_RESOLVED else RC_FAILED)"
    "\<forall>j. j \<noteq> rc_id r \<longrightarrow> findCase s1 j = findCase s j" "map rc_id (rv_cases s1) = map rc_id (rv_cases s)"
    using resolve_client_action [OF r, of RELAYER_ACCELERATION cfg cl e] by auto
  obtain s2 n where acc: "accelerate_all cfg cl e rs s1 = (s2, n)" by (rule prod.exhaust)
  have notin: "rc_id r \<notin> rc_id ` set rs" using Cons.prems(2) by simp
  have "\<forall>q \<in> set rs. findCase s1 (rc_id q) = Some q"
    using Cons.prems(1) res(5) notin by (metis imageI list.set_intros(2))
  from Cons.IH [OF this] Cons.prems(2) acc have IH:
    "\<forall>q \<in> set rs. \<exists>q'. findCase s2 (rc_id q) = Some q'
        \<and> rc_status q' = (if map_of cl (rc_customer_chain q) = None then RC_FAILED else RC_RESOLVED)"
    "\<forall>j. j \<notin> rc_id ` set rs \<longrightarrow> findCase s2 j = findCase s1 j"
    "map rc_id (rv_cases s2) = map rc_id (rv_cases s1)"
    "n = length (filter (\<lambda>r. map_of cl (rc_customer_chain r) \<noteq> None) rs)" by simp_all
  have "findCase s2 (rc_id r) = Some r'" using IH(2) notin res(2) by simp
  then show ?case using IH res acc by simp
qed simp

lemma findCase_of_mem:
  "distinct (map rc_id (rv_cases s)) \<Longrightarrow> r \<in> set (rv_cases s) \<Longrightarrow> findCase s (rc_id r) = Some r"
  unfolding findCase_def by (rule tbl_find_unique)

section \<open>Properties\<close>

text \<open>C24: The sweep of stuck transactions resolves every STUCK case that is DETECTED or VERIFYING for longer
  than the timeout when there is a client of its chain, marks it FAILED when there is none, leaves
  every other case as it is and loses none; it returns the number of the resolved ones.\<close>

theorem stuck_sweep_resolves:
  assumes "distinct (map rc_id (rv_cases s))"
    and "processStuckTransactions cfg cl e s = (s', n)"
  shows "(\<forall>r \<in> set (rv_cases s). if is_stuck (e_now e - rf_stuck_timeout_ms cfg) r
        then (\<exists>r'. findCase s' (rc_id r) = Some r'
          \<and> rc_status r' = (if map_of cl (rc_customer_chain r) = None then RC_FAILED else RC_RESOLVED))
        else findCase s' (rc_id r) = Some r)
    \<and> map rc_id (rv_cases s') = map rc_id (rv_cases s)
    \<and> n = length (filter (\<lambda>r. is_stuck (e_now e - rf_stuck_timeout_ms cfg) r
                             \<and> map_of cl (rc_customer_chain r) \<noteq> None) (rv_cases s))"
proof -
  let ?rs = "findStuckTransactions (e_now e) (rf_stuck_timeout_ms cfg) s"
  let ?stuck = "is_stuck (e_now e - rf_stuck_timeout_ms cfg)"
  have mem: "set ?rs = {r \<in> set (rv_cases s). ?stuck r}" by (auto simp: findStuckTransactions_def)
  have dist: "distinct (map rc_id ?rs)"
  proof -
    have "distinct (map rc_id (filter ?stuck (rv_cases s)))" using assms(1) by (rule distinct_map_filter)
    then have "inj_on rc_id (set ?rs)" "distinct (filter ?stuck (rv_cases s))"
      by (auto simp: distinct_map findStuckTransactions_def)
    then show ?thesis by (simp add: distinct_map findStuckTransactions_def order_asc_def)
  qed
  have found: "\<forall>r \<in> set ?rs. findCase s (rc_id r) = Some r"
    using mem findCase_of_mem [OF assms(1)] by auto
  note eff = accelerate_all_effect [OF found dist, of cfg cl e]
  have run: "accelerate_all cfg cl e ?rs s = (s', n)" using assms(2) by (simp add: processStuckTransactions_def)
  have count: "length (filter Q ?rs) = length (filter (\<lambda>r. ?stuck r \<and> Q r) (rv_cases s))" for Q
    by (simp add: findStuckTransactions_def order_asc_def filter_sort conj_commute)
  have other: "findCase s' (rc_id r) = Some r" if "r \<in> set (rv_cases s)" "\<not> ?stuck r" for r
  proof -
    have "rc_id r \<notin> rc_id ` set ?rs"
      using that mem assms(1) by (auto simp: distinct_map inj_on_def)
    then show ?thesis using eff run findCase_of_mem [OF assms(1) that(1)] by simp
  qed
  show ?thesis using eff run mem count other by auto
qed

definition demo_case :: "string \<Rightarrow> string \<Rightarrow> recovery_case" where
  "demo_case i chain = \<lparr> rc_id = i, rc_related_intent_id = None, rc_case_type = RC_STUCK, rc_status = RC_DETECTED,
     rc_customer_address = ''a'', rc_customer_chain = chain, rc_intended_chain = chain, rc_asset = ''ETH'',
     rc_amount = 1, rc_tx_hash = Some ''h'', rc_resolution_action = None, rc_resolution_tx_hash = None,
     rc_created_at = 0, rc_updated_at = 0, rc_resolved_at = None \<rparr>"

definition demo_recovery :: recovery_db where
  "demo_recovery = \<lparr> rv_cases = [demo_case ''x'' ''eth'', demo_case ''y'' ''sol''], rv_ids = 0 \<rparr>"

theorem stuck_sweep_resolves_witness:
  "snd (processStuckTransactions RECOVERY_DEFAULT_CONFIG [(''eth'', \<lambda>_. Inr True)]
      \<lparr> e_now = 2000000, e_uuid = (\<lambda>n. replicate n (CHR ''x'')) \<rparr> demo_recovery) = 1"
proof -
  let ?e = "\<lparr> e_now = 2000000, e_uuid = (\<lambda>n. replicate n (CHR ''x'')) \<rparr>"
  obtain s' n where run: "processStuckTransactions RECOVERY_DEFAULT_CONFIG [(''eth'', \<lambda>_. Inr True)] ?e demo_recovery = (s', n)"
    by (rule prod.exhaust)
  have "distinct (map rc_id (rv_cases demo_recovery))" by (simp add: demo_recovery_def demo_case_def)
  from stuck_sweep_resolves [OF this run] run show ?thesis
    by (simp add: demo_recovery_def demo_case_def is_stuck_def RECOVERY_DEFAULT_CONFIG_def)
qed

fun refund_times :: "recovery_config \<Rightarrow> clients \<Rightarrow> string \<Rightarrow> env list \<Rightarrow> recovery_db \<Rightarrow> (js_error + resolution_result) list" where
  "refund_times cfg cl i [] s = []"
| "refund_times cfg cl i (e # es) s =
     (case autoRefund cfg cl e i s of (s', r) \<Rightarrow> r # refund_times cfg cl i es s')"

lemma refund_times_success:
  assumes "findCase s i = Some r" "map_of cl (rc_customer_chain r) \<noteq> None"
  shows "list_all (\<lambda>x. \<exists>y. x = Inr y \<and> rx_success y) (refund_times cfg cl i es s)
    \<and> map (\<lambda>x. case x of Inl _ \<Rightarrow> None | Inr y \<Rightarrow> rx_tx_hash y) (refund_times cfg cl i es s)
      = map (\<lambda>(e, k). Some (hex_of_uuid 64 (e_uuid e k))) (zip es [rv_ids s..<rv_ids s + length es])"
  using assms
proof (induction es arbitrary: s r)
  case (Cons e es)
  from resolve_client_action [OF Cons.prems(1), of AUTO_REFUND cfg cl e] Cons.prems(2) obtain s' r' x where
    res: "autoRefund cfg cl e i s = (s', Inr x)" "findCase s' i = Some r'" "rx_success x"
    "rx_tx_hash x = Some (hex_of_uuid 64 (e_uuid e (rv_ids s)))" "rv_ids s' = Suc (rv_ids s)"
    "rc_customer_chain r' = rc_customer_chain r" by (auto simp: autoRefund_def)
  from Cons.IH [OF res(2)] Cons.prems(2) res show ?case by (simp add: upt_rec)
qed simp

text \<open>A resolution does not look at the status of the case: from any state, resolving an existing case with
  AUTO_REFUND any number of times refunds it that many times, each with a new transaction.\<close>

theorem resolved_case_refunded_again:
  assumes "findCase s i = Some r" "map_of cl (rc_customer_chain r) \<noteq> None"
  shows "length (refund_times cfg cl i es s) = length es
    \<and> list_all (\<lambda>x. \<exists>y. x = Inr y \<and> rx_success y) (refund_times cfg cl i es s)
    \<and> map (\<lambda>x. case x of Inl _ \<Rightarrow> None | Inr y \<Rightarrow> rx_tx_hash y) (refund_times cfg cl i es s)
      = map (\<lambda>(e, k). Some (hex_of_uuid 64 (e_uuid e k))) (zip es [rv_ids s..<rv_ids s + length es])"
proof -
  have "length (refund_times cfg cl i es s) = length es" for s
    by (induction es arbitrary: s) (auto split: prod.splits)
  then show ?thesis using refund_times_success [OF assms] by blast
qed

theorem resolved_case_refunded_again_witness:
  "map (\<lambda>x. case x of Inl _ \<Rightarrow> None | Inr y \<Rightarrow> rx_tx_hash y)
      (refund_times RECOVERY_DEFAULT_CONFIG [(''eth'', \<lambda>_. Inr True)] ''x''
        [\<lparr> e_now = 1, e_uuid = (\<lambda>n. replicate n (CHR ''a'')) \<rparr>, \<lparr> e_now = 2, e_uuid = (\<lambda>n. replicate n (CHR ''a'')) \<rparr>]
        (demo_recovery\<lparr> rv_cases := [(demo_case ''x'' ''eth'')\<lparr> rc_status := RC_RESOLVED \<rparr>] \<rparr>))
    = [Some ''0x'', Some ''0xa'']"
proof -
  let ?es = "[\<lparr> e_now = 1, e_uuid = (\<lambda>n. replicate n (CHR ''a'')) \<rparr>, \<lparr> e_now = 2, e_uuid = (\<lambda>n. replicate n (CHR ''a'')) \<rparr>]"
  have "findCase (demo_recovery\<lparr> rv_cases := [(demo_case ''x'' ''eth'')\<lparr> rc_status := RC_RESOLVED \<rparr>] \<rparr>) ''x''
      = Some ((demo_case ''x'' ''eth'')\<lparr> rc_status := RC_RESOLVED \<rparr>)"
    by (simp add: findCase_def demo_case_def)
  from resolved_case_refunded_again [OF this, of "[(''eth'', \<lambda>_. Inr True)]" RECOVERY_DEFAULT_CONFIG ?es] show ?thesis
    by (simp add: demo_case_def demo_recovery_def hex_of_uuid_def upt_rec)
qed

end
