(* ===== verification/Js_Text.thy ===== *)
theory Js_Text
  imports Gateway_Prelude
begin

text \<open>
  Text of the language's numbers and dates: decimal and hexadecimal digits, \<open>toISOString\<close>, and
  the text a template literal makes of a value.  The decimal text of a number that is not an
  integer depends on the double it is kept in, so it is a parameter where the code prints one.
\<close>

section \<open>Digits\<close>

definition digit_char :: "nat \<Rightarrow> char" where
  "digit_char d = (if d < 10 then char_of (48 + d) else char_of (87 + d))"

text \<open>\<open>n.toString(b)\<close> for a non-negative integer and a base up to 36.\<close>

function to_base :: "nat \<Rightarrow> nat \<Rightarrow> string" where
  "to_base b n = (if b < 2 \<or> n < b then [digit_char n] else to_base b (n div b) @ [digit_char (n mod b)])"
  by pat_completeness auto
termination by (relation "measure snd") auto

declare to_base.simps [simp del]

definition nat_text :: "nat \<Rightarrow> string" where
  "nat_text n = to_base 10 n"

definition int_text :: "int \<Rightarrow> string" where
  "int_text i = (if i < 0 then ''-'' @ nat_text (nat (- i)) else nat_text (nat i))"

text \<open>The value of one digit, as \<open>parseInt\<close> reads it.\<close>

definition digit_val :: "char \<Rightarrow> nat option" where
  "digit_val c = (let n = (of_char c :: nat) in
     if 48 \<le> n \<and> n \<le> 57 then Some (n - 48)
     else if 97 \<le> n \<and> n \<le> 122 then Some (n - 87)
     else if 65 \<le> n \<and> n \<le> 90 then Some (n - 55) else None)"

definition is_digit :: "nat \<Rightarrow> char \<Rightarrow> bool" where
  "is_digit b c = (case digit_val c of None \<Rightarrow> False | Some d \<Rightarrow> d < b)"

definition base_val :: "nat \<Rightarrow> string \<Rightarrow> nat" where
  "base_val b cs = fold (\<lambda>c acc. acc * b + (case digit_val c of None \<Rightarrow> 0 | Some d \<Rightarrow> d)) cs 0"

text \<open>
  The longest prefix of digits of the base, as \<open>parseInt\<close> takes it: nothing (\<open>NaN\<close>) when there is none.
\<close>

definition read_base :: "nat \<Rightarrow> string \<Rightarrow> nat option" where
  "read_base b cs = (let ds = takeWhile (is_digit b) cs in if ds = [] then None else Some (base_val b ds))"

lemma of_char_of_nat: "n < 256 \<Longrightarrow> (of_char (char_of (n :: nat)) :: nat) = n"
  by simp

lemma digit_val_digit_char: "d < 36 \<Longrightarrow> digit_val (digit_char d) = Some d"
  by (auto simp: digit_val_def digit_char_def Let_def)

lemma is_digit_digit_char: "d < b \<Longrightarrow> b \<le> 36 \<Longrightarrow> is_digit b (digit_char d)"
  by (simp add: is_digit_def digit_val_digit_char)

lemma to_base_digits: "2 \<le> b \<Longrightarrow> b \<le> 36 \<Longrightarrow> list_all (is_digit b) (to_base b n)"
proof (induction b n rule: to_base.induct)
  case (1 b n)
  then show ?case
    by (subst to_base.simps) (auto simp: is_digit_digit_char)
qed

lemma to_base_nonempty [simp]: "to_base b n \<noteq> []"
  by (subst to_base.simps) simp

lemma base_val_snoc: "base_val b (cs @ [c]) = base_val b cs * b + (case digit_val c of None \<Rightarrow> 0 | Some d \<Rightarrow> d)"
  by (simp add: base_val_def)

lemma base_val_to_base: "2 \<le> b \<Longrightarrow> b \<le> 36 \<Longrightarrow> base_val b (to_base b n) = n"
proof (induction b n rule: to_base.induct)
  case (1 b n)
  show ?case
  proof (cases "n < b")
    case True
    with 1 show ?thesis
      by (subst to_base.simps) (simp add: base_val_def digit_val_digit_char)
  next
    case False
    have "n mod b < 36" using 1(2,3) by (meson mod_less_divisor less_le_trans zero_less_numeral)
    with False 1 show ?thesis
      by (subst to_base.simps) (simp add: base_val_snoc digit_val_digit_char)
  qed
qed

text \<open>Reading back what was printed, whatever non-digit follows.\<close>

lemma read_base_to_base:
  assumes "2 \<le> b" "b \<le> 36" "rest = [] \<or> \<not> is_digit b (hd rest)"
  shows "read_base b (to_base b n @ rest) = Some n"
proof -
  have "takeWhile (is_digit b) rest = []" using assms(3) by (cases rest) auto
  moreover have "takeWhile (is_digit b) (to_base b n @ rest) = to_base b n @ takeWhile (is_digit b) rest"
    using to_base_digits [OF assms(1,2), of n] by (simp add: list_all_iff takeWhile_append2)
  ultimately show ?thesis using base_val_to_base [OF assms(1,2)] by (simp add: read_base_def)
qed

definition pad_start :: "nat \<Rightarrow> char \<Rightarrow> string \<Rightarrow> string" where
  "pad_start n c s = replicate (n - length s) c @ s"

lemma length_pad_start: "length s \<le> n \<Longrightarrow> length (pad_start n c s) = n"
  by (simp add: pad_start_def)

section \<open>Integers from text\<close>

text \<open>\<open>BigInt(text)\<close>: blanks around it, a signed decimal or a prefixed literal, the empty text is 0.\<close>

definition blank :: "char \<Rightarrow> bool" where
  "blank c = (let n = (of_char c :: nat) in n = 32 \<or> (9 \<le> n \<and> n \<le> 13))"

definition trim :: "string \<Rightarrow> string" where
  "trim s = rev (dropWhile blank (rev (dropWhile blank s)))"

definition whole_base :: "nat \<Rightarrow> string \<Rightarrow> int option" where
  "whole_base b ds = (if ds \<noteq> [] \<and> list_all (is_digit b) ds then Some (int (base_val b ds)) else None)"

definition parse_bigint :: "string \<Rightarrow> int option" where
  "parse_bigint s = (let t = trim s in
     if t = [] then Some 0
     else if take 2 t \<in> {''0x'', ''0X''} then whole_base 16 (drop 2 t)
     else if take 2 t \<in> {''0o'', ''0O''} then whole_base 8 (drop 2 t)
     else if take 2 t \<in> {''0b'', ''0B''} then whole_base 2 (drop 2 t)
     else if hd t = CHR ''-'' then map_option uminus (whole_base 10 (tl t))
     else if hd t = CHR ''+'' then whole_base 10 (tl t)
     else whole_base 10 t)"

definition bigint_div :: "int \<Rightarrow> int \<Rightarrow> int" where
  "bigint_div a b = sgn a * sgn b * (\<bar>a\<bar> div \<bar>b\<bar>)"

text \<open>\<open>parseInt(text, 10)\<close>: blanks, a sign, digits and whatever follows; \<open>NaN\<close> is \<open>None\<close>.\<close>

definition parse_int :: "string \<Rightarrow> int option" where
  "parse_int s = (let t = dropWhile blank s in
     case t of
       [] \<Rightarrow> None
     | c # cs \<Rightarrow> if c = CHR ''-'' then map_option (\<lambda>n. - int n) (read_base 10 cs)
                 else if c = CHR ''+'' then map_option int (read_base 10 cs)
                 else map_option int (read_base 10 t))"

text \<open>
  \<open>parseFloat\<close>: blanks, a sign, and the longest prefix that is a decimal numeral, with the text it
  leaves.  \<open>None\<close> is \<open>NaN\<close>; the numeral \<open>Infinity\<close> is not considered.
\<close>

definition read_sign :: "string \<Rightarrow> bool \<times> string" where
  "read_sign s = (case s of [] \<Rightarrow> (False, s)
     | c # cs \<Rightarrow> if c = CHR ''-'' then (True, cs) else if c = CHR ''+'' then (False, cs) else (False, s))"

definition read_exponent :: "string \<Rightarrow> int \<times> string" where
  "read_exponent s = (case s of [] \<Rightarrow> (0, s)
     | c # cs \<Rightarrow> if c = CHR ''e'' \<or> c = CHR ''E''
         then (case read_sign cs of (neg, t) \<Rightarrow> case read_base 10 t of None \<Rightarrow> (0, s)
               | Some k \<Rightarrow> (if neg then - int k else int k, dropWhile (is_digit 10) t))
         else (0, s))"

definition scaled :: "rat \<Rightarrow> int \<Rightarrow> rat" where
  "scaled m k = (if 0 \<le> k then m * 10 ^ nat k else m / 10 ^ nat (- k))"

definition decimal_prefix :: "string \<Rightarrow> (rat \<times> string) option" where
  "decimal_prefix s =
     (let i = takeWhile (is_digit 10) s; r = dropWhile (is_digit 10) s;
          f = (case r of [] \<Rightarrow> [] | c # t \<Rightarrow> if c = CHR ''.'' then takeWhile (is_digit 10) t else []);
          r' = (case r of [] \<Rightarrow> [] | c # t \<Rightarrow> if c = CHR ''.'' then dropWhile (is_digit 10) t else r)
      in if i = [] \<and> f = [] then None
         else case read_exponent r' of (k, rest) \<Rightarrow>
           Some (scaled (of_nat (base_val 10 (i @ f)) / 10 ^ length f) k, rest))"

definition parse_float :: "string \<Rightarrow> rat option" where
  "parse_float s = (case read_sign (dropWhile blank s) of (neg, t) \<Rightarrow>
     map_option (\<lambda>(x, _). if neg then - x else x) (decimal_prefix t))"

lemma read_base_nat_text: "rest = [] \<or> \<not> is_digit 10 (hd rest) \<Longrightarrow> read_base 10 (nat_text n @ rest) = Some n"
  unfolding nat_text_def by (rule read_base_to_base) simp_all

lemma nat_text_digits: "\<forall>c \<in> set (nat_text n). is_digit 10 c" "nat_text n \<noteq> []"
  using to_base_digits [of 10 n] by (simp_all add: nat_text_def list_all_iff)

lemma digit_not_minus: "is_digit 10 c \<Longrightarrow> c \<noteq> CHR ''-''"
  by (auto simp: is_digit_def digit_val_def)

lemma parse_int_int_text: "parse_int (int_text n) = Some n"
proof -
  have read: "read_base 10 (nat_text k) = Some k" for k using read_base_nat_text [of "[]" k] by simp
  show ?thesis
  proof (cases "n < 0")
    case True
    then show ?thesis by (simp add: int_text_def parse_int_def Let_def blank_def read)
  next
    case False
    obtain c cs where e: "nat_text (nat n) = c # cs" using nat_text_digits(2) [of "nat n"] by (meson neq_Nil_conv)
    then have "is_digit 10 c" using nat_text_digits(1) [of "nat n"] by simp
    then have "\<not> blank c" "c \<noteq> CHR ''-''" "c \<noteq> CHR ''+''"
      by (auto simp: is_digit_def digit_val_def blank_def Let_def split: if_splits)
    then show ?thesis
      using False read [of "nat n"] unfolding e by (simp add: int_text_def parse_int_def Let_def e)
  qed
qed

lemma fraction_is_no_bigint:
  assumes "CHR ''.'' \<in> set s"
  shows "parse_bigint s = None"
proof -
  have dot: "\<not> is_digit b CHR ''.''" for b by (simp add: is_digit_def digit_val_def)
  have keep: "CHR ''.'' \<in> set (dropWhile blank xs)" if "CHR ''.'' \<in> set xs" for xs
    using that by (induction xs) (auto simp: blank_def)
  have t: "CHR ''.'' \<in> set (trim s)" using keep [OF assms] keep [of "rev (dropWhile blank s)"] by (simp add: trim_def)
  have bad: "whole_base b ds = None" if "CHR ''.'' \<in> set ds" for b ds
    using that dot by (auto simp: whole_base_def list_all_iff)
  have two: "CHR ''.'' \<in> set (drop 2 t)" if "CHR ''.'' \<in> set t" "take 2 t = [a, c]" "CHR ''.'' \<notin> {a, c}" for t a c
    using that by (metis append_take_drop_id empty_iff insert_iff list.set set_append Un_iff)
  have one: "CHR ''.'' \<in> set (tl t)" if "CHR ''.'' \<in> set t" "hd t \<noteq> CHR ''.''" for t
    using that by (cases t) auto
  show ?thesis
    using t bad two [OF t] one [OF t] by (auto simp: parse_bigint_def Let_def)
qed

text \<open>\<open>s.includes(t)\<close> and \<open>s.startsWith(t)\<close>.\<close>

definition js_includes :: "string \<Rightarrow> string \<Rightarrow> bool" where
  "js_includes s t = list_ex (\<lambda>i. take (length t) (drop i s) = t) [0..<Suc (length s)]"

definition js_starts_with :: "string \<Rightarrow> string \<Rightarrow> bool" where
  "js_starts_with s t = (take (length t) s = t)"

section \<open>Random text\<close>

text \<open>The n-th character is drawn from the alphabet with the n-th value of \<open>Math.random\<close>.\<close>

definition random_text :: "string \<Rightarrow> (nat \<Rightarrow> rat) \<Rightarrow> nat \<Rightarrow> string" where
  "random_text alphabet rnd n = map (\<lambda>i. alphabet ! nat \<lfloor>rnd i * of_nat (length alphabet)\<rfloor>) [0..<n]"

definition hex_chars :: string where "hex_chars = ''0123456789abcdef''"

lemma length_random_text [simp]: "length (random_text alphabet rnd n) = n"
  by (simp add: random_text_def)

lemma random_text_chars:
  assumes "\<forall>i. 0 \<le> rnd i \<and> rnd i < 1" "alphabet \<noteq> []"
  shows "set (random_text alphabet rnd n) \<subseteq> set alphabet"
proof -
  have "alphabet ! nat \<lfloor>rnd i * of_nat (length alphabet)\<rfloor> \<in> set alphabet" for i
  proof (rule nth_mem)
    have "rnd i * of_nat (length alphabet) < 1 * of_nat (length alphabet)"
      using assms by (intro mult_strict_right_mono) simp_all
    then have "\<lfloor>rnd i * of_nat (length alphabet)\<rfloor> < int (length alphabet)" by (simp add: floor_less_iff)
    moreover have "0 < length alphabet" using assms(2) by simp
    ultimately show "nat \<lfloor>rnd i * of_nat (length alphabet)\<rfloor> < length alphabet" by linarith
  qed
  then show ?thesis by (auto simp: random_text_def)
qed

section \<open>Dates\<close>

text \<open>
  \<open>toISOString\<close> of a time in milliseconds since 1970, from the day number by the civil calendar
  (eras of 400 years from 0000-03-01); years outside 0 to 9999 have a sign and six digits.
\<close>

definition civil_of_days :: "int \<Rightarrow> int \<times> int \<times> int" where
  "civil_of_days days =
     (let z = days + 719468; era = z div 146097; doe = z mod 146097;
          yoe = (doe - doe div 1460 + doe div 36524 - doe div 146096) div 365;
          doy = doe - (365 * yoe + yoe div 4 - yoe div 100); mp = (5 * doy + 2) div 153;
          d = doy - (153 * mp + 2) div 5 + 1; mon = (if mp < 10 then mp + 3 else mp - 9)
      in (yoe + era * 400 + (if mon \<le> 2 then 1 else 0), mon, d))"

definition padded :: "nat \<Rightarrow> int \<Rightarrow> string" where
  "padded n i = pad_start n CHR ''0'' (nat_text (nat i))"

definition iso_year :: "int \<Rightarrow> string" where
  "iso_year y = (if 0 \<le> y \<and> y \<le> 9999 then padded 4 y
     else if y < 0 then ''-'' @ padded 6 (- y) else ''+'' @ padded 6 y)"

definition iso_string :: "int \<Rightarrow> string" where
  "iso_string t =
     (let ms = t mod 86400000 in case civil_of_days (t div 86400000) of (y, mon, d) \<Rightarrow>
      iso_year y @ ''-'' @ padded 2 mon @ ''-'' @ padded 2 d @ ''T'' @ padded 2 (ms div 3600000) @ '':''
      @ padded 2 (ms div 60000 mod 60) @ '':'' @ padded 2 (ms div 1000 mod 60) @ ''.''
      @ padded 3 (ms mod 1000) @ ''Z'')"

lemma iso_string_epoch: "iso_string 0 = ''1970-01-01T00:00:00.000Z''"
  by code_simp

lemma iso_string_leap_day: "iso_string 1709251199999 = ''2024-02-29T23:59:59.999Z''"
  by code_simp

section \<open>Template literals\<close>

text \<open>The text of a value in a template literal; an array is joined by commas, null gives the
  empty text inside an array.  The texts of numbers and dates (local time) are parameters.\<close>

fun template_text :: "(rat \<Rightarrow> string) \<Rightarrow> (int \<Rightarrow> string) \<Rightarrow> json \<Rightarrow> string" where
  "template_text num date JNull = ''null''"
| "template_text num date (JBool b) = (if b then ''true'' else ''false'')"
| "template_text num date (JNum r) = num r"
| "template_text num date (JStr s) = s"
| "template_text num date (JTime t) = date t"
| "template_text num date (JArr xs) =
     join '','' (map (\<lambda>x. case x of JNull \<Rightarrow> '''' | _ \<Rightarrow> template_text num date x) xs)"
| "template_text num date (JObj _) = ''[object Object]''"

end
