(* ===== verification/Reconciliation.thy ===== *)
theory Reconciliation
  imports Settlement Js_Text
begin

text \<open>
  \<open>ReconciliationService\<close> (\<open>packages/reconciliation/src/reconciliation.service.ts\<close>) over the tables it
  reads: payment_intents, merchants, settlements and ledger_entries.  The two tables of its own,
  reconciliation_records and discrepancies, are created by no migration, so each is \<open>None\<close> in a
  database the migrations built; a statement on a missing relation throws.
\<close>

section \<open>Types\<close>

datatype recon_period = HOURLY | DAILY | WEEKLY | MONTHLY

datatype recon_status = RS_PENDING | RS_IN_PROGRESS | RS_COMPLETED | RS_DISCREPANCY_FOUND | RS_FAILED

datatype discrepancy_type =
    AMOUNT_MISMATCH | MISSING_SETTLEMENT | MISSING_LEDGER_ENTRY | DUPLICATE_SETTLEMENT
  | FX_GAIN_LOSS_MISMATCH | FEE_CALCULATION_ERROR | ON_CHAIN_MISMATCH

datatype discrepancy_severity = SEV_LOW | SEV_MEDIUM | SEV_HIGH | SEV_CRITICAL

record discrepancy =
  di_id :: string
  di_record_id :: string
  di_type :: discrepancy_type
  di_severity :: discrepancy_severity
  di_intent_id :: string
  di_description :: string
  di_expected :: json
  di_actual :: json
  di_difference :: "rat option"
  di_metadata :: "payload option"
  di_detected_at :: int
  di_resolved_at :: "int option"
  di_resolution :: "string option"

record discrepancy_summary =
  ds_total :: nat
  ds_by_type :: "(discrepancy_type \<times> nat) list"
  ds_by_severity :: "(discrepancy_severity \<times> nat) list"
  ds_critical :: "discrepancy list"

record financial_summary =
  fs_settled :: rat
  fs_fees :: rat
  fs_fx_gain :: rat
  fs_fx_loss :: rat
  fs_net_fx :: rat
  fs_success_rate :: rat
  fs_average_time :: rat

record recon_record =
  rr_id :: string
  rr_period :: recon_period
  rr_start :: int
  rr_end :: int
  rr_status :: recon_status
  rr_total :: nat
  rr_settled :: nat
  rr_pending :: nat
  rr_failed :: nat
  rr_discrepancies :: nat
  rr_summary :: discrepancy_summary
  rr_financial :: financial_summary
  rr_created_at :: int
  rr_completed_at :: "int option"

text \<open>The columns the INSERT and the UPDATE write.\<close>

record recon_row =
  rw_id :: string
  rw_period :: recon_period
  rw_start :: int
  rw_end :: int
  rw_status :: recon_status
  rw_total :: nat
  rw_settled :: nat
  rw_pending :: nat
  rw_failed :: nat
  rw_discrepancies :: "nat option"
  rw_created_at :: int
  rw_completed_at :: "int option"
  rw_updated_at :: "int option"

record check_result =
  cr_passed :: bool
  cr_record :: recon_record
  cr_discrepancies :: "discrepancy list"
  cr_duration :: int

record chain_summary =
  chs_chain_id :: string
  chs_chain_name :: string
  chs_settled :: rat
  chs_settled_usd :: rat
  chs_fees :: rat
  chs_transactions :: nat
  chs_success_rate :: rat

record merchant_summary =
  ms_merchant_id :: string
  ms_merchant_name :: string
  ms_settled :: rat
  ms_settled_usd :: rat
  ms_fees :: rat
  ms_transactions :: nat

record fx_entry =
  fx_intent_id :: string
  fx_asset :: string
  fx_chain :: string
  fx_locked_rate :: rat
  fx_actual_rate :: rat
  fx_gain_loss :: rat
  fx_gain_loss_usd :: rat
  fx_recorded_at :: int

record financial_report =
  fr_id :: string
  fr_period :: recon_period
  fr_start :: int
  fr_end :: int
  fr_generated_at :: int
  fr_summary :: financial_summary
  fr_by_chain :: "chain_summary list"
  fr_by_merchant :: "merchant_summary list"
  fr_fx_details :: "fx_entry list"

record recon_db =
  rb_intents :: "payment_intent list"
  rb_merchants :: "merchant list"
  rb_settlements :: "settlement list"
  rb_ledger :: "ledger_entry list"
  rb_records :: "recon_row list option"
  rb_discrepancies :: "discrepancy list option"
  rb_ids :: nat

text \<open>
  The environment: the instant and the identifiers, the clock when a run ends, and the texts the
  language gives to numbers, dates and objects (\<open>JSON.stringify\<close>), and their numbers.
\<close>

record recon_env =
  re_env :: env
  re_end :: int
  re_number :: "rat \<Rightarrow> string"
  re_date :: "int \<Rightarrow> string"
  re_convert :: "json \<Rightarrow> rat"
  re_stringify :: "recon_record \<Rightarrow> discrepancy list \<Rightarrow> string"

definition no_relation :: "string \<Rightarrow> js_error" where
  "no_relation t = JsError ''error'' (''relation \"'' @ t @ ''\" does not exist'')"

text \<open>\<open>BETWEEN $1 AND $2\<close>; NULL is in no interval.\<close>

definition between :: "int \<Rightarrow> int \<Rightarrow> int \<Rightarrow> bool" where
  "between t0 t1 t = (t0 \<le> t \<and> t \<le> t1)"

definition between_opt :: "int \<Rightarrow> int \<Rightarrow> int option \<Rightarrow> bool" where
  "between_opt t0 t1 t = (case t of None \<Rightarrow> False | Some t \<Rightarrow> between t0 t1 t)"

text \<open>GROUP BY: the groups, in the order of their first rows (SQL leaves it open).\<close>

definition group_keys :: "('a \<Rightarrow> 'k) \<Rightarrow> 'a list \<Rightarrow> 'k list" where
  "group_keys key rows = fold (\<lambda>r ks. js_set_add (key r) ks) rows []"

lemma set_group_keys [simp]: "set (group_keys key rows) = key ` set rows"
proof -
  have "set (fold (\<lambda>r ks. js_set_add (key r) ks) rows ks) = key ` set rows \<union> set ks" for ks
    by (induction rows arbitrary: ks) auto
  then show ?thesis by (simp add: group_keys_def)
qed

lemma distinct_group_keys [simp]: "distinct (group_keys key rows)"
proof -
  have "distinct ks \<Longrightarrow> distinct (fold (\<lambda>r ks. js_set_add (key r) ks) rows ks)" for ks
    by (induction rows arbitrary: ks) (auto intro: distinct_js_set_add)
  then show ?thesis by (simp add: group_keys_def)
qed

section \<open>The five checks\<close>

text \<open>A discrepancy before \<open>createDiscrepancy\<close> gives it an identifier: the arguments of the call.\<close>

record draft =
  dr_type :: discrepancy_type
  dr_severity :: discrepancy_severity
  dr_intent :: string
  dr_description :: string
  dr_expected :: json
  dr_actual :: json
  dr_difference :: "rat option"

definition createDiscrepancy :: "env \<Rightarrow> nat \<Rightarrow> string \<Rightarrow> draft \<Rightarrow> discrepancy" where
  "createDiscrepancy e n recordId d = \<lparr> di_id = e_uuid e n, di_record_id = recordId, di_type = dr_type d,
     di_severity = dr_severity d, di_intent_id = dr_intent d, di_description = dr_description d,
     di_expected = dr_expected d, di_actual = dr_actual d, di_difference = dr_difference d,
     di_metadata = Some [], di_detected_at = e_now e, di_resolved_at = None, di_resolution = None \<rparr>"

fun create_each :: "env \<Rightarrow> nat \<Rightarrow> string \<Rightarrow> draft list \<Rightarrow> discrepancy list" where
  "create_each e n recordId [] = []"
| "create_each e n recordId (d # ds) = createDiscrepancy e n recordId d # create_each e (Suc n) recordId ds"

definition checkMissingSettlements :: "recon_db \<Rightarrow> int \<Rightarrow> int \<Rightarrow> draft list" where
  "checkMissingSettlements db t0 t1 =
     map (\<lambda>q. \<lparr> dr_type = MISSING_SETTLEMENT, dr_severity = SEV_HIGH, dr_intent = pi_id q,
            dr_description = ''Settled intent has no settlement record'',
            dr_expected = JStr ''Settlement record exists'', dr_actual = JStr ''No settlement record'',
            dr_difference = None \<rparr>)
       (filter (\<lambda>q. pi_state q = SETTLED \<and> between t0 t1 (pi_updated_at q)
            \<and> \<not> list_ex (\<lambda>s. se_intent_id s = pi_id q) (rb_settlements db)) (rb_intents db))"

definition completed_in :: "recon_db \<Rightarrow> int \<Rightarrow> int \<Rightarrow> settlement list" where
  "completed_in db t0 t1 = filter (\<lambda>s. se_status s = S_COMPLETED \<and> between_opt t0 t1 (se_completed_at s))
     (rb_settlements db)"

text \<open>The two joins: the settlement with its intent and the merchant of that intent.\<close>

definition settlement_joins :: "recon_db \<Rightarrow> int \<Rightarrow> int \<Rightarrow> (settlement \<times> payment_intent \<times> merchant) list" where
  "settlement_joins db t0 t1 = concat (map (\<lambda>s. concat (map (\<lambda>q. map (\<lambda>m. (s, q, m))
       (filter (\<lambda>m. m_id m = pi_merchant_id q) (rb_merchants db)))
       (filter (\<lambda>q. pi_id q = se_intent_id s) (rb_intents db)))) (completed_in db t0 t1))"

definition expected_amount :: "payment_intent \<Rightarrow> merchant \<Rightarrow> rat" where
  "expected_amount q m = pi_target_amount q * (1 - m_fee_percentage m / 100)"

definition mismatch :: "payment_intent \<Rightarrow> merchant \<Rightarrow> rat \<Rightarrow> bool" where
  "mismatch q m actual = (expected_amount q m * (1 / 10000) < \<bar>expected_amount q m - actual\<bar>)"

definition checkAmountMismatches :: "recon_db \<Rightarrow> int \<Rightarrow> int \<Rightarrow> draft list" where
  "checkAmountMismatches db t0 t1 =
     map (\<lambda>(s, q, m). \<lparr> dr_type = AMOUNT_MISMATCH, dr_severity = SEV_HIGH, dr_intent = se_intent_id s,
            dr_description = ''Settlement amount mismatch'', dr_expected = JNum (expected_amount q m),
            dr_actual = JNum (se_amount s), dr_difference = Some (expected_amount q m - se_amount s) \<rparr>)
       (filter (\<lambda>(s, q, m). mismatch q m (se_amount s)) (settlement_joins db t0 t1))"

definition created_in :: "recon_db \<Rightarrow> int \<Rightarrow> int \<Rightarrow> settlement list" where
  "created_in db t0 t1 = filter (\<lambda>s. between t0 t1 (se_created_at s)) (rb_settlements db)"

definition checkDuplicateSettlements :: "recon_db \<Rightarrow> int \<Rightarrow> int \<Rightarrow> draft list" where
  "checkDuplicateSettlements db t0 t1 =
     (let rows = created_in db t0 t1;
          groups = map (\<lambda>i. (i, length (filter (\<lambda>s. se_intent_id s = i) rows))) (group_keys se_intent_id rows)
      in map (\<lambda>(i, c). \<lparr> dr_type = DUPLICATE_SETTLEMENT, dr_severity = SEV_CRITICAL, dr_intent = i,
              dr_description = ''Intent has '' @ nat_text c @ '' settlements'',
              dr_expected = JNum 1, dr_actual = JNum (of_nat c), dr_difference = Some (of_nat c - 1) \<rparr>)
         (filter (\<lambda>(i, c). 1 < c) groups))"

definition checkMissingLedgerEntries :: "recon_db \<Rightarrow> int \<Rightarrow> int \<Rightarrow> draft list" where
  "checkMissingLedgerEntries db t0 t1 =
     map (\<lambda>s. \<lparr> dr_type = MISSING_LEDGER_ENTRY, dr_severity = SEV_HIGH, dr_intent = se_intent_id s,
            dr_description = ''Settlement has no ledger entry'', dr_expected = JStr ''Ledger entry exists'',
            dr_actual = JStr ''No ledger entry'', dr_difference = None \<rparr>)
       (filter (\<lambda>s. \<not> list_ex (\<lambda>x. le_intent_id x = se_intent_id s \<and> le_type x = LE_SETTLEMENT) (rb_ledger db))
          (completed_in db t0 t1))"

definition fx_rows :: "recon_db \<Rightarrow> int \<Rightarrow> int \<Rightarrow> ledger_entry list" where
  "fx_rows db t0 t1 = filter (\<lambda>x. le_type x = LE_FX_GAIN_LOSS \<and> between t0 t1 (le_created_at x)) (rb_ledger db)"

definition debited_to :: "string \<Rightarrow> ledger_entry list \<Rightarrow> rat" where
  "debited_to acc rows = sum_list (map (\<lambda>x. if le_debit x = acc then le_amount x else 0) rows)"

definition checkFxGainLoss :: "(rat \<Rightarrow> string) \<Rightarrow> recon_db \<Rightarrow> int \<Rightarrow> int \<Rightarrow> draft list" where
  "checkFxGainLoss num db t0 t1 =
     (let gains = debited_to ''revenue:fx'' (fx_rows db t0 t1);
          losses = debited_to ''expense:fx'' (fx_rows db t0 t1);
          volume = gains + losses
      in if 0 < volume \<and> 1 / 10 < \<bar>gains - losses\<bar> / volume
         then [\<lparr> dr_type = FX_GAIN_LOSS_MISMATCH, dr_severity = SEV_MEDIUM, dr_intent = ''aggregate'',
                 dr_description = ''FX gains/losses significantly imbalanced'',
                 dr_expected = JStr ''Balanced FX gains/losses'',
                 dr_actual = JStr (''Gains: '' @ num gains @ '', Losses: '' @ num losses),
                 dr_difference = Some \<bar>gains - losses\<bar> \<rparr>]
         else [])"

section \<open>Records and summaries\<close>

definition emptyDiscrepancySummary :: discrepancy_summary where
  "emptyDiscrepancySummary = \<lparr> ds_total = 0, ds_by_type = [], ds_by_severity = [], ds_critical = [] \<rparr>"

definition emptyFinancialSummary :: financial_summary where
  "emptyFinancialSummary = \<lparr> fs_settled = 0, fs_fees = 0, fs_fx_gain = 0, fs_fx_loss = 0, fs_net_fx = 0,
     fs_success_rate = 0, fs_average_time = 0 \<rparr>"

definition bump :: "'k \<Rightarrow> ('k \<times> nat) list \<Rightarrow> ('k \<times> nat) list" where
  "bump k m = js_map_set k (case map_of m k of None \<Rightarrow> 1 | Some n \<Rightarrow> n + 1) m"

definition buildDiscrepancySummary :: "discrepancy list \<Rightarrow> discrepancy_summary" where
  "buildDiscrepancySummary ds =
     (let maps = fold (\<lambda>d (t, s). (bump (di_type d) t, bump (di_severity d) s)) ds ([], [])
      in \<lparr> ds_total = length ds, ds_by_type = fst maps, ds_by_severity = snd maps,
           ds_critical = filter (\<lambda>d. di_severity d = SEV_CRITICAL) ds \<rparr>)"

record intent_counts =
  ic_total :: nat
  ic_settled :: nat
  ic_pending :: nat
  ic_failed :: nat

definition pending_states :: "intent_state list" where
  "pending_states = [CREATED, QUOTED, AWAITING_PAYMENT, DETECTED, CONFIRMING, ROUTING, SETTLING]"

definition getIntentCounts :: "recon_db \<Rightarrow> int \<Rightarrow> int \<Rightarrow> intent_counts" where
  "getIntentCounts db t0 t1 =
     (let rows = filter (\<lambda>q. between t0 t1 (pi_created_at q)) (rb_intents db)
      in \<lparr> ic_total = length rows,
           ic_settled = length (filter (\<lambda>q. pi_state q = SETTLED) rows),
           ic_pending = length (filter (\<lambda>q. pi_state q \<in> set pending_states) rows),
           ic_failed = length (filter (\<lambda>q. pi_state q = FAILED) rows) \<rparr>)"

definition calculateFinancialSummary :: "recon_db \<Rightarrow> int \<Rightarrow> int \<Rightarrow> financial_summary" where
  "calculateFinancialSummary db t0 t1 =
     (let rows = created_in db t0 t1;
          completed = length (filter (\<lambda>s. se_status s = S_COMPLETED) rows);
          fees = sum_list (map le_amount (filter (\<lambda>x. le_type x = LE_FEE \<and> between t0 t1 (le_created_at x)) (rb_ledger db)));
          gains = debited_to ''revenue:fx'' (fx_rows db t0 t1);
          losses = debited_to ''expense:fx'' (fx_rows db t0 t1)
      in \<lparr> fs_settled = sum_list (map se_amount rows), fs_fees = fees, fs_fx_gain = gains, fs_fx_loss = losses,
           fs_net_fx = gains - losses,
           fs_success_rate = (if 0 < length rows then of_nat completed / of_nat (length rows) * 100 else 0),
           fs_average_time = 0 \<rparr>)"

definition createRecord ::
    "recon_env \<Rightarrow> recon_period \<Rightarrow> int \<Rightarrow> int \<Rightarrow> recon_db \<Rightarrow> recon_db \<times> (js_error + recon_record)" where
  "createRecord v p t0 t1 db =
     (let i = e_uuid (re_env v) (rb_ids db); now = e_now (re_env v); c = getIntentCounts db t0 t1;
          db1 = db\<lparr> rb_ids := Suc (rb_ids db) \<rparr> in
      case rb_records db of
        None \<Rightarrow> (db1, Inl (no_relation ''reconciliation_records''))
      | Some rows \<Rightarrow>
          (db1\<lparr> rb_records := Some (rows @ [\<lparr> rw_id = i, rw_period = p, rw_start = t0, rw_end = t1,
              rw_status = RS_IN_PROGRESS, rw_total = ic_total c, rw_settled = ic_settled c,
              rw_pending = ic_pending c, rw_failed = ic_failed c, rw_discrepancies = None,
              rw_created_at = now, rw_completed_at = None, rw_updated_at = None \<rparr>]) \<rparr>,
           Inr \<lparr> rr_id = i, rr_period = p, rr_start = t0, rr_end = t1, rr_status = RS_IN_PROGRESS,
                 rr_total = ic_total c, rr_settled = ic_settled c, rr_pending = ic_pending c,
                 rr_failed = ic_failed c, rr_discrepancies = 0, rr_summary = emptyDiscrepancySummary,
                 rr_financial = emptyFinancialSummary, rr_created_at = now, rr_completed_at = None \<rparr>))"

definition mapRecord :: "recon_row \<Rightarrow> recon_record" where
  "mapRecord r = \<lparr> rr_id = rw_id r, rr_period = rw_period r, rr_start = rw_start r, rr_end = rw_end r,
     rr_status = rw_status r, rr_total = rw_total r, rr_settled = rw_settled r, rr_pending = rw_pending r,
     rr_failed = rw_failed r, rr_discrepancies = (case rw_discrepancies r of None \<Rightarrow> 0 | Some n \<Rightarrow> n),
     rr_summary = emptyDiscrepancySummary, rr_financial = emptyFinancialSummary,
     rr_created_at = rw_created_at r, rr_completed_at = rw_completed_at r \<rparr>"

definition getRecord :: "recon_db \<Rightarrow> string \<Rightarrow> js_error + recon_record option" where
  "getRecord db i = (case rb_records db of
     None \<Rightarrow> Inl (no_relation ''reconciliation_records'')
   | Some rows \<Rightarrow> Inr (map_option mapRecord (tbl_find (\<lambda>r. rw_id r = i) rows)))"

definition getRecords :: "recon_db \<Rightarrow> int \<Rightarrow> int \<Rightarrow> js_error + recon_record list" where
  "getRecords db t0 t1 = (case rb_records db of
     None \<Rightarrow> Inl (no_relation ''reconciliation_records'')
   | Some rows \<Rightarrow> Inr (map mapRecord (order_desc rw_created_at
       (filter (\<lambda>r. t0 \<le> rw_start r \<and> rw_end r \<le> t1) rows))))"

record recon_update =
  ru_status :: recon_status
  ru_discrepancies :: nat
  ru_summary :: discrepancy_summary
  ru_financial :: financial_summary
  ru_completed_at :: int

definition close_row :: "int \<Rightarrow> recon_update \<Rightarrow> recon_row \<Rightarrow> recon_row" where
  "close_row now u r = r\<lparr> rw_status := ru_status u, rw_discrepancies := Some (ru_discrepancies u),
     rw_completed_at := Some (ru_completed_at u), rw_updated_at := Some now \<rparr>"

definition updateRecord ::
    "int \<Rightarrow> string \<Rightarrow> recon_update \<Rightarrow> recon_db \<Rightarrow> recon_db \<times> (js_error + recon_record)" where
  "updateRecord now i u db =
     (case rb_records db of
        None \<Rightarrow> (db, Inl (no_relation ''reconciliation_records''))
      | Some rows \<Rightarrow>
          (let db1 = db\<lparr> rb_records := Some (tbl_update (\<lambda>r. rw_id r = i) (close_row now u) rows) \<rparr> in
           case getRecord db1 i of
             Inl x \<Rightarrow> (db1, Inl x)
           | Inr None \<Rightarrow> (db1, Inl (JsError ''Error'' (''Record not found after update: '' @ i)))
           | Inr (Some r) \<Rightarrow>
               (db1, Inr (r\<lparr> rr_status := ru_status u, rr_discrepancies := ru_discrepancies u,
                  rr_summary := ru_summary u, rr_financial := ru_financial u,
                  rr_completed_at := Some (ru_completed_at u) \<rparr>))))"

section \<open>A run\<close>

definition all_drafts :: "recon_env \<Rightarrow> recon_db \<Rightarrow> int \<Rightarrow> int \<Rightarrow> draft list" where
  "all_drafts v db t0 t1 = checkMissingSettlements db t0 t1 @ checkAmountMismatches db t0 t1
     @ checkDuplicateSettlements db t0 t1 @ checkMissingLedgerEntries db t0 t1
     @ checkFxGainLoss (re_number v) db t0 t1"

definition runReconciliation ::
    "recon_env \<Rightarrow> recon_period \<Rightarrow> int \<Rightarrow> int \<Rightarrow> recon_db \<Rightarrow> recon_db \<times> (js_error + check_result)" where
  "runReconciliation v p t0 t1 db =
     andThen (createRecord v p t0 t1 db) (\<lambda>db r.
       let ds = create_each (re_env v) (rb_ids db) (rr_id r) (all_drafts v db t0 t1);
           db1 = db\<lparr> rb_ids := rb_ids db + length ds \<rparr>
       in andThen (updateRecord (e_now (re_env v)) (rr_id r)
            \<lparr> ru_status = (if 0 < length ds then RS_DISCREPANCY_FOUND else RS_COMPLETED),
              ru_discrepancies = length ds, ru_summary = buildDiscrepancySummary ds,
              ru_financial = calculateFinancialSummary db1 t0 t1, ru_completed_at = e_now (re_env v) \<rparr> db1)
          (\<lambda>db f. (db, Inr \<lparr> cr_passed = (length ds = 0), cr_record = f, cr_discrepancies = ds,
                            cr_duration = re_end v - e_now (re_env v) \<rparr>)))"

section \<open>Reports and export\<close>

definition getFinancialByChain :: "recon_db \<Rightarrow> int \<Rightarrow> int \<Rightarrow> chain_summary list" where
  "getFinancialByChain db t0 t1 =
     (let rows = completed_in db t0 t1 in
      map (\<lambda>c. let group = filter (\<lambda>s. se_chain s = c) rows; amount = sum_list (map se_amount group) in
         \<lparr> chs_chain_id = c, chs_chain_name = c, chs_settled = amount, chs_settled_usd = amount, chs_fees = 0,
           chs_transactions = length group, chs_success_rate = 100 \<rparr>) (group_keys se_chain rows))"

definition getFinancialByMerchant :: "recon_db \<Rightarrow> int \<Rightarrow> int \<Rightarrow> merchant_summary list" where
  "getFinancialByMerchant db t0 t1 =
     (let rows = concat (map (\<lambda>s. map (\<lambda>m. (s, m)) (filter (\<lambda>m. m_id m = se_merchant_id s) (rb_merchants db)))
            (completed_in db t0 t1));
          key = (\<lambda>(s, m). (se_merchant_id s, m_name m)) in
      map (\<lambda>(i, n). let group = filter (\<lambda>r. key r = (i, n)) rows;
                        amount = sum_list (map (\<lambda>(s, m). se_amount s) group) in
         \<lparr> ms_merchant_id = i, ms_merchant_name = n, ms_settled = amount, ms_settled_usd = amount, ms_fees = 0,
           ms_transactions = length group \<rparr>) (group_keys key rows))"

text \<open>\<open>Number(metadata?.amount) || 0\<close>; the number a text, an array or an object converts to is a
  parameter, 0 standing for \<open>NaN\<close>.\<close>

fun number_or_0 :: "(json \<Rightarrow> rat) \<Rightarrow> json option \<Rightarrow> rat" where
  "number_or_0 conv None = 0"
| "number_or_0 conv (Some JNull) = 0"
| "number_or_0 conv (Some (JNum r)) = r"
| "number_or_0 conv (Some (JBool b)) = (if b then 1 else 0)"
| "number_or_0 conv (Some (JTime t)) = of_int t"
| "number_or_0 conv (Some j) = conv j"

definition getFxGainLossDetails :: "recon_env \<Rightarrow> recon_db \<Rightarrow> int \<Rightarrow> int \<Rightarrow> fx_entry list" where
  "getFxGainLossDetails v db t0 t1 =
     map (\<lambda>x. let a = number_or_0 (re_convert v) (case le_metadata x of None \<Rightarrow> None | Some p \<Rightarrow> map_of p ''amount'') in
        \<lparr> fx_intent_id = le_intent_id x, fx_asset = le_asset x, fx_chain = le_chain x, fx_locked_rate = 0,
          fx_actual_rate = 0, fx_gain_loss = a, fx_gain_loss_usd = a, fx_recorded_at = e_now (re_env v) \<rparr>) (fx_rows db t0 t1)"

definition generateFinancialReport ::
    "recon_env \<Rightarrow> recon_period \<Rightarrow> int \<Rightarrow> int \<Rightarrow> recon_db \<Rightarrow> recon_db \<times> financial_report" where
  "generateFinancialReport v p t0 t1 db =
     (db\<lparr> rb_ids := Suc (rb_ids db) \<rparr>,
      \<lparr> fr_id = e_uuid (re_env v) (rb_ids db), fr_period = p, fr_start = t0, fr_end = t1,
        fr_generated_at = e_now (re_env v), fr_summary = calculateFinancialSummary db t0 t1,
        fr_by_chain = getFinancialByChain db t0 t1, fr_by_merchant = getFinancialByMerchant db t0 t1,
        fr_fx_details = getFxGainLossDetails v db t0 t1 \<rparr>)"

definition mapDiscrepancy :: "discrepancy \<Rightarrow> discrepancy" where
  "mapDiscrepancy r = r\<lparr> di_metadata := Some (case di_metadata r of None \<Rightarrow> [] | Some p \<Rightarrow> p) \<rparr>"

definition getDiscrepancies :: "recon_db \<Rightarrow> string \<Rightarrow> js_error + discrepancy list" where
  "getDiscrepancies db i = (case rb_discrepancies db of
     None \<Rightarrow> Inl (no_relation ''discrepancies'')
   | Some rows \<Rightarrow> Inr (map mapDiscrepancy (filter (\<lambda>d. di_record_id d = i) rows)))"

fun type_text :: "discrepancy_type \<Rightarrow> string" where
  "type_text AMOUNT_MISMATCH = ''AMOUNT_MISMATCH''"
| "type_text MISSING_SETTLEMENT = ''MISSING_SETTLEMENT''"
| "type_text MISSING_LEDGER_ENTRY = ''MISSING_LEDGER_ENTRY''"
| "type_text DUPLICATE_SETTLEMENT = ''DUPLICATE_SETTLEMENT''"
| "type_text FX_GAIN_LOSS_MISMATCH = ''FX_GAIN_LOSS_MISMATCH''"
| "type_text FEE_CALCULATION_ERROR = ''FEE_CALCULATION_ERROR''"
| "type_text ON_CHAIN_MISMATCH = ''ON_CHAIN_MISMATCH''"

fun severity_text :: "discrepancy_severity \<Rightarrow> string" where
  "severity_text SEV_LOW = ''LOW''"
| "severity_text SEV_MEDIUM = ''MEDIUM''"
| "severity_text SEV_HIGH = ''HIGH''"
| "severity_text SEV_CRITICAL = ''CRITICAL''"

datatype export_format = EXPORT_CSV | EXPORT_JSON

definition csv_header :: string where
  "csv_header = ''Type,Severity,Intent ID,Description,Expected,Actual,Difference,Detected At''"

definition csv_line :: "recon_env \<Rightarrow> discrepancy \<Rightarrow> string" where
  "csv_line v d = join '','' [type_text (di_type d), severity_text (di_severity d), di_intent_id d,
     di_description d, template_text (re_number v) (re_date v) (di_expected d),
     template_text (re_number v) (re_date v) (di_actual d),
     (case di_difference d of None \<Rightarrow> '''' | Some x \<Rightarrow> re_number v x), iso_string (di_detected_at d)]"

definition newline :: string where "newline = [char_of (10 :: nat)]"

definition exportData :: "recon_env \<Rightarrow> recon_db \<Rightarrow> string \<Rightarrow> export_format \<Rightarrow> js_error + string" where
  "exportData v db i fmt =
     (case getRecord db i of
        Inl x \<Rightarrow> Inl x
      | Inr None \<Rightarrow> Inl (JsError ''Error'' (''Reconciliation record not found: '' @ i))
      | Inr (Some r) \<Rightarrow>
          (case getDiscrepancies db i of
             Inl x \<Rightarrow> Inl x
           | Inr ds \<Rightarrow> Inr (case fmt of
               EXPORT_JSON \<Rightarrow> re_stringify v r ds
             | EXPORT_CSV \<Rightarrow> join newline (csv_header # map (csv_line v) ds))))"

end
