(* ===== verification/Reconciliation_Properties.thy ===== *)
theory Reconciliation_Properties
  imports Reconciliation Settlement_Properties
begin

text \<open>
  What a reconciliation run decides, that it writes nothing but its own record, and that a
  settlement \<open>settleIntent\<close> completed passes its checks, a tiny amount apart.
\<close>

section \<open>The checks decide the books\<close>

text \<open>
  What the five checks of the code ask of the tables.  The class comment lists other conditions: it wants a
  ledger entry for every settled intent, the settlement amount compared with the locked rate, and the
  transactions on the chain compared with the ledger.  The code asks for some settlement of a settled
  intent, of whatever status, for a ledger entry of a completed settlement only, compares with the target
  less the fee, and never looks at a chain.
\<close>

definition reconciled :: "recon_db \<Rightarrow> int \<Rightarrow> int \<Rightarrow> bool" where
  "reconciled db t0 t1 =
     ((\<forall>q \<in> set (rb_intents db). pi_state q = SETTLED \<and> between t0 t1 (pi_updated_at q)
          \<longrightarrow> pi_id q \<in> se_intent_id ` set (rb_settlements db))
      \<and> (\<forall>s \<in> set (completed_in db t0 t1).
           (\<exists>x \<in> set (rb_ledger db). le_intent_id x = se_intent_id s \<and> le_type x = LE_SETTLEMENT)
           \<and> (\<forall>q \<in> set (rb_intents db). \<forall>m \<in> set (rb_merchants db).
                pi_id q = se_intent_id s \<and> m_id m = pi_merchant_id q
                \<longrightarrow> \<bar>expected_amount q m - se_amount s\<bar> \<le> expected_amount q m / 10000))
      \<and> distinct (map se_intent_id (created_in db t0 t1))
      \<and> (let gains = debited_to ''revenue:fx'' (fx_rows db t0 t1); losses = debited_to ''expense:fx'' (fx_rows db t0 t1)
         in 0 < gains + losses \<longrightarrow> \<bar>gains - losses\<bar> \<le> (gains + losses) / 10))"

lemma checkMissingSettlements_Nil:
  "checkMissingSettlements db t0 t1 = [] \<longleftrightarrow>
     (\<forall>q \<in> set (rb_intents db). pi_state q = SETTLED \<and> between t0 t1 (pi_updated_at q)
        \<longrightarrow> pi_id q \<in> se_intent_id ` set (rb_settlements db))"
  by (auto simp: checkMissingSettlements_def filter_empty_conv list_ex_iff image_iff eq_commute [of "pi_id _"])

lemma set_settlement_joins:
  "(s, q, m) \<in> set (settlement_joins db t0 t1) \<longleftrightarrow> s \<in> set (completed_in db t0 t1)
     \<and> q \<in> set (rb_intents db) \<and> m \<in> set (rb_merchants db) \<and> pi_id q = se_intent_id s \<and> m_id m = pi_merchant_id q"
  by (auto simp: settlement_joins_def)

lemma checkAmountMismatches_Nil:
  "checkAmountMismatches db t0 t1 = [] \<longleftrightarrow>
     (\<forall>s \<in> set (completed_in db t0 t1). \<forall>q \<in> set (rb_intents db). \<forall>m \<in> set (rb_merchants db).
        pi_id q = se_intent_id s \<and> m_id m = pi_merchant_id q
        \<longrightarrow> \<bar>expected_amount q m - se_amount s\<bar> \<le> expected_amount q m / 10000)"
proof -
  have "checkAmountMismatches db t0 t1 = [] \<longleftrightarrow>
      (\<forall>(s, q, m) \<in> set (settlement_joins db t0 t1). \<not> mismatch q m (se_amount s))"
    by (auto simp: checkAmountMismatches_def filter_empty_conv)
  also have "\<dots> \<longleftrightarrow> (\<forall>s q m. (s, q, m) \<in> set (settlement_joins db t0 t1)
      \<longrightarrow> \<bar>expected_amount q m - se_amount s\<bar> \<le> expected_amount q m / 10000)"
    by (auto simp: mismatch_def not_less)
  finally show ?thesis by (simp add: set_settlement_joins) blast
qed

lemma count_gt_1_iff: "(\<exists>x \<in> set xs. 1 < length (filter (\<lambda>y. f y = f x) xs)) \<longleftrightarrow> \<not> distinct (map f xs)"
proof (induction xs)
  case (Cons a xs)
  have "1 < Suc (length (filter (\<lambda>y. f y = f a) xs)) \<longleftrightarrow> f a \<in> f ` set xs"
    by (auto simp: filter_empty_conv image_iff intro: sym)
  moreover have "1 < length (filter (\<lambda>y. f y = f x) (a # xs)) \<longleftrightarrow>
      f a = f x \<or> 1 < length (filter (\<lambda>y. f y = f x) xs)" if "x \<in> set xs" for x
    using that by (cases "f a = f x") (auto simp: filter_empty_conv)
  ultimately show ?case using Cons.IH by (auto simp: image_iff)
qed simp

lemma checkDuplicateSettlements_Nil:
  "checkDuplicateSettlements db t0 t1 = [] \<longleftrightarrow> distinct (map se_intent_id (created_in db t0 t1))"
proof -
  let ?r = "created_in db t0 t1"
  have "checkDuplicateSettlements db t0 t1 = [] \<longleftrightarrow>
      \<not> (\<exists>x \<in> set ?r. 1 < length (filter (\<lambda>y. se_intent_id y = se_intent_id x) ?r))"
    by (auto simp: checkDuplicateSettlements_def Let_def filter_empty_conv)
  then show ?thesis unfolding count_gt_1_iff by simp
qed

lemma checkMissingLedgerEntries_Nil:
  "checkMissingLedgerEntries db t0 t1 = [] \<longleftrightarrow> (\<forall>s \<in> set (completed_in db t0 t1).
     \<exists>x \<in> set (rb_ledger db). le_intent_id x = se_intent_id s \<and> le_type x = LE_SETTLEMENT)"
  by (auto simp: checkMissingLedgerEntries_def filter_empty_conv list_ex_iff)

lemma checkFxGainLoss_Nil:
  "checkFxGainLoss num db t0 t1 = [] \<longleftrightarrow>
     (let gains = debited_to ''revenue:fx'' (fx_rows db t0 t1); losses = debited_to ''expense:fx'' (fx_rows db t0 t1)
      in 0 < gains + losses \<longrightarrow> \<bar>gains - losses\<bar> \<le> (gains + losses) / 10)"
  by (auto simp: checkFxGainLoss_def Let_def field_simps not_less)

lemma all_drafts_Nil: "all_drafts v db t0 t1 = [] \<longleftrightarrow> reconciled db t0 t1"
  unfolding all_drafts_def reconciled_def checkMissingSettlements_Nil checkAmountMismatches_Nil
    checkDuplicateSettlements_Nil checkMissingLedgerEntries_Nil checkFxGainLoss_Nil append_is_Nil_conv
  by (simp add: ball_conj_distrib conj_ac)

lemma length_create_each [simp]: "length (create_each e n i ds) = length ds"
  by (induction ds arbitrary: n) auto

text \<open>The checks read only the four financial tables.\<close>

lemma all_drafts_own_tables [simp]:
  "all_drafts v (db\<lparr> rb_records := r \<rparr>) t0 t1 = all_drafts v db t0 t1"
  "all_drafts v (db\<lparr> rb_ids := n \<rparr>) t0 t1 = all_drafts v db t0 t1"
  by (simp_all add: all_drafts_def checkMissingSettlements_def checkAmountMismatches_def
      settlement_joins_def completed_in_def checkDuplicateSettlements_def created_in_def
      checkMissingLedgerEntries_def checkFxGainLoss_def fx_rows_def)

text \<open>What a run leaves alone.\<close>

definition same_books :: "recon_db \<Rightarrow> recon_db \<Rightarrow> bool" where
  "same_books a b = (rb_intents b = rb_intents a \<and> rb_merchants b = rb_merchants a
     \<and> rb_settlements b = rb_settlements a \<and> rb_ledger b = rb_ledger a \<and> rb_discrepancies b = rb_discrepancies a)"

lemma createRecord_books: "same_books db (fst (createRecord v p t0 t1 db))"
  by (auto simp: createRecord_def same_books_def Let_def split: option.splits)

lemma updateRecord_books: "same_books db (fst (updateRecord now i u db))"
  by (auto simp: updateRecord_def same_books_def Let_def split: option.splits sum.splits)

lemma runReconciliation_books: "same_books db (fst (runReconciliation v p t0 t1 db))"
  unfolding runReconciliation_def
proof (rule andThen_inv [where P = "same_books db", OF createRecord_books])
  fix s r assume s: "same_books db s"
  have "same_books db (fst (updateRecord now i u (s\<lparr> rb_ids := n \<rparr>)))" for now i u n
    using s updateRecord_books [of "s\<lparr> rb_ids := n \<rparr>" now i u] by (simp add: same_books_def)
  then show "same_books db (fst (let ds = create_each (re_env v) (rb_ids s) (rr_id r) (all_drafts v s t0 t1);
      db1 = s\<lparr> rb_ids := rb_ids s + length ds \<rparr>
      in andThen (updateRecord (e_now (re_env v)) (rr_id r)
           \<lparr> ru_status = (if 0 < length ds then RS_DISCREPANCY_FOUND else RS_COMPLETED),
             ru_discrepancies = length ds, ru_summary = buildDiscrepancySummary ds,
             ru_financial = calculateFinancialSummary db1 t0 t1, ru_completed_at = e_now (re_env v) \<rparr> db1)
         (\<lambda>db f. (db, Inr \<lparr> cr_passed = (length ds = 0), cr_record = f, cr_discrepancies = ds,
                           cr_duration = re_end v - e_now (re_env v) \<rparr>))))"
    unfolding Let_def by (intro andThen_inv [where P = "same_books db"]) simp_all
qed

interpretation record_row: keyed_update rw_id "close_row now u" for now u
  by unfold_locales (simp add: close_row_def)

lemma updateRecord_found:
  assumes "rb_records db = Some rows" "r \<in> set rows" "rw_id r = i"
  shows "\<exists>db' f. updateRecord now i u db = (db', Inr f) \<and> rr_status f = ru_status u
     \<and> rr_discrepancies f = ru_discrepancies u \<and> rr_financial f = ru_financial u
     \<and> (\<exists>rows'. rb_records db' = Some rows' \<and> length rows' = length rows
          \<and> (\<forall>x \<in> set rows'. rw_id x = i \<longrightarrow> rw_status x = ru_status u))"
proof -
  let ?rows = "tbl_update (\<lambda>r. rw_id r = i) (close_row now u) rows"
  let ?db = "db\<lparr> rb_records := Some ?rows \<rparr>"
  obtain r0 where r0: "tbl_find (\<lambda>r. rw_id r = i) rows = Some r0"
    using tbl_find_Some_of_mem [OF assms(2), of "\<lambda>r. rw_id r = i"] assms(3) by auto
  have "getRecord ?db i = Inr (Some (mapRecord (close_row now u r0)))"
    using record_row.find_updated [of i now u rows] r0 by (simp add: getRecord_def)
  note found = this
  define f where "f = (mapRecord (close_row now u r0))\<lparr> rr_status := ru_status u,
    rr_discrepancies := ru_discrepancies u, rr_summary := ru_summary u, rr_financial := ru_financial u,
    rr_completed_at := Some (ru_completed_at u) \<rparr>"
  have "updateRecord now i u db = (?db, Inr f)"
    unfolding updateRecord_def assms(1) option.case Let_def found sum.case f_def ..
  moreover have "rr_status f = ru_status u" "rr_discrepancies f = ru_discrepancies u"
      "rr_financial f = ru_financial u"
    by (simp_all add: f_def)
  moreover have "\<forall>x \<in> set ?rows. rw_id x = i \<longrightarrow> rw_status x = ru_status u"
  proof (intro ballI impI)
    fix x assume x: "x \<in> set ?rows" "rw_id x = i"
    from x(1) show "rw_status x = ru_status u"
    proof (cases rule: in_tbl_updateE)
      case old
      with x(2) show ?thesis by blast
    next
      case (new r0)
      then show ?thesis by (simp add: close_row_def)
    qed
  qed
  moreover have "rb_records ?db = Some ?rows" "length ?rows = length rows" by simp_all
  ultimately show ?thesis by blast
qed

lemma run_with_relation:
  assumes "rb_records db = Some rows"
  shows "\<exists>db' res. runReconciliation v p t0 t1 db = (db', Inr res)
     \<and> (cr_passed res \<longleftrightarrow> reconciled db t0 t1)
     \<and> rr_status (cr_record res) = (if reconciled db t0 t1 then RS_COMPLETED else RS_DISCREPANCY_FOUND)
     \<and> rr_discrepancies (cr_record res) = length (cr_discrepancies res)
     \<and> same_books db db'
     \<and> (\<exists>rows'. rb_records db' = Some rows' \<and> length rows' = Suc (length rows)
          \<and> (\<forall>x \<in> set rows'. rw_id x = e_uuid (re_env v) (rb_ids db) \<longrightarrow> rw_status x = rr_status (cr_record res)))"
proof -
  let ?i = "e_uuid (re_env v) (rb_ids db)"
  obtain db1 r where cr: "createRecord v p t0 t1 db = (db1, Inr r)" and r: "rr_id r = ?i"
    and rows1: "\<exists>x. rb_records db1 = Some (rows @ [x]) \<and> rw_id x = ?i"
    and d1: "all_drafts v db1 t0 t1 = all_drafts v db t0 t1"
    using assms by (auto simp: createRecord_def Let_def)
  define ds where "ds = create_each (re_env v) (rb_ids db1) ?i (all_drafts v db t0 t1)"
  define db2 where "db2 = db1\<lparr> rb_ids := rb_ids db1 + length ds \<rparr>"
  define u where "u = \<lparr> ru_status = (if 0 < length ds then RS_DISCREPANCY_FOUND else RS_COMPLETED),
      ru_discrepancies = length ds, ru_summary = buildDiscrepancySummary ds,
      ru_financial = calculateFinancialSummary db2 t0 t1, ru_completed_at = e_now (re_env v) \<rparr>"
  obtain x where x: "rb_records db2 = Some (rows @ [x])" "rw_id x = ?i" using rows1 by (auto simp: db2_def)
  obtain db' f rows' where up: "updateRecord (e_now (re_env v)) ?i u db2 = (db', Inr f)" "rr_status f = ru_status u"
      "rr_discrepancies f = ru_discrepancies u" "rb_records db' = Some rows'" "length rows' = length (rows @ [x])"
      "\<forall>y \<in> set rows'. rw_id y = ?i \<longrightarrow> rw_status y = ru_status u"
    using updateRecord_found [OF x(1) _ x(2), of "e_now (re_env v)" u] by auto
  have run: "runReconciliation v p t0 t1 db = (db', Inr \<lparr> cr_passed = (length ds = 0), cr_record = f,
      cr_discrepancies = ds, cr_duration = re_end v - e_now (re_env v) \<rparr>)"
    unfolding runReconciliation_def cr andThen_simps Let_def r d1 ds_def [symmetric] db2_def [symmetric]
      u_def [symmetric] up(1) ..
  moreover have "length ds = 0 \<longleftrightarrow> reconciled db t0 t1"
    using all_drafts_Nil [of v db t0 t1] by (simp add: ds_def)
  moreover have "same_books db db'" using runReconciliation_books [of db v p t0 t1] run by simp
  ultimately show ?thesis using up(2-6) by (auto simp: u_def)
qed

text \<open>In a database built by the migrations the relation of the records is missing: every run throws
  and writes nothing.\<close>

lemma run_needs_relation:
  "rb_records db = None \<Longrightarrow> runReconciliation v p t0 t1 db
     = (db\<lparr> rb_ids := Suc (rb_ids db) \<rparr>, Inl (no_relation ''reconciliation_records''))"
  by (simp add: runReconciliation_def createRecord_def Let_def)

text \<open>C8: Where the relation reconciliation_records exists, which no migration creates, a run passes exactly when the
  five checks of the code hold: every settled intent has a
  settlement, every completed settlement pays what the intent and the fee of its merchant say, no
  intent is settled twice, every completed settlement has its ledger entry and no currency gain or
  loss is in excess. The record is closed with the status and the count that say so, and nothing
  else of the books changes.  Where it does not exist, as in every migrated database, a run throws and stores nothing.\<close>

theorem reconciliation_passes_iff:
  "case rb_records db of
     None \<Rightarrow> runReconciliation v p t0 t1 db = (db\<lparr> rb_ids := Suc (rb_ids db) \<rparr>, Inl (no_relation ''reconciliation_records''))
   | Some rows \<Rightarrow> (\<exists>db' res. runReconciliation v p t0 t1 db = (db', Inr res)
     \<and> (cr_passed res \<longleftrightarrow> reconciled db t0 t1)
     \<and> rr_status (cr_record res) = (if reconciled db t0 t1 then RS_COMPLETED else RS_DISCREPANCY_FOUND)
     \<and> rr_discrepancies (cr_record res) = length (cr_discrepancies res)
     \<and> same_books db db'
     \<and> (\<exists>rows'. rb_records db' = Some rows' \<and> length rows' = Suc (length rows)
          \<and> (\<forall>x \<in> set rows'. rw_id x = e_uuid (re_env v) (rb_ids db) \<longrightarrow> rw_status x = rr_status (cr_record res))))"
  by (cases "rb_records db") (simp_all add: run_needs_relation run_with_relation)

text \<open>Books with one SETTLED intent that was never paid out.\<close>

definition ex_books :: recon_db where
  "ex_books = \<lparr> rb_intents = [ex_intent\<lparr> pi_state := SETTLED \<rparr>], rb_merchants = [ex_shop], rb_settlements = [],
     rb_ledger = [], rb_records = Some [], rb_discrepancies = Some [], rb_ids = 0 \<rparr>"

definition ex_recon :: recon_env where
  "ex_recon = \<lparr> re_env = ex_ledger_env, re_end = 7, re_number = (\<lambda>_. ''n''), re_date = (\<lambda>_. ''d''),
     re_convert = (\<lambda>_. 0), re_stringify = (\<lambda>_ _. ''{}'') \<rparr>"

theorem reconciliation_passes_iff_witness:
  "\<exists>db' res. runReconciliation ex_recon DAILY 0 10 ex_books = (db', Inr res)
     \<and> \<not> cr_passed res \<and> rr_status (cr_record res) = RS_DISCREPANCY_FOUND \<and> same_books ex_books db'"
proof -
  have "\<not> reconciled ex_books 0 10"
    by (simp add: reconciled_def ex_books_def ex_intent_def between_def)
  moreover have "rb_records ex_books = Some []" by (simp add: ex_books_def)
  ultimately show ?thesis
    using reconciliation_passes_iff [where db = ex_books and v = ex_recon and p = DAILY and ?t0.0 = 0 and ?t1.0 = 10]
    by fastforce
qed

text \<open>The first condition of the class comment is not checked: books with a SETTLED intent whose only payout FAILED
  and which has no ledger entry are reconciled.\<close>

lemma failed_payout_reconciles:
  "reconciled (ex_books\<lparr> rb_settlements := [\<lparr> se_id = ''s'', se_intent_id = ''i'', se_merchant_id = ''m'', se_amount = 1,
     se_asset = ''USDC'', se_chain = ''1'', se_destination = ''0xshop'', se_status = S_FAILED, se_tx_hash = None,
     se_created_at = 0, se_updated_at = 0, se_completed_at = None \<rparr>] \<rparr>) 0 10"
  by (simp add: reconciled_def ex_books_def ex_intent_def completed_in_def created_in_def fx_rows_def debited_to_def Let_def)

section \<open>A payment that was settled once\<close>

text \<open>What the settlement service leaves behind passes every check that looks at the intent, except that the
  rounding of the payout to 8 decimals exceeds the tolerance of 0.01% when the amount is tiny.\<close>

lemma settled_row_unique:
  assumes "own_row rows i j s" "j \<notin> se_intent_id ` set rows" "findSettlement s k = Some d" "se_intent_id d = j"
    and "r \<in> set (ss_settlements s)" "se_intent_id r = j"
  shows "r = d"
proof -
  from assms(1) obtain r0 where "ss_settlements s = rows @ [r0]" by (auto simp: own_row_def)
  moreover have "d \<in> set (ss_settlements s)"
    using assms(3) by (auto simp: findSettlement_def dest: tbl_find_SomeD)
  ultimately show ?thesis using assms(2,4,5,6) by (auto simp: image_iff)
qed

lemma draft_intents:
  "x \<in> set (checkMissingSettlements db t0 t1) \<Longrightarrow> dr_intent x \<notin> se_intent_id ` set (rb_settlements db)"
  "x \<in> set (checkMissingLedgerEntries db t0 t1) \<Longrightarrow>
     \<forall>y \<in> set (rb_ledger db). le_intent_id y = dr_intent x \<longrightarrow> le_type y \<noteq> LE_SETTLEMENT"
  "x \<in> set (checkAmountMismatches db t0 t1) \<Longrightarrow> \<exists>s q m. s \<in> set (rb_settlements db) \<and> q \<in> set (rb_intents db)
     \<and> m \<in> set (rb_merchants db) \<and> pi_id q = se_intent_id s \<and> m_id m = pi_merchant_id q
     \<and> se_intent_id s = dr_intent x \<and> mismatch q m (se_amount s)"
proof -
  show "x \<in> set (checkMissingSettlements db t0 t1) \<Longrightarrow> dr_intent x \<notin> se_intent_id ` set (rb_settlements db)"
    by (auto simp: checkMissingSettlements_def list_ex_iff)
  show "x \<in> set (checkMissingLedgerEntries db t0 t1) \<Longrightarrow>
     \<forall>y \<in> set (rb_ledger db). le_intent_id y = dr_intent x \<longrightarrow> le_type y \<noteq> LE_SETTLEMENT"
    by (auto simp: checkMissingLedgerEntries_def list_ex_iff)
  assume "x \<in> set (checkAmountMismatches db t0 t1)"
  then obtain s q m where "(s, q, m) \<in> set (settlement_joins db t0 t1)" "mismatch q m (se_amount s)"
      "dr_intent x = se_intent_id s"
    by (auto simp: checkAmountMismatches_def)
  then show "\<exists>s q m. s \<in> set (rb_settlements db) \<and> q \<in> set (rb_intents db)
     \<and> m \<in> set (rb_merchants db) \<and> pi_id q = se_intent_id s \<and> m_id m = pi_merchant_id q
     \<and> se_intent_id s = dr_intent x \<and> mismatch q m (se_amount s)"
    unfolding set_settlement_joins completed_in_def by auto
qed

lemma draft_duplicate:
  assumes "x \<in> set (checkDuplicateSettlements db t0 t1)"
  shows "1 < length (filter (\<lambda>s. se_intent_id s = dr_intent x) (rb_settlements db))"
proof -
  have "1 < length (filter (\<lambda>s. se_intent_id s = dr_intent x) (created_in db t0 t1))"
    using assms by (auto simp: checkDuplicateSettlements_def Let_def)
  moreover have "length (filter P (filter Q xs)) \<le> length (filter P xs)" for P Q and xs :: "settlement list"
    by (induction xs) auto
  ultimately show ?thesis unfolding created_in_def by (rule less_le_trans)
qed

text \<open>Why a draft that names the intent would be raised: by none of the checks of existence or number.\<close>

lemma settled_once_drafts:
  assumes "own_row rows i j s'" "j \<notin> se_intent_id ` set rows" "findSettlement s' k = Some d" "se_intent_id d = j"
    and "\<exists>y \<in> set (lg_entries (ss_ledger s')). le_intent_id y = j \<and> le_type y = LE_SETTLEMENT"
    and "rb_settlements db = ss_settlements s'" "rb_ledger db = lg_entries (ss_ledger s')"
    and "x \<in> set (all_drafts ve db t0 t1)" "dr_type x \<noteq> FX_GAIN_LOSS_MISMATCH" "dr_intent x = j"
  shows "x \<in> set (checkAmountMismatches db t0 t1)"
proof -
  have dmem: "d \<in> set (rb_settlements db)"
    using assms(3,6) by (auto simp: findSettlement_def dest: tbl_find_SomeD)
  have once: "length (filter (\<lambda>r. se_intent_id r = j) (rb_settlements db)) \<le> 1"
  proof -
    from assms(1) obtain r0 where "rb_settlements db = rows @ [r0]" using assms(6) by (auto simp: own_row_def)
    moreover have "filter (\<lambda>r. se_intent_id r = j) rows = []"
      using assms(2) by (auto simp: filter_empty_conv image_iff)
    ultimately show ?thesis by simp
  qed
  have "x \<notin> set (checkMissingSettlements db t0 t1)"
    using draft_intents(1) [of x db t0 t1] assms(4,10) dmem by (metis imageI)
  moreover have "x \<notin> set (checkMissingLedgerEntries db t0 t1)"
    using draft_intents(2) [of x db t0 t1] assms(5,7,10) by auto
  moreover have "x \<notin> set (checkDuplicateSettlements db t0 t1)"
    using draft_duplicate [of x db t0 t1] assms(10) once by auto
  moreover have "x \<notin> set (checkFxGainLoss (re_number ve) db t0 t1)"
    using assms(9) by (auto simp: checkFxGainLoss_def Let_def split: if_splits)
  ultimately show ?thesis using assms(8) by (simp add: all_drafts_def)
qed

text \<open>C20: the rows that a first settlement of an intent leaves raise none of the checks of a later
  reconciliation of any period, the currency check apart, with one exception: when the expected payout is
  below 0.00005, the rounding of the payout to 8 decimals may raise AMOUNT_MISMATCH.\<close>

theorem settled_payment_reconciles:
  assumes "settleIntent v intent m c s = Some (s', Inr d)" "on_grid (pi_target_amount intent)"
    and "0 \<le> pi_target_amount intent" "0 \<le> m_fee_percentage m" "m_fee_percentage m \<le> 100"
    and "pi_id intent \<notin> se_intent_id ` set (ss_settlements s)"
    and "rb_settlements db = ss_settlements s'" "rb_ledger db = lg_entries (ss_ledger s')"
    and "\<forall>q \<in> set (rb_intents db). pi_id q = pi_id intent
           \<longrightarrow> pi_target_amount q = pi_target_amount intent \<and> pi_merchant_id q = m_id m"
    and "\<forall>x \<in> set (rb_merchants db). m_id x = m_id m \<longrightarrow> m_fee_percentage x = m_fee_percentage m"
  shows "\<forall>x \<in> set (all_drafts ve db t0 t1). dr_type x = FX_GAIN_LOSS_MISMATCH \<or> dr_intent x \<noteq> pi_id intent
    \<or> dr_type x = AMOUNT_MISMATCH \<and> expected_amount intent m < 5 / 100000"
proof (intro ballI)
  fix x assume x: "x \<in> set (all_drafts ve db t0 t1)"
  from settleIntent_done [OF assms(1-5)] obtain i where
    d: "findSettlement s' (se_id d) = Some d" "se_intent_id d = pi_id intent"
      "se_amount d = calculateSettlementAmount (pi_target_amount intent) (m_fee_percentage m)"
    and entry: "\<exists>y \<in> set (lg_entries (ss_ledger s')). le_intent_id y = pi_id intent \<and> le_type y = LE_SETTLEMENT"
    and own: "own_row (ss_settlements s) i (pi_id intent) s'"
    by blast
  have rounding: "\<bar>expected_amount intent m - se_amount d\<bar> \<le> 1 / 200000000"
    using settlement_amount_close [OF assms(3-5)] by (simp add: d(3) expected_amount_def abs_minus_commute)
  show "dr_type x = FX_GAIN_LOSS_MISMATCH \<or> dr_intent x \<noteq> pi_id intent
    \<or> dr_type x = AMOUNT_MISMATCH \<and> expected_amount intent m < 5 / 100000"
  proof (cases "dr_type x = FX_GAIN_LOSS_MISMATCH \<or> dr_intent x \<noteq> pi_id intent")
    case False
    then have am: "x \<in> set (checkAmountMismatches db t0 t1)"
      using settled_once_drafts [OF own assms(6) d(1,2) entry assms(7,8) x] by blast
    then obtain r q y where r: "r \<in> set (rb_settlements db)" "q \<in> set (rb_intents db)" "y \<in> set (rb_merchants db)"
        "pi_id q = se_intent_id r" "m_id y = pi_merchant_id q" "se_intent_id r = pi_id intent" "mismatch q y (se_amount r)"
      using draft_intents(3) False by metis
    then have "r = d" using settled_row_unique [OF own assms(6) d(1,2)] assms(7) by simp
    moreover have "expected_amount q y = expected_amount intent m"
      using r assms(9,10) by (simp add: expected_amount_def)
    ultimately have "expected_amount intent m < 5 / 100000" using r(7) rounding by (simp add: mismatch_def)
    then show ?thesis using am by (auto simp: checkAmountMismatches_def)
  qed blast
qed

text \<open>The exception is real: the smallest amount, with a fee of 1%, is paid out in full and reported.\<close>

lemma smallest_payment_mismatches:
  assumes "pi_target_amount q = 1 / 100000000" "m_fee_percentage m = 1"
  shows "mismatch q m (calculateSettlementAmount (pi_target_amount q) (m_fee_percentage m))"
proof -
  have "js_round (99 / 100 :: rat) = 1" unfolding js_round_def by (rule floor_unique) simp_all
  then show ?thesis using assms by (simp add: mismatch_def expected_amount_def calculateSettlementAmount_def Let_def)
qed

theorem settled_payment_reconciles_witness:
  "\<exists>s' d. settleIntent ex_settle_env ex_intent ex_shop ex_client ex_settle = Some (s', Inr d)
     \<and> filter (\<lambda>x. dr_type x \<noteq> FX_GAIN_LOSS_MISMATCH \<and> dr_intent x = ''i'')
         (all_drafts ex_recon (ex_books\<lparr> rb_settlements := ss_settlements s', rb_ledger := lg_entries (ss_ledger s') \<rparr>) 0 10) = []"
proof -
  let ?r = "settleIntent ex_settle_env ex_intent ex_shop ex_client ex_settle"
  have "case ?r of None \<Rightarrow> False | Some (_, Inl _) \<Rightarrow> False | Some (_, Inr _) \<Rightarrow> True" by code_simp
  then obtain s' d where r: "?r = Some (s', Inr d)" by (auto split: option.splits prod.splits sum.splits)
  let ?db = "ex_books\<lparr> rb_settlements := ss_settlements s', rb_ledger := lg_entries (ss_ledger s') \<rparr>"
  have "\<forall>x \<in> set (all_drafts ex_recon ?db 0 10). dr_type x = FX_GAIN_LOSS_MISMATCH \<or> dr_intent x \<noteq> pi_id ex_intent
      \<or> dr_type x = AMOUNT_MISMATCH \<and> expected_amount ex_intent ex_shop < 5 / 100000"
    by (rule settled_payment_reconciles [OF r])
      (simp_all add: on_grid_def ex_intent_def ex_shop_def ex_settle_def ex_books_def)
  moreover have "\<not> expected_amount ex_intent ex_shop < 5 / 100000" by (simp add: expected_amount_def ex_intent_def ex_shop_def)
  ultimately show ?thesis using r by (auto simp: filter_empty_conv ex_intent_def)
qed

section \<open>The export\<close>

text \<open>The operations that write: a run and a report.\<close>

datatype recon_op =
    RunOp recon_env recon_period int int
  | ReportOp recon_env recon_period int int

fun recon_step :: "recon_op \<Rightarrow> recon_db \<Rightarrow> recon_db" where
  "recon_step (RunOp v p t0 t1) db = fst (runReconciliation v p t0 t1 db)"
| "recon_step (ReportOp v p t0 t1) db = fst (generateFinancialReport v p t0 t1 db)"

interpretation recon: op_machine recon_step "\<lambda>db :: recon_db. rb_discrepancies db = ds" for ds
proof
  fix db :: recon_db and op assume "rb_discrepancies db = ds"
  then show "rb_discrepancies (recon_step op db) = ds"
    using runReconciliation_books by (cases op) (auto simp: generateFinancialReport_def same_books_def)
qed

text \<open>Whatever runs and reports were made before, the CSV export of an existing record is its header
  alone: discrepancies are returned to the caller and never stored.\<close>

theorem exported_csv_has_no_rows:
  assumes "rb_discrepancies db = Some []" "db' = fold recon_step ops db" "rb_records db' = Some rows"
    and "i \<in> rw_id ` set rows"
  shows "exportData v db' i EXPORT_CSV = Inr csv_header"
proof -
  have "rb_discrepancies db' = Some []" using recon.inv_run [OF assms(1)] assms(2) by simp
  moreover obtain r where "tbl_find (\<lambda>r. rw_id r = i) rows = Some r"
    using assms(4) tbl_find_Some_of_mem [of _ rows "\<lambda>r. rw_id r = i"] by blast
  ultimately show ?thesis
    using assms(3) by (simp add: exportData_def getRecord_def getDiscrepancies_def join_def)
qed

theorem exported_csv_has_no_rows_witness:
  "\<not> cr_passed (projr (snd (runReconciliation ex_recon DAILY 0 10 ex_books)))
   \<and> exportData ex_recon (fold recon_step [RunOp ex_recon DAILY 0 10] ex_books) (e_uuid ex_ledger_env 0) EXPORT_CSV
       = Inr csv_header"
proof -
  let ?db = "fold recon_step [RunOp ex_recon DAILY 0 10] ex_books"
  have "(case rb_records ?db of None \<Rightarrow> False | Some rows \<Rightarrow> list_ex (\<lambda>r. e_uuid ex_ledger_env 0 = rw_id r) rows)
      \<and> \<not> cr_passed (projr (snd (runReconciliation ex_recon DAILY 0 10 ex_books)))" by code_simp
  then obtain rows where "rb_records ?db = Some rows" "e_uuid ex_ledger_env 0 \<in> rw_id ` set rows"
      "\<not> cr_passed (projr (snd (runReconciliation ex_recon DAILY 0 10 ex_books)))"
    by (auto simp: list_ex_iff image_iff split: option.splits)
  moreover have "rb_discrepancies ex_books = Some []" by (simp add: ex_books_def)
  ultimately show ?thesis using exported_csv_has_no_rows [OF _ refl, of ex_books "[RunOp ex_recon DAILY 0 10]"] by blast
qed

end
