(* ===== verification/Chain_Types.thy ===== *)
theory Chain_Types
  imports Confirmation_Tracker Js_Text
begin

text \<open>
  The types of the chain clients (\<open>packages/shared/src/types/chain.ts\<close>), the errors they throw
  (\<open>packages/shared/src/errors/chain-errors.ts\<close>), and the contract the rest of the gateway relies on
  when it polls a transaction (\<open>IChainClient\<close>).
\<close>

record unsigned_call =
  uc_from :: string
  uc_to :: string
  uc_value :: string
  uc_data :: string

record gas_estimate =
  es_gas_limit :: rat
  es_gas_price :: rat
  es_max_fee :: "rat option"
  es_max_priority :: "rat option"
  es_total_cost :: rat
  es_total_cost_usd :: rat

record tx_result =
  tr_hash :: string
  tr_nonce :: "nat option"
  tr_block :: "nat option"

text \<open>\<open>TxStatus\<close> with all its fields; the tracker and the settlement read the first two.\<close>

record full_status = tx_status +
  st_hash :: string
  st_block :: "nat option"
  st_gas_used :: "rat option"
  st_gas_price :: "rat option"

record tx_log =
  lo_address :: string
  lo_topics :: "string list"
  lo_data :: string
  lo_block :: nat
  lo_tx_hash :: string
  lo_index :: nat

record tx_receipt =
  rp_hash :: string
  rp_status :: bool
  rp_block :: nat
  rp_block_hash :: string
  rp_gas_used :: rat
  rp_gas_price :: rat
  rp_logs :: "tx_log list"

record balance =
  ba_asset :: asset_info
  ba_amount :: string
  ba_usd :: rat

record chain_event = deposit_event +
  ce_confirmations :: int

section \<open>Errors\<close>

text \<open>A \<open>GatewayError\<close>: the code, the status and the details are not part of the message.\<close>

definition gateway_failure :: "string \<Rightarrow> js_error" where
  "gateway_failure msg = JsError ''GatewayError'' msg"

definition with_reason :: "string \<Rightarrow> string \<Rightarrow> string" where
  "with_reason msg reason = (if reason = [] then msg else msg @ '': '' @ reason)"

definition InvalidAddressError :: "string \<Rightarrow> string \<Rightarrow> js_error" where
  "InvalidAddressError a chain = gateway_failure (''Invalid address \"'' @ a @ ''\" for chain '' @ chain)"

definition RpcError :: "string \<Rightarrow> string \<Rightarrow> string \<Rightarrow> js_error" where
  "RpcError chain code msg = gateway_failure (''RPC error on '' @ chain @ '': ['' @ code @ ''] '' @ msg)"

definition TransactionRevertedError :: "string \<Rightarrow> string \<Rightarrow> string \<Rightarrow> js_error" where
  "TransactionRevertedError h chain reason = gateway_failure (with_reason (''Transaction '' @ h @ '' reverted on '' @ chain) reason)"

definition BalanceQueryError :: "string \<Rightarrow> string \<Rightarrow> string \<Rightarrow> js_error" where
  "BalanceQueryError a chain reason =
     gateway_failure (with_reason (''Failed to query balance for '' @ a @ '' on '' @ chain) reason)"

text \<open>\<open>error.message\<close>: undefined for a thrown value that is no error, here the empty text.\<close>

fun err_message :: "js_error \<Rightarrow> string" where
  "err_message (JsError _ msg) = msg"
| "err_message (JsThrown _) = ''''"

section \<open>The contract of a client\<close>

text \<open>
  What the confirmation tracker and the settlement rely on when they query a transaction for the n-th
  time: it is CONFIRMED from the confirmation depth on, CONFIRMING below it, and PENDING
  without a confirmation.
\<close>

locale status_contract =
  fixes depth :: int and status :: "nat \<Rightarrow> string \<Rightarrow> js_error + 'a tx_status_scheme"
  assumes pending: "status n h = Inr st \<Longrightarrow> ts_status st = TX_PENDING \<Longrightarrow> ts_confirmations st = 0"
    and confirming: "status n h = Inr st \<Longrightarrow> ts_status st = TX_CONFIRMING \<Longrightarrow> ts_confirmations st < depth"
    and confirmed: "status n h = Inr st \<Longrightarrow> ts_status st = TX_CONFIRMED \<Longrightarrow> depth \<le> ts_confirmations st"
begin

lemma deep_is_final:
  "0 < depth \<Longrightarrow> status n h = Inr st \<Longrightarrow> depth \<le> ts_confirmations st
     \<Longrightarrow> ts_status st = TX_CONFIRMED \<or> ts_status st = TX_FAILED"
  using pending [of n h st] confirming [of n h st] by (cases "ts_status st") auto

lemma shallow_unconfirmed:
  "status n h = Inr st \<Longrightarrow> ts_confirmations st < depth \<Longrightarrow> ts_status st \<noteq> TX_CONFIRMED"
  using confirmed [of n h st] by auto

end

end
