(* ===== verification/Gas_Abstraction.thy ===== *)
theory Gas_Abstraction
  imports Chain_Types
begin

text \<open>
  \<open>GasAbstractionService\<close> (\<open>packages/gas-abstraction/src/gas-abstraction.service.ts\<close>): the strategy of
  each chain, the cost estimate, and the preparation and execution of a gasless transaction.  A
  custom configuration of an unknown chain is cast to a full one, so every field of a configuration
  may be undefined.  The chain clients and \<open>Math.random\<close> are parameters.
\<close>

section \<open>Types\<close>

datatype gas_strategy = ERC4337_PAYMASTER | RELAYER | RESOURCE_MODEL | PRIORITY_FEE_RELAY

datatype sponsor_policy = SPONSOR_ALL | SPONSOR_ERC20_ONLY | SPONSOR_WHITELIST | SPONSOR_RULES_BASED

record paymaster_config =
  pm_address :: string
  pm_rpc_url :: string
  pm_api_key :: "string option"
  pm_policy :: sponsor_policy

record relayer_config =
  rl_url :: string
  rl_api_key :: string
  rl_chain_id :: string
  rl_max_gas_price_gwei :: rat
  rl_fee_percentage :: rat

record gas_config =
  gc_chain_id :: "string option"
  gc_strategy :: "gas_strategy option"
  gc_symbol :: "string option"
  gc_decimals :: "nat option"
  gc_price :: "rat option"
  gc_paymaster :: "paymaster_config option"
  gc_relayer :: "relayer_config option"

text \<open>The own properties of a partial configuration; a property may be present and undefined.\<close>

datatype gas_field =
    F_chainId "string option" | F_strategy "gas_strategy option" | F_symbol "string option"
  | F_decimals "nat option" | F_price "rat option" | F_paymaster "paymaster_config option"
  | F_relayer "relayer_config option"

record user_operation =
  uo_sender :: string
  uo_nonce :: nat
  uo_call_data :: string
  uo_call_gas_limit :: nat
  uo_verification_gas_limit :: nat
  uo_pre_verification_gas :: nat
  uo_max_fee_per_gas :: nat
  uo_max_priority_fee_per_gas :: nat
  uo_paymaster_and_data :: string
  uo_signature :: string

record relayer_tx =
  rt_from :: string
  rt_to :: string
  rt_value :: string
  rt_data :: string
  rt_chain_id :: rat

datatype prepared =
    PaymasterRequest user_operation string "string option"
  | RelayerRequest relayer_tx string string

record gasless_fee =
  gf_percentage :: rat
  gf_usd :: "rat option"
  gf_token :: rat
  gf_symbol :: "string option"

text \<open>Costs may be \<open>NaN\<close> when the price of the chain is undefined: \<open>None\<close>.\<close>

record gas_cost =
  co_chain_id :: "string option"
  co_strategy :: "gas_strategy option"
  co_native :: rat
  co_symbol :: "string option"
  co_usd :: "rat option"
  co_token :: "rat option"
  co_token_symbol :: "string option"
  co_gas_limit :: rat
  co_gas_price :: rat
  co_gasless_available :: bool
  co_gasless_fee :: "gasless_fee option"

record gasless_result =
  gr_success :: bool
  gr_tx_hash :: string
  gr_cost :: gas_cost
  gr_error :: "string option"

record gas_params =
  gp_chain_id :: string
  gp_from :: string
  gp_to :: string
  gp_value :: string
  gp_data :: string
  gp_token :: "string option"

text \<open>The clients answer \<open>estimateGas\<close> for the chains that have one.\<close>

record gas_service =
  gs_configs :: "(string \<times> gas_config) list"
  gs_clients :: "string \<Rightarrow> (gas_params \<Rightarrow> js_error + gas_estimate) option"

section \<open>Configuration\<close>

definition default_config :: "string \<Rightarrow> gas_strategy \<Rightarrow> string \<Rightarrow> nat \<Rightarrow> rat \<Rightarrow> string \<times> gas_config" where
  "default_config c st coin dec price = (c, \<lparr> gc_chain_id = Some c, gc_strategy = Some st, gc_symbol = Some coin,
     gc_decimals = Some dec, gc_price = Some price, gc_paymaster = None, gc_relayer = None \<rparr>)"

definition DEFAULT_CHAIN_CONFIGS :: "(string \<times> gas_config) list" where
  "DEFAULT_CHAIN_CONFIGS =
     [default_config ''1'' ERC4337_PAYMASTER ''ETH'' 18 3500,
      default_config ''8453'' ERC4337_PAYMASTER ''ETH'' 18 3500,
      default_config ''42161'' ERC4337_PAYMASTER ''ETH'' 18 3500,
      default_config ''137'' RELAYER ''MATIC'' 18 (8 / 10),
      default_config ''tron'' RESOURCE_MODEL ''TRX'' 6 (12 / 100),
      default_config ''solana'' PRIORITY_FEE_RELAY ''SOL'' 9 150]"

fun set_field :: "gas_field \<Rightarrow> gas_config \<Rightarrow> gas_config" where
  "set_field (F_chainId v) c = c\<lparr> gc_chain_id := v \<rparr>"
| "set_field (F_strategy v) c = c\<lparr> gc_strategy := v \<rparr>"
| "set_field (F_symbol v) c = c\<lparr> gc_symbol := v \<rparr>"
| "set_field (F_decimals v) c = c\<lparr> gc_decimals := v \<rparr>"
| "set_field (F_price v) c = c\<lparr> gc_price := v \<rparr>"
| "set_field (F_paymaster v) c = c\<lparr> gc_paymaster := v \<rparr>"
| "set_field (F_relayer v) c = c\<lparr> gc_relayer := v \<rparr>"

definition no_config :: gas_config where
  "no_config = \<lparr> gc_chain_id = None, gc_strategy = None, gc_symbol = None, gc_decimals = None,
     gc_price = None, gc_paymaster = None, gc_relayer = None \<rparr>"

definition new_gas_service ::
    "(string \<Rightarrow> (gas_params \<Rightarrow> js_error + gas_estimate) option) \<Rightarrow> (string \<times> gas_field list) list \<Rightarrow> gas_service" where
  "new_gas_service clients custom = \<lparr>
     gs_configs = fold (\<lambda>(c, fields) m. js_map_set c
        (fold set_field fields (case map_of m c of Some existing \<Rightarrow> existing | None \<Rightarrow> no_config)) m)
        custom DEFAULT_CHAIN_CONFIGS,
     gs_clients = clients \<rparr>"

definition gas_config_of :: "gas_service \<Rightarrow> string \<Rightarrow> gas_config option" where
  "gas_config_of s c = map_of (gs_configs s) c"

definition getStrategy :: "gas_service \<Rightarrow> string \<Rightarrow> gas_strategy option" where
  "getStrategy s c = (case gas_config_of s c of None \<Rightarrow> Some RELAYER | Some cfg \<Rightarrow> gc_strategy cfg)"

section \<open>Estimates\<close>

definition isAcceptedFeeToken :: "string \<Rightarrow> bool" where
  "isAcceptedFeeToken t = (to_upper t \<in> set [''USDC'', ''USDT'', ''DAI''])"

definition isGaslessAvailable :: "gas_service \<Rightarrow> string \<Rightarrow> string option \<Rightarrow> bool" where
  "isGaslessAvailable s c token =
     (case gas_config_of s c of
        None \<Rightarrow> False
      | Some cfg \<Rightarrow>
          (case gc_strategy cfg of
             Some ERC4337_PAYMASTER \<Rightarrow> gc_paymaster cfg \<noteq> None
           | Some RELAYER \<Rightarrow>
               if gc_relayer cfg = None then False
               else (case truthy_str token of None \<Rightarrow> True | Some t \<Rightarrow> isAcceptedFeeToken t)
           | Some PRIORITY_FEE_RELAY \<Rightarrow> gc_relayer cfg \<noteq> None
           | _ \<Rightarrow> False))"

definition estimateDefaultGasCost :: "gas_params \<Rightarrow> gas_cost" where
  "estimateDefaultGasCost p = \<lparr> co_chain_id = Some (gp_chain_id p), co_strategy = Some RELAYER, co_native = 1 / 1000,
     co_symbol = Some ''ETH'', co_usd = Some (35 / 10), co_token = None, co_token_symbol = None,
     co_gas_limit = 21000, co_gas_price = 20000000000, co_gasless_available = False, co_gasless_fee = None \<rparr>"

definition estimateGasCost :: "gas_service \<Rightarrow> gas_params \<Rightarrow> gas_cost" where
  "estimateGasCost s p =
     (case (gas_config_of s (gp_chain_id p), gs_clients s (gp_chain_id p)) of
        (Some cfg, Some client) \<Rightarrow>
          (case client p of
             Inl _ \<Rightarrow> estimateDefaultGasCost p
           | Inr est \<Rightarrow>
               (let usd = es_total_cost_usd est; available = isGaslessAvailable s (gp_chain_id p) (gp_token p);
                    fee = (case gc_relayer cfg of
                        Some rl \<Rightarrow> if available
                          then Some \<lparr> gf_percentage = rl_fee_percentage rl,
                                 gf_usd = Some (usd * (rl_fee_percentage rl / 100)), gf_token = 0,
                                 gf_symbol = (case gp_token p of Some t \<Rightarrow> Some t | None \<Rightarrow> gc_symbol cfg) \<rparr>
                          else None
                      | None \<Rightarrow> None);
                    token = truthy_str (gp_token p)
                in \<lparr> co_chain_id = Some (gp_chain_id p), co_strategy = gc_strategy cfg,
                     co_native = es_total_cost est, co_symbol = gc_symbol cfg, co_usd = Some usd,
                     co_token = map_option (\<lambda>_. usd / 1) token, co_token_symbol = token,
                     co_gas_limit = es_gas_limit est, co_gas_price = es_gas_price est,
                     co_gasless_available = available, co_gasless_fee = fee \<rparr>))
      | _ \<Rightarrow> estimateDefaultGasCost p)"

definition createDefaultCostEstimate :: "gas_service \<Rightarrow> string \<Rightarrow> gas_cost" where
  "createDefaultCostEstimate s c =
     (let cfg = gas_config_of s c in
      \<lparr> co_chain_id = Some c,
        co_strategy = (case Option.bind cfg gc_strategy of Some st \<Rightarrow> Some st | None \<Rightarrow> Some RELAYER),
        co_native = 0, co_symbol = (case Option.bind cfg gc_symbol of Some y \<Rightarrow> Some y | None \<Rightarrow> Some ''ETH''),
        co_usd = Some 0, co_token = None, co_token_symbol = None, co_gas_limit = 0, co_gas_price = 0,
        co_gasless_available = False, co_gasless_fee = None \<rparr>)"

section \<open>Preparing\<close>

fun strategy_text :: "gas_strategy option \<Rightarrow> string" where
  "strategy_text (Some ERC4337_PAYMASTER) = ''ERC4337_PAYMASTER''"
| "strategy_text (Some RELAYER) = ''RELAYER''"
| "strategy_text (Some RESOURCE_MODEL) = ''RESOURCE_MODEL''"
| "strategy_text (Some PRIORITY_FEE_RELAY) = ''PRIORITY_FEE_RELAY''"
| "strategy_text None = ''undefined''"

definition preparePaymasterRequest ::
    "gas_config \<Rightarrow> string \<Rightarrow> relayer_tx \<Rightarrow> string \<Rightarrow> string option \<Rightarrow> prepared" where
  "preparePaymasterRequest cfg c tx sender token = PaymasterRequest
     \<lparr> uo_sender = sender, uo_nonce = 0, uo_call_data = rt_data tx, uo_call_gas_limit = 200000,
       uo_verification_gas_limit = 50000, uo_pre_verification_gas = 21000,
       uo_max_fee_per_gas = 20000000000, uo_max_priority_fee_per_gas = 2000000000,
       uo_paymaster_and_data = (case gc_paymaster cfg of None \<Rightarrow> ''0x'' | Some pm \<Rightarrow> pm_address pm),
       uo_signature = ''0x'' \<rparr> c token"

definition max_fee_wei :: string where "max_fee_wei = ''100000000000000000''"

definition prepareRelayerRequest :: "relayer_tx \<Rightarrow> string \<Rightarrow> prepared" where
  "prepareRelayerRequest tx sender = RelayerRequest tx sender max_fee_wei"

definition prepareGasless ::
    "gas_service \<Rightarrow> string \<Rightarrow> relayer_tx \<Rightarrow> string \<Rightarrow> string option \<Rightarrow> js_error + prepared" where
  "prepareGasless s c tx sender token =
     (case gas_config_of s c of
        None \<Rightarrow> Inl (JsError ''Error'' (''No gas abstraction config for chain '' @ c))
      | Some cfg \<Rightarrow>
          (case gc_strategy cfg of
             Some ERC4337_PAYMASTER \<Rightarrow> Inr (preparePaymasterRequest cfg c tx sender token)
           | Some RELAYER \<Rightarrow> Inr (prepareRelayerRequest tx sender)
           | Some PRIORITY_FEE_RELAY \<Rightarrow> Inr (prepareRelayerRequest tx sender)
           | st \<Rightarrow> Inl (JsError ''Error'' (''Gasless not supported for strategy '' @ strategy_text st))))"

section \<open>Executing\<close>

definition generateHash :: "(nat \<Rightarrow> rat) \<Rightarrow> nat \<Rightarrow> string" where
  "generateHash rnd n = random_text hex_chars rnd n"

definition executePaymaster :: "(nat \<Rightarrow> rat) \<Rightarrow> prepared \<Rightarrow> gas_config \<Rightarrow> js_error + gasless_result" where
  "executePaymaster rnd req cfg =
     (case req of
        RelayerRequest _ _ _ \<Rightarrow>
          Inl (JsError ''TypeError'' ''Cannot read properties of undefined (reading 'callGasLimit')'')
      | PaymasterRequest uo _ _ \<Rightarrow> Inr
         \<lparr> gr_success = True, gr_tx_hash = ''0x'' @ generateHash rnd 64,
           gr_cost = \<lparr> co_chain_id = gc_chain_id cfg, co_strategy = gc_strategy cfg, co_native = 0,
             co_symbol = gc_symbol cfg, co_usd = Some 0, co_token = None, co_token_symbol = None,
             co_gas_limit = of_nat (uo_call_gas_limit uo), co_gas_price = of_nat (uo_max_fee_per_gas uo),
             co_gasless_available = True,
             co_gasless_fee = Some \<lparr> gf_percentage = 0, gf_usd = Some 0, gf_token = 0, gf_symbol = gc_symbol cfg \<rparr> \<rparr>,
           gr_error = None \<rparr>)"

definition executeRelayer :: "(nat \<Rightarrow> rat) \<Rightarrow> prepared \<Rightarrow> gas_config \<Rightarrow> js_error + gasless_result" where
  "executeRelayer rnd req cfg =
     (case req of
        PaymasterRequest _ _ _ \<Rightarrow> Inl (JsError ''TypeError'' ''Cannot convert undefined to a BigInt'')
      | RelayerRequest _ _ wei \<Rightarrow>
          (case parse_bigint wei of
             None \<Rightarrow> Inl (JsError ''SyntaxError'' (''Cannot convert '' @ wei @ '' to a BigInt''))
           | Some w \<Rightarrow>
               (let fee = of_int (bigint_div w 10) / 10 ^ 18; usd = map_option (\<lambda>x. fee * x) (gc_price cfg)
                in Inr
                 \<lparr> gr_success = True, gr_tx_hash = ''0x'' @ generateHash rnd 64,
                   gr_cost = \<lparr> co_chain_id = gc_chain_id cfg, co_strategy = gc_strategy cfg, co_native = fee,
                     co_symbol = gc_symbol cfg, co_usd = usd, co_token = None, co_token_symbol = None,
                     co_gas_limit = 200000, co_gas_price = 20000000000, co_gasless_available = True,
                     co_gasless_fee = Some \<lparr> gf_percentage = (case gc_relayer cfg of None \<Rightarrow> 1 | Some rl \<Rightarrow> rl_fee_percentage rl),
                       gf_usd = usd, gf_token = fee, gf_symbol = gc_symbol cfg \<rparr> \<rparr>,
                   gr_error = None \<rparr>)))"

definition gasless_refused :: "gas_service \<Rightarrow> string \<Rightarrow> string \<Rightarrow> gasless_result" where
  "gasless_refused s c msg = \<lparr> gr_success = False, gr_tx_hash = '''', gr_cost = createDefaultCostEstimate s c,
     gr_error = Some msg \<rparr>"

definition js_message :: "js_error \<Rightarrow> string" where
  "js_message x = (case x of JsError _ msg \<Rightarrow> msg | JsThrown txt \<Rightarrow> txt)"

definition executeGasless :: "gas_service \<Rightarrow> (nat \<Rightarrow> rat) \<Rightarrow> string \<Rightarrow> prepared \<Rightarrow> gasless_result" where
  "executeGasless s rnd c req =
     (case gas_config_of s c of
        None \<Rightarrow> gasless_refused s c (''No gas abstraction config for chain '' @ c)
      | Some cfg \<Rightarrow>
          (case (case gc_strategy cfg of
               Some ERC4337_PAYMASTER \<Rightarrow> executePaymaster rnd req cfg
             | Some RELAYER \<Rightarrow> executeRelayer rnd req cfg
             | Some PRIORITY_FEE_RELAY \<Rightarrow> executeRelayer rnd req cfg
             | st \<Rightarrow> Inr (gasless_refused s c (''Unsupported strategy: '' @ strategy_text st))) of
             Inl x \<Rightarrow> gasless_refused s c (js_message x)
           | Inr r \<Rightarrow> r))"

section \<open>Properties\<close>

lemma length_generateHash [simp]: "length (generateHash rnd n) = n"
  by (simp add: generateHash_def)

lemma generateHash_hex: "\<forall>i. 0 \<le> rnd i \<and> rnd i < 1 \<Longrightarrow> set (generateHash rnd n) \<subseteq> set hex_chars"
  unfolding generateHash_def by (rule random_text_chars) (simp_all add: hex_chars_def)

lemma parse_max_fee: "parse_bigint max_fee_wei = Some 100000000000000000"
  by (simp add: parse_bigint_def max_fee_wei_def trim_def blank_def whole_base_def is_digit_def digit_val_def
      base_val_def)

text \<open>The fee of a relayed transaction as prepared: one hundredth of the native coin.\<close>

lemma relayer_fee [simp]: "bigint_div 100000000000000000 10 = 10000000000000000"
  by (simp add: bigint_div_def)

text \<open>Where the service says gasless is available, preparing succeeds, the prepared request is of the
  kind the execution expects, and executing it reports success with a 66-character hash and the
  fee of the strategy: nothing for the paymaster, 0.01 of the coin for a relayer.
\<close>

theorem advertised_gasless_executes:
  assumes "isGaslessAvailable s c token" "\<forall>i. 0 \<le> rnd i \<and> rnd i < 1"
  shows "\<exists>req r. prepareGasless s c tx sender token = Inr req \<and> executeGasless s rnd c req = r \<and> gr_success r
     \<and> gr_error r = None \<and> length (gr_tx_hash r) = 66 \<and> set (drop 2 (gr_tx_hash r)) \<subseteq> set hex_chars
     \<and> co_native (gr_cost r) = (if getStrategy s c = Some ERC4337_PAYMASTER then 0 else 1 / 100)
     \<and> co_strategy (gr_cost r) = getStrategy s c"
proof -
  note hex = generateHash_hex [OF assms(2), of 64]
  obtain cfg st where cfg: "gas_config_of s c = Some cfg" "gc_strategy cfg = Some st"
    using assms(1) by (auto simp: isGaslessAvailable_def split: option.splits)
  show ?thesis
  proof (cases st)
    case ERC4337_PAYMASTER
    with cfg hex show ?thesis
      by (simp add: prepareGasless_def executeGasless_def executePaymaster_def preparePaymasterRequest_def
          getStrategy_def)
  next
    case RESOURCE_MODEL
    with cfg assms(1) show ?thesis by (simp add: isGaslessAvailable_def)
  qed (use cfg hex in \<open>simp_all add: prepareGasless_def executeGasless_def executeRelayer_def
        prepareRelayerRequest_def parse_max_fee getStrategy_def Let_def\<close>)
qed

definition ex_relayer :: relayer_config where
  "ex_relayer = \<lparr> rl_url = ''u'', rl_api_key = ''k'', rl_chain_id = ''137'', rl_max_gas_price_gwei = 100,
     rl_fee_percentage = 1 \<rparr>"

definition ex_tx :: relayer_tx where
  "ex_tx = \<lparr> rt_from = ''a'', rt_to = ''b'', rt_value = ''0'', rt_data = ''0x'', rt_chain_id = 137 \<rparr>"

theorem advertised_gasless_executes_witness:
  "\<exists>req. prepareGasless (new_gas_service (\<lambda>_. None) [(''137'', [F_relayer (Some ex_relayer)])]) ''137'' ex_tx ''a'' (Some ''usdc'') = Inr req
     \<and> gr_success (executeGasless (new_gas_service (\<lambda>_. None) [(''137'', [F_relayer (Some ex_relayer)])]) (\<lambda>_. 1 / 2) ''137'' req)"
proof -
  have "isGaslessAvailable (new_gas_service (\<lambda>_. None) [(''137'', [F_relayer (Some ex_relayer)])]) ''137'' (Some ''usdc'')"
    by code_simp
  from advertised_gasless_executes [OF this, of "\<lambda>_. 1 / 2" ex_tx "''a''"] show ?thesis by auto
qed

text \<open>With the default configurations no chain is ever gasless, and yet the execution of a prepared
  request reports success on five of the six.\<close>

lemma default_never_gasless: "\<not> isGaslessAvailable (new_gas_service clients []) c token"
  by (simp add: new_gas_service_def isGaslessAvailable_def gas_config_of_def DEFAULT_CHAIN_CONFIGS_def
      default_config_def split: option.splits)

end
