(* ===== verification/Evm_Client.thy ===== *)
theory Evm_Client
  imports Chain_Types
begin

text \<open>
  \<open>EVMChainClient\<close> (\<open>packages/chain-abstraction/src/evm/evm-chain-client.ts\<close>).  The library ethers
  is a parameter: the provider's answers, the address functions and the ABI decoder.  The timers
  and the listeners are state: every call of a listener is an entry of the trace.
\<close>

section \<open>Configuration\<close>

definition ZeroAddress :: string where
  "ZeroAddress = ''0x0000000000000000000000000000000000000000''"

definition TRANSFER_TOPIC :: string where
  "TRANSFER_TOPIC = ''0xddf252ad1be2c89b69c2b068fc378daa952ba7f163c4a11628f55a4df523b3ef''"

definition DEFAULT_CONFIGS :: "(string \<times> int \<times> rat \<times> bool) list" where
  "DEFAULT_CONFIGS =
     [(''1'', 12, 12, True), (''11155111'', 12, 12, True), (''8453'', 1, 2, True), (''84532'', 1, 2, True),
      (''42161'', 1, 1 / 4, True), (''421614'', 1, 1 / 4, True), (''137'', 128, 2, True), (''80002'', 128, 2, True),
      (''10'', 1, 2, True), (''11155420'', 1, 2, True)]"

definition native :: "string \<Rightarrow> string \<Rightarrow> asset_info" where
  "native coin nm = \<lparr> as_address = ZeroAddress, as_symbol = coin, as_decimals = 18, as_name = nm \<rparr>"

definition NATIVE_ASSETS :: "(string \<times> asset_info) list" where
  "NATIVE_ASSETS =
     [(''1'', native ''ETH'' ''Ether''), (''11155111'', native ''ETH'' ''Sepolia ETH''),
      (''8453'', native ''ETH'' ''Ether''), (''84532'', native ''ETH'' ''Base Sepolia ETH''),
      (''42161'', native ''ETH'' ''Ether''), (''421614'', native ''ETH'' ''Arbitrum Sepolia ETH''),
      (''137'', native ''POL'' ''POL''), (''80002'', native ''POL'' ''POL''), (''10'', native ''ETH'' ''Ether''),
      (''11155420'', native ''ETH'' ''Optimism Sepolia ETH'')]"

record evm_config =
  ec_chain_id :: string
  ec_chain_name :: string
  ec_rpc_url :: string
  ec_depth :: int
  ec_block_time :: rat
  ec_native :: asset_info
  ec_eip1559 :: bool

record evm_options =
  eo_depth :: "int option"
  eo_block_time :: "rat option"
  eo_eip1559 :: "bool option"

definition new_evm_config :: "string \<Rightarrow> string \<Rightarrow> string \<Rightarrow> evm_options \<Rightarrow> evm_config" where
  "new_evm_config c n url opt =
     (let d = map_of DEFAULT_CONFIGS c
      in \<lparr> ec_chain_id = c, ec_chain_name = n, ec_rpc_url = url,
           ec_depth = (case eo_depth opt of Some x \<Rightarrow> x | None \<Rightarrow> (case d of Some (x, _, _) \<Rightarrow> x | None \<Rightarrow> 12)),
           ec_block_time = (case eo_block_time opt of Some x \<Rightarrow> x | None \<Rightarrow> (case d of Some (_, x, _) \<Rightarrow> x | None \<Rightarrow> 12)),
           ec_native = (case map_of NATIVE_ASSETS c of Some a \<Rightarrow> a | None \<Rightarrow> native ''UNKNOWN'' ''Unknown''),
           ec_eip1559 = (case eo_eip1559 opt of Some x \<Rightarrow> x | None \<Rightarrow> (case d of Some (_, _, x) \<Rightarrow> x | None \<Rightarrow> True)) \<rparr>)"

section \<open>The provider\<close>

text \<open>A rejection of the provider: the error, with the text of its \<open>code\<close> when that is truthy.\<close>

record rpc_failure =
  pf_error :: js_error
  pf_code :: "string option"

type_synonym 'a rpc = "rpc_failure + 'a"

record evm_tx =
  et_hash :: string
  et_from :: string
  et_to :: "string option"
  et_value :: nat

record evm_receipt =
  ev_rc_hash :: string
  ev_rc_status :: "nat option"
  ev_rc_block :: nat
  ev_rc_block_hash :: string
  ev_rc_gas_used :: nat
  ev_rc_gas_price :: nat
  ev_rc_logs :: "tx_log list"

record fee_data =
  fd_gas_price :: "nat option"
  fd_max_fee :: "nat option"
  fd_max_priority :: "nat option"

record evm_contract =
  ct_balance_of :: "string \<Rightarrow> nat rpc"
  ct_decimals :: "nat rpc"
  ct_symbol :: "string rpc"
  ct_name :: "string rpc"

record evm_provider =
  ep_block_number :: "nat rpc"
  ep_block :: "nat \<Rightarrow> string list option rpc"
  ep_tx :: "string \<Rightarrow> evm_tx option rpc"
  ep_receipt :: "string \<Rightarrow> evm_receipt option rpc"
  ep_estimate :: "string \<Rightarrow> string \<Rightarrow> int \<Rightarrow> string \<Rightarrow> nat rpc"
  ep_fee_data :: "fee_data rpc"
  ep_broadcast :: "string \<Rightarrow> tx_result rpc"
  ep_balance :: "string \<Rightarrow> nat rpc"
  ep_contract :: "string \<Rightarrow> evm_contract"
  ep_is_address :: "string \<Rightarrow> js_error + bool"
  ep_get_address :: "string \<Rightarrow> string"
  ep_decode_uint :: "string \<Rightarrow> rpc_failure + nat option"

definition wrapRpcError :: "string \<Rightarrow> rpc_failure \<Rightarrow> js_error" where
  "wrapRpcError chain x = (case pf_code x of
     None \<Rightarrow> pf_error x
   | Some code \<Rightarrow> RpcError chain code
       (if err_message (pf_error x) = [] then ''Unknown RPC error'' else err_message (pf_error x)))"

definition plain :: "js_error \<Rightarrow> rpc_failure" where
  "plain x = \<lparr> pf_error = x, pf_code = None \<rparr>"

section \<open>Queries\<close>

definition evm_validateAddress :: "evm_provider \<Rightarrow> string \<Rightarrow> bool" where
  "evm_validateAddress p a = (case ep_is_address p a of Inl _ \<Rightarrow> False | Inr b \<Rightarrow> b)"

definition evm_formatAddress :: "evm_config \<Rightarrow> evm_provider \<Rightarrow> string \<Rightarrow> js_error + string" where
  "evm_formatAddress c p a =
     (if evm_validateAddress p a then Inr (ep_get_address p a) else Inl (InvalidAddressError a (ec_chain_id c)))"

definition evm_estimateGas :: "evm_config \<Rightarrow> evm_provider \<Rightarrow> unsigned_call \<Rightarrow> js_error + gas_estimate" where
  "evm_estimateGas c p tx =
     (case (if uc_value tx = ''0'' then Some 0 else parse_bigint (uc_value tx)) of
        None \<Rightarrow> Inl (JsError ''SyntaxError'' (''Cannot convert '' @ uc_value tx @ '' to a BigInt''))
      | Some v \<Rightarrow>
          (case ep_estimate p (uc_from tx) (uc_to tx) v (if uc_data tx = [] then ''0x'' else uc_data tx) of
             Inl x \<Rightarrow> Inl (wrapRpcError (ec_chain_id c) x)
           | Inr limit \<Rightarrow>
               (case ep_fee_data p of
                  Inl x \<Rightarrow> Inl (wrapRpcError (ec_chain_id c) x)
                | Inr fee \<Rightarrow>
                    (let price = (case fd_gas_price fee of None \<Rightarrow> 0 | Some g \<Rightarrow> g);
                         effective = (case fd_max_fee fee of None \<Rightarrow> price | Some g \<Rightarrow> g);
                         truthy = (\<lambda>v. case v of None \<Rightarrow> None | Some g \<Rightarrow> if g = 0 then None else Some (of_nat g))
                     in Inr \<lparr> es_gas_limit = of_nat limit, es_gas_price = of_nat price,
                              es_max_fee = truthy (fd_max_fee fee), es_max_priority = truthy (fd_max_priority fee),
                              es_total_cost = of_nat (limit * effective), es_total_cost_usd = 0 \<rparr>))))"

definition evm_submitTransaction :: "evm_config \<Rightarrow> evm_provider \<Rightarrow> string \<Rightarrow> js_error + tx_result" where
  "evm_submitTransaction c p signedData = (case ep_broadcast p signedData of
     Inl x \<Rightarrow> Inl (wrapRpcError (ec_chain_id c) x) | Inr r \<Rightarrow> Inr r)"

definition pending_status :: "string \<Rightarrow> full_status" where
  "pending_status h = \<lparr> ts_status = TX_PENDING, ts_confirmations = 0, st_hash = h, st_block = None,
     st_gas_used = None, st_gas_price = None \<rparr>"

text \<open>\<open>!receipt.status\<close>: null and 0 are failures.\<close>

definition receipt_failed :: "evm_receipt \<Rightarrow> bool" where
  "receipt_failed r = (case ev_rc_status r of None \<Rightarrow> True | Some n \<Rightarrow> n = 0)"

definition evm_getTransactionStatus :: "evm_config \<Rightarrow> evm_provider \<Rightarrow> string \<Rightarrow> js_error + full_status" where
  "evm_getTransactionStatus c p h =
     (case (ep_tx p h, ep_receipt p h) of
        (Inl x, _) \<Rightarrow> Inl (wrapRpcError (ec_chain_id c) x)
      | (Inr _, Inl x) \<Rightarrow> Inl (wrapRpcError (ec_chain_id c) x)
      | (Inr _, Inr None) \<Rightarrow> Inr (pending_status h)
      | (Inr _, Inr (Some r)) \<Rightarrow>
          (case ep_block_number p of
             Inl x \<Rightarrow> Inl (wrapRpcError (ec_chain_id c) x)
           | Inr current \<Rightarrow>
               (let confirmations = int current - int (ev_rc_block r)
                in Inr \<lparr> ts_status = (if receipt_failed r then TX_FAILED
                           else if confirmations < ec_depth c then TX_CONFIRMING else TX_CONFIRMED),
                     ts_confirmations = confirmations, st_hash = h, st_block = Some (ev_rc_block r),
                     st_gas_used = Some (of_nat (ev_rc_gas_used r)), st_gas_price = Some (of_nat (ev_rc_gas_price r)) \<rparr>)))"

definition evm_getTransactionReceipt :: "evm_config \<Rightarrow> evm_provider \<Rightarrow> string \<Rightarrow> js_error + tx_receipt" where
  "evm_getTransactionReceipt c p h =
     (case ep_receipt p h of
        Inl x \<Rightarrow> Inl (wrapRpcError (ec_chain_id c) x)
      | Inr None \<Rightarrow> Inl (TransactionRevertedError h (ec_chain_id c) ''Receipt not found'')
      | Inr (Some r) \<Rightarrow> Inr \<lparr> rp_hash = h, rp_status = (ev_rc_status r = Some 1), rp_block = ev_rc_block r,
          rp_block_hash = ev_rc_block_hash r, rp_gas_used = of_nat (ev_rc_gas_used r),
          rp_gas_price = of_nat (ev_rc_gas_price r), rp_logs = ev_rc_logs r \<rparr>)"

definition evm_getTokenBalance :: "evm_config \<Rightarrow> evm_provider \<Rightarrow> string \<Rightarrow> string \<Rightarrow> js_error + balance" where
  "evm_getTokenBalance c p a token =
     (let k = ep_contract p token; refuse = (\<lambda>x. Inl (BalanceQueryError a (ec_chain_id c) (err_message x))) in
      case ct_balance_of k a of Inl x \<Rightarrow> refuse (pf_error x) | Inr raw \<Rightarrow>
      (case ct_decimals k of Inl x \<Rightarrow> refuse (pf_error x) | Inr dec \<Rightarrow>
      (case ct_symbol k of Inl x \<Rightarrow> refuse (pf_error x) | Inr coin \<Rightarrow>
      (case ct_name k of Inl x \<Rightarrow> refuse (pf_error x) | Inr nm \<Rightarrow>
      (case evm_formatAddress c p token of Inl x \<Rightarrow> refuse x | Inr ta \<Rightarrow>
         Inr \<lparr> ba_asset = \<lparr> as_address = ta, as_symbol = coin, as_decimals = dec, as_name = nm \<rparr>,
               ba_amount = nat_text raw, ba_usd = 0 \<rparr>)))))"

definition evm_getBalance :: "evm_config \<Rightarrow> evm_provider \<Rightarrow> string \<Rightarrow> asset_info \<Rightarrow> js_error + balance" where
  "evm_getBalance c p a asset =
     (if as_address asset = ZeroAddress \<or> as_address asset = []
      then (case ep_balance p a of
              Inl x \<Rightarrow> Inl (BalanceQueryError a (ec_chain_id c) (err_message (pf_error x)))
            | Inr n \<Rightarrow> Inr \<lparr> ba_asset = asset, ba_amount = nat_text n, ba_usd = 0 \<rparr>)
      else evm_getTokenBalance c p a (as_address asset))"

section \<open>Watching deposits\<close>

text \<open>
  A listener is a number.  \<open>ew_timer\<close> is the timer the client remembers, \<open>ew_intervals\<close> the
  intervals that are running, \<open>ew_starting\<close> how many calls of \<open>startPolling\<close> wait for their first
  block number.
\<close>

type_synonym trace = "(nat \<times> chain_event) list"

record evm_watch =
  ew_watched :: "(string \<times> nat list) list"
  ew_timer :: "nat option"
  ew_intervals :: "nat list"
  ew_next :: nat
  ew_starting :: nat
  ew_last_block :: nat
  ew_trace :: trace

definition new_evm_watch :: evm_watch where
  "new_evm_watch = \<lparr> ew_watched = [], ew_timer = None, ew_intervals = [], ew_next = 0, ew_starting = 0,
     ew_last_block = 0, ew_trace = [] \<rparr>"

definition watchDeposits :: "string \<Rightarrow> nat \<Rightarrow> evm_watch \<Rightarrow> evm_watch" where
  "watchDeposits a l w =
     (let k = to_lower a; ls = (case map_of (ew_watched w) k of None \<Rightarrow> [] | Some ls \<Rightarrow> ls);
          w1 = w\<lparr> ew_watched := js_map_set k (js_set_add l ls) (ew_watched w) \<rparr>
      in if ew_timer w = None then w1\<lparr> ew_starting := Suc (ew_starting w) \<rparr> else w1)"

text \<open>The second half of \<open>startPolling\<close>: the block number arrived or failed, the interval starts.\<close>

definition startPolling_done :: "nat rpc \<Rightarrow> evm_watch \<Rightarrow> evm_watch" where
  "startPolling_done r w =
     (if ew_starting w = 0 then w
      else w\<lparr> ew_starting := ew_starting w - 1,
              ew_last_block := (case r of Inl _ \<Rightarrow> ew_last_block w | Inr n \<Rightarrow> n),
              ew_timer := Some (ew_next w), ew_intervals := ew_intervals w @ [ew_next w],
              ew_next := Suc (ew_next w) \<rparr>)"

definition clear_timer :: "evm_watch \<Rightarrow> evm_watch" where
  "clear_timer w = (case ew_timer w of
     None \<Rightarrow> w
   | Some t \<Rightarrow> w\<lparr> ew_intervals := filter (\<lambda>x. x \<noteq> t) (ew_intervals w), ew_timer := None \<rparr>)"

definition unwatch :: "string \<Rightarrow> nat \<Rightarrow> evm_watch \<Rightarrow> evm_watch" where
  "unwatch a l w =
     (let k = to_lower a;
          m = (case map_of (ew_watched w) k of
                 None \<Rightarrow> ew_watched w
               | Some ls \<Rightarrow> (let rest = filter (\<lambda>x. x \<noteq> l) ls in
                   if rest = [] then js_map_delete k (ew_watched w) else js_map_set k rest (ew_watched w)));
          w1 = w\<lparr> ew_watched := m \<rparr>
      in if m = [] then clear_timer w1 else w1)"

definition destroy :: "evm_watch \<Rightarrow> evm_watch" where
  "destroy w = (clear_timer w)\<lparr> ew_watched := [] \<rparr>"

subsection \<open>One poll\<close>

fun each :: "('a \<Rightarrow> trace \<Rightarrow> trace \<times> (rpc_failure + unit)) \<Rightarrow> 'a list \<Rightarrow> trace \<Rightarrow> trace \<times> (rpc_failure + unit)" where
  "each f [] t = (t, Inr ())"
| "each f (x # xs) t = andThen (f x t) (\<lambda>t _. each f xs t)"

definition notify :: "nat list \<Rightarrow> chain_event \<Rightarrow> trace \<Rightarrow> trace" where
  "notify ls e t = t @ map (\<lambda>l. (l, e)) ls"

definition confirmations_at :: "nat \<Rightarrow> nat \<Rightarrow> int" where
  "confirmations_at current n = int current - int n + 1"

definition native_event :: "evm_config \<Rightarrow> nat \<Rightarrow> nat \<Rightarrow> evm_tx \<Rightarrow> chain_event" where
  "native_event c current n tx = \<lparr> de_tx_hash = et_hash tx, de_from = et_from tx,
     de_to = (case et_to tx of None \<Rightarrow> ZeroAddress | Some a \<Rightarrow> a), de_asset = ec_native c,
     de_amount = nat_text (et_value tx), de_block_number = n, ce_confirmations = confirmations_at current n \<rparr>"

definition tx_touches :: "evm_tx \<Rightarrow> string \<Rightarrow> bool" where
  "tx_touches tx a = (map_option to_lower (et_to tx) = Some a \<or> to_lower (et_from tx) = a)"

definition native_scan :: "evm_config \<Rightarrow> (string \<times> nat list) list \<Rightarrow> nat \<Rightarrow> nat \<Rightarrow> evm_tx \<Rightarrow> trace \<Rightarrow> trace" where
  "native_scan c watched current n tx t =
     fold (\<lambda>(a, ls) t. if tx_touches tx a then notify ls (native_event c current n tx) t else t) watched t"

definition topic_address :: "string \<Rightarrow> string" where
  "topic_address topic = ''0x'' @ drop 26 topic"

definition transfer_to :: "tx_log \<Rightarrow> string option" where
  "transfer_to lg = (if 3 \<le> length (lo_topics lg) \<and> lo_topics lg ! 0 = TRANSFER_TOPIC
     then Some (''0x'' @ to_lower (drop 26 (lo_topics lg ! 2))) else None)"

definition unknown_token :: "string \<Rightarrow> asset_info" where
  "unknown_token a = \<lparr> as_address = a, as_symbol = ''UNKNOWN'', as_decimals = 18, as_name = ''Unknown Token'' \<rparr>"

definition token_event :: "nat \<Rightarrow> nat \<Rightarrow> string \<Rightarrow> tx_log \<Rightarrow> string \<Rightarrow> nat \<Rightarrow> chain_event" where
  "token_event current n h lg dest amount = \<lparr> de_tx_hash = h, de_from = topic_address (lo_topics lg ! 1),
     de_to = dest, de_asset = unknown_token (lo_address lg), de_amount = nat_text amount,
     de_block_number = n, ce_confirmations = confirmations_at current n \<rparr>"

definition log_step ::
    "evm_provider \<Rightarrow> nat \<Rightarrow> nat \<Rightarrow> string \<Rightarrow> tx_log \<Rightarrow> string \<Rightarrow> string \<times> nat list \<Rightarrow> trace \<Rightarrow> trace \<times> (rpc_failure + unit)" where
  "log_step p current n h lg dest = (\<lambda>(a, ls) t.
     if dest = a
     then (case ep_decode_uint p (lo_data lg) of
             Inl x \<Rightarrow> (t, Inl x)
           | Inr v \<Rightarrow> (notify ls (token_event current n h lg dest (case v of None \<Rightarrow> 0 | Some k \<Rightarrow> k)) t, Inr ()))
     else (t, Inr ()))"

definition log_scan ::
    "evm_provider \<Rightarrow> (string \<times> nat list) list \<Rightarrow> nat \<Rightarrow> nat \<Rightarrow> string \<Rightarrow> tx_log \<Rightarrow> trace \<Rightarrow> trace \<times> (rpc_failure + unit)" where
  "log_scan p watched current n h lg t =
     (case transfer_to lg of
        None \<Rightarrow> (t, Inr ())
      | Some dest \<Rightarrow> each (log_step p current n h lg dest) watched t)"

definition receipt_scan ::
    "evm_provider \<Rightarrow> (string \<times> nat list) list \<Rightarrow> nat \<Rightarrow> nat \<Rightarrow> string \<Rightarrow> trace \<Rightarrow> trace \<times> (rpc_failure + unit)" where
  "receipt_scan p watched current n h t =
     (case ep_receipt p h of
        Inl x \<Rightarrow> (t, Inl x)
      | Inr None \<Rightarrow> (t, Inr ())
      | Inr (Some r) \<Rightarrow> each (log_scan p watched current n (ev_rc_hash r)) (ev_rc_logs r) t)"

definition tx_scan ::
    "evm_config \<Rightarrow> evm_provider \<Rightarrow> (string \<times> nat list) list \<Rightarrow> nat \<Rightarrow> nat \<Rightarrow> string \<Rightarrow> trace \<Rightarrow> trace \<times> (rpc_failure + unit)" where
  "tx_scan c p watched current n h t =
     (case ep_tx p h of
        Inl x \<Rightarrow> (t, Inl x)
      | Inr None \<Rightarrow> (t, Inr ())
      | Inr (Some tx) \<Rightarrow>
          receipt_scan p watched current n h (native_scan c watched current n tx t))"

definition block_scan ::
    "evm_config \<Rightarrow> evm_provider \<Rightarrow> (string \<times> nat list) list \<Rightarrow> nat \<Rightarrow> nat \<Rightarrow> trace \<Rightarrow> trace \<times> (rpc_failure + unit)" where
  "block_scan c p watched current n t =
     (case ep_block p n of
        Inl x \<Rightarrow> (t, Inl x)
      | Inr None \<Rightarrow> (t, Inr ())
      | Inr (Some txs) \<Rightarrow> each (tx_scan c p watched current n) txs t)"

text \<open>\<open>pollBlocks\<close>; the interval swallows its error.\<close>

definition pollBlocks :: "evm_config \<Rightarrow> evm_provider \<Rightarrow> evm_watch \<Rightarrow> evm_watch \<times> (rpc_failure + unit)" where
  "pollBlocks c p w =
     (case ep_block_number p of
        Inl x \<Rightarrow> (w, Inl x)
      | Inr current \<Rightarrow>
          if current \<le> ew_last_block w then (w, Inr ())
          else (case each (block_scan c p (ew_watched w) current) [Suc (ew_last_block w)..<Suc current] (ew_trace w) of
                  (t, Inl x) \<Rightarrow> (w\<lparr> ew_trace := t \<rparr>, Inl x)
                | (t, Inr _) \<Rightarrow> (w\<lparr> ew_trace := t, ew_last_block := current \<rparr>, Inr ())))"

definition poll :: "evm_config \<Rightarrow> evm_provider \<Rightarrow> evm_watch \<Rightarrow> evm_watch" where
  "poll c p w = fst (pollBlocks c p w)"

section \<open>Contract\<close>

interpretation evm: status_contract "ec_depth c" "\<lambda>n. evm_getTransactionStatus c (ps n)" for c ps
  by unfold_locales
    (auto simp: evm_getTransactionStatus_def pending_status_def Let_def split: sum.splits option.splits if_splits)

section \<open>Lemmas\<close>

text \<open>Everything a poll does to the trace is to append to it, whatever is already there.\<close>

definition appends :: "('a \<Rightarrow> trace \<Rightarrow> trace \<times> (rpc_failure + unit)) \<Rightarrow> bool" where
  "appends f = (\<forall>x t. f x t = (t @ fst (f x []), snd (f x [])))"

lemma appendsD: "appends f \<Longrightarrow> f x t = (t @ fst (f x []), snd (f x []))"
  unfolding appends_def by blast

lemma appends_each:
  assumes "appends f"
  shows "each f xs t = (t @ fst (each f xs []), snd (each f xs []))"
proof (induction xs arbitrary: t)
  case (Cons x xs)
  obtain evs r where e: "f x [] = (evs, r)" by fastforce
  have ft: "f x t = (t @ evs, r)" using appendsD [OF assms, of x t] e by simp
  show ?case
  proof (cases r)
    case (Inl y)
    with e ft show ?thesis by simp
  next
    case (Inr u)
    with e ft Cons.IH [of "t @ evs"] Cons.IH [of evs] show ?thesis by simp
  qed
qed simp

lemma each_all:
  assumes "appends f" "each f xs [] = (evs, Inr ())" "x \<in> set xs"
  shows "\<exists>ys. f x [] = (ys, Inr ()) \<and> set ys \<subseteq> set evs"
  using assms(2,3)
proof (induction xs arbitrary: evs)
  case (Cons y xs)
  obtain e r where y: "f y [] = (e, r)" by fastforce
  with Cons.prems(1) have r: "r = Inr ()" by (cases r) auto
  obtain rest r' where rest: "each f xs [] = (rest, r')" by fastforce
  have "each f xs e = (e @ rest, r')" using appends_each [OF assms(1), of xs e] rest by simp
  with Cons.prems(1) y r have evs: "evs = e @ rest" "each f xs [] = (rest, Inr ())" using rest by auto
  show ?case
  proof (cases "x = y")
    case True
    with y r evs show ?thesis by auto
  next
    case False
    with Cons.prems(2) have "x \<in> set xs" by simp
    from Cons.IH [OF evs(2) this] evs(1) show ?thesis by auto
  qed
qed simp

lemma native_scan_appends: "native_scan c watched current n tx t = t @ native_scan c watched current n tx []"
proof -
  have "fold (\<lambda>(a, ls) t. if tx_touches tx a then notify ls e t else t) ws (t @ s)
      = t @ fold (\<lambda>(a, ls) t. if tx_touches tx a then notify ls e t else t) ws s" for ws e s
    by (induction ws arbitrary: s) (auto simp: notify_def)
  from this [where ws = watched and e = "native_event c current n tx" and s = "[]"]
  show ?thesis by (simp add: native_scan_def)
qed

lemma set_native_scan:
  "set (native_scan c watched current n tx [])
     = {(l, native_event c current n tx) | l a ls. (a, ls) \<in> set watched \<and> l \<in> set ls \<and> tx_touches tx a}"
proof -
  have "set (fold (\<lambda>(a, ls) t. if tx_touches tx a then notify ls e t else t) ws t)
      = set t \<union> {(l, e) | l a ls. (a, ls) \<in> set ws \<and> l \<in> set ls \<and> tx_touches tx a}" for ws e t
    by (induction ws arbitrary: t) (auto simp: notify_def split: if_splits, blast+)
  then show ?thesis by (simp add: native_scan_def)
qed

lemma appends_log_step: "appends (log_step p current n h lg dest)"
  unfolding appends_def
proof (intro allI)
  fix x :: "string \<times> nat list" and t :: trace
  obtain a ls where x: "x = (a, ls)" by fastforce
  show "log_step p current n h lg dest x t
      = (t @ fst (log_step p current n h lg dest x []), snd (log_step p current n h lg dest x []))"
    by (cases "ep_decode_uint p (lo_data lg)") (simp_all add: x log_step_def notify_def)
qed

lemma appends_log_scan: "appends (log_scan p watched current n h)"
  unfolding appends_def
proof (intro allI)
  fix lg t
  show "log_scan p watched current n h lg t
      = (t @ fst (log_scan p watched current n h lg []), snd (log_scan p watched current n h lg []))"
    using appends_each [OF appends_log_step, of p current n h lg _ watched t]
    by (cases "transfer_to lg") (simp_all add: log_scan_def)
qed

lemma appends_receipt_scan: "appends (receipt_scan p watched current n)"
  unfolding appends_def
proof (intro allI)
  fix h t
  have "each (log_scan p watched current n (ev_rc_hash r)) (ev_rc_logs r) t
      = (t @ fst (each (log_scan p watched current n (ev_rc_hash r)) (ev_rc_logs r) []),
         snd (each (log_scan p watched current n (ev_rc_hash r)) (ev_rc_logs r) []))" for r
    by (rule appends_each [OF appends_log_scan])
  then show "receipt_scan p watched current n h t
      = (t @ fst (receipt_scan p watched current n h []), snd (receipt_scan p watched current n h []))"
    by (auto simp: receipt_scan_def split: sum.splits option.splits)
qed

lemma appends_tx_scan: "appends (tx_scan c p watched current n)"
  unfolding appends_def
proof (intro allI)
  fix h t
  have "receipt_scan p watched current n h (native_scan c watched current n tx t)
      = (t @ fst (receipt_scan p watched current n h (native_scan c watched current n tx [])),
         snd (receipt_scan p watched current n h (native_scan c watched current n tx [])))" for tx
    using appendsD [OF appends_receipt_scan, of p watched current n h "t @ native_scan c watched current n tx []"]
      appendsD [OF appends_receipt_scan, of p watched current n h "native_scan c watched current n tx []"]
      native_scan_appends [of c watched current n tx t]
    by simp
  then show "tx_scan c p watched current n h t
      = (t @ fst (tx_scan c p watched current n h []), snd (tx_scan c p watched current n h []))"
    by (auto simp: tx_scan_def split: sum.splits option.splits)
qed

lemma appends_block_scan: "appends (block_scan c p watched current)"
  unfolding appends_def
proof (intro allI)
  fix n t
  have "each (tx_scan c p watched current n) txs t
      = (t @ fst (each (tx_scan c p watched current n) txs []), snd (each (tx_scan c p watched current n) txs []))" for txs
    by (rule appends_each [OF appends_tx_scan])
  then show "block_scan c p watched current n t
      = (t @ fst (block_scan c p watched current n []), snd (block_scan c p watched current n []))"
    by (auto simp: block_scan_def split: sum.splits option.splits)
qed

end
