(* ===== verification/Simulated_Clients.thy ===== *)
theory Simulated_Clients
  imports Chain_Types
begin

text \<open>
  The Tron and Solana clients (\<open>packages/chain-abstraction/src/tron/tron-chain-client.ts\<close> and
  \<open>solana/solana-chain-client.ts\<close>).  They talk to no network: submitting draws a hash, every status
  is CONFIRMED, every poll finds nothing.  The model has them as they are.
\<close>

definition base58Chars :: string where
  "base58Chars = ''123456789ABCDEFGHJKLMNPQRSTUVWXYZabcdefghijkmnopqrstuvwxyz''"

text \<open>\<open>data !== '0x' && data !== ''\<close>.\<close>

definition has_data :: "unsigned_call \<Rightarrow> bool" where
  "has_data tx = (uc_data tx \<noteq> ''0x'' \<and> uc_data tx \<noteq> [])"

section \<open>Watchers\<close>

text \<open>
  The map from watcher ids to intervals, the intervals that run, and the next interval handle.  The id
  is made of the address and the millisecond, so two watchers of one address in one
  millisecond share it.
\<close>

record sim_watch =
  sw_watchers :: "(string \<times> nat) list"
  sw_intervals :: "nat list"
  sw_next :: nat

definition watcher_id :: "int \<Rightarrow> string \<Rightarrow> string" where
  "watcher_id now a = ''watcher-'' @ a @ ''-'' @ int_text now"

definition sim_watchDeposits :: "int \<Rightarrow> string \<Rightarrow> sim_watch \<Rightarrow> sim_watch" where
  "sim_watchDeposits now a w = w\<lparr> sw_watchers := js_map_set (watcher_id now a) (sw_next w) (sw_watchers w),
     sw_intervals := sw_intervals w @ [sw_next w], sw_next := Suc (sw_next w) \<rparr>"

definition sim_unwatch :: "string \<Rightarrow> sim_watch \<Rightarrow> sim_watch" where
  "sim_unwatch i w = (case map_of (sw_watchers w) i of
     None \<Rightarrow> w
   | Some t \<Rightarrow> w\<lparr> sw_intervals := filter (\<lambda>x. x \<noteq> t) (sw_intervals w), sw_watchers := js_map_delete i (sw_watchers w) \<rparr>)"

definition sim_destroy :: "sim_watch \<Rightarrow> sim_watch" where
  "sim_destroy w = w\<lparr> sw_intervals := filter (\<lambda>x. x \<notin> snd ` set (sw_watchers w)) (sw_intervals w), sw_watchers := [] \<rparr>"

definition pollDeposits :: "string \<Rightarrow> chain_event list" where
  "pollDeposits _ = []"

section \<open>Tron\<close>

record tron_config =
  tc_chain_id :: string
  tc_chain_name :: string
  tc_rpc_url :: string
  tc_depth :: int
  tc_block_time :: rat
  tc_energy_price :: rat
  tc_bandwidth_price :: rat

definition DEFAULT_TRON_CONFIG :: tron_config where
  "DEFAULT_TRON_CONFIG = \<lparr> tc_chain_id = ''tron'', tc_chain_name = ''Tron'', tc_rpc_url = ''https://api.trongrid.io'',
     tc_depth = 19, tc_block_time = 3, tc_energy_price = 420, tc_bandwidth_price = 1000 \<rparr>"

definition tron_native :: asset_info where
  "tron_native = \<lparr> as_address = ''0x0000000000000000000000000000000000000000'', as_symbol = ''TRX'',
     as_decimals = 6, as_name = ''TRON'' \<rparr>"

definition tron_validateAddress :: "string \<Rightarrow> bool" where
  "tron_validateAddress a = (length a = 34 \<and> hd a = CHR ''T'' \<and> set (tl a) \<subseteq> set base58Chars)"

definition tron_formatAddress :: "tron_config \<Rightarrow> string \<Rightarrow> js_error + string" where
  "tron_formatAddress c a = (if tron_validateAddress a then Inr a else Inl (InvalidAddressError a (tc_chain_name c)))"

definition tron_estimateGas :: "tron_config \<Rightarrow> unsigned_call \<Rightarrow> gas_estimate" where
  "tron_estimateGas c tx =
     (let energy = (if has_data tx then 65000 else 0); bandwidth = (if has_data tx then 350 else 250);
          cost = (energy * tc_energy_price c + bandwidth * tc_bandwidth_price c) / 1000000
      in \<lparr> es_gas_limit = energy + bandwidth, es_gas_price = tc_energy_price c, es_max_fee = None,
           es_max_priority = None, es_total_cost = cost, es_total_cost_usd = cost * (12 / 100) \<rparr>)"

definition generateTxHash :: "(nat \<Rightarrow> rat) \<Rightarrow> string" where
  "generateTxHash rnd = ''0x'' @ random_text hex_chars rnd 64"

definition tron_submitTransaction :: "(nat \<Rightarrow> rat) \<Rightarrow> string \<Rightarrow> tx_result" where
  "tron_submitTransaction rnd _ = \<lparr> tr_hash = generateTxHash rnd, tr_nonce = Some 0, tr_block = Some 0 \<rparr>"

definition tron_getTransactionStatus :: "tron_config \<Rightarrow> string \<Rightarrow> full_status" where
  "tron_getTransactionStatus c h = \<lparr> ts_status = TX_CONFIRMED, ts_confirmations = tc_depth c, st_hash = h,
     st_block = Some 1000000, st_gas_used = Some 65000, st_gas_price = None \<rparr>"

definition tron_getTransactionReceipt :: "tron_config \<Rightarrow> (nat \<Rightarrow> rat) \<Rightarrow> string \<Rightarrow> tx_receipt" where
  "tron_getTransactionReceipt c rnd h = \<lparr> rp_hash = h, rp_status = True, rp_block = 1000000,
     rp_block_hash = generateTxHash rnd, rp_gas_used = 65000, rp_gas_price = tc_energy_price c, rp_logs = [] \<rparr>"

definition TRON_TOKENS :: "(string \<times> string \<times> nat \<times> string) list" where
  "TRON_TOKENS =
     [(''TR7NHqjeKQxGTCi8q8ZY4pL8otSzgjLj6t'', ''USDT'', 6, ''Tether USD''),
      (''TEkxiTtzS2xTE8jTydcY52gLDjCXR7Mb4a'', ''USDC'', 6, ''USD Coin'')]"

definition known_token :: "(string \<times> string \<times> nat \<times> string) list \<Rightarrow> nat \<Rightarrow> string \<Rightarrow> asset_info" where
  "known_token tokens dec a = (case map_of tokens a of
     None \<Rightarrow> \<lparr> as_address = a, as_symbol = ''UNKNOWN'', as_decimals = dec, as_name = ''Unknown Token'' \<rparr>
   | Some (coin, d, nm) \<Rightarrow> \<lparr> as_address = a, as_symbol = coin, as_decimals = d, as_name = nm \<rparr>)"

definition tron_getTokenBalance :: "string \<Rightarrow> string \<Rightarrow> balance" where
  "tron_getTokenBalance _ token = \<lparr> ba_asset = known_token TRON_TOKENS 18 token, ba_amount = ''1000000'', ba_usd = 1 \<rparr>"

definition tron_getBalance :: "string \<Rightarrow> asset_info \<Rightarrow> balance" where
  "tron_getBalance a asset =
     (if as_symbol asset = ''TRX'' then \<lparr> ba_asset = asset, ba_amount = ''1000000'', ba_usd = 12 / 100 \<rparr>
      else tron_getTokenBalance a (as_address asset))"

definition calculateTrc20TransferCost :: "tron_config \<Rightarrow> rat \<times> rat \<times> rat" where
  "calculateTrc20TransferCost c =
     (let cost = 65000 * tc_energy_price c / 1000000 in (65000, cost, cost * (12 / 100)))"

definition isTrc20Contract :: "string \<Rightarrow> bool" where
  "isTrc20Contract a = (length a = 42 \<and> take 2 a = ''0x'' \<and> list_all (is_digit 16) (drop 2 a))"

section \<open>Solana\<close>

record solana_config =
  sc_chain_id :: string
  sc_chain_name :: string
  sc_rpc_url :: string
  sc_ws_url :: string
  sc_depth :: int
  sc_slot_time :: rat
  sc_unit_price :: rat

definition DEFAULT_SOLANA_CONFIG :: solana_config where
  "DEFAULT_SOLANA_CONFIG = \<lparr> sc_chain_id = ''solana'', sc_chain_name = ''Solana'',
     sc_rpc_url = ''https://api.mainnet-beta.solana.com'', sc_ws_url = ''wss://api.mainnet-beta.solana.com'',
     sc_depth = 32, sc_slot_time = 4 / 10, sc_unit_price = 1 \<rparr>"

definition solana_native :: asset_info where
  "solana_native = \<lparr> as_address = ''11111111111111111111111111111111'', as_symbol = ''SOL'',
     as_decimals = 9, as_name = ''Solana'' \<rparr>"

definition solana_validateAddress :: "string \<Rightarrow> bool" where
  "solana_validateAddress a = (32 \<le> length a \<and> length a \<le> 44 \<and> set a \<subseteq> set base58Chars)"

definition solana_formatAddress :: "solana_config \<Rightarrow> string \<Rightarrow> js_error + string" where
  "solana_formatAddress c a = (if solana_validateAddress a then Inr a else Inl (InvalidAddressError a (sc_chain_name c)))"

record priority_fee =
  pr_units :: rat
  pr_lamports :: rat
  pr_sol :: rat
  pr_usd :: rat

definition calculatePriorityFee :: "solana_config \<Rightarrow> rat \<Rightarrow> priority_fee" where
  "calculatePriorityFee c units =
     (let lamports = units * sc_unit_price c; sol = lamports / 1000000000
      in \<lparr> pr_units = units, pr_lamports = lamports, pr_sol = sol, pr_usd = sol * 150 \<rparr>)"

definition solana_estimateGas :: "solana_config \<Rightarrow> unsigned_call \<Rightarrow> gas_estimate" where
  "solana_estimateGas c tx =
     (let units = (if has_data tx then 200000 else 5000);
          cost = 5000 / 1000000000 + units * sc_unit_price c / 1000000000
      in \<lparr> es_gas_limit = units, es_gas_price = sc_unit_price c, es_max_fee = None, es_max_priority = None,
           es_total_cost = cost, es_total_cost_usd = cost * 150 \<rparr>)"

definition generateSignature :: "(nat \<Rightarrow> rat) \<Rightarrow> string" where
  "generateSignature rnd = random_text base58Chars rnd 88"

definition solana_submitTransaction :: "(nat \<Rightarrow> rat) \<Rightarrow> string \<Rightarrow> tx_result" where
  "solana_submitTransaction rnd _ = \<lparr> tr_hash = generateSignature rnd, tr_nonce = Some 0, tr_block = Some 0 \<rparr>"

definition solana_getTransactionStatus :: "solana_config \<Rightarrow> string \<Rightarrow> full_status" where
  "solana_getTransactionStatus c h = \<lparr> ts_status = TX_CONFIRMED, ts_confirmations = sc_depth c, st_hash = h,
     st_block = Some 200000000, st_gas_used = Some 5000, st_gas_price = None \<rparr>"

definition solana_getTransactionReceipt :: "solana_config \<Rightarrow> (nat \<Rightarrow> rat) \<Rightarrow> string \<Rightarrow> tx_receipt" where
  "solana_getTransactionReceipt c rnd h = \<lparr> rp_hash = h, rp_status = True, rp_block = 200000000,
     rp_block_hash = generateSignature rnd, rp_gas_used = 5000, rp_gas_price = sc_unit_price c, rp_logs = [] \<rparr>"

definition SOLANA_TOKENS :: "(string \<times> string \<times> nat \<times> string) list" where
  "SOLANA_TOKENS =
     [(''EPjFWdd5AufqSSqeM2qN1xzybapC8G4wEGGkZwyTDt1v'', ''USDC'', 6, ''USD Coin''),
      (''Es9vMFrzaCERmJfrF4H2FYD4KCoNkY11McCe8BenwNYB'', ''USDT'', 6, ''Tether USD'')]"

definition solana_getTokenBalance :: "string \<Rightarrow> string \<Rightarrow> balance" where
  "solana_getTokenBalance _ mint = \<lparr> ba_asset = known_token SOLANA_TOKENS 9 mint, ba_amount = ''1000000'', ba_usd = 1 \<rparr>"

definition solana_getBalance :: "string \<Rightarrow> asset_info \<Rightarrow> balance" where
  "solana_getBalance a asset =
     (if as_symbol asset = ''SOL'' then \<lparr> ba_asset = asset, ba_amount = ''1000000000'', ba_usd = 150 \<rparr>
      else solana_getTokenBalance a (as_address asset))"

definition isSystemProgram :: "string \<Rightarrow> bool" where
  "isSystemProgram a = (a \<in> set [''11111111111111111111111111111111'',
     ''TokenkegQfeZyiNwAJbNbGKPFXCWuBvf9Ss623VQ5DA'', ''ATokenGPvbdGVxr1b2hvZbsiqW5xWH25efTNsLJA8knL''])"

definition getRecentBlockhash :: "(nat \<Rightarrow> rat) \<Rightarrow> string" where
  "getRecentBlockhash rnd = generateSignature rnd"

definition getCurrentSlot :: nat where
  "getCurrentSlot = 200000000"

section \<open>Contracts\<close>

interpretation tron: status_contract "tc_depth c" "\<lambda>_ h. Inr (tron_getTransactionStatus c h)" for c
  by unfold_locales (auto simp: tron_getTransactionStatus_def)

interpretation solana: status_contract "sc_depth c" "\<lambda>_ h. Inr (solana_getTransactionStatus c h)" for c
  by unfold_locales (auto simp: solana_getTransactionStatus_def)

text \<open>Addresses: what Tron accepts, Solana accepts as well (34 Base58 characters).\<close>

lemma tron_address_is_solana_address:
  assumes "tron_validateAddress a"
  shows "solana_validateAddress a"
proof -
  from assms obtain t where "a = CHR ''T'' # t" "set t \<subseteq> set base58Chars" "length a = 34"
    by (cases a) (auto simp: tron_validateAddress_def)
  moreover have "CHR ''T'' \<in> set base58Chars" by (simp add: base58Chars_def)
  ultimately show ?thesis by (simp add: solana_validateAddress_def)
qed

end
