(* ===== verification/Chain_Client_Properties.thy ===== *)
theory Chain_Client_Properties
  imports Evm_Client Simulated_Clients Settlement_Properties Job_Queue_Properties
begin

text \<open>
  What the EVM client reports to its listeners over any sequence of polls, how its timers behave,
  and how the clients compose with the deposit watcher and the settlement.
\<close>

section \<open>Polling\<close>

lemma poll_watched [simp]: "ew_watched (poll c p w) = ew_watched w"
  by (auto simp: poll_def pollBlocks_def split: sum.splits prod.splits)

lemma block_scan_trace: "fst (each (block_scan c p watched current) ns t) = t @ fst (each (block_scan c p watched current) ns [])"
  using appends_each [OF appends_block_scan, where t = t] by simp

lemma poll_trace_grows: "set (ew_trace w) \<subseteq> set (ew_trace (poll c p w))"
  using block_scan_trace [of c p "ew_watched w"]
  by (auto simp: poll_def pollBlocks_def split: sum.splits prod.splits) (metis Un_iff fst_conv set_append)+

text \<open>A block at or below the last block has been scanned to its end by the poll that moved past it.\<close>

definition scanned :: "evm_config \<Rightarrow> evm_provider \<Rightarrow> evm_watch \<Rightarrow> nat \<Rightarrow> bool" where
  "scanned c p w n = (\<exists>current evs. ep_block_number p = Inr current
     \<and> block_scan c p (ew_watched w) current n [] = (evs, Inr ()) \<and> set evs \<subseteq> set (ew_trace w))"

lemma scanned_mono:
  "scanned c p w n \<Longrightarrow> ew_watched w' = ew_watched w \<Longrightarrow> set (ew_trace w) \<subseteq> set (ew_trace w') \<Longrightarrow> scanned c p w' n"
  unfolding scanned_def by (metis subset_trans)

lemma poll_scans:
  assumes "ew_last_block w < n" "n \<le> ew_last_block (poll c p w)"
  shows "scanned c p (poll c p w) n"
proof -
  from assms obtain current evs r where cur: "ep_block_number p = Inr current"
    and each: "each (block_scan c p (ew_watched w) current) [Suc (ew_last_block w)..<Suc current] (ew_trace w) = (evs, r)"
    and new: "ew_last_block w < current"
    by (cases "ep_block_number p") (auto simp: poll_def pollBlocks_def split: if_splits prod.splits sum.splits)
  have r: "r = Inr ()"
    using assms cur each new by (cases r) (auto simp: poll_def pollBlocks_def)
  obtain es r' where nil: "each (block_scan c p (ew_watched w) current) [Suc (ew_last_block w)..<Suc current] [] = (es, r')"
    by fastforce
  have evs: "evs = ew_trace w @ es" "r' = Inr ()"
    using appends_each [OF appends_block_scan, of c p "ew_watched w" current "[Suc (ew_last_block w)..<Suc current]" "ew_trace w"]
      each nil r by simp_all
  have w': "poll c p w = w\<lparr> ew_trace := evs, ew_last_block := current \<rparr>"
    using cur each new r by (simp add: poll_def pollBlocks_def)
  have "n \<in> set [Suc (ew_last_block w)..<Suc current]" using assms w' by auto
  from each_all [OF appends_block_scan nil [unfolded evs(2)] this] obtain ys where
    "block_scan c p (ew_watched w) current n [] = (ys, Inr ())" "set ys \<subseteq> set es" by blast
  then show ?thesis using cur evs(1) w' by (auto simp: scanned_def)
qed

lemma polls_scan:
  assumes "ew_last_block w < n" "n \<le> ew_last_block (fold (poll c) ps w)"
  shows "\<exists>p \<in> set ps. scanned c p (fold (poll c) ps w) n"
  using assms
proof (induction ps rule: rev_induct)
  case (snoc p ps)
  let ?w = "fold (poll c) ps w"
  show ?case
  proof (cases "n \<le> ew_last_block ?w")
    case True
    from snoc.IH [OF snoc.prems(1) this] obtain q where "q \<in> set ps" "scanned c q ?w n" by blast
    then show ?thesis using scanned_mono [of c q ?w n "poll c p ?w"] poll_trace_grows [of ?w c p] by auto
  next
    case False
    then have "scanned c p (poll c p ?w) n" using snoc.prems(2) by (intro poll_scans) simp_all
    then show ?thesis by simp
  qed
qed simp

lemma fold_poll_watched [simp]: "ew_watched (fold (poll c) ps w) = ew_watched w"
  by (induction ps arbitrary: w) simp_all

text \<open>What a scan that ended delivered.\<close>

lemma block_scan_tx:
  assumes "block_scan c p watched current n [] = (evs, Inr ())" "ep_block p n = Inr (Some txs)" "h \<in> set txs"
  shows "\<exists>ys. tx_scan c p watched current n h [] = (ys, Inr ()) \<and> set ys \<subseteq> set evs"
  using each_all [OF appends_tx_scan _ assms(3), of c p watched current n evs] assms(1,2)
  by (simp add: block_scan_def)

lemma tx_scan_parts:
  assumes "tx_scan c p watched current n h [] = (evs, Inr ())" "ep_tx p h = Inr (Some tx)"
  shows "set (native_scan c watched current n tx []) \<subseteq> set evs
     \<and> (\<exists>ys. receipt_scan p watched current n h [] = (ys, Inr ()) \<and> set ys \<subseteq> set evs)"
proof -
  let ?t = "native_scan c watched current n tx []"
  obtain ys r where rs: "receipt_scan p watched current n h [] = (ys, r)" by fastforce
  have "receipt_scan p watched current n h ?t = (?t @ ys, r)"
    using appendsD [OF appends_receipt_scan, of p watched current n h ?t] rs by simp
  then show ?thesis using assms rs by (auto simp: tx_scan_def)
qed

lemma receipt_scan_log:
  assumes "receipt_scan p watched current n h [] = (evs, Inr ())" "ep_receipt p h = Inr (Some r)"
    and "lg \<in> set (ev_rc_logs r)" "transfer_to lg = Some a" "(a, ls) \<in> set watched" "l \<in> set ls"
    and "ep_decode_uint p (lo_data lg) = Inr (Some k)"
  shows "(l, token_event current n (ev_rc_hash r) lg a k) \<in> set evs"
proof -
  have "each (log_scan p watched current n (ev_rc_hash r)) (ev_rc_logs r) [] = (evs, Inr ())"
    using assms(1,2) by (simp add: receipt_scan_def)
  from each_all [OF appends_log_scan this assms(3)] obtain ys where
    ys: "log_scan p watched current n (ev_rc_hash r) lg [] = (ys, Inr ())" "set ys \<subseteq> set evs" by blast
  then have "each (log_step p current n (ev_rc_hash r) lg a) watched [] = (ys, Inr ())"
    using assms(4) by (simp add: log_scan_def)
  from each_all [OF appends_log_step this assms(5)] obtain zs where
    zs: "log_step p current n (ev_rc_hash r) lg a (a, ls) [] = (zs, Inr ())" "set zs \<subseteq> set ys" by blast
  then have "(l, token_event current n (ev_rc_hash r) lg a k) \<in> set zs"
    using assms(6,7) by (auto simp: log_step_def notify_def)
  with zs(2) ys(2) show ?thesis by blast
qed

text \<open>C11: over any sequence of polls, with providers that fail at any point but agree on the chain when
  they answer, every native payment and every token transfer to a watched address in a block up
  to the last processed one has been reported to every listener of the address.
\<close>

theorem evm_polling_misses_nothing:
  assumes "w' = fold (poll c) ps w" "ew_last_block w < n" "n \<le> ew_last_block w'"
    and "(a, ls) \<in> set (ew_watched w)" "l \<in> set ls" "h \<in> set txs"
    and "\<forall>p \<in> set ps. ep_block p n \<in> insert (Inr (Some txs)) (range Inl)"
    and "\<forall>p \<in> set ps. ep_tx p h \<in> insert (Inr (Some tx)) (range Inl)"
    and "\<forall>p \<in> set ps. ep_receipt p h \<in> insert (Inr (Some r)) (range Inl)"
    and "\<forall>p \<in> set ps. \<forall>lg. ep_decode_uint p (lo_data lg) \<in> insert (Inr (Some (val lg))) (range Inl)"
  shows "(\<forall>d. et_to tx = Some d \<and> to_lower d = a \<longrightarrow>
            (\<exists>current. (l, native_event c current n tx) \<in> set (ew_trace w')))
     \<and> (\<forall>lg \<in> set (ev_rc_logs r). transfer_to lg = Some a \<longrightarrow>
            (\<exists>current. (l, token_event current n (ev_rc_hash r) lg a (val lg)) \<in> set (ew_trace w')))"
proof -
  from polls_scan [OF assms(2), of c ps] assms(1,3) obtain p where p: "p \<in> set ps" "scanned c p w' n" by blast
  then obtain current evs where b: "block_scan c p (ew_watched w) current n [] = (evs, Inr ())"
      "set evs \<subseteq> set (ew_trace w')"
    using assms(1) by (auto simp: scanned_def)
  have ok: "ep_block p n = Inr (Some txs)"
    using b(1) assms(7) p(1) by (auto simp: block_scan_def)
  from block_scan_tx [OF b(1) ok assms(6)] obtain ys where
    ys: "tx_scan c p (ew_watched w) current n h [] = (ys, Inr ())" "set ys \<subseteq> set evs" by blast
  have tx: "ep_tx p h = Inr (Some tx)" using ys(1) assms(8) p(1) by (auto simp: tx_scan_def)
  from tx_scan_parts [OF ys(1) tx] obtain zs where nat: "set (native_scan c (ew_watched w) current n tx []) \<subseteq> set ys"
    and zs: "receipt_scan p (ew_watched w) current n h [] = (zs, Inr ())" "set zs \<subseteq> set ys" by blast
  have rc: "ep_receipt p h = Inr (Some r)" using zs(1) assms(9) p(1) by (auto simp: receipt_scan_def)
  have "(l, native_event c current n tx) \<in> set (ew_trace w')" if "et_to tx = Some d" "to_lower d = a" for d
    using nat ys(2) b(2) that assms(4,5) by (auto simp: set_native_scan tx_touches_def)
  moreover have "(l, token_event current n (ev_rc_hash r) lg a (val lg)) \<in> set (ew_trace w')"
    if "lg \<in> set (ev_rc_logs r)" "transfer_to lg = Some a" for lg
  proof -
    have "each (log_scan p (ew_watched w) current n (ev_rc_hash r)) (ev_rc_logs r) [] = (zs, Inr ())"
      using zs(1) rc by (simp add: receipt_scan_def)
    from each_all [OF appends_log_scan this that(1)] obtain us where
      "log_scan p (ew_watched w) current n (ev_rc_hash r) lg [] = (us, Inr ())" by blast
    then have "each (log_step p current n (ev_rc_hash r) lg a) (ew_watched w) [] = (us, Inr ())"
      using that(2) by (simp add: log_scan_def)
    from each_all [OF appends_log_step this assms(4)] obtain vs where
      "log_step p current n (ev_rc_hash r) lg a (a, ls) [] = (vs, Inr ())" by blast
    moreover have "ep_decode_uint p (lo_data lg) \<in> insert (Inr (Some (val lg))) (range Inl)"
      using assms(10) p(1) by blast
    ultimately have "ep_decode_uint p (lo_data lg) = Inr (Some (val lg))" by (auto simp: log_step_def)
    from receipt_scan_log [OF zs(1) rc that assms(4,5) this] zs(2) ys(2) b(2) show ?thesis by blast
  qed
  ultimately show ?thesis by blast
qed

text \<open>A provider that serves one block with one payment of 5 wei to a watched address.\<close>

definition ex_payment :: evm_tx where
  "ex_payment = \<lparr> et_hash = ''0xp'', et_from = ''0xc'', et_to = Some ''0xAb'', et_value = 5 \<rparr>"

definition ex_receipt :: evm_receipt where
  "ex_receipt = \<lparr> ev_rc_hash = ''0xp'', ev_rc_status = Some 1, ev_rc_block = 3, ev_rc_block_hash = ''0xb'',
     ev_rc_gas_used = 2, ev_rc_gas_price = 1, ev_rc_logs = [] \<rparr>"

definition ex_provider :: "evm_provider" where
  "ex_provider = \<lparr> ep_block_number = Inr 3, ep_block = (\<lambda>n. Inr (if n = 3 then Some [''0xp''] else None)),
     ep_tx = (\<lambda>_. Inr (Some ex_payment)), ep_receipt = (\<lambda>_. Inr (Some ex_receipt)),
     ep_estimate = (\<lambda>_ _ _ _. Inr 2),
     ep_fee_data = Inr \<lparr> fd_gas_price = Some 1, fd_max_fee = None, fd_max_priority = None \<rparr>,
     ep_broadcast = (\<lambda>_. Inr \<lparr> tr_hash = ''0xp'', tr_nonce = Some 0, tr_block = None \<rparr>),
     ep_balance = (\<lambda>_. Inr 0),
     ep_contract = (\<lambda>_. \<lparr> ct_balance_of = (\<lambda>_. Inr 0), ct_decimals = Inr 6, ct_symbol = Inr ''USDC'', ct_name = Inr ''USD Coin'' \<rparr>),
     ep_is_address = (\<lambda>_. Inr True), ep_get_address = id, ep_decode_uint = (\<lambda>_. Inr (Some 0)) \<rparr>"

definition ex_failing_provider :: "evm_provider" where
  "ex_failing_provider = ex_provider\<lparr> ep_block_number := Inr 4, ep_receipt := (\<lambda>_. Inl (plain (JsThrown ''timeout''))) \<rparr>"

definition ex_evm_config :: evm_config where
  "ex_evm_config = new_evm_config ''1'' ''Ethereum'' ''http://rpc'' \<lparr> eo_depth = None, eo_block_time = None, eo_eip1559 = None \<rparr>"

definition ex_watch :: evm_watch where
  "ex_watch = startPolling_done (Inr 2) (watchDeposits ''0xAB'' 7 new_evm_watch)"

theorem evm_polling_misses_nothing_witness:
  "\<exists>current. (7, native_event ex_evm_config current 3 ex_payment)
     \<in> set (ew_trace (fold (poll ex_evm_config) [ex_failing_provider, ex_provider] ex_watch))"
proof -
  have w: "ew_watched ex_watch = [(''0xab'', [7])] \<and> ew_last_block ex_watch = 2"
    by code_simp
  have b: "ew_last_block (fold (poll ex_evm_config) [ex_failing_provider, ex_provider] ex_watch) = 3"
    using w by (simp add: poll_def pollBlocks_def ex_failing_provider_def ex_provider_def block_scan_def tx_scan_def
        receipt_scan_def ex_payment_def ex_receipt_def plain_def upt_rec)
  have lower: "to_lower ''0xAb'' = ''0xab''" by code_simp
  show ?thesis
    using evm_polling_misses_nothing [OF refl, of ex_watch 3 ex_evm_config "[ex_failing_provider, ex_provider]"
        "''0xab''" "[7]" 7 "''0xp''" "[''0xp'']" ex_payment ex_receipt "\<lambda>_. 0"] w b lower
    by (simp add: ex_failing_provider_def ex_provider_def ex_payment_def)
qed

text \<open>A payment from a watched address is reported like a payment to it.\<close>

lemma outgoing_payment_reported:
  "(a, ls) \<in> set watched \<Longrightarrow> l \<in> set ls \<Longrightarrow> to_lower (et_from tx) = a
     \<Longrightarrow> (l, native_event c current n tx) \<in> set (native_scan c watched current n tx [])"
  by (auto simp: set_native_scan tx_touches_def)

section \<open>Timers\<close>

lemma watch_from_idle:
  assumes "ew_timer w = None" "ew_intervals w = []"
  shows "ew_timer (fold (\<lambda>a. watchDeposits a l) as w) = None \<and> ew_intervals (fold (\<lambda>a. watchDeposits a l) as w) = []
    \<and> ew_starting (fold (\<lambda>a. watchDeposits a l) as w) = ew_starting w + length as
    \<and> fst ` set (ew_watched (fold (\<lambda>a. watchDeposits a l) as w)) = fst ` set (ew_watched w) \<union> to_lower ` set as
    \<and> ew_next (fold (\<lambda>a. watchDeposits a l) as w) = ew_next w"
  using assms
proof (induction as arbitrary: w)
  case (Cons a as)
  let ?w = "watchDeposits a l w"
  have "ew_timer ?w = None" "ew_intervals ?w = []" "ew_starting ?w = Suc (ew_starting w)" "ew_next ?w = ew_next w"
      "fst ` set (ew_watched ?w) = insert (to_lower a) (fst ` set (ew_watched w))"
    using Cons.prems by (simp_all add: watchDeposits_def Let_def fst_js_map_set)
  with Cons.IH [of ?w] show ?case by auto
qed simp

lemma starts_done:
  assumes "ew_starting w = n"
  shows "let w' = (startPolling_done r ^^ n) w in
      ew_intervals w' = ew_intervals w @ [ew_next w..<ew_next w + n] \<and> ew_watched w' = ew_watched w
      \<and> (0 < n \<longrightarrow> ew_timer w' = Some (ew_next w + n - 1)) \<and> ew_starting w' = 0"
  using assms
proof (induction n arbitrary: w)
  case (Suc n)
  let ?w = "startPolling_done r w"
  have w: "ew_starting ?w = n" "ew_intervals ?w = ew_intervals w @ [ew_next w]" "ew_next ?w = Suc (ew_next w)"
      "ew_watched ?w = ew_watched w" "ew_timer ?w = Some (ew_next w)"
    using Suc.prems by (simp_all add: startPolling_done_def)
  have "[ew_next w..<ew_next w + Suc n] = ew_next w # [Suc (ew_next w)..<Suc (ew_next w) + n]"
    by (simp add: upt_rec)
  with Suc.IH [OF w(1)] w show ?case by (cases n) (simp_all add: funpow_Suc_right Let_def del: funpow.simps(2))
qed simp

text \<open>Unsubscribing every address clears one interval only.\<close>

lemma unwatch_keys:
  assumes "map_of (ew_watched w) (to_lower a) = Some [l]" "distinct (map fst (ew_watched w))"
  shows "ew_watched (unwatch a l w) = js_map_delete (to_lower a) (ew_watched w)"
    "ew_watched (unwatch a l w) \<noteq> [] \<Longrightarrow> unwatch a l w = w\<lparr> ew_watched := js_map_delete (to_lower a) (ew_watched w) \<rparr>"
    "ew_watched (unwatch a l w) = [] \<Longrightarrow> unwatch a l w = clear_timer (w\<lparr> ew_watched := [] \<rparr>)"
  using assms(1) by (auto simp: unwatch_def Let_def clear_timer_def split: option.splits)

text \<open>The listeners as the deposit watcher registers them: each address once, with one listener.\<close>

definition sole_listener :: "nat \<Rightarrow> string list \<Rightarrow> evm_watch \<Rightarrow> bool" where
  "sole_listener l ks w = (distinct (map fst (ew_watched w)) \<and> fst ` set (ew_watched w) = set ks
     \<and> (\<forall>k \<in> set ks. map_of (ew_watched w) k = Some [l]))"

lemma sole_listener_set: "set ks = set ks' \<Longrightarrow> sole_listener l ks w = sole_listener l ks' w"
  by (simp add: sole_listener_def)

lemma sole_watch:
  assumes "sole_listener l ks w" "to_lower a \<notin> set ks"
  shows "sole_listener l (to_lower a # ks) (watchDeposits a l w)"
proof -
  have "map_of (ew_watched w) (to_lower a) = None"
    using assms by (simp add: sole_listener_def map_of_eq_None_iff)
  moreover have "ew_watched (watchDeposits a l w) = js_map_set (to_lower a) (js_set_add l
      (case map_of (ew_watched w) (to_lower a) of None \<Rightarrow> [] | Some ls \<Rightarrow> ls)) (ew_watched w)"
    by (simp add: watchDeposits_def Let_def)
  ultimately show ?thesis
    using assms by (auto simp: sole_listener_def js_set_add_def fst_js_map_set distinct_js_map_set)
qed

lemma sole_watch_all:
  "sole_listener l ks w \<Longrightarrow> distinct (map to_lower as @ ks)
     \<Longrightarrow> sole_listener l (rev (map to_lower as) @ ks) (fold (\<lambda>a. watchDeposits a l) as w)"
proof (induction as arbitrary: ks w)
  case (Cons a as)
  have "sole_listener l (to_lower a # ks) (watchDeposits a l w)"
    using Cons.prems by (intro sole_watch) auto
  from Cons.IH [OF this] Cons.prems(2) show ?case by simp
qed simp

lemma unwatch_all:
  assumes "as \<noteq> []" "sole_listener l (map to_lower as) w" "distinct (map to_lower as)" "ew_timer w = Some t"
  shows "ew_watched (fold (\<lambda>a. unwatch a l) as w) = []
     \<and> ew_intervals (fold (\<lambda>a. unwatch a l) as w) = filter (\<lambda>x. x \<noteq> t) (ew_intervals w)
     \<and> ew_timer (fold (\<lambda>a. unwatch a l) as w) = None"
  using assms
proof (induction as arbitrary: w)
  case (Cons a as)
  have l: "map_of (ew_watched w) (to_lower a) = Some [l]" "distinct (map fst (ew_watched w))"
    using Cons.prems(2) by (simp_all add: sole_listener_def)
  have keys: "fst ` set (js_map_delete (to_lower a) (ew_watched w)) = set (map to_lower as)"
  proof -
    have "fst ` set (js_map_delete (to_lower a) (ew_watched w)) = fst ` set (ew_watched w) - {to_lower a}"
      by (auto simp: js_map_delete_def)
    then show ?thesis using Cons.prems(2,3) by (auto simp: sole_listener_def)
  qed
  show ?case
  proof (cases "as = []")
    case True
    with keys have "js_map_delete (to_lower a) (ew_watched w) = []" by simp
    with unwatch_keys(1,3) [OF l] True Cons.prems(4) show ?thesis by (simp add: clear_timer_def)
  next
    case False
    then have "js_map_delete (to_lower a) (ew_watched w) \<noteq> []" using keys by auto
    with unwatch_keys(1,2) [OF l] have u: "unwatch a l w = w\<lparr> ew_watched := js_map_delete (to_lower a) (ew_watched w) \<rparr>"
      by simp
    have "sole_listener l (map to_lower as) (unwatch a l w)"
    proof -
      have "((map_of (ew_watched w))(to_lower a := None)) k = Some [l]" if "k \<in> set (map to_lower as)" for k
      proof -
        have "to_lower a \<notin> set (map to_lower as)" using Cons.prems(3) by simp
        with that have "k \<noteq> to_lower a" by metis
        then show ?thesis using that Cons.prems(2) by (auto simp: sole_listener_def simp del: map_of_eq_Some_iff)
      qed
      then show ?thesis using l(2) keys by (simp add: u sole_listener_def distinct_js_map_delete del: map_of_eq_Some_iff)
    qed
    from Cons.IH [OF False this] Cons.prems(3,4) show ?thesis by (simp add: u)
  qed
qed simp

text \<open>Subscribing n addresses before the first block number has arrived, as one refresh of the deposit
  watcher does, starts n polling intervals of which the client remembers the last: after every
  address is unsubscribed n - 1 intervals go on polling.
\<close>

theorem evm_leaks_pollers:
  assumes "as \<noteq> []" "distinct (map to_lower as)"
    and "w1 = (startPolling_done r ^^ length as) (fold (\<lambda>a. watchDeposits a l) as new_evm_watch)"
    and "w2 = fold (\<lambda>a. unwatch a l) as w1"
  shows "length (ew_intervals w1) = length as \<and> ew_watched w2 = [] \<and> ew_timer w2 = None
     \<and> length (ew_intervals w2) = length as - 1"
proof -
  let ?w = "fold (\<lambda>a. watchDeposits a l) as new_evm_watch"
  have new: "ew_timer new_evm_watch = None" "ew_intervals new_evm_watch = []" "ew_starting new_evm_watch = 0"
      "ew_next new_evm_watch = 0" "sole_listener l [] new_evm_watch"
    by (simp_all add: new_evm_watch_def sole_listener_def)
  have w: "ew_intervals ?w = []" "ew_starting ?w = length as" "ew_next ?w = 0"
    using watch_from_idle [OF new(1,2), of l as] new(3,4) by simp_all
  have sole: "sole_listener l (map to_lower as) ?w"
    using sole_watch_all [OF new(5), of as] assms(2) sole_listener_set [of "rev (map to_lower as)" "map to_lower as"]
    by simp
  have w1: "ew_intervals w1 = [0..<length as]" "ew_watched w1 = ew_watched ?w" "ew_timer w1 = Some (length as - 1)"
    using starts_done [OF w(2), of r] w(1,3) assms(1,3) by (simp_all add: Let_def)
  have "sole_listener l (map to_lower as) w1" using sole unfolding sole_listener_def w1(2) .
  from unwatch_all [OF assms(1) this assms(2) w1(3)] have w2: "ew_watched w2 = []" "ew_timer w2 = None"
      "ew_intervals w2 = filter (\<lambda>x. x \<noteq> length as - 1) [0..<length as]"
    using assms(4) w1(1) by simp_all
  have "filter (\<lambda>x. x \<noteq> length as - 1) [0..<length as] = [0..<length as - 1]"
    using assms(1) by (cases as rule: rev_cases) (simp_all add: filter_id_conv)
  with w1 w2 show ?thesis by simp
qed

theorem evm_leaks_pollers_witness:
  "ew_intervals (fold (\<lambda>a. unwatch a 7) [''0xa'', ''0xb'', ''0xc'']
     ((startPolling_done (Inr 2) ^^ 3) (fold (\<lambda>a. watchDeposits a 7) [''0xa'', ''0xb'', ''0xc''] new_evm_watch))) \<noteq> []"
proof -
  have "distinct (map to_lower [''0xa'', ''0xb'', ''0xc''])" by code_simp
  from evm_leaks_pollers [OF _ this refl refl, of "Inr 2" 7] show ?thesis
    by (auto simp: numeral_3_eq_3)
qed

section \<open>Token deposits and the watcher\<close>

lemma digits_value_snoc:
  "digits_value acc (cs @ [c]) = (case digits_value acc cs of None \<Rightarrow> None
     | Some n \<Rightarrow> (case digit_value c of None \<Rightarrow> None | Some d \<Rightarrow> Some (10 * n + d)))"
  by (induction cs arbitrary: acc) (auto split: option.splits)

lemma digit_value_digit_char: "d < 10 \<Longrightarrow> digit_value (digit_char d) = Some (int d)"
proof -
  assume d: "d < 10"
  then have "(of_char (digit_char d) :: nat) = 48 + d" by (simp add: digit_char_def)
  moreover have "(of_char (digit_char d) :: int) = of_nat (of_char (digit_char d))"
    by (rule of_nat_of_char [symmetric])
  ultimately have "(of_char (digit_char d) :: int) = 48 + int d" by simp
  with d show ?thesis by (simp add: digit_value_def)
qed

lemma digits_value_nat_text: "digits_value 0 (nat_text n) = Some (int n)"
proof (induction n rule: less_induct)
  case (less n)
  show ?case
  proof (cases "n < 10")
    case True
    then show ?thesis by (simp add: nat_text_def to_base.simps [of 10 n] digit_value_digit_char)
  next
    case False
    have "digits_value 0 (nat_text (n div 10)) = Some (int (n div 10))" using False by (intro less) simp
    then show ?thesis
      using False by (simp add: nat_text_def to_base.simps [of 10 n] digits_value_snoc digit_value_digit_char
          zdiv_int zmod_int)
  qed
qed

text \<open>A token transfer the EVM client reports reaches the job queue with its raw amount divided by
  10^18 and the asset UNKNOWN, whatever decimals and symbol the token has: for a token of 6
  decimals the recorded amount is 10^12 times too small.
\<close>

theorem token_deposit_misscaled:
  assumes "transfer_to lg = Some a" "findAwaitingDepositAt db chain a = Some p"
    and "onDeposit opts now i db chain (deposit_event.truncate (token_event current n h lg a raw)) (w, jobs) = ((w', jobs'), Inr True)"
  shows "\<exists>j. jobs' = jobs @ [j] \<and> jb_type j = JOB_DEPOSIT_RECORD
     \<and> map_of (jb_payload j) ''amount'' = Some (JNum (of_nat raw / 10 ^ 18))
     \<and> map_of (jb_payload j) ''sourceAsset'' = Some (JStr ''UNKNOWN'')
     \<and> of_nat raw / 10 ^ 18 = (of_nat raw / 10 ^ 6 :: rat) / 10 ^ 12"
proof -
  let ?e = "deposit_event.truncate (token_event current n h lg a raw)"
  have e: "de_to ?e = a" "de_amount ?e = nat_text raw" "as_decimals (de_asset ?e) = 18"
      "as_symbol (de_asset ?e) = ''UNKNOWN''"
    by (simp_all add: deposit_event.truncate_def token_event_def unknown_token_def)
  have "enqueue opts now i (record_request chain ?e p) jobs = (jobs', Inr True)"
    using assms(2,3) e(1) by (auto simp: onDeposit_def Let_def split: prod.splits)
  from enqueue_PENDING [OF this] have "jobs' = jobs @ [new_job opts now i (record_request chain ?e p)]" .
  moreover have "normalizeAmount (nat_text raw) 18 = Some (of_nat raw / 10 ^ 18)"
    by (simp add: normalizeAmount_def digits_value_nat_text)
  ultimately show ?thesis
    using e by (simp add: new_job_def record_request_def num_json_def)
qed

definition ex_transfer :: tx_log where
  "ex_transfer = \<lparr> lo_address = ''0xusdc'', lo_topics = [TRANSFER_TOPIC,
     ''0x000000000000000000000000aaaaaaaaaaaaaaaaaaaaaaaaaaaaaaaaaaaaaaaa'',
     ''0x000000000000000000000000bbbbbbbbbbbbbbbbbbbbbbbbbbbbbbbbbbbbbbbb''], lo_data = ''0x'', lo_block = 3,
     lo_tx_hash = ''0xt'', lo_index = 0 \<rparr>"

definition ex_deposit_address :: string where
  "ex_deposit_address = ''0xbbbbbbbbbbbbbbbbbbbbbbbbbbbbbbbbbbbbbbbb''"

definition ex_deposit_db :: intent_db where
  "ex_deposit_db = \<lparr> db_merchants = [ex_shop], db_intents = [ex_intent\<lparr> pi_state := AWAITING_PAYMENT,
     pi_deposit_address := Some ex_deposit_address \<rparr>], db_events = [], db_ids = 0 \<rparr>"

theorem token_deposit_misscaled_witness:
  "\<exists>w' jobs' j. onDeposit ex_opts 0 ''j'' ex_deposit_db ''1''
       (deposit_event.truncate (token_event 3 3 ''0xt'' ex_transfer ex_deposit_address 7)) (new_watcher, [])
       = ((w', jobs'), Inr True)
     \<and> jobs' = [j] \<and> map_of (jb_payload j) ''amount'' = Some (JNum (7 / 10 ^ 18))"
proof -
  let ?e = "deposit_event.truncate (token_event 3 3 ''0xt'' ex_transfer ex_deposit_address 7)"
  let ?r = "onDeposit ex_opts 0 ''j'' ex_deposit_db ''1'' ?e (new_watcher, [])"
  have to: "transfer_to ex_transfer = Some ex_deposit_address" by code_simp
  have found: "findAwaitingDepositAt ex_deposit_db ''1'' ex_deposit_address \<noteq> None" by code_simp
  then obtain p where p: "findAwaitingDepositAt ex_deposit_db ''1'' ex_deposit_address = Some p" by blast
  have "case ?r of (_, Inr b) \<Rightarrow> b | _ \<Rightarrow> False" by code_simp
  then obtain w' jobs' where r: "?r = ((w', jobs'), Inr True)" by (auto split: prod.splits sum.splits)
  from token_deposit_misscaled [OF to p r] show ?thesis using r by auto
qed

section \<open>Clients and the settlement\<close>

text \<open>What the settlement sees of a client: the n-th poll asks the provider of that moment.\<close>

definition seen :: "full_status \<Rightarrow> tx_status" where
  "seen st = \<lparr> ts_status = ts_status st, ts_confirmations = ts_confirmations st \<rparr>"

definition call_of :: "(rat \<Rightarrow> string) \<Rightarrow> unsigned_tx \<Rightarrow> unsigned_call" where
  "call_of num tx = \<lparr> uc_from = tx_from tx, uc_to = tx_to tx, uc_value = num (tx_value tx), uc_data = tx_data tx \<rparr>"

definition evm_payer :: "evm_config \<Rightarrow> (rat \<Rightarrow> string) \<Rightarrow> (nat \<Rightarrow> evm_provider) \<Rightarrow> (nat \<Rightarrow> int) \<Rightarrow> chain_client" where
  "evm_payer c num ps clock = \<lparr> cc_depth = ec_depth c,
     cc_estimateGas = (\<lambda>tx. map_sum id (\<lambda>_. ()) (evm_estimateGas c (ps 0) (call_of num tx))),
     cc_submit = (\<lambda>d. map_sum id tr_hash (evm_submitTransaction c (ps 0) d)),
     cc_status = (\<lambda>h n. map_sum id seen (evm_getTransactionStatus c (ps n) h)), cc_elapsed = clock \<rparr>"

definition tron_payer :: "tron_config \<Rightarrow> (nat \<Rightarrow> rat) \<Rightarrow> (nat \<Rightarrow> int) \<Rightarrow> chain_client" where
  "tron_payer c rnd clock = \<lparr> cc_depth = tc_depth c, cc_estimateGas = (\<lambda>_. Inr ()),
     cc_submit = (\<lambda>d. Inr (tr_hash (tron_submitTransaction rnd d))),
     cc_status = (\<lambda>h _. Inr (seen (tron_getTransactionStatus c h))), cc_elapsed = clock \<rparr>"

context status_contract
begin

text \<open>The wait of the settlement ends only on a transaction that is in a block.\<close>

lemma accepted_final:
  assumes "0 < depth" "cc_depth k = depth"
    and "\<And>h n st. cc_status k h n = Inr st \<Longrightarrow>
           \<exists>x. status n h = Inr x \<and> ts_status x = ts_status st \<and> ts_confirmations x = ts_confirmations st"
    and "waitForConfirmation k h = Some (Inr ())"
  shows "\<exists>n x. status n h = Inr x \<and> (ts_status x = TX_CONFIRMED \<or> ts_status x = TX_FAILED)"
proof -
  from wait_loop_confirmed [OF assms(4) [unfolded waitForConfirmation_def]] obtain n st where
    "cc_status k h n = Inr st" "depth \<le> ts_confirmations st" using assms(2) by auto
  moreover from assms(3) [OF this(1)] obtain x where
    "status n h = Inr x" "ts_confirmations x = ts_confirmations st" by blast
  ultimately show ?thesis using deep_is_final [OF assms(1), of n h x] by auto
qed

end

text \<open>With the EVM client the settlement waits until the transaction is in a block at the
  confirmation depth, but a transaction that was reverted satisfies it as well: the wait
  compares confirmations before it looks at the status.
\<close>

theorem evm_reverted_payout_accepted:
  assumes "0 < ec_depth c"
  shows "(waitForConfirmation (evm_payer c num ps clock) h = Some (Inr ()) \<longrightarrow>
            (\<exists>n st. evm_getTransactionStatus c (ps n) h = Inr st \<and> (ts_status st = TX_CONFIRMED \<or> ts_status st = TX_FAILED)))
     \<and> (\<forall>tx r current. ep_tx (ps 0) h = Inr tx \<and> ep_receipt (ps 0) h = Inr (Some r) \<and> receipt_failed r
            \<and> ep_block_number (ps 0) = Inr current \<and> ec_depth c \<le> int current - int (ev_rc_block r) \<and> clock 0 < maxWaitTime
          \<longrightarrow> waitForConfirmation (evm_payer c num ps clock) h = Some (Inr ()))"
proof -
  have "\<exists>x. evm_getTransactionStatus c (ps n) h = Inr x \<and> ts_status x = ts_status st \<and> ts_confirmations x = ts_confirmations st"
    if "cc_status (evm_payer c num ps clock) h n = Inr st" for h n st
    using that by (cases "evm_getTransactionStatus c (ps n) h") (auto simp: evm_payer_def seen_def)
  moreover have "cc_depth (evm_payer c num ps clock) = ec_depth c" by (simp add: evm_payer_def)
  ultimately have "waitForConfirmation (evm_payer c num ps clock) h = Some (Inr ()) \<longrightarrow>
      (\<exists>n st. evm_getTransactionStatus c (ps n) h = Inr st \<and> (ts_status st = TX_CONFIRMED \<or> ts_status st = TX_FAILED))"
    using evm.accepted_final [OF assms, of "evm_payer c num ps clock" ps h] by blast
  moreover have "waitForConfirmation (evm_payer c num ps clock) h = Some (Inr ())"
    if "ep_tx (ps 0) h = Inr tx" "ep_receipt (ps 0) h = Inr (Some r)" "receipt_failed r"
      "ep_block_number (ps 0) = Inr current" "ec_depth c \<le> int current - int (ev_rc_block r)" "clock 0 < maxWaitTime"
    for tx r current
  proof -
    obtain fuel where fuel: "wait_fuel = Suc fuel" by (simp add: wait_fuel_def)
    show ?thesis
      unfolding waitForConfirmation_def fuel
      using that by (simp add: evm_payer_def evm_getTransactionStatus_def seen_def Let_def)
  qed
  ultimately show ?thesis by blast
qed

definition ex_reverting_provider :: evm_provider where
  "ex_reverting_provider = ex_provider\<lparr> ep_block_number := Inr 20,
     ep_receipt := (\<lambda>_. Inr (Some (ex_receipt\<lparr> ev_rc_status := Some 0 \<rparr>))) \<rparr>"

text \<open>The whole settlement with a reverted payout: its row is COMPLETED.\<close>

theorem evm_reverted_payout_accepted_witness:
  "waitForConfirmation (evm_payer ex_evm_config (\<lambda>_. ''100'') (\<lambda>_. ex_reverting_provider) (\<lambda>n. 2000 * int n)) ''0xp'' = Some (Inr ())
   \<and> (\<exists>s' d. settleIntent ex_settle_env ex_intent (ex_shop\<lparr> m_fee_percentage := 0 \<rparr>)
        (evm_payer ex_evm_config (\<lambda>_. ''100'') (\<lambda>_. ex_reverting_provider) (\<lambda>n. 2000 * int n)) ex_settle = Some (s', Inr d)
      \<and> se_status d = S_COMPLETED)"
proof -
  let ?k = "evm_payer ex_evm_config (\<lambda>_. ''100'') (\<lambda>_. ex_reverting_provider) (\<lambda>n. 2000 * int n)"
  have "0 < ec_depth ex_evm_config" "ec_depth ex_evm_config = 12" by code_simp+
  then have w: "waitForConfirmation ?k ''0xp'' = Some (Inr ())"
    using evm_reverted_payout_accepted [of ex_evm_config "\<lambda>_. ''100''" "\<lambda>_. ex_reverting_provider" "\<lambda>n. 2000 * int n" "''0xp''"]
    by (simp add: ex_reverting_provider_def ex_provider_def ex_receipt_def receipt_failed_def maxWaitTime_def)
  let ?r = "settleIntent ex_settle_env ex_intent (ex_shop\<lparr> m_fee_percentage := 0 \<rparr>) ?k ex_settle"
  have "case ?r of None \<Rightarrow> False | Some (_, Inl _) \<Rightarrow> False | Some (_, Inr d) \<Rightarrow> se_status d = S_COMPLETED"
    by code_simp
  then show ?thesis using w by (auto split: option.splits prod.splits sum.splits)
qed

text \<open>A payout with a fraction never leaves through the EVM client: \<open>BigInt\<close> refuses the amount while the
  gas is estimated, so the settlement fails before anything is submitted.
\<close>

theorem evm_fractional_payout_never_sent:
  assumes "CHR ''.'' \<in> set (num (calculateSettlementAmount (pi_target_amount intent) (m_fee_percentage m)))"
    and "settleIntent v intent m (evm_payer c num ps clock) s = Some (s', res)"
  shows "(\<exists>x. res = Inl x) \<and> ss_payouts s' = ss_payouts s"
proof -
  let ?amt = "calculateSettlementAmount (pi_target_amount intent) (m_fee_percentage m)"
  let ?k = "evm_payer c num ps clock"
  let ?p = "\<lparr> ns_intent_id = pi_id intent, ns_merchant_id = m_id m, ns_amount = ?amt,
      ns_asset = m_settlement_asset m, ns_chain = m_settlement_chain m, ns_destination = m_settlement_address m \<rparr>"
  have zero: "num ?amt \<noteq> ''0''" using assms(1) by auto
  have exec: "\<exists>x. executeTransaction ?k r s1 = (s1, Inl x)" if "se_amount r = ?amt" for r s1
    using that zero fraction_is_no_bigint [OF assms(1)]
    by (simp add: executeTransaction_def evm_payer_def evm_estimateGas_def call_of_def)
  obtain s1 r1 where cr: "create_settlement v ?p s = (s1, r1)" by fastforce
  then show ?thesis
  proof (cases rule: create_settlementE)
    case refused
    with assms(2) cr show ?thesis by (auto simp: settleIntent_def Let_def)
  next
    case (created amount i)
    from exec obtain x where x: "executeTransaction ?k (settlement_row (sv_env v) i ?p ?amt) s1
        = (s1, Inl x)" by (metis settlement_row_simps(2))
    have h: "(s', res) = handleSettlementFailure (e_now (sv_env v)) i x s1"
      using assms(2) cr created(4) x by (simp add: settleIntent_def settle_try_def Let_def)
    obtain s2 y where u: "update_settlement (e_now (sv_env v)) i
        \<lparr> su_status = Some S_FAILED, su_tx_hash = None, su_completed_at = None \<rparr> s1 = (s2, y)" by fastforce
    then have "ss_payouts s2 = ss_payouts s1" by (cases rule: update_settlementE) simp_all
    then show ?thesis
      using h u created(6) by (cases y) (auto simp: handleSettlementFailure_def split: if_splits)
  qed
qed

theorem evm_fractional_payout_never_sent_witness:
  "\<exists>s' x. settleIntent ex_settle_env ex_intent ex_shop
      (evm_payer ex_evm_config (\<lambda>_. ''97.5'') (\<lambda>_. ex_provider) (\<lambda>n. 2000 * int n)) ex_settle = Some (s', Inl x)
    \<and> ss_payouts s' = []"
proof -
  let ?k = "evm_payer ex_evm_config (\<lambda>_. ''97.5'') (\<lambda>_. ex_provider) (\<lambda>n. 2000 * int n)"
  have "settleIntent ex_settle_env ex_intent ex_shop ?k ex_settle \<noteq> None" by code_simp
  then obtain s' res where r: "settleIntent ex_settle_env ex_intent ex_shop ?k ex_settle = Some (s', res)" by auto
  moreover have "ss_payouts ex_settle = []" by (simp add: ex_settle_def)
  ultimately show ?thesis
    using evm_fractional_payout_never_sent [OF _ r] by auto
qed

text \<open>A payout on Tron is accepted at the first poll, with a hash that was drawn and sent nowhere.\<close>

lemma tron_payout_accepted: "clock 0 < maxWaitTime \<Longrightarrow> waitForConfirmation (tron_payer c rnd clock) h = Some (Inr ())"
proof -
  assume t: "clock 0 < maxWaitTime"
  obtain fuel where fuel: "wait_fuel = Suc fuel" by (simp add: wait_fuel_def)
  from t show ?thesis
    unfolding waitForConfirmation_def fuel by (simp add: tron_payer_def tron_getTransactionStatus_def seen_def)
qed

end
