(* ===== verification/External_Scorers.thy ===== *)
theory External_Scorers
  imports Compliance_Gate
begin

text \<open>
  The Chainalysis and TRM scorers (\<open>packages/compliance/src/chainalysis-risk-scorer.ts\<close> and
  \<open>trm-risk-scorer.ts\<close>).  Both answer from a hash of the address and keep the answer for five
  minutes; the amounts Chainalysis draws with \<open>Math.random\<close> are a parameter.  Their catch blocks are
  not reached: nothing in the simulated call throws.
\<close>

section \<open>Configuration\<close>

record vendor_config =
  vc_api_key :: string
  vc_base_url :: string
  vc_timeout_ms :: nat
  vc_max_retries :: nat

definition CHAINALYSIS_DEFAULT :: vendor_config where
  "CHAINALYSIS_DEFAULT = \<lparr> vc_api_key = '''', vc_base_url = ''https://api.chainalysis.com/api/2'',
     vc_timeout_ms = 10000, vc_max_retries = 3 \<rparr>"

definition cacheTtlMs :: int where "cacheTtlMs = 5 * 60 * 1000"

type_synonym result_cache = "(string \<times> risk_result \<times> int) list"

text \<open>\<open>data.categories\<close> and the flags made of them, the same in both vendors.\<close>

definition simulateCategories :: "string \<Rightarrow> string list" where
  "simulateCategories a = (let h = simpleHash a mod 100 in
     (if h < 5 then [''mixer''] else []) @ (if h < 2 then [''darknet''] else []) @ (if h < 3 then [''scam''] else []))"

definition category_flags :: "string list \<Rightarrow> risk_flag list" where
  "category_flags cats = (if ''mixer'' \<in> set cats then [MIXER] else [])
     @ (if ''darknet'' \<in> set cats then [DARKNET] else []) @ (if ''scam'' \<in> set cats then [SCAM] else [])"

definition external_level :: "rat \<Rightarrow> risk_level" where
  "external_level score = (if 90 \<le> score then RISK_CRITICAL else if 70 \<le> score then RISK_HIGH
     else if 40 \<le> score then RISK_MEDIUM else RISK_LOW)"

definition burn_prefix :: string where
  "burn_prefix = ''0x000000000000000000000000000000000000dead''"

definition starts_with :: "string \<Rightarrow> string \<Rightarrow> bool" where
  "starts_with s p = (take (length p) s = p)"

text \<open>The cache in front of a call: a live entry is returned as it is.\<close>

definition cached_screen ::
    "(int \<Rightarrow> string \<Rightarrow> string \<Rightarrow> risk_result) \<Rightarrow> int \<Rightarrow> string \<Rightarrow> string \<Rightarrow> result_cache \<Rightarrow> result_cache \<times> risk_result" where
  "cached_screen call now a c cache =
     (let key = cache_key a c; r = call now a c; miss = (js_map_set key (r, now + cacheTtlMs) cache, r) in
      case map_of cache key of
        None \<Rightarrow> miss
      | Some (old, expiresAt) \<Rightarrow> if now < expiresAt then (cache, old) else miss)"

definition adjust_result :: "risk_result \<Rightarrow> rat \<Rightarrow> risk_result" where
  "adjust_result r extra = r\<lparr> rk_score := min 100 (rk_score r + extra),
     rk_level := external_level (min 100 (rk_score r + extra)), rk_flags := rk_flags r @ [] \<rparr>"

definition round_amount :: "rat \<Rightarrow> bool" where
  "round_amount x = (x / 1000 = of_int \<lfloor>x / 1000\<rfloor> \<and> 0 < x)"

text \<open>\<open>getRiskScore\<close>: the first live entry whose key starts with the address.\<close>

definition external_getRiskScore :: "int \<Rightarrow> result_cache \<Rightarrow> string \<Rightarrow> rat" where
  "external_getRiskScore now cache a =
     (case filter (\<lambda>(k, r, e). starts_with k (to_lower a) \<and> now < e) cache of
        [] \<Rightarrow> 0 | (_, r, _) # _ \<Rightarrow> rk_score r)"

section \<open>Chainalysis\<close>

record chainalysis_response =
  cy_address :: string
  cy_chain :: string
  cy_score :: rat
  cy_categories :: "string list"
  cy_sanctions :: rat
  cy_received :: rat
  cy_sent :: rat
  cy_direct :: string

definition chainalysis_score :: "string \<Rightarrow> rat" where
  "chainalysis_score a = (if starts_with a burn_prefix then 95 else of_int (simpleHash a mod 60 + 10))"

definition checkSanctionsExposure :: "string \<Rightarrow> rat" where
  "checkSanctionsExposure a = (if simpleHash a mod 100 < 1 then 100 else 0)"

definition callChainalysisRisk :: "(string \<Rightarrow> rat \<times> rat) \<Rightarrow> string \<Rightarrow> string \<Rightarrow> chainalysis_response" where
  "callChainalysisRisk rnd a c = \<lparr> cy_address = a, cy_chain = c, cy_score = chainalysis_score a,
     cy_categories = simulateCategories a, cy_sanctions = checkSanctionsExposure a,
     cy_received = fst (rnd a) * 1000000, cy_sent = snd (rnd a) * 1000000,
     cy_direct = (if 50 < chainalysis_score a then ''high'' else ''low'') \<rparr>"

definition chainalysis_parse :: "int \<Rightarrow> string \<Rightarrow> string \<Rightarrow> chainalysis_response \<Rightarrow> risk_result" where
  "chainalysis_parse now a c d = \<lparr> rk_address = a, rk_chain = c, rk_score = cy_score d,
     rk_level = external_level (cy_score d),
     rk_flags = (if 0 < cy_sanctions d then [SANCTIONED] else []) @ category_flags (cy_categories d),
     rk_details = \<lparr>
       rd_sanctions_match = (if 0 < cy_sanctions d
         then Some \<lparr> sm_list_name = ''OFAC'', sm_match_score = cy_sanctions d, sm_entity_name = ''Sanctioned Entity'',
                     sm_entity_details = [(''source'', JStr ''chainalysis'')] \<rparr> else None),
       rd_wallet_age = 0, rd_transaction_count = 0, rd_total_volume = cy_received d,
       rd_known_associations = cy_categories d, rd_jurisdiction_risk = 0 \<rparr>,
     rk_screened_at = now, rk_expires_at = now + cacheTtlMs \<rparr>"

definition chainalysis_screenAddress ::
    "(string \<Rightarrow> rat \<times> rat) \<Rightarrow> int \<Rightarrow> string \<Rightarrow> string \<Rightarrow> result_cache \<Rightarrow> result_cache \<times> risk_result" where
  "chainalysis_screenAddress rnd =
     cached_screen (\<lambda>now a c. chainalysis_parse now a c (callChainalysisRisk rnd a c))"

definition chainalysis_patterns :: "tx_info \<Rightarrow> rat" where
  "chainalysis_patterns tx = (if 100000 < ti_amount tx then 10 else 0) + (if round_amount (ti_amount tx) then 5 else 0)
     + (if ti_amount tx < 1 \<and> 0 < ti_amount tx then 3 else 0)"

definition chainalysis_screenTransaction ::
    "(string \<Rightarrow> rat \<times> rat) \<Rightarrow> int \<Rightarrow> tx_info \<Rightarrow> result_cache \<Rightarrow> result_cache \<times> risk_result" where
  "chainalysis_screenTransaction rnd now tx cache =
     (case chainalysis_screenAddress rnd now (ti_from tx) (ti_chain tx) cache of
        (cache', r) \<Rightarrow> (cache', adjust_result r (chainalysis_patterns tx)))"

definition getRiskCategory :: "rat \<Rightarrow> string" where
  "getRiskCategory score = (if 90 \<le> score then ''severe_risk'' else if 70 \<le> score then ''high_risk''
     else if 40 \<le> score then ''medium_risk'' else if 20 \<le> score then ''low_risk'' else ''safe'')"

definition isSanctioned ::
    "(string \<Rightarrow> rat \<times> rat) \<Rightarrow> int \<Rightarrow> string \<Rightarrow> string \<Rightarrow> result_cache \<Rightarrow> result_cache \<times> bool" where
  "isSanctioned rnd now a c cache = (case chainalysis_screenAddress rnd now a c cache of
     (cache', r) \<Rightarrow> (cache', SANCTIONED \<in> set (rk_flags r)))"

definition chainalysis_scorer :: "(string \<Rightarrow> rat \<times> rat) \<Rightarrow> result_cache scorer" where
  "chainalysis_scorer rnd =
     \<lparr> sc_screenAddress = (\<lambda>now a c s. case chainalysis_screenAddress rnd now a c s of (s', r) \<Rightarrow> (s', Inr r)),
       sc_screenTransaction = (\<lambda>now tx s. case chainalysis_screenTransaction rnd now tx s of (s', r) \<Rightarrow> (s', Inr r)) \<rparr>"

section \<open>TRM\<close>

record trm_response =
  tm_address :: string
  tm_chain :: string
  tm_score :: rat
  tm_rating :: string
  tm_exposure :: "string list"
  tm_sanctions :: string

record exposure_summary =
  xs_address :: string
  xs_chain :: string
  xs_score :: rat
  xs_level :: risk_level
  xs_exposure :: "string list"
  xs_volume :: rat

definition trm_score :: "string \<Rightarrow> rat" where
  "trm_score a = (if starts_with a burn_prefix then 95 else of_int (simpleHash a mod 50 + 10))"

definition checkSanctionsStatus :: "string \<Rightarrow> string" where
  "checkSanctionsStatus a = (if simpleHash a mod 100 < 1 then ''sanctioned'' else ''not_sanctioned'')"

definition getRiskRatingFromScore :: "rat \<Rightarrow> string" where
  "getRiskRatingFromScore score = (if 80 \<le> score then ''high_risk'' else if 50 \<le> score then ''medium_risk''
     else if 20 \<le> score then ''low_risk'' else ''no_risk'')"

definition callTRMRisk :: "string \<Rightarrow> string \<Rightarrow> trm_response" where
  "callTRMRisk a c = \<lparr> tm_address = a, tm_chain = c, tm_score = trm_score a,
     tm_rating = getRiskRatingFromScore (trm_score a), tm_exposure = simulateCategories a,
     tm_sanctions = checkSanctionsStatus a \<rparr>"

definition trm_parse :: "int \<Rightarrow> string \<Rightarrow> string \<Rightarrow> trm_response \<Rightarrow> risk_result" where
  "trm_parse now a c d = \<lparr> rk_address = a, rk_chain = c, rk_score = tm_score d,
     rk_level = external_level (tm_score d),
     rk_flags = (if tm_sanctions d = ''sanctioned'' then [SANCTIONED] else []) @ category_flags (tm_exposure d),
     rk_details = \<lparr>
       rd_sanctions_match = (if tm_sanctions d = ''sanctioned''
         then Some \<lparr> sm_list_name = ''OFAC'', sm_match_score = 100, sm_entity_name = ''Sanctioned Entity'',
                     sm_entity_details = [(''source'', JStr ''trm'')] \<rparr> else None),
       rd_wallet_age = 0, rd_transaction_count = 0, rd_total_volume = 0,
       rd_known_associations = tm_exposure d, rd_jurisdiction_risk = 0 \<rparr>,
     rk_screened_at = now, rk_expires_at = now + cacheTtlMs \<rparr>"

definition trm_screenAddress :: "int \<Rightarrow> string \<Rightarrow> string \<Rightarrow> result_cache \<Rightarrow> result_cache \<times> risk_result" where
  "trm_screenAddress = cached_screen (\<lambda>now a c. trm_parse now a c (callTRMRisk a c))"

definition trm_patterns :: "tx_info \<Rightarrow> rat" where
  "trm_patterns tx = (if 100000 < ti_amount tx then 10 else 0) + (if round_amount (ti_amount tx) then 5 else 0)"

definition trm_screenTransaction :: "int \<Rightarrow> tx_info \<Rightarrow> result_cache \<Rightarrow> result_cache \<times> risk_result" where
  "trm_screenTransaction now tx cache =
     (case trm_screenAddress now (ti_from tx) (ti_chain tx) cache of
        (cache', r) \<Rightarrow> (cache', adjust_result r (trm_patterns tx)))"

definition getRiskRating :: "int \<Rightarrow> string \<Rightarrow> string \<Rightarrow> result_cache \<Rightarrow> result_cache \<times> string" where
  "getRiskRating now a c cache = (case trm_screenAddress now a c cache of
     (cache', r) \<Rightarrow> (cache', getRiskRatingFromScore (rk_score r)))"

definition getExposureSummary :: "int \<Rightarrow> string \<Rightarrow> string \<Rightarrow> result_cache \<Rightarrow> result_cache \<times> exposure_summary" where
  "getExposureSummary now a c cache = (case trm_screenAddress now a c cache of
     (cache', r) \<Rightarrow> (cache', \<lparr> xs_address = a, xs_chain = c, xs_score = rk_score r, xs_level = rk_level r,
        xs_exposure = rd_known_associations (rk_details r), xs_volume = rd_total_volume (rk_details r) \<rparr>))"

definition trm_scorer :: "result_cache scorer" where
  "trm_scorer =
     \<lparr> sc_screenAddress = (\<lambda>now a c s. case trm_screenAddress now a c s of (s', r) \<Rightarrow> (s', Inr r)),
       sc_screenTransaction = (\<lambda>now tx s. case trm_screenTransaction now tx s of (s', r) \<Rightarrow> (s', Inr r)) \<rparr>"

section \<open>Both meet the contract of a scorer\<close>

text \<open>
  What a call promises; the alarm is certain only for an address all of whose spellings (up to
  case, the cache does not tell them apart) are sanctioned.
\<close>

definition sanctioned_hash :: "string \<Rightarrow> bool" where
  "sanctioned_hash a = (simpleHash a mod 100 < 1)"

definition always_sanctioned :: "string \<Rightarrow> string \<Rightarrow> bool" where
  "always_sanctioned a c = (\<forall>b d. cache_key b d = cache_key a c \<longrightarrow> sanctioned_hash b)"

definition result_ok :: "string \<Rightarrow> risk_result \<Rightarrow> bool" where
  "result_ok key r = (0 \<le> rk_score r \<and> rk_score r \<le> 100 \<and> rk_level r = external_level (rk_score r)
     \<and> ((\<forall>b d. cache_key b d = key \<longrightarrow> sanctioned_hash b) \<longrightarrow> SANCTIONED \<in> set (rk_flags r)))"

definition results_ok :: "result_cache \<Rightarrow> bool" where
  "results_ok cache = (\<forall>(k, r, e) \<in> set cache. result_ok k r)"

lemma cached_screen_ok:
  assumes "\<And>now a c. result_ok (cache_key a c) (call now a c)" "results_ok cache"
    and "cached_screen call now a c cache = (cache', r)"
  shows "results_ok cache' \<and> result_ok (cache_key a c) r"
proof (cases "\<exists>old e. map_of cache (cache_key a c) = Some (old, e) \<and> now < e")
  case True
  then obtain old e where "map_of cache (cache_key a c) = Some (old, e)" "now < e" by blast
  with assms(2,3) map_of_SomeD [OF this(1)] show ?thesis by (auto simp: cached_screen_def results_ok_def Let_def)
next
  case False
  then have "cache' = js_map_set (cache_key a c) (call now a c, now + cacheTtlMs) cache" "r = call now a c"
    using assms(3) by (auto simp: cached_screen_def Let_def split: option.splits if_splits)
  moreover have "results_ok (js_map_set (cache_key a c) (call now a c, now + cacheTtlMs) cache)"
    using assms(1,2) unfolding results_ok_def by (intro js_map_set_ball) simp_all
  ultimately show ?thesis using assms(1) by simp
qed

lemma adjust_ok:
  assumes "result_ok key r" "0 \<le> extra"
  shows "0 \<le> rk_score (adjust_result r extra) \<and> rk_score (adjust_result r extra) \<le> 100
    \<and> rk_level (adjust_result r extra) = external_level (rk_score (adjust_result r extra))
    \<and> rk_flags (adjust_result r extra) = rk_flags r"
  using assms by (auto simp: adjust_result_def result_ok_def)

lemma hash_mod_bounds: "0 < n \<Longrightarrow> 0 \<le> simpleHash a mod n \<and> simpleHash a mod n < n"
  by simp

lemma chainalysis_call_ok: "result_ok (cache_key a c) (chainalysis_parse now a c (callChainalysisRisk rnd a c))"
  using hash_mod_bounds [of 60 a]
  by (auto simp: result_ok_def chainalysis_parse_def callChainalysisRisk_def chainalysis_score_def
      checkSanctionsExposure_def sanctioned_hash_def)

lemma trm_call_ok: "result_ok (cache_key a c) (trm_parse now a c (callTRMRisk a c))"
  using hash_mod_bounds [of 50 a]
  by (auto simp: result_ok_def trm_parse_def callTRMRisk_def trm_score_def checkSanctionsStatus_def sanctioned_hash_def)

lemma patterns_nonneg: "0 \<le> chainalysis_patterns tx" "0 \<le> trm_patterns tx"
  by (simp_all add: chainalysis_patterns_def trm_patterns_def)

lemma result_ok_alarm: "result_ok (cache_key a c) r \<Longrightarrow> always_sanctioned a c \<Longrightarrow> SANCTIONED \<in> set (rk_flags r)"
  by (simp add: result_ok_def always_sanctioned_def)

text \<open>A scorer made of a call behind the cache and a rule for transactions.\<close>

definition external_scorer ::
    "(int \<Rightarrow> string \<Rightarrow> string \<Rightarrow> risk_result) \<Rightarrow> (tx_info \<Rightarrow> rat) \<Rightarrow> result_cache scorer" where
  "external_scorer call patterns =
     \<lparr> sc_screenAddress = (\<lambda>now a c s. case cached_screen call now a c s of (s', r) \<Rightarrow> (s', Inr r)),
       sc_screenTransaction = (\<lambda>now tx s. case cached_screen call now (ti_from tx) (ti_chain tx) s of
          (s', r) \<Rightarrow> (s', Inr (adjust_result r (patterns tx)))) \<rparr>"

lemma external_scorers:
  "chainalysis_scorer rnd = external_scorer (\<lambda>now a c. chainalysis_parse now a c (callChainalysisRisk rnd a c)) chainalysis_patterns"
  "trm_scorer = external_scorer (\<lambda>now a c. trm_parse now a c (callTRMRisk a c)) trm_patterns"
  by (simp_all add: external_scorer_def chainalysis_scorer_def trm_scorer_def fun_eq_iff
      chainalysis_screenAddress_def trm_screenAddress_def chainalysis_screenTransaction_def trm_screenTransaction_def
      split: prod.splits)

lemma external_contract:
  assumes "\<And>now a c. result_ok (cache_key a c) (call now a c)" "\<And>tx. 0 \<le> patterns tx"
  shows "risk_screening (external_scorer call patterns) results_ok external_level always_sanctioned"
proof
  note ok = cached_screen_ok [where call = call, OF assms(1)]
  fix s now a c tx
  assume s: "results_ok s"
  have ra: "results_ok s' \<and> result_ok (cache_key a c) r"
    if "sc_screenAddress (external_scorer call patterns) now a c s = (s', Inr r)" for a c s' r
    using that ok [OF s, of now a c s' r] by (auto simp: external_scorer_def split: prod.splits)
  have rt: "\<exists>r0. results_ok s' \<and> result_ok (cache_key (ti_from tx) (ti_chain tx)) r0 \<and> r = adjust_result r0 (patterns tx)"
    if "sc_screenTransaction (external_scorer call patterns) now tx s = (s', Inr r)" for s' r
    using that ok [OF s, of now "ti_from tx" "ti_chain tx"] by (auto simp: external_scorer_def split: prod.splits)
  show "results_ok (fst (sc_screenAddress (external_scorer call patterns) now a c s))"
    using ok [OF s, of now a c] by (auto simp: external_scorer_def split: prod.splits)
  show "results_ok (fst (sc_screenTransaction (external_scorer call patterns) now tx s))"
    using ok [OF s, of now "ti_from tx" "ti_chain tx"] by (auto simp: external_scorer_def split: prod.splits)
  fix s' r
  show "0 \<le> rk_score r \<and> rk_score r \<le> 100 \<and> rk_level r = external_level (rk_score r)"
    if "sc_screenAddress (external_scorer call patterns) now a c s = (s', Inr r)"
    using ra [OF that] by (simp add: result_ok_def)
  show "0 \<le> rk_score r \<and> rk_score r \<le> 100 \<and> rk_level r = external_level (rk_score r)"
    if "sc_screenTransaction (external_scorer call patterns) now tx s = (s', Inr r)"
    using rt [OF that] adjust_ok assms(2) by blast
  show "alarming r" if "always_sanctioned a c" "sc_screenAddress (external_scorer call patterns) now a c s = (s', Inr r)"
    using ra [OF that(2)] result_ok_alarm that(1) by (auto simp: alarming_def)
  show "alarming r" if "always_sanctioned (ti_from tx) (ti_chain tx)"
      "sc_screenTransaction (external_scorer call patterns) now tx s = (s', Inr r)"
    using rt [OF that(2)] result_ok_alarm [OF _ that(1)] adjust_ok assms(2) by (fastforce simp: alarming_def)
qed

interpretation chainalysis: risk_screening "chainalysis_scorer rnd" results_ok external_level always_sanctioned for rnd
  unfolding external_scorers(1) by (rule external_contract) (rule chainalysis_call_ok patterns_nonneg)+

interpretation trm: risk_screening trm_scorer results_ok external_level always_sanctioned
  unfolding external_scorers(2) by (rule external_contract) (rule trm_call_ok patterns_nonneg)+

section \<open>The cache does not tell spellings apart\<close>

text \<open>For five minutes after one spelling of an address was screened, every other spelling of it is
  answered with that result, so the gate decides on the address that was screened first; on a
  chain whose addresses are case sensitive that is another address, which may be sanctioned.
\<close>

theorem other_spelling_served_from_cache:
  assumes "to_lower b = to_lower a" "map_of cache (cache_key a c) = None" "now' < now + cacheTtlMs"
    and "to_lower b \<notin> set (g_blocked_addresses g)" "c \<notin> set (g_blocked_chains g)"
    and "chainalysis_screenAddress rnd now a c cache = (cache', r)"
  shows "r = chainalysis_parse now a c (callChainalysisRisk rnd a c)
     \<and> chainalysis_screenAddress rnd now' b c cache' = (cache', r)
     \<and> checkAddress (chainalysis_scorer rnd) now' g b c amount cache' = (cache', Inr (decide_address now' b c amount r))"
proof -
  have r: "r = chainalysis_parse now a c (callChainalysisRisk rnd a c)"
    and cache': "cache' = js_map_set (cache_key a c) (r, now + cacheTtlMs) cache"
    using assms(2,6) by (auto simp: chainalysis_screenAddress_def cached_screen_def Let_def)
  have key: "cache_key b c = cache_key a c" using assms(1) by (simp add: cache_key_def)
  have hit: "chainalysis_screenAddress rnd now' b c cache' = (cache', r)"
    using assms(3) by (simp add: chainalysis_screenAddress_def cached_screen_def Let_def key cache')
  then show ?thesis
    using r assms(4,5) by (simp add: checkAddress_def chainalysis_scorer_def)
qed

text \<open>The address TaEd is on the simulated sanctions list; TAED is not, and was screened first.\<close>

theorem other_spelling_served_from_cache_witness:
  "sanctioned_hash ''TaEd'' \<and> (\<exists>cache d.
     cache = fst (chainalysis_screenAddress (\<lambda>_. (0, 0)) 0 ''TAED'' ''tron'' [])
     \<and> checkAddress (chainalysis_scorer (\<lambda>_. (0, 0))) 1000 \<lparr> g_blocked_addresses = [], g_blocked_chains = [] \<rparr>
         ''TaEd'' ''tron'' 100 cache = (cache, Inr d) \<and> gr_allowed d)"
proof -
  have hash: "simpleHash ''TaEd'' = 2597900" "simpleHash ''TAED'' = 2567116"
    by (simp_all add: simpleHash_def hash_step_def)
  obtain cache r where s: "chainalysis_screenAddress (\<lambda>_. (0, 0)) 0 ''TAED'' ''tron'' [] = (cache, r)" by fastforce
  have low: "to_lower ''TaEd'' = to_lower ''TAED''" by code_simp
  from other_spelling_served_from_cache [OF low _ _ _ _ s, of 1000 "\<lparr> g_blocked_addresses = [], g_blocked_chains = [] \<rparr>" 100]
  have r: "r = chainalysis_parse 0 ''TAED'' ''tron'' (callChainalysisRisk (\<lambda>_. (0, 0)) ''TAED'' ''tron'')"
    and d: "checkAddress (chainalysis_scorer (\<lambda>_. (0, 0))) 1000 \<lparr> g_blocked_addresses = [], g_blocked_chains = [] \<rparr>
      ''TaEd'' ''tron'' 100 cache = (cache, Inr (decide_address 1000 ''TaEd'' ''tron'' 100 r))"
    by (simp_all add: cacheTtlMs_def)
  have "rk_flags r = [] \<and> rk_level r = RISK_LOW"
    by (simp add: r chainalysis_parse_def callChainalysisRisk_def hash checkSanctionsExposure_def simulateCategories_def
        category_flags_def chainalysis_score_def starts_with_def burn_prefix_def external_level_def Let_def)
  then have "gr_allowed (decide_address 1000 ''TaEd'' ''tron'' 100 r)"
    by (simp add: decide_address_def allow_def Let_def)
  moreover have "sanctioned_hash ''TaEd''" by (simp add: sanctioned_hash_def hash)
  ultimately show ?thesis using s d by auto
qed

end
