(* ===== verification/Http_Client.thy ===== *)
theory Http_Client
  imports Job_Queue Js_Text
begin

text \<open>
  \<open>HttpClient\<close> (\<open>packages/shared/src/utils/http-client.ts\<close>).  \<open>fetch\<close> is a parameter: the outcome of the
  n-th attempt.  So are the encoding of the query string, the URL parser behind \<open>redactUrl\<close> and
  \<open>Math.random\<close>.  Every sleep between two attempts is recorded.
\<close>

section \<open>Configuration\<close>

record http_config =
  hc_base_url :: string
  hc_api_key :: string
  hc_api_key_header :: string
  hc_timeout_ms :: rat
  hc_max_retries :: nat
  hc_base_delay :: rat
  hc_max_delay :: rat
  hc_user_agent :: string
  hc_extra_headers :: "(string \<times> string) list"

record http_options =
  ho_base_url :: string
  ho_api_key :: "string option"
  ho_api_key_header :: "string option"
  ho_timeout_ms :: "rat option"
  ho_max_retries :: "nat option"
  ho_base_delay :: "rat option"
  ho_max_delay :: "rat option"
  ho_user_agent :: "string option"
  ho_extra_headers :: "(string \<times> string) list option"

definition orElse :: "'a option \<Rightarrow> 'a \<Rightarrow> 'a" where
  "orElse v d = (case v of Some x \<Rightarrow> x | None \<Rightarrow> d)"

definition strip_slash :: "string \<Rightarrow> string" where
  "strip_slash s = (if s \<noteq> [] \<and> last s = CHR ''/'' then butlast s else s)"

definition new_http_client :: "http_options \<Rightarrow> http_config" where
  "new_http_client o1 = \<lparr> hc_base_url = strip_slash (ho_base_url o1), hc_api_key = orElse (ho_api_key o1) '''',
     hc_api_key_header = orElse (ho_api_key_header o1) ''Authorization'',
     hc_timeout_ms = orElse (ho_timeout_ms o1) 10000, hc_max_retries = orElse (ho_max_retries o1) 3,
     hc_base_delay = orElse (ho_base_delay o1) 1000, hc_max_delay = orElse (ho_max_delay o1) 10000,
     hc_user_agent = orElse (ho_user_agent o1) ''NexoraCryptoGateway/1.0'',
     hc_extra_headers = orElse (ho_extra_headers o1) [] \<rparr>"

definition getBaseUrl :: "http_config \<Rightarrow> string" where
  "getBaseUrl c = hc_base_url c"

section \<open>Requests\<close>

record 'body request_options =
  ro_method :: "string option"
  ro_path :: "string option"
  ro_query :: string
  ro_body :: "'body option"
  ro_headers :: "(string \<times> string) list"
  ro_timeout_ms :: "rat option"
  ro_idempotent :: "bool option"
  ro_request_id :: "string option"

text \<open>
  The outcome of one \<open>fetch\<close> and of reading the body: an answer (status, status text, the
  \<open>retry-after\<close> header, the headers, the data), an abort by the timer, or any other error.
\<close>

datatype 'body fetch_outcome =
    Answered nat string "string option" "(string \<times> string) list" 'body
  | Aborted
  | Failed js_error

datatype 'body http_error =
    HttpError nat string string 'body
  | HttpTimeoutError string rat string
  | OtherHttpError js_error

record 'body http_response =
  hr_status :: nat
  hr_headers :: "(string \<times> string) list"
  hr_data :: 'body
  hr_request_id :: string

text \<open>\<open>requestCounter\<close> is a module variable.\<close>

definition generateRequestId :: "int \<Rightarrow> nat \<Rightarrow> nat \<times> string" where
  "generateRequestId now counter = (Suc counter, ''req_'' @ int_text now @ ''_'' @ nat_text (Suc counter))"

definition isRetryableStatus :: "nat \<Rightarrow> bool" where
  "isRetryableStatus st = (st = 429 \<or> st = 502 \<or> st = 503 \<or> st = 504)"

definition backoffDelay :: "rat \<Rightarrow> nat \<Rightarrow> rat \<Rightarrow> rat \<Rightarrow> rat" where
  "backoffDelay random attempt base_ms max_ms = min (base_ms * 2 ^ attempt + random * base_ms) max_ms"

definition http_retry_delay :: "http_config \<Rightarrow> rat \<Rightarrow> nat \<Rightarrow> string option \<Rightarrow> rat option" where
  "http_retry_delay c random attempt retry_after =
     (case truthy_str retry_after of
        Some h \<Rightarrow> map_option (\<lambda>n. of_int n * 1000) (parse_int h)
      | None \<Rightarrow> Some (backoffDelay random attempt (hc_base_delay c) (hc_max_delay c)))"

definition response_ok :: "nat \<Rightarrow> bool" where
  "response_ok st = (200 \<le> st \<and> st \<le> 299)"

text \<open>What a request fixes before its first attempt.\<close>

record 'body call_context =
  xc_config :: http_config
  xc_url :: string
  xc_redacted :: string
  xc_timeout_ms :: rat
  xc_request_id :: string
  xc_fetch :: "nat \<Rightarrow> 'body fetch_outcome"
  xc_random :: "nat \<Rightarrow> rat"

definition http_failure :: "'body call_context \<Rightarrow> nat \<Rightarrow> string \<Rightarrow> 'body \<Rightarrow> 'body http_error" where
  "http_failure x st txt body = HttpError st
     (''HTTP '' @ nat_text st @ '' '' @ txt @ '' from '' @ xc_redacted x) (xc_request_id x) body"

text \<open>The loop from the given attempt on, with so many retries left: its sleeps, and its result.\<close>

fun attempts ::
    "'body call_context \<Rightarrow> nat \<Rightarrow> nat \<Rightarrow> rat option list \<times> ('body http_error + 'body http_response)" where
  "attempts x left n =
     (case xc_fetch x n of
        Answered st txt retry_after headers body \<Rightarrow>
          if response_ok st
          then ([], Inr \<lparr> hr_status = st, hr_headers = headers, hr_data = body, hr_request_id = xc_request_id x \<rparr>)
          else if isRetryableStatus st \<and> 0 < left
          then (case left of Suc k \<Rightarrow>
                 (case attempts x k (Suc n) of (ds, r) \<Rightarrow>
                    (http_retry_delay (xc_config x) (xc_random x n) n retry_after # ds, r)))
          else ([], Inl (http_failure x st txt body))
      | Aborted \<Rightarrow> ([], Inl (HttpTimeoutError (xc_redacted x) (xc_timeout_ms x) (xc_request_id x)))
      | Failed e \<Rightarrow>
          (case left of
             0 \<Rightarrow> ([], Inl (OtherHttpError e))
           | Suc k \<Rightarrow>
               (case attempts x k (Suc n) of (ds, r) \<Rightarrow>
                  (Some (backoffDelay (xc_random x n) n (hc_base_delay (xc_config x)) (hc_max_delay (xc_config x))) # ds, r))))"

declare attempts.simps [simp del]

definition request_headers ::
    "http_config \<Rightarrow> 'body request_options \<Rightarrow> string \<Rightarrow> (string \<times> string) list" where
  "request_headers c opt requestId =
     (let base = fold (\<lambda>(k, v) m. js_map_set k v m) (hc_extra_headers c @ ro_headers opt)
            [(''User-Agent'', hc_user_agent c), (''X-Request-ID'', requestId), (''Accept'', ''application/json'')];
          auth = (if hc_api_key c \<noteq> [] \<and> truthy_str (map_of base (hc_api_key_header c)) = None
                  then js_map_set (hc_api_key_header c) (hc_api_key c) base else base)
      in if ro_body opt \<noteq> None then js_map_set ''Content-Type'' ''application/json'' auth else auth)"

definition max_retries :: "http_config \<Rightarrow> 'body request_options \<Rightarrow> nat" where
  "max_retries c opt = (if ro_idempotent opt = Some False then 0 else hc_max_retries c)"

text \<open>
  \<open>request\<close>: \<open>fetch\<close> sees the URL, the method, the headers and the body, and the number of the attempt.
\<close>

definition http_request ::
    "http_config \<Rightarrow> (string \<Rightarrow> string) \<Rightarrow> int \<Rightarrow> (nat \<Rightarrow> rat)
       \<Rightarrow> (string \<Rightarrow> string \<Rightarrow> (string \<times> string) list \<Rightarrow> 'body option \<Rightarrow> nat \<Rightarrow> 'body fetch_outcome)
       \<Rightarrow> 'body request_options \<Rightarrow> nat
       \<Rightarrow> nat \<times> rat option list \<times> ('body http_error + 'body http_response)" where
  "http_request c redact now random fetch opt counter =
     (let (counter1, requestId) = (case ro_request_id opt of
            Some i \<Rightarrow> (counter, i) | None \<Rightarrow> generateRequestId now counter);
          url = hc_base_url c @ orElse (ro_path opt) '''' @ ro_query opt
      in (counter1, attempts \<lparr> xc_config = c, xc_url = url, xc_redacted = redact url,
            xc_timeout_ms = orElse (ro_timeout_ms opt) (hc_timeout_ms c), xc_request_id = requestId,
            xc_fetch = fetch url (orElse (ro_method opt) ''GET'') (request_headers c opt requestId) (ro_body opt),
            xc_random = random \<rparr> (max_retries c opt) 0))"

definition http_get :: "string \<Rightarrow> 'body request_options \<Rightarrow> 'body request_options" where
  "http_get path opt = opt\<lparr> ro_method := Some ''GET'', ro_path := Some path \<rparr>"

definition http_post :: "string \<Rightarrow> 'body option \<Rightarrow> 'body request_options \<Rightarrow> 'body request_options" where
  "http_post path body opt = opt\<lparr> ro_method := Some ''POST'', ro_path := Some path, ro_body := body \<rparr>"

definition http_put :: "string \<Rightarrow> 'body option \<Rightarrow> 'body request_options \<Rightarrow> 'body request_options" where
  "http_put path body opt = opt\<lparr> ro_method := Some ''PUT'', ro_path := Some path, ro_body := body \<rparr>"

definition http_delete :: "string \<Rightarrow> 'body request_options \<Rightarrow> 'body request_options" where
  "http_delete path opt = opt\<lparr> ro_method := Some ''DELETE'', ro_path := Some path \<rparr>"

section \<open>Properties\<close>

text \<open>An outcome after which the client tries again while it has retries left.\<close>

definition transient :: "'body fetch_outcome \<Rightarrow> bool" where
  "transient out = (case out of Answered st _ _ _ _ \<Rightarrow> isRetryableStatus st | Aborted \<Rightarrow> False | Failed _ \<Rightarrow> True)"

text \<open>What the client makes of the outcome it stops at.\<close>

definition conclude :: "'body call_context \<Rightarrow> 'body fetch_outcome \<Rightarrow> 'body http_error + 'body http_response" where
  "conclude x out = (case out of
     Answered st txt _ headers body \<Rightarrow>
       if response_ok st
       then Inr \<lparr> hr_status = st, hr_headers = headers, hr_data = body, hr_request_id = xc_request_id x \<rparr>
       else Inl (http_failure x st txt body)
   | Aborted \<Rightarrow> Inl (HttpTimeoutError (xc_redacted x) (xc_timeout_ms x) (xc_request_id x))
   | Failed e \<Rightarrow> Inl (OtherHttpError e))"

lemma retryable_not_ok: "isRetryableStatus st \<Longrightarrow> \<not> response_ok st"
  by (auto simp: isRetryableStatus_def response_ok_def)

lemma attempts_step:
  "\<not> transient (xc_fetch x n) \<Longrightarrow> attempts x left n = ([], conclude x (xc_fetch x n))"
  "attempts x 0 n = ([], conclude x (xc_fetch x n))"
  by (subst attempts.simps; auto simp: transient_def conclude_def split: fetch_outcome.splits nat.splits)+

lemma attempts_again:
  "transient (xc_fetch x n) \<Longrightarrow> \<exists>d. attempts x (Suc k) n = (d # fst (attempts x k (Suc n)), snd (attempts x k (Suc n)))
     \<and> (\<forall>st txt h hs b. xc_fetch x n = Answered st txt h hs b \<longrightarrow> d = http_retry_delay (xc_config x) (xc_random x n) n h)
     \<and> (\<forall>e. xc_fetch x n = Failed e \<longrightarrow>
          d = Some (backoffDelay (xc_random x n) n (hc_base_delay (xc_config x)) (hc_max_delay (xc_config x))))"
  by (subst attempts.simps)
    (auto simp: transient_def retryable_not_ok split: fetch_outcome.splits prod.splits)

text \<open>The client stops at the first attempt whose outcome is not transient, or at the last allowed one,
  makes exactly that many requests with one sleep between two of them, and returns what that outcome
  says; it never makes more than one request when the caller forbids retries.
\<close>

theorem http_stops_at_first_final:
  assumes "attempts x left 0 = (ds, res)"
  shows "\<exists>k \<le> left. length ds = k \<and> res = conclude x (xc_fetch x k) \<and> (\<forall>i < k. transient (xc_fetch x i))
     \<and> (k < left \<longrightarrow> \<not> transient (xc_fetch x k))"
proof -
  have "\<exists>k \<le> left. length (fst (attempts x left n)) = k \<and> snd (attempts x left n) = conclude x (xc_fetch x (n + k))
     \<and> (\<forall>i < k. transient (xc_fetch x (n + i))) \<and> (k < left \<longrightarrow> \<not> transient (xc_fetch x (n + k)))" for n
  proof (induction left arbitrary: n)
    case 0
    then show ?case by (simp add: attempts_step(2))
  next
    case (Suc left)
    show ?case
    proof (cases "transient (xc_fetch x n)")
      case False
      then show ?thesis by (intro exI [of _ 0]) (simp add: attempts_step(1))
    next
      case True
      obtain k where k: "k \<le> left" "length (fst (attempts x left (Suc n))) = k"
          "snd (attempts x left (Suc n)) = conclude x (xc_fetch x (Suc n + k))"
          "\<forall>i < k. transient (xc_fetch x (Suc n + i))" "k < left \<longrightarrow> \<not> transient (xc_fetch x (Suc n + k))"
        using Suc.IH [of "Suc n"] by blast
      from attempts_again [OF True, of left] obtain d where
        "attempts x (Suc left) n = (d # fst (attempts x left (Suc n)), snd (attempts x left (Suc n)))" by blast
      moreover have "\<forall>i < Suc k. transient (xc_fetch x (n + i))"
        using True k(4) by (auto simp: less_Suc_eq_0_disj)
      ultimately show ?thesis using k by (intro exI [of _ "Suc k"]) simp
    qed
  qed
  from this [of 0] assms show ?thesis by simp
qed

definition ex_context :: "json call_context" where
  "ex_context = \<lparr> xc_config = new_http_client \<lparr> ho_base_url = ''https://api/'', ho_api_key = None, ho_api_key_header = None,
       ho_timeout_ms = None, ho_max_retries = None, ho_base_delay = None, ho_max_delay = None, ho_user_agent = None,
       ho_extra_headers = None \<rparr>,
     xc_url = ''https://api'', xc_redacted = ''https://api'', xc_timeout_ms = 10000, xc_request_id = ''r'',
     xc_fetch = (\<lambda>n. if n = 0 then Failed (JsThrown ''reset'') else if n = 1 then Answered 503 ''busy'' None [] JNull
                     else Answered 404 ''gone'' None [] JNull), xc_random = (\<lambda>_. 0) \<rparr>"

theorem http_stops_at_first_final_witness:
  "length (fst (attempts ex_context 3 0)) = 2 \<and> snd (attempts ex_context 3 0) = conclude ex_context (Answered 404 ''gone'' None [] JNull)"
proof -
  obtain ds res where r: "attempts ex_context 3 0 = (ds, res)" by fastforce
  from http_stops_at_first_final [OF r] obtain k where k: "k \<le> 3" "length ds = k"
      "res = conclude ex_context (xc_fetch ex_context k)" "\<forall>i < k. transient (xc_fetch ex_context i)"
      "k < 3 \<longrightarrow> \<not> transient (xc_fetch ex_context k)" by blast
  have t: "transient (xc_fetch ex_context 0)" "transient (xc_fetch ex_context 1)" "\<not> transient (xc_fetch ex_context 2)"
    by (simp_all add: ex_context_def transient_def isRetryableStatus_def)
  have "k = 2"
  proof (rule ccontr)
    assume "k \<noteq> 2"
    then consider "k = 0" | "k = 1" | "2 < k" by linarith
    then show False using k t by cases auto
  qed
  then show ?thesis using r k by (simp add: ex_context_def)
qed

lemma backoffDelay_bounds:
  "0 \<le> random \<Longrightarrow> 0 \<le> base_ms \<Longrightarrow> 0 \<le> max_ms \<Longrightarrow>
     0 \<le> backoffDelay random n base_ms max_ms \<and> backoffDelay random n base_ms max_ms \<le> max_ms"
  by (simp add: backoffDelay_def)

lemma no_retry_when_forbidden: "ro_idempotent opt = Some False \<Longrightarrow> max_retries c opt = 0"
  by (simp add: max_retries_def)

end
