(* ===== verification/Js_Json.thy ===== *)
theory Js_Json
  imports Js_Text
begin

text \<open>
  \<open>JSON.stringify\<close>, \<open>JSON.parse\<close> and the base64 coding of \<open>Buffer\<close>, as the code uses them.  A text is
  the list of its UTF-8 bytes.  The text of a number that is not an integer depends on the double it
  is kept in and is a parameter of the printer.
\<close>

section \<open>Printing JSON\<close>

definition double_quote :: char where "double_quote = CHR 0x22"

definition backslash :: char where "backslash = CHR 0x5C"

definition escape_char :: "char \<Rightarrow> string" where
  "escape_char c = (let n = (of_char c :: nat) in
     if n = 34 \<or> n = 92 then [backslash, c]
     else if n = 8 then [backslash, CHR ''b''] else if n = 9 then [backslash, CHR ''t'']
     else if n = 10 then [backslash, CHR ''n''] else if n = 12 then [backslash, CHR ''f'']
     else if n = 13 then [backslash, CHR ''r'']
     else if n < 32 then backslash # CHR ''u'' # pad_start 4 CHR ''0'' (to_base 16 n) else [c])"

definition quoted :: "string \<Rightarrow> string" where
  "quoted s = double_quote # concat (map escape_char s) @ [double_quote]"

function json_text :: "(rat \<Rightarrow> string) \<Rightarrow> json \<Rightarrow> string" where
  "json_text num JNull = ''null''"
| "json_text num (JBool b) = (if b then ''true'' else ''false'')"
| "json_text num (JNum r) = num r"
| "json_text num (JStr s) = quoted s"
| "json_text num (JTime t) = quoted (iso_string t)"
| "json_text num (JArr xs) = ''['' @ join '','' (map (json_text num) xs) @ '']''"
| "json_text num (JObj fs) =
     ''{'' @ join '','' (map (\<lambda>(k, v). quoted k @ '':'' @ json_text num v) fs) @ ''}''"
  by pat_completeness auto
termination
  by (relation "measure (\<lambda>(_, v). size v)")
    (auto simp: less_Suc_eq_le intro: size_list_estimation' [where f = size] size_list_estimation')

section \<open>Parsing JSON\<close>

definition skip_ws :: "string \<Rightarrow> string" where
  "skip_ws s = dropWhile (\<lambda>c. (of_char c :: nat) \<in> {9, 10, 13, 32}) s"

definition escape_of :: "char \<Rightarrow> char option" where
  "escape_of c =
     (if c = double_quote \<or> c = backslash \<or> c = CHR ''/'' then Some c
      else if c = CHR ''b'' then Some (char_of (8 :: nat)) else if c = CHR ''t'' then Some (char_of (9 :: nat))
      else if c = CHR ''n'' then Some (char_of (10 :: nat)) else if c = CHR ''f'' then Some (char_of (12 :: nat))
      else if c = CHR ''r'' then Some (char_of (13 :: nat)) else None)"

text \<open>The bytes of one code unit; the two halves of a surrogate pair are coded separately.\<close>

definition utf8 :: "nat \<Rightarrow> string" where
  "utf8 n = (if n < 128 then [char_of n]
     else if n < 2048 then [char_of (192 + n div 64), char_of (128 + n mod 64)]
     else [char_of (224 + n div 4096), char_of (128 + n div 64 mod 64), char_of (128 + n mod 64)])"

definition hex_quad :: "string \<Rightarrow> nat option" where
  "hex_quad s = (if length s = 4 \<and> list_all (is_digit 16) s then Some (base_val 16 s) else None)"

text \<open>The characters up to the closing quote, and the text after it.\<close>

fun read_chars :: "string \<Rightarrow> (string \<times> string) option" where
  "read_chars [] = None"
| "read_chars (c # cs) =
     (if c = double_quote then Some ([], cs)
      else if (of_char c :: nat) < 32 then None
      else if c = backslash then
        (case cs of [] \<Rightarrow> None
         | e # ds \<Rightarrow>
             if e = CHR ''u'' then
               (case hex_quad (take 4 ds) of None \<Rightarrow> None
                | Some n \<Rightarrow> map_option (\<lambda>(t, r). (utf8 n @ t, r)) (read_chars (drop 4 ds)))
             else (case escape_of e of None \<Rightarrow> None
                   | Some x \<Rightarrow> map_option (\<lambda>(t, r). (x # t, r)) (read_chars ds)))
      else map_option (\<lambda>(t, r). (c # t, r)) (read_chars cs))"

definition read_number :: "string \<Rightarrow> (rat \<times> string) option" where
  "read_number s =
     (let neg = (s \<noteq> [] \<and> hd s = CHR ''-''); t = (if neg then tl s else s);
          i = takeWhile (is_digit 10) t; r = dropWhile (is_digit 10) t
      in if i = [] \<or> hd i = CHR ''0'' \<and> 1 < length i then None
         else if r \<noteq> [] \<and> hd r = CHR ''.'' \<and> (tl r = [] \<or> \<not> is_digit 10 (hd (tl r))) then None
         else map_option (\<lambda>(x, rest). (if neg then - x else x, rest)) (decimal_prefix t))"

text \<open>
  The fuel bounds the number of nested calls; every call below consumes a character, so that the
  length of the text is enough.  A repeated key keeps its place and takes the last value.
\<close>

fun read_value :: "nat \<Rightarrow> string \<Rightarrow> (json \<times> string) option"
  and read_items :: "nat \<Rightarrow> string \<Rightarrow> (json list \<times> string) option"
  and read_members :: "nat \<Rightarrow> string \<Rightarrow> ((string \<times> json) list \<times> string) option" where
  "read_value 0 s = None"
| "read_value (Suc n) s =
     (case skip_ws s of [] \<Rightarrow> None
      | c # cs \<Rightarrow>
          if c = double_quote then map_option (\<lambda>(t, r). (JStr t, r)) (read_chars cs)
          else if c = CHR ''['' then
            (case skip_ws cs of d # r \<Rightarrow> if d = CHR '']'' then Some (JArr [], r)
                else map_option (\<lambda>(xs, r). (JArr xs, r)) (read_items n cs) | [] \<Rightarrow> None)
          else if c = CHR ''{'' then
            (case skip_ws cs of d # r \<Rightarrow> if d = CHR ''}'' then Some (JObj [], r)
                else map_option (\<lambda>(ms, r). (JObj (fold (\<lambda>(k, v) m. js_map_set k v m) ms []), r)) (read_members n cs)
             | [] \<Rightarrow> None)
          else if take 4 (c # cs) = ''null'' then Some (JNull, drop 4 (c # cs))
          else if take 4 (c # cs) = ''true'' then Some (JBool True, drop 4 (c # cs))
          else if take 5 (c # cs) = ''false'' then Some (JBool False, drop 5 (c # cs))
          else map_option (\<lambda>(x, r). (JNum x, r)) (read_number (c # cs)))"
| "read_items 0 s = None"
| "read_items (Suc n) s =
     (case read_value n s of None \<Rightarrow> None
      | Some (v, r) \<Rightarrow>
          (case skip_ws r of [] \<Rightarrow> None
           | c # cs \<Rightarrow> if c = CHR '']'' then Some ([v], cs)
                       else if c = CHR '','' then map_option (\<lambda>(xs, r). (v # xs, r)) (read_items n cs) else None))"
| "read_members 0 s = None"
| "read_members (Suc n) s =
     (case skip_ws s of [] \<Rightarrow> None
      | q # t \<Rightarrow>
          if q \<noteq> double_quote then None
          else case read_chars t of None \<Rightarrow> None
               | Some (k, r) \<Rightarrow>
                   (case skip_ws r of [] \<Rightarrow> None
                    | c # cs \<Rightarrow>
                        if c \<noteq> CHR '':'' then None
                        else case read_value n cs of None \<Rightarrow> None
                             | Some (v, r) \<Rightarrow>
                                 (case skip_ws r of [] \<Rightarrow> None
                                  | c # cs \<Rightarrow> if c = CHR ''}'' then Some ([(k, v)], cs)
                                      else if c = CHR '','' then map_option (\<lambda>(ms, r). ((k, v) # ms, r)) (read_members n cs)
                                      else None)))"

definition json_parse :: "string \<Rightarrow> json option" where
  "json_parse s = (case read_value (Suc (2 * length s)) s of None \<Rightarrow> None
     | Some (v, r) \<Rightarrow> if skip_ws r = [] then Some v else None)"

section \<open>Base64\<close>

definition b64_char :: "nat \<Rightarrow> char" where
  "b64_char n = (if n < 26 then char_of (65 + n) else if n < 52 then char_of (71 + n)
     else if n < 62 then char_of (n - 4) else if n = 62 then CHR ''+'' else CHR ''/'')"

definition b64_value :: "char \<Rightarrow> nat option" where
  "b64_value c = (let n = (of_char c :: nat) in
     if 65 \<le> n \<and> n \<le> 90 then Some (n - 65) else if 97 \<le> n \<and> n \<le> 122 then Some (n - 71)
     else if 48 \<le> n \<and> n \<le> 57 then Some (n + 4) else if n = 43 \<or> n = 45 then Some 62
     else if n = 47 \<or> n = 95 then Some 63 else None)"

fun base64 :: "string \<Rightarrow> string" where
  "base64 [] = []"
| "base64 [a] = (let x = (of_char a :: nat) in [b64_char (x div 4), b64_char (x mod 4 * 16), CHR ''='', CHR ''=''])"
| "base64 [a, b] = (let x = (of_char a :: nat); y = of_char b in
     [b64_char (x div 4), b64_char (x mod 4 * 16 + y div 16), b64_char (y mod 16 * 4), CHR ''=''])"
| "base64 (a # b # c # rest) = (let x = (of_char a :: nat); y = of_char b; z = of_char c in
     b64_char (x div 4) # b64_char (x mod 4 * 16 + y div 16) # b64_char (y mod 16 * 4 + z div 64)
       # b64_char (z mod 64) # base64 rest)"

text \<open>Decoding skips every character outside the two alphabets, padding included.\<close>

fun sextets :: "nat list \<Rightarrow> string" where
  "sextets (w # x # y # z # rest) = char_of (w * 4 + x div 16) # char_of (x mod 16 * 16 + y div 4)
     # char_of (y mod 4 * 64 + z) # sextets rest"
| "sextets [w, x, y] = [char_of (w * 4 + x div 16), char_of (x mod 16 * 16 + y div 4)]"
| "sextets [w, x] = [char_of (w * 4 + x div 16)]"
| "sextets _ = []"

definition from_base64 :: "string \<Rightarrow> string" where
  "from_base64 s = sextets (List.map_filter b64_value s)"

section \<open>Decoding what was encoded\<close>

lemma b64_value_char: "n < 64 \<Longrightarrow> b64_value (b64_char n) = Some n"
  by (auto simp: b64_value_def b64_char_def Let_def)

lemma of_char_less: "(of_char c :: nat) < 256"
  using of_char_mod_256 [of c, where 'a = nat] by (metis mod_less_divisor zero_less_numeral)

lemma sextet_bounds [simp]:
  "(of_char a :: nat) div 4 < 64" "(of_char a :: nat) mod 4 * 16 < 64" "(of_char a :: nat) mod 16 * 4 < 64"
  "(of_char a :: nat) mod 64 < 64" "(of_char a :: nat) mod 4 * 16 + of_char b div 16 < 64"
  "(of_char a :: nat) mod 16 * 4 + of_char b div 64 < 64"
  using of_char_less [of a] of_char_less [of b] by linarith+

lemma high_bits [simp]:
  "(of_char b :: nat) div 16 div 16 = 0" "(of_char b :: nat) div 16 mod 16 = of_char b div 16"
  "(of_char b :: nat) div 64 div 4 = 0" "(of_char b :: nat) div 64 mod 4 = of_char b div 64"
proof -
  have "(of_char b :: nat) div 16 < 16" "(of_char b :: nat) div 64 < 4" using of_char_less [of b] by linarith+
  then show "(of_char b :: nat) div 16 div 16 = 0" "(of_char b :: nat) div 16 mod 16 = of_char b div 16"
    "(of_char b :: nat) div 64 div 4 = 0" "(of_char b :: nat) div 64 mod 4 = of_char b div 64" by simp_all
qed

lemma from_base64_base64: "from_base64 (base64 s) = s"
proof (induction s rule: base64.induct)
  case (2 a)
  have "b64_value CHR ''='' = None" by (simp add: b64_value_def)
  then show ?case by (simp add: from_base64_def List.map_filter_simps b64_value_char Let_def)
next
  case (3 a b)
  have "b64_value CHR ''='' = None" by (simp add: b64_value_def)
  then show ?case by (simp add: from_base64_def List.map_filter_simps b64_value_char Let_def)
next
  case (4 a b c rest)
  then show ?case by (simp add: from_base64_def List.map_filter_simps b64_value_char Let_def)
qed (simp add: from_base64_def List.map_filter_simps)

lemma hex_quad_control: "n < 32 \<Longrightarrow> hex_quad (pad_start 4 CHR ''0'' (to_base 16 n)) = Some n"
proof -
  have "list_all (\<lambda>n. hex_quad (pad_start 4 CHR ''0'' (to_base 16 n)) = Some n) [0..<32]" by code_simp
  then show "n < 32 \<Longrightarrow> ?thesis" by (simp add: list_all_iff)
qed

lemma char_eq_code: "c = d \<longleftrightarrow> (of_char c :: nat) = of_char d"
  by simp

lemma read_escaped: "read_chars (escape_char c @ t) = map_option (\<lambda>(x, r). (c # x, r)) (read_chars t)"
proof (cases "(of_char c :: nat) < 32 \<and> of_char c \<notin> {8, 9, 10, 12, 13 :: nat}")
  case True
  let ?h = "pad_start 4 CHR ''0'' (to_base 16 (of_char c))"
  have h: "hex_quad ?h = Some (of_char c)" using True hex_quad_control by simp
  then have "length ?h = 4" by (simp add: hex_quad_def split: if_splits)
  then have "hex_quad (take 4 (?h @ t)) = Some (of_char c)" "drop 4 (?h @ t) = t" using h by simp_all
  moreover have "escape_char c = backslash # CHR ''u'' # ?h" using True by (auto simp: escape_char_def Let_def)
  ultimately show ?thesis
    using True by (simp add: utf8_def double_quote_def backslash_def)
next
  case False
  have "(of_char c :: nat) \<in> {8, 9, 10, 12, 13, 34, 92} \<or> 32 \<le> (of_char c :: nat) \<and> of_char c \<notin> {34, 92 :: nat}"
    using False by auto
  then show ?thesis
  proof
    assume "(of_char c :: nat) \<in> {8, 9, 10, 12, 13, 34, 92}"
    then have "c \<in> {char_of (8 :: nat), char_of (9 :: nat), char_of (10 :: nat), char_of (12 :: nat), char_of (13 :: nat),
        CHR 0x22, CHR 0x5C}"
      by (auto simp: char_eq_code)
    then show ?thesis
      by (auto simp: escape_char_def escape_of_def double_quote_def backslash_def)
  next
    assume n: "32 \<le> (of_char c :: nat) \<and> of_char c \<notin> {34, 92 :: nat}"
    then have "c \<noteq> double_quote" "c \<noteq> backslash" by (auto simp: double_quote_def backslash_def)
    moreover have "escape_char c = [c]" using n by (simp add: escape_char_def Let_def)
    ultimately show ?thesis using n by simp
  qed
qed

lemma read_quoted: "read_chars (concat (map escape_char s) @ double_quote # rest) = Some (s, rest)"
  by (induction s) (simp_all add: read_escaped)

section \<open>Parsing what was printed\<close>

lemma skip_ws_simps [simp]:
  "skip_ws [] = []"
  "skip_ws (c # cs) = (if (of_char c :: nat) \<in> {9, 10, 13, 32} then skip_ws cs else c # cs)"
  by (simp_all add: skip_ws_def)

text \<open>What may follow a value: the end, or the punctuation of its container.\<close>

definition delimited :: "string \<Rightarrow> bool" where
  "delimited rest = (rest = [] \<or> hd rest \<in> {CHR '','', CHR '']'', CHR ''}''})"

lemma delimited_simps [simp]:
  "delimited []" "delimited (CHR '','' # r)" "delimited (CHR '']'' # r)" "delimited (CHR ''}'' # r)"
  by (simp_all add: delimited_def)

lemma delimited_not_digit: "delimited rest \<Longrightarrow> rest = [] \<or> \<not> is_digit 10 (hd rest)"
  by (auto simp: delimited_def is_digit_def digit_val_def)

lemma to_base_leading: "2 \<le> b \<Longrightarrow> b \<le> 36 \<Longrightarrow> 0 < n \<Longrightarrow> hd (to_base b n) \<noteq> CHR ''0''"
proof (induction b n rule: to_base.induct)
  case (1 b n)
  show ?case
  proof (cases "n < b")
    case True
    then show ?thesis using 1 by (subst to_base.simps) (auto simp: digit_char_def char_eq_code)
  next
    case False
    then have "hd (to_base b (n div b)) \<noteq> CHR ''0''" using 1 by (simp add: div_greater_zero_iff)
    then show ?thesis using 1 False by (subst to_base.simps) (simp add: hd_append)
  qed
qed

lemma nat_text_leading: "hd (nat_text n) = CHR ''0'' \<Longrightarrow> length (nat_text n) = 1"
proof (cases n)
  case 0
  then show ?thesis by (simp add: nat_text_def to_base.simps)
next
  case (Suc k)
  then have "hd (nat_text n) \<noteq> CHR ''0''" unfolding nat_text_def by (intro to_base_leading) simp_all
  then show "hd (nat_text n) = CHR ''0'' \<Longrightarrow> ?thesis" by simp
qed

lemma span_nat_text:
  assumes "delimited rest"
  shows "takeWhile (is_digit 10) (nat_text n @ rest) = nat_text n" "dropWhile (is_digit 10) (nat_text n @ rest) = rest"
proof -
  have "takeWhile (is_digit 10) rest = []" "dropWhile (is_digit 10) rest = rest"
    using delimited_not_digit [OF assms] by (cases rest; simp)+
  then show "takeWhile (is_digit 10) (nat_text n @ rest) = nat_text n" "dropWhile (is_digit 10) (nat_text n @ rest) = rest"
    using nat_text_digits(1) [of n] by (simp_all add: takeWhile_append2 dropWhile_append2)
qed

lemma decimal_prefix_nat_text: "delimited rest \<Longrightarrow> decimal_prefix (nat_text n @ rest) = Some (of_nat n, rest)"
proof -
  assume d: "delimited rest"
  have "base_val 10 (nat_text n) = n" unfolding nat_text_def by (rule base_val_to_base) simp_all
  moreover have "read_exponent rest = (0, rest)" using d by (auto simp: delimited_def read_exponent_def split: list.splits)
  moreover have "(case rest of [] \<Rightarrow> [] | c # t \<Rightarrow> if c = CHR ''.'' then takeWhile (is_digit 10) t else []) = []"
    "(case rest of [] \<Rightarrow> [] | c # t \<Rightarrow> if c = CHR ''.'' then dropWhile (is_digit 10) t else rest) = rest"
    using d by (auto simp: delimited_def split: list.splits)
  ultimately show ?thesis
    by (simp add: decimal_prefix_def Let_def span_nat_text [OF d] nat_text_digits(2) scaled_def)
qed

lemma read_number_int_text:
  assumes "delimited rest"
  shows "read_number (int_text i @ rest) = Some (of_int i, rest)"
proof -
  have frac: "rest = [] \<or> hd rest \<noteq> CHR ''.''" using assms by (auto simp: delimited_def)
  have lead: "\<not> (nat_text n = [] \<or> hd (nat_text n) = CHR ''0'' \<and> 1 < length (nat_text n))" for n
    using nat_text_leading [of n] nat_text_digits(2) [of n] by auto
  have unsigned: "hd (nat_text n @ rest) \<noteq> CHR ''-''" for n
    using nat_text_digits [of n] digit_not_minus by (metis hd_append2 hd_in_set)
  show ?thesis
  proof (cases "i < 0")
    case True
    then show ?thesis
      using frac lead by (auto simp: int_text_def read_number_def Let_def span_nat_text [OF assms]
          decimal_prefix_nat_text [OF assms] of_nat_nat)
  next
    case False
    then show ?thesis
      using frac lead unsigned by (auto simp: int_text_def read_number_def Let_def span_nat_text [OF assms]
          decimal_prefix_nat_text [OF assms] of_nat_nat)
  qed
qed

text \<open>The values whose text is read back: integers for numbers, no repeated key, dates as their text.\<close>

function json_plain :: "(rat \<Rightarrow> string) \<Rightarrow> json \<Rightarrow> bool" where
  "json_plain num JNull = True"
| "json_plain num (JBool b) = True"
| "json_plain num (JNum r) = (r = of_int \<lfloor>r\<rfloor> \<and> num r = int_text \<lfloor>r\<rfloor>)"
| "json_plain num (JStr s) = True"
| "json_plain num (JTime t) = False"
| "json_plain num (JArr xs) = list_all (json_plain num) xs"
| "json_plain num (JObj fs) = (distinct (map fst fs) \<and> list_all (\<lambda>(k, v). json_plain num v) fs)"
  by pat_completeness auto
termination
  by (relation "measure (\<lambda>(_, v). size v)")
    (auto simp: less_Suc_eq_le intro: size_list_estimation' [where f = size] size_list_estimation')

definition reads_back :: "(rat \<Rightarrow> string) \<Rightarrow> json \<Rightarrow> bool" where
  "reads_back num v = (\<forall>n rest. length (json_text num v) \<le> n \<longrightarrow> delimited rest
     \<longrightarrow> read_value (Suc n) (json_text num v @ rest) = Some (v, rest))"

lemma reads_backD:
  "reads_back num v \<Longrightarrow> length (json_text num v) < n \<Longrightarrow> delimited rest
     \<Longrightarrow> read_value n (json_text num v @ rest) = Some (v, rest)"
  by (cases n) (auto simp: reads_back_def)

lemma join_simps [simp]:
  "join sep [] = []" "join sep [x] = x" "join sep (x # y # zs) = x @ sep @ join sep (y # zs)"
  by (simp_all add: join_def)

lemma read_items_join:
  "xs \<noteq> [] \<Longrightarrow> \<forall>x \<in> set xs. reads_back num x \<Longrightarrow> Suc (length (join '','' (map (json_text num) xs))) < n
     \<Longrightarrow> read_items n (join '','' (map (json_text num) xs) @ CHR '']'' # rest) = Some (xs, rest)"
proof (induction xs arbitrary: n rule: list_nonempty_induct)
  case (single x)
  then show ?case by (cases n) (simp_all add: reads_backD)
next
  case (cons x xs)
  from cons.prems obtain k where n: "n = Suc k" by (cases n) simp_all
  obtain y ys where xs: "xs = y # ys" using cons.hyps by (cases xs) simp_all
  have "read_items k (join '','' (map (json_text num) xs) @ CHR '']'' # rest) = Some (xs, rest)"
    using cons.prems by (intro cons.IH) (simp_all add: n xs)
  then show ?case using cons.prems by (simp add: n xs reads_backD)
qed

lemma read_members_join:
  "fs \<noteq> [] \<Longrightarrow> \<forall>(k, v) \<in> set fs. reads_back num v
     \<Longrightarrow> Suc (length (join '','' (map (\<lambda>(k, v). quoted k @ '':'' @ json_text num v) fs))) < n
     \<Longrightarrow> read_members n (join '','' (map (\<lambda>(k, v). quoted k @ '':'' @ json_text num v) fs) @ CHR ''}'' # rest) = Some (fs, rest)"
proof (induction fs arbitrary: n rule: list_nonempty_induct)
  case (single x)
  obtain k v where x: "x = (k, v)" by (cases x)
  from single.prems obtain m where n: "n = Suc m" by (cases n) simp_all
  then show ?case using single.prems read_quoted [of k]
    by (simp add: x quoted_def reads_backD) (simp add: double_quote_def reads_backD)
next
  case (cons x fs)
  obtain k v where x: "x = (k, v)" by (cases x)
  from cons.prems obtain m where n: "n = Suc m" by (cases n) simp_all
  obtain y ys where fs: "fs = y # ys" using cons.hyps by (cases fs) simp_all
  have "read_members m (join '','' (map (\<lambda>(k, v). quoted k @ '':'' @ json_text num v) fs) @ CHR ''}'' # rest) = Some (fs, rest)"
    using cons.prems by (intro cons.IH) (simp_all add: n fs x)
  then show ?case using cons.prems read_quoted [of k]
    by (simp add: n x fs quoted_def reads_backD) (simp add: double_quote_def reads_backD)
qed

lemma js_map_set_new: "k \<notin> fst ` set xs \<Longrightarrow> js_map_set k v xs = xs @ [(k, v)]"
  by (induction k v xs rule: js_map_set.induct) auto

lemma fold_js_map_set:
  "distinct (map fst (acc @ fs)) \<Longrightarrow> fold (\<lambda>(k, v) m. js_map_set k v m) fs acc = acc @ fs"
proof (induction fs arbitrary: acc)
  case (Cons x fs)
  then show ?case by (cases x) (auto simp: js_map_set_new)
qed simp

lemma json_text_start:
  "json_plain num v \<Longrightarrow> \<exists>c cs. json_text num v = c # cs \<and> (of_char c :: nat) \<notin> {9, 10, 13, 32} \<and> c \<noteq> CHR '']''"
proof (cases v)
  case (JNum r)
  assume "json_plain num v"
  then have t: "json_text num v = int_text \<lfloor>r\<rfloor>" using JNum by simp
  have "\<exists>c cs. nat_text n = c # cs \<and> (of_char c :: nat) \<notin> {9, 10, 13, 32} \<and> c \<noteq> CHR '']''" for n
    using nat_text_digits [of n] by (cases "nat_text n") (auto simp: is_digit_def digit_val_def Let_def split: if_splits)
  then show ?thesis by (auto simp: t int_text_def)
qed (auto simp: quoted_def double_quote_def)

lemma read_value_number:
  assumes "delimited rest"
  shows "read_value (Suc n) (int_text i @ rest) = Some (JNum (of_int i), rest)"
proof -
  have "\<exists>c cs. int_text i @ rest = c # cs \<and> (is_digit 10 c \<or> c = CHR ''-'')"
    using nat_text_digits [of "nat i"] by (cases "nat_text (nat i)") (auto simp: int_text_def)
  then obtain c cs where c: "int_text i @ rest = c # cs" "is_digit 10 c \<or> c = CHR ''-''" by blast
  then have n: "(of_char c :: nat) = 45 \<or> 48 \<le> (of_char c :: nat) \<and> (of_char c :: nat) \<le> 57"
    by (auto simp: is_digit_def digit_val_def Let_def split: if_splits)
  have "read_number (c # cs) = Some (of_int i, rest)"
    using read_number_int_text [OF assms, of i] by (simp add: c(1))
  moreover have "c \<noteq> double_quote" "c \<noteq> CHR ''[''" "c \<noteq> CHR ''{''" "c \<noteq> CHR ''n''" "c \<noteq> CHR ''t''" "c \<noteq> CHR ''f''"
    using n by (auto simp: double_quote_def)
  ultimately show ?thesis using n by (auto simp: c(1))
qed

lemma reads_back_array:
  assumes "\<forall>x \<in> set xs. reads_back num x \<and> json_plain num x"
  shows "reads_back num (JArr xs)"
proof (cases xs)
  case Nil
  then show ?thesis by (simp add: reads_back_def double_quote_def)
next
  case (Cons x ys)
  obtain c cs where c: "json_text num x = c # cs" "(of_char c :: nat) \<notin> {9, 10, 13, 32}" "c \<noteq> CHR '']''"
    using json_text_start [of num x] assms Cons by auto
  obtain cs' where j: "join '','' (map (json_text num) xs) = c # cs'"
    using c(1) by (cases ys) (simp_all add: Cons)
  show ?thesis unfolding reads_back_def
  proof (intro allI impI)
    fix n rest assume n: "length (json_text num (JArr xs)) \<le> n" and "delimited rest"
    have "read_items n (c # cs' @ CHR '']'' # rest) = Some (xs, rest)"
      using read_items_join [of xs num n rest] assms n Cons j by simp
    then show "read_value (Suc n) (json_text num (JArr xs) @ rest) = Some (JArr xs, rest)"
      using c j by (simp add: double_quote_def)
  qed
qed

lemma reads_back_object:
  assumes "\<forall>(k, v) \<in> set fs. reads_back num v" "distinct (map fst fs)"
  shows "reads_back num (JObj fs)"
proof (cases fs)
  case Nil
  then show ?thesis by (simp add: reads_back_def double_quote_def)
next
  case (Cons x ys)
  have m: "fold (\<lambda>(k, v) m. js_map_set k v m) fs [] = fs" using fold_js_map_set [of "[]" fs] assms(2) by simp
  obtain cs' where j: "join '','' (map (\<lambda>(k, v). quoted k @ '':'' @ json_text num v) fs) = double_quote # cs'"
    by (cases x; cases ys) (simp_all add: Cons quoted_def)
  show ?thesis unfolding reads_back_def
  proof (intro allI impI)
    fix n rest assume n: "length (json_text num (JObj fs)) \<le> n" and "delimited rest"
    have "read_members n (double_quote # cs' @ CHR ''}'' # rest) = Some (fs, rest)"
      using read_members_join [of fs num n rest] assms(1) n Cons j by simp
    then show "read_value (Suc n) (json_text num (JObj fs) @ rest) = Some (JObj fs, rest)"
      using j m by (simp add: double_quote_def)
  qed
qed

lemma json_reads_back: "json_plain num v \<Longrightarrow> reads_back num v"
proof (induction num v rule: json_plain.induct)
  case (1 num)
  then show ?case by (simp add: reads_back_def double_quote_def)
next
  case (2 num b)
  then show ?case by (simp add: reads_back_def double_quote_def)
next
  case (3 num r)
  then show ?case unfolding reads_back_def using read_value_number [of _ _ "\<lfloor>r\<rfloor>"] by auto
next
  case (4 num s)
  then show ?case using read_quoted [of s] by (simp add: reads_back_def quoted_def) (simp add: double_quote_def)
next
  case (5 num t)
  then show ?case by simp
next
  case (6 num xs)
  then show ?case by (intro reads_back_array) (auto simp: list_all_iff)
next
  case (7 num fs)
  then show ?case by (intro reads_back_object) (force simp: list_all_iff)+
qed

lemma json_roundtrip: "json_plain num v \<Longrightarrow> json_parse (json_text num v) = Some v"
  using reads_backD [OF json_reads_back, of num v "Suc (2 * length (json_text num v))" "[]"]
  by (simp add: json_parse_def)

end
