(* ===== verification/Merchant_Auth.thy ===== *)
theory Merchant_Auth
  imports Merchants Job_Queue Js_Json
begin

text \<open>
  \<open>AuthService\<close> (\<open>packages/payment-intent/src/auth.service.ts\<close>): registration, login, API keys and
  tokens over the merchants table.  PBKDF2, SHA-256, \<open>randomBytes\<close> and \<open>randomUUID\<close> are parameters, and
  so is the text the database driver sends for a query parameter that is neither text nor null.
\<close>

section \<open>Data\<close>

record auth_env =
  au_now :: int
  au_uuid :: string
  au_salt :: string
  au_key :: string
  au_kdf :: "string \<Rightarrow> string \<Rightarrow> string"
  au_sha256 :: "string \<Rightarrow> string"
  au_pg_text :: "json \<Rightarrow> string"

record register_request =
  sg_name :: string
  sg_email :: string
  sg_password :: string
  sg_asset :: "string option"
  sg_chain :: "string option"
  sg_address :: "string option"
  sg_chains :: "string list option"
  sg_assets :: "string list option"
  sg_webhook :: "string option"

record login_request =
  lr_email :: string
  lr_password :: string

record auth_response =
  ar_merchant_id :: string
  ar_name :: string
  ar_email :: "string option"
  ar_api_key :: string
  ar_token :: string

definition plain_error :: "string \<Rightarrow> js_error" where
  "plain_error msg = JsError ''Error'' msg"

definition text_or :: "string option \<Rightarrow> string \<Rightarrow> string" where
  "text_or v d = (case truthy_str v of None \<Rightarrow> d | Some s \<Rightarrow> s)"

section \<open>Passwords, keys and tokens\<close>

text \<open>\<open>hashPassword(password, salt)\<close>: an absent or empty salt is replaced by a new one.\<close>

definition hashPassword :: "auth_env \<Rightarrow> string \<Rightarrow> string option \<Rightarrow> string \<times> string" where
  "hashPassword e password salt =
     (let useSalt = text_or salt (au_salt e) in (au_kdf e password useSalt, useSalt))"

definition generateApiKey :: "auth_env \<Rightarrow> string" where
  "generateApiKey e = ''nxt_'' @ au_key e"

definition hashApiKey :: "auth_env \<Rightarrow> string \<Rightarrow> string" where
  "hashApiKey e apiKey = au_sha256 e apiKey"

definition now_seconds :: "auth_env \<Rightarrow> int" where
  "now_seconds e = au_now e div 1000"

text \<open>The numbers of a token are integers, whose text is their decimal digits.\<close>

definition integer_text :: "rat \<Rightarrow> string" where
  "integer_text r = int_text \<lfloor>r\<rfloor>"

definition token_payload :: "auth_env \<Rightarrow> string \<Rightarrow> json" where
  "token_payload e i = JObj [(''merchant_id'', JStr i), (''iat'', JNum (of_int (now_seconds e))),
     (''exp'', JNum (of_int (now_seconds e + 24 * 60 * 60)))]"

definition generateToken :: "auth_env \<Rightarrow> string \<Rightarrow> string" where
  "generateToken e i = base64 (json_text integer_text (token_payload e i))"

section \<open>Registration and login\<close>

definition new_merchant :: "auth_env \<Rightarrow> register_request \<Rightarrow> merchant" where
  "new_merchant e d = (case hashPassword e (sg_password d) None of (hash, salt) \<Rightarrow>
     \<lparr> m_id = au_uuid e, m_name = sg_name d, m_settlement_asset = text_or (sg_asset d) ''USDC'',
       m_settlement_chain = text_or (sg_chain d) ''1'',
       m_settlement_address = text_or (sg_address d) ''0x0000000000000000000000000000000000000000'',
       m_accepted_chains = (case sg_chains d of None \<Rightarrow> [''1'', ''8453'', ''42161'', ''137''] | Some cs \<Rightarrow> cs),
       m_accepted_assets = (case sg_assets d of None \<Rightarrow> [''USDC'', ''USDT'', ''ETH''] | Some xs \<Rightarrow> xs),
       m_fee_percentage = 1, m_kyc_threshold = 10000, m_quote_ttl_seconds = 300,
       m_webhook_url = truthy_str (sg_webhook d), m_compliance_status = ''PENDING'',
       m_api_key_hash = Some (hashApiKey e (generateApiKey e)), m_email = Some (sg_email d),
       m_password_hash = Some hash, m_password_salt = Some salt, m_created_at = au_now e, m_updated_at = au_now e \<rparr>)"

definition fits_opt :: "nat \<Rightarrow> string option \<Rightarrow> bool" where
  "fits_opt n v = (case v of None \<Rightarrow> True | Some s \<Rightarrow> fits n s)"

text \<open>The INSERT: column sizes of migrations 001 and 009, the primary key and the unique email.\<close>

definition insert_merchant :: "merchant \<Rightarrow> merchant list \<Rightarrow> merchant list option" where
  "insert_merchant m ms =
     (if fits 255 (m_id m) \<and> fits 255 (m_name m) \<and> fits 20 (m_settlement_asset m) \<and> fits 20 (m_settlement_chain m)
         \<and> fits 255 (m_settlement_address m) \<and> fits_opt 500 (m_webhook_url m) \<and> fits_opt 255 (m_api_key_hash m)
         \<and> fits_opt 255 (m_email m) \<and> fits_opt 255 (m_password_hash m) \<and> fits_opt 255 (m_password_salt m)
         \<and> (m_email m = None \<or> m_email m \<notin> m_email ` set ms)
      then tbl_insert m_id m ms else None)"

definition register_merchant ::
    "auth_env \<Rightarrow> register_request \<Rightarrow> merchant list \<Rightarrow> merchant list \<times> (js_error + auth_response)" where
  "register_merchant e d ms =
     (if tbl_find (\<lambda>m. m_email m = Some (sg_email d)) ms \<noteq> None
      then (ms, Inl (plain_error ''Email already registered''))
      else if sg_name d = [] \<or> sg_email d = [] \<or> sg_password d = []
      then (ms, Inl (plain_error ''Name, email, and password are required''))
      else if length (sg_password d) < 8
      then (ms, Inl (plain_error ''Password must be at least 8 characters''))
      else case insert_merchant (new_merchant e d) ms of
             None \<Rightarrow> (ms, Inl (JsError ''error'' ''merchants''))
           | Some rows \<Rightarrow>
               let m = last rows in
               (rows, Inr \<lparr> ar_merchant_id = m_id m, ar_name = m_name m, ar_email = m_email m,
                  ar_api_key = generateApiKey e, ar_token = generateToken e (m_id m) \<rparr>))"

definition login :: "auth_env \<Rightarrow> login_request \<Rightarrow> merchant list \<Rightarrow> js_error + auth_response" where
  "login e d ms =
     (if lr_email d = [] \<or> lr_password d = [] then Inl (plain_error ''Email and password are required'')
      else case tbl_find (\<lambda>m. m_email m = Some (lr_email d)) ms of
             None \<Rightarrow> Inl (plain_error ''Invalid email or password'')
           | Some m \<Rightarrow>
               if Some (fst (hashPassword e (lr_password d) (m_password_salt m))) \<noteq> m_password_hash m
               then Inl (plain_error ''Invalid email or password'')
               else Inr \<lparr> ar_merchant_id = m_id m, ar_name = m_name m, ar_email = m_email m,
                      ar_api_key = '''', ar_token = generateToken e (m_id m) \<rparr>)"

section \<open>Validation\<close>

definition validateApiKey :: "auth_env \<Rightarrow> string \<Rightarrow> merchant list \<Rightarrow> merchant option" where
  "validateApiKey e apiKey ms = tbl_find (\<lambda>m. m_api_key_hash m = Some (hashApiKey e apiKey)) ms"

text \<open>The number a text, and then any JSON value, is compared as; \<open>NaN\<close> is \<open>None\<close>.\<close>

definition text_number :: "string \<Rightarrow> rat option" where
  "text_number s = (let t = trim s in
     if t = [] then Some 0
     else if take 2 t \<in> {''0x'', ''0X''} then map_option of_int (whole_base 16 (drop 2 t))
     else if take 2 t \<in> {''0o'', ''0O''} then map_option of_int (whole_base 8 (drop 2 t))
     else if take 2 t \<in> {''0b'', ''0B''} then map_option of_int (whole_base 2 (drop 2 t))
     else case read_sign t of (neg, u) \<Rightarrow>
       (case decimal_prefix u of None \<Rightarrow> None
        | Some (x, rest) \<Rightarrow> if rest = [] then Some (if neg then - x else x) else None))"

fun json_number :: "json \<Rightarrow> rat option" where
  "json_number JNull = Some 0"
| "json_number (JBool b) = Some (if b then 1 else 0)"
| "json_number (JNum r) = Some r"
| "json_number (JStr s) = text_number s"
| "json_number (JTime t) = None"
| "json_number (JArr []) = Some 0"
| "json_number (JArr [JNull]) = Some 0"
| "json_number (JArr [JBool b]) = None"
| "json_number (JArr [v]) = json_number v"
| "json_number (JArr (v # w # vs)) = None"
| "json_number (JObj fs) = None"

definition payload_field :: "json \<Rightarrow> string \<Rightarrow> json option" where
  "payload_field v k = (case v of JObj fs \<Rightarrow> map_of fs k | _ \<Rightarrow> None)"

text \<open>A query parameter: undefined and null match no row.\<close>

definition query_text :: "auth_env \<Rightarrow> json option \<Rightarrow> string option" where
  "query_text e v = (case v of None \<Rightarrow> None | Some JNull \<Rightarrow> None | Some (JStr s) \<Rightarrow> Some s | Some w \<Rightarrow> Some (au_pg_text e w))"

definition token_expired :: "auth_env \<Rightarrow> json \<Rightarrow> bool" where
  "token_expired e payload = (case Option.bind (payload_field payload ''exp'') json_number of
     None \<Rightarrow> False | Some x \<Rightarrow> x < of_int (now_seconds e))"

definition validateToken :: "auth_env \<Rightarrow> string \<Rightarrow> merchant list \<Rightarrow> merchant option" where
  "validateToken e token ms =
     (case json_parse (from_base64 token) of
        None \<Rightarrow> None
      | Some JNull \<Rightarrow> None
      | Some payload \<Rightarrow>
          if token_expired e payload then None
          else case query_text e (payload_field payload ''merchant_id'') of
                 None \<Rightarrow> None
               | Some i \<Rightarrow> tbl_find (\<lambda>m. m_id m = i) ms)"

definition set_api_key :: "string \<Rightarrow> int \<Rightarrow> merchant \<Rightarrow> merchant" where
  "set_api_key h now m = m\<lparr> m_api_key_hash := Some h, m_updated_at := now \<rparr>"

definition regenerateApiKey :: "auth_env \<Rightarrow> string \<Rightarrow> merchant list \<Rightarrow> merchant list \<times> string" where
  "regenerateApiKey e i ms =
     (let apiKey = generateApiKey e
      in (tbl_update (\<lambda>m. m_id m = i) (set_api_key (hashApiKey e apiKey) (au_now e)) ms, apiKey))"

text \<open>The profile leaves the three secret columns out.\<close>

definition getProfile :: "string \<Rightarrow> merchant list \<Rightarrow> merchant option" where
  "getProfile i ms = map_option
     (\<lambda>m. m\<lparr> m_password_hash := None, m_password_salt := None, m_api_key_hash := None \<rparr>)
     (tbl_find (\<lambda>m. m_id m = i) ms)"

section \<open>The table\<close>

text \<open>The two unique columns: identifiers, and emails where there is one.\<close>

definition merchants_ok :: "merchant list \<Rightarrow> bool" where
  "merchants_ok ms = (distinct (map m_id ms) \<and> distinct (filter (\<lambda>x. x \<noteq> None) (map m_email ms)))"

datatype auth_op =
    RegisterOp auth_env register_request
  | RegenerateOp auth_env string

fun auth_step :: "auth_op \<Rightarrow> merchant list \<Rightarrow> merchant list" where
  "auth_step (RegisterOp e d) ms = fst (register_merchant e d ms)"
| "auth_step (RegenerateOp e i) ms = fst (regenerateApiKey e i ms)"

interpretation api_key: keyed_update m_id "set_api_key h now" for h now
  by unfold_locales (simp add: set_api_key_def)

lemma insert_merchant_SomeD:
  assumes "insert_merchant m ms = Some rows"
  shows "rows = ms @ [m] \<and> m_id m \<notin> m_id ` set ms \<and> (m_email m = None \<or> m_email m \<notin> m_email ` set ms)"
  using assms by (auto simp: insert_merchant_def dest: tbl_insert_SomeD split: if_splits)

lemma register_merchantD:
  assumes "register_merchant e d ms = (ms', Inr r)"
  shows "ms' = ms @ [new_merchant e d] \<and> m_id (new_merchant e d) \<notin> m_id ` set ms
    \<and> Some (sg_email d) \<notin> m_email ` set ms \<and> sg_email d \<noteq> [] \<and> 8 \<le> length (sg_password d)
    \<and> r = \<lparr> ar_merchant_id = au_uuid e, ar_name = sg_name d, ar_email = Some (sg_email d),
            ar_api_key = generateApiKey e, ar_token = generateToken e (au_uuid e) \<rparr>"
  using assms
  by (auto simp: register_merchant_def Let_def tbl_find_None_iff new_merchant_def dest!: insert_merchant_SomeD
      split: if_splits option.splits prod.splits)

lemma register_merchant_fst:
  "fst (register_merchant e d ms) = ms \<or> (\<exists>r. register_merchant e d ms = (fst (register_merchant e d ms), Inr r))"
  by (auto simp: register_merchant_def Let_def split: option.splits)

interpretation auth: op_machine auth_step merchants_ok
proof
  fix ms and op assume ok: "merchants_ok ms"
  show "merchants_ok (auth_step op ms)"
  proof (cases op)
    case (RegisterOp e d)
    from register_merchant_fst [of e d ms] show ?thesis
    proof
      assume "\<exists>r. register_merchant e d ms = (fst (register_merchant e d ms), Inr r)"
      then obtain r where r: "register_merchant e d ms = (fst (register_merchant e d ms), Inr r)" by blast
      from register_merchantD [OF this] show ?thesis
        using ok by (auto simp: RegisterOp merchants_ok_def new_merchant_def split: prod.splits)
    qed (use ok RegisterOp in simp)
  next
    case (RegenerateOp e i)
    let ?f = "set_api_key (hashApiKey e (generateApiKey e)) (au_now e)"
    have "map m_email (tbl_update P ?f ms) = map m_email ms" for P
      by (rule map_tbl_update_same) (simp add: set_api_key_def)
    then show ?thesis
      using ok api_key.keys_kept by (simp add: RegenerateOp regenerateApiKey_def merchants_ok_def Let_def)
  qed
qed

section \<open>Tokens and credentials\<close>

lemma integer_text_of_int [simp]: "integer_text (of_int n) = int_text n"
  by (simp add: integer_text_def)

lemma decode_token: "json_parse (from_base64 (generateToken e i)) = Some (token_payload e i)"
proof -
  have "integer_text 86400 = int_text 86400" using integer_text_of_int [of 86400] by simp
  moreover have "integer_text (of_int n + 86400) = int_text (n + 86400)" for n
    using integer_text_of_int [of "n + 86400"] by simp
  ultimately have "json_plain integer_text (token_payload e i)"
    by (simp add: token_payload_def del: of_int_add)
  then show ?thesis unfolding generateToken_def from_base64_base64 by (rule json_roundtrip)
qed

lemma validateToken_generateToken:
  "validateToken e' (generateToken e i) ms
     = (if now_seconds e' \<le> now_seconds e + 86400 then tbl_find (\<lambda>m. m_id m = i) ms else None)"
proof -
  have payload: "payload_field (token_payload e i) ''exp'' = Some (JNum (of_int (now_seconds e + 86400)))"
    "payload_field (token_payload e i) ''merchant_id'' = Some (JStr i)"
    by (simp_all add: payload_field_def token_payload_def)
  have "token_expired e' (token_payload e i) \<longleftrightarrow> \<not> now_seconds e' \<le> now_seconds e + 86400"
    unfolding token_expired_def payload(1) by (simp del: of_int_add) linarith
  moreover have "query_text e' (payload_field (token_payload e i) ''merchant_id'') = Some i"
    by (simp add: payload query_text_def)
  moreover obtain fs where fs: "token_payload e i = JObj fs" by (simp add: token_payload_def)
  ultimately show ?thesis
    unfolding validateToken_def decode_token fs by simp
qed

text \<open>The token made for an identifier names the merchant with that identifier, to anyone's clock, for
  24 hours and no longer; it is made from the identifier and the time alone, without any secret.\<close>

theorem token_roundtrip:
  "validateToken e' (generateToken e i) ms
     = (if now_seconds e' \<le> now_seconds e + 86400 then tbl_find (\<lambda>m. m_id m = i) ms else None)"
  by (rule validateToken_generateToken)

lemma find_registered:
  assumes "register_merchant e d ms = (ms', Inr r)"
  shows "tbl_find (\<lambda>m. m_id m = ar_merchant_id r) ms' = Some (new_merchant e d)"
    and "tbl_find (\<lambda>m. m_email m = Some (sg_email d)) ms' = Some (new_merchant e d)"
proof -
  note r = register_merchantD [OF assms]
  have new: "m_id (new_merchant e d) = au_uuid e" "m_email (new_merchant e d) = Some (sg_email d)"
    by (simp_all add: new_merchant_def split: prod.splits)
  have "tbl_find (\<lambda>m. m_id m = au_uuid e) ms = None" "tbl_find (\<lambda>m. m_email m = Some (sg_email d)) ms = None"
    using r new by (auto simp: tbl_find_None_iff image_iff)
  then show "tbl_find (\<lambda>m. m_id m = ar_merchant_id r) ms' = Some (new_merchant e d)"
    "tbl_find (\<lambda>m. m_email m = Some (sg_email d)) ms' = Some (new_merchant e d)"
    using r new by (simp_all add: tbl_find_append)
qed

text \<open>C39: after a registration the merchant can log in with the email and exactly the passwords that hash
  to the stored hash under the stored salt, the API key and the token of the answer both name the
  new row, the profile shows no secret, and the rows of the others are as before.\<close>

theorem registered_merchant_authenticates:
  assumes "register_merchant e d ms = (ms', Inr r)" "au_salt e \<noteq> []"
    and "Some (au_sha256 e (ar_api_key r)) \<notin> m_api_key_hash ` set ms"
    and "au_kdf e' = au_kdf e" "au_sha256 e' = au_sha256 e" "now_seconds e' \<le> now_seconds e + 86400" "p \<noteq> []"
  shows "(login e' \<lparr> lr_email = sg_email d, lr_password = p \<rparr> ms'
           = (if au_kdf e p (au_salt e) = au_kdf e (sg_password d) (au_salt e)
              then Inr \<lparr> ar_merchant_id = ar_merchant_id r, ar_name = sg_name d, ar_email = Some (sg_email d),
                     ar_api_key = '''', ar_token = generateToken e' (ar_merchant_id r) \<rparr>
              else Inl (plain_error ''Invalid email or password'')))
     \<and> validateApiKey e' (ar_api_key r) ms' = Some (new_merchant e d)
     \<and> validateToken e' (ar_token r) ms' = Some (new_merchant e d)
     \<and> map_option (\<lambda>m. (m_password_hash m, m_password_salt m, m_api_key_hash m)) (getProfile (ar_merchant_id r) ms')
         = Some (None, None, None)
     \<and> ms' = ms @ [new_merchant e d]"
proof -
  note r = register_merchantD [OF assms(1)]
  note found = find_registered [OF assms(1)]
  have new: "m_id (new_merchant e d) = ar_merchant_id r" "m_name (new_merchant e d) = sg_name d"
      "m_email (new_merchant e d) = Some (sg_email d)" "m_password_salt (new_merchant e d) = Some (au_salt e)"
      "m_password_hash (new_merchant e d) = Some (au_kdf e (sg_password d) (au_salt e))"
      "m_api_key_hash (new_merchant e d) = Some (au_sha256 e (ar_api_key r))"
    using r assms(2) by (simp_all add: new_merchant_def hashPassword_def text_or_def hashApiKey_def Let_def)
  have "validateApiKey e' (ar_api_key r) ms' = Some (new_merchant e d)"
  proof -
    have "tbl_find (\<lambda>m. m_api_key_hash m = Some (au_sha256 e (ar_api_key r))) ms = None"
      using assms(3) by (auto simp: tbl_find_None_iff image_iff)
    then show ?thesis using r new assms(5) by (simp add: validateApiKey_def hashApiKey_def tbl_find_append)
  qed
  moreover have "validateToken e' (ar_token r) ms' = Some (new_merchant e d)"
    using r found(1) assms(6) by (simp add: validateToken_generateToken)
  moreover have "login e' \<lparr> lr_email = sg_email d, lr_password = p \<rparr> ms'
           = (if au_kdf e p (au_salt e) = au_kdf e (sg_password d) (au_salt e)
              then Inr \<lparr> ar_merchant_id = ar_merchant_id r, ar_name = sg_name d, ar_email = Some (sg_email d),
                     ar_api_key = '''', ar_token = generateToken e' (ar_merchant_id r) \<rparr>
              else Inl (plain_error ''Invalid email or password''))"
    using r found(2) new assms(2,4,7) by (simp add: login_def hashPassword_def text_or_def Let_def)
  ultimately show ?thesis using r found(1) by (simp add: getProfile_def)
qed

definition ex_auth :: "int \<Rightarrow> auth_env" where
  "ex_auth t = \<lparr> au_now = t, au_uuid = ''m2'', au_salt = ''s'', au_key = ''k'', au_kdf = (\<lambda>p s. p @ s),
     au_sha256 = (\<lambda>k. ''#'' @ k), au_pg_text = (\<lambda>_. ''?'') \<rparr>"

definition ex_signup :: register_request where
  "ex_signup = \<lparr> sg_name = ''Shop'', sg_email = ''a@b'', sg_password = ''password'', sg_asset = None, sg_chain = None,
     sg_address = None, sg_chains = None, sg_assets = None, sg_webhook = None \<rparr>"

theorem registered_merchant_authenticates_witness:
  "\<exists>ms' r. register_merchant (ex_auth 0) ex_signup [] = (ms', Inr r)
     \<and> login (ex_auth 1) \<lparr> lr_email = ''a@b'', lr_password = ''passwork'' \<rparr> ms' = Inl (plain_error ''Invalid email or password'')
     \<and> validateToken (ex_auth 1) (ar_token r) ms' = Some (new_merchant (ex_auth 0) ex_signup)"
proof -
  have "\<exists>ms' r. register_merchant (ex_auth 0) ex_signup [] = (ms', Inr r)"
    by (simp add: register_merchant_def ex_signup_def ex_auth_def insert_merchant_def new_merchant_def hashPassword_def
        fits_def fits_opt_def text_or_def tbl_insert_def hashApiKey_def generateApiKey_def Let_def)
  then obtain ms' r where r: "register_merchant (ex_auth 0) ex_signup [] = (ms', Inr r)" by blast
  have "login (ex_auth 1) \<lparr> lr_email = ''a@b'', lr_password = ''passwork'' \<rparr> ms' = Inl (plain_error ''Invalid email or password'')
     \<and> validateToken (ex_auth 1) (ar_token r) ms' = Some (new_merchant (ex_auth 0) ex_signup)"
  proof -
    have "au_salt (ex_auth 0) \<noteq> []" "au_kdf (ex_auth 1) = au_kdf (ex_auth 0)" "au_sha256 (ex_auth 1) = au_sha256 (ex_auth 0)"
      "now_seconds (ex_auth 1) \<le> now_seconds (ex_auth 0) + 86400"
      "au_kdf (ex_auth 0) ''passwork'' (au_salt (ex_auth 0)) \<noteq> au_kdf (ex_auth 0) (sg_password ex_signup) (au_salt (ex_auth 0))"
      and email: "sg_email ex_signup = ''a@b''"
      by (simp_all add: ex_auth_def ex_signup_def now_seconds_def)
    then show ?thesis
      using registered_merchant_authenticates [OF r, of "ex_auth 1" "''passwork''"] unfolding email by auto
  qed
  then show ?thesis using r by blast
qed

text \<open>A regenerated key replaces the old one: the new one names the merchant, the old one nobody.\<close>

lemma regenerated_key_replaces:
  assumes "distinct (map m_id ms)" "m \<in> set ms" "hashApiKey e (generateApiKey e) \<noteq> hashApiKey e old"
    and "\<forall>x \<in> set ms. m_api_key_hash x = Some (hashApiKey e old) \<longrightarrow> x = m"
    and "Some (hashApiKey e (generateApiKey e)) \<notin> m_api_key_hash ` set ms"
    and "regenerateApiKey e (m_id m) ms = (ms', key)"
  shows "validateApiKey e old ms' = None"
    and "validateApiKey e key ms' = Some (set_api_key (hashApiKey e key) (au_now e) m)"
proof -
  let ?h = "hashApiKey e (generateApiKey e)"
  let ?P = "\<lambda>x. m_id x = m_id m"
  have ms': "ms' = tbl_update ?P (set_api_key ?h (au_now e)) ms" "key = generateApiKey e"
    using assms(6) by (auto simp: regenerateApiKey_def Let_def)
  have only: "x = m" if "x \<in> set ms" "m_id x = m_id m" for x
    using assms(1,2) that by (metis tbl_find_unique option.inject)
  show "validateApiKey e old ms' = None"
    using assms(3,4) only by (auto simp: validateApiKey_def ms' tbl_find_None_iff set_api_key_def elim!: in_tbl_updateE)
  have "set_api_key ?h (au_now e) m \<in> set ms'" using assms(2) by (auto simp: ms' set_tbl_update image_iff)
  then obtain x where x: "validateApiKey e key ms' = Some x" "x \<in> set ms'" "m_api_key_hash x = Some ?h"
    using tbl_find_Some_of_mem [of "set_api_key ?h (au_now e) m" ms' "\<lambda>m. m_api_key_hash m = Some ?h"]
    by (auto simp: validateApiKey_def ms'(2) set_api_key_def dest: tbl_find_SomeD)
  have "x = set_api_key ?h (au_now e) m"
    using x(2,3) assms(5) only by (auto simp: ms'(1) image_iff elim!: in_tbl_updateE)
  then show "validateApiKey e key ms' = Some (set_api_key (hashApiKey e key) (au_now e) m)"
    using x(1) by (simp add: ms'(2))
qed

end
