(* ===== verification/Api_Gateway.thy ===== *)
theory Api_Gateway
  imports Intent_Properties Merchant_Auth
begin

text \<open>
  The HTTP interface (\<open>packages/api-gateway/src\<close>): the authentication middleware, the merchant routes
  \<open>routes/intents.ts\<close>, the public routes \<open>routes/public-intents.ts\<close>, the account routes
  \<open>routes/auth.ts\<close> and the error handler of \<open>index.ts\<close>.  The framework parses a request into the
  records below (fields have their declared types; no route has a schema) and serialises the answer;
  a hook that has answered ends the request.
\<close>

section \<open>Requests and answers\<close>

record headers =
  hd_api_key :: "string option"
  hd_authorization :: "string option"

datatype api_body = JsonBody json | ProfileBody "merchant option"

record api_response =
  ap_status :: nat
  ap_body :: api_body

text \<open>What a request sees of its surroundings; \<open>ax_db_error\<close> is the code and message of a refused statement.\<close>

record api_env =
  ax_webhook :: webhook_env
  ax_auth :: auth_env
  ax_collate :: "string \<Rightarrow> int"
  ax_db_error :: "string \<Rightarrow> string \<times> string"

definition reply :: "nat \<Rightarrow> payload \<Rightarrow> api_response" where
  "reply st props = \<lparr> ap_status = st, ap_body = JsonBody (JObj props) \<rparr>"

definition reply_error :: "nat \<Rightarrow> string \<Rightarrow> string \<Rightarrow> payload \<Rightarrow> api_response" where
  "reply_error st code msg details = reply st
     [(''error'', JObj ([(''code'', JStr code), (''message'', JStr msg)]
        @ (if details = [] then [] else [(''details'', JObj details)])))]"

text \<open>Status, code and message of an error of the services; a plain error has neither status nor code.\<close>

fun error_info :: "api_env \<Rightarrow> gateway_error \<Rightarrow> nat \<times> string \<times> string" where
  "error_info x (ValidationError msg) = (400, ''VALIDATION_ERROR'', msg)"
| "error_info x (IntentNotFoundError i) = (404, ''INTENT_NOT_FOUND'', ''Payment intent not found: '' @ i)"
| "error_info x (QuoteExpiredError i) = (400, ''QUOTE_EXPIRED'', ''Quote has expired for intent: '' @ i)"
| "error_info x (IntentNotFound i) = (500, ''INTERNAL_ERROR'', ''Intent not found: '' @ i)"
| "error_info x (InvalidStateTransition s t) =
     (500, ''INTERNAL_ERROR'', ''Invalid state transition from '' @ state_name s @ '' to '' @ state_name t)"
| "error_info x (ConcurrentModification i) =
     (500, ''INTERNAL_ERROR'', ''Concurrent modification detected for intent: '' @ i)"
| "error_info x (DbError what) = (500, text_or (Some (fst (ax_db_error x what))) ''INTERNAL_ERROR'',
     text_or (Some (snd (ax_db_error x what))) ''An unexpected error occurred'')"

text \<open>The error handler: what a route throws.\<close>

definition thrown :: "api_env \<Rightarrow> gateway_error \<Rightarrow> api_response" where
  "thrown x e = (case error_info x e of (st, code, msg) \<Rightarrow> reply_error st code msg [])"

section \<open>Authentication\<close>

text \<open>The merchant a request is made for: by the API key when there is one, else by a bearer token.\<close>

definition authenticate :: "auth_env \<Rightarrow> headers \<Rightarrow> merchant list \<Rightarrow> merchant option" where
  "authenticate e h ms =
     (case truthy_str (hd_api_key h) of
        Some key \<Rightarrow> validateApiKey e key ms
      | None \<Rightarrow>
          (case hd_authorization h of
             Some a \<Rightarrow> if js_starts_with a ''Bearer '' then validateToken e (drop 7 a) ms else None
           | None \<Rightarrow> None))"

definition unauthorized :: "string \<Rightarrow> api_response" where
  "unauthorized msg = reply_error 401 ''UNAUTHORIZED'' msg []"

definition authMiddleware ::
    "api_env \<Rightarrow> headers \<Rightarrow> (merchant \<Rightarrow> gateway \<Rightarrow> gateway \<times> api_response) \<Rightarrow> gateway \<Rightarrow> gateway \<times> api_response" where
  "authMiddleware x h route g =
     (case authenticate (ax_auth x) h (db_merchants (gw_db g)) of
        None \<Rightarrow> (g, unauthorized ''Valid API key or token required. Provide X-API-Key header or Authorization: Bearer <token>'')
      | Some m \<Rightarrow> route m g)"

definition requireCompliant :: "merchant option \<Rightarrow> api_response option" where
  "requireCompliant m = (if map_option m_compliance_status m \<noteq> Some ''COMPLIANT''
     then Some (reply_error 403 ''NOT_COMPLIANT'' ''Merchant account is not compliant. Please complete KYC verification.'' [])
     else None)"

section \<open>Merchant routes\<close>

record intent_body =
  ib_merchant_id :: "string option"
  ib_order_ref :: "string option"
  ib_target_amount :: "rat option"
  ib_target_asset :: "string option"
  ib_target_chain :: "string option"
  ib_accepted_assets :: "string list option"

text \<open>A number that is not zero and not missing.\<close>

definition truthy_num :: "rat option \<Rightarrow> rat option" where
  "truthy_num v = (case v of None \<Rightarrow> None | Some x \<Rightarrow> if x = 0 then None else Some x)"

text \<open>The details the service attaches to the validation errors of \<open>createIntent\<close>.\<close>

definition validation_details :: "merchant list \<Rightarrow> new_intent \<Rightarrow> string \<Rightarrow> payload" where
  "validation_details ms d msg =
     (let m = getById ms (ni_merchant_id d) in
      if msg = ''Merchant not found'' then [(''merchant_id'', JStr (ni_merchant_id d))]
      else if msg = ''Target asset not accepted by merchant'' then
        [(''target_asset'', JStr (ni_target_asset d)),
         (''accepted_assets'', JArr (map JStr (case m of None \<Rightarrow> [] | Some y \<Rightarrow> m_accepted_assets y)))]
      else if msg = ''Target chain not accepted by merchant'' then
        [(''target_chain'', JStr (ni_target_chain d)),
         (''accepted_chains'', JArr (map JStr (case m of None \<Rightarrow> [] | Some y \<Rightarrow> m_accepted_chains y)))]
      else [(''target_amount'', JNum (ni_target_amount d))])"

definition post_intent :: "api_env \<Rightarrow> intent_body \<Rightarrow> merchant \<Rightarrow> gateway \<Rightarrow> gateway \<times> api_response" where
  "post_intent x b m g =
     (case (truthy_str (Some (text_or (ib_merchant_id b) (m_id m))), truthy_str (ib_order_ref b),
            truthy_num (ib_target_amount b), truthy_str (ib_target_asset b), truthy_str (ib_target_chain b)) of
        (Some mid, Some ref, Some amount, Some asset, Some chain) \<Rightarrow>
          (case ib_accepted_assets b of
             None \<Rightarrow> (g, reply_error 400 ''VALIDATION_ERROR'' ''accepted_assets must be a non-empty array'' [])
           | Some assets \<Rightarrow>
               if assets = []
               then (g, reply_error 400 ''VALIDATION_ERROR'' ''accepted_assets must be a non-empty array'' [])
               else
                 let d = \<lparr> ni_merchant_id = mid, ni_order_ref = ref, ni_target_amount = amount, ni_target_asset = asset,
                           ni_target_chain = chain, ni_accepted_assets = assets \<rparr>
                 in (case createIntent (ax_webhook x) d g of
                       (g', Inr p) \<Rightarrow> (g', reply 201 [(''intent_id'', JStr (pi_id p)),
                           (''state'', JStr (state_name (pi_state p))), (''created_at'', JTime (pi_created_at p))])
                     | (g', Inl (ValidationError msg)) \<Rightarrow> (g', reply_error 400 ''VALIDATION_ERROR'' msg
                           (validation_details (db_merchants (gw_db g)) d msg))
                     | (g', Inl e) \<Rightarrow> (g', thrown x e)))
      | _ \<Rightarrow> (g, reply_error 400 ''VALIDATION_ERROR''
          ''Missing required fields: merchant_id, order_ref, target_amount, target_asset, target_chain'' []))"

definition event_json :: "intent_event \<Rightarrow> json" where
  "event_json e = JObj [(''event_type'', JStr (event_name (ev_type e))), (''payload'', JObj (ev_payload e)),
     (''created_at'', JTime (ev_created_at e))]"

definition get_intent :: "string \<Rightarrow> merchant \<Rightarrow> gateway \<Rightarrow> gateway \<times> api_response" where
  "get_intent i m g =
     (case getIntentWithEvents g i of
        None \<Rightarrow> (g, reply_error 404 ''INTENT_NOT_FOUND'' (''Payment intent not found: '' @ i) [])
      | Some (p, evs) \<Rightarrow> (g, reply 200
          [(''intent_id'', JStr (pi_id p)), (''merchant_id'', JStr (pi_merchant_id p)), (''order_ref'', JStr (pi_order_ref p)),
           (''state'', JStr (state_name (pi_state p))), (''target_amount'', JNum (pi_target_amount p)),
           (''target_asset'', JStr (pi_target_asset p)), (''target_chain'', JStr (pi_target_chain p)),
           (''quoted_rate'', (case pi_quoted_rate p of None \<Rightarrow> JNull | Some r \<Rightarrow> JNum r)),
           (''quote_expires_at'', opt_time (pi_quote_expires_at p)), (''created_at'', JTime (pi_created_at p)),
           (''updated_at'', JTime (pi_updated_at p)), (''events'', JArr (map event_json evs))]))"

record list_query =
  lq_merchant_id :: "string option"
  lq_limit :: "string option"
  lq_offset :: "string option"

definition summary_json :: "payment_intent \<Rightarrow> json" where
  "summary_json p = JObj [(''intent_id'', JStr (pi_id p)), (''order_ref'', JStr (pi_order_ref p)),
     (''state'', JStr (state_name (pi_state p))), (''target_amount'', JNum (pi_target_amount p)),
     (''target_asset'', JStr (pi_target_asset p)), (''created_at'', JTime (pi_created_at p))]"

text \<open>A limit or an offset; the database refuses what is not a number and what is negative.\<close>

definition page_number :: "string option \<Rightarrow> nat \<Rightarrow> nat option" where
  "page_number v d = (case truthy_str v of None \<Rightarrow> Some d
     | Some s \<Rightarrow> (case parse_int s of None \<Rightarrow> None | Some n \<Rightarrow> if n < 0 then None else Some (nat n)))"

definition list_intents :: "api_env \<Rightarrow> list_query \<Rightarrow> merchant \<Rightarrow> gateway \<Rightarrow> gateway \<times> api_response" where
  "list_intents x q m g =
     (case truthy_str (Some (text_or (lq_merchant_id q) (m_id m))) of
        None \<Rightarrow> (g, reply_error 400 ''VALIDATION_ERROR'' ''merchant_id is required'' [])
      | Some mid \<Rightarrow>
          (case (page_number (lq_limit q) 20, page_number (lq_offset q) 0) of
             (Some limit, Some off) \<Rightarrow> (g, reply 200
               [(''intents'', JArr (map summary_json (getMerchantIntents g mid (Some limit) (Some off))))])
           | _ \<Rightarrow> (g, thrown x (DbError ''limit''))))"

record quote_body =
  qb_rate :: "rat option"
  qb_address :: "string option"
  qb_asset :: "string option"
  qb_chain :: "string option"

definition quote_fields :: "quote \<Rightarrow> payload" where
  "quote_fields q = [(''rate'', JNum (q_rate q)), (''expires_at'', JTime (q_expires_at q)),
     (''deposit_address'', JStr (q_deposit_address q)), (''deposit_asset'', JStr (q_deposit_asset q)),
     (''deposit_chain'', JStr (q_deposit_chain q))]"

definition post_quote :: "api_env \<Rightarrow> string \<Rightarrow> quote_body \<Rightarrow> merchant \<Rightarrow> gateway \<Rightarrow> gateway \<times> api_response" where
  "post_quote x i b m g =
     (case (truthy_num (qb_rate b), truthy_str (qb_address b), truthy_str (qb_asset b), truthy_str (qb_chain b)) of
        (Some rate, Some addr, Some asset, Some chain) \<Rightarrow>
          (case generateQuote (ax_webhook x) i rate addr asset chain g of
             (g', Inr (p, q)) \<Rightarrow> (g', reply 200 [(''intent_id'', JStr (pi_id p)),
                 (''state'', JStr (state_name (pi_state p))), (''quote'', JObj (quote_fields q))])
           | (g', Inl e) \<Rightarrow> (g', thrown x e))
      | _ \<Rightarrow> (g, reply_error 400 ''VALIDATION_ERROR''
          ''Missing required fields: rate, deposit_address, deposit_asset, deposit_chain'' []))"

section \<open>Public routes\<close>

definition open_merchant :: "merchant \<Rightarrow> bool" where
  "open_merchant m = (m_compliance_status m = ''COMPLIANT'' \<or> m_compliance_status m = ''PENDING'')"

definition public_merchants :: "api_env \<Rightarrow> gateway \<Rightarrow> gateway \<times> api_response" where
  "public_merchants x g = (g, reply 200 [(''merchants'', JArr (map
     (\<lambda>m. JObj [(''id'', JStr (m_id m)), (''name'', JStr (m_name m)), (''accepted_chains'', JArr (map JStr (m_accepted_chains m))),
        (''accepted_assets'', JArr (map JStr (m_accepted_assets m))), (''settlement_asset'', JStr (m_settlement_asset m))])
     (filter open_merchant (getAll (ax_collate x) (db_merchants (gw_db g))))))])"

definition resolve_merchant :: "api_env \<Rightarrow> string option \<Rightarrow> gateway \<Rightarrow> string option" where
  "resolve_merchant x merchant_id g = (case truthy_str merchant_id of
     Some i \<Rightarrow> Some i
   | None \<Rightarrow> map_option m_id (tbl_find open_merchant (getAll (ax_collate x) (db_merchants (gw_db g)))))"

definition zero_address :: string where
  "zero_address = ''0x0000000000000000000000000000000000000000''"

definition public_quote_fields :: "quote \<Rightarrow> payload" where
  "public_quote_fields q = [(''rate'', JNum (q_rate q)), (''deposit_address'', JStr (q_deposit_address q)),
     (''deposit_asset'', JStr (q_deposit_asset q)), (''deposit_chain'', JStr (q_deposit_chain q)),
     (''expires_at'', JTime (q_expires_at q))]"

text \<open>
  The two calls of the public checkout.  \<open>createIntent\<close> awaits the webhook INTENT_CREATED, so other requests can
  be served before the merchant is read and the quote is made: \<open>others\<close> is what they do to the gateway.  The routes
  below run alone.
\<close>

definition checkout_between :: "(gateway \<Rightarrow> gateway) \<Rightarrow> api_env \<Rightarrow> new_intent \<Rightarrow> gateway
    \<Rightarrow> gateway \<times> (payment_intent \<times> payment_intent \<times> quote) outcome" where
  "checkout_between others x d g =
     andThen (createIntent (ax_webhook x) d g) (\<lambda>g intent.
       let g = others g;
           addr = (case getById (db_merchants (gw_db g)) (ni_merchant_id d) of
             None \<Rightarrow> zero_address | Some m \<Rightarrow> text_or (Some (m_settlement_address m)) zero_address)
       in andThen (generateQuote (ax_webhook x) (pi_id intent) 1 addr (ni_target_asset d) (ni_target_chain d) g)
            (\<lambda>g (p, q). (g, Inr (intent, p, q))))"

definition checkout :: "api_env \<Rightarrow> new_intent \<Rightarrow> gateway \<Rightarrow> gateway \<times> (payment_intent \<times> payment_intent \<times> quote) outcome" where
  "checkout = checkout_between id"

definition post_public_intent :: "api_env \<Rightarrow> string option \<Rightarrow> intent_body \<Rightarrow> gateway \<Rightarrow> gateway \<times> api_response" where
  "post_public_intent x merchant_id b g =
     (case resolve_merchant x merchant_id g of
        None \<Rightarrow> (g, reply_error 400 ''NO_MERCHANTS'' ''No active merchants available'' [])
      | Some mid \<Rightarrow>
          (case (truthy_num (ib_target_amount b), truthy_str (ib_target_asset b), truthy_str (ib_target_chain b)) of
             (Some amount, Some asset, Some chain) \<Rightarrow>
               if amount \<le> 0
               then (g, reply_error 400 ''VALIDATION_ERROR'' ''target_amount must be greater than 0'' [])
               else
                 let d = \<lparr> ni_merchant_id = mid,
                       ni_order_ref = text_or (ib_order_ref b) (''ORDER-'' @ int_text (e_now (w_env (ax_webhook x)))),
                       ni_target_amount = amount, ni_target_asset = asset, ni_target_chain = chain,
                       ni_accepted_assets = (case ib_accepted_assets b of None \<Rightarrow> [asset] | Some xs \<Rightarrow> xs) \<rparr>
                 in (case checkout x d g of
                       (g', Inr (intent, p, q)) \<Rightarrow> (g', reply 201 [(''intent_id'', JStr (pi_id p)),
                           (''state'', JStr (state_name (pi_state p))), (''quote'', JObj (public_quote_fields q)),
                           (''created_at'', JTime (pi_created_at intent))])
                     | (g', Inl (ValidationError msg)) \<Rightarrow> (g', reply_error 400 ''VALIDATION_ERROR'' msg
                           (validation_details (db_merchants (gw_db g)) d msg))
                     | (g', Inl e) \<Rightarrow> (g', thrown x e))
           | _ \<Rightarrow> (g, reply_error 400 ''VALIDATION_ERROR''
               ''Missing required fields: target_amount, target_asset, target_chain'' [])))"

section \<open>Account routes\<close>

definition on_merchants :: "merchant list \<Rightarrow> gateway \<Rightarrow> gateway" where
  "on_merchants ms g = g\<lparr> gw_db := (gw_db g)\<lparr> db_merchants := ms \<rparr> \<rparr>"

fun message_of :: "js_error \<Rightarrow> string \<Rightarrow> string" where
  "message_of (JsError name msg) d = msg"
| "message_of (JsThrown v) d = d"

definition auth_register :: "api_env \<Rightarrow> register_request \<Rightarrow> gateway \<Rightarrow> gateway \<times> api_response" where
  "auth_register x b g =
     (case register_merchant (ax_auth x) b (db_merchants (gw_db g)) of
        (ms, Inr r) \<Rightarrow> (on_merchants ms g, reply 201 [(''success'', JBool True), (''data'', JObj
            [(''merchant_id'', JStr (ar_merchant_id r)), (''name'', JStr (ar_name r)), (''email'', opt_str (ar_email r)),
             (''api_key'', JStr (ar_api_key r)), (''token'', JStr (ar_token r))]),
            (''message'', JStr ''Registration successful. Save your API key securely - it will not be shown again.'')])
      | (ms, Inl e) \<Rightarrow>
          (let msg = message_of e ''Registration failed'' in
           (on_merchants ms g,
            if js_includes msg ''already registered'' then reply_error 409 ''EMAIL_EXISTS'' msg []
            else if js_includes msg ''required'' \<or> js_includes msg ''at least'' then reply_error 400 ''VALIDATION_ERROR'' msg []
            else reply_error 500 ''REGISTRATION_FAILED'' ''Failed to register merchant'' [])))"

definition auth_login :: "api_env \<Rightarrow> login_request \<Rightarrow> gateway \<Rightarrow> gateway \<times> api_response" where
  "auth_login x b g =
     (case login (ax_auth x) b (db_merchants (gw_db g)) of
        Inr r \<Rightarrow> (g, reply 200 [(''success'', JBool True), (''data'', JObj
            [(''merchant_id'', JStr (ar_merchant_id r)), (''name'', JStr (ar_name r)), (''email'', opt_str (ar_email r)),
             (''token'', JStr (ar_token r))])])
      | Inl e \<Rightarrow>
          (let msg = message_of e ''Login failed'' in
           (g, if js_includes msg ''Invalid'' then reply_error 401 ''INVALID_CREDENTIALS'' msg []
               else reply_error 500 ''LOGIN_FAILED'' ''Failed to login'' [])))"

definition auth_profile :: "api_env \<Rightarrow> headers \<Rightarrow> gateway \<Rightarrow> gateway \<times> api_response" where
  "auth_profile x h g =
     (case authenticate (ax_auth x) h (db_merchants (gw_db g)) of
        None \<Rightarrow> (g, unauthorized ''Valid API key or token required'')
      | Some m \<Rightarrow> (g, \<lparr> ap_status = 200, ap_body = ProfileBody (getProfile (m_id m) (db_merchants (gw_db g))) \<rparr>))"

definition auth_regenerate :: "api_env \<Rightarrow> headers \<Rightarrow> gateway \<Rightarrow> gateway \<times> api_response" where
  "auth_regenerate x h g =
     (case truthy_str (hd_api_key h) of
        None \<Rightarrow> (g, unauthorized ''API key required'')
      | Some key \<Rightarrow>
          (case validateApiKey (ax_auth x) key (db_merchants (gw_db g)) of
             None \<Rightarrow> (g, reply_error 401 ''INVALID_API_KEY'' ''Invalid API key'' [])
           | Some m \<Rightarrow>
               (case regenerateApiKey (ax_auth x) (m_id m) (db_merchants (gw_db g)) of
                  (ms, new) \<Rightarrow> (on_merchants ms g, reply 200 [(''success'', JBool True),
                    (''data'', JObj [(''api_key'', JStr new)]),
                    (''message'', JStr ''API key regenerated. Update your integrations with the new key.'')]))))"

section \<open>The interface as a machine\<close>

datatype api_request =
    PostIntent headers intent_body
  | GetIntent headers string
  | ListIntents headers list_query
  | PostQuote headers string quote_body
  | PublicMerchants
  | PostPublicIntent "string option" intent_body
  | Register register_request
  | Login login_request
  | Profile headers
  | RegenerateKey headers

fun handle :: "api_env \<Rightarrow> api_request \<Rightarrow> gateway \<Rightarrow> gateway \<times> api_response" where
  "handle x (PostIntent h b) g = authMiddleware x h (post_intent x b) g"
| "handle x (GetIntent h i) g = authMiddleware x h (get_intent i) g"
| "handle x (ListIntents h q) g = authMiddleware x h (list_intents x q) g"
| "handle x (PostQuote h i b) g = authMiddleware x h (post_quote x i b) g"
| "handle x PublicMerchants g = public_merchants x g"
| "handle x (PostPublicIntent mid b) g = post_public_intent x mid b g"
| "handle x (Register b) g = auth_register x b g"
| "handle x (Login b) g = auth_login x b g"
| "handle x (Profile h) g = auth_profile x h g"
| "handle x (RegenerateKey h) g = auth_regenerate x h g"

end
