(* ===== verification/Api_Properties.thy ===== *)
theory Api_Properties
  imports Api_Gateway
begin

text \<open>
  The properties of the HTTP interface: a request answered with a client error changes nothing; a
  checkout of a customer ends in a quoted intent the deposit watcher can find; what a token opens.
\<close>

section \<open>Client errors\<close>

text \<open>The errors a service call may end with, and what they leave behind.\<close>

lemma deliverWebhook_error: "deliverWebhook w p ty data g = (g', Inl e) \<Longrightarrow> \<exists>what. e = DbError what"
  by (auto simp: deliverWebhook_def upsertDelivery_def Let_def andThen_def split: option.splits prod.splits sum.splits)

lemma createIntent_error:
  assumes "createIntent w d g = (g', Inl e)"
  shows "(\<exists>msg. e = ValidationError msg \<and> g' = g) \<or> (\<exists>what. e = DbError what)"
proof -
  have created: "\<exists>what. e = DbError what"
    if "andThen (on_db (create_intent (w_env w) d) g) (\<lambda>g intent.
      andThen (deliverWebhook w intent INTENT_CREATED (pl intent) g) (\<lambda>g _. (g, Inr intent))) = (g', Inl e)" for pl
    using that
  proof (cases rule: andThenE)
    case (thrown y)
    then show ?thesis
      by (auto simp: on_db_def create_intent_def Let_def split: prod.splits option.splits)
  next
    case (went_on s v)
    from went_on(2) show ?thesis
      by (cases rule: andThenE) (auto dest: deliverWebhook_error)
  qed
  show ?thesis
    using assms created by (auto simp: createIntent_def split: option.splits if_splits)
qed

text \<open>A created intent is in the state CREATED and can be found.\<close>

lemma createIntent_found:
  assumes "createIntent w d g = (g', Inr p)"
  shows "findById (gw_db g') (pi_id p) = Some p \<and> pi_state p = CREATED"
proof -
  have created: "findById (gw_db g') (pi_id p) = Some p \<and> pi_state p = CREATED"
    if "andThen (on_db (create_intent (w_env w) d) g) (\<lambda>g intent.
      andThen (deliverWebhook w intent INTENT_CREATED (pl intent) g) (\<lambda>g _. (g, Inr intent))) = (g', Inr p)" for pl
    using that
  proof (cases rule: andThenE)
    case (went_on s v)
    let ?i = "e_uuid (w_env w) (db_ids (gw_db g))"
    from went_on(2) have v: "v = p" "g' = fst (deliverWebhook w v INTENT_CREATED (pl v) s)"
      by (cases rule: andThenE; simp)+
    from went_on(1) obtain rows where "insert_intent (w_env w) ?i d (gw_db g) = Some rows" "p = mapRow (last rows)"
      "db_intents (gw_db s) = rows"
      by (auto simp: on_db_def create_intent_def Let_def v split: prod.splits option.splits)
    moreover from this obtain y where "rows = db_intents (gw_db g) @ [new_row (w_env w) ?i d y]"
        "?i \<notin> pi_id ` set (db_intents (gw_db g))"
      by (auto simp: insert_intent_def dest!: tbl_insert_SomeD split: if_splits option.splits)
    moreover from this have "tbl_find (\<lambda>r. pi_id r = ?i) (db_intents (gw_db g)) = None"
      by (auto simp: tbl_find_None_iff image_iff)
    ultimately show ?thesis by (simp add: v(2) findById_def tbl_find_append)
  qed simp
  show ?thesis using assms created by (auto simp: createIntent_def split: option.splits if_splits)
qed

lemma transition_error:
  "transition e i ty pl db = (db', Inl x) \<Longrightarrow>
     x = IntentNotFound i \<or> (\<exists>s t. x = InvalidStateTransition s t) \<or> x = ConcurrentModification i \<or> (\<exists>what. x = DbError what)"
  by (auto simp: transition_def Let_def split: option.splits if_splits)

text \<open>The status an error is reported with; only the errors of a guard are the client's.\<close>

definition server_error :: "gateway_error \<Rightarrow> bool" where
  "server_error x = (case x of ValidationError _ \<Rightarrow> False | IntentNotFoundError _ \<Rightarrow> False
     | QuoteExpiredError _ \<Rightarrow> False | _ \<Rightarrow> True)"

lemma thrown_status: "server_error e \<Longrightarrow> ap_status (thrown x e) = 500"
  by (cases e) (simp_all add: server_error_def thrown_def reply_error_def reply_def)

lemma generateQuote_error:
  assumes "generateQuote w i rate addr asset chain g = (g', Inl x)"
  shows "x = IntentNotFoundError i \<and> g' = g \<and> findById (gw_db g) i = None
    \<or> (\<exists>p msg. x = ValidationError msg \<and> g' = g \<and> findById (gw_db g) i = Some p \<and> \<not> allowed (pi_state p) QUOTED)
    \<or> server_error x"
proof -
  have tail: "server_error x"
    if "andThen (on_db (updateQuote (w_env w) i rate ex dep) g) (\<lambda>g _.
      andThen (svc_transition w i QUOTE_GENERATED pl g) (\<lambda>g t.
      andThen (deliverWebhook w t QUOTE_GENERATED data g) (\<lambda>g _. (g, Inr (t, q :: quote))))) = (g', Inl x)"
    for ex dep pl data q
    using that
  proof (cases rule: andThenE)
    case (thrown y)
    then show ?thesis
      by (auto simp: on_db_def updateQuote_def server_error_def split: prod.splits option.splits if_splits)
  next
    case (went_on s v)
    from went_on(2) show ?thesis
    proof (cases rule: andThenE)
      case (thrown y)
      then show ?thesis
        by (auto simp: svc_transition_def on_db_def server_error_def split: prod.splits dest!: transition_error)
    next
      case (went_on s' t)
      from went_on(2) show ?thesis
        by (cases rule: andThenE) (auto simp: server_error_def dest!: deliverWebhook_error)
    qed
  qed
  show ?thesis
  proof (cases "findById (gw_db g) i")
    case None
    then show ?thesis using assms by (simp add: generateQuote_def)
  next
    case (Some p)
    then show ?thesis
      using assms tail by (cases "allowed (pi_state p) QUOTED") (auto simp: generateQuote_def Let_def)
  qed
qed

lemma checkout_error:
  assumes "checkout x d g = (g', Inl e)"
  shows "(\<exists>msg. e = ValidationError msg \<and> g' = g) \<or> server_error e"
  using assms unfolding checkout_def checkout_between_def
proof (cases rule: andThenE)
  case (thrown y)
  then show ?thesis by (auto simp: server_error_def dest!: createIntent_error)
next
  case (went_on s p)
  note found = createIntent_found [OF went_on(1)]
  have "allowed (pi_state p) QUOTED" using found by (simp add: allowed_iff)
  with went_on(2) found show ?thesis
    unfolding Let_def by (cases rule: andThenE) (auto dest!: generateQuote_error split: prod.splits)
qed

lemma register_refused: "register_merchant e d ms = (ms', Inl y) \<Longrightarrow> ms' = ms"
  by (auto simp: register_merchant_def Let_def split: if_splits option.splits)

lemma on_merchants_same [simp]: "on_merchants (db_merchants (gw_db g)) g = g"
  by (simp add: on_merchants_def)

lemma reply_status [simp]: "ap_status (reply st fs) = st" "ap_status (reply_error st c msg ds) = st"
  by (simp_all add: reply_def reply_error_def)

lemma post_intent_client_error:
  assumes "post_intent x b m g = (g', r)" "400 \<le> ap_status r" "ap_status r < 500"
  shows "g' = g"
proof -
  have "g1 = g" if "createIntent (ax_webhook x) d g = (g1, Inl e)" "ap_status (case e of
      ValidationError msg \<Rightarrow> reply_error 400 c msg ds | _ \<Rightarrow> thrown x e) < 500" for g1 d e c ds
    using createIntent_error [OF that(1)] that(2) thrown_status [of e x] by (auto simp: server_error_def)
  then show ?thesis
    using assms
    by (auto simp: post_intent_def Let_def split: option.splits if_splits prod.splits sum.splits gateway_error.splits)
qed

lemma post_quote_client_error:
  assumes "post_quote x i b m g = (g', r)" "400 \<le> ap_status r" "ap_status r < 500"
  shows "g' = g"
proof -
  have "g1 = g" if "generateQuote (ax_webhook x) i rate a s c g = (g1, Inl e)" "ap_status (thrown x e) < 500"
    for rate a s c g1 e
    using generateQuote_error [OF that(1)] that(2) thrown_status [of e x] by auto
  then show ?thesis
    using assms by (auto simp: post_quote_def split: option.splits prod.splits sum.splits)
qed

lemma post_public_intent_client_error:
  assumes "post_public_intent x mid b g = (g', r)" "400 \<le> ap_status r" "ap_status r < 500"
  shows "g' = g"
proof -
  have "g1 = g" if "checkout x d g = (g1, Inl e)" "ap_status (case e of
      ValidationError msg \<Rightarrow> reply_error 400 c msg ds | _ \<Rightarrow> thrown x e) < 500" for g1 d e c ds
    using checkout_error [OF that(1)] that(2) thrown_status [of e x]
    by (auto simp: server_error_def split: gateway_error.splits)
  then show ?thesis
    using assms
    by (auto simp: post_public_intent_def Let_def split: option.splits if_splits prod.splits sum.splits gateway_error.splits)
qed

text \<open>C33: an answer with a client error status means that the request changed nothing at all: no row of
  any table, no webhook delivery, no identifier drawn.  (A refused statement or an illegal transition
  is reported with status 500; the route may have written before it.)\<close>

theorem client_errors_change_nothing:
  assumes "handle x req g = (g', r)" "400 \<le> ap_status r" "ap_status r < 500"
  shows "g' = g"
proof (cases req)
  case (PostIntent h b)
  then show ?thesis
    using assms post_intent_client_error by (auto simp: authMiddleware_def split: option.splits)
next
  case (GetIntent h i)
  then show ?thesis using assms by (auto simp: authMiddleware_def get_intent_def split: option.splits)
next
  case (ListIntents h q)
  then show ?thesis using assms by (auto simp: authMiddleware_def list_intents_def split: option.splits)
next
  case (PostQuote h i b)
  then show ?thesis
    using assms post_quote_client_error by (auto simp: authMiddleware_def split: option.splits)
next
  case PublicMerchants
  then show ?thesis using assms by (simp add: public_merchants_def)
next
  case (PostPublicIntent mid b)
  then show ?thesis using assms post_public_intent_client_error by simp
next
  case (Register b)
  then show ?thesis
    using assms by (auto simp: auth_register_def Let_def split: prod.splits sum.splits if_splits dest!: register_refused)
next
  case (Login b)
  then show ?thesis using assms by (auto simp: auth_login_def Let_def split: sum.splits)
next
  case (Profile h)
  then show ?thesis using assms by (auto simp: auth_profile_def split: option.splits)
next
  case (RegenerateKey h)
  then show ?thesis using assms by (auto simp: auth_regenerate_def split: option.splits prod.splits)
qed

section \<open>Calls that succeed\<close>

text \<open>No identifier still to be drawn is in use.\<close>

definition fresh_all :: "env \<Rightarrow> gateway \<Rightarrow> bool" where
  "fresh_all e g = (inj (e_uuid e) \<and> (\<forall>n \<ge> db_ids (gw_db g). e_uuid e n
     \<notin> ev_id ` set (db_events (gw_db g)) \<union> pi_id ` set (db_intents (gw_db g)) \<union> wd_id ` set (gw_deliveries g)))"

lemma fresh_allD:
  "fresh_all e g \<Longrightarrow> db_ids (gw_db g) \<le> n \<Longrightarrow> e_uuid e n \<notin> ev_id ` set (db_events (gw_db g))
     \<and> e_uuid e n \<notin> pi_id ` set (db_intents (gw_db g)) \<and> e_uuid e n \<notin> wd_id ` set (gw_deliveries g)"
  by (auto simp: fresh_all_def)

lemma fresh_all_step:
  assumes "fresh_all e g" "db_ids (gw_db g) \<le> db_ids (gw_db g')"
    and "ev_id ` set (db_events (gw_db g')) \<subseteq> ev_id ` set (db_events (gw_db g)) \<union> e_uuid e ` {..<db_ids (gw_db g')}"
    and "pi_id ` set (db_intents (gw_db g')) \<subseteq> pi_id ` set (db_intents (gw_db g)) \<union> e_uuid e ` {..<db_ids (gw_db g')}"
    and "wd_id ` set (gw_deliveries g') \<subseteq> wd_id ` set (gw_deliveries g) \<union> e_uuid e ` {..<db_ids (gw_db g')}"
  shows "fresh_all e g'"
proof -
  have i: "inj (e_uuid e)" using assms(1) by (simp add: fresh_all_def)
  have new: "e_uuid e n \<notin> e_uuid e ` {..<db_ids (gw_db g')}" if "db_ids (gw_db g') \<le> n" for n
    using that i by (auto dest: injD)
  have old: "e_uuid e n \<notin> ev_id ` set (db_events (gw_db g)) \<and> e_uuid e n \<notin> pi_id ` set (db_intents (gw_db g))
      \<and> e_uuid e n \<notin> wd_id ` set (gw_deliveries g)" if "db_ids (gw_db g') \<le> n" for n
    using fresh_allD [OF assms(1)] that assms(2) le_trans by blast
  show ?thesis
    unfolding fresh_all_def
  proof (intro conjI allI impI)
    fix n assume n: "db_ids (gw_db g') \<le> n"
    show "e_uuid e n \<notin> ev_id ` set (db_events (gw_db g')) \<union> pi_id ` set (db_intents (gw_db g')) \<union> wd_id ` set (gw_deliveries g')"
      unfolding Un_iff de_Morgan_disj
      using contra_subsetD [OF assms(3)] contra_subsetD [OF assms(4)] contra_subsetD [OF assms(5)]
        new [OF n] old [OF n] unfolding Un_iff de_Morgan_disj by simp
  qed (rule i)
qed

lemma keys_updated [simp]: "wd_id ` set (updateDeliveryStatus now i s n r x rows) = wd_id ` set rows"
proof -
  have "map wd_id (updateDeliveryStatus now i s n r x rows) = map wd_id rows"
    unfolding updateDeliveryStatus_def by (rule wd.keys_kept)
  then show ?thesis by (metis set_map)
qed

lemma attemptDelivery_ids [simp]: "wd_id ` set (gw_deliveries (attemptDelivery w i g)) = wd_id ` set (gw_deliveries g)"
  by (auto simp: attemptDelivery_def Let_def split: option.splits http_outcome.splits)

lemma upsertDelivery_succeeds:
  assumes "fresh_all (w_env w) g"
  obtains g' i' where "upsertDelivery w i ty url pl g = (g', Inr i')" "fresh_all (w_env w) g'"
proof -
  let ?same = "\<lambda>d. wd_intent_id d = i \<and> wd_event_type d = ty"
  show ?thesis
  proof (cases "tbl_find ?same (gw_deliveries g)")
    case None
    have "e_uuid (w_env w) (db_ids (gw_db g)) \<notin> wd_id ` set (gw_deliveries g)" using fresh_allD [OF assms] by blast
    with None show ?thesis
      by (intro that [of "fst (upsertDelivery w i ty url pl g)"])
        (auto simp: upsertDelivery_def Let_def tbl_insert_def intro!: fresh_all_step [OF assms])
  next
    case (Some d)
    from Some show ?thesis
      by (intro that [of "fst (upsertDelivery w i ty url pl g)"])
        (auto simp: upsertDelivery_def Let_def intro!: fresh_all_step [OF assms] elim!: in_tbl_updateE)
  qed
qed

lemma deliverWebhook_succeeds:
  assumes "fresh_all (w_env w) g"
  obtains g' where "deliverWebhook w p ty data g = (g', Inr ())" "fresh_all (w_env w) g'"
proof (cases "Option.bind (getById (db_merchants (gw_db g)) (pi_merchant_id p)) m_webhook_url")
  case None
  then show ?thesis
    using assms by (intro that [of g]) (auto simp: deliverWebhook_def split: option.splits bind_splits)
next
  case (Some url)
  then obtain m where m: "getById (db_merchants (gw_db g)) (pi_merchant_id p) = Some m" "m_webhook_url m = Some url"
    by (auto split: bind_splits)
  let ?pl = "[(''intent_id'', JStr (pi_id p)), (''event_type'', JStr (event_name ty)),
      (''state'', JStr (state_name (pi_state p))), (''timestamp'', JTime (e_now (w_env w))),
      (''data'', JObj data), (''signature'', JStr (w_sign w (pi_id p) ty data))]"
  obtain g1 i1 where u: "upsertDelivery w (pi_id p) ty url ?pl g = (g1, Inr i1)" "fresh_all (w_env w) g1"
    by (rule upsertDelivery_succeeds [OF assms])
  have "fresh_all (w_env w) (attemptDelivery w i1 g1)" by (rule fresh_all_step [OF u(2)]) auto
  with u(1) m show ?thesis by (intro that [of "attemptDelivery w i1 g1"]) (simp_all add: deliverWebhook_def)
qed

lemma createIntent_succeeds:
  assumes "fresh_all (w_env w) g" "order_acceptable (db_merchants (gw_db g)) d"
    and "fits 255 (ni_order_ref d)" "fits 20 (ni_target_asset d)" "fits 20 (ni_target_chain d)"
  obtains g' row y where "createIntent w d g = (g', Inr (mapRow row))" "fresh_all (w_env w) g'"
    "db_intents (gw_db g') = db_intents (gw_db g) @ [row]" "db_merchants (gw_db g') = db_merchants (gw_db g)"
    "row = new_row (w_env w) (e_uuid (w_env w) (db_ids (gw_db g))) d y" "\<bar>y - ni_target_amount d\<bar> \<le> 1 / 200000000"
    "pi_id row \<notin> pi_id ` set (db_intents (gw_db g))"
proof -
  let ?i = "e_uuid (w_env w) (db_ids (gw_db g))" and ?ei = "e_uuid (w_env w) (Suc (db_ids (gw_db g)))"
  from assms(2) obtain m where m: "getById (db_merchants (gw_db g)) (ni_merchant_id d) = Some m"
      "ni_target_asset d \<in> set (m_accepted_assets m)" "ni_target_chain d \<in> set (m_accepted_chains m)"
      "0 < ni_target_amount d" "ni_target_amount d \<le> 1000000"
    by (auto simp: order_acceptable_def split: option.splits)
  obtain y where y: "pg_decimal 20 8 (ni_target_amount d) = Some y"
      "\<bar>y - ni_target_amount d\<bar> \<le> 1 / 200000000"
    using pg_decimal_amount [OF m(4,5)] by blast
  have fk: "ni_merchant_id d \<in> set (map m_id (db_merchants (gw_db g)))"
    using getById_SomeD [OF m(1)] by simp
  have fresh: "?i \<notin> pi_id ` set (db_intents (gw_db g))" "?ei \<notin> ev_id ` set (db_events (gw_db g))"
    using fresh_allD [OF assms(1)] by simp_all
  define row where "row = new_row (w_env w) ?i d y"
  define db where "db = (gw_db g)\<lparr> db_intents := db_intents (gw_db g) @ [row], db_events := db_events (gw_db g)
      @ [new_event ?ei ?i INTENT_CREATED (create_payload d) 1 (e_now (w_env w))],
      db_ids := Suc (Suc (db_ids (gw_db g))) \<rparr>"
  have "insert_intent (w_env w) ?i d (gw_db g) = Some (db_intents (gw_db g) @ [row])"
    using fk assms(3-5) y fresh(1) by (simp add: insert_intent_def tbl_insert_def row_def)
  then have cr: "create_intent (w_env w) d (gw_db g) = (db, Inr (mapRow row))"
    using fresh(2) by (simp add: create_intent_def Let_def tbl_insert_def db_def)
  have f1: "fresh_all (w_env w) (g\<lparr> gw_db := db \<rparr>)"
    by (rule fresh_all_step [OF assms(1)]) (auto simp: db_def row_def)
  let ?pl = "[(''merchant_id'', JStr (pi_merchant_id (mapRow row))), (''order_ref'', JStr (pi_order_ref (mapRow row))),
      (''target_amount'', JNum (pi_target_amount (mapRow row))), (''target_asset'', JStr (pi_target_asset (mapRow row))),
      (''target_chain'', JStr (pi_target_chain (mapRow row)))]"
  obtain g' where g': "deliverWebhook w (mapRow row) INTENT_CREATED ?pl (g\<lparr> gw_db := db \<rparr>) = (g', Inr ())"
      "fresh_all (w_env w) g'"
    by (rule deliverWebhook_succeeds [OF f1])
  have "db_intents (gw_db g') = db_intents db" "db_merchants (gw_db g') = db_merchants db"
    using deliverWebhook_tables [of w "mapRow row" INTENT_CREATED ?pl "g\<lparr> gw_db := db \<rparr>"] unfolding g'(1) by simp_all
  moreover have "createIntent w d g = (g', Inr (mapRow row))"
    using m cr g'(1) by (simp add: createIntent_def on_db_def not_less not_le)
  ultimately show ?thesis
    using g'(2) y(2) fresh(1) by (intro that [of g' row y]) (simp_all add: db_def row_def)
qed

lemma updateQuote_succeeds:
  assumes "gw_ok g" "fresh_all e g" "findById (gw_db g) i = Some p" "pg_decimal 20 8 rate = Some rate'"
    and "fits 255 (dd_address dep)" "fits 20 (dd_asset dep)" "fits 20 (dd_chain dep)"
  obtains db p' p1 where "updateQuote e i rate ex (Some dep) (gw_db g) = (db, Inr p')" "gw_ok (g\<lparr> gw_db := db \<rparr>)"
    "fresh_all e (g\<lparr> gw_db := db \<rparr>)" "findById db i = Some p1" "pi_state p1 = pi_state p"
    "pi_id ` set (db_intents db) = pi_id ` set (db_intents (gw_db g))"
proof -
  from assms(3) obtain row where row: "tbl_find (\<lambda>r. pi_id r = i) (db_intents (gw_db g)) = Some row" "p = mapRow row"
    by (auto simp: findById_def)
  define db where "db = (gw_db g)\<lparr> db_intents := tbl_update (\<lambda>r. pi_id r = i) (set_quote rate' ex (Some dep) (e_now e))
      (db_intents (gw_db g)) \<rparr>"
  have u: "updateQuote e i rate ex (Some dep) (gw_db g) = (db, Inr (mapRow (set_quote rate' ex (Some dep) (e_now e) row)))"
    using row assms(4-7) by (simp add: updateQuote_def db_def)
  have "gw_runs g (g\<lparr> gw_db := db \<rparr>)"
    using on_db_runs [of "updateQuote e i rate ex (Some dep)" g] u repo_runs_ops(3) [OF prod.collapse [symmetric]]
    by (auto simp: on_db_def)
  then have ok: "gw_ok (g\<lparr> gw_db := db \<rparr>)" using assms(1) by (rule gw_runs_ok)
  have ids: "pi_id ` set (db_intents db) = pi_id ` set (db_intents (gw_db g))"
    using qt.keys_kept [of "\<lambda>r. pi_id r = i" rate' ex "Some dep" "e_now e" "db_intents (gw_db g)"]
    by (simp add: db_def) (metis set_map)
  have "fresh_all e (g\<lparr> gw_db := db \<rparr>)"
    by (rule fresh_all_step [OF assms(2)]) (auto simp: ids, auto simp: db_def)
  moreover have "findById db i = Some (mapRow (set_quote rate' ex (Some dep) (e_now e) row))"
    using row by (simp add: findById_def db_def qt.find_updated)
  ultimately show ?thesis using u ok ids
    by (intro that [of db _ "mapRow (set_quote rate' ex (Some dep) (e_now e) row)"]) (simp_all add: row(2))
qed

lemma generateQuote_succeeds:
  assumes "gw_ok g" "fresh_all (w_env w) g" "findById (gw_db g) i = Some p" "allowed (pi_state p) QUOTED"
    and "pg_decimal 20 8 rate = Some rate'" "fits 255 addr" "fits 20 asset" "fits 20 chain"
  obtains g' r q where "generateQuote w i rate addr asset chain g = (g', Inr (r, q))" "fresh_all (w_env w) g'" "gw_ok g'"
    "pi_id ` set (db_intents (gw_db g')) = pi_id ` set (db_intents (gw_db g))"
proof -
  let ?e = "w_env w"
  let ?ex = "e_now ?e + ttl_seconds (getById (db_merchants (gw_db g)) (pi_merchant_id p)) * 1000"
  obtain db p' p1 where u: "updateQuote ?e i rate ?ex (Some \<lparr> dd_address = addr, dd_asset = asset, dd_chain = chain \<rparr>) (gw_db g)
        = (db, Inr p')" "gw_ok (g\<lparr> gw_db := db \<rparr>)" "fresh_all ?e (g\<lparr> gw_db := db \<rparr>)" "findById db i = Some p1"
      "pi_state p1 = pi_state p" "pi_id ` set (db_intents db) = pi_id ` set (db_intents (gw_db g))"
    by (rule updateQuote_succeeds [OF assms(1-3,5), where dep = "\<lparr> dd_address = addr, dd_asset = asset, dd_chain = chain \<rparr>"])
      (use assms(6-8) in simp_all)
  let ?g1 = "g\<lparr> gw_db := db \<rparr>"
  let ?pl = "[(''rate'', JNum rate), (''deposit_address'', JStr addr), (''deposit_asset'', JStr asset),
                   (''deposit_chain'', JStr chain), (''expires_at'', JTime ?ex)]"
  have found: "findById (gw_db ?g1) i = Some p1" and al: "allowed (pi_state p1) (getExpectedNextState QUOTE_GENERATED)"
    using assms(4) u(4,5) by simp_all
  have nf: "e_uuid ?e (db_ids (gw_db ?g1)) \<notin> ev_id ` set (db_events (gw_db ?g1))" using fresh_allD [OF u(3)] by blast
  obtain row2 g2 t where t: "svc_transition w i QUOTE_GENERATED ?pl ?g1 = (g2, Inr t)"
      "db_intents (gw_db g2) = tbl_update (\<lambda>r. pi_id r = i)
         (set_state QUOTED (pi_version p1 + 1) (e_now ?e)) (db_intents (gw_db ?g1))"
      "db_events (gw_db g2) = db_events (gw_db ?g1)
         @ [new_event (e_uuid ?e (db_ids (gw_db ?g1))) i QUOTE_GENERATED ?pl (pi_version p1 + 1) (e_now ?e)]"
      "db_ids (gw_db g2) = Suc (db_ids (gw_db ?g1))" "gw_deliveries g2 = gw_deliveries ?g1"
    by (rule svc_transition_valid [OF u(2) found al nf, where pl = ?pl]) auto
  have ids2: "pi_id ` set (db_intents (gw_db g2)) = pi_id ` set (db_intents db)"
    using st.keys_kept [of "\<lambda>r. pi_id r = i" QUOTED "pi_version p1 + 1" "e_now ?e" "db_intents db"]
    unfolding t(2) by (simp, metis set_map)
  have f2: "fresh_all ?e g2" by (rule fresh_all_step [OF u(3)]) (auto simp: t(3-5) ids2)
  let ?q = "\<lparr> q_rate = rate, q_expires_at = ?ex, q_deposit_address = addr, q_deposit_asset = asset, q_deposit_chain = chain \<rparr>"
  obtain g3 where g3: "deliverWebhook w t QUOTE_GENERATED [(''quote'', quote_json ?q)] g2 = (g3, Inr ())" "fresh_all ?e g3"
    by (rule deliverWebhook_succeeds [OF f2])
  have r: "generateQuote w i rate addr asset chain g = (g3, Inr (t, ?q))"
    using assms(3,4) u(1) t(1) g3(1) by (simp add: generateQuote_def Let_def on_db_def)
  have "gw_ok g3" using gw_runs_ok [OF generateQuote_runs assms(1), of w i rate addr asset chain] by (simp add: r)
  moreover have "db_intents (gw_db g3) = db_intents (gw_db g2)"
    using deliverWebhook_tables(1) [of w t QUOTE_GENERATED "[(''quote'', quote_json ?q)]" g2] by (simp add: g3(1))
  ultimately show ?thesis using r g3(2) ids2 u(6) by (intro that [of g3 t ?q]) simp_all
qed

text \<open>Quoting leaves every order as it was and adds none.\<close>

lemma quote_keeps_orders:
  assumes "gw_ok g" "generateQuote w i rate addr asset chain g = (g', Inr rq)" "gw_ok g'"
    and "pi_id ` set (db_intents (gw_db g')) = pi_id ` set (db_intents (gw_db g))" "r \<in> set (db_intents (gw_db g'))"
  obtains z where "z \<in> set (db_intents (gw_db g))" "pi_id z = pi_id r" "same_order z r"
proof -
  have dist: "distinct (map pi_id (db_intents (gw_db g')))" "distinct (map pi_id (db_intents (gw_db g)))"
    using assms(1,3) by (simp_all add: gw_ok_distinct)
  have le: "db_le (gw_db g) (gw_db g')"
    using generateQuote_runs [of g w i rate addr asset chain] assms(1)
    by (auto simp: assms(2) gw_runs_def gw_ok_def intro: repo_runs_le)
  from assms(4,5) obtain z where z: "z \<in> set (db_intents (gw_db g))" "pi_id z = pi_id r" by (metis imageE imageI)
  with le tbl_find_unique [OF dist(2) z(1)] obtain u where
    "tbl_find (\<lambda>r. pi_id r = pi_id z) (db_intents (gw_db g')) = Some u" "intent_le z u"
    unfolding db_le_def by blast
  with tbl_find_unique [OF dist(1) assms(5)] z show ?thesis by (intro that [of z]) (auto simp: intent_le_def)
qed

text \<open>A row that expects a deposit at an address and is the only one as new as it is the one a deposit finds.\<close>

lemma newest_awaiting_found:
  assumes "r \<in> set (db_intents db)" "pi_deposit_chain r = Some chain" "pi_deposit_address r = Some addr" "expects_deposit (pi_state r)"
    and newest: "\<And>h. h \<in> set (db_intents db) \<Longrightarrow> pi_created_at r \<le> pi_created_at h \<Longrightarrow> h = r"
  shows "findAwaitingDepositAt db chain addr = Some (mapRow r)"
proof -
  let ?rows = "filter (\<lambda>r. pi_deposit_chain r = Some chain \<and> pi_deposit_address r = Some addr \<and> expects_deposit (pi_state r)) (db_intents db)"
  have mem: "r \<in> set ?rows" using assms by simp
  obtain h t where h: "order_desc pi_created_at ?rows = h # t"
    using mem set_order_desc [of pi_created_at ?rows] by (cases "order_desc pi_created_at ?rows") auto
  have "h \<in> set (db_intents db)" using set_order_desc [of pi_created_at ?rows] unfolding h by (auto dest: equalityD1)
  then have "h = r" using order_desc_head_max [OF h mem] by (rule newest)
  with h show ?thesis by (simp add: findAwaitingDepositAt_def)
qed

definition public_order :: "string \<Rightarrow> string \<Rightarrow> rat \<Rightarrow> string \<Rightarrow> string \<Rightarrow> string list option \<Rightarrow> new_intent" where
  "public_order mid ref amount asset chain assets = \<lparr> ni_merchant_id = mid, ni_order_ref = ref, ni_target_amount = amount,
     ni_target_asset = asset, ni_target_chain = chain, ni_accepted_assets = (case assets of None \<Rightarrow> [asset] | Some xs \<Rightarrow> xs) \<rparr>"

text \<open>The checkout of an acceptable order: a new row, quoted at the rate 1 to the merchant's address.\<close>

lemma checkout_succeeds:
  assumes "gw_ok g" "fresh_all (w_env (ax_webhook x)) g" "getById (db_merchants (gw_db g)) (ni_merchant_id d) = Some m"
    and "order_acceptable (db_merchants (gw_db g)) d" "m_settlement_address m \<noteq> []"
    and "fits 255 (ni_order_ref d)" "fits 20 (ni_target_asset d)" "fits 20 (ni_target_chain d)" "fits 255 (m_settlement_address m)"
  obtains g1 g' row r q y where
    "checkout x d g = (g', Inr (mapRow row, r, q))" "db_intents (gw_db g1) = db_intents (gw_db g) @ [row]" "gw_ok g1" "gw_ok g'"
    "row = new_row (w_env (ax_webhook x)) (e_uuid (w_env (ax_webhook x)) (db_ids (gw_db g))) d y"
    "\<bar>y - ni_target_amount d\<bar> \<le> 1 / 200000000" "pi_id row \<notin> pi_id ` set (db_intents (gw_db g))"
    "generateQuote (ax_webhook x) (pi_id row) 1 (m_settlement_address m) (ni_target_asset d) (ni_target_chain d) g1 = (g', Inr (r, q))"
    "pi_id ` set (db_intents (gw_db g')) = pi_id ` set (db_intents (gw_db g1))"
proof -
  let ?w = "ax_webhook x"
  obtain g1 row y where c: "createIntent ?w d g = (g1, Inr (mapRow row))" "fresh_all (w_env ?w) g1"
    "db_intents (gw_db g1) = db_intents (gw_db g) @ [row]" "db_merchants (gw_db g1) = db_merchants (gw_db g)"
    "row = new_row (w_env ?w) (e_uuid (w_env ?w) (db_ids (gw_db g))) d y" "\<bar>y - ni_target_amount d\<bar> \<le> 1 / 200000000"
    "pi_id row \<notin> pi_id ` set (db_intents (gw_db g))"
    by (rule createIntent_succeeds [OF assms(2,4,6-8)])
  have ok1: "gw_ok g1" using gw_runs_ok [OF createIntent_runs assms(1), of ?w d] by (simp add: c(1))
  have found: "findById (gw_db g1) (pi_id row) = Some (mapRow row)" using createIntent_found [OF c(1)] by simp
  have one: "pg_decimal 20 8 1 = Some 1" by (simp add: pg_decimal_def pg_round_def Let_def)
  have al: "allowed (pi_state (mapRow row)) QUOTED" by (simp add: c(5) new_row_def allowed_iff)
  obtain g' r q where gq: "generateQuote ?w (pi_id row) 1 (m_settlement_address m) (ni_target_asset d) (ni_target_chain d) g1
        = (g', Inr (r, q))"
      "fresh_all (w_env ?w) g'" "gw_ok g'" "pi_id ` set (db_intents (gw_db g')) = pi_id ` set (db_intents (gw_db g1))"
    by (rule generateQuote_succeeds [OF ok1 c(2) found al one assms(9,7,8)])
  have "checkout x d g = (g', Inr (mapRow row, r, q))"
    using c(1,4) gq(1) assms(3,5) by (simp add: checkout_def checkout_between_def Let_def text_or_def)
  then show ?thesis using c ok1 gq by (intro that)
qed

text \<open>A public checkout for an order the merchant accepts is answered 201, and the newest intent that expects a
  deposit at the settlement address of the merchant on that chain is the new one, QUOTED for the amount asked.\<close>

lemma public_checkout_done:
  assumes "gw_ok g" "fresh_all (w_env (ax_webhook x)) g" "getById (db_merchants (gw_db g)) mid = Some m"
    and "mid \<noteq> []" "ref \<noteq> []" "asset \<noteq> []" "chain \<noteq> []" "m_settlement_address m \<noteq> []"
    and "asset \<in> set (m_accepted_assets m)" "chain \<in> set (m_accepted_chains m)" "0 < amount" "amount \<le> 1000000"
    and "fits 255 ref" "fits 20 asset" "fits 20 chain" "fits 255 (m_settlement_address m)"
    and "\<forall>r \<in> set (db_intents (gw_db g)). pi_created_at r < e_now (w_env (ax_webhook x))"
  shows "\<exists>g' resp p. handle x (PostPublicIntent (Some mid) \<lparr> ib_merchant_id = None, ib_order_ref = Some ref,
        ib_target_amount = Some amount, ib_target_asset = Some asset, ib_target_chain = Some chain,
        ib_accepted_assets = assets \<rparr>) g = (g', resp)
     \<and> ap_status resp = 201 \<and> findAwaitingDepositAt (gw_db g') chain (m_settlement_address m) = Some p
     \<and> pi_state p = QUOTED \<and> pi_merchant_id p = mid \<and> \<bar>pi_target_amount p - amount\<bar> \<le> 1 / 200000000
     \<and> pi_id p \<notin> pi_id ` set (db_intents (gw_db g)) \<and> gw_ok g'
     \<and> (\<exists>r \<in> set (db_intents (gw_db g')). p = mapRow r \<and> pi_deposit_address r = Some (m_settlement_address m))"
proof -
  let ?w = "ax_webhook x" and ?addr = "m_settlement_address m" and ?d = "public_order mid ref amount asset chain assets"
  have d: "ni_merchant_id ?d = mid" "ni_order_ref ?d = ref" "ni_target_asset ?d = asset" "ni_target_chain ?d = chain"
    "ni_target_amount ?d = amount"
    by (simp_all add: public_order_def)
  have acc: "order_acceptable (db_merchants (gw_db g)) ?d" using assms by (simp add: order_acceptable_def d)
  obtain g1 g' row r q y where co: "checkout x ?d g = (g', Inr (mapRow row, r, q))"
    "db_intents (gw_db g1) = db_intents (gw_db g) @ [row]" "gw_ok g1" "gw_ok g'"
    "row = new_row (w_env ?w) (e_uuid (w_env ?w) (db_ids (gw_db g))) ?d y" "\<bar>y - amount\<bar> \<le> 1 / 200000000"
    "pi_id row \<notin> pi_id ` set (db_intents (gw_db g))" "generateQuote ?w (pi_id row) 1 ?addr asset chain g1 = (g', Inr (r, q))"
    "pi_id ` set (db_intents (gw_db g')) = pi_id ` set (db_intents (gw_db g1))"
    by (rule checkout_succeeds [OF assms(1,2), where m = m and d = ?d]) (use assms acc in \<open>simp_all add: d\<close>)
  have dist: "distinct (map pi_id (db_intents (gw_db g')))" "distinct (map pi_id (db_intents (gw_db g1)))"
    using co(3,4) by (simp_all add: gw_ok_distinct)
  note origin = quote_keeps_orders [OF co(3,8,4,9)]
  obtain r0 where r0: "tbl_find (\<lambda>r. pi_id r = pi_id row) (db_intents (gw_db g')) = Some r0" "pi_state r0 = QUOTED"
      "pi_deposit_address r0 = Some ?addr" "pi_deposit_chain r0 = Some chain"
    by (rule generateQuote_row [OF co(3,8)])
  have r0m: "r0 \<in> set (db_intents (gw_db g'))" "pi_id r0 = pi_id row" using tbl_find_SomeD [OF r0(1)] by simp_all
  have same: "same_order row r0"
    by (rule origin [OF r0m(1)]) (use tbl_find_unique [OF dist(2)] r0m(2) co(2) in \<open>metis in_set_conv_decomp option.inject\<close>)
  have made: "pi_created_at row = e_now (w_env ?w)" "pi_merchant_id row = mid" "pi_target_amount row = y"
    by (simp_all add: co(5) new_row_def d)
  have "findAwaitingDepositAt (gw_db g') chain ?addr = Some (mapRow r0)"
  proof (rule newest_awaiting_found [OF r0m(1) r0(4,3)])
    fix h assume h: "h \<in> set (db_intents (gw_db g'))" "pi_created_at r0 \<le> pi_created_at h"
    obtain z where z: "z \<in> set (db_intents (gw_db g1))" "pi_id z = pi_id h" "same_order z h" by (rule origin [OF h(1)])
    with h(2) have "z = row" using assms(17) co(2) same made(1) by (force simp: same_order_def)
    then show "h = r0" using tbl_find_unique [OF dist(1) h(1)] r0(1) z(2) by simp
  qed (simp add: r0(2) expects_deposit_def)
  moreover have "pi_merchant_id r0 = mid" "\<bar>pi_target_amount r0 - amount\<bar> \<le> 1 / 200000000"
    using same made co(6) by (simp_all add: same_order_def)
  moreover have "\<exists>resp. handle x (PostPublicIntent (Some mid) \<lparr> ib_merchant_id = None, ib_order_ref = Some ref,
        ib_target_amount = Some amount, ib_target_asset = Some asset, ib_target_chain = Some chain,
        ib_accepted_assets = assets \<rparr>) g = (g', resp) \<and> ap_status resp = 201"
    using assms co(1) by (simp add: post_public_intent_def resolve_merchant_def truthy_num_def text_or_def Let_def public_order_def)
  ultimately show ?thesis
    using r0(2,3) r0m co(4,7) by (metis mapRow_simps(1,2,4,5))
qed

definition ex_api :: "int \<Rightarrow> api_env" where
  "ex_api t = \<lparr> ax_webhook = ex_env t, ax_auth = ex_auth t, ax_collate = (\<lambda>_. 0), ax_db_error = (\<lambda>_. (''23505'', ''refused'')) \<rparr>"

text \<open>A merchant that quotes the new intent when its webhook arrives overtakes the checkout: the customer is refused as
  for an invalid order, although the intent was made.\<close>

lemma checkout_overtaken:
  "case checkout_between (\<lambda>g. fst (generateQuote (ex_env 1) (ex_uuid 0) 2 ''0xother'' ''USDC'' ''1'' g)) (ex_api 1)
      (public_order ''m'' ''o1'' 100 ''USDC'' ''1'' None) (empty_gateway [ex_merchant]) of
     (g', Inl (ValidationError msg)) \<Rightarrow> map pi_state (db_intents (gw_db g')) = [QUOTED]
   | _ \<Rightarrow> False"
  by code_simp

theorem client_errors_change_nothing_witness:
  "\<exists>r. handle (ex_api 1) (GetIntent \<lparr> hd_api_key = None, hd_authorization = None \<rparr> ''i'') (empty_gateway [ex_merchant])
     = (empty_gateway [ex_merchant], r) \<and> ap_status r = 401"
proof -
  let ?q = "GetIntent \<lparr> hd_api_key = None, hd_authorization = None \<rparr> ''i''"
  obtain g' r where r: "handle (ex_api 1) ?q (empty_gateway [ex_merchant]) = (g', r)" by fastforce
  then have st: "ap_status r = 401"
    by (auto simp: authMiddleware_def authenticate_def unauthorized_def)
  have "g' = empty_gateway [ex_merchant]" by (rule client_errors_change_nothing [OF r]) (simp_all add: st)
  with r st show ?thesis by simp
qed

section \<open>What a token opens\<close>

text \<open>A token made from the identifier of any merchant, which the public merchant list shows, and a clock
  is accepted for 24 hours, and its bearer reads every intent of every merchant with its events.\<close>

theorem made_up_token_reads_every_intent:
  assumes "distinct (map m_id (db_merchants (gw_db g)))" "m \<in> set (db_merchants (gw_db g))"
    and "now_seconds (ax_auth x) \<le> now_seconds e + 86400" "findById (gw_db g) i = Some p"
  shows "handle x (GetIntent \<lparr> hd_api_key = None, hd_authorization = Some (''Bearer '' @ generateToken e (m_id m)) \<rparr> i) g
     = (g, snd (get_intent i m g)) \<and> ap_status (snd (get_intent i m g)) = 200
     \<and> (\<exists>fs. ap_body (snd (get_intent i m g)) = JsonBody (JObj fs)
          \<and> map_of fs ''merchant_id'' = Some (JStr (pi_merchant_id p))
          \<and> map_of fs ''events'' = Some (JArr (map event_json (getEvents (gw_db g) i))))"
proof -
  have "authenticate (ax_auth x) \<lparr> hd_api_key = None, hd_authorization = Some (''Bearer '' @ generateToken e (m_id m)) \<rparr>
      (db_merchants (gw_db g)) = Some m"
    using assms(1-3) by (simp add: authenticate_def js_starts_with_def validateToken_generateToken tbl_find_unique)
  then show ?thesis
    using assms(4) by (simp add: authMiddleware_def get_intent_def getIntentWithEvents_def reply_def)
qed

theorem made_up_token_reads_every_intent_witness:
  "\<exists>r. handle (ex_api 2) (GetIntent \<lparr> hd_api_key = None,
        hd_authorization = Some (''Bearer '' @ generateToken (ex_auth 0) ''m'') \<rparr> (ex_uuid 0))
      (fold service_step (take 1 ex_ops) (empty_gateway [ex_merchant]))
    = (fold service_step (take 1 ex_ops) (empty_gateway [ex_merchant]), r) \<and> ap_status r = 200"
proof -
  let ?g = "fold service_step (take 1 ex_ops) (empty_gateway [ex_merchant])"
  have "map m_id (db_merchants (gw_db ?g)) = [''m''] \<and> findById (gw_db ?g) (ex_uuid 0) \<noteq> None" by code_simp
  then obtain m p where m: "db_merchants (gw_db ?g) = [m]" "m_id m = ''m''" "findById (gw_db ?g) (ex_uuid 0) = Some p"
    by (auto simp: map_eq_Cons_conv)
  have "now_seconds (ax_auth (ex_api 2)) \<le> now_seconds (ex_auth 0) + 86400" by (simp add: now_seconds_def ex_auth_def ex_api_def)
  from made_up_token_reads_every_intent [OF _ _ this m(3), of m] m(1,2) show ?thesis by auto
qed

end
