(* ===== verification/Intent_Refinement.thy ===== *)
theory Intent_Refinement
  imports Intent_Properties
begin

text \<open>
  The service as an implementation of the intent life cycle: an abstract machine that knows only the
  state of each intent and moves by events, and a simulation that takes every call of the service,
  whatever it reads, refuses, writes or throws half way, to a run of that machine whose steps are the
  events the call appended to the log.
\<close>

section \<open>The life cycle\<close>

type_synonym life_step = "string \<times> event_type"

text \<open>A creation event makes a new intent; every other event moves one along the table.\<close>

fun life_event :: "life_step \<Rightarrow> (string \<rightharpoonup> intent_state) \<Rightarrow> (string \<rightharpoonup> intent_state) option" where
  "life_event (i, ty) m = (case m i of
     None \<Rightarrow> if ty = INTENT_CREATED then Some (m(i \<mapsto> CREATED)) else None
   | Some s \<Rightarrow> if allowed s (getExpectedNextState ty) then Some (m(i \<mapsto> getExpectedNextState ty)) else None)"

primrec life_run :: "life_step list \<Rightarrow> (string \<rightharpoonup> intent_state) \<Rightarrow> (string \<rightharpoonup> intent_state) option" where
  "life_run [] m = Some m"
| "life_run (l # ls) m = Option.bind (life_event l m) (life_run ls)"

lemma life_run_append: "life_run (xs @ ys) m = Option.bind (life_run xs m) (life_run ys)"
  by (induction xs arbitrary: m) (auto split: bind_splits)

text \<open>The events each call may leave in the log, in order.\<close>

definition deposit_events :: "event_type list" where
  "deposit_events = [QUOTE_EXPIRED, UNDERPAYMENT_DETECTED, OVERPAYMENT_DETECTED, DEPOSIT_DETECTED]"

definition one_of :: "string \<Rightarrow> event_type list \<Rightarrow> life_step list \<Rightarrow> bool" where
  "one_of i tys ls = (ls = [] \<or> (\<exists>ty \<in> set tys. ls = [(i, ty)]))"

fun may_emit :: "service_op \<Rightarrow> life_step list \<Rightarrow> bool" where
  "may_emit (S_createIntent w d) ls = (ls = [] \<or> map snd ls = [INTENT_CREATED])"
| "may_emit (S_generateQuote w i r a s c) ls = one_of i [QUOTE_GENERATED] ls"
| "may_emit (S_awaitPayment w i) ls = one_of i [PAYMENT_AWAITED] ls"
| "may_emit (S_detectDeposit w i tx a sc sa) ls = one_of i deposit_events ls"
| "may_emit (S_recordDeposit w i tx a sc sa) ls =
     (one_of i deposit_events ls \<or> ls \<noteq> [] \<and> hd ls = (i, PAYMENT_AWAITED) \<and> one_of i deposit_events (tl ls))"
| "may_emit (S_confirmDeposit w i n) ls = one_of i [CONFIRMATION_RECEIVED] ls"
| "may_emit (S_selectRoute w i r p fee tm) ls = one_of i [ROUTE_SELECTED] ls"
| "may_emit (S_initiateSettlement w i a) ls = one_of i [SETTLEMENT_INITIATED] ls"
| "may_emit (S_confirmSettlement w i tx) ls = one_of i [SETTLEMENT_CONFIRMED] ls"
| "may_emit (S_failIntent w i reason err) ls = one_of i [EV_FAILED] ls"
| "may_emit (S_processExpiredQuotes w) ls = list_all (\<lambda>l. snd l = QUOTE_EXPIRED) ls"
| "may_emit (S_processRetries w) ls = (ls = [])"

section \<open>The simulation\<close>

definition intent_states :: "intent_db \<Rightarrow> string \<rightharpoonup> intent_state" where
  "intent_states db i = map_option pi_state (tbl_find (\<lambda>r. pi_id r = i) (db_intents db))"

definition event_label :: "intent_event \<Rightarrow> life_step" where
  "event_label v = (ev_intent_id v, ev_type v)"

definition refines :: "(life_step list \<Rightarrow> bool) \<Rightarrow> intent_db \<Rightarrow> intent_db \<Rightarrow> bool" where
  "refines P db db' = (db_ok db \<longrightarrow> db_ok db' \<and> (\<exists>evs. db_events db' = db_events db @ evs
     \<and> P (map event_label evs) \<and> life_run (map event_label evs) (intent_states db) = Some (intent_states db')))"

lemma refines_idle:
  assumes "P []" "db_intents db' = db_intents db" "db_events db' = db_events db" "db_merchants db' = db_merchants db"
  shows "refines P db db'"
  unfolding refines_def
proof (intro impI conjI exI [of _ "[]"])
  show "db_ok db'" if "db_ok db" using that assms(2-4) by (simp add: db_ok_def)
  have "intent_states db' = intent_states db" using assms(2) by (simp add: intent_states_def fun_eq_iff)
  then show "life_run (map event_label []) (intent_states db) = Some (intent_states db')" by simp
qed (use assms in simp_all)

lemma refines_trans:
  assumes "refines P a b" "refines Q b c" "\<And>xs ys. P xs \<Longrightarrow> Q ys \<Longrightarrow> R (xs @ ys)"
  shows "refines R a c"
  unfolding refines_def
proof (intro impI)
  assume "db_ok a"
  with assms(1) obtain xs where b: "db_ok b" "db_events b = db_events a @ xs" "P (map event_label xs)"
      "life_run (map event_label xs) (intent_states a) = Some (intent_states b)"
    by (auto simp: refines_def)
  with assms(2) obtain ys where c: "db_ok c" "db_events c = db_events b @ ys" "Q (map event_label ys)"
      "life_run (map event_label ys) (intent_states b) = Some (intent_states c)"
    by (auto simp: refines_def)
  show "db_ok c \<and> (\<exists>evs. db_events c = db_events a @ evs \<and> R (map event_label evs)
      \<and> life_run (map event_label evs) (intent_states a) = Some (intent_states c))"
    using b c assms(3) by (intro conjI exI [of _ "xs @ ys"]) (simp_all add: life_run_append)
qed

lemma refines_weaken: "refines P a b \<Longrightarrow> (\<And>ls. P ls \<Longrightarrow> Q ls) \<Longrightarrow> refines Q a b"
  unfolding refines_def by blast

lemma refines_transition: "refines (one_of i [ty]) db (fst (transition e i ty pl db))"
  unfolding refines_def
proof (intro impI conjI)
  assume ok: "db_ok db"
  obtain db' res where t: "transition e i ty pl db = (db', res)" by fastforce
  show "db_ok (fst (transition e i ty pl db))" using transition_ok [OF ok t] t by simp
  have dist: "distinct (map pi_id (db_intents db))" using ok by (simp add: db_ok_def)
  show "\<exists>evs. db_events (fst (transition e i ty pl db)) = db_events db @ evs
      \<and> one_of i [ty] (map event_label evs)
      \<and> life_run (map event_label evs) (intent_states db) = Some (intent_states (fst (transition e i ty pl db)))"
    using t dist
  proof (cases rule: transitionE)
    case refused
    then show ?thesis
      by (intro exI [of _ "[]"]) (simp add: t one_of_def intent_states_def fun_eq_iff)
  next
    case (written row)
    have "intent_states db' = (intent_states db)(i \<mapsto> getExpectedNextState ty)"
      using written(1) by (auto simp: intent_states_def fun_eq_iff written(4) st.find_updated st.find_other)
    moreover have "intent_states db i = Some (pi_state row)" using written(1) by (simp add: intent_states_def)
    ultimately show ?thesis
      using written(2)
      by (intro exI [of _ "[new_event (e_uuid e (db_ids db)) i ty pl (pi_version row + 1) (e_now e)]"])
        (simp add: t written(5) event_label_def one_of_def)
  qed
qed

lemma refines_create: "refines (\<lambda>ls. ls = [] \<or> map snd ls = [INTENT_CREATED]) db (fst (create_intent e d db))"
  unfolding refines_def
proof (intro impI conjI)
  assume ok: "db_ok db"
  obtain db' res where t: "create_intent e d db = (db', res)" by fastforce
  show "db_ok (fst (create_intent e d db))" using create_ok [OF ok t] t by simp
  show "\<exists>evs. db_events (fst (create_intent e d db)) = db_events db @ evs
      \<and> (map event_label evs = [] \<or> map snd (map event_label evs) = [INTENT_CREATED])
      \<and> life_run (map event_label evs) (intent_states db) = Some (intent_states (fst (create_intent e d db)))"
    using t
  proof (cases rule: createE)
    case refused
    then show ?thesis by (intro exI [of _ "[]"]) (simp add: t intent_states_def fun_eq_iff)
  next
    case (written amount i ei)
    have none: "tbl_find (\<lambda>r. pi_id r = i) (db_intents db) = None"
      unfolding tbl_find_None_iff using written(4) by (metis image_eqI)
    then have "intent_states db' = (intent_states db)(i \<mapsto> CREATED)"
      by (auto simp: intent_states_def fun_eq_iff written(6) tbl_find_append split: option.splits)
    moreover have "intent_states db i = None" using none by (simp add: intent_states_def)
    ultimately show ?thesis
      by (intro exI [of _ "[new_event ei i INTENT_CREATED (create_payload d) 1 (e_now e)]"])
        (simp add: t written(7) event_label_def)
  qed
qed

lemma refines_updateQuote: "refines (\<lambda>ls. ls = []) db (fst (updateQuote e i rate x dep db))"
  unfolding refines_def
proof (intro impI conjI)
  assume ok: "db_ok db"
  obtain db' res where t: "updateQuote e i rate x dep db = (db', res)" by fastforce
  show "db_ok (fst (updateQuote e i rate x dep db))" using updateQuote_ok [OF ok t] t by simp
  show "\<exists>evs. db_events (fst (updateQuote e i rate x dep db)) = db_events db @ evs \<and> map event_label evs = []
      \<and> life_run (map event_label evs) (intent_states db) = Some (intent_states (fst (updateQuote e i rate x dep db)))"
    using t
  proof (cases rule: updateQuoteE)
    case refused
    then show ?thesis by (simp add: t)
  next
    case (written row rate')
    have "map_option pi_state (tbl_find (\<lambda>r. pi_id r = j) (db_intents db'))
        = map_option pi_state (tbl_find (\<lambda>r. pi_id r = j) (db_intents db))" for j
      by (cases "j = i") (simp_all add: written(3) qt.find_updated qt.find_other option.map_comp comp_def)
    then show ?thesis by (simp add: t written(3) intent_states_def fun_eq_iff)
  qed
qed

section \<open>Calls of the service\<close>

abbreviation sim :: "(life_step list \<Rightarrow> bool) \<Rightarrow> gateway \<Rightarrow> gateway \<Rightarrow> bool" where
  "sim P g g' \<equiv> refines P (gw_db g) (gw_db g')"

lemma sim_refl [simp, intro]: "P [] \<Longrightarrow> sim P g g"
  by (simp add: refines_idle)

lemma sim_andThen:
  assumes "sim P g (fst m)" "\<And>s v. sim Q s (fst (k s v))" "\<And>xs. P xs \<Longrightarrow> R xs" "\<And>xs ys. P xs \<Longrightarrow> Q ys \<Longrightarrow> R (xs @ ys)"
  shows "sim R g (fst (andThen m k))"
proof (cases m)
  case (Pair s r)
  show ?thesis
  proof (cases r)
    case (Inl x)
    with Pair assms(1,3) show ?thesis by (auto intro: refines_weaken)
  next
    case (Inr v)
    with Pair assms(1) have "sim P g s" by simp
    then have "refines R (gw_db g) (gw_db (fst (k s v)))"
      by (rule refines_trans [where Q = Q]) (rule assms(2), rule assms(4))
    then show ?thesis by (simp add: Pair Inr)
  qed
qed

lemma sim_andThen_idle:
  assumes "sim P g (fst m)" "\<And>s v. sim (\<lambda>ls. ls = []) s (fst (k s v))"
  shows "sim P g (fst (andThen m k))"
  by (rule sim_andThen [OF assms]) simp_all

lemma sim_idle_andThen:
  assumes "sim (\<lambda>ls. ls = []) g (fst m)" "\<And>s v. sim P s (fst (k s v))" "P []"
  shows "sim P g (fst (andThen m k))"
  by (rule sim_andThen [OF assms(1,2)]) (use assms(3) in simp_all)

lemma sim_on_db: "(\<And>db. refines P db (fst (f db))) \<Longrightarrow> sim P g (fst (on_db f g))"
  by (cases "f (gw_db g)") (simp add: on_db_def, metis fst_conv)

lemma sim_transition: "sim (one_of i [ty]) g (fst (svc_transition w i ty pl g))"
  unfolding svc_transition_def by (rule sim_on_db) (rule refines_transition)

lemma sim_deliver: "P [] \<Longrightarrow> sim P g (fst (deliverWebhook w p ty data g))"
  by (rule refines_idle) simp_all

lemma sim_transition_and_deliver: "sim (one_of i [ty]) g (fst (transition_and_deliver w i ty pl data g))"
  unfolding transition_and_deliver_def
  by (intro sim_andThen_idle sim_transition sim_deliver) simp_all

lemma one_of_nil [simp]: "one_of i tys []"
  by (simp add: one_of_def)

lemma one_of_mono: "one_of i [ty] ls \<Longrightarrow> ty \<in> set tys \<Longrightarrow> one_of i tys ls"
  by (auto simp: one_of_def)

lemma sim_createIntent: "sim (\<lambda>ls. ls = [] \<or> map snd ls = [INTENT_CREATED]) g (fst (createIntent w d g))"
proof -
  have "sim (\<lambda>ls. ls = [] \<or> map snd ls = [INTENT_CREATED]) g (fst (andThen (on_db (create_intent (w_env w) d) g)
      (\<lambda>g intent. andThen (deliverWebhook w intent INTENT_CREATED (pl intent) g) (\<lambda>g _. (g, Inr intent)))))" for pl
    by (intro sim_andThen_idle sim_on_db refines_create sim_deliver) simp_all
  then show ?thesis by (simp add: createIntent_def split: option.splits)
qed

lemma sim_generateQuote: "sim (one_of i [QUOTE_GENERATED]) g (fst (generateQuote w i rate addr asset chain g))"
proof -
  have "sim (one_of i [QUOTE_GENERATED]) g (fst (andThen (on_db (updateQuote (w_env w) i rate x dep) g) (\<lambda>g _.
      andThen (svc_transition w i QUOTE_GENERATED pl g) (\<lambda>g t.
      andThen (deliverWebhook w t QUOTE_GENERATED data g) (\<lambda>g _. (g, Inr (t, q)))))))" for x dep pl data and q :: quote
    by (rule sim_idle_andThen, rule sim_on_db, rule refines_updateQuote)
      (simp_all add: sim_andThen_idle sim_transition sim_deliver)
  then show ?thesis by (simp add: generateQuote_def Let_def split: option.splits)
qed

lemma sim_awaitPayment: "sim (one_of i [PAYMENT_AWAITED]) g (fst (awaitPayment w i g))"
  by (simp add: awaitPayment_def sim_transition split: option.splits)

lemma sim_detectDeposit: "sim (one_of i deposit_events) g (fst (detectDeposit w i tx a sc sa g))"
proof -
  have expired: "sim (one_of i deposit_events) g (fst (andThen (svc_transition w i QUOTE_EXPIRED pl g)
      (\<lambda>g _. (g, Inl (QuoteExpiredError i) :: payment_intent outcome))))" for pl
    by (rule sim_andThen_idle, rule refines_weaken, rule sim_transition)
      (auto simp: deposit_events_def intro: one_of_mono)
  have moved: "sim (one_of i deposit_events) g (fst (transition_and_deliver w i ty pl data g))"
    if "ty \<in> set deposit_events" for ty pl data
    by (rule refines_weaken, rule sim_transition_and_deliver) (rule one_of_mono [OF _ that])
  show ?thesis
    by (auto simp: detectDeposit_def Let_def split: option.splits intro!: expired moved)
      (simp_all add: deposit_events_def)
qed

definition record_events :: "string \<Rightarrow> life_step list \<Rightarrow> bool" where
  "record_events i ls =
     (one_of i deposit_events ls \<or> ls \<noteq> [] \<and> hd ls = (i, PAYMENT_AWAITED) \<and> one_of i deposit_events (tl ls))"

lemma sim_recordDeposit: "sim (record_events i) g (fst (recordDeposit w i tx a sc sa g))"
proof -
  have tail: "sim (one_of i deposit_events) g (fst (case detectDeposit w i tx a sc sa g of
        (g, Inr p) \<Rightarrow> (g, Inr p)
      | (g, Inl x) \<Rightarrow> (case x of
           QuoteExpiredError _ \<Rightarrow> (case findById (gw_db g) i of Some expired \<Rightarrow> (g, Inr expired)
                                     | None \<Rightarrow> (g, Inl x))
         | _ \<Rightarrow> (g, Inl x))))" for g :: gateway
    using sim_detectDeposit [of i g w tx a sc sa]
    by (auto split: prod.splits sum.splits gateway_error.splits option.splits)
  have "sim (record_events i) g (fst (andThen (awaitPayment w i g) (\<lambda>g _. case detectDeposit w i tx a sc sa g of
        (g, Inr p) \<Rightarrow> (g, Inr p)
      | (g, Inl x) \<Rightarrow> (case x of
           QuoteExpiredError _ \<Rightarrow> (case findById (gw_db g) i of Some expired \<Rightarrow> (g, Inr expired)
                                     | None \<Rightarrow> (g, Inl x))
         | _ \<Rightarrow> (g, Inl x)))))"
    by (rule sim_andThen [OF sim_awaitPayment tail]) (auto simp: record_events_def one_of_def)
  moreover note refines_weaken [OF tail, of "record_events i" g]
  ultimately show ?thesis
    by (simp add: recordDeposit_def record_events_def split: option.splits)
qed

lemma sim_handlers:
  "sim (one_of i [CONFIRMATION_RECEIVED]) g (fst (confirmDeposit w i n g))"
  "sim (one_of i [ROUTE_SELECTED]) g (fst (selectRoute w i r pr fee tm g))"
  "sim (one_of i [SETTLEMENT_INITIATED]) g (fst (initiateSettlement w i amt g))"
  "sim (one_of i [SETTLEMENT_CONFIRMED]) g (fst (confirmSettlement w i tx g))"
  "sim (one_of i [EV_FAILED]) g (fst (failIntent w i reason err g))"
  by (simp_all add: confirmDeposit_def selectRoute_def initiateSettlement_def confirmSettlement_def
      failIntent_def sim_transition_and_deliver split: option.splits)

lemma sim_fold:
  assumes "\<And>x g. sim P g (f x g)" "P []" "\<And>xs ys. P xs \<Longrightarrow> P ys \<Longrightarrow> P (xs @ ys)"
  shows "sim P g (fold f xs g)"
proof (induction xs arbitrary: g)
  case (Cons x xs)
  show ?case using refines_trans [OF assms(1) Cons.IH, of P] assms(3) by simp
qed (simp add: assms(2))

lemma sim_expire_one: "sim (list_all (\<lambda>l. snd l = QUOTE_EXPIRED)) g (expire_one w p g)"
  unfolding expire_one_def
  by (rule sim_andThen_idle, rule refines_weaken, rule sim_transition)
    (auto simp: one_of_def intro: sim_deliver)

lemma sim_processExpiredQuotes: "sim (list_all (\<lambda>l. snd l = QUOTE_EXPIRED)) g (fst (processExpiredQuotes w g))"
  by (simp add: processExpiredQuotes_def Let_def sim_fold sim_expire_one)

lemma sim_processRetries: "sim (\<lambda>ls. ls = []) g (fst (processRetries w g))"
  by (simp add: processRetries_def Let_def sim_fold refines_idle)

lemmas sims = sim_createIntent sim_generateQuote sim_awaitPayment sim_detectDeposit sim_recordDeposit sim_handlers
  sim_processExpiredQuotes sim_processRetries

lemma refines_step: "refines (may_emit op) (gw_db g) (gw_db (service_step op g))"
  by (cases op; simp only: service_step.simps; rule refines_weaken, rule sims, simp add: record_events_def)

section \<open>A call that returns has left its event\<close>

text \<open>The calls that return the moved intent did not throw; \<open>recordDeposit\<close> and the sweeps also return without a move.\<close>

fun returned :: "service_op \<Rightarrow> gateway \<Rightarrow> bool" where
  "returned (S_createIntent w d) g = (\<not> isl (snd (createIntent w d g)))"
| "returned (S_generateQuote w i r a s c) g = (\<not> isl (snd (generateQuote w i r a s c g)))"
| "returned (S_awaitPayment w i) g = (\<not> isl (snd (awaitPayment w i g)))"
| "returned (S_detectDeposit w i tx a sc sa) g = (\<not> isl (snd (detectDeposit w i tx a sc sa g)))"
| "returned (S_recordDeposit w i tx a sc sa) g = False"
| "returned (S_confirmDeposit w i n) g = (\<not> isl (snd (confirmDeposit w i n g)))"
| "returned (S_selectRoute w i r p f t) g = (\<not> isl (snd (selectRoute w i r p f t g)))"
| "returned (S_initiateSettlement w i a) g = (\<not> isl (snd (initiateSettlement w i a g)))"
| "returned (S_confirmSettlement w i tx) g = (\<not> isl (snd (confirmSettlement w i tx g)))"
| "returned (S_failIntent w i r x) g = (\<not> isl (snd (failIntent w i r x g)))"
| "returned (S_processExpiredQuotes w) g = False"
| "returned (S_processRetries w) g = False"

abbreviation logged :: "gateway \<Rightarrow> nat" where
  "logged g \<equiv> length (db_events (gw_db g))"

definition adds_event :: "gateway \<Rightarrow> gateway \<times> 'a outcome \<Rightarrow> bool" where
  "adds_event g m = (logged g \<le> logged (fst m) \<and> (\<not> isl (snd m) \<longrightarrow> logged g < logged (fst m)))"

lemma adds_event_error [simp]: "adds_event g (g, Inl x)"
  by (simp add: adds_event_def)

lemma adds_event_andThen:
  assumes "adds_event g m" "\<And>s v. logged s \<le> logged (fst (k s v))"
  shows "adds_event g (andThen m k)"
proof (cases "snd m")
  case (Inr v)
  with assms(1) have "logged g < logged (fst m)" by (simp add: adds_event_def)
  with assms(2) [of "fst m" v] Inr show ?thesis
    by (cases m) (simp add: adds_event_def)
qed (use assms(1) in \<open>cases m; simp add: adds_event_def\<close>)

lemma andThen_adds_event:
  assumes "logged g \<le> logged (fst m)" "\<And>s v. adds_event s (k s v)"
  shows "adds_event g (andThen m k)"
proof (cases "snd m")
  case (Inr v)
  with assms(1) assms(2) [of "fst m" v] show ?thesis
    by (cases m) (auto simp: adds_event_def)
qed (use assms(1) in \<open>cases m; simp add: adds_event_def\<close>)

lemma transition_adds: "adds_event g (svc_transition w i ty pl g)"
  by (auto simp: svc_transition_def on_db_def adds_event_def transition_def Let_def
      split: option.splits dest: tbl_insert_SomeD)

lemma create_adds: "adds_event g (on_db (create_intent e d) g)"
  by (auto simp: on_db_def adds_event_def create_intent_def Let_def split: option.splits dest: tbl_insert_SomeD)

lemma updateQuote_logged: "logged g \<le> logged (fst (on_db (updateQuote e i r x dep) g))"
  by (simp add: on_db_def updateQuote_def split: option.splits)

lemma deliver_logged: "logged (fst (andThen (deliverWebhook w p ty data s) (\<lambda>g _. (g, Inr v)))) = logged s"
  by (rule andThen_inv [where P = "\<lambda>g. logged g = logged s"]) simp_all

lemma transition_and_deliver_adds: "adds_event g (transition_and_deliver w i ty pl data g)"
  unfolding transition_and_deliver_def by (intro adds_event_andThen transition_adds) (simp add: deliver_logged)

lemma createIntent_adds: "adds_event g (createIntent w d g)"
  by (auto simp: createIntent_def deliver_logged split: option.splits intro!: adds_event_andThen create_adds)

lemma generateQuote_adds: "adds_event g (generateQuote w i r a s c g)"
proof -
  have "adds_event g (andThen (on_db (updateQuote (w_env w) i r x dep) g) (\<lambda>g _.
      andThen (svc_transition w i QUOTE_GENERATED pl g) (\<lambda>g t.
      andThen (deliverWebhook w t QUOTE_GENERATED data g) (\<lambda>g _. (g, Inr (t, q))))))" for x dep pl data and q :: quote
    by (rule andThen_adds_event, rule updateQuote_logged, rule adds_event_andThen, rule transition_adds)
      (simp add: deliver_logged)
  then show ?thesis by (simp add: generateQuote_def Let_def split: option.splits)
qed

lemma detectDeposit_adds: "adds_event g (detectDeposit w i tx a sc sa g)"
proof -
  have "adds_event g (andThen (svc_transition w i ty pl g) (\<lambda>g _. (g, Inl x) :: gateway \<times> payment_intent outcome))" for ty pl x
    by (intro adds_event_andThen transition_adds) simp
  then show ?thesis
    by (simp add: detectDeposit_def Let_def transition_and_deliver_adds split: option.splits)
qed

lemma returned_adds: "returned op g \<Longrightarrow> logged g < logged (service_step op g)"
  using createIntent_adds generateQuote_adds detectDeposit_adds
  by (cases op) (auto simp: adds_event_def awaitPayment_def confirmDeposit_def selectRoute_def initiateSettlement_def
      confirmSettlement_def failIntent_def split: option.splits if_splits
      intro: transition_adds [unfolded adds_event_def, THEN conjunct2, rule_format]
        transition_and_deliver_adds [unfolded adds_event_def, THEN conjunct2, rule_format])

section \<open>The refinement\<close>

text \<open>C2: whatever a call of the service reads, refuses, writes or leaves half done, the events it appended to
  the log are ones it may emit, they are a run of the life cycle from the states the intents had to
  the states they have, and a call that returned the moved intent appended at least one.\<close>

theorem service_refines_life_cycle:
  assumes "db_ok (gw_db g)"
  shows "\<exists>evs. db_events (gw_db (service_step op g)) = db_events (gw_db g) @ evs
     \<and> may_emit op (map event_label evs) \<and> (returned op g \<longrightarrow> evs \<noteq> [])
     \<and> life_run (map event_label evs) (intent_states (gw_db g)) = Some (intent_states (gw_db (service_step op g)))"
proof -
  from refines_step [of op g] assms obtain evs where evs:
    "db_events (gw_db (service_step op g)) = db_events (gw_db g) @ evs" "may_emit op (map event_label evs)"
    "life_run (map event_label evs) (intent_states (gw_db g)) = Some (intent_states (gw_db (service_step op g)))"
    by (auto simp: refines_def)
  moreover have "evs \<noteq> []" if "returned op g" using returned_adds [OF that] evs(1) by auto
  ultimately show ?thesis by blast
qed

theorem service_refines_life_cycle_witness:
  "\<exists>evs. db_events (gw_db (service_step (S_confirmDeposit (ex_env 3) (ex_uuid 0) 12)
        (fold service_step (take 3 ex_ops) (empty_gateway [ex_merchant]))))
      = db_events (gw_db (fold service_step (take 3 ex_ops) (empty_gateway [ex_merchant]))) @ evs
     \<and> map event_label evs = [(ex_uuid 0, CONFIRMATION_RECEIVED)]"
proof -
  let ?g = "fold service_step (take 3 ex_ops) (empty_gateway [ex_merchant])"
  have "db_ok (gw_db ?g)" using svc.inv_run [OF empty_gateway_ok] by (simp add: gw_ok_def)
  moreover have "returned (S_confirmDeposit (ex_env 3) (ex_uuid 0) 12) ?g" by code_simp
  ultimately obtain evs where "db_events (gw_db (service_step (S_confirmDeposit (ex_env 3) (ex_uuid 0) 12) ?g))
      = db_events (gw_db ?g) @ evs" "may_emit (S_confirmDeposit (ex_env 3) (ex_uuid 0) 12) (map event_label evs)" "evs \<noteq> []"
    using service_refines_life_cycle [of ?g "S_confirmDeposit (ex_env 3) (ex_uuid 0) 12"] by blast
  then show ?thesis by (auto simp: one_of_def)
qed

end
