(* ===== verification/Worker_Boot.thy ===== *)
theory Worker_Boot
  imports Worker Evm_Client Simulated_Clients Js_Text
begin

text \<open>
  How the worker process comes up and goes down: the configuration read from the environment
  (\<open>packages/worker/src/config.ts\<close>), the chain clients, registry and queue options composed from it
  (\<open>composition.ts\<close>) and the shutdown protocol of the entry point (\<open>index.ts\<close>).  An environment maps a
  variable to its text; the process id and the random part of the default worker id are a parameter.
  Integers are exact, with the range in which \<open>Number.isFinite\<close> holds.
\<close>

section \<open>Configuration\<close>

datatype chain_family = FamilyEvm | FamilyTron | FamilySolana

record chain_runtime =
  rc_chain_id :: string
  rc_chain_name :: string
  rc_rpc_url :: string
  rc_depth :: int
  rc_block_time :: int
  rc_family :: chain_family

record worker_config =
  wc_node_env :: string
  wc_host :: string
  wc_port :: int
  wc_log_level :: string
  wc_worker_id :: string
  wc_poll_interval_ms :: int
  wc_concurrency :: int
  wc_job_max_attempts :: int
  wc_job_backoff_base_ms :: int
  wc_job_backoff_max_ms :: int
  wc_visibility_timeout_ms :: int
  wc_watcher_refresh_ms :: int
  wc_confirmation_check_ms :: int
  wc_max_watcher_lag_blocks :: int
  wc_chains :: "chain_runtime list"

record known_chain =
  kc_chain_id :: string
  kc_chain_name :: string
  kc_env_key :: string
  kc_depth_env_key :: string
  kc_default_depth :: int
  kc_block_time :: int
  kc_family :: chain_family

definition KNOWN_CHAINS :: "known_chain list" where
  "KNOWN_CHAINS =
     [\<lparr> kc_chain_id = ''11155111'', kc_chain_name = ''sepolia'', kc_env_key = ''ETHEREUM_RPC_URL'',
        kc_depth_env_key = ''ETHEREUM_CONFIRMATION_DEPTH'', kc_default_depth = 12, kc_block_time = 12, kc_family = FamilyEvm \<rparr>,
      \<lparr> kc_chain_id = ''84532'', kc_chain_name = ''base-sepolia'', kc_env_key = ''BASE_RPC_URL'',
        kc_depth_env_key = ''BASE_CONFIRMATION_DEPTH'', kc_default_depth = 1, kc_block_time = 2, kc_family = FamilyEvm \<rparr>,
      \<lparr> kc_chain_id = ''421614'', kc_chain_name = ''arbitrum-sepolia'', kc_env_key = ''ARBITRUM_RPC_URL'',
        kc_depth_env_key = ''ARBITRUM_CONFIRMATION_DEPTH'', kc_default_depth = 1, kc_block_time = 1, kc_family = FamilyEvm \<rparr>,
      \<lparr> kc_chain_id = ''80002'', kc_chain_name = ''polygon-amoy'', kc_env_key = ''POLYGON_RPC_URL'',
        kc_depth_env_key = ''POLYGON_CONFIRMATION_DEPTH'', kc_default_depth = 64, kc_block_time = 2, kc_family = FamilyEvm \<rparr>,
      \<lparr> kc_chain_id = ''tron-nile'', kc_chain_name = ''tron-nile'', kc_env_key = ''TRON_FULL_NODE'',
        kc_depth_env_key = ''TRON_CONFIRMATION_DEPTH'', kc_default_depth = 19, kc_block_time = 3, kc_family = FamilyTron \<rparr>,
      \<lparr> kc_chain_id = ''solana-devnet'', kc_chain_name = ''solana-devnet'', kc_env_key = ''SOLANA_RPC_URL'',
        kc_depth_env_key = ''SOLANA_CONFIRMATION_DEPTH'', kc_default_depth = 1, kc_block_time = 1, kc_family = FamilySolana \<rparr>]"

definition configuration_error :: "string \<Rightarrow> js_error" where
  "configuration_error msg = JsError ''ConfigurationError'' msg"

text \<open>An integer numeral that large is \<open>Infinity\<close> as a double.\<close>

definition number_is_finite :: "int \<Rightarrow> bool" where
  "number_is_finite n = (\<bar>n\<bar> < 2 ^ 1024 - 2 ^ 970)"

definition readInt :: "(string \<Rightarrow> string option) \<Rightarrow> string \<Rightarrow> int \<Rightarrow> int \<Rightarrow> js_error + int" where
  "readInt env key fallback lo =
     (case truthy_str (env key) of
        None \<Rightarrow> Inr fallback
      | Some raw \<Rightarrow>
          let bad = Inl (configuration_error (key @ '' must be an integer >= '' @ int_text lo @ '' (got '' @ [CHR 0x22] @ raw
            @ [CHR 0x22] @ '')''))
          in (case parse_int raw of
                None \<Rightarrow> bad
              | Some parsed \<Rightarrow> if \<not> number_is_finite parsed \<or> parsed < lo then bad else Inr parsed))"

definition readString :: "(string \<Rightarrow> string option) \<Rightarrow> string \<Rightarrow> string \<Rightarrow> string" where
  "readString env key fallback = (case truthy_str (env key) of None \<Rightarrow> fallback | Some raw \<Rightarrow> raw)"

text \<open>The loop over the known chains; a chain without an endpoint is not enabled.\<close>

fun load_chains :: "(string \<Rightarrow> string option) \<Rightarrow> known_chain list \<Rightarrow> js_error + chain_runtime list" where
  "load_chains env [] = Inr []"
| "load_chains env (c # cs) =
     (case truthy_str (env (kc_env_key c)) of
        None \<Rightarrow> load_chains env cs
      | Some rpcUrl \<Rightarrow>
          (case readInt env (kc_depth_env_key c) (kc_default_depth c) 1 of
             Inl x \<Rightarrow> Inl x
           | Inr depth \<Rightarrow>
               map_sum id ((#) \<lparr> rc_chain_id = kc_chain_id c, rc_chain_name = kc_chain_name c, rc_rpc_url = rpcUrl,
                 rc_depth = depth, rc_block_time = kc_block_time c, rc_family = kc_family c \<rparr>) (load_chains env cs)))"

definition sum_bind :: "'e + 'a \<Rightarrow> ('a \<Rightarrow> 'e + 'b) \<Rightarrow> 'e + 'b" where
  "sum_bind m k = (case m of Inl x \<Rightarrow> Inl x | Inr v \<Rightarrow> k v)"

definition loadConfig :: "string \<Rightarrow> (string \<Rightarrow> string option) \<Rightarrow> js_error + worker_config" where
  "loadConfig sfx env =
     sum_bind (load_chains env KNOWN_CHAINS) (\<lambda>cs.
     if cs = [] then Inl (configuration_error
       (''No chain RPC endpoints configured. Set at least one of: '' @ join '', '' (map kc_env_key KNOWN_CHAINS)))
     else
       sum_bind (readInt env ''WORKER_CONCURRENCY'' 4 1) (\<lambda>concurrency.
       sum_bind (readInt env ''PORT'' 3000 1) (\<lambda>port.
       sum_bind (readInt env ''WORKER_POLL_INTERVAL_MS'' 5000 100) (\<lambda>poll.
       sum_bind (readInt env ''JOB_MAX_ATTEMPTS'' 5 1) (\<lambda>attempts.
       sum_bind (readInt env ''JOB_BACKOFF_BASE_MS'' 1000 1) (\<lambda>base.
       sum_bind (readInt env ''JOB_BACKOFF_MAX_MS'' 300000 1) (\<lambda>top.
       sum_bind (readInt env ''JOB_VISIBILITY_TIMEOUT_MS'' 120000 1000) (\<lambda>visibility.
       sum_bind (readInt env ''WATCHER_REFRESH_MS'' 30000 1000) (\<lambda>refresh_ms.
       sum_bind (readInt env ''CONFIRMATION_CHECK_MS'' 15000 1000) (\<lambda>check.
       sum_bind (readInt env ''MAX_WATCHER_LAG_BLOCKS'' 100 1) (\<lambda>lag.
       Inr \<lparr> wc_node_env = readString env ''NODE_ENV'' ''development'', wc_host = readString env ''HOST'' ''0.0.0.0'',
             wc_port = port, wc_log_level = readString env ''LOG_LEVEL'' ''info'',
             wc_worker_id = readString env ''WORKER_ID'' (''worker-'' @ sfx), wc_poll_interval_ms = poll,
             wc_concurrency = concurrency, wc_job_max_attempts = attempts, wc_job_backoff_base_ms = base,
             wc_job_backoff_max_ms = top, wc_visibility_timeout_ms = visibility, wc_watcher_refresh_ms = refresh_ms,
             wc_confirmation_check_ms = check, wc_max_watcher_lag_blocks = lag, wc_chains = cs \<rparr>)))))))))))"

definition knownChainEnvKeys :: "string list" where
  "knownChainEnvKeys = map kc_env_key KNOWN_CHAINS"

section \<open>Composition\<close>

datatype boot_client = EvmClient evm_config | TronClient tron_config | SolanaClient solana_config

text \<open>\<open>rpcUrl.replace(/^http/, 'ws')\<close>\<close>

definition ws_url :: "string \<Rightarrow> string" where
  "ws_url u = (if js_starts_with u ''http'' then ''ws'' @ drop 4 u else u)"

definition createChainClient :: "chain_runtime \<Rightarrow> boot_client" where
  "createChainClient c = (case rc_family c of
     FamilyEvm \<Rightarrow> EvmClient (new_evm_config (rc_chain_id c) (rc_chain_name c) (rc_rpc_url c)
       \<lparr> eo_depth = Some (rc_depth c), eo_block_time = Some (of_int (rc_block_time c)), eo_eip1559 = None \<rparr>)
   | FamilyTron \<Rightarrow> TronClient (DEFAULT_TRON_CONFIG\<lparr> tc_chain_id := rc_chain_id c, tc_chain_name := rc_chain_name c,
       tc_rpc_url := rc_rpc_url c, tc_depth := rc_depth c, tc_block_time := of_int (rc_block_time c) \<rparr>)
   | FamilySolana \<Rightarrow> SolanaClient (DEFAULT_SOLANA_CONFIG\<lparr> sc_chain_id := rc_chain_id c, sc_chain_name := rc_chain_name c,
       sc_rpc_url := rc_rpc_url c, sc_ws_url := ws_url (rc_rpc_url c), sc_depth := rc_depth c \<rparr>))"

fun client_id :: "boot_client \<Rightarrow> string" where
  "client_id (EvmClient c) = ec_chain_id c"
| "client_id (TronClient c) = tc_chain_id c"
| "client_id (SolanaClient c) = sc_chain_id c"

fun client_name :: "boot_client \<Rightarrow> string" where
  "client_name (EvmClient c) = ec_chain_name c"
| "client_name (TronClient c) = tc_chain_name c"
| "client_name (SolanaClient c) = sc_chain_name c"

fun getConfirmationDepth :: "boot_client \<Rightarrow> int" where
  "getConfirmationDepth (EvmClient c) = ec_depth c"
| "getConfirmationDepth (TronClient c) = tc_depth c"
| "getConfirmationDepth (SolanaClient c) = sc_depth c"

fun getBlockTime :: "boot_client \<Rightarrow> rat" where
  "getBlockTime (EvmClient c) = ec_block_time c"
| "getBlockTime (TronClient c) = tc_block_time c"
| "getBlockTime (SolanaClient c) = sc_slot_time c"

fun register_all :: "boot_client list \<Rightarrow> boot_client registry \<Rightarrow> js_error + boot_client registry" where
  "register_all [] r = Inr r"
| "register_all (c # cs) r = sum_bind (registry_register (client_id c) (client_name c) c r) (register_all cs)"

record worker_runtime =
  wr_registry :: "boot_client registry"
  wr_clients :: "boot_client list"
  wr_queue_options :: queue_options

definition queueOptions :: "worker_config \<Rightarrow> queue_options" where
  "queueOptions c = \<lparr> qo_worker_id = wc_worker_id c, qo_concurrency = nat (wc_concurrency c),
     qo_default_max_attempts = wc_job_max_attempts c, qo_backoff_base_ms = wc_job_backoff_base_ms c,
     qo_backoff_max_ms = wc_job_backoff_max_ms c, qo_visibility_timeout_ms = wc_visibility_timeout_ms c \<rparr>"

definition compose :: "worker_config \<Rightarrow> js_error + worker_runtime" where
  "compose c =
     (let clients = map createChainClient (wc_chains c) in
      map_sum id (\<lambda>r. \<lparr> wr_registry = r, wr_clients = clients, wr_queue_options = queueOptions c \<rparr>)
        (register_all clients empty_registry))"

section \<open>Shutdown\<close>

text \<open>
  The process after \<open>start\<close>: whether a shutdown has begun, whether the hard deadline is still armed, how it
  left (the first exit wins).  The drain succeeds, fails or is overtaken by the deadline.
\<close>

record process =
  pr_shutting_down :: bool
  pr_deadline :: bool
  pr_exit :: "int option"
  pr_stops :: nat

datatype process_event = Signal string | UncaughtException | UnhandledRejection | Drained | DrainFailed | DeadlineReached

definition new_process :: process where
  "new_process = \<lparr> pr_shutting_down = False, pr_deadline = False, pr_exit = None, pr_stops = 0 \<rparr>"

definition shutdown :: "process \<Rightarrow> process" where
  "shutdown p = (if pr_shutting_down p then p
     else p\<lparr> pr_shutting_down := True, pr_deadline := True, pr_stops := Suc (pr_stops p) \<rparr>)"

definition leave :: "int \<Rightarrow> process \<Rightarrow> process" where
  "leave code p = p\<lparr> pr_deadline := False, pr_exit := Some code \<rparr>"

fun process_step :: "process_event \<Rightarrow> process \<Rightarrow> process" where
  "process_step (Signal s) p = (if pr_exit p \<noteq> None then p else shutdown p)"
| "process_step UncaughtException p = (if pr_exit p \<noteq> None then p else shutdown p)"
| "process_step UnhandledRejection p = p"
| "process_step Drained p = (if pr_exit p = None \<and> pr_shutting_down p then leave 0 p else p)"
| "process_step DrainFailed p = (if pr_exit p = None \<and> pr_shutting_down p then leave 1 p else p)"
| "process_step DeadlineReached p = (if pr_exit p = None \<and> pr_deadline p then leave 1 p else p)"

section \<open>Boot\<close>

definition int_setting_ok :: "(string \<Rightarrow> string option) \<Rightarrow> string \<Rightarrow> int \<Rightarrow> bool" where
  "int_setting_ok env key lo = (case truthy_str (env key) of None \<Rightarrow> True
     | Some raw \<Rightarrow> (case parse_int raw of None \<Rightarrow> False | Some n \<Rightarrow> number_is_finite n \<and> lo \<le> n))"

definition worker_settings :: "(string \<times> int) list" where
  "worker_settings =
     [(''WORKER_CONCURRENCY'', 1), (''PORT'', 1), (''WORKER_POLL_INTERVAL_MS'', 100), (''JOB_MAX_ATTEMPTS'', 1),
      (''JOB_BACKOFF_BASE_MS'', 1), (''JOB_BACKOFF_MAX_MS'', 1), (''JOB_VISIBILITY_TIMEOUT_MS'', 1000),
      (''WATCHER_REFRESH_MS'', 1000), (''CONFIRMATION_CHECK_MS'', 1000), (''MAX_WATCHER_LAG_BLOCKS'', 1)]"

definition enabled :: "(string \<Rightarrow> string option) \<Rightarrow> known_chain list \<Rightarrow> known_chain list" where
  "enabled env ks = filter (\<lambda>k. truthy_str (env (kc_env_key k)) \<noteq> None) ks"

text \<open>An environment a worker may boot with: some chain has an endpoint and every integer that is read is in range.\<close>

definition env_ok :: "(string \<Rightarrow> string option) \<Rightarrow> bool" where
  "env_ok env = (enabled env KNOWN_CHAINS \<noteq> []
     \<and> list_all (\<lambda>k. int_setting_ok env (kc_depth_env_key k) 1) (enabled env KNOWN_CHAINS)
     \<and> list_all (\<lambda>(key, lo). int_setting_ok env key lo) worker_settings)"

text \<open>The configuration an environment asks for: the number that a variable holds, or the default of the
  field when it is unset or empty; a chain for every known one with an endpoint, in the order of the table.\<close>

definition int_setting :: "(string \<Rightarrow> string option) \<Rightarrow> string \<Rightarrow> int \<Rightarrow> int" where
  "int_setting env key fallback = (case truthy_str (env key) of None \<Rightarrow> fallback
     | Some raw \<Rightarrow> (case parse_int raw of None \<Rightarrow> fallback | Some n \<Rightarrow> n))"

definition configured_chain :: "(string \<Rightarrow> string option) \<Rightarrow> known_chain \<Rightarrow> chain_runtime" where
  "configured_chain env k = \<lparr> rc_chain_id = kc_chain_id k, rc_chain_name = kc_chain_name k,
     rc_rpc_url = readString env (kc_env_key k) [], rc_depth = int_setting env (kc_depth_env_key k) (kc_default_depth k),
     rc_block_time = kc_block_time k, rc_family = kc_family k \<rparr>"

definition configured :: "string \<Rightarrow> (string \<Rightarrow> string option) \<Rightarrow> worker_config" where
  "configured sfx env = \<lparr> wc_node_env = readString env ''NODE_ENV'' ''development'', wc_host = readString env ''HOST'' ''0.0.0.0'',
     wc_port = int_setting env ''PORT'' 3000, wc_log_level = readString env ''LOG_LEVEL'' ''info'',
     wc_worker_id = readString env ''WORKER_ID'' (''worker-'' @ sfx),
     wc_poll_interval_ms = int_setting env ''WORKER_POLL_INTERVAL_MS'' 5000,
     wc_concurrency = int_setting env ''WORKER_CONCURRENCY'' 4, wc_job_max_attempts = int_setting env ''JOB_MAX_ATTEMPTS'' 5,
     wc_job_backoff_base_ms = int_setting env ''JOB_BACKOFF_BASE_MS'' 1000,
     wc_job_backoff_max_ms = int_setting env ''JOB_BACKOFF_MAX_MS'' 300000,
     wc_visibility_timeout_ms = int_setting env ''JOB_VISIBILITY_TIMEOUT_MS'' 120000,
     wc_watcher_refresh_ms = int_setting env ''WATCHER_REFRESH_MS'' 30000,
     wc_confirmation_check_ms = int_setting env ''CONFIRMATION_CHECK_MS'' 15000,
     wc_max_watcher_lag_blocks = int_setting env ''MAX_WATCHER_LAG_BLOCKS'' 100,
     wc_chains = map (configured_chain env) (enabled env KNOWN_CHAINS) \<rparr>"

definition config_ok :: "worker_config \<Rightarrow> bool" where
  "config_ok c = (wc_chains c \<noteq> [] \<and> distinct (map rc_chain_id (wc_chains c))
     \<and> list_all (\<lambda>r. rc_rpc_url r \<noteq> [] \<and> 1 \<le> rc_depth r) (wc_chains c)
     \<and> wc_worker_id c \<noteq> [] \<and> wc_host c \<noteq> [] \<and> 1 \<le> wc_port c \<and> 100 \<le> wc_poll_interval_ms c \<and> 1 \<le> wc_concurrency c
     \<and> 1 \<le> wc_job_max_attempts c \<and> 1 \<le> wc_job_backoff_base_ms c \<and> 1 \<le> wc_job_backoff_max_ms c
     \<and> 1000 \<le> wc_visibility_timeout_ms c \<and> 1000 \<le> wc_watcher_refresh_ms c \<and> 1000 \<le> wc_confirmation_check_ms c
     \<and> 1 \<le> wc_max_watcher_lag_blocks c)"

lemma sum_bind_simps [simp]: "sum_bind (Inl x) k = Inl x" "sum_bind (Inr v) k = k v"
  by (simp_all add: sum_bind_def)

lemma enabled_simps [simp]:
  "enabled env [] = []"
  "enabled env (k # ks) = (if truthy_str (env (kc_env_key k)) = None then enabled env ks else k # enabled env ks)"
  by (simp_all add: enabled_def)

text \<open>A setting is either refused with a configuration error or read as it is set, in its range.\<close>

lemma readInt_cases:
  assumes "lo \<le> fallback"
  obtains (bad) msg where "readInt env key fallback lo = Inl (configuration_error msg)" "\<not> int_setting_ok env key lo"
    | (good) "readInt env key fallback lo = Inr (int_setting env key fallback)" "int_setting_ok env key lo"
      "lo \<le> int_setting env key fallback"
proof (cases "int_setting_ok env key lo")
  case True
  then have "readInt env key fallback lo = Inr (int_setting env key fallback) \<and> lo \<le> int_setting env key fallback"
    using assms by (auto simp: readInt_def int_setting_ok_def int_setting_def Let_def split: option.splits)
  with True good show ?thesis by blast
next
  case False
  then have "\<exists>msg. readInt env key fallback lo = Inl (configuration_error msg)"
    by (auto simp: readInt_def int_setting_ok_def Let_def split: option.splits)
  with False bad show ?thesis by blast
qed

lemma load_chains_cases:
  assumes "list_all (\<lambda>k. 1 \<le> kc_default_depth k) ks"
  shows "case load_chains env ks of
      Inl x \<Rightarrow> (\<exists>msg. x = configuration_error msg) \<and> \<not> list_all (\<lambda>k. int_setting_ok env (kc_depth_env_key k) 1) (enabled env ks)
    | Inr rs \<Rightarrow> list_all (\<lambda>k. int_setting_ok env (kc_depth_env_key k) 1) (enabled env ks)
        \<and> rs = map (configured_chain env) (enabled env ks) \<and> list_all (\<lambda>r. rc_rpc_url r \<noteq> [] \<and> 1 \<le> rc_depth r) rs"
  using assms
proof (induction ks)
  case (Cons k ks)
  show ?case
  proof (cases "truthy_str (env (kc_env_key k))")
    case None
    then show ?thesis using Cons by (auto split: sum.splits)
  next
    case (Some url)
    then have url: "url \<noteq> []" "readString env (kc_env_key k) [] = url"
      by (auto simp: truthy_str_def readString_def split: option.splits if_splits)
    have "1 \<le> kc_default_depth k" using Cons.prems by simp
    then show ?thesis
      using Cons Some url
      by (cases rule: readInt_cases [where env = env and key = "kc_depth_env_key k"]) (auto simp: configured_chain_def split: sum.splits)
  qed
qed simp

lemma known_chains_facts:
  "list_all (\<lambda>k. 1 \<le> kc_default_depth k) KNOWN_CHAINS" "distinct (map kc_chain_id KNOWN_CHAINS)"
  by (simp_all add: KNOWN_CHAINS_def)

lemma readString_nonempty: "fallback \<noteq> [] \<Longrightarrow> readString env key fallback \<noteq> []"
  by (auto simp: readString_def truthy_str_def split: option.splits)

lemma sum_bind_readInt:
  assumes "lo \<le> fallback" "lo \<le> int_setting env key fallback \<Longrightarrow> int_setting_ok env key lo \<Longrightarrow>
      (case k (int_setting env key fallback) of Inl x \<Rightarrow> (\<exists>msg. x = configuration_error msg) \<and> \<not> Q | Inr c \<Rightarrow> Q \<and> P c)"
    "\<not> int_setting_ok env key lo \<Longrightarrow> \<not> Q"
  shows "case sum_bind (readInt env key fallback lo) k of
      Inl x \<Rightarrow> (\<exists>msg. x = configuration_error msg) \<and> \<not> Q | Inr c \<Rightarrow> Q \<and> P c"
  using assms by (cases rule: readInt_cases [OF assms(1), where env = env and key = key]) auto

lemma loadConfig_cases:
  "case loadConfig sfx env of
     Inl x \<Rightarrow> (\<exists>msg. x = configuration_error msg) \<and> \<not> env_ok env
   | Inr c \<Rightarrow> env_ok env \<and> config_ok c \<and> c = configured sfx env"
proof (cases "load_chains env KNOWN_CHAINS")
  case (Inl x)
  with load_chains_cases [OF known_chains_facts(1), of env] show ?thesis by (simp add: loadConfig_def env_ok_def)
next
  case (Inr cs)
  with load_chains_cases [OF known_chains_facts(1), of env]
  have cs: "list_all (\<lambda>k. int_setting_ok env (kc_depth_env_key k) 1) (enabled env KNOWN_CHAINS)"
      "cs = map (configured_chain env) (enabled env KNOWN_CHAINS)" "list_all (\<lambda>r. rc_rpc_url r \<noteq> [] \<and> 1 \<le> rc_depth r) cs"
    by auto
  have d: "distinct (map rc_chain_id cs)"
    using known_chains_facts(2) by (simp add: cs(2) enabled_def distinct_map_filter comp_def configured_chain_def)
  have e: "cs = [] \<longleftrightarrow> enabled env KNOWN_CHAINS = []" using cs(2) by simp
  show ?thesis
  proof (cases "cs = []")
    case True
    with Inr e show ?thesis by (auto simp: loadConfig_def env_ok_def)
  next
    case False
    have env: "env_ok env \<longleftrightarrow> list_all (\<lambda>(key, lo). int_setting_ok env key lo) worker_settings"
      using False e cs(1) by (simp add: env_ok_def)
    show ?thesis
      unfolding loadConfig_def Inr sum_bind_simps if_not_P [OF False] env
      by (intro sum_bind_readInt) (simp_all add: worker_settings_def config_ok_def configured_def False d cs(3) readString_nonempty cs(2) [symmetric])
  qed
qed

lemma createChainClient_simps [simp]:
  "client_id (createChainClient c) = rc_chain_id c" "client_name (createChainClient c) = rc_chain_name c"
  "getConfirmationDepth (createChainClient c) = rc_depth c"
  by (simp_all add: createChainClient_def new_evm_config_def Let_def split: chain_family.splits)

lemma js_map_set_fresh: "k \<notin> fst ` set xs \<Longrightarrow> js_map_set k v xs = xs @ [(k, v)]"
  by (induction k v xs rule: js_map_set.induct) auto

lemma register_all_distinct:
  assumes "distinct (map client_id cs)" "client_id ` set cs \<inter> fst ` set (rg_clients r) = {}"
  shows "\<exists>r'. register_all cs r = Inr r' \<and> rg_clients r' = rg_clients r @ map (\<lambda>c. (client_id c, c)) cs"
  using assms
proof (induction cs arbitrary: r)
  case (Cons c cs)
  then have new: "client_id c \<notin> fst ` set (rg_clients r)" by auto
  let ?r = "r\<lparr> rg_clients := rg_clients r @ [(client_id c, c)],
      rg_names := js_map_set (to_lower (client_name c)) (client_id c) (rg_names r) \<rparr>"
  have "registry_register (client_id c) (client_name c) c r = Inr ?r"
    using new by (simp add: registry_register_def js_map_set_fresh map_of_eq_None_iff)
  moreover have "\<exists>r'. register_all cs ?r = Inr r' \<and> rg_clients r' = rg_clients ?r @ map (\<lambda>c. (client_id c, c)) cs"
    using Cons.prems by (intro Cons.IH) auto
  ultimately show ?case by auto
qed simp

lemma compose_ok:
  assumes "config_ok c"
  shows "\<exists>r. compose c = Inr r \<and> getSupportedChainIds (wr_registry r) = map rc_chain_id (wc_chains c)
    \<and> registry_getAll (wr_registry r) = wr_clients r \<and> wr_clients r = map createChainClient (wc_chains c)
    \<and> wr_queue_options r = queueOptions c"
proof -
  let ?cs = "map createChainClient (wc_chains c)"
  have "distinct (map client_id ?cs)" using assms by (simp add: config_ok_def comp_def)
  from register_all_distinct [OF this, of empty_registry] obtain r where
    "register_all ?cs empty_registry = Inr r" "rg_clients r = map (\<lambda>c. (client_id c, c)) ?cs"
    by (auto simp: empty_registry_def)
  then show ?thesis
    by (simp add: compose_def Let_def getSupportedChainIds_def registry_getAll_def comp_def)
qed

text \<open>C27: booting either stops with a configuration error, exactly when no chain has an endpoint or an integer
  that is read is malformed or below its minimum, or takes exactly the configuration that the
  environment asks for, a variable that is set before the default of its field, every field in its
  range, and composes the whole runtime from it: for every known chain with an endpoint, and for no
  other, one client with the chain's identifier and the configured depth, all of them registered, and
  queue options with the configured concurrency, attempts, backoffs and visibility timeout.\<close>

theorem boot_is_well_typed:
  "case sum_bind (loadConfig sfx env) (\<lambda>c. map_sum id (Pair c) (compose c)) of
     Inl x \<Rightarrow> (\<exists>msg. x = configuration_error msg) \<and> \<not> env_ok env
   | Inr (c, r) \<Rightarrow> env_ok env \<and> config_ok c \<and> loadConfig sfx env = Inr c \<and> c = configured sfx env
       \<and> getSupportedChainIds (wr_registry r) = map kc_chain_id (enabled env KNOWN_CHAINS)
       \<and> registry_getAll (wr_registry r) = wr_clients r
       \<and> map client_id (wr_clients r) = map kc_chain_id (enabled env KNOWN_CHAINS)
       \<and> map getConfirmationDepth (wr_clients r)
           = map (\<lambda>k. int_setting env (kc_depth_env_key k) (kc_default_depth k)) (enabled env KNOWN_CHAINS)
       \<and> wr_queue_options r = \<lparr> qo_worker_id = readString env ''WORKER_ID'' (''worker-'' @ sfx),
           qo_concurrency = nat (int_setting env ''WORKER_CONCURRENCY'' 4),
           qo_default_max_attempts = int_setting env ''JOB_MAX_ATTEMPTS'' 5,
           qo_backoff_base_ms = int_setting env ''JOB_BACKOFF_BASE_MS'' 1000,
           qo_backoff_max_ms = int_setting env ''JOB_BACKOFF_MAX_MS'' 300000,
           qo_visibility_timeout_ms = int_setting env ''JOB_VISIBILITY_TIMEOUT_MS'' 120000 \<rparr>"
proof (cases "loadConfig sfx env")
  case (Inl x)
  with loadConfig_cases [where sfx = sfx and env = env] show ?thesis by simp
next
  case (Inr c)
  with loadConfig_cases [where sfx = sfx and env = env] have ok: "env_ok env" "config_ok c" and
    c: "c = configured sfx env" by auto
  from compose_ok [OF ok(2)] obtain r where r: "compose c = Inr r"
      "getSupportedChainIds (wr_registry r) = map rc_chain_id (wc_chains c)" "registry_getAll (wr_registry r) = wr_clients r"
      "wr_clients r = map createChainClient (wc_chains c)" "wr_queue_options r = queueOptions c"
    by blast
  have chain: "rc_chain_id (configured_chain env k) = kc_chain_id k"
      "rc_depth (configured_chain env k) = int_setting env (kc_depth_env_key k) (kc_default_depth k)" for k
    by (simp_all add: configured_chain_def)
  have "wc_chains c = map (configured_chain env) (enabled env KNOWN_CHAINS)" by (simp add: c configured_def)
  with r ok(1) ok(2) [unfolded c] Inr [unfolded c] show ?thesis
    by (simp add: c queueOptions_def comp_def chain) (simp add: configured_def)
qed

text \<open>An environment with one chain, its depth and two of the integers set.\<close>

definition ex_boot_env :: "string \<Rightarrow> string option" where
  "ex_boot_env = map_of [(''BASE_RPC_URL'', ''https://base''), (''BASE_CONFIRMATION_DEPTH'', ''7''),
     (''WORKER_CONCURRENCY'', ''8''), (''JOB_MAX_ATTEMPTS'', ''9'')]"

theorem boot_is_well_typed_witness:
  "\<exists>c (r :: worker_runtime). loadConfig ''1'' ex_boot_env = Inr c \<and> wc_port c = 3000 \<and> wc_concurrency c = 8
     \<and> map client_id (wr_clients r) = [''84532''] \<and> map getConfirmationDepth (wr_clients r) = [7]
     \<and> qo_default_max_attempts (wr_queue_options r) = 9"
proof -
  let ?b = "sum_bind (loadConfig ''1'' ex_boot_env) (\<lambda>c. map_sum id (Pair c) (compose c))"
  have "env_ok ex_boot_env" by code_simp
  moreover have settings: "enabled ex_boot_env KNOWN_CHAINS = [KNOWN_CHAINS ! 1]" "kc_chain_id (KNOWN_CHAINS ! 1) = ''84532''"
      "int_setting ex_boot_env (kc_depth_env_key (KNOWN_CHAINS ! 1)) (kc_default_depth (KNOWN_CHAINS ! 1)) = 7"
      "int_setting ex_boot_env ''JOB_MAX_ATTEMPTS'' 5 = 9" "wc_port (configured ''1'' ex_boot_env) = 3000"
      "wc_concurrency (configured ''1'' ex_boot_env) = 8"
    by code_simp+
  moreover obtain c r where "?b = Inr (c, r)"
    using boot_is_well_typed [where sfx = "''1''" and env = ex_boot_env] \<open>env_ok ex_boot_env\<close> by (cases ?b) (auto split: prod.splits)
  ultimately show ?thesis using boot_is_well_typed [where sfx = "''1''" and env = ex_boot_env] by (intro exI [of _ c] exI [of _ r]) simp
qed

section \<open>Leaving\<close>

definition process_ok :: "process \<Rightarrow> bool" where
  "process_ok p = (pr_stops p = (if pr_shutting_down p then 1 else 0)
     \<and> (pr_deadline p \<longleftrightarrow> pr_shutting_down p \<and> pr_exit p = None) \<and> (pr_exit p \<noteq> None \<longrightarrow> pr_shutting_down p))"

interpretation process: op_machine process_step process_ok
proof
  show "process_ok (process_step e p)" if "process_ok p" for e p
    using that by (cases e) (auto simp: process_ok_def shutdown_def leave_def)
qed

lemma exit_stays: "pr_exit p = Some code \<Longrightarrow> pr_exit (fold process_step es p) = Some code"
proof (induction es arbitrary: p)
  case (Cons e es)
  then have "pr_exit (process_step e p) = Some code" by (cases e) (simp_all add: shutdown_def leave_def)
  with Cons.IH show ?case by simp
qed simp

lemma shutting_down_stays: "pr_shutting_down p \<Longrightarrow> pr_shutting_down (fold process_step es p)"
proof (induction es arbitrary: p)
  case (Cons e es)
  then have "pr_shutting_down (process_step e p)" by (cases e) (simp_all add: shutdown_def leave_def)
  with Cons.IH show ?case by simp
qed simp

text \<open>However signals, exceptions, the drain and the deadline interleave, the runtime is stopped at most
  once, and once a signal has arrived the process has left by the time the deadline has passed, with
  the code of whichever of the drain and the deadline came first.\<close>

theorem shutdown_terminates:
  "pr_stops (fold process_step es new_process) \<le> 1
   \<and> pr_exit (fold process_step (es @ [Signal sig] @ fs @ [DeadlineReached]) new_process) \<noteq> None"
proof
  have new: "process_ok new_process" by (simp add: process_ok_def new_process_def)
  show "pr_stops (fold process_step es new_process) \<le> 1"
    using process.inv_run [OF new, of es] by (simp add: process_ok_def)
  define p where "p = fold process_step es new_process"
  define q where "q = fold process_step fs (process_step (Signal sig) p)"
  have ok: "process_ok p" "process_ok q"
    using process.inv_run [OF new, of es] process.inv_run [OF new, of "es @ [Signal sig] @ fs"] by (simp_all add: p_def q_def)
  have "pr_shutting_down (process_step (Signal sig) p)" using ok(1) by (auto simp: process_ok_def shutdown_def)
  then have "pr_shutting_down q" unfolding q_def by (rule shutting_down_stays)
  with ok(2) have "pr_exit (process_step DeadlineReached q) \<noteq> None" by (auto simp: process_ok_def leave_def)
  then show "pr_exit (fold process_step (es @ [Signal sig] @ fs @ [DeadlineReached]) new_process) \<noteq> None"
    by (simp add: p_def q_def)
qed

end
