(* ===== verification/Route_Adapters.thy ===== *)
theory Route_Adapters
  imports Route_Engine Http_Client
begin

text \<open>
  What the route providers of \<open>packages/routing-engine/src/providers\<close> have in common: the tables of chains
  and tokens, amounts in base units, the call of an aggregator through the HTTP client, the execution
  that hands the route back to the caller, and the contracts of a quote.  Names of properties every object
  inherits are not considered.
\<close>

section \<open>Tables\<close>

definition main_chains :: "(string \<times> nat) list" where
  "main_chains = [(''ethereum'', 1), (''polygon'', 137), (''arbitrum'', 42161), (''optimism'', 10), (''base'', 8453),
     (''bsc'', 56), (''avalanche'', 43114), (''gnosis'', 100), (''fantom'', 250), (''moonbeam'', 1284)]"

definition test_chains :: "(string \<times> nat) list" where
  "test_chains = [(''sepolia'', 11155111), (''base-sepolia'', 84532), (''arbitrum-sepolia'', 421614), (''polygon-amoy'', 80002)]"

definition main_only :: "(string \<times> nat) list \<Rightarrow> string list" where
  "main_only table = map fst (filter (\<lambda>(_, i). i \<notin> {11155111, 84532, 421614, 80002}) table)"

definition chain_name_of :: "(string \<times> nat) list \<Rightarrow> nat \<Rightarrow> string option" where
  "chain_name_of table i = map_of (rev (map (\<lambda>(n, k). (k, n)) table)) i"

definition native_token :: string where
  "native_token = ''0xEeeeeEeeeEeEeeEeEeEeeEEEeeeeEeeeeeeeEEeE''"

definition TOKEN_ADDRESSES :: "(nat \<times> (string \<times> string) list) list" where
  "TOKEN_ADDRESSES =
     [(1, [(''ETH'', native_token), (''USDC'', ''0xA0b86991c6218b36c1d19D4a2e9Eb0cE3606eB48''),
           (''USDT'', ''0xdAC17F958D2ee523a2206206994597C13D831ec7''), (''DAI'', ''0x6B175474E89094C44Da98b954EedeAC495271d0F''),
           (''WBTC'', ''0x2260FAC5E5542a773Aa44fBCfeDf7C193bc2C599'')]),
      (137, [(''USDC'', ''0x2791Bca1f2de4661ED88A30C99A7a9449Aa84174''), (''USDT'', ''0xc2132D05D31c914a87C6611C10748AEb04B58e8F''),
           (''DAI'', ''0x8f3Cf7ad23Cd3CaDbD9735AFf958023239c6A063''), (''WMATIC'', ''0x0d500B1d8E8eF31E21C99d1Db9A6444d3ADf1270'')]),
      (42161, [(''ETH'', native_token), (''USDC'', ''0xaf88d065e77c8cC2239327C5EDb3A432268e5831''),
           (''USDT'', ''0xFd086bC7CD5C481DCC9C85ebE478A1C0b69FCbb9''), (''DAI'', ''0xDA10009cBd5D07dd0CeCc66161FC93D7c9000da1'')]),
      (8453, [(''ETH'', native_token), (''USDC'', ''0x833589fCD6eDb6E08f4c7C32D4f71b54bdA02913''),
           (''DAI'', ''0x50c5725949A6F0c72E6C4a641F24049A917DB0Cb'')]),
      (10, [(''ETH'', native_token), (''USDC'', ''0x0b2C639c533813f4Aa9D7837CAf62653d097Ff85''),
           (''USDT'', ''0x94b008aA00579c1307B0EF2c499aD98a8ce58e58''), (''DAI'', ''0xDA10009cBd5D07dd0CeCc66161FC93D7c9000da1'')])]"

definition resolveChainId :: "(string \<times> nat) list \<Rightarrow> string \<Rightarrow> string \<Rightarrow> js_error + nat" where
  "resolveChainId table label name = (case map_of table (to_lower name) of
     None \<Rightarrow> Inl (JsError ''Error'' (''Chain '' @ name @ '' is not supported by '' @ label))
   | Some i \<Rightarrow> Inr i)"

definition resolveTokenAddress :: "string \<Rightarrow> nat \<Rightarrow> string \<Rightarrow> js_error + string" where
  "resolveTokenAddress label i asset =
     (let upper = to_upper asset; tokens = map_of TOKEN_ADDRESSES i in
      if upper = ''ETH'' \<and> i = 1 then Inr (orElse (Option.bind tokens (\<lambda>t. map_of t ''ETH'')) native_token)
      else case truthy_str (Option.bind tokens (\<lambda>t. map_of t upper)) of
             None \<Rightarrow> Inl (JsError ''Error'' (''Token '' @ asset @ '' on chain '' @ nat_text i @ '' is not configured for '' @ label))
           | Some a \<Rightarrow> Inr a)"

definition supportedAssets :: "string list" where
  "supportedAssets = [''ETH'', ''USDC'', ''USDT'', ''DAI'', ''WBTC'', ''MATIC'', ''ARB'', ''OP'', ''BNB'', ''AVAX'']"

section \<open>Amounts\<close>

definition getDecimals :: "string \<Rightarrow> nat" where
  "getDecimals asset = (let upper = to_upper asset in
     if upper \<in> {''ETH'', ''MATIC'', ''ARB'', ''OP'', ''BNB'', ''AVAX'', ''FTM''} then 18
     else if upper \<in> {''USDC'', ''USDT''} then 6
     else if upper = ''WBTC'' then 8 else if upper = ''DAI'' then 18 else 18)"

definition toWei :: "rat \<Rightarrow> string \<Rightarrow> string" where
  "toWei amount asset = int_text (js_round (amount * 10 ^ getDecimals asset))"

definition units :: "string \<Rightarrow> nat \<Rightarrow> rat option" where
  "units s decimals = map_option (\<lambda>x. x / 10 ^ decimals) (parse_float s)"

definition clamp_score :: "rat \<Rightarrow> rat" where
  "clamp_score s = max 0 (min 100 s)"

text \<open>The bonus for the duration and the number of steps, the same for both aggregators.\<close>

definition duration_bonus :: "rat option \<Rightarrow> rat" where
  "duration_bonus d = (if holds_num (\<lambda>x. x < 60) d then 10 else if holds_num (\<lambda>x. x < 300) d then 5
     else if holds_num (\<lambda>x. 600 < x) d then - 10 else 0)"

definition steps_bonus :: "nat \<Rightarrow> rat" where
  "steps_bonus n = (if n = 1 then 5 else if 3 < n then - 5 else 0)"

definition known_count :: "string list \<Rightarrow> string list \<Rightarrow> nat" where
  "known_count known used = length (filter (\<lambda>t. list_ex (js_includes (to_lower t)) known) used)"

section \<open>Calling an aggregator\<close>

text \<open>What one call of a provider sees of the outside; the counter of request identifiers is threaded.\<close>

record 'body api_call =
  ac_now :: int
  ac_random :: "nat \<Rightarrow> rat"
  ac_redact :: "string \<Rightarrow> string"
  ac_number :: "rat \<Rightarrow> string"
  ac_fetch :: "string \<Rightarrow> string \<Rightarrow> (string \<times> string) list \<Rightarrow> 'body option \<Rightarrow> nat \<Rightarrow> 'body fetch_outcome"

fun http_thrown :: "(rat \<Rightarrow> string) \<Rightarrow> 'body http_error \<Rightarrow> js_error" where
  "http_thrown num (HttpError st msg rid body) = JsError ''HttpError'' msg"
| "http_thrown num (HttpTimeoutError url t rid) =
     JsError ''HttpTimeoutError'' (''Request to '' @ url @ '' timed out after '' @ num t @ ''ms'')"
| "http_thrown num (OtherHttpError e) = e"

definition call_options :: "rat \<Rightarrow> 'body request_options" where
  "call_options timeout = \<lparr> ro_method = None, ro_path = None, ro_query = '''', ro_body = None, ro_headers = [],
     ro_timeout_ms = Some timeout, ro_idempotent = Some True, ro_request_id = None \<rparr>"

definition api_send ::
    "http_config \<Rightarrow> 'body api_call \<Rightarrow> 'body request_options \<Rightarrow> nat \<Rightarrow> nat \<times> ('body http_error + 'body)" where
  "api_send c x opt counter = (case http_request c (ac_redact x) (ac_now x) (ac_random x) (ac_fetch x) opt counter of
     (counter1, _, r) \<Rightarrow> (counter1, map_sum id hr_data r))"

definition type_error :: js_error where
  "type_error = JsError ''TypeError'' ''Cannot read properties of undefined''"

text \<open>\<open>executeRaw\<close> followed by \<open>normalizeResult\<close>: nothing is sent; the caller is to sign and submit.\<close>

definition hand_back :: "(string \<Rightarrow> route_status) \<Rightarrow> route_quote \<Rightarrow> execution_result" where
  "hand_back status_of q = \<lparr> er_execution_id = rq_id q, er_status = status_of ''PENDING'', er_transaction_hashes = [],
     er_actual_fee = 0, er_actual_time = 0 \<rparr>"

section \<open>The contracts of a quote\<close>

text \<open>The quote answers the request it was made for, under the provider's name, with at least one step.\<close>

definition answers :: "string \<Rightarrow> quote_params \<Rightarrow> route_quote \<Rightarrow> bool" where
  "answers name params q = (rq_provider q = name \<and> rq_source_chain q = qp_source_chain params
     \<and> rq_source_asset q = qp_source_asset params \<and> rq_source_amount q = qp_source_amount params
     \<and> rq_target_chain q = qp_target_chain params \<and> rq_target_asset q = qp_target_asset params \<and> rq_steps q \<noteq> [])"

definition scores_in_range :: "route_quote \<Rightarrow> bool" where
  "scores_in_range q = (0 \<le> rq_security_score q \<and> rq_security_score q \<le> 100
     \<and> 0 \<le> rq_reliability_score q \<and> rq_reliability_score q \<le> 100)"

locale quote_adapter =
  fixes quote :: "'env \<Rightarrow> quote_params \<Rightarrow> js_error + route_quote" and name :: string
  assumes quote_answers: "quote x params = Inr q \<Longrightarrow> answers name params q"
begin

text \<open>Executing the quote reaches the provider registered under the adapter's name.\<close>

lemma executed_by_name:
  assumes "quote x params = Inr q" "get_provider reg name = Some pr"
  shows "snd (executeRoute t1 t2 q reg) = map_sum RouteFailed id (snd (provider_execute t1 t2 q pr))"
  using assms quote_answers [OF assms(1)]
  by (auto simp: executeRoute_def answers_def split: prod.splits sum.splits)

end

text \<open>An adapter that computes its scores clamps them itself, so that the scorer never has to.\<close>

locale scoring_adapter = quote_adapter +
  assumes quote_scores: "quote x params = Inr q \<Longrightarrow> scores_in_range q"
begin

lemma scores_unclamped:
  assumes "quote x params = Inr q"
  shows "rs_security (score p q) = rq_security_score q / 100" "rs_reliability (score p q) = rq_reliability_score q / 100"
  using quote_scores [OF assms]
  by (simp_all add: scores_in_range_def score_def Let_def normalizeSecurityScore_def normalizeReliabilityScore_def)

end

section \<open>Facts\<close>

lemma clamp_score_bounds: "0 \<le> clamp_score s \<and> clamp_score s \<le> 100"
  by (simp add: clamp_score_def)

text \<open>The amount an aggregator reads back from the request is within half a base unit of the amount asked.\<close>

lemma toWei_read_back:
  "\<exists>n. parse_int (toWei amount asset) = Some n \<and> \<bar>of_int n / 10 ^ getDecimals asset - amount\<bar> \<le> 1 / (2 * 10 ^ getDecimals asset)"
proof -
  let ?k = "10 ^ getDecimals asset :: rat"
  have "\<bar>of_int (js_round (amount * ?k)) - amount * ?k\<bar> \<le> 1 / 2" unfolding js_round_def by linarith
  then have "\<bar>of_int (js_round (amount * ?k)) - amount * ?k\<bar> / ?k \<le> 1 / 2 / ?k" by (intro divide_right_mono) simp_all
  moreover have "\<bar>of_int (js_round (amount * ?k)) - amount * ?k\<bar> / ?k = \<bar>of_int (js_round (amount * ?k)) / ?k - amount\<bar>"
    by (simp add: field_simps abs_divide)
  ultimately show ?thesis by (intro exI [of _ "js_round (amount * ?k)"]) (simp add: toWei_def parse_int_int_text)
qed

end
