(* ===== verification/Lifi_Provider.thy ===== *)
theory Lifi_Provider
  imports Route_Adapters
begin

text \<open>
  \<open>LifiRouteProvider\<close> (\<open>packages/routing-engine/src/providers/lifi-route-provider.ts\<close>): the request it
  makes of the LI.FI API, what it makes of the answer, execution and status.  The answers of the API
  have their declared types, with the members the code allows to be missing as options; an answer of
  another shape is a TypeError at its first use.
\<close>

section \<open>Data\<close>

record lifi_request =
  lq_from_chain :: nat
  lq_to_chain :: nat
  lq_from_token :: string
  lq_to_token :: string
  lq_from_amount :: string
  lq_from_address :: string
  lq_slippage :: rat
  lq_integrator :: string
  lq_fee :: rat

record lifi_fee =
  lf_amount :: string
  lf_price_usd :: "rat option"

record lifi_step =
  ls_type :: string
  ls_tool :: string
  ls_from_amount :: string
  ls_to_amount :: string
  ls_slippage :: "rat option"

record lifi_answer =
  la_id :: string
  la_from_chain_id :: nat
  la_to_decimals :: nat
  la_to_amount :: "string option"
  la_fee_costs :: "lifi_fee list option"
  la_gas_amounts_usd :: "string option list option"
  la_steps :: "lifi_step list"
  la_execution_duration :: "rat option"
  la_validity :: "rat option"

datatype lifi_body = LifiQuoteRequest lifi_request | LifiQuote lifi_answer | LifiStatus "string option" | LifiOther

record lifi_options =
  lo_api_key :: string
  lo_base_url :: "string option"
  lo_timeout_ms :: "rat option"
  lo_max_retries :: "nat option"
  lo_slippage :: "rat option"
  lo_integrator :: "string option"
  lo_fee :: "rat option"

record lifi_config =
  lc_base_url :: string
  lc_timeout_ms :: rat
  lc_max_retries :: nat
  lc_slippage :: rat
  lc_integrator :: string
  lc_fee :: rat

definition lifi_chains :: "(string \<times> nat) list" where
  "lifi_chains = main_chains @ test_chains"

definition LIFI_DEFAULT_CONFIG :: lifi_config where
  "LIFI_DEFAULT_CONFIG = \<lparr> lc_base_url = ''https://li.quest'', lc_timeout_ms = 15000, lc_max_retries = 2,
     lc_slippage = 3 / 100, lc_integrator = ''nexora-gateway'', lc_fee = 0 \<rparr>"

definition lifi_config_of :: "lifi_options \<Rightarrow> lifi_config" where
  "lifi_config_of o1 = \<lparr> lc_base_url = orElse (lo_base_url o1) (lc_base_url LIFI_DEFAULT_CONFIG),
     lc_timeout_ms = orElse (lo_timeout_ms o1) (lc_timeout_ms LIFI_DEFAULT_CONFIG),
     lc_max_retries = orElse (lo_max_retries o1) (lc_max_retries LIFI_DEFAULT_CONFIG),
     lc_slippage = orElse (lo_slippage o1) (lc_slippage LIFI_DEFAULT_CONFIG),
     lc_integrator = orElse (lo_integrator o1) (lc_integrator LIFI_DEFAULT_CONFIG),
     lc_fee = orElse (lo_fee o1) (lc_fee LIFI_DEFAULT_CONFIG) \<rparr>"

text \<open>The HTTP client of the adapter does not retry, whatever the adapter's own option says.\<close>

definition lifi_http :: "lifi_options \<Rightarrow> http_config" where
  "lifi_http o1 = new_http_client \<lparr> ho_base_url = orElse (lo_base_url o1) (lc_base_url LIFI_DEFAULT_CONFIG),
     ho_api_key = Some (lo_api_key o1), ho_api_key_header = Some ''X-API-KEY'',
     ho_timeout_ms = Some (orElse (lo_timeout_ms o1) (lc_timeout_ms LIFI_DEFAULT_CONFIG)), ho_max_retries = Some 0,
     ho_base_delay = None, ho_max_delay = None, ho_user_agent = Some ''NexoraCryptoGateway/1.0 (LI.FI Adapter)'',
     ho_extra_headers = None \<rparr>"

definition lifi_supported_chains :: "string list" where
  "lifi_supported_chains = main_only lifi_chains"

definition lifi_circuit_options :: circuit_options where
  "lifi_circuit_options = \<lparr> co_failure_threshold = 5, co_recovery_timeout = 30000 \<rparr>"

section \<open>The request\<close>

definition lifi_request_of :: "lifi_config \<Rightarrow> quote_params \<Rightarrow> js_error + lifi_request" where
  "lifi_request_of c params =
     (case resolveChainId lifi_chains ''LI.FI'' (qp_source_chain params) of Inl e \<Rightarrow> Inl e | Inr from_id \<Rightarrow>
     (case resolveChainId lifi_chains ''LI.FI'' (qp_target_chain params) of Inl e \<Rightarrow> Inl e | Inr to_id \<Rightarrow>
     (case resolveTokenAddress ''LI.FI'' from_id (qp_source_asset params) of Inl e \<Rightarrow> Inl e | Inr from_token \<Rightarrow>
     (case resolveTokenAddress ''LI.FI'' to_id (qp_target_asset params) of Inl e \<Rightarrow> Inl e | Inr to_token \<Rightarrow>
        Inr \<lparr> lq_from_chain = from_id, lq_to_chain = to_id, lq_from_token = from_token, lq_to_token = to_token,
          lq_from_amount = toWei (qp_source_amount params) (qp_source_asset params),
          lq_from_address = ''0x0000000000000000000000000000000000000000'', lq_slippage = lc_slippage c,
          lq_integrator = lc_integrator c, lq_fee = lc_fee c \<rparr>))))"

definition lifi_fetchRawQuote ::
    "lifi_options \<Rightarrow> lifi_body api_call \<Rightarrow> quote_params \<Rightarrow> nat \<Rightarrow> nat \<times> (js_error + lifi_body)" where
  "lifi_fetchRawQuote o1 x params counter =
     (case lifi_request_of (lifi_config_of o1) params of
        Inl e \<Rightarrow> (counter, Inl e)
      | Inr body \<Rightarrow>
          (case api_send (lifi_http o1) x (http_post ''/v2/quote'' (Some (LifiQuoteRequest body))
               (call_options (lc_timeout_ms (lifi_config_of o1)))) counter of
             (counter1, r) \<Rightarrow> (counter1, map_sum (http_thrown (ac_number x)) id r)))"

section \<open>The answer\<close>

definition lifi_fee_usd :: "lifi_fee list option \<Rightarrow> rat" where
  "lifi_fee_usd fs = (case fs of None \<Rightarrow> 0
     | Some xs \<Rightarrow> foldl (\<lambda>s f. s + orElse (parse_float (lf_amount f)) 0 * orElse (lf_price_usd f) 0) 0 xs)"

definition lifi_gas_usd :: "string option list option \<Rightarrow> rat option" where
  "lifi_gas_usd gs = (case gs of None \<Rightarrow> Some 0
     | Some xs \<Rightarrow> foldl (\<lambda>s a. nan_op (+) s (parse_float (orElse (truthy_str a) ''0''))) (Some 0) xs)"

definition lifi_step_of :: "lifi_answer \<Rightarrow> quote_params \<Rightarrow> lifi_step \<Rightarrow> route_step" where
  "lifi_step_of d params s = \<lparr> st_chain = orElse (chain_name_of lifi_chains (la_from_chain_id d)) (qp_source_chain params),
     st_protocol = ls_tool s, st_action = ls_type s, st_input_amount = units (ls_from_amount s) 18,
     st_output_amount = units (ls_to_amount s) (la_to_decimals d), st_fee = Some 0 \<rparr>"

definition lifi_tools :: "string list" where
  "lifi_tools = [''hop'', ''connext'', ''stargate'', ''across'', ''woofi'', ''pancakeswap'']"

definition average_slippage :: "lifi_step list \<Rightarrow> rat option" where
  "average_slippage ss = (if ss = [] then None
     else Some (foldl (\<lambda>a s. a + orElse (ls_slippage s) 0) 0 ss / of_nat (length ss)))"

definition lifi_security_score :: "lifi_answer \<Rightarrow> rat" where
  "lifi_security_score d =
     clamp_score (70 + min (of_nat (known_count lifi_tools (map ls_tool (la_steps d)) * 5)) 15
       - (if holds_num (\<lambda>x. 5 / 100 < x) (average_slippage (la_steps d)) then 10 else 0))"

definition lifi_reliability_score :: "lifi_answer \<Rightarrow> rat" where
  "lifi_reliability_score d =
     clamp_score (75 + duration_bonus (la_execution_duration d) + steps_bonus (length (la_steps d)))"

definition lifi_quote_of :: "int \<Rightarrow> lifi_answer \<Rightarrow> quote_params \<Rightarrow> route_quote" where
  "lifi_quote_of now d params =
     (let fee = nan_op (+) (Some (lifi_fee_usd (la_fee_costs d))) (lifi_gas_usd (la_gas_amounts_usd d));
          to_amount = (case truthy_str (la_to_amount d) of None \<Rightarrow> Some (qp_source_amount params)
            | Some s \<Rightarrow> units s (la_to_decimals d));
          steps = map (lifi_step_of d params) (la_steps d)
      in \<lparr> rq_id = la_id d, rq_provider = ''lifi'', rq_source_chain = qp_source_chain params,
           rq_source_asset = qp_source_asset params, rq_source_amount = qp_source_amount params,
           rq_target_chain = qp_target_chain params, rq_target_asset = qp_target_asset params, rq_target_amount = to_amount,
           rq_steps = (if steps = [] then [\<lparr> st_chain = qp_source_chain params, st_protocol = ''lifi'', st_action = ''bridge'',
               st_input_amount = Some (qp_source_amount params), st_output_amount = to_amount, st_fee = fee \<rparr>] else steps),
           rq_estimated_fee = fee, rq_estimated_time = Some (orElse (la_execution_duration d) 30),
           rq_security_score = lifi_security_score d, rq_reliability_score = lifi_reliability_score d,
           rq_expires_at = js_trunc (of_int now + orElse (la_validity d) 60 * 1000) \<rparr>)"

definition lifi_normalizeQuote :: "int \<Rightarrow> lifi_body \<Rightarrow> quote_params \<Rightarrow> js_error + route_quote" where
  "lifi_normalizeQuote now raw params = (case raw of LifiQuote d \<Rightarrow> Inr (lifi_quote_of now d params) | _ \<Rightarrow> Inl type_error)"

text \<open>\<open>fetchRawQuote\<close> followed by \<open>normalizeQuote\<close>: what the circuit breaker runs.\<close>

definition lifi_quote :: "lifi_options \<Rightarrow> lifi_body api_call \<Rightarrow> nat \<Rightarrow> quote_params \<Rightarrow> js_error + route_quote" where
  "lifi_quote o1 x counter params = (case snd (lifi_fetchRawQuote o1 x params counter) of
     Inl e \<Rightarrow> Inl e | Inr raw \<Rightarrow> lifi_normalizeQuote (ac_now x) raw params)"

section \<open>Execution and status\<close>

definition lifi_mapStatus :: "string option \<Rightarrow> route_status" where
  "lifi_mapStatus status = (case map_option to_upper status of
     None \<Rightarrow> RT_PENDING
   | Some s \<Rightarrow> if s \<in> {''COMPLETED'', ''DONE''} then RT_COMPLETED else if s = ''FAILED'' then RT_FAILED
       else if s \<in> {''PENDING'', ''WAITING''} then RT_PENDING
       else if s \<in> {''EXECUTING'', ''IN_PROGRESS''} then RT_EXECUTING
       else if s = ''REFUNDED'' then RT_REFUNDED else RT_PENDING)"

definition lifi_execute :: "route_quote \<Rightarrow> execution_result" where
  "lifi_execute q = hand_back (\<lambda>s. lifi_mapStatus (Some s)) q"

definition lifi_fetchStatus :: "lifi_options \<Rightarrow> lifi_body api_call \<Rightarrow> string \<Rightarrow> nat \<Rightarrow> nat \<times> (js_error + route_status)" where
  "lifi_fetchStatus o1 x executionId counter =
     (case api_send (lifi_http o1) x (http_get (''/v1/status/'' @ executionId) (call_options 10000)) counter of
        (counter1, Inr data) \<Rightarrow> (counter1, Inr (lifi_mapStatus (case data of LifiStatus s \<Rightarrow> s | _ \<Rightarrow> None)))
      | (counter1, Inl err) \<Rightarrow> (counter1, case err of
            HttpError st msg rid body \<Rightarrow> if st = 404 then Inr RT_PENDING else Inl (http_thrown (ac_number x) err)
          | _ \<Rightarrow> Inl (http_thrown (ac_number x) err)))"

section \<open>The contract\<close>

lemma lifi_quote_answers: "answers ''lifi'' params (lifi_quote_of now d params)" "scores_in_range (lifi_quote_of now d params)"
  by (simp_all add: lifi_quote_of_def answers_def scores_in_range_def Let_def lifi_security_score_def lifi_reliability_score_def
      clamp_score_bounds)

interpretation lifi: scoring_adapter "\<lambda>(o1, x, counter). lifi_quote o1 x counter" "''lifi''"
  by unfold_locales
    (auto simp: lifi_quote_def lifi_normalizeQuote_def lifi_quote_answers split: sum.splits lifi_body.splits)

text \<open>One request is made of the API for a quote, whatever the adapter's option for retries.\<close>

lemma lifi_one_request:
  "xc_fetch y 0 = out \<Longrightarrow> attempts y (max_retries (lifi_http o1) (call_options t)) 0 = ([], conclude y out)"
  by (simp add: lifi_http_def new_http_client_def orElse_def max_retries_def call_options_def attempts_step(2))

end
