(* ===== verification/Socket_Provider.thy ===== *)
theory Socket_Provider
  imports Route_Adapters
begin

text \<open>
  \<open>SocketRouteProvider\<close> (\<open>packages/routing-engine/src/providers/socket-route-provider.ts\<close>): request, answer,
  execution and status of the Socket (Bungee) API, under the same conventions as the LI.FI adapter.
\<close>

section \<open>Data\<close>

datatype socket_sort = SortOutput | SortGas | SortTime

record socket_request =
  sq_from_chain_id :: nat
  sq_to_chain_id :: nat
  sq_from_token :: string
  sq_to_token :: string
  sq_from_amount :: string
  sq_user_address :: string
  sq_sort :: socket_sort
  sq_single_tx_only :: bool

record socket_step =
  ss_type :: string
  ss_protocol :: string
  ss_from_address :: string
  ss_from_decimals :: nat
  ss_chain_id :: nat

record socket_route =
  sr_id :: string
  sr_to_decimals :: nat
  sr_to_amount :: "string option"
  sr_gas_usd :: "rat option"
  sr_relayer_usd :: "rat option"
  sr_protocol_fees :: "rat option list option"
  sr_steps :: "socket_step list"
  sr_max_time :: "rat option"

text \<open>A quote body carries the flag and the routes, a status body the statuses of both transactions.\<close>

datatype socket_body =
    SocketQuoteRequest socket_request
  | SocketQuote bool "socket_route list option"
  | SocketStatus "string option" "string option"
  | SocketOther

record socket_options =
  so_api_key :: string
  so_base_url :: "string option"
  so_timeout_ms :: "rat option"
  so_max_retries :: "nat option"
  so_sort :: "socket_sort option"
  so_single_tx_only :: "bool option"

record socket_config =
  sk_base_url :: string
  sk_timeout_ms :: rat
  sk_max_retries :: nat
  sk_sort :: socket_sort
  sk_single_tx_only :: bool

definition socket_chains :: "(string \<times> nat) list" where
  "socket_chains = main_chains @ [(''zksync'', 324), (''linea'', 59144), (''scroll'', 534352), (''mantle'', 5000),
     (''mode'', 34443), (''blast'', 81457), (''manta'', 169)] @ test_chains"

definition SOCKET_DEFAULT_CONFIG :: socket_config where
  "SOCKET_DEFAULT_CONFIG = \<lparr> sk_base_url = ''https://api.socket.tech'', sk_timeout_ms = 15000, sk_max_retries = 2,
     sk_sort = SortOutput, sk_single_tx_only = True \<rparr>"

definition socket_config_of :: "socket_options \<Rightarrow> socket_config" where
  "socket_config_of o1 = \<lparr> sk_base_url = orElse (so_base_url o1) (sk_base_url SOCKET_DEFAULT_CONFIG),
     sk_timeout_ms = orElse (so_timeout_ms o1) (sk_timeout_ms SOCKET_DEFAULT_CONFIG),
     sk_max_retries = orElse (so_max_retries o1) (sk_max_retries SOCKET_DEFAULT_CONFIG),
     sk_sort = orElse (so_sort o1) (sk_sort SOCKET_DEFAULT_CONFIG),
     sk_single_tx_only = orElse (so_single_tx_only o1) (sk_single_tx_only SOCKET_DEFAULT_CONFIG) \<rparr>"

definition socket_http :: "socket_options \<Rightarrow> http_config" where
  "socket_http o1 = new_http_client \<lparr> ho_base_url = orElse (so_base_url o1) (sk_base_url SOCKET_DEFAULT_CONFIG),
     ho_api_key = Some (so_api_key o1), ho_api_key_header = Some ''API-KEY'',
     ho_timeout_ms = Some (orElse (so_timeout_ms o1) (sk_timeout_ms SOCKET_DEFAULT_CONFIG)), ho_max_retries = Some 0,
     ho_base_delay = None, ho_max_delay = None, ho_user_agent = Some ''NexoraCryptoGateway/1.0 (Socket Adapter)'',
     ho_extra_headers = None \<rparr>"

definition socket_supported_chains :: "string list" where
  "socket_supported_chains = main_only socket_chains"

definition socket_circuit_options :: circuit_options where
  "socket_circuit_options = \<lparr> co_failure_threshold = 5, co_recovery_timeout = 30000 \<rparr>"

section \<open>The request\<close>

definition socket_request_of :: "socket_config \<Rightarrow> quote_params \<Rightarrow> js_error + socket_request" where
  "socket_request_of c params =
     (case resolveChainId socket_chains ''Socket'' (qp_source_chain params) of Inl e \<Rightarrow> Inl e | Inr from_id \<Rightarrow>
     (case resolveChainId socket_chains ''Socket'' (qp_target_chain params) of Inl e \<Rightarrow> Inl e | Inr to_id \<Rightarrow>
     (case resolveTokenAddress ''Socket'' from_id (qp_source_asset params) of Inl e \<Rightarrow> Inl e | Inr from_token \<Rightarrow>
     (case resolveTokenAddress ''Socket'' to_id (qp_target_asset params) of Inl e \<Rightarrow> Inl e | Inr to_token \<Rightarrow>
        Inr \<lparr> sq_from_chain_id = from_id, sq_to_chain_id = to_id, sq_from_token = from_token, sq_to_token = to_token,
          sq_from_amount = toWei (qp_source_amount params) (qp_source_asset params),
          sq_user_address = ''0x0000000000000000000000000000000000000000'', sq_sort = sk_sort c,
          sq_single_tx_only = sk_single_tx_only c \<rparr>))))"

text \<open>The first route of the answer, which is sorted by the API.\<close>

definition socket_best_route :: "socket_body \<Rightarrow> js_error + socket_route" where
  "socket_best_route data = (case data of
     SocketQuote ok routes \<Rightarrow>
       (if \<not> ok then Inl (JsError ''Error'' ''No routes found from Socket'')
        else case routes of None \<Rightarrow> Inl type_error
          | Some [] \<Rightarrow> Inl (JsError ''Error'' ''No routes found from Socket'')
          | Some (r # _) \<Rightarrow> Inr r)
   | _ \<Rightarrow> Inl (JsError ''Error'' ''No routes found from Socket''))"

definition socket_fetchRawQuote ::
    "socket_options \<Rightarrow> socket_body api_call \<Rightarrow> quote_params \<Rightarrow> nat \<Rightarrow> nat \<times> (js_error + socket_route)" where
  "socket_fetchRawQuote o1 x params counter =
     (case socket_request_of (socket_config_of o1) params of
        Inl e \<Rightarrow> (counter, Inl e)
      | Inr body \<Rightarrow>
          (case api_send (socket_http o1) x (http_post ''/v2/quote'' (Some (SocketQuoteRequest body))
               (call_options (sk_timeout_ms (socket_config_of o1)))) counter of
             (counter1, Inl err) \<Rightarrow> (counter1, Inl (http_thrown (ac_number x) err))
           | (counter1, Inr data) \<Rightarrow> (counter1, socket_best_route data)))"

section \<open>The answer\<close>

definition socket_fee_usd :: "socket_route \<Rightarrow> rat" where
  "socket_fee_usd r = orElse (sr_gas_usd r) 0 + orElse (sr_relayer_usd r) 0
     + (case sr_protocol_fees r of None \<Rightarrow> 0 | Some fs \<Rightarrow> foldl (\<lambda>s f. s + orElse f 0) 0 fs)"

text \<open>The input of a step that starts from the native token is the whole amount, in units of the step's token.\<close>

definition socket_step_of :: "quote_params \<Rightarrow> socket_step \<Rightarrow> route_step" where
  "socket_step_of params s = \<lparr> st_chain = orElse (chain_name_of socket_chains (ss_chain_id s)) (qp_source_chain params),
     st_protocol = ss_protocol s, st_action = ss_type s,
     st_input_amount = Some ((if ss_from_address s = native_token then qp_source_amount params else 0) / 10 ^ ss_from_decimals s),
     st_output_amount = Some 0, st_fee = Some 0 \<rparr>"

definition socket_protocols :: "string list" where
  "socket_protocols = [''hop'', ''connext'', ''stargate'', ''across'', ''woofi'', ''synapse'', ''lifi'']"

text \<open>\<open>feeRatio > 0.05\<close>: a positive fee over the amount 0 is infinite, everything else over it is not above.\<close>

definition high_fee :: "socket_route \<Rightarrow> bool" where
  "high_fee r = (case (nan_op (+) (sr_gas_usd r) (sr_relayer_usd r), Option.bind (sr_to_amount r) parse_float) of
     (Some fee, Some amount) \<Rightarrow> if amount = 0 then 0 < fee else 5 / 100 < fee / (amount / 10 ^ 18)
   | _ \<Rightarrow> False)"

definition socket_security_score :: "socket_route \<Rightarrow> rat" where
  "socket_security_score r =
     clamp_score (72 + min (of_nat (known_count socket_protocols (map ss_protocol (sr_steps r)) * 4)) 12
       - (if high_fee r then 8 else 0))"

definition socket_reliability_score :: "socket_route \<Rightarrow> rat" where
  "socket_reliability_score r = clamp_score (73 + duration_bonus (sr_max_time r) + steps_bonus (length (sr_steps r)))"

definition socket_normalizeQuote :: "int \<Rightarrow> socket_route \<Rightarrow> quote_params \<Rightarrow> route_quote" where
  "socket_normalizeQuote now r params =
     (let fee = Some (socket_fee_usd r); steps = map (socket_step_of params) (sr_steps r);
          to_amount = (case truthy_str (sr_to_amount r) of None \<Rightarrow> Some (qp_source_amount params)
            | Some s \<Rightarrow> units s (sr_to_decimals r))
      in \<lparr> rq_id = sr_id r, rq_provider = ''socket'', rq_source_chain = qp_source_chain params,
           rq_source_asset = qp_source_asset params, rq_source_amount = qp_source_amount params,
           rq_target_chain = qp_target_chain params, rq_target_asset = qp_target_asset params, rq_target_amount = to_amount,
           rq_steps = (if steps = [] then [\<lparr> st_chain = qp_source_chain params, st_protocol = ''socket'', st_action = ''bridge'',
               st_input_amount = Some (qp_source_amount params), st_output_amount = to_amount, st_fee = fee \<rparr>] else steps),
           rq_estimated_fee = fee, rq_estimated_time = Some (orElse (sr_max_time r) 30),
           rq_security_score = socket_security_score r, rq_reliability_score = socket_reliability_score r,
           rq_expires_at = now + 60 * 1000 \<rparr>)"

definition socket_quote :: "socket_options \<Rightarrow> socket_body api_call \<Rightarrow> nat \<Rightarrow> quote_params \<Rightarrow> js_error + route_quote" where
  "socket_quote o1 x counter params = (case snd (socket_fetchRawQuote o1 x params counter) of
     Inl e \<Rightarrow> Inl e | Inr r \<Rightarrow> Inr (socket_normalizeQuote (ac_now x) r params))"

section \<open>Execution and status\<close>

definition socket_mapStatus :: "string option \<Rightarrow> route_status" where
  "socket_mapStatus status = (case map_option to_lower status of
     None \<Rightarrow> RT_PENDING
   | Some s \<Rightarrow> if s \<in> {''completed'', ''confirmed'', ''success''} then RT_COMPLETED
       else if s \<in> {''failed'', ''reverted''} then RT_FAILED
       else if s \<in> {''pending'', ''waiting'', ''indexing''} then RT_PENDING
       else if s \<in> {''executing'', ''in_progress'', ''src-pending'', ''src-defined''} then RT_EXECUTING
       else if s = ''refunded'' then RT_REFUNDED else RT_PENDING)"

definition socket_execute :: "route_quote \<Rightarrow> execution_result" where
  "socket_execute q = hand_back (\<lambda>s. socket_mapStatus (Some s)) q"

definition socket_fetchStatus :: "socket_options \<Rightarrow> socket_body api_call \<Rightarrow> string \<Rightarrow> nat \<Rightarrow> nat \<times> (js_error + route_status)" where
  "socket_fetchStatus o1 x executionId counter =
     (case api_send (socket_http o1) x (http_get (''/v2/transaction/'' @ executionId) (call_options 10000)) counter of
        (counter1, Inr data) \<Rightarrow> (counter1, Inr (socket_mapStatus (case data of
            SocketStatus source destination \<Rightarrow> (case destination of None \<Rightarrow> source | Some s \<Rightarrow> Some s) | _ \<Rightarrow> None)))
      | (counter1, Inl err) \<Rightarrow> (counter1, case err of
            HttpError st msg rid body \<Rightarrow> if st = 404 then Inr RT_PENDING else Inl (http_thrown (ac_number x) err)
          | _ \<Rightarrow> Inl (http_thrown (ac_number x) err)))"

section \<open>The contract\<close>

lemma socket_quote_answers:
  "answers ''socket'' params (socket_normalizeQuote now r params)" "scores_in_range (socket_normalizeQuote now r params)"
  by (simp_all add: socket_normalizeQuote_def answers_def scores_in_range_def Let_def socket_security_score_def
      socket_reliability_score_def clamp_score_bounds)

interpretation socket: scoring_adapter "\<lambda>(o1, x, counter). socket_quote o1 x counter" "''socket''"
  by unfold_locales (auto simp: socket_quote_def socket_quote_answers split: sum.splits)

end
