(* ===== verification/Mock_Providers.thy ===== *)
theory Mock_Providers
  imports Route_Adapters
begin

text \<open>
  The simulated aggregators \<open>MockLiFiProvider\<close> and \<open>MockSocketProvider\<close>
  (\<open>mock-lifi-provider.ts\<close>, \<open>mock-socket-provider.ts\<close>).  The two are one code with different texts and
  factors, collected in a record; \<open>Math.random\<close> is a parameter, its n-th value of the call, and so are
  the texts made of its value in base 36 and 16.  Delays settle the promise later and are not modelled.
\<close>

record mock_config =
  mk_fee :: rat
  mk_time :: rat
  mk_security :: rat
  mk_reliability :: rat
  mk_failure_rate :: rat

record mock_kind =
  mn_name :: string
  mn_unavailable :: string
  mn_protocol :: string
  mn_fee_factor :: rat
  mn_time_factor :: rat
  mn_actual_fee :: rat
  mn_actual_time :: rat

record mock_raw =
  mr_id :: string
  mr_fee :: rat
  mr_time :: rat

definition MOCK_LIFI_DEFAULT :: mock_config where
  "MOCK_LIFI_DEFAULT = \<lparr> mk_fee = 1 / 2, mk_time = 30, mk_security = 85, mk_reliability = 90, mk_failure_rate = 0 \<rparr>"

definition MOCK_SOCKET_DEFAULT :: mock_config where
  "MOCK_SOCKET_DEFAULT = \<lparr> mk_fee = 3 / 10, mk_time = 25, mk_security = 80, mk_reliability = 85, mk_failure_rate = 0 \<rparr>"

definition mock_lifi :: mock_kind where
  "mock_lifi = \<lparr> mn_name = ''lifi'', mn_unavailable = ''LI.FI API temporarily unavailable'', mn_protocol = ''lifi-aggregator'',
     mn_fee_factor = 2, mn_time_factor = 3 / 2, mn_actual_fee = 1 / 2, mn_actual_time = 25 \<rparr>"

definition mock_socket :: mock_kind where
  "mock_socket = \<lparr> mn_name = ''socket'', mn_unavailable = ''Socket API temporarily unavailable'', mn_protocol = ''socket-aggregator'',
     mn_fee_factor = 18 / 10, mn_time_factor = 13 / 10, mn_actual_fee = 3 / 10, mn_actual_time = 20 \<rparr>"

definition mock_chains :: "string list" where
  "mock_chains = [''ethereum'', ''polygon'', ''arbitrum'', ''optimism'', ''base'', ''bsc'', ''avalanche'']"

definition mock_assets :: "string list" where
  "mock_assets = [''USDC'', ''USDT'', ''ETH'', ''DAI'', ''WBTC'']"

text \<open>The first random value is the delay's, the second decides the failure, the third names the quote.\<close>

definition mock_fetchRawQuote ::
    "mock_kind \<Rightarrow> mock_config \<Rightarrow> int \<Rightarrow> (nat \<Rightarrow> rat) \<Rightarrow> (rat \<Rightarrow> string) \<Rightarrow> quote_params \<Rightarrow> js_error + mock_raw" where
  "mock_fetchRawQuote k c now random base36 params =
     (if random 1 < mk_failure_rate c then Inl (JsError ''Error'' (mn_unavailable k))
      else let crossing = qp_source_chain params \<noteq> qp_target_chain params
           in Inr \<lparr> mr_id = mn_name k @ ''-'' @ int_text now @ ''-'' @ base36 (random 2),
                mr_fee = (if crossing then mk_fee c * mn_fee_factor k else mk_fee c),
                mr_time = (if crossing then mk_time c * mn_time_factor k else mk_time c) \<rparr>)"

definition mock_normalizeQuote :: "mock_kind \<Rightarrow> mock_config \<Rightarrow> int \<Rightarrow> mock_raw \<Rightarrow> quote_params \<Rightarrow> route_quote" where
  "mock_normalizeQuote k c now raw params =
     \<lparr> rq_id = mr_id raw, rq_provider = mn_name k, rq_source_chain = qp_source_chain params,
       rq_source_asset = qp_source_asset params, rq_source_amount = qp_source_amount params,
       rq_target_chain = qp_target_chain params, rq_target_asset = qp_target_asset params,
       rq_target_amount = Some (qp_source_amount params - mr_fee raw),
       rq_steps = [\<lparr> st_chain = qp_source_chain params, st_protocol = mn_protocol k, st_action = ''bridge'',
           st_input_amount = Some (qp_source_amount params), st_output_amount = Some (qp_source_amount params - mr_fee raw),
           st_fee = Some (mr_fee raw) \<rparr>],
       rq_estimated_fee = Some (mr_fee raw), rq_estimated_time = Some (mr_time raw), rq_security_score = mk_security c,
       rq_reliability_score = mk_reliability c, rq_expires_at = now + 60000 \<rparr>"

definition mock_quote ::
    "mock_kind \<Rightarrow> mock_config \<Rightarrow> int \<Rightarrow> (nat \<Rightarrow> rat) \<Rightarrow> (rat \<Rightarrow> string) \<Rightarrow> quote_params \<Rightarrow> js_error + route_quote" where
  "mock_quote k c now random base36 params =
     map_sum id (\<lambda>raw. mock_normalizeQuote k c now raw params) (mock_fetchRawQuote k c now random base36 params)"

text \<open>The execution counter is a field of the provider.\<close>

definition mock_execute ::
    "mock_kind \<Rightarrow> (nat \<Rightarrow> rat) \<Rightarrow> (rat \<Rightarrow> string) \<Rightarrow> route_quote \<Rightarrow> nat \<Rightarrow> nat \<times> execution_result" where
  "mock_execute k random base16 q counter =
     (Suc counter, \<lparr> er_execution_id = mn_name k @ ''-exec-'' @ nat_text (Suc counter), er_status = RT_COMPLETED,
        er_transaction_hashes = [''0x'' @ base16 (random 0)], er_actual_fee = mn_actual_fee k, er_actual_time = mn_actual_time k \<rparr>)"

definition mock_fetchStatus :: "string \<Rightarrow> route_status" where
  "mock_fetchStatus executionId = RT_COMPLETED"

definition mock_provider :: "mock_kind \<Rightarrow> mock_config \<Rightarrow> int \<Rightarrow> (nat \<Rightarrow> rat) \<Rightarrow> (rat \<Rightarrow> string) \<Rightarrow> (rat \<Rightarrow> string)
     \<Rightarrow> int \<Rightarrow> nat \<Rightarrow> provider" where
  "mock_provider k c now random base36 base16 latency counter =
     \<lparr> pv_name = mn_name k, pv_chains = mock_chains, pv_options = DEFAULT_OPTIONS, pv_breaker = new_circuit,
       pv_quote = mock_quote k c now random base36, pv_latency = (\<lambda>_. latency),
       pv_execute = (\<lambda>q. Inr (snd (mock_execute k random base16 q counter))), pv_status = (\<lambda>i. Inr (mock_fetchStatus i)) \<rparr>"

section \<open>The contract\<close>

lemma mock_quote_answers: "mock_quote k c now random digits params = Inr q \<Longrightarrow> answers (mn_name k) params q"
  by (auto simp: mock_quote_def mock_fetchRawQuote_def mock_normalizeQuote_def answers_def Let_def split: if_splits)

interpretation mock: quote_adapter "\<lambda>(c, now, random, digits). mock_quote k c now random digits" "mn_name k" for k
  by unfold_locales (auto intro: mock_quote_answers)

text \<open>A mock quotes the scores of its configuration as they are, and the defaults are in their range.\<close>

lemma mock_quote_scores:
  "mock_quote k c now random digits params = Inr q
     \<Longrightarrow> rq_security_score q = mk_security c \<and> rq_reliability_score q = mk_reliability c"
  by (cases "mock_fetchRawQuote k c now random digits params") (auto simp: mock_quote_def mock_normalizeQuote_def)

interpretation mock_default: scoring_adapter "\<lambda>(now, random, digits). mock_quote mock_lifi MOCK_LIFI_DEFAULT now random digits" "''lifi''"
proof
  fix x and params and q :: route_quote
  assume "(\<lambda>(now, random, digits). mock_quote mock_lifi MOCK_LIFI_DEFAULT now random digits) x params = Inr q"
  then have q: "mock_quote mock_lifi MOCK_LIFI_DEFAULT (fst x) (fst (snd x)) (snd (snd x)) params = Inr q"
    by (cases x) simp
  show "answers ''lifi'' params q" using mock_quote_answers [OF q] by (simp add: mock_lifi_def)
  show "scores_in_range q" using mock_quote_scores [OF q] by (simp add: scores_in_range_def MOCK_LIFI_DEFAULT_def)
qed

end
