(* ===== verification/Route_Provider_Properties.thy ===== *)
theory Route_Provider_Properties
  imports Lifi_Provider Socket_Provider Mock_Providers
begin

text \<open>
  What the route engine gets from the adapters: requests that name the amount to the base unit, an
  execution that hands the route back, which assets can be quoted, and the effect of those that are
  advertised but not configured.
\<close>

section \<open>The amount of a request\<close>

text \<open>In a request that is made, both chains are resolved, and the amount the aggregator reads from the
  text is within half a base unit of the amount asked for.\<close>

theorem request_amount_reads_back:
  assumes "lifi_request_of c params = Inr r"
  shows "map_of lifi_chains (to_lower (qp_source_chain params)) = Some (lq_from_chain r)
    \<and> map_of lifi_chains (to_lower (qp_target_chain params)) = Some (lq_to_chain r)
    \<and> (\<exists>n. parse_int (lq_from_amount r) = Some n
         \<and> \<bar>of_int n / 10 ^ getDecimals (qp_source_asset params) - qp_source_amount params\<bar>
             \<le> 1 / (2 * 10 ^ getDecimals (qp_source_asset params)))"
  using assms toWei_read_back [of "qp_source_amount params" "qp_source_asset params"]
  by (auto simp: lifi_request_of_def resolveChainId_def split: sum.splits option.splits)

definition ex_params :: "string \<Rightarrow> rat \<Rightarrow> quote_params" where
  "ex_params asset amount = \<lparr> qp_source_chain = ''ethereum'', qp_source_asset = asset, qp_source_amount = amount,
     qp_target_chain = ''Base'', qp_target_asset = ''USDC'', qp_target_amount = amount \<rparr>"

theorem request_amount_reads_back_witness:
  "\<exists>r. lifi_request_of LIFI_DEFAULT_CONFIG (ex_params ''USDC'' (1 / 3)) = Inr r \<and> lq_to_chain r = 8453
     \<and> parse_int (lq_from_amount r) = Some 333333"
proof -
  have low: "to_lower ''ethereum'' = ''ethereum''" "to_lower ''Base'' = ''base''" by code_simp+
  have ids: "resolveChainId lifi_chains ''LI.FI'' ''ethereum'' = Inr 1" "resolveChainId lifi_chains ''LI.FI'' ''Base'' = Inr 8453"
    by (simp_all add: resolveChainId_def lifi_chains_def main_chains_def low)
  have up: "to_upper ''USDC'' = ''USDC''" by code_simp
  obtain a b where tokens: "resolveTokenAddress ''LI.FI'' 1 ''USDC'' = Inr a" "resolveTokenAddress ''LI.FI'' 8453 ''USDC'' = Inr b"
    by (simp add: resolveTokenAddress_def TOKEN_ADDRESSES_def truthy_str_def up Let_def)
  obtain r where r: "lifi_request_of LIFI_DEFAULT_CONFIG (ex_params ''USDC'' (1 / 3)) = Inr r"
    using ids tokens by (simp add: lifi_request_of_def ex_params_def)
  have "getDecimals ''USDC'' = 6" by (simp add: getDecimals_def up Let_def)
  moreover have "map_of lifi_chains (to_lower ''Base'') = Some 8453"
    using ids(2) by (simp add: resolveChainId_def split: option.splits)
  ultimately obtain n where n: "parse_int (lq_from_amount r) = Some n"
      "\<bar>of_int n / 10 ^ 6 - 1 / 3\<bar> \<le> (1 / (2 * 10 ^ 6) :: rat)" "lq_to_chain r = 8453"
    using request_amount_reads_back [OF r] by (auto simp: ex_params_def)
  then have "2 * \<bar>of_int n * 3 - 1000000\<bar> \<le> (3 :: rat)" by (simp add: field_simps)
  then have "of_int (2 * \<bar>n * 3 - 1000000\<bar>) \<le> (of_int 3 :: rat)" by simp
  then have "2 * \<bar>n * 3 - 1000000\<bar> \<le> 3" by (simp only: of_int_le_iff)
  then have "n = 333333" by presburger
  with r n show ?thesis by simp
qed

section \<open>Execution\<close>

text \<open>Executing a quote of either aggregator through an engine whose provider runs the adapter succeeds with
  the status PENDING and no transaction hash: nothing has been submitted, and the circuit breaker counts a success.\<close>

theorem executing_aggregator_route_sends_nothing:
  assumes "get_provider reg (rq_provider q) = Some p" "cb_state (pv_breaker p) = CS_CLOSED"
    and "pv_execute p = Inr \<circ> lifi_execute \<or> pv_execute p = Inr \<circ> socket_execute"
  shows "snd (executeRoute t1 t2 q reg) = Inr \<lparr> er_execution_id = rq_id q, er_status = RT_PENDING,
      er_transaction_hashes = [], er_actual_fee = 0, er_actual_time = 0 \<rparr>
    \<and> fst (executeRoute t1 t2 q reg) = put_providers [p\<lparr> pv_breaker := onSuccess (pv_breaker p) \<rparr>] reg"
proof -
  have "pv_execute p q = Inr \<lparr> er_execution_id = rq_id q, er_status = RT_PENDING, er_transaction_hashes = [],
      er_actual_fee = 0, er_actual_time = 0 \<rparr>"
    using assms(3)
    by (auto simp: lifi_execute_def socket_execute_def hand_back_def lifi_mapStatus_def socket_mapStatus_def
        to_upper_def to_lower_def upper_char_def lower_char_def Let_def)
  then show ?thesis
    using assms(1,2)
    by (simp add: executeRoute_def provider_execute_def cb_execute_def execute_enter_def execute_settle_def)
qed

definition ex_lifi :: provider where
  "ex_lifi = (demo_provider ''lifi'' 1)\<lparr> pv_execute := Inr \<circ> lifi_execute \<rparr>"

theorem executing_aggregator_route_sends_nothing_witness:
  "snd (executeRoute 1 2 (demo_quote ''lifi'' 1) [(''lifi'', ex_lifi)]) = Inr \<lparr> er_execution_id = ''lifi'',
     er_status = RT_PENDING, er_transaction_hashes = [], er_actual_fee = 0, er_actual_time = 0 \<rparr>"
proof -
  have "get_provider [(''lifi'', ex_lifi)] (rq_provider (demo_quote ''lifi'' 1)) = Some ex_lifi"
    by (simp add: get_provider_def demo_quote_def)
  moreover have "cb_state (pv_breaker ex_lifi) = CS_CLOSED" "pv_execute ex_lifi = Inr \<circ> lifi_execute"
    by (simp_all add: ex_lifi_def demo_provider_def new_circuit_def)
  ultimately show ?thesis
    using executing_aggregator_route_sends_nothing [of "[(''lifi'', ex_lifi)]" "demo_quote ''lifi'' 1" ex_lifi 1 2]
    by (simp add: demo_quote_def)
qed

section \<open>Assets that cannot be quoted\<close>

text \<open>The assets of a chain that have a token address, and the chains that have any.\<close>

definition configured_assets :: "nat \<Rightarrow> string list" where
  "configured_assets i = (if i = 1 then [''ETH'', ''USDC'', ''USDT'', ''DAI'', ''WBTC''] else if i = 137 then [''USDC'', ''USDT'', ''DAI'', ''WMATIC'']
     else if i \<in> {42161, 10} then [''ETH'', ''USDC'', ''USDT'', ''DAI''] else if i = 8453 then [''ETH'', ''USDC'', ''DAI''] else [])"




text \<open>Of the hundred advertised pairs of a mainnet chain and an asset, eighty-one cannot be quoted.\<close>

lemma advertised_but_unquotable:
  "length (List.product main_chains supportedAssets) = 100"
  "sum_list (map (\<lambda>(_, i). length (filter (\<lambda>asset. asset \<notin> set (configured_assets i)) supportedAssets)) main_chains) = 81"
  by (simp_all add: main_chains_def supportedAssets_def configured_assets_def)










end
