(* ===== verification/Database_Client.thy ===== *)
theory Database_Client
  imports Intent_Repository Merchant_Auth
begin

text \<open>
  The database package (\<open>packages/db/src/connection.ts\<close>): the pool's configuration, one connection as
  a session of PostgreSQL, and \<open>transaction\<close>.  What PostgreSQL does with a statement is a function of
  the tables; what it does with BEGIN, COMMIT, ROLLBACK and with a statement after a failed one is
  its documented behaviour.  The last section runs the statements of the intent repository in a
  transaction and compares with the one-step operations of the repository's model.
\<close>

section \<open>The pool\<close>

record pool_config =
  pc_host :: string
  pc_port :: "int option"
  pc_database :: string
  pc_user :: string
  pc_password :: string
  pc_min :: int
  pc_max :: int
  pc_idle_ms :: int
  pc_connect_ms :: int

record pool_request =
  pr_host :: "string option"
  pr_port :: "int option"
  pr_database :: "string option"
  pr_user :: "string option"
  pr_password :: "string option"
  pr_min :: "int option"
  pr_max :: "int option"

definition int_or :: "int option \<Rightarrow> int \<Rightarrow> int" where
  "int_or v d = (case v of None \<Rightarrow> d | Some n \<Rightarrow> if n = 0 then d else n)"

text \<open>
  The variables of the process win over the argument; a port that is not a number is \<open>NaN\<close>, here
  \<open>None\<close>.  The pool is made once.
\<close>

definition pool_of :: "(string \<Rightarrow> string option) \<Rightarrow> pool_request \<Rightarrow> pool_config" where
  "pool_of procenv r = \<lparr>
     pc_host = text_or (procenv ''DATABASE_HOST'') (text_or (pr_host r) ''localhost''),
     pc_port = parse_int (text_or (procenv ''DATABASE_PORT'') (int_text (int_or (pr_port r) 5432))),
     pc_database = text_or (procenv ''DATABASE_NAME'') (text_or (pr_database r) ''crypto_gateway''),
     pc_user = text_or (procenv ''DATABASE_USER'') (text_or (pr_user r) ''postgres''),
     pc_password = text_or (procenv ''DATABASE_PASSWORD'') (text_or (pr_password r) ''postgres''),
     pc_min = int_or (pr_min r) 2, pc_max = int_or (pr_max r) 20,
     pc_idle_ms = 30000, pc_connect_ms = 5000 \<rparr>"

definition getPool :: "(string \<Rightarrow> string option) \<Rightarrow> pool_request \<Rightarrow> pool_config option \<Rightarrow> pool_config" where
  "getPool procenv r current = (case current of Some p \<Rightarrow> p | None \<Rightarrow> pool_of procenv r)"

definition no_request :: pool_request where
  "no_request = \<lparr> pr_host = None, pr_port = None, pr_database = None, pr_user = None,
     pr_password = None, pr_min = None, pr_max = None \<rparr>"

datatype pool_op = GetPool pool_request | ClosePool

fun pool_step :: "(string \<Rightarrow> string option) \<Rightarrow> pool_op \<Rightarrow> pool_config option \<Rightarrow> pool_config option" where
  "pool_step procenv (GetPool r) current = Some (getPool procenv r current)"
| "pool_step procenv ClosePool current = None"

section \<open>A session\<close>

datatype sql_error = Refused string | Connection_Lost

datatype 'db tx_state = No_Tx | In_Tx 'db | Failed_Tx | Lost

text \<open>
  What happens to a statement on its way: it is heard and answered, the server turns it down before running it,
  or the connection breaks, before the statement took effect or after, when only the answer is lost.
\<close>

datatype wire = Heard | Turned_Down string | Cut_Before | Cut_After

text \<open>What is stored, the transaction of the connection in use, the clients taken from the pool, and what will
  happen to the next statements; after that list every statement is heard.\<close>

record 'db session =
  ss_stored :: 'db
  ss_tx :: "'db tx_state"
  ss_out :: nat
  ss_wire :: "wire list"

type_synonym ('db, 'a) sql_statement = "'db \<Rightarrow> sql_error + 'a \<times> 'db"

text \<open>Any statement, by its effect on the session when it is run and when it is turned down.\<close>

definition over_wire ::
    "('db session \<Rightarrow> 'db session \<times> (sql_error + 'a)) \<Rightarrow> ('db session \<Rightarrow> 'db session) \<Rightarrow> 'db session
       \<Rightarrow> 'db session \<times> (sql_error + 'a)" where
  "over_wire act turned s =
     (case ss_tx s of
        Lost \<Rightarrow> (s, Inl Connection_Lost)
      | _ \<Rightarrow>
          (case ss_wire s of
             [] \<Rightarrow> act s
           | w # ws \<Rightarrow>
               (let s = s\<lparr> ss_wire := ws \<rparr> in
                case w of
                  Heard \<Rightarrow> act s
                | Turned_Down m \<Rightarrow> (turned s, Inl (Refused m))
                | Cut_Before \<Rightarrow> (s\<lparr> ss_tx := Lost \<rparr>, Inl Connection_Lost)
                | Cut_After \<Rightarrow> ((fst (act s))\<lparr> ss_tx := Lost \<rparr>, Inl Connection_Lost))))"

text \<open>A refused statement aborts the transaction it is in.\<close>

definition aborted :: "'db session \<Rightarrow> 'db session" where
  "aborted s = (case ss_tx s of In_Tx d \<Rightarrow> s\<lparr> ss_tx := Failed_Tx \<rparr> | _ \<Rightarrow> s)"

definition run_statement :: "('db, 'a) sql_statement \<Rightarrow> 'db session \<Rightarrow> 'db session \<times> (sql_error + 'a)" where
  "run_statement q s =
     (case ss_tx s of
        Lost \<Rightarrow> (s, Inl Connection_Lost)
      | Failed_Tx \<Rightarrow> (s, Inl (Refused ''current transaction is aborted''))
      | No_Tx \<Rightarrow>
          (case q (ss_stored s) of
             Inr (v, d) \<Rightarrow> (s\<lparr> ss_stored := d \<rparr>, Inr v)
           | Inl Connection_Lost \<Rightarrow> (s\<lparr> ss_tx := Lost \<rparr>, Inl Connection_Lost)
           | Inl (Refused m) \<Rightarrow> (s, Inl (Refused m)))
      | In_Tx d \<Rightarrow>
          (case q d of
             Inr (v, d') \<Rightarrow> (s\<lparr> ss_tx := In_Tx d' \<rparr>, Inr v)
           | Inl Connection_Lost \<Rightarrow> (s\<lparr> ss_tx := Lost \<rparr>, Inl Connection_Lost)
           | Inl (Refused m) \<Rightarrow> (s\<lparr> ss_tx := Failed_Tx \<rparr>, Inl (Refused m))))"

definition send :: "('db, 'a) sql_statement \<Rightarrow> 'db session \<Rightarrow> 'db session \<times> (sql_error + 'a)" where
  "send q s = over_wire (run_statement q) aborted s"

definition run_begin :: "'db session \<Rightarrow> 'db session \<times> (sql_error + unit)" where
  "run_begin s =
     (case ss_tx s of
        Failed_Tx \<Rightarrow> (s, Inl (Refused ''current transaction is aborted''))
      | No_Tx \<Rightarrow> (s\<lparr> ss_tx := In_Tx (ss_stored s) \<rparr>, Inr ())
      | _ \<Rightarrow> (s, Inr ()))"

definition send_begin :: "'db session \<Rightarrow> 'db session \<times> (sql_error + unit)" where
  "send_begin s = over_wire run_begin aborted s"

text \<open>COMMIT of a transaction with a failed statement answers ROLLBACK, which is no error; a COMMIT the server
  turns down, as for a deferred constraint, has rolled the transaction back.\<close>

definition run_commit :: "'db session \<Rightarrow> 'db session \<times> (sql_error + unit)" where
  "run_commit s =
     (case ss_tx s of
        In_Tx d \<Rightarrow> (s\<lparr> ss_stored := d, ss_tx := No_Tx \<rparr>, Inr ())
      | _ \<Rightarrow> (s\<lparr> ss_tx := No_Tx \<rparr>, Inr ()))"

definition send_commit :: "'db session \<Rightarrow> 'db session \<times> (sql_error + unit)" where
  "send_commit s = over_wire run_commit (\<lambda>s. s\<lparr> ss_tx := No_Tx \<rparr>) s"

text \<open>A server that cannot roll back closes the connection.\<close>

definition run_rollback :: "'db session \<Rightarrow> 'db session \<times> (sql_error + unit)" where
  "run_rollback s = (s\<lparr> ss_tx := No_Tx \<rparr>, Inr ())"

definition send_rollback :: "'db session \<Rightarrow> 'db session \<times> (sql_error + unit)" where
  "send_rollback s = over_wire run_rollback (\<lambda>s. s\<lparr> ss_tx := Lost \<rparr>) s"

text \<open>\<open>pool.connect()\<close> and \<open>client.release()\<close>; the pool drops a broken client and makes a new one.\<close>

definition getClient :: "sql_error option \<Rightarrow> 'db session \<Rightarrow> 'db session \<times> (sql_error + unit)" where
  "getClient refused s = (case refused of Some e \<Rightarrow> (s, Inl e) | None \<Rightarrow> (s\<lparr> ss_out := Suc (ss_out s) \<rparr>, Inr ()))"

definition release :: "'db session \<Rightarrow> 'db session" where
  "release s = s\<lparr> ss_out := ss_out s - 1, ss_tx := (if ss_tx s = Lost then No_Tx else ss_tx s) \<rparr>"

text \<open>\<open>query\<close>: a statement of its own, on a client the pool takes and puts back.\<close>

definition db_query :: "sql_error option \<Rightarrow> ('db, 'a) sql_statement \<Rightarrow> 'db session \<Rightarrow> 'db session \<times> (sql_error + 'a)" where
  "db_query refused q s = andThen (getClient refused s) (\<lambda>s _. case send q s of (s, r) \<Rightarrow> (release s, r))"

definition healthCheck :: "sql_error option \<Rightarrow> ('db, int option list) sql_statement \<Rightarrow> 'db session \<Rightarrow> 'db session \<times> bool" where
  "healthCheck refused select_one s =
     (case db_query refused select_one s of
        (s, Inl e) \<Rightarrow> (s, False)
      | (s, Inr rows) \<Rightarrow> (s, case rows of [] \<Rightarrow> False | ok # _ \<Rightarrow> ok = Some 1))"

text \<open>The errors of the database are thrown as they are; \<open>thrown_as\<close> is their place among the caller's.\<close>

definition lift_error :: "(sql_error \<Rightarrow> 'e) \<Rightarrow> 's \<times> (sql_error + 'a) \<Rightarrow> 's \<times> ('e + 'a)" where
  "lift_error thrown_as m = (case m of (s, Inl e) \<Rightarrow> (s, Inl (thrown_as e)) | (s, Inr v) \<Rightarrow> (s, Inr v))"

definition transaction ::
    "(sql_error \<Rightarrow> 'e) \<Rightarrow> sql_error option \<Rightarrow> ('db session \<Rightarrow> 'db session \<times> ('e + 'a)) \<Rightarrow> 'db session
       \<Rightarrow> 'db session \<times> ('e + 'a)" where
  "transaction thrown_as refused body s =
     andThen (lift_error thrown_as (getClient refused s)) (\<lambda>s _.
       case andThen (lift_error thrown_as (send_begin s)) (\<lambda>s _.
              andThen (body s) (\<lambda>s v.
                andThen (lift_error thrown_as (send_commit s)) (\<lambda>s _. (s, Inr v)))) of
         (s, Inr v) \<Rightarrow> (release s, Inr v)
       | (s, Inl e) \<Rightarrow>
           (case send_rollback s of
              (s, Inl e') \<Rightarrow> (release s, Inl (thrown_as e'))
            | (s, Inr _) \<Rightarrow> (release s, Inl e)))"

lemma lift_error_simps [simp]:
  "lift_error f (s, Inl e) = (s, Inl (f e))"
  "lift_error f (s, Inr v) = (s, Inr v)"
  by (simp_all add: lift_error_def)

text \<open>A statement that is heard, the way everything went while no failure of the connection is considered.\<close>

lemma over_wire_heard [simp]: "ss_wire s = [] \<Longrightarrow> ss_tx s \<noteq> Lost \<Longrightarrow> over_wire act turned s = act s"
  by (cases "ss_tx s") (simp_all add: over_wire_def)

lemma over_wire_lost [simp]: "ss_tx s = Lost \<Longrightarrow> over_wire act turned s = (s, Inl Connection_Lost)"
  by (simp add: over_wire_def)

lemmas statement_defs = send_def run_statement_def send_begin_def run_begin_def send_commit_def run_commit_def
  send_rollback_def run_rollback_def

text \<open>The four fates of a statement on a connection that stands.\<close>

lemma over_wireE:
  assumes "over_wire act turned s = (s', r)" "ss_tx s \<noteq> Lost"
  obtains (heard) s1 where "act s1 = (s', r)" "s1 = s\<lparr> ss_wire := tl (ss_wire s) \<rparr>" "take 1 (ss_wire s) \<in> {[], [Heard]}"
    | (turned_down) m where "s' = turned (s\<lparr> ss_wire := tl (ss_wire s) \<rparr>)" "r = Inl (Refused m)" "take 1 (ss_wire s) = [Turned_Down m]"
    | (cut) "s' = s\<lparr> ss_wire := tl (ss_wire s), ss_tx := Lost \<rparr>" "r = Inl Connection_Lost" "take 1 (ss_wire s) = [Cut_Before]"
    | (unheard) s1 x where "act (s\<lparr> ss_wire := tl (ss_wire s) \<rparr>) = (s1, x)" "s' = s1\<lparr> ss_tx := Lost \<rparr>" "r = Inl Connection_Lost"
        "take 1 (ss_wire s) = [Cut_After]"
proof (cases "ss_wire s")
  case Nil
  then have "s\<lparr> ss_wire := tl (ss_wire s) \<rparr> = s" by simp
  then show ?thesis using assms Nil by (intro heard [of s]) simp_all
next
  case (Cons w ws)
  have tx: "\<And>P Q. (case ss_tx s of Lost \<Rightarrow> P | _ \<Rightarrow> Q) = Q" using assms(2) by (cases "ss_tx s") simp_all
  show ?thesis
    using assms(1) Cons
    by (cases w; cases "act (s\<lparr> ss_wire := ws \<rparr>)")
      (auto simp: over_wire_def tx Let_def intro: heard turned_down cut unheard)
qed

text \<open>A statement that returns a value in a transaction has run there.\<close>

lemma send_value:
  assumes "send q s = (s', Inr v)" "ss_tx s = In_Tx d"
  obtains d' where "q d = Inr (v, d')" "ss_tx s' = In_Tx d'"
  using assms(1) unfolding send_def
  by (cases rule: over_wireE)
    (use assms(2) that in \<open>auto simp: run_statement_def split: sum.splits prod.splits sql_error.splits\<close>)

text \<open>A statement outside of a transaction takes effect or does not, also when its answer is lost.\<close>

lemma send_idle:
  assumes "send q s = (s', r)" "ss_tx s = No_Tx"
  shows "ss_out s' = ss_out s \<and> (ss_tx s' = No_Tx \<or> ss_tx s' = Lost) \<and> (ss_stored s' = ss_stored s \<or> (\<exists>v. q (ss_stored s) = Inr (v, ss_stored s')))
    \<and> (case r of Inl _ \<Rightarrow> True | Inr v \<Rightarrow> ss_tx s' = No_Tx \<and> q (ss_stored s) = Inr (v, ss_stored s'))"
  using assms(1) unfolding send_def
  by (cases rule: over_wireE)
    (use assms(2) in \<open>auto simp: run_statement_def aborted_def split: sum.splits prod.splits sql_error.splits tx_state.splits\<close>)

lemma db_query_outcome:
  assumes "db_query refused q s = (s', r)" "ss_tx s = No_Tx"
  shows "ss_tx s' = No_Tx \<and> ss_out s' = ss_out s \<and> (ss_stored s' = ss_stored s \<or> (\<exists>v. q (ss_stored s) = Inr (v, ss_stored s')))
    \<and> (case r of Inl _ \<Rightarrow> True | Inr v \<Rightarrow> q (ss_stored s) = Inr (v, ss_stored s'))"
proof (cases refused)
  case None
  obtain s1 r1 where sent: "send q (s\<lparr> ss_out := Suc (ss_out s) \<rparr>) = (s1, r1)" by fastforce
  have "s' = release s1" "r = r1" using assms(1) None sent by (simp_all add: db_query_def getClient_def)
  then show ?thesis using send_idle [OF sent] assms(2) by (auto simp: release_def split: sum.splits)
qed (use assms in \<open>auto simp: db_query_def getClient_def\<close>)

section \<open>Atomicity\<close>

text \<open>
  A body of a transaction sends statements and nothing else on its client: it neither ends the
  transaction nor touches what is stored.  One rule for each way of composing bodies.
\<close>

definition tx_body :: "('db session \<Rightarrow> 'db session \<times> ('e + 'a)) \<Rightarrow> bool" where
  "tx_body f = (\<forall>s s' r. f s = (s', r) \<longrightarrow> ss_tx s \<noteq> No_Tx \<longrightarrow>
     ss_stored s' = ss_stored s \<and> ss_out s' = ss_out s \<and> ss_tx s' \<noteq> No_Tx \<and> (ss_wire s = [] \<longrightarrow> ss_wire s' = []))"

named_theorems tx_intros \<open>bodies of transactions, by the way they are composed\<close>

lemma run_statement_in_tx:
  "run_statement q s = (s', r) \<Longrightarrow> ss_tx s \<noteq> No_Tx \<Longrightarrow> ss_stored s' = ss_stored s \<and> ss_out s' = ss_out s \<and> ss_tx s' \<noteq> No_Tx
     \<and> ss_wire s' = ss_wire s"
  by (auto simp: run_statement_def split: tx_state.splits sum.splits prod.splits sql_error.splits)

lemma tx_body_send [tx_intros]: "tx_body (\<lambda>s. lift_error f (send q s))"
  unfolding tx_body_def
proof (intro allI impI)
  fix s s' r
  assume run: "lift_error f (send q s) = (s', r)" and tx: "ss_tx s \<noteq> No_Tx"
  then obtain r0 where r0: "over_wire (run_statement q) aborted s = (s', r0)"
    by (auto simp: send_def lift_error_def split: prod.splits sum.splits)
  show "ss_stored s' = ss_stored s \<and> ss_out s' = ss_out s \<and> ss_tx s' \<noteq> No_Tx \<and> (ss_wire s = [] \<longrightarrow> ss_wire s' = [])"
  proof (cases "ss_tx s = Lost")
    case True
    then show ?thesis using r0 tx by auto
  next
    case False
    from r0 False show ?thesis
      by (cases rule: over_wireE)
        (use tx in \<open>auto simp: aborted_def dest: run_statement_in_tx split: tx_state.splits\<close>)
  qed
qed

lemma tx_body_value [tx_intros]: "tx_body (\<lambda>s. (s, r))"
  by (simp add: tx_body_def)

lemma tx_body_then [tx_intros]:
  assumes "tx_body f" "\<And>v. tx_body (\<lambda>s. k s v)"
  shows "tx_body (\<lambda>s. andThen (f s) k)"
  unfolding tx_body_def
proof (intro allI impI)
  fix s s' r
  assume run: "andThen (f s) k = (s', r)" and tx: "ss_tx s \<noteq> No_Tx"
  let ?kept = "\<lambda>s s'. ss_stored s' = ss_stored s \<and> ss_out s' = ss_out s \<and> ss_tx s' \<noteq> No_Tx \<and> (ss_wire s = [] \<longrightarrow> ss_wire s' = [])"
  from run show "?kept s s'"
  proof (cases rule: andThenE)
    case (thrown x)
    then show ?thesis using assms(1) tx unfolding tx_body_def by blast
  next
    case (went_on s1 v)
    then have "?kept s s1" using assms(1) tx unfolding tx_body_def by blast
    then show ?thesis using assms(2) [of v] went_on(2) unfolding tx_body_def by metis
  qed
qed

lemma tx_body_if [tx_intros]: "tx_body f \<Longrightarrow> tx_body g \<Longrightarrow> tx_body (\<lambda>s. if c then f s else g s)"
  by (cases c) simp_all

lemma tx_body_option [tx_intros]:
  "tx_body f \<Longrightarrow> (\<And>v. tx_body (\<lambda>s. g v s)) \<Longrightarrow> tx_body (\<lambda>s. case v of None \<Rightarrow> f s | Some v \<Rightarrow> g v s)"
  by (cases v) simp_all

text \<open>The session a body starts in, and what is stored once the body has returned a value.\<close>

definition begun :: "'db session \<Rightarrow> 'db session" where
  "begun s = s\<lparr> ss_tx := In_Tx (ss_stored s), ss_out := Suc (ss_out s), ss_wire := tl (ss_wire s) \<rparr>"

definition committed :: "'db session \<Rightarrow> 'db" where
  "committed s = (case ss_tx s of In_Tx d \<Rightarrow> d | _ \<Rightarrow> ss_stored s)"

lemma body_kept:
  assumes "tx_body body" "body (begun s) = (s1, r)"
  shows "ss_stored s1 = ss_stored s" "ss_out s1 = Suc (ss_out s)" "ss_tx s1 \<noteq> No_Tx" "ss_wire s = [] \<Longrightarrow> ss_wire s1 = []"
  using assms(1) [unfolded tx_body_def, rule_format, OF assms(2)] by (simp_all add: begun_def)

lemma transaction_cases:
  assumes "tx_body body" "ss_tx s = No_Tx" "ss_wire s = []" "body (begun s) = (s1, r)"
  shows "transaction f None body s =
     (case r of
        Inr v \<Rightarrow> if ss_tx s1 = Lost then (s, Inl (f Connection_Lost)) else (s\<lparr> ss_stored := committed s1 \<rparr>, Inr v)
      | Inl e \<Rightarrow> if ss_tx s1 = Lost then (s, Inl (f Connection_Lost)) else (s, Inl e))"
proof -
  have begun: "send_begin (s\<lparr> ss_out := Suc (ss_out s) \<rparr>) = (begun s, Inr ())"
    using assms(2,3) by (cases s) (simp add: send_begin_def run_begin_def begun_def)
  obtain t where t: "t \<noteq> No_Tx" "s1 = s\<lparr> ss_tx := t, ss_out := Suc (ss_out s) \<rparr>"
    using body_kept [OF assms(1,4)] assms(3) by (cases s; cases s1) (auto simp: begun_def)
  have idle: "s\<lparr> ss_tx := No_Tx \<rparr> = s" "s\<lparr> ss_stored := d, ss_tx := No_Tx \<rparr> = s\<lparr> ss_stored := d \<rparr>" for d
    using assms(2) by (cases s; simp)+
  show ?thesis
    using assms(3,4) t begun idle
    by (cases r; cases t)
      (auto simp: transaction_def getClient_def send_commit_def run_commit_def send_rollback_def run_rollback_def
        release_def committed_def)
qed

text \<open>How ROLLBACK ends: idle or lost, with what is stored untouched.\<close>

lemma send_rollback_kept:
  assumes "send_rollback s = (s', r)"
  shows "ss_stored s' = ss_stored s \<and> ss_out s' = ss_out s \<and> (ss_tx s' = No_Tx \<or> ss_tx s' = Lost)
    \<and> (r \<noteq> Inl Connection_Lost \<longrightarrow> ss_tx s \<noteq> Lost) \<and> (ss_tx s = Lost \<longrightarrow> r = Inl Connection_Lost)"
proof (cases "ss_tx s = Lost")
  case False
  from assms False show ?thesis
    unfolding send_rollback_def by (cases rule: over_wireE) (use False in \<open>auto simp: run_rollback_def\<close>)
qed (use assms in \<open>auto simp: send_rollback_def\<close>)

text \<open>The answer to COMMIT is lost after it took effect.\<close>

definition commit_unheard :: "('db session \<Rightarrow> 'db session \<times> ('e + 'a)) \<Rightarrow> 'db session \<Rightarrow> 'db \<Rightarrow> bool" where
  "commit_unheard body s d = ((\<exists>v. snd (body (begun s)) = Inr v) \<and> ss_tx (fst (body (begun s))) = In_Tx d
     \<and> take 1 (ss_wire (fst (body (begun s)))) = [Cut_After])"

lemma send_commit_cases:
  assumes "send_commit s = (s', r)" "ss_tx s \<noteq> No_Tx"
  shows "ss_out s' = ss_out s \<and> (case r of
      Inr _ \<Rightarrow> ss_tx s \<noteq> Lost \<and> ss_tx s' = No_Tx \<and> ss_stored s' = committed s
    | Inl e \<Rightarrow> ss_stored s' = ss_stored s
        \<or> e = Connection_Lost \<and> ss_tx s' = Lost \<and> take 1 (ss_wire s) = [Cut_After] \<and> (\<exists>d. ss_tx s = In_Tx d \<and> ss_stored s' = d))"
proof (cases "ss_tx s = Lost")
  case False
  from assms(1) False show ?thesis
    unfolding send_commit_def
    by (cases rule: over_wireE) (use assms(2) False in \<open>auto simp: run_commit_def committed_def split: tx_state.splits\<close>)
qed (use assms in \<open>auto simp: send_commit_def\<close>)

text \<open>The statements of a transaction up to its COMMIT: what is stored is the old tables, or those the body has
  left, and the latter only if the COMMIT took effect.\<close>

lemma transaction_try:
  assumes "tx_body body" "ss_tx s = No_Tx"
    and "andThen (lift_error f (send_begin (s\<lparr> ss_out := Suc (ss_out s) \<rparr>))) (\<lambda>s _.
           andThen (body s) (\<lambda>s v. andThen (lift_error f (send_commit s)) (\<lambda>s _. (s, Inr v)))) = (s2, r)"
  shows "ss_out s2 = Suc (ss_out s) \<and> (case r of
      Inr v \<Rightarrow> ss_tx s2 = No_Tx \<and> snd (body (begun s)) = Inr v
        \<and> (case ss_tx (fst (body (begun s))) of In_Tx d \<Rightarrow> ss_stored s2 = d | Failed_Tx \<Rightarrow> ss_stored s2 = ss_stored s | _ \<Rightarrow> False)
    | Inl e \<Rightarrow> ss_stored s2 = ss_stored s
        \<or> e = f Connection_Lost \<and> ss_tx s2 = Lost \<and> (\<exists>d. commit_unheard body s d \<and> ss_stored s2 = d))"
  using assms(3)
proof (cases rule: andThenE)
  case (thrown x)
  then obtain e where "send_begin (s\<lparr> ss_out := Suc (ss_out s) \<rparr>) = (s2, Inl e)"
    by (auto simp: lift_error_def split: prod.splits sum.splits)
  moreover from this have "ss_stored s2 = ss_stored s \<and> ss_out s2 = Suc (ss_out s)"
    unfolding send_begin_def
    by (cases rule: over_wireE) (use assms(2) in \<open>auto simp: run_begin_def aborted_def split: tx_state.splits\<close>)
  ultimately show ?thesis using thrown by simp
next
  case (went_on s1 u)
  then have "send_begin (s\<lparr> ss_out := Suc (ss_out s) \<rparr>) = (s1, Inr ())"
    by (auto simp: lift_error_def split: prod.splits sum.splits)
  then have s1: "s1 = begun s"
    unfolding send_begin_def
    by (cases rule: over_wireE) (use assms(2) in \<open>auto simp: run_begin_def begun_def split: tx_state.splits\<close>)
  obtain s3 r3 where b: "body (begun s) = (s3, r3)" by fastforce
  note kept = body_kept [OF assms(1) b]
  show ?thesis
  proof (cases r3)
    case (Inl e)
    then show ?thesis using went_on(2) s1 b kept by auto
  next
    case (Inr v)
    obtain s4 r4 where c: "send_commit s3 = (s4, r4)" by fastforce
    have r: "s2 = s4" "r = (case r4 of Inl e \<Rightarrow> Inl (f e) | Inr _ \<Rightarrow> Inr v)"
      using went_on(2) s1 b Inr c by (auto simp: lift_error_def split: sum.splits)
    show ?thesis
      using send_commit_cases [OF c kept(3)] kept Inr b r
      by (cases r4; cases "ss_tx s3") (auto simp: committed_def commit_unheard_def)
  qed
qed

lemma transaction_outcome:
  assumes "tx_body body" "ss_tx s = No_Tx" "transaction f refused body s = (s', r)"
  shows "ss_tx s' = No_Tx \<and> ss_out s' = ss_out s
    \<and> (case r of
         Inl e \<Rightarrow> ss_stored s' = ss_stored s
           \<or> refused = None \<and> e = f Connection_Lost \<and> (\<exists>d. commit_unheard body s d \<and> ss_stored s' = d)
       | Inr v \<Rightarrow> refused = None \<and> snd (body (begun s)) = Inr v
           \<and> (case ss_tx (fst (body (begun s))) of
                In_Tx d \<Rightarrow> ss_stored s' = d | Failed_Tx \<Rightarrow> ss_stored s' = ss_stored s | _ \<Rightarrow> False))"
proof (cases refused)
  case (Some e)
  then show ?thesis using assms(2,3) by (auto simp: transaction_def getClient_def)
next
  case None
  let ?attempt = "andThen (lift_error f (send_begin (s\<lparr> ss_out := Suc (ss_out s) \<rparr>))) (\<lambda>s _.
           andThen (body s) (\<lambda>s v. andThen (lift_error f (send_commit s)) (\<lambda>s _. (s, Inr v))))"
  obtain s2 r2 where t: "?attempt = (s2, r2)" by fastforce
  note tried = transaction_try [OF assms(1,2) t]
  show ?thesis
  proof (cases r2)
    case (Inr v)
    then show ?thesis using assms(3) None t tried
      by (auto simp: transaction_def getClient_def release_def split: tx_state.splits)
  next
    case (Inl e)
    obtain s3 r3 where rb: "send_rollback s2 = (s3, r3)" by fastforce
    have "s' = release s3 \<and> r = (case r3 of Inl e' \<Rightarrow> Inl (f e') | Inr _ \<Rightarrow> Inl e)"
      using assms(3) None t Inl rb by (auto simp: transaction_def getClient_def split: sum.splits)
    then show ?thesis using tried send_rollback_kept [OF rb] None Inl
      by (auto simp: release_def split: sum.splits)
  qed
qed

text \<open>The witness adds one: an answer to COMMIT that is lost leaves the sum although the transaction throws, a
  COMMIT that is turned down leaves nothing.\<close>

definition ex_add_one :: "nat session \<Rightarrow> nat session \<times> (sql_error + unit)" where
  "ex_add_one s = lift_error (\<lambda>e. e) (send (\<lambda>n. Inr ((), n + 1)) s)"

definition ex_session :: "wire list \<Rightarrow> nat session" where
  "ex_session w = \<lparr> ss_stored = 7, ss_tx = No_Tx, ss_out = 0, ss_wire = w \<rparr>"

lemma ex_add_one_body: "tx_body ex_add_one"
  unfolding ex_add_one_def [abs_def] by (rule tx_body_send)

text \<open>C6: a transaction is all or nothing, whatever statement fails, BEGIN, COMMIT and ROLLBACK included.  It
  leaves the connection idle and gives its client back; when it returns, the stored tables are those the body
  has left, or the old ones if the body has caught the error of a refused statement; when it throws,
  nothing is stored, unless the connection broke after the server had carried out the COMMIT: then
  everything the body has done is stored, and the caller is told that the connection was lost.
\<close>

theorem transaction_all_or_nothing:
  assumes "tx_body body" "ss_tx s = No_Tx" "transaction f refused body s = (s', r)"
  shows "ss_tx s' = No_Tx \<and> ss_out s' = ss_out s
    \<and> (case r of
         Inl e \<Rightarrow> ss_stored s' = ss_stored s
           \<or> refused = None \<and> e = f Connection_Lost \<and> (\<exists>d. commit_unheard body s d \<and> ss_stored s' = d)
       | Inr v \<Rightarrow> refused = None \<and> snd (body (begun s)) = Inr v
           \<and> (case ss_tx (fst (body (begun s))) of
                In_Tx d \<Rightarrow> ss_stored s' = d | Failed_Tx \<Rightarrow> ss_stored s' = ss_stored s | _ \<Rightarrow> False))"
  by (rule transaction_outcome [OF assms])

theorem transaction_all_or_nothing_witness:
  "transaction (\<lambda>e. e) None ex_add_one (ex_session [Heard, Heard, Cut_After]) = (ex_session []\<lparr> ss_stored := 8 \<rparr>, Inl Connection_Lost)
   \<and> ss_stored (fst (transaction (\<lambda>e. e) None ex_add_one (ex_session [Heard, Heard, Turned_Down ''deferred'']))) = 7"
proof
  show "transaction (\<lambda>e. e) None ex_add_one (ex_session [Heard, Heard, Cut_After]) = (ex_session []\<lparr> ss_stored := 8 \<rparr>, Inl Connection_Lost)"
    by code_simp
  let ?s = "ex_session [Heard, Heard, Turned_Down ''deferred'']"
  obtain s' where run: "transaction (\<lambda>e. e) None ex_add_one ?s = (s', Inl (Refused ''deferred''))"
    by (simp add: transaction_def getClient_def statement_defs over_wire_def ex_add_one_def ex_session_def)
  have "ss_tx ?s = No_Tx" "ss_stored ?s = 7" by (simp_all add: ex_session_def)
  with transaction_all_or_nothing [OF ex_add_one_body _ run] show "ss_stored (fst (transaction (\<lambda>e. e) None ex_add_one ?s)) = 7"
    unfolding run by auto
qed

section \<open>The writes of the intent repository\<close>

definition tx_error :: "sql_error \<Rightarrow> gateway_error" where
  "tx_error e = (case e of Refused what \<Rightarrow> DbError what | Connection_Lost \<Rightarrow> DbError ''connection'')"

definition sql_insert_intent :: "env \<Rightarrow> string \<Rightarrow> new_intent \<Rightarrow> (intent_db, payment_intent) sql_statement" where
  "sql_insert_intent e i d db = (case insert_intent e i d db of
     None \<Rightarrow> Inl (Refused ''payment_intents'') | Some rows \<Rightarrow> Inr (last rows, db\<lparr> db_intents := rows \<rparr>))"

definition sql_insert_event :: "intent_event \<Rightarrow> (intent_db, unit) sql_statement" where
  "sql_insert_event v db = (case tbl_insert ev_id v (db_events db) of
     None \<Rightarrow> Inl (Refused ''intent_events'') | Some evs \<Rightarrow> Inr ((), db\<lparr> db_events := evs \<rparr>))"

text \<open>The bodies of \<open>create\<close> and \<open>transition\<close>; \<open>n\<close> identifiers have been handed out before.\<close>

definition tx_create :: "env \<Rightarrow> new_intent \<Rightarrow> nat \<Rightarrow> intent_db session \<Rightarrow> intent_db session \<times> payment_intent outcome" where
  "tx_create e d n s =
     (let i = e_uuid e n in
      andThen (lift_error tx_error (send (sql_insert_intent e i d) s)) (\<lambda>s row.
      andThen (lift_error tx_error (send (sql_insert_event
          (new_event (e_uuid e (Suc n)) i INTENT_CREATED (create_payload d) 1 (e_now e))) s)) (\<lambda>s _.
      (s, Inr (mapRow row)))))"

definition sql_select_for_update :: "string \<Rightarrow> (intent_db, payment_intent option) sql_statement" where
  "sql_select_for_update i db = Inr (tbl_find (\<lambda>r. pi_id r = i) (db_intents db), db)"

definition sql_update_state ::
    "intent_state \<Rightarrow> int \<Rightarrow> int \<Rightarrow> string \<Rightarrow> int \<Rightarrow> (intent_db, payment_intent option) sql_statement" where
  "sql_update_state st v t i old db =
     (let hit = (\<lambda>r. pi_id r = i \<and> pi_version r = old) in
      Inr (map_option (set_state st v t) (tbl_find hit (db_intents db)),
           db\<lparr> db_intents := tbl_update hit (set_state st v t) (db_intents db) \<rparr>))"

definition tx_transition ::
    "env \<Rightarrow> string \<Rightarrow> event_type \<Rightarrow> payload \<Rightarrow> nat \<Rightarrow> intent_db session \<Rightarrow> intent_db session \<times> payment_intent outcome" where
  "tx_transition e i ty pl n s =
     andThen (lift_error tx_error (send (sql_select_for_update i) s)) (\<lambda>s locked.
     case locked of
       None \<Rightarrow> (s, Inl (IntentNotFound i))
     | Some row \<Rightarrow>
         (let current = mapRow row; nextState = getExpectedNextState ty; newVersion = pi_version current + 1 in
          if \<not> isValidTransition VALID_TRANSITIONS (pi_state current) nextState
          then (s, Inl (InvalidStateTransition (pi_state current) nextState))
          else andThen (lift_error tx_error (send (sql_update_state nextState newVersion (e_now e) i (pi_version current)) s))
            (\<lambda>s updated.
             case updated of
               None \<Rightarrow> (s, Inl (ConcurrentModification i))
             | Some r \<Rightarrow>
                 andThen (lift_error tx_error (send (sql_insert_event (new_event (e_uuid e n) i ty pl newVersion (e_now e))) s))
                   (\<lambda>s _. (s, Inr (mapRow r))))))"

lemma tx_create_body: "tx_body (tx_create e d n)"
  unfolding tx_create_def Let_def by (intro tx_intros)

lemma tx_transition_body: "tx_body (tx_transition e i ty pl n)"
  unfolding tx_transition_def Let_def by (intro tx_intros)

lemma create_in_transaction:
  assumes "ss_tx s = No_Tx" "ss_wire s = []"
  shows "transaction tx_error None (tx_create e d (db_ids (ss_stored s))) s =
      (s\<lparr> ss_stored := (fst (create_intent e d (ss_stored s)))\<lparr> db_ids := db_ids (ss_stored s) \<rparr> \<rparr>,
       snd (create_intent e d (ss_stored s)))"
proof -
  let ?body = "tx_create e d (db_ids (ss_stored s))"
  obtain s1 r1 where b: "?body (begun s) = (s1, r1)" by (cases "?body (begun s)")
  show ?thesis
    using b assms(2) unfolding transaction_cases [OF tx_create_body assms b]
    by (auto simp: tx_create_def create_intent_def begun_def send_def run_statement_def sql_insert_intent_def sql_insert_event_def
        tx_error_def committed_def Let_def split: option.splits)
qed

lemma transition_in_transaction:
  assumes "ss_tx s = No_Tx" "ss_wire s = []"
  shows "transaction tx_error None (tx_transition e i ty pl (db_ids (ss_stored s))) s =
      (s\<lparr> ss_stored := (fst (transition e i ty pl (ss_stored s)))\<lparr> db_ids := db_ids (ss_stored s) \<rparr> \<rparr>,
       snd (transition e i ty pl (ss_stored s)))"
proof -
  let ?body = "tx_transition e i ty pl (db_ids (ss_stored s))"
  obtain s1 r1 where b: "?body (begun s) = (s1, r1)" by (cases "?body (begun s)")
  show ?thesis
    using b assms(2) unfolding transaction_cases [OF tx_transition_body assms b]
    by (auto simp: tx_transition_def transition_def begun_def send_def run_statement_def sql_select_for_update_def sql_update_state_def
        sql_insert_event_def tx_error_def committed_def Let_def split: option.splits if_splits)
qed

text \<open>A body that passes every error on returns a value only if all its statements were heard.\<close>

definition all_heard :: "('db session \<Rightarrow> 'db session \<times> ('e + 'a)) \<Rightarrow> bool" where
  "all_heard f = (\<forall>s s' v. f s = (s', Inr v) \<longrightarrow> f (s\<lparr> ss_wire := [] \<rparr>) = (s'\<lparr> ss_wire := [] \<rparr>, Inr v))"

named_theorems heard_intros \<open>bodies that pass every error on, by the way they are composed\<close>

lemma run_statement_wire:
  "run_statement q s = (s', r) \<Longrightarrow> run_statement q (s\<lparr> ss_wire := w \<rparr>) = (s'\<lparr> ss_wire := w \<rparr>, r)"
  by (auto simp: run_statement_def split: tx_state.splits sum.splits prod.splits sql_error.splits)

lemma all_heard_send [heard_intros]: "all_heard (\<lambda>s. lift_error f (send q s))"
  unfolding all_heard_def
proof (intro allI impI)
  fix s :: "'a session" and s' v
  assume "lift_error f (send q s) = (s', Inr v)"
  then have r: "over_wire (run_statement q) aborted s = (s', Inr v)"
    by (auto simp: send_def lift_error_def split: prod.splits sum.splits)
  then have tx: "ss_tx s \<noteq> Lost" by auto
  from r tx have "run_statement q (s\<lparr> ss_wire := tl (ss_wire s) \<rparr>) = (s', Inr v)"
    by (cases rule: over_wireE) auto
  from run_statement_wire [OF this, of "[]"] tx
  show "lift_error f (send q (s\<lparr> ss_wire := [] \<rparr>)) = (s'\<lparr> ss_wire := [] \<rparr>, Inr v)"
    by (simp add: send_def)
qed

lemma all_heard_value [heard_intros]: "all_heard (\<lambda>s. (s, r))"
  by (simp add: all_heard_def)

lemma all_heard_then [heard_intros]:
  assumes "all_heard f" "\<And>v. all_heard (\<lambda>s. k s v)"
  shows "all_heard (\<lambda>s. andThen (f s) k)"
  unfolding all_heard_def
proof (intro allI impI)
  fix s s' v
  assume "andThen (f s) k = (s', Inr v)"
  then show "andThen (f (s\<lparr> ss_wire := [] \<rparr>)) k = (s'\<lparr> ss_wire := [] \<rparr>, Inr v)"
  proof (cases rule: andThenE)
    case (went_on s1 u)
    then have "f (s\<lparr> ss_wire := [] \<rparr>) = (s1\<lparr> ss_wire := [] \<rparr>, Inr u)" "k (s1\<lparr> ss_wire := [] \<rparr>) u = (s'\<lparr> ss_wire := [] \<rparr>, Inr v)"
      using assms(1) assms(2) [of u] unfolding all_heard_def by blast+
    then show ?thesis by simp
  qed simp
qed

lemma all_heard_if [heard_intros]: "all_heard f \<Longrightarrow> all_heard g \<Longrightarrow> all_heard (\<lambda>s. if c then f s else g s)"
  by (cases c) simp_all

lemma all_heard_option [heard_intros]:
  "all_heard f \<Longrightarrow> (\<And>v. all_heard (\<lambda>s. g v s)) \<Longrightarrow> all_heard (\<lambda>s. case v of None \<Rightarrow> f s | Some v \<Rightarrow> g v s)"
  by (cases v) simp_all

lemma tx_create_heard: "all_heard (tx_create e d n)"
  unfolding tx_create_def Let_def by (intro heard_intros)

lemma tx_transition_heard: "all_heard (tx_transition e i ty pl n)"
  unfolding tx_transition_def Let_def by (intro heard_intros)

text \<open>Over a connection that fails anywhere, a transaction returns what it returns over one that holds, or throws;
  it leaves what that one leaves, or the old tables.\<close>

definition same_or_nothing :: "('db \<Rightarrow> 'db) \<Rightarrow> ('e + 'a) \<Rightarrow> 'db session \<Rightarrow> 'db session \<times> ('e + 'a) \<Rightarrow> bool" where
  "same_or_nothing one r s t = (ss_tx (fst t) = No_Tx \<and> ss_stored (fst t) \<in> {ss_stored s, one (ss_stored s)}
     \<and> (case snd t of Inl _ \<Rightarrow> True | Inr v \<Rightarrow> r = Inr v \<and> ss_stored (fst t) = one (ss_stored s)))"

lemma heard_or_nothing:
  assumes "tx_body body" "all_heard body" "ss_tx s = No_Tx"
    and "transaction f None body (s\<lparr> ss_wire := [] \<rparr>) = (s\<lparr> ss_wire := [], ss_stored := one (ss_stored s) \<rparr>, r)"
  shows "same_or_nothing one r s (transaction f None body s)"
proof -
  obtain s' r' where t: "transaction f None body s = (s', r')" by fastforce
  note all = transaction_outcome [OF assms(1,3) t]
  let ?s = "s\<lparr> ss_wire := [] \<rparr>"
  have heard: "r = Inr v \<and> one (ss_stored s) = committed (s1\<lparr> ss_wire := [] \<rparr>)"
    if b: "body (begun s) = (s1, Inr v)" "ss_tx s1 \<noteq> Lost" for s1 v
  proof -
    have "body ((begun s)\<lparr> ss_wire := [] \<rparr>) = (s1\<lparr> ss_wire := [] \<rparr>, Inr v)" using assms(2) b(1) unfolding all_heard_def by blast
    moreover have "(begun s)\<lparr> ss_wire := [] \<rparr> = begun ?s" by (simp add: begun_def)
    ultimately have "body (begun ?s) = (s1\<lparr> ss_wire := [] \<rparr>, Inr v)" by simp
    from transaction_cases [OF assms(1) _ _ this, of f] assms(3,4) b(2) have
      "s\<lparr> ss_wire := [], ss_stored := one (ss_stored s) \<rparr> = ?s\<lparr> ss_stored := committed (s1\<lparr> ss_wire := [] \<rparr>) \<rparr>" "r = Inr v"
      by simp_all
    from arg_cong [OF this(1), of ss_stored] this(2) show ?thesis by simp
  qed
  obtain s1 r1 where b: "body (begun s) = (s1, r1)" by fastforce
  have kept: "ss_stored s1 = ss_stored s" using body_kept(1) [OF assms(1) b] .
  show ?thesis
    using all b kept heard
    by (cases r') (auto simp: t same_or_nothing_def commit_unheard_def committed_def split: tx_state.splits)
qed

text \<open>C7: run as the code runs them, statement by statement in a transaction, \<open>create\<close> and \<open>transition\<close>
  store the tables and return the result of the one-step operations; the identifiers
  handed out are kept by the process, not by the database.  Whatever fails on the connection, they return
  that result or throw, and leave these tables or the old ones, never a part.
\<close>

theorem repository_writes_are_transactions:
  assumes "ss_tx s = No_Tx" "ss_wire s = []"
  shows "transaction tx_error None (tx_create e d (db_ids (ss_stored s))) s =
      (s\<lparr> ss_stored := (fst (create_intent e d (ss_stored s)))\<lparr> db_ids := db_ids (ss_stored s) \<rparr> \<rparr>,
       snd (create_intent e d (ss_stored s)))
    \<and> transaction tx_error None (tx_transition e i ty pl (db_ids (ss_stored s))) s =
      (s\<lparr> ss_stored := (fst (transition e i ty pl (ss_stored s)))\<lparr> db_ids := db_ids (ss_stored s) \<rparr> \<rparr>,
       snd (transition e i ty pl (ss_stored s)))
    \<and> same_or_nothing (\<lambda>db. (fst (create_intent e d db))\<lparr> db_ids := db_ids db \<rparr>) (snd (create_intent e d (ss_stored s))) s
        (transaction tx_error None (tx_create e d (db_ids (ss_stored s))) (s\<lparr> ss_wire := faults \<rparr>))
    \<and> same_or_nothing (\<lambda>db. (fst (transition e i ty pl db))\<lparr> db_ids := db_ids db \<rparr>) (snd (transition e i ty pl (ss_stored s))) s
        (transaction tx_error None (tx_transition e i ty pl (db_ids (ss_stored s))) (s\<lparr> ss_wire := faults \<rparr>))"
proof -
  let ?f = "s\<lparr> ss_wire := faults \<rparr>"
  have s: "?f\<lparr> ss_wire := [] \<rparr> = s" "?f\<lparr> ss_wire := [], ss_stored := db \<rparr> = s\<lparr> ss_stored := db \<rparr>" for db using assms(2) by simp_all
  have same: "same_or_nothing one r s t" if "same_or_nothing one r ?f t" for one and r :: "gateway_error + payment_intent" and t
    using that by (auto simp: same_or_nothing_def split: sum.splits)
  note c = create_in_transaction [OF assms, of e d] and t = transition_in_transaction [OF assms, of e i ty pl]
  show ?thesis
    using c t assms(1)
    by (intro conjI same heard_or_nothing tx_create_body tx_create_heard tx_transition_body tx_transition_heard) (simp_all add: s)
qed

theorem repository_writes_are_transactions_witness:
  "ss_stored (fst (transaction tx_error None (tx_transition \<lparr> e_now = 5, e_uuid = (\<lambda>n. ''e'') \<rparr> ''x'' QUOTE_GENERATED [] 0)
     \<lparr> ss_stored = \<lparr> db_merchants = [], db_intents = [], db_events = [], db_ids = 0 \<rparr>, ss_tx = No_Tx, ss_out = 0, ss_wire = [] \<rparr>))
   = \<lparr> db_merchants = [], db_intents = [], db_events = [], db_ids = 0 \<rparr>"
  using repository_writes_are_transactions [of "\<lparr> ss_stored = \<lparr> db_merchants = [], db_intents = [], db_events = [], db_ids = 0 \<rparr>, ss_tx = No_Tx, ss_out = 0, ss_wire = [] \<rparr>"
      "\<lparr> e_now = 5, e_uuid = (\<lambda>n. ''e'') \<rparr>"
      "\<lparr> ni_merchant_id = ''m'', ni_order_ref = ''o'', ni_target_amount = 1, ni_target_asset = ''USDC'', ni_target_chain = ''1'', ni_accepted_assets = [] \<rparr>" "''x''" QUOTE_GENERATED "[]"]
  by (simp add: transition_def)

end
