(* ===== verification/Migrations.thy ===== *)
theory Migrations
  imports Database_Client "HOL-Library.Char_ord" "HOL-Library.List_Lexorder"
begin

text \<open>
  The migration runner (\<open>packages/db/src/migrate.ts\<close>) over the sessions of \<open>Database_Client\<close>: loading
  and cutting the files, the table of applied migrations, one transaction for each pending file, and
  the seed data (\<open>seed.ts\<close>).  What the SQL text of a migration does to the schema is a parameter.
\<close>

section \<open>Files\<close>

text \<open>The text before and after the first occurrence of a non-empty text.\<close>

fun cut_at :: "string \<Rightarrow> string \<Rightarrow> (string \<times> string) option" where
  "cut_at p [] = None"
| "cut_at p (c # cs) = (if take (length p) (c # cs) = p then Some ([], drop (length p) (c # cs))
     else map_option (\<lambda>(u, v). (c # u, v)) (cut_at p cs))"

text \<open>\<open>replace(p, '')\<close> takes out the first occurrence.\<close>

definition drop_first :: "string \<Rightarrow> string \<Rightarrow> string" where
  "drop_first p s = (case cut_at p s of None \<Rightarrow> s | Some (u, v) \<Rightarrow> u @ v)"

definition js_ends_with :: "string \<Rightarrow> string \<Rightarrow> bool" where
  "js_ends_with s t = (length t \<le> length s \<and> drop (length s - length t) s = t)"

record migration =
  mg_name :: string
  mg_up :: string
  mg_down :: string

text \<open>\<open>const [up, down] = content.split('-- DOWN')\<close>: the first two parts.\<close>

definition load_migration :: "string \<times> string \<Rightarrow> migration" where
  "load_migration file = (case file of (name, content) \<Rightarrow>
     (let (up, down) = (case cut_at ''-- DOWN'' content of
            None \<Rightarrow> (content, None)
          | Some (u, v) \<Rightarrow> (u, Some (case cut_at ''-- DOWN'' v of None \<Rightarrow> v | Some (w, _) \<Rightarrow> w)))
      in \<lparr> mg_name = drop_first ''.sql'' name,
           mg_up = trim (drop_first ''-- UP'' up),
           mg_down = (case down of None \<Rightarrow> [] | Some v \<Rightarrow> trim v) \<rparr>))"

definition loadMigrations :: "(string \<times> string) list \<Rightarrow> migration list" where
  "loadMigrations files = map load_migration (sort_key fst (filter (\<lambda>(f, _). js_ends_with f ''.sql'') files))"

section \<open>The runner\<close>

record 'schema mig_db =
  md_table :: "string list option"
  md_schema :: 'schema

definition ensureMigrationsTable :: "('schema mig_db, unit) sql_statement" where
  "ensureMigrationsTable d = Inr ((), d\<lparr> md_table := Some (case md_table d of None \<Rightarrow> [] | Some ns \<Rightarrow> ns) \<rparr>)"

definition getAppliedMigrations :: "('schema mig_db, string list) sql_statement" where
  "getAppliedMigrations d = (case md_table d of
     None \<Rightarrow> Inl (Refused ''schema_migrations does not exist'') | Some ns \<Rightarrow> Inr (ns, d))"

text \<open>The table has VARCHAR(255) names, each once.\<close>

definition insert_applied :: "string \<Rightarrow> ('schema mig_db, unit) sql_statement" where
  "insert_applied n d = (case md_table d of
     None \<Rightarrow> Inl (Refused ''schema_migrations does not exist'')
   | Some ns \<Rightarrow> if fits 255 n \<and> n \<notin> set ns then Inr ((), d\<lparr> md_table := Some (ns @ [n]) \<rparr>)
       else Inl (Refused ''schema_migrations''))"

definition run_up :: "(string \<Rightarrow> 'schema \<Rightarrow> sql_error + 'schema) \<Rightarrow> string \<Rightarrow> ('schema mig_db, unit) sql_statement" where
  "run_up exec sql d = (case exec sql (md_schema d) of Inl e \<Rightarrow> Inl e | Inr sc \<Rightarrow> Inr ((), d\<lparr> md_schema := sc \<rparr>))"

datatype mig_line = Running_Migration string | Migration_Applied string | Migration_Failed string sql_error | All_Applied

datatype mig_error = Sql_Error sql_error | No_Directory

type_synonym 'schema mig_run = "'schema mig_db session \<times> mig_line list \<times> (mig_error + unit)"

text \<open>One pending migration: BEGIN stands before the inner \<open>try\<close>.\<close>

definition apply_migration ::
    "(string \<Rightarrow> 'schema \<Rightarrow> sql_error + 'schema) \<Rightarrow> migration \<Rightarrow> 'schema mig_db session \<Rightarrow> 'schema mig_run" where
  "apply_migration exec m s =
     (case send_begin s of
        (s, Inl e) \<Rightarrow> (s, [Running_Migration (mg_name m)], Inl (Sql_Error e))
      | (s, Inr _) \<Rightarrow>
          (case andThen (send (run_up exec (mg_up m)) s) (\<lambda>s _.
                andThen (send (insert_applied (mg_name m)) s) (\<lambda>s _. send_commit s)) of
             (s, Inr _) \<Rightarrow> (s, [Running_Migration (mg_name m), Migration_Applied (mg_name m)], Inr ())
           | (s, Inl e) \<Rightarrow>
               (case send_rollback s of
                  (s, Inl e') \<Rightarrow> (s, [Running_Migration (mg_name m)], Inl (Sql_Error e'))
                | (s, Inr _) \<Rightarrow> (s, [Running_Migration (mg_name m), Migration_Failed (mg_name m) e], Inl (Sql_Error e)))))"

fun apply_pending ::
    "(string \<Rightarrow> 'schema \<Rightarrow> sql_error + 'schema) \<Rightarrow> string list \<Rightarrow> migration list \<Rightarrow> 'schema mig_db session \<Rightarrow> 'schema mig_run" where
  "apply_pending exec applied [] s = (s, [All_Applied], Inr ())"
| "apply_pending exec applied (m # ms) s =
     (if mg_name m \<in> set applied then apply_pending exec applied ms s
      else case apply_migration exec m s of
             (s, out, Inl e) \<Rightarrow> (s, out, Inl e)
           | (s, out, Inr _) \<Rightarrow> (case apply_pending exec applied ms s of (s, out', r) \<Rightarrow> (s, out @ out', r)))"

text \<open>
  \<open>migrate\<close>: the directory or one of its files may be missing, in which case reading throws after the table
  has been made.  Every statement goes over the wire and may fail there.  Whatever happens, the client goes
  back to the pool.
\<close>

definition migrate ::
    "(string \<Rightarrow> 'schema \<Rightarrow> sql_error + 'schema) \<Rightarrow> (string \<times> string) list option \<Rightarrow> sql_error option
       \<Rightarrow> 'schema mig_db session \<Rightarrow> 'schema mig_run" where
  "migrate exec files refused s =
     (case getClient refused s of
        (s, Inl e) \<Rightarrow> (s, [], Inl (Sql_Error e))
      | (s, Inr _) \<Rightarrow>
          (case andThen (send ensureMigrationsTable s) (\<lambda>s _. send getAppliedMigrations s) of
             (s, Inl e) \<Rightarrow> (release s, [], Inl (Sql_Error e))
           | (s, Inr applied) \<Rightarrow>
               (case files of
                  None \<Rightarrow> (release s, [], Inl No_Directory)
                | Some fs \<Rightarrow> (case apply_pending exec applied (loadMigrations fs) s of
                    (s, out, r) \<Rightarrow> (release s, out, r)))))"

section \<open>What a run leaves\<close>

text \<open>The reference: the texts one after the other, up to the first the database refuses.\<close>

fun apply_sql :: "(string \<Rightarrow> 'schema \<Rightarrow> sql_error + 'schema) \<Rightarrow> string list \<Rightarrow> 'schema \<Rightarrow> sql_error + 'schema" where
  "apply_sql exec [] sc = Inr sc"
| "apply_sql exec (u # us) sc = (case exec u sc of Inl e \<Rightarrow> Inl e | Inr sc' \<Rightarrow> apply_sql exec us sc')"

definition pending :: "'schema mig_db \<Rightarrow> migration list \<Rightarrow> migration list" where
  "pending d ms = filter (\<lambda>m. mg_name m \<notin> set (case md_table d of None \<Rightarrow> [] | Some ns \<Rightarrow> ns)) ms"

text \<open>A migration the database does not take: its text fails, or its name is too long or already recorded.\<close>

definition not_taken :: "(string \<Rightarrow> 'schema \<Rightarrow> sql_error + 'schema) \<Rightarrow> migration \<Rightarrow> 'schema mig_db \<Rightarrow> bool" where
  "not_taken exec m d = (case exec (mg_up m) (md_schema d) of
     Inl _ \<Rightarrow> True
   | Inr _ \<Rightarrow> (case md_table d of None \<Rightarrow> True | Some ns \<Rightarrow> \<not> fits 255 (mg_name m) \<or> mg_name m \<in> set ns))"

lemma migration_taken:
  assumes "ss_tx s = No_Tx" "ss_wire s = []" "md_table (ss_stored s) = Some ns" "\<not> not_taken exec m (ss_stored s)"
  obtains sc where "exec (mg_up m) (md_schema (ss_stored s)) = Inr sc"
    "apply_migration exec m s = (s\<lparr> ss_stored := (ss_stored s)\<lparr> md_table := Some (ns @ [mg_name m]), md_schema := sc \<rparr> \<rparr>,
       [Running_Migration (mg_name m), Migration_Applied (mg_name m)], Inr ())"
proof -
  obtain sc where sc: "exec (mg_up m) (md_schema (ss_stored s)) = Inr sc"
    using assms(4) by (auto simp: not_taken_def split: sum.splits)
  have idle: "s\<lparr> ss_stored := d, ss_tx := No_Tx \<rparr> = s\<lparr> ss_stored := d \<rparr>" for d using assms(1) by (cases s) simp
  have "apply_migration exec m s = (s\<lparr> ss_stored := (ss_stored s)\<lparr> md_table := Some (ns @ [mg_name m]), md_schema := sc \<rparr> \<rparr>,
       [Running_Migration (mg_name m), Migration_Applied (mg_name m)], Inr ())"
    using assms sc by (simp add: apply_migration_def statement_defs run_up_def
        insert_applied_def not_taken_def idle)
  with sc show ?thesis by (rule that)
qed

lemma migration_refused:
  assumes "ss_tx s = No_Tx" "ss_wire s = []" "md_table (ss_stored s) = Some ns" "not_taken exec m (ss_stored s)"
  obtains s' out e where "apply_migration exec m s = (s', out, Inl e)" "ss_stored s' = ss_stored s"
    "ss_tx s' = No_Tx \<or> ss_tx s' = Lost" "ss_out s' = ss_out s"
proof -
  have "\<exists>s' out e. apply_migration exec m s = (s', out, Inl e) \<and> ss_stored s' = ss_stored s
      \<and> (ss_tx s' = No_Tx \<or> ss_tx s' = Lost) \<and> ss_out s' = ss_out s"
    using assms by (auto simp: apply_migration_def statement_defs run_up_def
        insert_applied_def not_taken_def split: sum.splits sql_error.splits)
  then show ?thesis using that by blast
qed

lemma apply_pending_prefix:
  assumes "ss_tx s = No_Tx" "ss_wire s = []" "md_table (ss_stored s) = Some ns" "apply_pending exec applied ms s = (s', out, r)"
  defines "todo \<equiv> filter (\<lambda>m. mg_name m \<notin> set applied) ms"
  shows "(ss_tx s' = No_Tx \<or> ss_tx s' = Lost) \<and> ss_out s' = ss_out s
    \<and> (\<exists>k \<le> length todo. md_table (ss_stored s') = Some (ns @ map mg_name (take k todo))
         \<and> apply_sql exec (map mg_up (take k todo)) (md_schema (ss_stored s)) = Inr (md_schema (ss_stored s'))
         \<and> (r = Inr () \<longleftrightarrow> k = length todo) \<and> (k < length todo \<longrightarrow> not_taken exec (todo ! k) (ss_stored s')))"
  using assms(1-4) unfolding todo_def
proof (induction exec applied ms s arbitrary: ns s' out r rule: apply_pending.induct)
  case (1 exec applied s)
  then show ?case by simp
next
  case (2 exec applied m ms s)
  let ?rest = "filter (\<lambda>m. mg_name m \<notin> set applied) ms"
  consider "mg_name m \<in> set applied" | (refused) "mg_name m \<notin> set applied" "not_taken exec m (ss_stored s)"
    | (taken) "mg_name m \<notin> set applied" "\<not> not_taken exec m (ss_stored s)" by blast
  then show ?case
  proof cases
    case 1
    then show ?thesis using 2 by simp
  next
    case refused
    obtain s1 out1 e where a: "apply_migration exec m s = (s1, out1, Inl e)" "ss_stored s1 = ss_stored s"
      "ss_tx s1 = No_Tx \<or> ss_tx s1 = Lost" "ss_out s1 = ss_out s"
      using migration_refused [OF 2(3-5) refused(2)] by blast
    then have "s' = s1" "r = Inl e" using 2(6) refused(1) by auto
    then show ?thesis using a 2(5) refused by (intro conjI exI [of _ 0]) auto
  next
    case taken
    obtain sc where sc: "exec (mg_up m) (md_schema (ss_stored s)) = Inr sc"
      and a: "apply_migration exec m s = (s\<lparr> ss_stored := (ss_stored s)\<lparr> md_table := Some (ns @ [mg_name m]), md_schema := sc \<rparr> \<rparr>,
       [Running_Migration (mg_name m), Migration_Applied (mg_name m)], Inr ())"
      using migration_taken [OF 2(3-5) taken(2)] by blast
    let ?s = "s\<lparr> ss_stored := (ss_stored s)\<lparr> md_table := Some (ns @ [mg_name m]), md_schema := sc \<rparr> \<rparr>"
    obtain out2 where rest: "apply_pending exec applied ms ?s = (s', out2, r)"
      using 2(6) taken(1) a by (auto split: prod.splits)
    have "(ss_tx s' = No_Tx \<or> ss_tx s' = Lost) \<and> ss_out s' = ss_out ?s
      \<and> (\<exists>k \<le> length ?rest. md_table (ss_stored s') = Some ((ns @ [mg_name m]) @ map mg_name (take k ?rest))
         \<and> apply_sql exec (map mg_up (take k ?rest)) (md_schema (ss_stored ?s)) = Inr (md_schema (ss_stored s'))
         \<and> (r = Inr () \<longleftrightarrow> k = length ?rest) \<and> (k < length ?rest \<longrightarrow> not_taken exec (?rest ! k) (ss_stored s')))"
      by (rule 2(2) [OF taken(1) a [symmetric] refl refl _ _ _ rest]) (use 2(3,4) in simp_all)
    then obtain k where k: "(ss_tx s' = No_Tx \<or> ss_tx s' = Lost) \<and> ss_out s' = ss_out s" "k \<le> length ?rest"
      "md_table (ss_stored s') = Some ((ns @ [mg_name m]) @ map mg_name (take k ?rest))"
      "apply_sql exec (map mg_up (take k ?rest)) sc = Inr (md_schema (ss_stored s'))"
      "r = Inr () \<longleftrightarrow> k = length ?rest" "k < length ?rest \<longrightarrow> not_taken exec (?rest ! k) (ss_stored s')" by auto
    then show ?thesis using taken(1) sc by (intro conjI exI [of _ "Suc k"]) auto
  qed
qed

section \<open>A run over a connection that fails\<close>

text \<open>A migration that was carried out leaves its text applied and its name recorded.\<close>

definition carried_out :: "(string \<Rightarrow> 'schema \<Rightarrow> sql_error + 'schema) \<Rightarrow> migration \<Rightarrow> 'schema mig_db \<Rightarrow> 'schema mig_db \<Rightarrow> bool" where
  "carried_out exec m d d' = (\<exists>ns sc. md_table d = Some ns \<and> exec (mg_up m) (md_schema d) = Inr sc
     \<and> d' = d\<lparr> md_table := Some (ns @ [mg_name m]), md_schema := sc \<rparr>)"

text \<open>The inner \<open>try\<close> of one migration, inside its transaction.\<close>

lemma migration_try:
  assumes "ss_tx s1 = In_Tx d0" "d0 = ss_stored s1"
    and "andThen (send (run_up exec (mg_up m)) s1) (\<lambda>s _.
           andThen (send (insert_applied (mg_name m)) s) (\<lambda>s _. send_commit s)) = (s2, r)"
  shows "ss_out s2 = ss_out s1 \<and> (case r of Inr _ \<Rightarrow> ss_tx s2 = No_Tx \<and> carried_out exec m d0 (ss_stored s2)
    | Inl _ \<Rightarrow> ss_stored s2 = d0 \<or> carried_out exec m d0 (ss_stored s2))"
proof -
  have lid: "lift_error id x = x" for x :: "'a mig_db session \<times> (sql_error + unit)"
    by (auto simp: lift_error_def split: prod.splits sum.splits)
  let ?body = "\<lambda>s. andThen (send (run_up exec (mg_up m)) s) (\<lambda>s _. send (insert_applied (mg_name m)) s)"
  have body: "tx_body ?body"
    using tx_body_then [OF tx_body_send [of id "run_up exec (mg_up m)"] tx_body_send [of id "insert_applied (mg_name m)"]]
    unfolding lid .
  obtain s3 r3 where t3: "?body s1 = (s3, r3)" by fastforce
  have kept: "ss_stored s3 = d0" "ss_out s3 = ss_out s1" "ss_tx s3 \<noteq> No_Tx"
    using body [unfolded tx_body_def, rule_format, OF t3] assms(1,2) by simp_all
  have r2: "(s2, r) = (case r3 of Inl e \<Rightarrow> (s3, Inl e) | Inr _ \<Rightarrow> send_commit s3)"
    using assms(3) t3 by (auto simp: andThen_def split: prod.splits sum.splits)
  show ?thesis
  proof (cases r3)
    case (Inr v)
    with t3 obtain s4 where sent: "send (run_up exec (mg_up m)) s1 = (s4, Inr ())" "send (insert_applied (mg_name m)) s4 = (s3, Inr ())"
      by (auto elim: andThenE)
    from sent(1) assms(1) obtain d1 where d1: "run_up exec (mg_up m) d0 = Inr ((), d1)" "ss_tx s4 = In_Tx d1" by (rule send_value)
    from sent(2) d1(2) obtain d2 where d2: "insert_applied (mg_name m) d1 = Inr ((), d2)" "ss_tx s3 = In_Tx d2" by (rule send_value)
    have "carried_out exec m d0 d2"
      using d1(1) d2(1) by (auto simp: run_up_def insert_applied_def carried_out_def split: sum.splits option.splits if_splits)
    moreover have "send_commit s3 = (s2, r)" using r2 Inr by simp
    ultimately show ?thesis using send_commit_cases [OF _ kept(3)] kept d2(2) by (auto simp: committed_def split: sum.splits)
  qed (use r2 kept in simp)
qed

text \<open>One migration over any connection: carried out or nothing, and reported as applied only if carried out.\<close>

lemma migration_outcome:
  assumes "ss_tx s = No_Tx" "apply_migration exec m s = (s', out, r)"
  shows "ss_out s' = ss_out s \<and> (ss_tx s' = No_Tx \<or> ss_tx s' = Lost) \<and> (r = Inr () \<longrightarrow> ss_tx s' = No_Tx)
    \<and> (ss_stored s' = ss_stored s \<and> r \<noteq> Inr () \<or> carried_out exec m (ss_stored s) (ss_stored s'))"
proof -
  obtain s1 r1 where b: "send_begin s = (s1, r1)" by fastforce
  show ?thesis
  proof (cases r1)
    case (Inl e)
    have "s' = s1 \<and> r = Inl (Sql_Error e)" using assms(2) b Inl by (simp add: apply_migration_def)
    moreover from b have "ss_stored s1 = ss_stored s \<and> ss_out s1 = ss_out s \<and> (ss_tx s1 = No_Tx \<or> ss_tx s1 = Lost)"
      unfolding send_begin_def
      by (cases rule: over_wireE) (use assms(1) Inl in \<open>auto simp: run_begin_def aborted_def split: tx_state.splits\<close>)
    ultimately show ?thesis by simp
  next
    case (Inr u)
    from b have s1: "ss_tx s1 = In_Tx (ss_stored s)" "ss_stored s1 = ss_stored s" "ss_out s1 = ss_out s"
      unfolding send_begin_def
      by (cases rule: over_wireE, use assms(1) Inr in \<open>auto simp: run_begin_def split: tx_state.splits\<close>)+
    obtain s2 r2 where t: "andThen (send (run_up exec (mg_up m)) s1) (\<lambda>s _.
                andThen (send (insert_applied (mg_name m)) s) (\<lambda>s _. send_commit s)) = (s2, r2)" by fastforce
    note tried = migration_try [OF s1(1) s1(2) [symmetric] t]
    show ?thesis
    proof (cases r2)
      case (Inr w)
      then show ?thesis using assms(2) b \<open>r1 = Inr u\<close> t tried s1 by (simp add: apply_migration_def)
    next
      case (Inl e)
      obtain s5 r5 where rb: "send_rollback s2 = (s5, r5)" by fastforce
      have "s' = s5 \<and> (\<exists>x. r = Inl x)"
        using assms(2) b \<open>r1 = Inr u\<close> t Inl rb by (cases r5) (auto simp: apply_migration_def)
      then show ?thesis using tried Inl send_rollback_kept [OF rb] s1 by auto
    qed
  qed
qed

lemma apply_pending_faulty:
  assumes "ss_tx s = No_Tx" "md_table (ss_stored s) = Some ns" "apply_pending exec applied ms s = (s', out, r)"
  defines "todo \<equiv> filter (\<lambda>m. mg_name m \<notin> set applied) ms"
  shows "(ss_tx s' = No_Tx \<or> ss_tx s' = Lost) \<and> ss_out s' = ss_out s
    \<and> (\<exists>k \<le> length todo. md_table (ss_stored s') = Some (ns @ map mg_name (take k todo))
         \<and> apply_sql exec (map mg_up (take k todo)) (md_schema (ss_stored s)) = Inr (md_schema (ss_stored s'))
         \<and> (r = Inr () \<longrightarrow> k = length todo))"
  using assms(1-3) unfolding todo_def
proof (induction ms arbitrary: s ns out)
  case (Cons m ms)
  let ?rest = "filter (\<lambda>m. mg_name m \<notin> set applied) ms"
  show ?case
  proof (cases "mg_name m \<in> set applied")
    case True
    then show ?thesis using Cons by simp
  next
    case False
    obtain s1 out1 r1 where a: "apply_migration exec m s = (s1, out1, r1)" by (metis prod_cases3)
    note one = migration_outcome [OF Cons.prems(1) a]
    show ?thesis
    proof (cases "r1 = Inr ()")
      case True
      then have s1: "ss_tx s1 = No_Tx" and "carried_out exec m (ss_stored s) (ss_stored s1)" using one by auto
      then obtain sc where sc: "exec (mg_up m) (md_schema (ss_stored s)) = Inr sc" "md_schema (ss_stored s1) = sc"
          "md_table (ss_stored s1) = Some (ns @ [mg_name m])"
        using Cons.prems(2) by (auto simp: carried_out_def)
      obtain out2 where rest: "apply_pending exec applied ms s1 = (s', out2, r)"
        using Cons.prems(3) a True False by (auto split: prod.splits)
      from Cons.IH [OF s1 sc(3) rest] obtain k where "(ss_tx s' = No_Tx \<or> ss_tx s' = Lost) \<and> ss_out s' = ss_out s1" "k \<le> length ?rest"
        "md_table (ss_stored s') = Some ((ns @ [mg_name m]) @ map mg_name (take k ?rest))"
        "apply_sql exec (map mg_up (take k ?rest)) sc = Inr (md_schema (ss_stored s'))" "r = Inr () \<longrightarrow> k = length ?rest"
        by (auto simp: sc(2))
      then show ?thesis using False sc one by (intro conjI exI [of _ "Suc k"]) auto
    next
      case failed: False
      then have r: "s' = s1" "r \<noteq> Inr ()" using Cons.prems(3) a False by (cases r1; auto)+
      have "ss_stored s1 = ss_stored s \<or> carried_out exec m (ss_stored s) (ss_stored s1)" using one by auto
      then show ?thesis
      proof
        assume "ss_stored s1 = ss_stored s"
        then show ?thesis using r one Cons.prems(2) by (intro conjI exI [of _ 0]) auto
      next
        assume "carried_out exec m (ss_stored s) (ss_stored s1)"
        then show ?thesis using r one Cons.prems(2) False by (intro conjI exI [of _ 1]) (auto simp: carried_out_def)
      qed
    qed
  qed
qed simp

text \<open>The names that are recorded, and the migrations a run has to apply.\<close>

definition recorded :: "'schema mig_db \<Rightarrow> string list" where
  "recorded d = (case md_table d of None \<Rightarrow> [] | Some ns \<Rightarrow> ns)"

definition to_apply :: "'schema mig_db \<Rightarrow> (string \<times> string) list option \<Rightarrow> migration list" where
  "to_apply d files = (case files of None \<Rightarrow> [] | Some fs \<Rightarrow> pending d (loadMigrations fs))"

text \<open>Making the table of migrations, and reading it.\<close>

lemma ensureMigrationsTableD:
  "ensureMigrationsTable d = Inr (v, d') \<Longrightarrow> recorded d' = recorded d \<and> md_schema d' = md_schema d \<and> md_table d' = Some (recorded d)"
  by (auto simp: ensureMigrationsTable_def recorded_def)

lemma getAppliedMigrationsD: "getAppliedMigrations d = Inr (ns, d') \<Longrightarrow> d' = d \<and> md_table d = Some ns"
  by (auto simp: getAppliedMigrations_def split: option.splits)

lemma ensured:
  assumes "ss_tx s = No_Tx" "andThen (send ensureMigrationsTable s) (\<lambda>s _. send getAppliedMigrations s) = (s', r)"
  shows "ss_out s' = ss_out s \<and> (ss_tx s' = No_Tx \<or> ss_tx s' = Lost) \<and> recorded (ss_stored s') = recorded (ss_stored s)
    \<and> md_schema (ss_stored s') = md_schema (ss_stored s)
    \<and> (case r of Inl _ \<Rightarrow> True | Inr ns \<Rightarrow> ss_tx s' = No_Tx \<and> md_table (ss_stored s') = Some ns \<and> ns = recorded (ss_stored s))"
  using assms(2)
proof (cases rule: andThenE)
  case (thrown x)
  then show ?thesis using send_idle [OF thrown(1) assms(1)] by (auto dest: ensureMigrationsTableD)
next
  case (went_on s1 u)
  have one: "ss_out s1 = ss_out s" "ss_tx s1 = No_Tx" "ensureMigrationsTable (ss_stored s) = Inr (u, ss_stored s1)"
    using send_idle [OF went_on(1) assms(1)] by simp_all
  then show ?thesis using send_idle [OF went_on(2) one(2)] ensureMigrationsTableD [OF one(3)]
    by (cases r) (auto dest: getAppliedMigrationsD)
qed

text \<open>The pending files, once the table is read.\<close>

lemma pending_outcome:
  assumes "ss_tx s = No_Tx" "md_table (ss_stored s) = Some applied" "apply_pending exec applied (loadMigrations fs) s = (s', out, r)"
    and "calm \<longrightarrow> ss_wire s = []"
  defines "todo \<equiv> filter (\<lambda>m. mg_name m \<notin> set applied) (loadMigrations fs)"
  shows "ss_out s' = ss_out s \<and> (ss_tx s' = No_Tx \<or> ss_tx s' = Lost)
    \<and> (\<exists>k \<le> length todo. recorded (ss_stored s') = applied @ map mg_name (take k todo)
         \<and> apply_sql exec (map mg_up (take k todo)) (md_schema (ss_stored s)) = Inr (md_schema (ss_stored s'))
         \<and> (r = Inr () \<longrightarrow> k = length todo)
         \<and> (r \<noteq> Inr () \<and> calm \<longrightarrow> k < length todo \<and> not_taken exec (todo ! k) (ss_stored s')))"
proof (cases calm)
  case True
  then have "ss_wire s = []" using assms(4) by simp
  from apply_pending_prefix [OF assms(1) this assms(2,3)] show ?thesis
    unfolding todo_def recorded_def by (elim conjE exE) (intro conjI exI, auto)
next
  case False
  with apply_pending_faulty [OF assms(1-3)] show ?thesis
    unfolding todo_def recorded_def by (elim conjE exE) (intro conjI exI, auto)
qed

text \<open>C26: whatever fails, the connection to the database, any statement with BEGIN, COMMIT and the two on the table of
  migrations, the directory or a migration's text, a run has applied the first pending files in the order of
  their names and recorded exactly these, none of them in part; it has given its client back; and it reports
  success only if every pending file is applied.  Over a connection that holds, it stops at the first
  migration the database does not take.
\<close>

theorem migrate_applies_a_prefix:
  assumes "ss_tx s = No_Tx" "migrate exec files refused s = (s', out, r)"
  shows "ss_tx s' = No_Tx \<and> ss_out s' = ss_out s
    \<and> (\<exists>k \<le> length (to_apply (ss_stored s) files).
         recorded (ss_stored s') = recorded (ss_stored s) @ map mg_name (take k (to_apply (ss_stored s) files))
         \<and> apply_sql exec (map mg_up (take k (to_apply (ss_stored s) files))) (md_schema (ss_stored s)) = Inr (md_schema (ss_stored s'))
         \<and> (r = Inr () \<longrightarrow> k = length (to_apply (ss_stored s) files) \<and> files \<noteq> None \<and> refused = None)
         \<and> (r \<noteq> Inr () \<and> ss_wire s = [] \<and> files \<noteq> None \<and> refused = None \<longrightarrow>
              k < length (to_apply (ss_stored s) files) \<and> not_taken exec (to_apply (ss_stored s) files ! k) (ss_stored s')))"
proof (cases refused)
  case (Some e)
  then show ?thesis using assms by (intro conjI exI [of _ 0]) (auto simp: migrate_def getClient_def)
next
  case None
  let ?s = "s\<lparr> ss_out := Suc (ss_out s) \<rparr>"
  obtain s1 r1 where e: "andThen (send ensureMigrationsTable ?s) (\<lambda>s _. send getAppliedMigrations s) = (s1, r1)" by fastforce
  have "ss_tx ?s = No_Tx" using assms(1) by simp
  note ens = ensured [OF this e]
  have free: "ss_tx (release t) = No_Tx \<and> ss_out (release t) = ss_out s \<and> ss_stored (release t) = ss_stored t"
    if "ss_out t = Suc (ss_out s)" "ss_tx t = No_Tx \<or> ss_tx t = Lost" for t :: "'a mig_db session"
    using that by (auto simp: release_def)
  show ?thesis
  proof (cases r1)
    case (Inl x)
    have res: "s' = release s1" "r = Inl (Sql_Error x)" using assms(2) None e Inl by (simp_all add: migrate_def getClient_def)
    have "ss_wire s \<noteq> []"
      using e Inl assms(1) by (auto simp: send_def run_statement_def ensureMigrationsTable_def getAppliedMigrations_def)
    then show ?thesis using res ens free [of s1] by (intro conjI exI [of _ 0]) auto
  next
    case (Inr applied)
    have s1: "ss_tx s1 = No_Tx" "md_table (ss_stored s1) = Some applied" "applied = recorded (ss_stored s)" "ss_out s1 = Suc (ss_out s)"
      using ens Inr by simp_all
    show ?thesis
    proof (cases files)
      case None
      then have "s' = release s1" "r = Inl No_Directory"
        using assms(2) \<open>refused = None\<close> e Inr by (simp_all add: migrate_def getClient_def)
      then show ?thesis using ens free [of s1] None by (intro conjI exI [of _ 0]) (auto simp: to_apply_def)
    next
      case (Some fs)
      obtain s2 where p: "apply_pending exec applied (loadMigrations fs) s1 = (s2, out, r)" and s': "s' = release s2"
        using assms(2) None e Inr Some by (auto simp: migrate_def getClient_def split: prod.splits)
      have todo: "to_apply (ss_stored s) files = filter (\<lambda>m. mg_name m \<notin> set applied) (loadMigrations fs)"
        using Some s1(3) by (simp add: to_apply_def pending_def recorded_def)
      have "ss_wire s = [] \<longrightarrow> ss_wire s1 = []"
        using e Inr assms(1) by (auto simp: send_def run_statement_def ensureMigrationsTable_def getAppliedMigrations_def)
      from pending_outcome [OF s1(1,2) p this] show ?thesis
        unfolding todo s' using free [of s2] s1 ens None Some by auto
    qed
  qed
qed

definition demo_exec :: "string \<Rightarrow> string list \<Rightarrow> sql_error + string list" where
  "demo_exec sql sc = (if sql = ''DROP x'' then Inl (Refused sql) else Inr (sc @ [sql]))"

definition demo_files :: "(string \<times> string) list" where
  "demo_files = [(''002_b.sql'', ''-- UP DROP x''), (''README.md'', ''text''), (''001_a.sql'', ''-- UP CREATE t -- DOWN DROP t'')]"

definition demo_session :: "string list mig_db session" where
  "demo_session = \<lparr> ss_stored = \<lparr> md_table = None, md_schema = [] \<rparr>, ss_tx = No_Tx, ss_out = 0, ss_wire = [] \<rparr>"

lemma demo_run: "migrate demo_exec (Some demo_files) None demo_session =
    (\<lparr> ss_stored = \<lparr> md_table = Some [''001_a''], md_schema = [''CREATE t''] \<rparr>, ss_tx = No_Tx, ss_out = 0, ss_wire = [] \<rparr>,
     [Running_Migration ''001_a'', Migration_Applied ''001_a'', Running_Migration ''002_b'',
      Migration_Failed ''002_b'' (Refused ''DROP x'')], Inl (Sql_Error (Refused ''DROP x'')))"
  by code_simp

text \<open>The connection breaks after the first COMMIT took effect: the first migration is applied, the run throws.\<close>

theorem migrate_applies_a_prefix_witness:
  "\<exists>k \<le> 2. recorded (ss_stored (fst (migrate demo_exec (Some demo_files) None (demo_session\<lparr> ss_wire := replicate 5 Heard @ [Cut_After] \<rparr>))))
     = map mg_name (take k (to_apply (ss_stored demo_session) (Some demo_files)))"
proof -
  let ?s = "demo_session\<lparr> ss_wire := replicate 5 Heard @ [Cut_After] \<rparr>"
  obtain s' out r where run: "migrate demo_exec (Some demo_files) None ?s = (s', out, r)" by (metis prod_cases3)
  have "ss_tx ?s = No_Tx" "recorded (ss_stored ?s) = []" "ss_stored ?s = ss_stored demo_session"
    by (simp_all add: demo_session_def recorded_def)
  moreover have "length (to_apply (ss_stored demo_session) (Some demo_files)) = 2" by code_simp
  ultimately show ?thesis using migrate_applies_a_prefix [OF _ run] unfolding run by auto
qed

lemma demo_lost_commit:
  "case migrate demo_exec (Some demo_files) None (demo_session\<lparr> ss_wire := replicate 5 Heard @ [Cut_After] \<rparr>) of
     (s', out, r) \<Rightarrow> recorded (ss_stored s') = [''001_a''] \<and> out = [Running_Migration ''001_a''] \<and> r = Inl (Sql_Error Connection_Lost)"
  by code_simp

lemma apply_pending_wire:
  assumes "ss_tx s = No_Tx" "ss_wire s = []" "md_table (ss_stored s) = Some ns" "apply_pending exec applied ms s = (s', out, Inr ())"
  shows "ss_wire s' = []"
  using assms
proof (induction ms arbitrary: s ns out)
  case (Cons m ms)
  show ?case
  proof (cases "mg_name m \<in> set applied")
    case False
    have taken: "\<not> not_taken exec m (ss_stored s)"
    proof
      assume "not_taken exec m (ss_stored s)"
      from migration_refused [OF Cons.prems(1-3) this] show False using Cons.prems(4) False by fastforce
    qed
    obtain sc where a: "apply_migration exec m s = (s\<lparr> ss_stored := (ss_stored s)\<lparr> md_table := Some (ns @ [mg_name m]), md_schema := sc \<rparr> \<rparr>,
       [Running_Migration (mg_name m), Migration_Applied (mg_name m)], Inr ())"
      by (rule migration_taken [OF Cons.prems(1-3) taken])
    let ?s = "s\<lparr> ss_stored := (ss_stored s)\<lparr> md_table := Some (ns @ [mg_name m]), md_schema := sc \<rparr> \<rparr>"
    obtain out2 where rest: "apply_pending exec applied ms ?s = (s', out2, Inr ())"
      using Cons.prems(4) False a by (auto split: prod.splits)
    show ?thesis by (rule Cons.IH [OF _ _ _ rest]) (use Cons.prems(1,2) in simp_all)
  qed (use Cons in auto)
qed simp

text \<open>After a successful run, running again applies nothing and changes nothing.
\<close>

theorem migrate_again_does_nothing:
  assumes "ss_tx s = No_Tx" "ss_wire s = []" "migrate exec (Some files) None s = (s', out, Inr ())"
  shows "migrate exec (Some files) None s' = (s', [All_Applied], Inr ())"
proof -
  let ?ns = "case md_table (ss_stored s) of None \<Rightarrow> [] | Some ns \<Rightarrow> ns"
  let ?todo = "filter (\<lambda>m. mg_name m \<notin> set ?ns) (loadMigrations files)"
  let ?s = "s\<lparr> ss_out := Suc (ss_out s), ss_stored := (ss_stored s)\<lparr> md_table := Some ?ns \<rparr> \<rparr>"
  obtain s1 where run: "apply_pending exec ?ns (loadMigrations files) ?s = (s1, out, Inr ())" and s': "s' = release s1"
    using assms by (auto simp: migrate_def getClient_def send_def run_statement_def ensureMigrationsTable_def getAppliedMigrations_def
        split: prod.splits)
  have idle: "ss_tx ?s = No_Tx" "ss_wire ?s = []" "md_table (ss_stored ?s) = Some ?ns" using assms(1,2) by simp_all
  have "md_table (ss_stored s') = Some (?ns @ map mg_name ?todo)" "ss_tx s' = No_Tx"
    using apply_pending_prefix [OF idle run] by (auto simp: s' release_def)
  then obtain applied where all: "md_table (ss_stored s') = Some applied" "ss_tx s' = No_Tx"
    "\<forall>m \<in> set (loadMigrations files). mg_name m \<in> set applied" by auto
  have none: "apply_pending exec applied ms t = (t, [All_Applied], Inr ())"
    if "\<forall>m \<in> set ms. mg_name m \<in> set applied" for ms and t :: "'a mig_db session"
    using that by (induction ms) simp_all
  have "(ss_stored s')\<lparr> md_table := Some applied \<rparr> = ss_stored s'"
    using all(1) by (cases "ss_stored s'") simp
  then have "release (s'\<lparr> ss_out := Suc (ss_out s'), ss_stored := (ss_stored s')\<lparr> md_table := Some applied \<rparr> \<rparr>) = s'"
    using all(2) by (cases s') (simp add: release_def)
  moreover have "ss_wire s' = []" using apply_pending_wire [OF idle run] by (simp add: s' release_def)
  ultimately show ?thesis
    using all by (simp add: migrate_def getClient_def send_def run_statement_def ensureMigrationsTable_def getAppliedMigrations_def none)
qed

theorem migrate_again_does_nothing_witness:
  "migrate demo_exec (Some [(''001_a.sql'', ''-- UP CREATE t'')]) None
     (fst (migrate demo_exec (Some [(''001_a.sql'', ''-- UP CREATE t'')]) None demo_session))
   = (fst (migrate demo_exec (Some [(''001_a.sql'', ''-- UP CREATE t'')]) None demo_session), [All_Applied], Inr ())"
proof -
  have run: "migrate demo_exec (Some [(''001_a.sql'', ''-- UP CREATE t'')]) None demo_session =
     (\<lparr> ss_stored = \<lparr> md_table = Some [''001_a''], md_schema = [''CREATE t''] \<rparr>, ss_tx = No_Tx, ss_out = 0, ss_wire = [] \<rparr>,
      [Running_Migration ''001_a'', Migration_Applied ''001_a'', All_Applied], Inr ())"
    by code_simp
  have "ss_tx demo_session = No_Tx" "ss_wire demo_session = []" by (simp_all add: demo_session_def)
  from migrate_again_does_nothing [OF this run] show ?thesis unfolding run by simp
qed

section \<open>Seed data\<close>

record price_row =
  po_asset :: string
  po_currency :: string
  po_price :: rat
  po_source :: string
  po_updated_at :: int

record seed_db =
  sd_merchants :: "merchant list"
  sd_prices :: "price_row list"

definition seed_merchant ::
    "int \<Rightarrow> string \<Rightarrow> string \<Rightarrow> string \<Rightarrow> string \<Rightarrow> string \<Rightarrow> string list \<Rightarrow> string list \<Rightarrow> rat \<Rightarrow> rat \<Rightarrow> int \<Rightarrow> string \<Rightarrow> string \<Rightarrow> merchant" where
  "seed_merchant now i name asset chain addr chain_ids assets fee kyc ttl hook key = \<lparr>
     m_id = i, m_name = name, m_settlement_asset = asset, m_settlement_chain = chain, m_settlement_address = addr,
     m_accepted_chains = chain_ids, m_accepted_assets = assets, m_fee_percentage = fee, m_kyc_threshold = kyc,
     m_quote_ttl_seconds = ttl, m_webhook_url = Some hook, m_compliance_status = ''COMPLIANT'',
     m_api_key_hash = Some key, m_email = None, m_password_hash = None, m_password_salt = None,
     m_created_at = now, m_updated_at = now \<rparr>"

definition seed_merchants :: "int \<Rightarrow> merchant list" where
  "seed_merchants now =
     [seed_merchant now ''merchant-001'' ''Test Shop'' ''USDC'' ''1'' ''0x742d35Cc6634C0532925a3b844Bc9e7595f2bD18''
        [''1'', ''8453'', ''42161''] [''USDC'', ''USDT'', ''ETH''] 1 10000 300 ''https://webhook.example.com/test''
        ''hash_of_test_api_key'',
      seed_merchant now ''merchant-002'' ''Crypto Store'' ''USDT'' ''137'' ''0x1234567890abcdef1234567890abcdef12345678''
        [''1'', ''8453'', ''137''] [''USDC'', ''USDT''] (1 / 2) 50000 120 ''https://webhook.example.com/store''
        ''hash_of_store_api_key'']"

definition seed_prices :: "int \<Rightarrow> price_row list" where
  "seed_prices now = map (\<lambda>(a, p). \<lparr> po_asset = a, po_currency = ''USD'', po_price = p, po_source = ''coingecko'',
       po_updated_at = now \<rparr>)
     [(''USDC'', 1), (''USDT'', 1), (''ETH'', 3500), (''SOL'', 150), (''TRX'', 12 / 100)]"

text \<open>\<open>ON CONFLICT DO NOTHING\<close> and \<open>ON CONFLICT DO UPDATE\<close>, row by row.\<close>

definition insert_or_keep :: "('a \<Rightarrow> 'k) \<Rightarrow> 'a \<Rightarrow> 'a list \<Rightarrow> 'a list" where
  "insert_or_keep key r t = (case tbl_insert key r t of None \<Rightarrow> t | Some t' \<Rightarrow> t')"

definition upsert_price :: "price_row \<Rightarrow> price_row list \<Rightarrow> price_row list" where
  "upsert_price r t =
     (let same = (\<lambda>x. po_asset x = po_asset r \<and> po_currency x = po_currency r) in
      if list_ex same t
      then tbl_update same (\<lambda>x. x\<lparr> po_price := po_price r, po_updated_at := po_updated_at r \<rparr>) t
      else t @ [r])"

text \<open>The two statements are queries of their own: the first stays when the second fails.\<close>

definition seed :: "int \<Rightarrow> sql_error option \<Rightarrow> sql_error option \<Rightarrow> seed_db session \<Rightarrow> seed_db session \<times> (sql_error + unit)" where
  "seed now refused refused' s =
     andThen (db_query refused (\<lambda>d. Inr ((), d\<lparr> sd_merchants := fold (insert_or_keep m_id) (seed_merchants now) (sd_merchants d) \<rparr>)) s)
       (\<lambda>s _. db_query refused' (\<lambda>d. Inr ((), d\<lparr> sd_prices := fold upsert_price (seed_prices now) (sd_prices d) \<rparr>)) s)"

lemma insert_or_keep_prefix: "\<exists>new. insert_or_keep key r t = t @ new"
  by (auto simp: insert_or_keep_def tbl_insert_def)

text \<open>Seeding never changes a merchant that is there, whatever the state of its account and whatever fails.\<close>

lemma seed_keeps_merchants:
  assumes "ss_tx s = No_Tx"
  shows "\<exists>new. sd_merchants (ss_stored (fst (seed now refused refused' s))) = sd_merchants (ss_stored s) @ new"
proof -
  have many: "\<exists>new. fold (insert_or_keep m_id) rs t = t @ new" for rs t
  proof (induction rs arbitrary: t)
    case (Cons r rs)
    obtain n1 where n1: "insert_or_keep m_id r t = t @ n1" using insert_or_keep_prefix [of m_id r t] by blast
    obtain n2 where "fold (insert_or_keep m_id) rs (t @ n1) = (t @ n1) @ n2" using Cons.IH by blast
    then show ?case by (simp add: n1)
  qed simp
  let ?q = "\<lambda>d. Inr ((), d\<lparr> sd_merchants := fold (insert_or_keep m_id) (seed_merchants now) (sd_merchants d) \<rparr>)"
  let ?q' = "\<lambda>d. Inr ((), d\<lparr> sd_prices := fold upsert_price (seed_prices now) (sd_prices d) \<rparr>)"
  obtain s1 r1 where one: "db_query refused ?q s = (s1, r1)" by fastforce
  note o = db_query_outcome [OF this assms]
  obtain s2 r2 where two: "db_query refused' ?q' s1 = (s2, r2)" by fastforce
  note t = db_query_outcome [OF two]
  have "ss_stored s1 = ss_stored s \<or> ss_stored s1 = snd (projr (?q (ss_stored s)))" using o by auto
  then have first: "\<exists>new. sd_merchants (ss_stored s1) = sd_merchants (ss_stored s) @ new"
    using many [of "seed_merchants now" "sd_merchants (ss_stored s)"] by auto
  have "ss_stored s2 = ss_stored s1 \<or> ss_stored s2 = snd (projr (?q' (ss_stored s1)))" using t o by auto
  then have second: "sd_merchants (ss_stored s2) = sd_merchants (ss_stored s1)" by auto
  have "seed now refused refused' s = (case r1 of Inl e \<Rightarrow> (s1, Inl e) | Inr _ \<Rightarrow> (s2, r2))"
    unfolding seed_def one using two by (cases r1) simp_all
  then show ?thesis using first second by (cases r1) simp_all
qed

end
