(* ===== verification/Service_Endpoints.thy ===== *)
theory Service_Endpoints
  imports Worker_Observability Api_Gateway Database_Client Price_Oracle
begin

text \<open>
  The two servers around the handlers: the health server of the worker (\<open>worker/src/health-server.ts\<close>,
  listening and closing) and the API process (\<open>api-gateway/src/index.ts\<close>: origins, health routes,
  address, start).  Both ask the database through \<open>healthCheck\<close>; what the operating system
  answers to \<open>listen\<close> is a parameter.
\<close>

section \<open>The health server\<close>

record health_server =
  sv_running :: bool
  sv_port :: int

datatype listen_answer = Bound "int option" | Listen_Failed string

definition createHealthServer :: health_server where
  "createHealthServer = \<lparr> sv_running = False, sv_port = 0 \<rparr>"

text \<open>The server is made before it listens: a failed \<open>listen\<close> leaves one to close.\<close>

definition health_listen :: "int \<Rightarrow> listen_answer \<Rightarrow> health_server \<Rightarrow> health_server \<times> (string + unit)" where
  "health_listen port answer s =
     (let s = s\<lparr> sv_running := True \<rparr> in
      case answer of
        Listen_Failed e \<Rightarrow> (s, Inl e)
      | Bound p \<Rightarrow> (s\<lparr> sv_port := (case p of None \<Rightarrow> port | Some q \<Rightarrow> q) \<rparr>, Inr ()))"

definition health_close :: "health_server \<Rightarrow> health_server" where
  "health_close s = (if \<not> sv_running s then s else s\<lparr> sv_running := False \<rparr>)"

text \<open>A request: the database is asked on its own connection, a failing check counts as disconnected.\<close>

definition health_request ::
    "int \<Rightarrow> string option \<Rightarrow> sql_error option \<Rightarrow> ('db, int option list) sql_statement \<Rightarrow> queue_stats option
       \<Rightarrow> 'db session \<Rightarrow> world \<Rightarrow> 'db session \<times> health_response" where
  "health_request now url refused select_one q db w =
     (if url = Some ''/health/ready''
      then (case healthCheck refused select_one db of (db, ok) \<Rightarrow> (db, health_handle now url (Some ok) q w))
      else (db, health_handle now url None q w))"

section \<open>The API process\<close>

definition cors_origins :: "(string \<Rightarrow> string option) \<Rightarrow> string list" where
  "cors_origins procenv = (case procenv ''CORS_ORIGINS'' of
     Some v \<Rightarrow> split_comma v
   | None \<Rightarrow> [''http://localhost:3000'', ''http://localhost:3001'', ''http://localhost:3002''])"

definition api_health :: "int \<Rightarrow> api_response" where
  "api_health now = reply 200 [(''status'', JStr ''ok''), (''timestamp'', JTime now),
     (''service'', JStr ''crypto-gateway-api''), (''version'', JStr ''0.1.0'')]"

text \<open>\<open>None\<close> stands for a check that throws.\<close>

definition api_ready :: "bool option \<Rightarrow> api_response" where
  "api_ready check = (case check of
     None \<Rightarrow> reply 200 [(''status'', JStr ''not_ready''), (''database'', JStr ''error'')]
   | Some healthy \<Rightarrow> reply 200 [(''status'', JStr (if healthy then ''ready'' else ''not_ready'')),
       (''database'', JStr (if healthy then ''connected'' else ''disconnected''))])"

datatype server_request = Health_Probe | Ready_Probe | Api_Call api_request

definition api_serve ::
    "api_env \<Rightarrow> sql_error option \<Rightarrow> ('db, int option list) sql_statement \<Rightarrow> server_request \<Rightarrow> gateway \<times> 'db session
       \<Rightarrow> (gateway \<times> 'db session) \<times> api_response" where
  "api_serve x refused select_one r st = (case st of (g, db) \<Rightarrow>
     (case r of
        Health_Probe \<Rightarrow> ((g, db), api_health (e_now (w_env (ax_webhook x))))
      | Ready_Probe \<Rightarrow> (case healthCheck refused select_one db of (db, ok) \<Rightarrow> ((g, db), api_ready (Some ok)))
      | Api_Call q \<Rightarrow> (case handle x q g of (g, a) \<Rightarrow> ((g, db), a))))"

text \<open>\<open>start\<close>: the port is \<open>NaN\<close> (\<open>None\<close>) when the variable is not a number; a failure ends the process.\<close>

datatype start_outcome = Serving "int option" string | Exit_Code nat

definition api_start :: "(string \<Rightarrow> string option) \<Rightarrow> (int option \<Rightarrow> string \<Rightarrow> bool) \<Rightarrow> start_outcome" where
  "api_start procenv listens =
     (let port = parse_int (text_or (procenv ''PORT'') ''3000''); host = text_or (procenv ''HOST'') ''0.0.0.0''
      in if listens port host then Serving port host else Exit_Code 1)"

lemma healthCheck_unreachable: "healthCheck (Some e) q db = (db, False)"
  by (simp add: healthCheck_def db_query_def getClient_def)

text \<open>With the database unreachable the worker answers its readiness probe with 503, the API answers
  200 with \<open>not_ready\<close> in the body, so that a probe of the status code keeps it in service.
\<close>

theorem unready_gateway_answers_200:
  "hs_status (snd (health_request now (Some ''/health/ready'') (Some e) q counts db w)) = 503
   \<and> api_serve x (Some e) q Ready_Probe (g, db)
       = ((g, db), reply 200 [(''status'', JStr ''not_ready''), (''database'', JStr ''disconnected'')])"
  by (simp add: health_request_def healthCheck_unreachable health_handle_def readiness_status_def Let_def
      api_serve_def api_ready_def)

end
