(* ===== verification/Error_Catalog.thy ===== *)
theory Error_Catalog
  imports Api_Gateway Chain_Types
begin

text \<open>
  The error classes of the shared package (\<open>packages/shared/src/errors\<close>), one constructor for each
  class and one function for each file that gives what the class passes to \<open>GatewayError\<close>; the error
  handler of the API on them; and their agreement with the errors the other theories use.
  The text of a number is a parameter.
\<close>

record failure =
  gf_code :: string
  gf_message :: string
  gf_status :: nat
  gf_details :: payload

definition GatewayError :: "string \<Rightarrow> string \<Rightarrow> nat \<Rightarrow> payload \<Rightarrow> failure" where
  "GatewayError code message status details =
     \<lparr> gf_code = code, gf_message = message, gf_status = status, gf_details = details \<rparr>"

section \<open>The classes\<close>

datatype core_error =
    Intent_Not_Found string
  | Invalid_Transition string string
  | Quote_Expired string
  | Merchant_Not_Found string
  | Validation string payload
  | Unsupported_Chain string
  | Transaction_Failed string "string option"
  | No_Valid_Quotes
  | Provider_Unavailable string
  | Settlement_Failed string "string option"
  | Insufficient_Balance string rat rat
  | Sanctioned_Address string
  | Compliance_Check_Failed string
  | Screening_Unavailable string string

fun core_failure :: "core_error \<Rightarrow> failure" where
  "core_failure (Intent_Not_Found i) = GatewayError ''INTENT_NOT_FOUND'' (''Payment intent not found: '' @ i) 404 []"
| "core_failure (Invalid_Transition f t) =
     GatewayError ''INVALID_TRANSITION'' (''Invalid state transition from '' @ f @ '' to '' @ t) 400 [(''from'', JStr f), (''to'', JStr t)]"
| "core_failure (Quote_Expired i) = GatewayError ''QUOTE_EXPIRED'' (''Quote has expired for intent: '' @ i) 400 []"
| "core_failure (Merchant_Not_Found m) = GatewayError ''MERCHANT_NOT_FOUND'' (''Merchant not found: '' @ m) 404 []"
| "core_failure (Validation msg details) = GatewayError ''VALIDATION_ERROR'' msg 400 details"
| "core_failure (Unsupported_Chain c) = GatewayError ''UNSUPPORTED_CHAIN'' (''Chain not supported: '' @ c) 400 []"
| "core_failure (Transaction_Failed h r) =
     GatewayError ''TRANSACTION_FAILED'' (''Transaction failed: '' @ h) 500 (undef_field ''reason'' r)"
| "core_failure No_Valid_Quotes = GatewayError ''NO_VALID_QUOTES'' ''No valid quotes available from any provider'' 400 []"
| "core_failure (Provider_Unavailable p) = GatewayError ''PROVIDER_UNAVAILABLE'' (''Provider unavailable: '' @ p) 503 []"
| "core_failure (Settlement_Failed i r) =
     GatewayError ''SETTLEMENT_FAILED'' (''Settlement failed: '' @ i) 500 (undef_field ''reason'' r)"
| "core_failure (Insufficient_Balance c need got) =
     GatewayError ''INSUFFICIENT_BALANCE'' (''Insufficient balance on '' @ c) 500
       [(''chain'', JStr c), (''required'', JNum need), (''available'', JNum got)]"
| "core_failure (Sanctioned_Address a) = GatewayError ''SANCTIONED_ADDRESS'' (''Address is sanctioned: '' @ a) 403 []"
| "core_failure (Compliance_Check_Failed r) =
     GatewayError ''COMPLIANCE_CHECK_FAILED'' (''Compliance check failed: '' @ r) 403 []"
| "core_failure (Screening_Unavailable p r) = GatewayError ''SCREENING_UNAVAILABLE''
     (''Screening provider '' @ p @ '' is unavailable: '' @ r @ ''. Payment cannot proceed (fail-closed).'') 503
     [(''provider'', JStr p), (''reason'', JStr r)]"

datatype settlement_class =
    Settlement_Not_Found string
  | Settlement_Already_Completed string
  | Ledger_Inconsistency rat rat rat
  | Settlement_Amount_Mismatch rat rat
  | Hot_Wallet_Insufficient string string string

fun settlement_failure :: "(rat \<Rightarrow> string) \<Rightarrow> settlement_class \<Rightarrow> failure" where
  "settlement_failure num (Settlement_Not_Found i) = GatewayError ''SETTLEMENT_NOT_FOUND'' (''Settlement not found: '' @ i) 404 []"
| "settlement_failure num (Settlement_Already_Completed i) =
     GatewayError ''SETTLEMENT_ALREADY_COMPLETED'' (''Settlement already completed: '' @ i) 409 []"
| "settlement_failure num (Ledger_Inconsistency dr cr df) = GatewayError ''LEDGER_INCONSISTENCY''
     (''Ledger inconsistency detected: debits='' @ num dr @ '', credits='' @ num cr @ '', diff='' @ num df) 500
     [(''totalDebits'', JNum dr), (''totalCredits'', JNum cr), (''difference'', JNum df)]"
| "settlement_failure num (Settlement_Amount_Mismatch x y) = GatewayError ''SETTLEMENT_AMOUNT_MISMATCH''
     (''Settlement amount mismatch: expected '' @ num x @ '', got '' @ num y) 400 [(''expected'', JNum x), (''actual'', JNum y)]"
| "settlement_failure num (Hot_Wallet_Insufficient c need got) = GatewayError ''HOT_WALLET_INSUFFICIENT_BALANCE''
     (''Hot wallet on '' @ c @ '' has insufficient balance'') 500
     [(''chain'', JStr c), (''required'', JStr need), (''available'', JStr got)]"

datatype routing_class =
    Route_Not_Found string string
  | Route_Expired string
  | Route_Execution_Timeout string rat
  | Slippage_Exceeded rat rat rat
  | Insufficient_Liquidity string string rat rat

fun routing_failure :: "(rat \<Rightarrow> string) \<Rightarrow> routing_class \<Rightarrow> failure" where
  "routing_failure num (Route_Not_Found s t) = GatewayError ''ROUTE_NOT_FOUND''
     (''No route found from '' @ s @ '' to '' @ t) 404 [(''sourceChain'', JStr s), (''targetChain'', JStr t)]"
| "routing_failure num (Route_Expired r) = GatewayError ''ROUTE_EXPIRED'' (''Route quote has expired: '' @ r) 400 []"
| "routing_failure num (Route_Execution_Timeout r ms) = GatewayError ''ROUTE_EXECUTION_TIMEOUT''
     (''Route execution timed out after '' @ num ms @ ''ms: '' @ r) 408 [(''routeId'', JStr r), (''timeoutMs'', JNum ms)]"
| "routing_failure num (Slippage_Exceeded x y mx) = GatewayError ''SLIPPAGE_EXCEEDED''
     (''Slippage '' @ num \<bar>y - x\<bar> @ '' exceeds maximum '' @ num mx) 400
     [(''expected'', JNum x), (''actual'', JNum y), (''maxSlippage'', JNum mx)]"
| "routing_failure num (Insufficient_Liquidity a c need got) = GatewayError ''INSUFFICIENT_LIQUIDITY''
     (''Insufficient liquidity for '' @ a @ '' on '' @ c) 400
     [(''asset'', JStr a), (''chain'', JStr c), (''required'', JNum need), (''available'', JNum got)]"

datatype chain_class =
    Invalid_Address string string
  | Insufficient_Gas string string string
  | Rpc string rat string "json option"
  | Reorg_Detected string string rat
  | Transaction_Reverted string string "string option"
  | Balance_Query string string "string option"
  | Watcher_Failed string string "string option"

fun chain_failure :: "(rat \<Rightarrow> string) \<Rightarrow> chain_class \<Rightarrow> failure" where
  "chain_failure num (Invalid_Address a c) = GatewayError ''INVALID_ADDRESS''
     (''Invalid address \"'' @ a @ ''\" for chain '' @ c) 400 [(''address'', JStr a), (''chain'', JStr c)]"
| "chain_failure num (Insufficient_Gas c need got) = GatewayError ''INSUFFICIENT_GAS''
     (''Insufficient gas on '' @ c @ '': need '' @ need @ '', have '' @ got) 500
     [(''chain'', JStr c), (''required'', JStr need), (''available'', JStr got)]"
| "chain_failure num (Rpc c code msg dat) = GatewayError ''RPC_ERROR''
     (''RPC error on '' @ c @ '': ['' @ num code @ ''] '' @ msg) 502
     ([(''chain'', JStr c), (''rpcCode'', JNum code)] @ (case dat of None \<Rightarrow> [] | Some v \<Rightarrow> [(''data'', v)]))"
| "chain_failure num (Reorg_Detected c h b) = GatewayError ''REORG_DETECTED''
     (''Chain reorganization detected on '' @ c @ '' at block '' @ num b) 500
     [(''chain'', JStr c), (''txHash'', JStr h), (''forkBlock'', JNum b)]"
| "chain_failure num (Transaction_Reverted h c r) = GatewayError ''TRANSACTION_REVERTED''
     (with_reason (''Transaction '' @ h @ '' reverted on '' @ c) (text_or r [])) 500
     ([(''txHash'', JStr h), (''chain'', JStr c)] @ undef_field ''revertReason'' r)"
| "chain_failure num (Balance_Query a c r) = GatewayError ''BALANCE_QUERY_FAILED''
     (with_reason (''Failed to query balance for '' @ a @ '' on '' @ c) (text_or r [])) 502
     ([(''address'', JStr a), (''chain'', JStr c)] @ undef_field ''reason'' r)"
| "chain_failure num (Watcher_Failed a c r) = GatewayError ''DEPOSIT_WATCHER_ERROR''
     (with_reason (''Deposit watcher failed for '' @ a @ '' on '' @ c) (text_or r [])) 500
     ([(''address'', JStr a), (''chain'', JStr c)] @ undef_field ''reason'' r)"

datatype rate_class =
    Price_Oracle_Failed string string
  | Price_Stale string string rat
  | Price_Confidence string rat rat
  | Rate_Lock_Expired string string
  | Rate_Lock_Not_Found string
  | Rate_Lock_Already_Consumed string
  | Spread_Exceeded rat rat
  | Risk_Scoring_Failed string string
  | Sanctions_Check_Failed string string string
  | Address_Blocked string string rat
  | Compliance_Gate_Blocked string string
  | Treasury_Insufficient string string rat rat
  | Treasury_Replenishment string string

fun rate_failure :: "(rat \<Rightarrow> string) \<Rightarrow> rate_class \<Rightarrow> failure" where
  "rate_failure num (Price_Oracle_Failed orc r) = GatewayError ''PRICE_ORACLE_ERROR''
     (''Price oracle \"'' @ orc @ ''\" failed: '' @ r) 502 [(''oracle'', JStr orc), (''reason'', JStr r)]"
| "rate_failure num (Price_Stale a s age) = GatewayError ''PRICE_STALE''
     (''Price for '' @ a @ '' from '' @ s @ '' is stale ('' @ num age @ ''s old)'') 503
     [(''asset'', JStr a), (''source'', JStr s), (''ageSeconds'', JNum age)]"
| "rate_failure num (Price_Confidence a c m) = GatewayError ''PRICE_LOW_CONFIDENCE''
     (''Price confidence for '' @ a @ '' is '' @ num c @ '', minimum required is '' @ num m) 503
     [(''asset'', JStr a), (''confidence'', JNum c), (''minRequired'', JNum m)]"
| "rate_failure num (Rate_Lock_Expired l i) = GatewayError ''RATE_LOCK_EXPIRED''
     (''Rate lock '' @ l @ '' has expired for intent '' @ i) 400 [(''lockId'', JStr l), (''intentId'', JStr i)]"
| "rate_failure num (Rate_Lock_Not_Found i) = GatewayError ''RATE_LOCK_NOT_FOUND''
     (''No rate lock found for intent '' @ i) 404 [(''intentId'', JStr i)]"
| "rate_failure num (Rate_Lock_Already_Consumed l) = GatewayError ''RATE_LOCK_ALREADY_CONSUMED''
     (''Rate lock '' @ l @ '' has already been consumed'') 409 [(''lockId'', JStr l)]"
| "rate_failure num (Spread_Exceeded s m) = GatewayError ''SPREAD_EXCEEDED''
     (''Spread '' @ num s @ ''bps exceeds maximum allowed '' @ num m @ ''bps'') 400 [(''spreadBps'', JNum s), (''maxBps'', JNum m)]"
| "rate_failure num (Risk_Scoring_Failed a r) = GatewayError ''RISK_SCORING_ERROR''
     (''Risk scoring failed for address '' @ a @ '': '' @ r) 500 [(''address'', JStr a), (''reason'', JStr r)]"
| "rate_failure num (Sanctions_Check_Failed a p r) = GatewayError ''SANCTIONS_CHECK_ERROR''
     (''Sanctions check failed for '' @ a @ '' via '' @ p @ '': '' @ r) 503
     [(''address'', JStr a), (''provider'', JStr p), (''reason'', JStr r)]"
| "rate_failure num (Address_Blocked a r s) = GatewayError ''ADDRESS_BLOCKED''
     (''Address '' @ a @ '' is blocked: '' @ r) 403 [(''address'', JStr a), (''reason'', JStr r), (''riskScore'', JNum s)]"
| "rate_failure num (Compliance_Gate_Blocked a r) = GatewayError ''COMPLIANCE_GATE_BLOCKED''
     (''Compliance gate blocked '' @ a @ '': '' @ r) 403 [(''address'', JStr a), (''reason'', JStr r)]"
| "rate_failure num (Treasury_Insufficient c a need got) = GatewayError ''TREASURY_INSUFFICIENT''
     (''Treasury insufficient on '' @ c @ '' for '' @ a @ '': need '' @ num need @ '', have '' @ num got) 500
     [(''chain'', JStr c), (''asset'', JStr a), (''required'', JNum need), (''available'', JNum got)]"
| "rate_failure num (Treasury_Replenishment c r) = GatewayError ''TREASURY_REPLENISHMENT_FAILED''
     (''Treasury replenishment failed on '' @ c @ '': '' @ r) 500 [(''chain'', JStr c), (''reason'', JStr r)]"

datatype any_error =
    Core core_error | Settling settlement_class | Routing_Error routing_class | Chain_Error chain_class | Rate_Error rate_class

fun failure_of :: "(rat \<Rightarrow> string) \<Rightarrow> any_error \<Rightarrow> failure" where
  "failure_of num (Core e) = core_failure e"
| "failure_of num (Settling e) = settlement_failure num e"
| "failure_of num (Routing_Error e) = routing_failure num e"
| "failure_of num (Chain_Error e) = chain_failure num e"
| "failure_of num (Rate_Error e) = rate_failure num e"

section \<open>What the client sees\<close>

text \<open>The error handler of the API on an error of these classes: the details are left out.\<close>

definition send_failure :: "failure \<Rightarrow> api_response" where
  "send_failure f = reply_error (if gf_status f = 0 then 500 else gf_status f)
     (text_or (Some (gf_code f)) ''INTERNAL_ERROR'') (text_or (Some (gf_message f)) ''An unexpected error occurred'') []"

text \<open>The documented pairs of code and status.\<close>

definition code_table :: "(string \<times> nat) list" where
  "code_table =
     [(''INTENT_NOT_FOUND'', 404), (''INVALID_TRANSITION'', 400), (''QUOTE_EXPIRED'', 400), (''MERCHANT_NOT_FOUND'', 404),
      (''VALIDATION_ERROR'', 400), (''UNSUPPORTED_CHAIN'', 400), (''TRANSACTION_FAILED'', 500), (''NO_VALID_QUOTES'', 400),
      (''PROVIDER_UNAVAILABLE'', 503), (''SETTLEMENT_FAILED'', 500), (''INSUFFICIENT_BALANCE'', 500),
      (''SANCTIONED_ADDRESS'', 403), (''COMPLIANCE_CHECK_FAILED'', 403), (''SCREENING_UNAVAILABLE'', 503),
      (''SETTLEMENT_NOT_FOUND'', 404), (''SETTLEMENT_ALREADY_COMPLETED'', 409), (''LEDGER_INCONSISTENCY'', 500),
      (''SETTLEMENT_AMOUNT_MISMATCH'', 400), (''HOT_WALLET_INSUFFICIENT_BALANCE'', 500), (''ROUTE_NOT_FOUND'', 404),
      (''ROUTE_EXPIRED'', 400), (''ROUTE_EXECUTION_TIMEOUT'', 408), (''SLIPPAGE_EXCEEDED'', 400),
      (''INSUFFICIENT_LIQUIDITY'', 400), (''INVALID_ADDRESS'', 400), (''INSUFFICIENT_GAS'', 500), (''RPC_ERROR'', 502),
      (''REORG_DETECTED'', 500), (''TRANSACTION_REVERTED'', 500), (''BALANCE_QUERY_FAILED'', 502),
      (''DEPOSIT_WATCHER_ERROR'', 500), (''PRICE_ORACLE_ERROR'', 502), (''PRICE_STALE'', 503),
      (''PRICE_LOW_CONFIDENCE'', 503), (''RATE_LOCK_EXPIRED'', 400), (''RATE_LOCK_NOT_FOUND'', 404),
      (''RATE_LOCK_ALREADY_CONSUMED'', 409), (''SPREAD_EXCEEDED'', 400), (''RISK_SCORING_ERROR'', 500),
      (''SANCTIONS_CHECK_ERROR'', 503), (''ADDRESS_BLOCKED'', 403), (''COMPLIANCE_GATE_BLOCKED'', 403),
      (''TREASURY_INSUFFICIENT'', 500), (''TREASURY_REPLENISHMENT_FAILED'', 500)]"

lemma codes_distinct: "distinct (map fst code_table)"
  by (simp add: code_table_def)

lemma code_of_class: "(gf_code (failure_of num e), gf_status (failure_of num e)) \<in> set code_table"
proof (cases e)
  case (Core c)
  then show ?thesis by (cases c) (simp_all add: GatewayError_def code_table_def)
next
  case (Settling c)
  then show ?thesis by (cases c) (simp_all add: GatewayError_def code_table_def)
next
  case (Routing_Error c)
  then show ?thesis by (cases c) (simp_all add: GatewayError_def code_table_def)
next
  case (Chain_Error c)
  then show ?thesis by (cases c) (simp_all add: GatewayError_def code_table_def)
next
  case (Rate_Error c)
  then show ?thesis by (cases c) (simp_all add: GatewayError_def code_table_def)
qed

text \<open>The errors of the services and of the chain clients are those of the classes.\<close>

lemma service_errors_catalogued:
  "error_info x (gateway_error.ValidationError msg) = (let f = failure_of num (Core (Validation msg d)) in (gf_status f, gf_code f, gf_message f))"
  "error_info x (gateway_error.IntentNotFoundError i) = (let f = failure_of num (Core (Intent_Not_Found i)) in (gf_status f, gf_code f, gf_message f))"
  "error_info x (gateway_error.QuoteExpiredError i) = (let f = failure_of num (Core (Quote_Expired i)) in (gf_status f, gf_code f, gf_message f))"
  by (simp_all add: GatewayError_def)

lemma chain_errors_catalogued:
  "InvalidAddressError a c = gateway_failure (gf_message (failure_of num (Chain_Error (Invalid_Address a c))))"
  "RpcError c (num code) msg = gateway_failure (gf_message (failure_of num (Chain_Error (Rpc c code msg dat))))"
  "TransactionRevertedError h c r = gateway_failure (gf_message (failure_of num (Chain_Error (Transaction_Reverted h c (Some r)))))"
  "BalanceQueryError a c r = gateway_failure (gf_message (failure_of num (Chain_Error (Balance_Query a c (Some r)))))"
  by (simp_all add: GatewayError_def text_or_def with_reason_def InvalidAddressError_def RpcError_def TransactionRevertedError_def BalanceQueryError_def)

text \<open>Every error of the classes has the status its code stands for in the table of codes, in the range
  of client and server errors, and reaches the client with this code and status; the answer has
  no details, whatever the class attaches.
\<close>

theorem errors_keep_code_and_status:
  "map_of code_table (gf_code (failure_of num e)) = Some (gf_status (failure_of num e))
   \<and> 400 \<le> gf_status (failure_of num e) \<and> gf_status (failure_of num e) < 600
   \<and> send_failure (failure_of num e)
       = \<lparr> ap_status = gf_status (failure_of num e),
           ap_body = JsonBody (JObj [(''error'', JObj [(''code'', JStr (gf_code (failure_of num e))),
             (''message'', JStr (text_or (Some (gf_message (failure_of num e))) ''An unexpected error occurred''))])]) \<rparr>"
proof -
  let ?f = "failure_of num e"
  have mem: "(gf_code ?f, gf_status ?f) \<in> set code_table" by (rule code_of_class)
  have "\<forall>(c, st) \<in> set code_table. c \<noteq> [] \<and> 400 \<le> st \<and> st < 600" by (simp add: code_table_def)
  with mem have "gf_code ?f \<noteq> []" "400 \<le> gf_status ?f" "gf_status ?f < 600" by auto
  moreover have "map_of code_table (gf_code ?f) = Some (gf_status ?f)"
    using mem codes_distinct by (simp add: map_of_is_SomeI)
  ultimately show ?thesis by (simp add: send_failure_def reply_error_def reply_def text_or_def)
qed

end
