(* ===== verification/Checkout_Page.thy ===== *)
theory Checkout_Page
  imports Api_Properties
begin

text \<open>
  The customer's side of the dashboard: the payment page (\<open>dashboard/src/app/pay/[intentId]/page.tsx\<close>), its
  polling and what it shows in each state, and the demonstration page (\<open>dashboard/src/app/pay/demo/page.tsx\<close>) as a
  step relation.  A page is its React state with one step for each callback; what is rendered is a
  function of the state, without class names, icons and the locale's texts of numbers and dates.
\<close>

section \<open>What the page is given\<close>

record detail_event =
  de_type :: string
  de_payload :: payload
  de_created_at :: json

record intent_detail =
  dt_order_ref :: string
  dt_state :: string
  dt_target_amount :: rat
  dt_target_asset :: string
  dt_quoted_rate :: "rat option"
  dt_expires_at :: "int option"
  dt_events :: "detail_event list"

definition json_get :: "string \<Rightarrow> payload \<Rightarrow> json" where
  "json_get k fs = (case map_of fs k of None \<Rightarrow> JNull | Some v \<Rightarrow> v)"

definition as_text :: "json \<Rightarrow> string option" where
  "as_text v = (case v of JStr s \<Rightarrow> Some s | _ \<Rightarrow> None)"

definition as_number :: "json \<Rightarrow> rat option" where
  "as_number v = (case v of JNum x \<Rightarrow> Some x | _ \<Rightarrow> None)"

definition as_time :: "json \<Rightarrow> int option" where
  "as_time v = (case v of JTime t \<Rightarrow> Some t | _ \<Rightarrow> None)"

definition as_object :: "json \<Rightarrow> payload" where
  "as_object v = (case v of JObj fs \<Rightarrow> fs | _ \<Rightarrow> [])"

definition as_list :: "json \<Rightarrow> json list" where
  "as_list v = (case v of JArr xs \<Rightarrow> xs | _ \<Rightarrow> [])"

definition some_text :: "json \<Rightarrow> string" where
  "some_text v = (case as_text v of None \<Rightarrow> [] | Some s \<Rightarrow> s)"

definition event_of :: "json \<Rightarrow> detail_event" where
  "event_of v = (let fs = as_object v in
     \<lparr> de_type = some_text (json_get ''event_type'' fs), de_payload = as_object (json_get ''payload'' fs),
       de_created_at = json_get ''created_at'' fs \<rparr>)"

text \<open>The fields of the answer the page reads.\<close>

definition detail_of :: "payload \<Rightarrow> intent_detail" where
  "detail_of fs = \<lparr>
     dt_order_ref = some_text (json_get ''order_ref'' fs), dt_state = some_text (json_get ''state'' fs),
     dt_target_amount = (case as_number (json_get ''target_amount'' fs) of None \<Rightarrow> 0 | Some x \<Rightarrow> x),
     dt_target_asset = some_text (json_get ''target_asset'' fs),
     dt_quoted_rate = as_number (json_get ''quoted_rate'' fs), dt_expires_at = as_time (json_get ''quote_expires_at'' fs),
     dt_events = map event_of (as_list (json_get ''events'' fs)) \<rparr>"

section \<open>The payment page\<close>

record pay_page =
  pp_intent :: "intent_detail option"
  pp_error :: string
  pp_loading :: bool
  pp_copied :: bool

definition pay_start :: pay_page where
  "pay_start = \<lparr> pp_intent = None, pp_error = [], pp_loading = True, pp_copied = False \<rparr>"

text \<open>\<open>fetchIntent\<close>, by what \<open>fetch\<close> gives: an exception, or an answer.  No header is sent.\<close>

definition fetchIntent :: "js_error + api_response \<Rightarrow> pay_page \<Rightarrow> pay_page" where
  "fetchIntent res s =
     (let s = (case res of
          Inl e \<Rightarrow> s\<lparr> pp_error := message_of e ''Failed to load payment'' \<rparr>
        | Inr a \<Rightarrow>
            if \<not> (200 \<le> ap_status a \<and> ap_status a < 300) then s\<lparr> pp_error := ''Payment not found'' \<rparr>
            else (case ap_body a of
                JsonBody v \<Rightarrow> s\<lparr> pp_intent := Some (detail_of (as_object v)) \<rparr>
              | ProfileBody _ \<Rightarrow> s))
      in s\<lparr> pp_loading := False \<rparr>)"

definition copyAddress :: "pay_page \<Rightarrow> pay_page" where
  "copyAddress s = s\<lparr> pp_copied := True \<rparr>"

definition copied_timeout :: "pay_page \<Rightarrow> pay_page" where
  "copied_timeout s = s\<lparr> pp_copied := False \<rparr>"

definition STATE_MESSAGES :: "(string \<times> string) list" where
  "STATE_MESSAGES =
     [(''CREATED'', ''Preparing...''), (''QUOTED'', ''Awaiting Payment''), (''AWAITING_PAYMENT'', ''Awaiting Payment''),
      (''DETECTED'', ''Payment Detected''), (''CONFIRMING'', ''Confirming on-chain''), (''ROUTING'', ''Routing funds''),
      (''SETTLING'', ''Settling payment''), (''SETTLED'', ''Payment Complete!''), (''FAILED'', ''Payment Failed'')]"

definition state_label :: "string \<Rightarrow> string" where
  "state_label st = (case map_of STATE_MESSAGES st of None \<Rightarrow> st | Some l \<Rightarrow> l)"

text \<open>The number \<open>toFixed(n)\<close> prints, for a value that is not negative.\<close>

definition to_fixed :: "nat \<Rightarrow> rat \<Rightarrow> rat" where
  "to_fixed n x = of_int \<lfloor>x * 10 ^ n + 1 / 2\<rfloor> / 10 ^ n"

definition quote_payload :: "intent_detail \<Rightarrow> payload option" where
  "quote_payload d = map_option de_payload (tbl_find (\<lambda>e. de_type e = ''QUOTE_GENERATED'') (dt_events d))"

definition quote_text :: "string \<Rightarrow> intent_detail \<Rightarrow> string option" where
  "quote_text k d = (case quote_payload d of None \<Rightarrow> None | Some fs \<Rightarrow> as_text (json_get k fs))"

definition expectedCrypto :: "intent_detail \<Rightarrow> rat option" where
  "expectedCrypto d = (case truthy_num (dt_quoted_rate d) of
     None \<Rightarrow> None | Some r \<Rightarrow> Some (to_fixed 6 (dt_target_amount d / r)))"

definition pay_steps :: "string list" where
  "pay_steps = [''CREATED'', ''QUOTED'', ''AWAITING_PAYMENT'', ''DETECTED'', ''CONFIRMING'', ''ROUTING'', ''SETTLING'', ''SETTLED'']"

text \<open>\<open>indexOf\<close>: -1 when it is not there.\<close>

definition index_of :: "'a \<Rightarrow> 'a list \<Rightarrow> int" where
  "index_of x xs = (let n = length (takeWhile (\<lambda>y. y \<noteq> x) xs) in if n < length xs then int n else -1)"

record payment_details =
  pd_send :: "rat option"
  pd_asset :: "string option"
  pd_rate :: "rat option"
  pd_address :: string
  pd_chain :: "string option"
  pd_expires :: "int option"
  pd_copied :: bool

datatype pay_banner = Received rat string | Failed_Banner

record pay_content =
  pv_title :: string
  pv_amount :: rat
  pv_asset :: string
  pv_status :: string
  pv_done :: "bool list"
  pv_details :: "payment_details option"
  pv_banner :: "pay_banner option"
  pv_history :: "(string \<times> json) list"

datatype pay_view = Loading_View | Not_Found_View string | Payment_View pay_content

text \<open>The blank for the underscore in the names of events and states.\<close>

definition spaced :: "string \<Rightarrow> string" where
  "spaced s = map (\<lambda>c. if c = CHR ''_'' then CHR '' '' else c) s"

definition pay_content_of :: "bool \<Rightarrow> intent_detail \<Rightarrow> pay_content" where
  "pay_content_of copied d = \<lparr>
     pv_title = dt_order_ref d, pv_amount = dt_target_amount d, pv_asset = dt_target_asset d,
     pv_status = state_label (dt_state d),
     pv_done = map (\<lambda>i. int i \<le> index_of (dt_state d) pay_steps) [0..<length pay_steps],
     pv_details = (case truthy_str (quote_text ''deposit_address'' d) of
        None \<Rightarrow> None
      | Some addr \<Rightarrow>
          if dt_state d = ''QUOTED'' \<or> dt_state d = ''AWAITING_PAYMENT''
          then Some \<lparr> pd_send = expectedCrypto d, pd_asset = quote_text ''deposit_asset'' d,
                 pd_rate = truthy_num (dt_quoted_rate d), pd_address = addr, pd_chain = quote_text ''deposit_chain'' d,
                 pd_expires = dt_expires_at d, pd_copied = copied \<rparr>
          else None),
     pv_banner = (if dt_state d = ''SETTLED'' then Some (Received (dt_target_amount d) (dt_target_asset d))
        else if dt_state d = ''FAILED'' then Some Failed_Banner else None),
     pv_history = map (\<lambda>e. (spaced (de_type e), de_created_at e)) (dt_events d) \<rparr>"

definition pay_view_of :: "pay_page \<Rightarrow> pay_view" where
  "pay_view_of s =
     (if pp_loading s then Loading_View
      else case (truthy_str (Some (pp_error s)), pp_intent s) of
             (None, Some d) \<Rightarrow> Payment_View (pay_content_of (pp_copied s) d)
           | (Some e, _) \<Rightarrow> Not_Found_View e
           | (None, None) \<Rightarrow> Not_Found_View ''This payment link is invalid.'')"

text \<open>The poll of a page opened for an intent: the request the API gets carries no credential.\<close>

definition no_headers :: headers where
  "no_headers = \<lparr> hd_api_key = None, hd_authorization = None \<rparr>"

definition pay_poll :: "api_env \<Rightarrow> string \<Rightarrow> gateway \<Rightarrow> pay_page \<Rightarrow> gateway \<times> pay_page" where
  "pay_poll x i g s = (case handle x (GetIntent no_headers i) g of (g, a) \<Rightarrow> (g, fetchIntent (Inr a) s))"

text \<open>
  The life of an opened page: polls that reach the gateway, whatever it holds and however it is set up at that
  time, polls whose \<open>fetch\<close> throws, and the copy button, which the page has while it shows a payment.
\<close>

datatype pay_event = Polled api_env gateway | Poll_Failed js_error | Copied string | Copied_Timeout

fun pay_step :: "string \<Rightarrow> pay_event \<Rightarrow> pay_page \<Rightarrow> pay_page" where
  "pay_step i (Polled x g) s = snd (pay_poll x i g s)"
| "pay_step i (Poll_Failed e) s = fetchIntent (Inl e) s"
| "pay_step i (Copied addr) s = copyAddress s"
| "pay_step i Copied_Timeout s = copied_timeout s"

fun poll_message :: "pay_event \<Rightarrow> string option" where
  "poll_message (Polled x g) = Some ''Payment not found''"
| "poll_message (Poll_Failed e) = Some (message_of e ''Failed to load payment'')"
| "poll_message _ = None"

lemma pay_poll_refused:
  "pay_poll x i g s = (g, s\<lparr> pp_error := ''Payment not found'', pp_loading := False \<rparr>)"
  by (simp add: pay_poll_def authMiddleware_def authenticate_def no_headers_def unauthorized_def reply_error_def reply_def
      fetchIntent_def Let_def)

lemma pay_run:
  "pp_intent (fold (pay_step i) es pay_start) = None
   \<and> (let ms = List.map_filter poll_message es in
        pp_loading (fold (pay_step i) es pay_start) = (ms = [])
        \<and> pp_error (fold (pay_step i) es pay_start) = (if ms = [] then [] else last ms))"
proof (induction es rule: rev_induct)
  case (snoc e es)
  then show ?case
    by (cases e) (auto simp: Let_def map_filter_simps List.map_filter_def pay_poll_refused fetchIntent_def copyAddress_def copied_timeout_def)
qed (simp add: pay_start_def map_filter_simps Let_def)

text \<open>C25: the payment page never shows a payment.  Its polls send no credential to a route that asks for one, so
  whatever the gateway holds at each of them, and however polls, failed fetches and presses follow each
  other, the page says that it loads until a first poll has ended, and from then on that the payment was not found,
  with the message of the latest poll; the gateway is not changed.\<close>

theorem public_pay_page_never_shows:
  "pay_view_of (fold (pay_step i) es pay_start) = (case rev (List.map_filter poll_message es) of
       [] \<Rightarrow> Loading_View
     | m # _ \<Rightarrow> Not_Found_View (if m = [] then ''This payment link is invalid.'' else m))
   \<and> fst (pay_poll x i g s) = g"
  using pay_run [of i es]
  by (cases "List.map_filter poll_message es" rule: rev_cases)
     (auto simp: Let_def pay_view_of_def truthy_str_def pay_poll_refused split: option.splits)

text \<open>The error is never cleared: one failed poll hides the payment for good.\<close>

lemma fetchIntent_error_kept: "pp_error s \<noteq> [] \<Longrightarrow> pp_error (fetchIntent (Inr a) s) \<noteq> [] \<and> \<not> pp_loading (fetchIntent (Inr a) s)"
  by (auto simp: fetchIntent_def Let_def split: api_body.splits)

lemma one_failed_poll_hides_payment:
  assumes "pp_error s \<noteq> []" "\<not> pp_loading s"
  shows "\<exists>e. pay_view_of (fold (\<lambda>a. fetchIntent (Inr a)) answers s) = Not_Found_View e"
proof -
  have "pp_error (fold (\<lambda>a. fetchIntent (Inr a)) answers s) \<noteq> [] \<and> \<not> pp_loading (fold (\<lambda>a. fetchIntent (Inr a)) answers s)"
    using assms by (induction answers arbitrary: s) (simp_all add: fetchIntent_error_kept)
  then show ?thesis by (auto simp: pay_view_of_def)
qed

text \<open>What an authenticated poll would show.\<close>

lemma get_intent_answers:
  assumes "handle x (GetIntent h i) g = (g', a)" "ap_status a = 200"
  obtains m where "get_intent i m g = (g', a)"
  using assms by (auto simp: authMiddleware_def unauthorized_def reply_error_def reply_def split: option.splits)

lemma detail_of_intent:
  assumes "findById (gw_db g) i = Some p" "handle x (GetIntent h i) g = (g', \<lparr> ap_status = 200, ap_body = JsonBody (JObj fs) \<rparr>)"
  shows "dt_state (detail_of fs) = state_name (pi_state p)" "dt_target_amount (detail_of fs) = pi_target_amount p"
    "dt_quoted_rate (detail_of fs) = pi_quoted_rate p"
proof -
  obtain m where "get_intent i m g = (g', \<lparr> ap_status = 200, ap_body = JsonBody (JObj fs) \<rparr>)"
    using assms(2) by (rule get_intent_answers) simp_all
  then show "dt_state (detail_of fs) = state_name (pi_state p)" "dt_target_amount (detail_of fs) = pi_target_amount p"
    "dt_quoted_rate (detail_of fs) = pi_quoted_rate p"
    using assms(1) by (auto simp: get_intent_def getIntentWithEvents_def reply_def detail_of_def json_get_def some_text_def
        as_text_def as_number_def split: option.splits)
qed

lemma to_fixed_error: "\<bar>to_fixed n x - x\<bar> \<le> 1 / (2 * 10 ^ n)"
proof -
  have "\<bar>of_int \<lfloor>x * 10 ^ n + 1 / 2\<rfloor> - x * 10 ^ n\<bar> \<le> (1 / 2 :: rat)" by linarith
  then have "\<bar>of_int \<lfloor>x * 10 ^ n + 1 / 2\<rfloor> - x * 10 ^ n\<bar> / 10 ^ n \<le> (1 / 2) / (10 ^ n :: rat)"
    by (intro divide_right_mono) auto
  moreover have "\<bar>of_int \<lfloor>x * 10 ^ n + 1 / 2\<rfloor> - x * 10 ^ n\<bar> / (10 ^ n :: rat) = \<bar>to_fixed n x - x\<bar>"
    unfolding to_fixed_def by (simp add: field_simps abs_divide)
  ultimately show ?thesis by simp
qed

lemma asked_amount_bounds:
  assumes "1 \<le> target" "a = to_fixed 6 (target / r)"
  shows "102 / 100 \<le> r \<Longrightarrow> a < target * (99 / 100)"
    and "0 < r \<Longrightarrow> r \<le> 98 / 100 \<Longrightarrow> target * (101 / 100) < a"
    and "r = 1 \<Longrightarrow> \<not> a < target * (99 / 100) \<and> \<not> target * (101 / 100) < a"
proof -
  have "\<bar>a - target / r\<bar> \<le> 1 / 2000000" using to_fixed_error [of 6 "target / r"] assms(2) by simp
  then have err: "a \<le> target / r + 1 / 2000000" "target / r - 1 / 2000000 \<le> a" by linarith+
  show "a < target * (99 / 100)" if "102 / 100 \<le> r"
  proof -
    have "target / r \<le> target / (102 / 100)" using that assms(1) by (intro divide_left_mono) simp_all
    then have "target / r \<le> target * (50 / 51)" by simp
    then show ?thesis using err(1) assms(1) by linarith
  qed
  show "target * (101 / 100) < a" if "0 < r" "r \<le> 98 / 100"
  proof -
    have "target / (98 / 100) \<le> target / r" using that assms(1) by (intro divide_left_mono) simp_all
    then have "target * (50 / 49) \<le> target / r" by simp
    then show ?thesis using err(2) assms(1) by linarith
  qed
  show "\<not> a < target * (99 / 100) \<and> \<not> target * (101 / 100) < a" if "r = 1"
  proof -
    have "target / r = target" using that by simp
    then show ?thesis using err assms(1) by linarith
  qed
qed

text \<open>What the page asks for, by the answer an authenticated poll would get.  For an intent with a target amount
  of at least 1 on a live quote at the rate r it asks for the target divided by r; a deposit of
  exactly this amount is recognised at the rate 1, and refused with nothing written, as an under- or an
  overpayment, at every rate that is 2% away from 1.\<close>

theorem paying_as_asked_needs_rate_one:
  assumes "gw_ok g" "findById (gw_db g) i = Some p" "pi_state p = AWAITING_PAYMENT"
    and "\<not> quote_expired (e_now (w_env w)) p"
    and "e_uuid (w_env w) (db_ids (gw_db g)) \<notin> ev_id ` set (db_events (gw_db g))"
    and "pi_quoted_rate p = Some r" "0 < r" "1 \<le> pi_target_amount p"
    and "handle x (GetIntent h i) g = (g', \<lparr> ap_status = 200, ap_body = JsonBody (JObj fs) \<rparr>)"
  shows "\<exists>a. expectedCrypto (detail_of fs) = Some a
    \<and> (if 102 / 100 \<le> r then detectDeposit w i tx a sc sa g = (g, Inl (InvalidStateTransition AWAITING_PAYMENT UNDERPAID))
       else if r \<le> 98 / 100 then detectDeposit w i tx a sc sa g = (g, Inl (InvalidStateTransition AWAITING_PAYMENT OVERPAID))
       else r = 1 \<longrightarrow> (\<exists>q. findById (gw_db (fst (detectDeposit w i tx a sc sa g))) i = Some q \<and> pi_state q = DETECTED))"
proof -
  let ?a = "to_fixed 6 (pi_target_amount p / r)"
  have a: "expectedCrypto (detail_of fs) = Some ?a"
    using detail_of_intent [OF assms(2,9)] assms(6,7) by (simp add: expectedCrypto_def truthy_num_def)
  note bounds = asked_amount_bounds [OF assms(8) refl, of r] and result = detect_cases [OF assms(1-5), of ?a tx sc sa]
  consider "102 / 100 \<le> r" | "\<not> 102 / 100 \<le> r" "r \<le> 98 / 100" | "\<not> 102 / 100 \<le> r" "\<not> r \<le> 98 / 100" by blast
  then show ?thesis
  proof cases
    case 1
    then show ?thesis using a result bounds(1) by (intro exI [of _ ?a]) simp
  next
    case 2
    have "\<not> ?a < pi_target_amount p * (99 / 100)" using bounds(2) 2 assms(7,8) by linarith
    then show ?thesis using 2 a result bounds(2) assms(7) by (intro exI [of _ ?a]) simp
  next
    case 3
    then show ?thesis using a result bounds(3) by (intro exI [of _ ?a]) auto
  qed
qed

theorem paying_as_asked_needs_rate_one_witness:
  "\<exists>a. detectDeposit (ex_env 2) (ex_uuid 0) ''tx'' a ''1'' ''ETH''
      (fold service_step [S_createIntent (ex_env 0) ex_new, S_generateQuote (ex_env 1) (ex_uuid 0) 3500 ''0xdep'' ''ETH'' ''1'',
         S_awaitPayment (ex_env 1) (ex_uuid 0)] (empty_gateway [ex_merchant]))
    = (fold service_step [S_createIntent (ex_env 0) ex_new, S_generateQuote (ex_env 1) (ex_uuid 0) 3500 ''0xdep'' ''ETH'' ''1'',
         S_awaitPayment (ex_env 1) (ex_uuid 0)] (empty_gateway [ex_merchant]),
       Inl (InvalidStateTransition AWAITING_PAYMENT UNDERPAID))"
proof -
  let ?ops = "[S_createIntent (ex_env 0) ex_new, S_generateQuote (ex_env 1) (ex_uuid 0) 3500 ''0xdep'' ''ETH'' ''1'',
         S_awaitPayment (ex_env 1) (ex_uuid 0)]"
  let ?g = "fold service_step ?ops (empty_gateway [ex_merchant])"
  let ?h = "\<lparr> hd_api_key = None, hd_authorization = Some (''Bearer '' @ generateToken (ex_auth 0) ''m'') \<rparr>"
  have "(case findById (gw_db ?g) (ex_uuid 0) of None \<Rightarrow> False
     | Some p \<Rightarrow> pi_state p = AWAITING_PAYMENT \<and> \<not> quote_expired (e_now (w_env (ex_env 2))) p
         \<and> e_uuid (w_env (ex_env 2)) (db_ids (gw_db ?g)) \<notin> ev_id ` set (db_events (gw_db ?g))
         \<and> pi_quoted_rate p = Some 3500 \<and> 1 \<le> pi_target_amount p) \<and> map m_id (db_merchants (gw_db ?g)) = [''m'']"
    by code_simp
  then obtain p m where p: "findById (gw_db ?g) (ex_uuid 0) = Some p" "pi_state p = AWAITING_PAYMENT"
      "\<not> quote_expired (e_now (w_env (ex_env 2))) p"
      "e_uuid (w_env (ex_env 2)) (db_ids (gw_db ?g)) \<notin> ev_id ` set (db_events (gw_db ?g))"
      "pi_quoted_rate p = Some 3500" "1 \<le> pi_target_amount p"
    and m: "db_merchants (gw_db ?g) = [m]" "m_id m = ''m''"
    by (auto simp: map_eq_Cons_conv split: option.splits)
  have now: "now_seconds (ax_auth (ex_api 2)) \<le> now_seconds (ex_auth 0) + 86400" by (simp add: now_seconds_def ex_auth_def ex_api_def)
  have "authenticate (ax_auth (ex_api 2)) ?h (db_merchants (gw_db ?g)) = Some m"
    using m now validateToken_generateToken [of "ax_auth (ex_api 2)" "ex_auth 0" "''m''"]
    by (simp add: authenticate_def js_starts_with_def)
  then obtain fs where "handle (ex_api 2) (GetIntent ?h (ex_uuid 0)) ?g = (?g, \<lparr> ap_status = 200, ap_body = JsonBody (JObj fs) \<rparr>)"
    using p(1) by (simp add: authMiddleware_def get_intent_def getIntentWithEvents_def reply_def)
  from paying_as_asked_needs_rate_one [OF run_ok p(1-5) _ p(6) this, of "''tx''" "''1''" "''ETH''"]
  show ?thesis by auto
qed

section \<open>The demonstration page\<close>

datatype demo_state = Select | Quoting | Waiting | Detected_Step | Confirming_Step | Settled_Step

record demo_page =
  dm_step :: demo_state
  dm_crypto :: string
  dm_chain :: string
  dm_elapsed :: nat
  dm_timer :: bool

definition CRYPTO_OPTIONS :: "(string \<times> string list) list" where
  "CRYPTO_OPTIONS =
     [(''ETH'', [''Ethereum'', ''Base'', ''Arbitrum'']), (''USDC'', [''Ethereum'', ''Base'', ''Arbitrum'', ''Polygon'']),
      (''USDT'', [''Ethereum'', ''Tron'', ''Polygon''])]"

definition MOCK_ADDRESSES :: "(string \<times> string) list" where
  "MOCK_ADDRESSES =
     [(''ETH'', ''0xAb5801a7D398351b8bE11C439e05C5B3259aeC9B''), (''USDC'', ''0x28C6c06298d514Db089934071355E5743bf21d60''),
      (''USDT'', ''0x8894E0a0c962CB723c1ef8a1B676f13F84c0518b'')]"

definition MOCK_RATES :: "(string \<times> rat) list" where
  "MOCK_RATES = [(''ETH'', 3500), (''USDC'', 1), (''USDT'', 1)]"

definition demo_rate :: "string \<Rightarrow> rat" where
  "demo_rate c = (case map_of MOCK_RATES c of None \<Rightarrow> 1 | Some r \<Rightarrow> if r = 0 then 1 else r)"

text \<open>The amount of the demonstration is 250; both texts are \<open>toFixed\<close>.\<close>

definition cryptoAmount :: "string \<Rightarrow> rat" where
  "cryptoAmount c = (if c = ''ETH'' then to_fixed 6 (250 / demo_rate c) else to_fixed 2 250)"

definition demo_address :: "string \<Rightarrow> string" where
  "demo_address c = (case map_of MOCK_ADDRESSES c of None \<Rightarrow> zero_address | Some a \<Rightarrow> a)"

definition demo_start :: demo_page where
  "demo_start = \<lparr> dm_step = Select, dm_crypto = [], dm_chain = [], dm_elapsed = 0, dm_timer = False \<rparr>"

definition handleSelectCrypto :: "string \<Rightarrow> demo_page \<Rightarrow> demo_page" where
  "handleSelectCrypto c s = s\<lparr> dm_crypto := c,
     dm_chain := (case map_of CRYPTO_OPTIONS c of None \<Rightarrow> [] | Some [] \<Rightarrow> [] | Some (n # _) \<Rightarrow> n) \<rparr>"

definition handleGetQuote :: "demo_page \<Rightarrow> demo_page" where
  "handleGetQuote s = s\<lparr> dm_step := Quoting, dm_elapsed := 0, dm_timer := True \<rparr>"

definition demo_reset :: "demo_page \<Rightarrow> demo_page" where
  "demo_reset s = s\<lparr> dm_step := Select, dm_crypto := [], dm_chain := [], dm_elapsed := 0 \<rparr>"

text \<open>The effect that runs after every render in which the step or the seconds changed.\<close>

definition auto_progress :: "demo_page \<Rightarrow> demo_page" where
  "auto_progress s =
     (if dm_step s = Waiting \<and> 8 \<le> dm_elapsed s then s\<lparr> dm_step := Detected_Step, dm_elapsed := 0 \<rparr>
      else if dm_step s = Detected_Step \<and> 5 \<le> dm_elapsed s then s\<lparr> dm_step := Confirming_Step, dm_elapsed := 0 \<rparr>
      else if dm_step s = Confirming_Step \<and> 6 \<le> dm_elapsed s then s\<lparr> dm_step := Settled_Step, dm_elapsed := 0 \<rparr>
      else s)"

definition second_passed :: "demo_page \<Rightarrow> demo_page" where
  "second_passed s = auto_progress (s\<lparr> dm_elapsed := Suc (dm_elapsed s) \<rparr>)"

text \<open>The controls that are on the page, and the timers that run, in each step.\<close>

inductive demo_step :: "demo_page \<Rightarrow> demo_page \<Rightarrow> bool" where
  choose: "dm_step s = Select \<Longrightarrow> c \<in> set (map fst CRYPTO_OPTIONS) \<Longrightarrow> demo_step s (handleSelectCrypto c s)"
| network: "dm_step s = Select \<Longrightarrow> map_of CRYPTO_OPTIONS (dm_crypto s) = Some ns \<Longrightarrow> n \<in> set ns
    \<Longrightarrow> demo_step s (s\<lparr> dm_chain := n \<rparr>)"
| ask: "dm_step s = Select \<Longrightarrow> dm_crypto s \<noteq> [] \<Longrightarrow> dm_chain s \<noteq> [] \<Longrightarrow> demo_step s (handleGetQuote s)"
| quoted: "dm_timer s \<Longrightarrow> demo_step s (auto_progress (s\<lparr> dm_step := Waiting, dm_timer := False \<rparr>))"
| tick: "dm_step s \<noteq> Select \<Longrightarrow> dm_step s \<noteq> Quoting \<Longrightarrow> demo_step s (second_passed s)"
| again: "dm_step s = Settled_Step \<Longrightarrow> demo_step s (demo_reset s)"

definition progress_index :: "demo_state \<Rightarrow> int" where
  "progress_index st = (case st of Waiting \<Rightarrow> 0 | Detected_Step \<Rightarrow> 1 | Confirming_Step \<Rightarrow> 2 | Settled_Step \<Rightarrow> 3 | _ \<Rightarrow> -1)"

text \<open>
  What every reachable page satisfies: outside the selection there is a currency of the list on one of its
  networks, the quote timer runs exactly while the quote is made, and no step outlasts its seconds.
\<close>

definition demo_ok :: "demo_page \<Rightarrow> bool" where
  "demo_ok s = ((dm_crypto s = [] \<and> dm_chain s = [] \<and> dm_step s = Select
       \<or> (\<exists>ns. map_of CRYPTO_OPTIONS (dm_crypto s) = Some ns \<and> dm_chain s \<in> set ns))
     \<and> (dm_timer s \<longleftrightarrow> dm_step s = Quoting)
     \<and> (dm_step s = Waiting \<longrightarrow> dm_elapsed s < 8) \<and> (dm_step s = Detected_Step \<longrightarrow> dm_elapsed s < 5)
     \<and> (dm_step s = Confirming_Step \<longrightarrow> dm_elapsed s < 6) \<and> (dm_step s = Quoting \<longrightarrow> dm_elapsed s = 0))"

lemma demo_step_ok: "demo_step s t \<Longrightarrow> demo_ok s \<Longrightarrow> demo_ok t"
proof (induction rule: demo_step.induct)
  case (choose s c)
  then show ?case by (auto simp: demo_ok_def handleSelectCrypto_def CRYPTO_OPTIONS_def)
next
  case (network s ns n)
  then show ?case by (auto simp: demo_ok_def)
next
  case (ask s)
  then show ?case by (auto simp: demo_ok_def handleGetQuote_def)
next
  case (quoted s)
  then show ?case by (auto simp: demo_ok_def auto_progress_def)
next
  case (tick s)
  then show ?case by (cases "dm_step s") (auto simp: demo_ok_def second_passed_def auto_progress_def)
next
  case (again s)
  then show ?case by (auto simp: demo_ok_def demo_reset_def)
qed

theorem demo_always_ok: "demo_step\<^sup>*\<^sup>* demo_start s \<Longrightarrow> demo_ok s"
  by (induction rule: rtranclp_induct) (auto simp: demo_step_ok, simp add: demo_ok_def demo_start_def)

lemma seconds_of_step:
  assumes "dm_step s = st" "dm_elapsed s + k < (case st of Waiting \<Rightarrow> 8 | Detected_Step \<Rightarrow> 5 | Confirming_Step \<Rightarrow> 6 | _ \<Rightarrow> 0)"
  shows "(second_passed ^^ k) s = s\<lparr> dm_elapsed := dm_elapsed s + k \<rparr>"
  using assms by (induction k) (auto simp: second_passed_def auto_progress_def split: demo_state.splits)

text \<open>Once the address is shown, 19 seconds lead to the end.\<close>

lemma demo_settles:
  assumes "dm_step s = Waiting" "dm_elapsed s = 0"
  shows "dm_step ((second_passed ^^ 19) s) = Settled_Step"
proof -
  have "(second_passed ^^ 19) s = (second_passed ^^ 6) ((second_passed ^^ 5) ((second_passed ^^ 8) s))"
    by (simp flip: funpow_add comp_apply [of "second_passed ^^ _"])
  then show ?thesis
    using assms by (simp add: eval_nat_numeral second_passed_def auto_progress_def)
qed

end
