(* ===== verification/Merchant_Pages.thy ===== *)
theory Merchant_Pages
  imports Checkout_Page
begin

text \<open>
  The merchant's side of the dashboard: the HTTP client (\<open>dashboard/src/lib/api.ts\<close>), the pages for
  registration, login and the merchant's account (\<open>app/register\<close>, \<open>app/login\<close>, \<open>app/dashboard\<close>) and the
  helpers of \<open>lib/utils.ts\<close> and \<open>components\<close>.  A page is its React state; a callback is a step on the
  gateway, the browser (local storage and the path) and the page.  The network may lose a request, which then
  does not reach the gateway, or its answer, when the gateway has already served it; the page sees one exception
  in both cases.
\<close>

section \<open>The browser and the client\<close>

record browser =
  br_storage :: "(string \<times> string) list"
  br_path :: string

definition getItem :: "string \<Rightarrow> browser \<Rightarrow> string option" where
  "getItem k b = map_of (br_storage b) k"

definition setItem :: "string \<Rightarrow> string \<Rightarrow> browser \<Rightarrow> browser" where
  "setItem k v b = b\<lparr> br_storage := js_map_set k v (br_storage b) \<rparr>"

definition removeItem :: "string \<Rightarrow> browser \<Rightarrow> browser" where
  "removeItem k b = b\<lparr> br_storage := js_map_delete k (br_storage b) \<rparr>"

definition push_path :: "string \<Rightarrow> browser \<Rightarrow> browser" where
  "push_path p b = b\<lparr> br_path := p \<rparr>"

lemma storage_simps [simp]:
  "getItem k (setItem k' v b) = (if k = k' then Some v else getItem k b)"
  "getItem k (removeItem k' b) = (if k = k' then None else getItem k b)"
  "getItem k (push_path p b) = getItem k b"
  by (simp_all add: getItem_def setItem_def removeItem_def push_path_def)

text \<open>The headers of a call: a token, an API key, or neither; an empty text is not sent.\<close>

definition client_headers :: "string option \<Rightarrow> string option \<Rightarrow> headers" where
  "client_headers token apiKey =
     \<lparr> hd_api_key = truthy_str apiKey, hd_authorization = map_option (\<lambda>t. ''Bearer '' @ t) (truthy_str token) \<rparr>"

definition failure_text :: "api_body \<Rightarrow> string" where
  "failure_text body = (case body of
     JsonBody v \<Rightarrow>
       (let fs = as_object v in
        text_or (as_text (json_get ''message'' (as_object (json_get ''error'' fs))))
          (text_or (as_text (json_get ''message'' fs)) ''Request failed''))
   | ProfileBody _ \<Rightarrow> ''Request failed'')"

text \<open>What becomes of a call: \<open>fetch\<close> gives the whole answer, it throws before the request has reached the gateway, or
  it (or the reading of the body) throws when the request was served.\<close>

datatype net_fate = Answered | Not_Sent js_error | Answer_Lost js_error

definition apiRequest :: "api_env \<Rightarrow> net_fate \<Rightarrow> api_request \<Rightarrow> gateway \<Rightarrow> gateway \<times> (js_error + api_body)" where
  "apiRequest x net r g =
     (case net of
        Not_Sent e \<Rightarrow> (g, Inl e)
      | Answer_Lost e \<Rightarrow> (fst (handle x r g), Inl e)
      | Answered \<Rightarrow>
          (case handle x r g of (g, a) \<Rightarrow>
             (g, if 200 \<le> ap_status a \<and> ap_status a < 300 then Inr (ap_body a)
                 else Inl (plain_error (failure_text (ap_body a))))))"

definition authApi_register :: "register_request \<Rightarrow> api_request" where "authApi_register b = Register b"

definition authApi_login :: "string \<Rightarrow> string \<Rightarrow> api_request" where
  "authApi_login email password = Login \<lparr> lr_email = email, lr_password = password \<rparr>"

definition authApi_getProfile :: "string \<Rightarrow> api_request" where
  "authApi_getProfile token = Profile (client_headers (Some token) None)"

definition authApi_regenerateKey :: "string \<Rightarrow> api_request" where
  "authApi_regenerateKey key = RegenerateKey (client_headers None (Some key))"

definition intentsApi_list :: "string \<Rightarrow> nat \<Rightarrow> nat \<Rightarrow> api_request" where
  "intentsApi_list token limit off = ListIntents (client_headers (Some token) None)
     \<lparr> lq_merchant_id = None, lq_limit = Some (nat_text limit), lq_offset = Some (nat_text off) \<rparr>"

definition intentsApi_getById :: "string \<Rightarrow> string \<Rightarrow> api_request" where
  "intentsApi_getById i token = GetIntent (client_headers (Some token) None) i"

definition intentsApi_create :: "intent_body \<Rightarrow> string \<Rightarrow> api_request" where
  "intentsApi_create b token = PostIntent (client_headers (Some token) None) b"

definition intentsApi_generateQuote :: "string \<Rightarrow> quote_body \<Rightarrow> string \<Rightarrow> api_request" where
  "intentsApi_generateQuote i b token = PostQuote (client_headers (Some token) None) i b"

text \<open>The text field of the \<open>data\<close> object of an answer.\<close>

definition data_text :: "string \<Rightarrow> api_body \<Rightarrow> string option" where
  "data_text k body = (case body of
     JsonBody v \<Rightarrow> as_text (json_get k (as_object (json_get ''data'' (as_object v)))) | ProfileBody _ \<Rightarrow> None)"

section \<open>Registration\<close>

record register_form =
  rf_name :: string
  rf_email :: string
  rf_password :: string
  rf_asset :: string
  rf_chain :: string
  rf_address :: string
  rf_webhook :: string
  rf_chains :: "string list"
  rf_assets :: "string list"

definition empty_form :: register_form where
  "empty_form = \<lparr> rf_name = [], rf_email = [], rf_password = [], rf_asset = ''USDC'', rf_chain = ''8453'',
     rf_address = [], rf_webhook = [], rf_chains = [''1'', ''8453''], rf_assets = [''USDC'', ''USDT'', ''ETH''] \<rparr>"

definition form_request :: "register_form \<Rightarrow> register_request" where
  "form_request f = \<lparr> sg_name = rf_name f, sg_email = rf_email f, sg_password = rf_password f, sg_asset = Some (rf_asset f),
     sg_chain = Some (rf_chain f), sg_address = Some (rf_address f), sg_chains = Some (rf_chains f),
     sg_assets = Some (rf_assets f), sg_webhook = Some (rf_webhook f) \<rparr>"

record new_account =
  na_api_key :: string
  na_token :: string
  na_merchant_id :: string

record register_page =
  rp_form :: register_form
  rp_loading :: bool
  rp_error :: string
  rp_success :: "new_account option"

definition toggle :: "'a \<Rightarrow> 'a list \<Rightarrow> 'a list" where
  "toggle v xs = (if v \<in> set xs then filter (\<lambda>y. y \<noteq> v) xs else xs @ [v])"

definition toggleChain :: "string \<Rightarrow> register_page \<Rightarrow> register_page" where
  "toggleChain c s = s\<lparr> rp_form := (rp_form s)\<lparr> rf_chains := toggle c (rf_chains (rp_form s)) \<rparr> \<rparr>"

definition toggleAsset :: "string \<Rightarrow> register_page \<Rightarrow> register_page" where
  "toggleAsset a s = s\<lparr> rp_form := (rp_form s)\<lparr> rf_assets := toggle a (rf_assets (rp_form s)) \<rparr> \<rparr>"

definition register_submit :: "api_env \<Rightarrow> net_fate \<Rightarrow> gateway \<times> register_page \<Rightarrow> gateway \<times> register_page" where
  "register_submit x net st =
     (case st of (g, s) \<Rightarrow>
      (case apiRequest x net (authApi_register (form_request (rp_form s))) g of
         (g, Inr body) \<Rightarrow> (g, s\<lparr> rp_error := [], rp_loading := False,
            rp_success := Some \<lparr> na_api_key = text_or (data_text ''api_key'' body) [],
              na_token = text_or (data_text ''token'' body) [], na_merchant_id = text_or (data_text ''merchant_id'' body) [] \<rparr> \<rparr>)
       | (g, Inl e) \<Rightarrow> (g, s\<lparr> rp_error := message_of e ''Registration failed'', rp_loading := False \<rparr>)))"

definition go_to_dashboard :: "register_page \<Rightarrow> browser \<Rightarrow> browser" where
  "go_to_dashboard s b = (case rp_success s of
     None \<Rightarrow> b
   | Some a \<Rightarrow> push_path ''/dashboard'' (setItem ''cg_merchant_id'' (na_merchant_id a)
       (setItem ''cg_api_key'' (na_api_key a) (setItem ''cg_token'' (na_token a) b))))"

section \<open>Login\<close>

record login_page =
  lp_email :: string
  lp_password :: string
  lp_loading :: bool
  lp_error :: string

definition login_submit :: "api_env \<Rightarrow> net_fate \<Rightarrow> gateway \<times> browser \<times> login_page \<Rightarrow> gateway \<times> browser \<times> login_page" where
  "login_submit x net st =
     (case st of (g, b, s) \<Rightarrow>
      (case apiRequest x net (authApi_login (lp_email s) (lp_password s)) g of
         (g, Inr body) \<Rightarrow> (g, push_path ''/dashboard'' (setItem ''cg_merchant_id'' (text_or (data_text ''merchant_id'' body) [])
            (setItem ''cg_token'' (text_or (data_text ''token'' body) []) b)), s\<lparr> lp_error := [], lp_loading := False \<rparr>)
       | (g, Inl e) \<Rightarrow> (g, b, s\<lparr> lp_error := message_of e ''Login failed'', lp_loading := False \<rparr>)))"

section \<open>The merchant's account\<close>

record account_page =
  ac_profile :: "merchant option"
  ac_intents :: "payload list"
  ac_key :: string
  ac_loading :: bool
  ac_copied :: bool
  ac_regenerating :: bool
  ac_error :: string

definition account_start :: account_page where
  "account_start = \<lparr> ac_profile = None, ac_intents = [], ac_key = [], ac_loading = True, ac_copied = False, ac_regenerating = False, ac_error = [] \<rparr>"

definition listed_intents :: "api_body \<Rightarrow> payload list" where
  "listed_intents body = (case body of JsonBody v \<Rightarrow> map as_object (as_list (json_get ''intents'' (as_object v))) | ProfileBody _ \<Rightarrow> [])"

text \<open>Both requests are sent; without a token the page goes on loading while the browser is sent to the login.\<close>

definition loadData ::
    "api_env \<Rightarrow> net_fate \<Rightarrow> net_fate \<Rightarrow> gateway \<times> browser \<times> account_page \<Rightarrow> gateway \<times> browser \<times> account_page" where
  "loadData x net1 net2 st =
     (case st of (g, b, s) \<Rightarrow>
      (case truthy_str (getItem ''cg_token'' b) of
         None \<Rightarrow> (g, push_path ''/login'' b, s)
       | Some token \<Rightarrow>
           (case apiRequest x net1 (authApi_getProfile token) g of (g, r1) \<Rightarrow>
            case apiRequest x net2 (intentsApi_list token 20 0) g of (g, r2) \<Rightarrow>
              (case (r1, r2) of
                 (Inr (ProfileBody p), Inr body) \<Rightarrow>
                   (g, b, s\<lparr> ac_profile := p, ac_intents := listed_intents body,
                      ac_key := text_or (getItem ''cg_api_key'' b) [], ac_loading := False \<rparr>)
               | _ \<Rightarrow> (g, push_path ''/login'' (removeItem ''cg_token'' b),
                      s\<lparr> ac_error := ''Session expired. Please log in again.'', ac_loading := False \<rparr>)))))"

text \<open>
  The call has no body under the content type of JSON; whether the framework refuses such a
  request is a parameter.
\<close>

definition regenerateKey ::
    "bool \<Rightarrow> api_env \<Rightarrow> net_fate \<Rightarrow> gateway \<times> browser \<times> account_page \<Rightarrow> gateway \<times> browser \<times> account_page" where
  "regenerateKey refuses_empty x net st =
     (case st of (g, b, s) \<Rightarrow>
      if ac_key s = [] then (g, b, s)
      else (case (if refuses_empty then (g, Inl (plain_error ''Body cannot be empty''))
                  else apiRequest x net (authApi_regenerateKey (ac_key s)) g) of
              (g, Inr body) \<Rightarrow>
                (let key = text_or (data_text ''api_key'' body) [] in
                 (g, setItem ''cg_api_key'' key b, s\<lparr> ac_key := key, ac_regenerating := False \<rparr>))
            | (g, Inl e) \<Rightarrow> (g, b, s\<lparr> ac_error := ''Failed to regenerate API key'', ac_regenerating := False \<rparr>)))"

text \<open>What goes to the clipboard, and the page; two seconds later the mark disappears.\<close>

definition copyApiKey :: "account_page \<Rightarrow> string \<times> account_page" where
  "copyApiKey s = (ac_key s, s\<lparr> ac_copied := True \<rparr>)"

definition key_copied_over :: "account_page \<Rightarrow> account_page" where
  "key_copied_over s = s\<lparr> ac_copied := False \<rparr>"

definition logout :: "browser \<Rightarrow> browser" where
  "logout b = push_path ''/login'' (removeItem ''cg_merchant_id'' (removeItem ''cg_api_key'' (removeItem ''cg_token'' b)))"

definition stateCounts :: "string list \<Rightarrow> (string \<times> nat) list" where
  "stateCounts states = fold (\<lambda>st m. js_map_set st (Suc (case map_of m st of None \<Rightarrow> 0 | Some n \<Rightarrow> n)) m) states []"

definition count_of :: "string list \<Rightarrow> string \<Rightarrow> nat" where
  "count_of states st = (case map_of (stateCounts states) st of None \<Rightarrow> 0 | Some n \<Rightarrow> n)"

text \<open>The three numbers at the top: all, settled, pending.\<close>

definition quick_stats :: "payload list \<Rightarrow> nat \<times> nat \<times> nat" where
  "quick_stats intents =
     (let states = map (\<lambda>fs. some_text (json_get ''state'' fs)) intents in
      (length intents, count_of states ''SETTLED'',
       count_of states ''CREATED'' + count_of states ''QUOTED'' + count_of states ''AWAITING_PAYMENT''))"

definition key_shown :: "account_page \<Rightarrow> string" where
  "key_shown s = (if ac_key s = [] then ''Not available - re-login to view'' else ac_key s)"

definition getStateBadge :: "string \<Rightarrow> string" where
  "getStateBadge st = (case map_of
     [(''CREATED'', ''bg-blue-100 text-blue-800''), (''QUOTED'', ''bg-purple-100 text-purple-800''),
      (''AWAITING_PAYMENT'', ''bg-amber-100 text-amber-800''), (''DETECTED'', ''bg-cyan-100 text-cyan-800''),
      (''CONFIRMING'', ''bg-blue-100 text-blue-800''), (''ROUTING'', ''bg-indigo-100 text-indigo-800''),
      (''SETTLING'', ''bg-orange-100 text-orange-800''), (''SETTLED'', ''bg-emerald-100 text-emerald-800''),
      (''FAILED'', ''bg-red-100 text-red-800'')] st of None \<Rightarrow> ''bg-gray-100 text-gray-800'' | Some c \<Rightarrow> c)"

section \<open>Helpers\<close>

definition getStatusColor :: "string \<Rightarrow> string" where
  "getStatusColor status =
     (let s = to_lower status in
      if s \<in> {''settled'', ''success'', ''resolved'', ''healthy''} then ''text-emerald-600 bg-emerald-50''
      else if s \<in> {''pending'', ''confirming'', ''awaiting'', ''degraded''} then ''text-amber-600 bg-amber-50''
      else if s \<in> {''failed'', ''error'', ''critical''} then ''text-red-600 bg-red-50''
      else if s \<in> {''expired'', ''refunding''} then ''text-orange-600 bg-orange-50''
      else ''text-slate-600 bg-slate-50'')"

text \<open>The texts of numbers, and of \<open>toFixed(1)\<close>, are parameters.\<close>

definition formatPercent :: "(rat \<Rightarrow> string) \<Rightarrow> rat \<Rightarrow> string" where
  "formatPercent fixed1 v = fixed1 v @ ''%''"

definition formatLatency :: "(rat \<Rightarrow> string) \<Rightarrow> (rat \<Rightarrow> string) \<Rightarrow> rat \<Rightarrow> string" where
  "formatLatency num fixed1 ms = (if ms < 1000 then num ms @ ''ms'' else fixed1 (ms / 1000) @ ''s'')"

datatype badge_variant = Badge_Success | Badge_Warning | Badge_Error | Badge_Default

definition STATUS_VARIANTS :: "(string \<times> badge_variant) list" where
  "STATUS_VARIANTS =
     [(''settled'', Badge_Success), (''success'', Badge_Success), (''resolved'', Badge_Success), (''healthy'', Badge_Success),
      (''pending'', Badge_Warning), (''confirming'', Badge_Warning), (''awaiting'', Badge_Warning), (''detecting'', Badge_Warning),
      (''routing'', Badge_Warning), (''settling'', Badge_Warning), (''degraded'', Badge_Warning), (''failed'', Badge_Error),
      (''error'', Badge_Error), (''critical'', Badge_Error), (''expired'', Badge_Error), (''misdirected'', Badge_Error),
      (''refunding'', Badge_Warning)]"

definition status_variant :: "string \<Rightarrow> badge_variant" where
  "status_variant status = (case map_of STATUS_VARIANTS (to_lower status) of None \<Rightarrow> Badge_Default | Some v \<Rightarrow> v)"

definition trend_text :: "(rat \<Rightarrow> string) \<Rightarrow> rat \<Rightarrow> bool \<Rightarrow> string" where
  "trend_text num v positive = (if positive then ''+'' else []) @ num v @ ''%''"

definition merchantPages :: "(string \<times> string) list" where
  "merchantPages = [(''Register'', ''/register''), (''Login'', ''/login''), (''Dashboard'', ''/dashboard''), (''Payment Demo'', ''/pay/demo'')]"

definition merchantNavigation :: "(string \<times> string) list" where
  "merchantNavigation = [(''Overview'', ''/''), (''Payment Flow'', ''/payment-flow''), (''Settlement'', ''/settlement''),
     (''Recovery'', ''/recovery''), (''Infrastructure'', ''/infrastructure''), (''Blockchain'', ''/blockchain'')]"

text \<open>The items of the sidebar with their mark for the current path.\<close>

definition sidebar_items :: "string \<Rightarrow> (string \<times> bool) list" where
  "sidebar_items path = map (\<lambda>(name, href). (name, path = href)) (merchantPages @ merchantNavigation)"

section \<open>Counting\<close>

lemma stateCounts_counts:
  "map_of (fold (\<lambda>st m. js_map_set st (Suc (case map_of m st of None \<Rightarrow> 0 | Some n \<Rightarrow> n)) m) states m) st
     = (case map_of m st of
          None \<Rightarrow> if st \<in> set states then Some (count_list states st) else None
        | Some n \<Rightarrow> Some (n + count_list states st))"
  by (induction states arbitrary: m) (auto split: option.splits simp: count_list_0_iff)

lemma count_of_is_count: "count_of states st = count_list states st"
  using stateCounts_counts [of states "[]" st] by (auto simp: count_of_def stateCounts_def count_list_0_iff)

text \<open>The first number is never below the sum of the other two.\<close>

lemma count_list_four:
  "distinct [a, b, c, d] \<Longrightarrow> count_list xs a + (count_list xs b + count_list xs c + count_list xs d) \<le> length xs"
  by (induction xs) auto

lemma quick_stats_bound: "quick_stats intents = (n, settled, waiting) \<Longrightarrow> settled + waiting \<le> n"
  using count_list_four [of "''SETTLED''" "''CREATED''" "''QUOTED''" "''AWAITING_PAYMENT''"
      "map (\<lambda>fs. some_text (json_get ''state'' fs)) intents"]
  by (auto simp: quick_stats_def Let_def count_of_is_count)

section \<open>From the registration to the account\<close>

lemma token_nonempty: "generateToken e i \<noteq> []"
proof
  assume "generateToken e i = []"
  then have "json_parse (from_base64 []) = Some (token_payload e i)" using decode_token [of e i] by simp
  moreover have "json_parse (from_base64 []) = None" by code_simp
  ultimately show False by simp
qed

lemma generateApiKey_nonempty: "generateApiKey e \<noteq> []"
  by (simp add: generateApiKey_def)

text \<open>A registration that succeeds, seen from the page.\<close>

lemma register_submitD:
  assumes "register_submit x net (g, s) = (g', s')" "rp_success s = None" "rp_success s' = Some acc"
  obtains ms r where "register_merchant (ax_auth x) (form_request (rp_form s)) (db_merchants (gw_db g)) = (ms, Inr r)"
    "g' = on_merchants ms g" "na_api_key acc = ar_api_key r" "na_token acc = ar_token r"
    "na_merchant_id acc = ar_merchant_id r"
proof -
  obtain r1 where call: "apiRequest x net (authApi_register (form_request (rp_form s))) g = (g', Inr r1)"
    and acc: "acc = \<lparr> na_api_key = text_or (data_text ''api_key'' r1) [],
              na_token = text_or (data_text ''token'' r1) [], na_merchant_id = text_or (data_text ''merchant_id'' r1) [] \<rparr>"
    using assms by (auto simp: register_submit_def split: prod.splits sum.splits)
  from call have net: "net = Answered" by (auto simp: apiRequest_def split: net_fate.splits)
  obtain ms res where reg: "register_merchant (ax_auth x) (form_request (rp_form s)) (db_merchants (gw_db g)) = (ms, res)"
    by (cases "register_merchant (ax_auth x) (form_request (rp_form s)) (db_merchants (gw_db g))")
  show ?thesis
  proof (cases res)
    case (Inl e)
    then show ?thesis
      using call reg net by (auto simp: apiRequest_def authApi_register_def auth_register_def reply_error_def reply_def Let_def
          split: if_splits)
  next
    case (Inr r)
    have same: "text_or (Some t) [] = t" for t by (simp add: text_or_def)
    have "g' = on_merchants ms g" "na_api_key acc = ar_api_key r" "na_token acc = ar_token r"
      "na_merchant_id acc = ar_merchant_id r"
      using call reg net Inr acc same
      by (auto simp: apiRequest_def authApi_register_def auth_register_def reply_def data_text_def json_get_def
          as_object_def as_text_def)
    with reg Inr show ?thesis using that by blast
  qed
qed

text \<open>What the two calls of the account page answer to a valid token.\<close>

lemma profile_answer:
  assumes "validateToken (ax_auth x) token (db_merchants (gw_db g)) = Some m" "token \<noteq> []"
  shows "apiRequest x Answered (authApi_getProfile token) g = (g, Inr (ProfileBody (getProfile (m_id m) (db_merchants (gw_db g)))))"
  using assms by (simp add: apiRequest_def authApi_getProfile_def client_headers_def auth_profile_def authenticate_def
      js_starts_with_def)

lemma list_answer:
  assumes "validateToken (ax_auth x) token (db_merchants (gw_db g)) = Some m" "token \<noteq> []" "m_id m \<noteq> []"
  shows "apiRequest x Answered (intentsApi_list token 20 0) g = (g, Inr (JsonBody (JObj
     [(''intents'', JArr (map summary_json (getMerchantIntents g (m_id m) (Some 20) (Some 0))))])))"
proof -
  have page: "page_number (Some (nat_text n)) d = Some n" for n d
    using parse_int_int_text [of "int n"] nat_text_digits(2) [of n] by (simp add: page_number_def int_text_def)
  show ?thesis
    using assms by (simp add: apiRequest_def intentsApi_list_def client_headers_def authMiddleware_def authenticate_def
        js_starts_with_def list_intents_def page text_or_def reply_def)
qed

text \<open>C37: a merchant who registers on the page and goes on to the dashboard finds the account there: the
  profile entered in the form without any secret, the API key of the registration, no error.
\<close>

theorem registration_reaches_dashboard:
  assumes "register_submit x net (g, s) = (g', s')" "rp_success s = None" "rp_success s' = Some acc"
    and "na_merchant_id acc \<noteq> []" "now_seconds (ax_auth x') \<le> now_seconds (ax_auth x) + 86400"
  shows "\<exists>p m. loadData x' Answered Answered (g', go_to_dashboard s' b, account_start) = (g', go_to_dashboard s' b, p)
    \<and> ac_profile p = Some m \<and> m_id m = na_merchant_id acc \<and> m_name m = rf_name (rp_form s)
    \<and> m_email m = Some (rf_email (rp_form s)) \<and> m_accepted_chains m = rf_chains (rp_form s)
    \<and> (m_password_hash m, m_password_salt m, m_api_key_hash m) = (None, None, None)
    \<and> ac_key p = na_api_key acc \<and> ac_error p = [] \<and> \<not> ac_loading p"
proof -
  let ?d = "form_request (rp_form s)"
  obtain ms r where reg: "register_merchant (ax_auth x) ?d (db_merchants (gw_db g)) = (ms, Inr r)"
    and g': "g' = on_merchants ms g" and acc: "na_api_key acc = ar_api_key r" "na_token acc = ar_token r"
    "na_merchant_id acc = ar_merchant_id r"
    using register_submitD [OF assms(1-3)] by blast
  note r = register_merchantD [OF reg]
  let ?m = "new_merchant (ax_auth x) ?d"
  have ms: "db_merchants (gw_db g') = ms" by (simp add: g' on_merchants_def)
  have new: "m_id ?m = na_merchant_id acc" using r acc(3) by (simp add: new_merchant_def split: prod.splits)
  have tok: "na_token acc = generateToken (ax_auth x) (na_merchant_id acc)" using r acc by simp
  have valid: "validateToken (ax_auth x') (na_token acc) (db_merchants (gw_db g')) = Some ?m"
    using find_registered(1) [OF reg] acc(3) assms(5) ms by (simp add: tok validateToken_generateToken)
  have ne: "na_token acc \<noteq> []" "na_api_key acc \<noteq> []"
    using r acc token_nonempty generateApiKey_nonempty by simp_all
  have profile: "getProfile (m_id ?m) (db_merchants (gw_db g'))
      = Some (?m\<lparr> m_password_hash := None, m_password_salt := None, m_api_key_hash := None \<rparr>)"
    using find_registered(1) [OF reg] acc(3) new ms by (simp add: getProfile_def)
  have store: "getItem ''cg_token'' (go_to_dashboard s' b) = Some (na_token acc)"
    "getItem ''cg_api_key'' (go_to_dashboard s' b) = Some (na_api_key acc)"
    using assms(3) by (simp_all add: go_to_dashboard_def)
  have "m_id ?m \<noteq> []" using new assms(4) by simp
  from profile_answer [OF valid ne(1)] list_answer [OF valid ne(1) this] show ?thesis
    using store ne profile new
    by (simp add: loadData_def account_start_def text_or_def, simp add: new_merchant_def form_request_def split: prod.splits)
qed

definition ex_register_page :: register_page where
  "ex_register_page = \<lparr> rp_form = empty_form\<lparr> rf_name := ''Shop'', rf_email := ''a@b'', rf_password := ''password'' \<rparr>,
     rp_loading = False, rp_error = [], rp_success = None \<rparr>"

theorem registration_reaches_dashboard_witness:
  "\<exists>g' s' p m. register_submit (ex_api 0) Answered (empty_gateway [], ex_register_page) = (g', s')
     \<and> loadData (ex_api 1) Answered Answered (g', go_to_dashboard s' \<lparr> br_storage = [], br_path = ''/register'' \<rparr>, account_start)
         = (g', go_to_dashboard s' \<lparr> br_storage = [], br_path = ''/register'' \<rparr>, p)
     \<and> ac_profile p = Some m \<and> m_id m = ''m2'' \<and> m_name m = ''Shop'' \<and> ac_error p = []"
proof -
  have "\<exists>ms r. register_merchant (ex_auth 0) (form_request (rp_form ex_register_page)) [] = (ms, Inr r) \<and> ar_merchant_id r = ''m2''"
    by (simp add: register_merchant_def ex_register_page_def form_request_def empty_form_def ex_auth_def insert_merchant_def
        new_merchant_def hashPassword_def fits_def fits_opt_def text_or_def tbl_insert_def hashApiKey_def generateApiKey_def Let_def)
  then obtain ms r where reg: "register_merchant (ex_auth 0) (form_request (rp_form ex_register_page)) [] = (ms, Inr r)"
    "ar_merchant_id r = ''m2''" by blast
  obtain g' s' acc where sub: "register_submit (ex_api 0) Answered (empty_gateway [], ex_register_page) = (g', s')"
    "rp_success s' = Some acc" "na_merchant_id acc = ''m2''"
    using reg by (simp add: register_submit_def apiRequest_def authApi_register_def auth_register_def reply_def
        data_text_def json_get_def as_object_def as_text_def text_or_def ex_api_def empty_gateway_def)
  have "now_seconds (ax_auth (ex_api 1)) \<le> now_seconds (ax_auth (ex_api 0)) + 86400"
    by (simp add: now_seconds_def ex_auth_def ex_api_def)
  from registration_reaches_dashboard [OF sub(1) _ sub(2) _ this] show ?thesis
    using sub by (simp add: ex_register_page_def) blast
qed

text \<open>After a login without a stored key the page has no key, and asking for a new one does nothing.\<close>

lemma login_leaves_no_key:
  assumes "login_submit x net (g, b, s) = (g1, b1, s1)" "getItem ''cg_api_key'' b = None" "ac_key p = []"
    and "loadData x' net1 net2 (g1, b1, p) = (g2, b2, p2)"
  shows "regenerateKey refuses x'' net3 (g2, b2, p2) = (g2, b2, p2)"
proof -
  have "getItem ''cg_api_key'' b1 = None"
    using assms(1,2) by (auto simp: login_submit_def split: prod.splits sum.splits)
  then have "ac_key p2 = []"
    using assms(3,4) by (auto simp: loadData_def text_or_def split: prod.splits option.splits sum.splits api_body.splits)
  then show ?thesis by (simp add: regenerateKey_def)
qed

end
