(* ===== verification/Merchant_Forms.thy ===== *)
theory Merchant_Forms
  imports Merchant_Pages
begin

text \<open>
  What the merchant sees and may do: the forms of \<open>app/register/page.tsx\<close> and \<open>app/login/page.tsx\<close> with the
  checks the browser makes before it submits them, and the account page of \<open>app/dashboard/page.tsx\<close>.
  A view is the labels, values and texts of a page without class names, icons and links.  The browser's
  syntax of emails and URLs and the locale's texts of numbers and dates are parameters.
\<close>

section \<open>Fields\<close>

datatype field_kind = Text_Field | Email_Field | Password_Field | Url_Field | Select_Field "(string \<times> string) list"

record form_field =
  ff_label :: string
  ff_kind :: field_kind
  ff_required :: bool
  ff_min_length :: nat
  ff_value :: string

text \<open>A required field must not be empty; length and syntax of an empty one are not checked.\<close>

definition field_accepts :: "(field_kind \<Rightarrow> string \<Rightarrow> bool) \<Rightarrow> form_field \<Rightarrow> bool" where
  "field_accepts syntax_ok f =
     (if ff_value f = [] then \<not> ff_required f
      else ff_min_length f \<le> length (ff_value f) \<and> syntax_ok (ff_kind f) (ff_value f))"

definition the_field :: "string \<Rightarrow> field_kind \<Rightarrow> bool \<Rightarrow> nat \<Rightarrow> string \<Rightarrow> form_field" where
  "the_field label kind required shortest v =
     \<lparr> ff_label = label, ff_kind = kind, ff_required = required, ff_min_length = shortest, ff_value = v \<rparr>"

section \<open>The form of the registration\<close>

definition CHAINS :: "(string \<times> string) list" where
  "CHAINS = [(''1'', ''Ethereum''), (''8453'', ''Base''), (''42161'', ''Arbitrum''), (''137'', ''Polygon'')]"

definition ASSETS :: "string list" where
  "ASSETS = [''USDC'', ''USDT'', ''ETH'', ''DAI'', ''WBTC'']"

definition register_fields :: "register_form \<Rightarrow> form_field list" where
  "register_fields f =
     [the_field ''Business Name *'' Text_Field True 0 (rf_name f),
      the_field ''Email *'' Email_Field True 0 (rf_email f),
      the_field ''Password *'' Password_Field True 8 (rf_password f),
      the_field ''Settlement Asset'' (Select_Field (map (\<lambda>a. (a, a)) ASSETS)) False 0 (rf_asset f),
      the_field ''Settlement Chain'' (Select_Field CHAINS) False 0 (rf_chain f),
      the_field ''Your Wallet Address *'' Text_Field True 0 (rf_address f),
      the_field ''Webhook URL'' Url_Field False 0 (rf_webhook f)]"

record register_shown =
  rv_error :: "string option"
  rv_fields :: "form_field list"
  rv_chains :: "(string \<times> bool) list"
  rv_assets :: "(string \<times> bool) list"
  rv_button :: string
  rv_disabled :: bool

text \<open>The id and the key of a new merchant, or the form.\<close>

datatype register_view = Registered string string | Registering register_shown

definition register_view_of :: "register_page \<Rightarrow> register_view" where
  "register_view_of s = (case rp_success s of
     Some a \<Rightarrow> Registered (na_merchant_id a) (na_api_key a)
   | None \<Rightarrow> Registering \<lparr>
       rv_error = truthy_str (Some (rp_error s)), rv_fields = register_fields (rp_form s),
       rv_chains = map (\<lambda>(i, name). (name, i \<in> set (rf_chains (rp_form s)))) CHAINS,
       rv_assets = map (\<lambda>a. (a, a \<in> set (rf_assets (rp_form s)))) ASSETS,
       rv_button = (if rp_loading s then ''Creating Account...'' else ''Create Merchant Account ->''),
       rv_disabled = rp_loading s \<rparr>)"

definition register_start :: register_page where
  "register_start = \<lparr> rp_form = empty_form, rp_loading = False, rp_error = [], rp_success = None \<rparr>"

text \<open>An edit of one field.\<close>

datatype register_input = In_Name | In_Email | In_Password | In_Asset | In_Chain | In_Address | In_Webhook

fun set_input :: "register_input \<Rightarrow> string \<Rightarrow> register_form \<Rightarrow> register_form" where
  "set_input In_Name v f = f\<lparr> rf_name := v \<rparr>"
| "set_input In_Email v f = f\<lparr> rf_email := v \<rparr>"
| "set_input In_Password v f = f\<lparr> rf_password := v \<rparr>"
| "set_input In_Asset v f = f\<lparr> rf_asset := v \<rparr>"
| "set_input In_Chain v f = f\<lparr> rf_chain := v \<rparr>"
| "set_input In_Address v f = f\<lparr> rf_address := v \<rparr>"
| "set_input In_Webhook v f = f\<lparr> rf_webhook := v \<rparr>"

text \<open>A select offers its options only.\<close>

fun input_offers :: "register_input \<Rightarrow> string \<Rightarrow> bool" where
  "input_offers In_Asset v = (v \<in> set ASSETS)"
| "input_offers In_Chain v = (v \<in> fst ` set CHAINS)"
| "input_offers _ v = True"

definition register_edit :: "register_input \<Rightarrow> string \<Rightarrow> register_page \<Rightarrow> register_page" where
  "register_edit i v s = s\<lparr> rp_form := set_input i v (rp_form s) \<rparr>"

text \<open>The press of the button: nothing happens unless the form is shown, is not being sent and is accepted
  by the browser; then the page is loading until the answer arrives.\<close>

definition register_press :: "(field_kind \<Rightarrow> string \<Rightarrow> bool) \<Rightarrow> register_page \<Rightarrow> register_page option" where
  "register_press syntax_ok s =
     (if rp_success s = None \<and> \<not> rp_loading s \<and> list_all (field_accepts syntax_ok) (register_fields (rp_form s))
      then Some (s\<lparr> rp_loading := True, rp_error := [] \<rparr>) else None)"

text \<open>The answer to the request that was sent with a form; the fields may have been edited meanwhile.\<close>

definition register_answer ::
    "api_env \<Rightarrow> net_fate \<Rightarrow> register_form \<Rightarrow> gateway \<times> register_page \<Rightarrow> gateway \<times> register_page" where
  "register_answer x net f st = (case st of (g, s) \<Rightarrow>
     (case register_submit x net (g, s\<lparr> rp_form := f \<rparr>) of (g', s') \<Rightarrow> (g', s'\<lparr> rp_form := rp_form s \<rparr>)))"

text \<open>
  The life of the page beside the gateway: the third part is the forms of the requests on their way.  The label of
  an event says whether it is the loss of an answer.
\<close>

definition loses_answer :: "net_fate \<Rightarrow> bool" where
  "loses_answer net = (case net of Answer_Lost _ \<Rightarrow> True | _ \<Rightarrow> False)"

inductive register_event ::
    "(field_kind \<Rightarrow> string \<Rightarrow> bool) \<Rightarrow> bool \<Rightarrow> gateway \<times> register_page \<times> register_form list
      \<Rightarrow> gateway \<times> register_page \<times> register_form list \<Rightarrow> bool"
  for syntax_ok where
  edits: "rp_success s = None \<Longrightarrow> input_offers i v \<Longrightarrow> register_event syntax_ok False (g, s, w) (g, register_edit i v s, w)"
| toggles_chain: "rp_success s = None \<Longrightarrow> c \<in> fst ` set CHAINS \<Longrightarrow> register_event syntax_ok False (g, s, w) (g, toggleChain c s, w)"
| toggles_asset: "rp_success s = None \<Longrightarrow> a \<in> set ASSETS \<Longrightarrow> register_event syntax_ok False (g, s, w) (g, toggleAsset a s, w)"
| presses: "register_press syntax_ok s = Some s' \<Longrightarrow> register_event syntax_ok False (g, s, w) (g, s', w @ [rp_form s])"
| answers: "register_answer x net f (g, s) = (g', s')
    \<Longrightarrow> register_event syntax_ok (loses_answer net) (g, s, u @ f # w) (g', s', u @ w)"

inductive_cases register_eventE: "register_event syntax_ok lost (g, s, w) c"

definition register_step ::
    "(field_kind \<Rightarrow> string \<Rightarrow> bool) \<Rightarrow> gateway \<times> register_page \<times> register_form list
      \<Rightarrow> gateway \<times> register_page \<times> register_form list \<Rightarrow> bool" where
  "register_step syntax_ok c c' = (\<exists>lost. register_event syntax_ok lost c c')"

text \<open>The runs from a gateway and a new page, with the number of answers that were lost.\<close>

inductive register_run ::
    "(field_kind \<Rightarrow> string \<Rightarrow> bool) \<Rightarrow> gateway \<Rightarrow> nat \<Rightarrow> gateway \<times> register_page \<times> register_form list \<Rightarrow> bool"
  for syntax_ok g0 where
  opened: "register_run syntax_ok g0 0 (g0, register_start, [])"
| continued: "register_run syntax_ok g0 n c \<Longrightarrow> register_event syntax_ok lost c c'
    \<Longrightarrow> register_run syntax_ok g0 (n + of_bool lost) c'"

section \<open>The form of the login\<close>

definition login_fields :: "login_page \<Rightarrow> form_field list" where
  "login_fields s = [the_field ''Email'' Email_Field True 0 (lp_email s), the_field ''Password'' Password_Field True 0 (lp_password s)]"

record login_shown =
  lv_error :: "string option"
  lv_fields :: "form_field list"
  lv_button :: string
  lv_disabled :: bool

definition login_view :: "login_page \<Rightarrow> login_shown" where
  "login_view s = \<lparr> lv_error = truthy_str (Some (lp_error s)), lv_fields = login_fields s,
     lv_button = (if lp_loading s then ''Signing in...'' else ''Sign In''), lv_disabled = lp_loading s \<rparr>"

definition login_edit_email :: "string \<Rightarrow> login_page \<Rightarrow> login_page" where
  "login_edit_email v s = s\<lparr> lp_email := v \<rparr>"

definition login_edit_password :: "string \<Rightarrow> login_page \<Rightarrow> login_page" where
  "login_edit_password v s = s\<lparr> lp_password := v \<rparr>"

definition login_click ::
    "(field_kind \<Rightarrow> string \<Rightarrow> bool) \<Rightarrow> api_env \<Rightarrow> net_fate \<Rightarrow> gateway \<times> browser \<times> login_page \<Rightarrow> gateway \<times> browser \<times> login_page" where
  "login_click syntax_ok x net st = (case st of (g, b, s) \<Rightarrow>
     (if \<not> lp_loading s \<and> list_all (field_accepts syntax_ok) (login_fields s)
      then login_submit x net (g, b, s\<lparr> lp_loading := True, lp_error := [] \<rparr>) else (g, b, s)))"

section \<open>The account\<close>

text \<open>A row of the table: order, amount, asset, the colours and the text of the state, the date.\<close>

record intent_row =
  ir_order :: string
  ir_amount :: string
  ir_asset :: string
  ir_badge :: string
  ir_state :: string
  ir_created :: string

record settlement_shown =
  ss_asset :: string
  ss_chain :: string
  ss_fee :: string
  ss_kyc :: string
  ss_address :: string
  ss_webhook :: "string option"

record account_shown =
  av_error :: "string option"
  av_welcome :: string
  av_stats :: "nat \<times> nat \<times> nat"
  av_key :: string
  av_copied :: bool
  av_spinning :: bool
  av_settlement :: "settlement_shown option"
  av_rows :: "intent_row list option"

datatype account_view = Account_Loading | Account_View account_shown

record locale_texts =
  lt_plain :: "rat \<Rightarrow> string"
  lt_number :: "rat \<Rightarrow> string"
  lt_date :: "int \<Rightarrow> string"

text \<open>The fields of a listed intent are the ones the gateway wrote; another value would be shown as nothing.\<close>

definition intent_row_of :: "locale_texts \<Rightarrow> payload \<Rightarrow> intent_row" where
  "intent_row_of l fs =
     (let st = some_text (json_get ''state'' fs) in
      \<lparr> ir_order = some_text (json_get ''order_ref'' fs),
        ir_amount = (case as_number (json_get ''target_amount'' fs) of None \<Rightarrow> [] | Some n \<Rightarrow> lt_number l n),
        ir_asset = some_text (json_get ''target_asset'' fs), ir_badge = getStateBadge st, ir_state = spaced st,
        ir_created = (case as_time (json_get ''created_at'' fs) of None \<Rightarrow> [] | Some t \<Rightarrow> lt_date l t) \<rparr>)"

definition settlement_shown_of :: "locale_texts \<Rightarrow> merchant \<Rightarrow> settlement_shown" where
  "settlement_shown_of l m =
     \<lparr> ss_asset = m_settlement_asset m, ss_chain = m_settlement_chain m, ss_fee = lt_plain l (m_fee_percentage m) @ ''%'',
       ss_kyc = ''$'' @ lt_number l (m_kyc_threshold m), ss_address = m_settlement_address m, ss_webhook = truthy_str (m_webhook_url m) \<rparr>"

definition account_view_of :: "locale_texts \<Rightarrow> account_page \<Rightarrow> account_view" where
  "account_view_of l s =
     (if ac_loading s then Account_Loading
      else Account_View \<lparr>
        av_error = truthy_str (Some (ac_error s)),
        av_welcome = ''Welcome back, '' @ text_or (map_option m_name (ac_profile s)) ''Merchant'',
        av_stats = quick_stats (ac_intents s), av_key = key_shown s, av_copied = ac_copied s, av_spinning = ac_regenerating s,
        av_settlement = map_option (settlement_shown_of l) (ac_profile s),
        av_rows = (if ac_intents s = [] then None else Some (map (intent_row_of l) (ac_intents s))) \<rparr>)"

text \<open>A click on a row puts the id of its intent on the clipboard.\<close>

definition copy_intent_id :: "payload \<Rightarrow> string" where
  "copy_intent_id fs = some_text (json_get ''intent_id'' fs)"

text \<open>The command the page shows: the first thirty characters of the token.\<close>

definition curl_token :: "string option \<Rightarrow> string" where
  "curl_token token = ''Authorization: Bearer '' @ (case token of None \<Rightarrow> ''undefined'' | Some t \<Rightarrow> take 30 t) @ ''...''"

end
