(* ===== verification/Merchant_Form_Properties.thy ===== *)
theory Merchant_Form_Properties
  imports Merchant_Forms
begin

text \<open>
  The forms against the gateway: what the browser lets through is never refused as incomplete, one life of the
  registration page makes complete merchants only, at most one besides those whose answers were lost, and the
  account page shows the intents of its merchant and no others.
\<close>

section \<open>The browser and the service agree on a complete registration\<close>

lemma register_pressD:
  assumes "register_press syntax_ok s = Some s'"
  shows "rp_success s = None" "s' = s\<lparr> rp_loading := True, rp_error := [] \<rparr>"
    "list_all (field_accepts syntax_ok) (register_fields (rp_form s))"
  using assms by (auto simp: register_press_def split: if_splits)

lemma accepted_fieldsD:
  assumes "list_all (field_accepts syntax_ok) (register_fields f)"
  shows "rf_name f \<noteq> []" "rf_email f \<noteq> []" "8 \<le> length (rf_password f)" "rf_address f \<noteq> []"
    "rf_webhook f = [] \<or> syntax_ok Url_Field (rf_webhook f)" "syntax_ok Email_Field (rf_email f)"
  using assms by (auto simp: register_fields_def the_field_def field_accepts_def split: if_splits)

text \<open>The three outcomes of a complete registration, before the page sees them.\<close>

lemma register_complete:
  assumes "sg_name d \<noteq> []" "sg_email d \<noteq> []" "8 \<le> length (sg_password d)"
  shows "(\<exists>r ms. register_merchant e d ms0 = (ms, Inr r) \<and> ms = ms0 @ [new_merchant e d] \<and> Some (sg_email d) \<notin> m_email ` set ms0)
    \<or> register_merchant e d ms0 = (ms0, Inl (plain_error ''Email already registered'')) \<and> Some (sg_email d) \<in> m_email ` set ms0
    \<or> register_merchant e d ms0 = (ms0, Inl (JsError ''error'' ''merchants'')) \<and> Some (sg_email d) \<notin> m_email ` set ms0"
proof (cases "tbl_find (\<lambda>m. m_email m = Some (sg_email d)) ms0")
  case None
  then have fresh: "Some (sg_email d) \<notin> m_email ` set ms0" by (auto simp: tbl_find_None_iff)
  show ?thesis
  proof (cases "insert_merchant (new_merchant e d) ms0")
    case None
    then show ?thesis using assms fresh \<open>tbl_find _ ms0 = None\<close> by (auto simp: register_merchant_def)
  next
    case (Some rows)
    then have "rows = ms0 @ [new_merchant e d]" by (auto simp: insert_merchant_def tbl_insert_def split: if_splits)
    then show ?thesis using assms fresh Some \<open>tbl_find _ ms0 = None\<close> by (auto simp: register_merchant_def Let_def)
  qed
next
  case (Some m)
  then have "Some (sg_email d) \<in> m_email ` set ms0" by (auto dest!: tbl_find_SomeD intro!: image_eqI [of _ _ m])
  then show ?thesis using Some by (simp add: register_merchant_def)
qed

lemma register_answer_ok:
  assumes "register_merchant (ax_auth x) (form_request f) (db_merchants (gw_db g)) = (ms, Inr r)"
  shows "register_answer x Answered f (g, s) = (on_merchants ms g, s\<lparr> rp_error := [], rp_loading := False,
     rp_success := Some \<lparr> na_api_key = ar_api_key r, na_token = ar_token r, na_merchant_id = ar_merchant_id r \<rparr> \<rparr>)"
  using assms by (simp add: register_answer_def register_submit_def apiRequest_def authApi_register_def auth_register_def
      reply_def data_text_def json_get_def as_object_def as_text_def text_or_def)

lemma register_answer_refused:
  assumes "register_merchant (ax_auth x) (form_request f) (db_merchants (gw_db g)) = (db_merchants (gw_db g), Inl e)"
    and "e = plain_error ''Email already registered'' \<and> t = ''Email already registered''
      \<or> e = JsError ''error'' ''merchants'' \<and> t = ''Failed to register merchant''"
  shows "register_answer x Answered f (g, s) = (g, s\<lparr> rp_error := t, rp_loading := False \<rparr>)"
proof -
  have "js_includes ''Email already registered'' ''already registered''"
    "\<not> js_includes ''merchants'' ''already registered''" "\<not> js_includes ''merchants'' ''required''"
    "\<not> js_includes ''merchants'' ''at least''"
    by code_simp+
  moreover have "on_merchants (db_merchants (gw_db g)) g = g" by (simp add: on_merchants_def)
  ultimately show ?thesis using assms
    by (auto simp: register_answer_def register_submit_def apiRequest_def authApi_register_def auth_register_def reply_def
      reply_error_def failure_text_def json_get_def as_object_def as_text_def text_or_def plain_error_def Let_def)
qed

text \<open>A form the browser lets through is answered by the account, or by one of two refusals that leave
  the gateway as it was: the email is taken exactly if the first text appears.  No answer says that a field
  is missing or that the password is short.\<close>

theorem accepted_form_registers:
  assumes "register_press syntax_ok s = Some s1" "register_answer x Answered (rp_form s) (g, s2) = (g', s3)" "rp_success s2 = None"
  shows "(\<exists>i k. register_view_of s3 = Registered i k \<and> k \<noteq> []
        \<and> db_merchants (gw_db g') = db_merchants (gw_db g) @ [new_merchant (ax_auth x) (form_request (rp_form s))])
    \<or> (\<exists>v. register_view_of s3 = Registering v \<and> g' = g \<and> \<not> rv_disabled v
        \<and> rv_error v = Some (if Some (rf_email (rp_form s)) \<in> m_email ` set (db_merchants (gw_db g))
            then ''Email already registered'' else ''Failed to register merchant''))"
proof -
  let ?d = "form_request (rp_form s)" and ?ms = "db_merchants (gw_db g)"
  have d: "sg_name ?d \<noteq> []" "sg_email ?d \<noteq> []" "8 \<le> length (sg_password ?d)" "sg_email ?d = rf_email (rp_form s)"
    using accepted_fieldsD [OF register_pressD(3) [OF assms(1)]] by (simp_all add: form_request_def)
  from register_complete [OF d(1-3), of "ax_auth x" ?ms] show ?thesis
  proof (elim disjE exE conjE)
    fix r ms
    assume reg: "register_merchant (ax_auth x) ?d ?ms = (ms, Inr r)" and ms: "ms = ?ms @ [new_merchant (ax_auth x) ?d]"
    with register_answer_ok [OF reg, of s2] assms(2) register_merchantD [OF reg] show ?thesis
      by (auto simp: register_view_of_def on_merchants_def generateApiKey_nonempty)
  next
    assume reg: "register_merchant (ax_auth x) ?d ?ms = (?ms, Inl (plain_error ''Email already registered''))"
      and old: "Some (sg_email ?d) \<in> m_email ` set ?ms"
    have "g' = g" "s3 = s2\<lparr> rp_error := ''Email already registered'', rp_loading := False \<rparr>"
      using register_answer_refused [OF reg, where t = "''Email already registered''" and s = s2] assms(2) by simp_all
    then show ?thesis using old assms(3) d(4) by (simp add: register_view_of_def truthy_str_def)
  next
    assume reg: "register_merchant (ax_auth x) ?d ?ms = (?ms, Inl (JsError ''error'' ''merchants''))"
      and new: "Some (sg_email ?d) \<notin> m_email ` set ?ms"
    have "g' = g" "s3 = s2\<lparr> rp_error := ''Failed to register merchant'', rp_loading := False \<rparr>"
      using register_answer_refused [OF reg, where t = "''Failed to register merchant''" and s = s2] assms(2) by simp_all
    then show ?thesis using new assms(3) d(4) by (simp add: register_view_of_def truthy_str_def)
  qed
qed

section \<open>What merchants the page makes\<close>

definition chosen_form :: "register_form \<Rightarrow> bool" where
  "chosen_form f \<longleftrightarrow> rf_asset f \<in> set ASSETS \<and> rf_chain f \<in> fst ` set CHAINS
     \<and> distinct (rf_chains f) \<and> set (rf_chains f) \<subseteq> fst ` set CHAINS
     \<and> distinct (rf_assets f) \<and> set (rf_assets f) \<subseteq> set ASSETS"

definition complete_merchant :: "(field_kind \<Rightarrow> string \<Rightarrow> bool) \<Rightarrow> merchant \<Rightarrow> bool" where
  "complete_merchant syntax_ok m \<longleftrightarrow> m_name m \<noteq> [] \<and> (\<exists>e. m_email m = Some e \<and> e \<noteq> [] \<and> syntax_ok Email_Field e)
     \<and> m_settlement_address m \<noteq> [] \<and> m_settlement_asset m \<in> set ASSETS \<and> m_settlement_chain m \<in> fst ` set CHAINS
     \<and> distinct (m_accepted_chains m) \<and> set (m_accepted_chains m) \<subseteq> fst ` set CHAINS
     \<and> distinct (m_accepted_assets m) \<and> set (m_accepted_assets m) \<subseteq> set ASSETS
     \<and> (case m_webhook_url m of None \<Rightarrow> True | Some u \<Rightarrow> syntax_ok Url_Field u)"

lemma chosen_start: "chosen_form empty_form"
  by (simp add: chosen_form_def empty_form_def ASSETS_def CHAINS_def)

lemma toggle_chosen:
  "distinct xs \<Longrightarrow> set xs \<subseteq> A \<Longrightarrow> v \<in> A \<Longrightarrow> distinct (toggle v xs) \<and> set (toggle v xs) \<subseteq> A"
  by (auto simp: toggle_def)

lemma chosen_edits:
  "chosen_form f \<Longrightarrow> input_offers i v \<Longrightarrow> chosen_form (set_input i v f)"
  by (cases i) (simp_all add: chosen_form_def)

lemma chosen_toggles:
  assumes "chosen_form f"
  shows "c \<in> fst ` set CHAINS \<Longrightarrow> chosen_form (f\<lparr> rf_chains := toggle c (rf_chains f) \<rparr>)"
    "a \<in> set ASSETS \<Longrightarrow> chosen_form (f\<lparr> rf_assets := toggle a (rf_assets f) \<rparr>)"
  using assms toggle_chosen [of "rf_chains f" "fst ` set CHAINS" c] toggle_chosen [of "rf_assets f" "set ASSETS" a]
  by (simp_all add: chosen_form_def)

lemma chosen_complete:
  assumes "chosen_form f" "list_all (field_accepts syntax_ok) (register_fields f)"
  shows "complete_merchant syntax_ok (new_merchant e (form_request f))"
proof -
  have "[] \<notin> set ASSETS" "[] \<notin> fst ` set CHAINS" by (simp_all add: ASSETS_def CHAINS_def)
  with assms(1) have "rf_asset f \<noteq> []" "rf_chain f \<noteq> []" unfolding chosen_form_def by metis+
  then show ?thesis
    using assms(1) accepted_fieldsD [OF assms(2)]
    by (auto simp: complete_merchant_def new_merchant_def form_request_def text_or_def truthy_str_def chosen_form_def
        split: prod.splits option.splits if_splits)
qed

text \<open>A page that shows the new account takes no further step.\<close>

lemma registered_page_is_final: "register_event syntax_ok lost (g, s, []) c \<Longrightarrow> rp_success s = None"
  by (erule register_eventE) (auto dest: register_pressD)

text \<open>A request that was served does to the gateway what it would do with its answer; the page sees the exception.\<close>

lemma register_answer_unheard:
  "register_answer x (Not_Sent e) f (g, s) = (g, s\<lparr> rp_error := message_of e ''Registration failed'', rp_loading := False \<rparr>)"
  "register_answer x (Answer_Lost e) f (g, s) = (fst (register_answer x Answered f (g, s)),
     s\<lparr> rp_error := message_of e ''Registration failed'', rp_loading := False \<rparr>)"
  by (simp_all add: register_answer_def register_submit_def apiRequest_def split: prod.splits sum.splits)

definition refused_page :: "string \<Rightarrow> register_page \<Rightarrow> register_page" where
  "refused_page t s = s\<lparr> rp_error := t, rp_loading := False \<rparr>"

definition account_page_of :: "new_account \<Rightarrow> register_page \<Rightarrow> register_page" where
  "account_page_of a s = s\<lparr> rp_error := [], rp_loading := False, rp_success := Some a \<rparr>"

text \<open>An answer, whatever the network does, adds the merchant of the form, with an email that was free, or leaves
  the gateway as it was; the page that hears of a new merchant shows that one.\<close>

lemma register_answer_cases:
  assumes "list_all (field_accepts syntax_ok) (register_fields f)" "register_answer x net f (g, s) = (g', s')"
  obtains (refused) t where "g' = g" "s' = refused_page t s"
    | (made) m where "m = new_merchant (ax_auth x) (form_request f)" "g' = on_merchants (db_merchants (gw_db g) @ [m]) g"
      "m_email m \<notin> m_email ` set (db_merchants (gw_db g))"
      "(\<exists>t. loses_answer net \<and> s' = refused_page t s) \<or> (\<exists>a. s' = account_page_of a s \<and> na_merchant_id a = m_id m)"
proof -
  let ?d = "form_request f" and ?ms = "db_merchants (gw_db g)"
  have d: "sg_name ?d \<noteq> []" "sg_email ?d \<noteq> []" "8 \<le> length (sg_password ?d)"
    using accepted_fieldsD [OF assms(1)] by (simp_all add: form_request_def)
  have heard: "(\<exists>t. register_answer x Answered f (g, s) = (g, refused_page t s))
    \<or> (\<exists>m a. m = new_merchant (ax_auth x) ?d \<and> m_email m \<notin> m_email ` set ?ms \<and> na_merchant_id a = m_id m
         \<and> register_answer x Answered f (g, s) = (on_merchants (?ms @ [m]) g, account_page_of a s))"
    using register_complete [OF d, of "ax_auth x" ?ms]
  proof (elim disjE exE conjE)
    fix r ms
    assume reg: "register_merchant (ax_auth x) ?d ?ms = (ms, Inr r)" and ms: "ms = ?ms @ [new_merchant (ax_auth x) ?d]"
      and new: "Some (sg_email ?d) \<notin> m_email ` set ?ms"
    have "m_email (new_merchant (ax_auth x) ?d) = Some (sg_email ?d)"
      "m_id (new_merchant (ax_auth x) ?d) = ar_merchant_id r"
      using register_merchantD [OF reg] by (simp_all add: new_merchant_def split: prod.splits)
    with register_answer_ok [OF reg, of s] ms new show ?thesis
      by (intro disjI2 exI [of _ "new_merchant (ax_auth x) ?d"]
          exI [of _ "\<lparr> na_api_key = ar_api_key r, na_token = ar_token r, na_merchant_id = ar_merchant_id r \<rparr>"])
        (simp add: account_page_of_def)
  next
    assume "register_merchant (ax_auth x) ?d ?ms = (?ms, Inl (plain_error ''Email already registered''))"
    from register_answer_refused [OF this, where t = "''Email already registered''" and s = s] show ?thesis
      by (auto simp: refused_page_def)
  next
    assume "register_merchant (ax_auth x) ?d ?ms = (?ms, Inl (JsError ''error'' ''merchants''))"
    from register_answer_refused [OF this, where t = "''Failed to register merchant''" and s = s] show ?thesis
      by (auto simp: refused_page_def)
  qed
  show ?thesis
  proof (cases net)
    case Answered
    with heard assms(2) show ?thesis by (auto intro: refused made)
  next
    case (Not_Sent e)
    with assms(2) show ?thesis using refused [of "message_of e ''Registration failed''"]
      by (simp add: register_answer_unheard refused_page_def)
  next
    case (Answer_Lost e)
    then have "g' = fst (register_answer x Answered f (g, s))" "s' = refused_page (message_of e ''Registration failed'') s"
      using assms(2) by (simp_all add: register_answer_unheard refused_page_def)
    moreover from heard have "fst (register_answer x Answered f (g, s)) = g
      \<or> (fst (register_answer x Answered f (g, s)) = on_merchants (?ms @ [new_merchant (ax_auth x) ?d]) g
          \<and> m_email (new_merchant (ax_auth x) ?d) \<notin> m_email ` set ?ms)" by auto
    moreover have "loses_answer net" by (simp add: Answer_Lost loses_answer_def)
    ultimately show ?thesis by (metis refused made)
  qed
qed

text \<open>What a run has made: complete merchants with emails of their own, no more than answers were lost beside the one
  the page shows, which is the last.\<close>

definition made_by_page ::
    "(field_kind \<Rightarrow> string \<Rightarrow> bool) \<Rightarrow> merchant list \<Rightarrow> nat \<Rightarrow> new_account option \<Rightarrow> merchant list \<Rightarrow> bool" where
  "made_by_page syntax_ok old n acc made \<longleftrightarrow> list_all (complete_merchant syntax_ok) made \<and> distinct (map m_email made)
     \<and> m_email ` set made \<inter> m_email ` set old = {}
     \<and> (case acc of None \<Rightarrow> length made \<le> n
        | Some a \<Rightarrow> length made \<le> Suc n \<and> made \<noteq> [] \<and> na_merchant_id a = m_id (last made))"

lemma made_by_page_more: "made_by_page syntax_ok old n None made \<Longrightarrow> made_by_page syntax_ok old (n + k) None made"
  by (simp add: made_by_page_def)

lemma made_by_page_add:
  assumes "made_by_page syntax_ok old n None made" "complete_merchant syntax_ok m" "m_email m \<notin> m_email ` set (old @ made)"
  shows "made_by_page syntax_ok old (Suc n) None (made @ [m])"
    "na_merchant_id a = m_id m \<Longrightarrow> made_by_page syntax_ok old (n + k) (Some a) (made @ [m])"
  using assms by (auto simp: made_by_page_def)

fun register_inv :: "(field_kind \<Rightarrow> string \<Rightarrow> bool) \<Rightarrow> gateway \<Rightarrow> nat \<Rightarrow> gateway \<times> register_page \<times> register_form list \<Rightarrow> bool" where
  "register_inv syntax_ok g0 n (g, s, w) \<longleftrightarrow> chosen_form (rp_form s)
     \<and> (\<exists>made. db_merchants (gw_db g) = db_merchants (gw_db g0) @ made
          \<and> made_by_page syntax_ok (db_merchants (gw_db g0)) n (rp_success s) made)
     \<and> length w \<le> 1 \<and> list_all (\<lambda>f. rp_loading s \<and> rp_success s = None \<and> chosen_form f
          \<and> list_all (field_accepts syntax_ok) (register_fields f)) w"

lemma register_event_inv:
  "register_event syntax_ok lost c c' \<Longrightarrow> register_inv syntax_ok g0 n c \<Longrightarrow> register_inv syntax_ok g0 (n + of_bool lost) c'"
proof (induction rule: register_event.induct)
  case (edits s i v g w)
  then show ?case by (auto simp: register_edit_def chosen_edits list_all_iff)
next
  case (toggles_chain s c g w)
  then show ?case by (auto simp: toggleChain_def chosen_toggles list_all_iff)
next
  case (toggles_asset s a g w)
  then show ?case by (auto simp: toggleAsset_def chosen_toggles list_all_iff)
next
  case (presses s s' g w)
  moreover from this have "w = []" using register_pressD(1) [OF presses(1)] by (cases w) (auto simp: register_press_def split: if_splits)
  ultimately show ?case using register_pressD [OF presses(1)] by simp
next
  case (answers x net f g s g' s' u w)
  then have f: "chosen_form f" "list_all (field_accepts syntax_ok) (register_fields f)" "rp_success s = None"
    and rest: "u = []" "w = []" and form: "chosen_form (rp_form s)" by auto
  from answers(2) f(3) obtain made where
    old: "db_merchants (gw_db g) = db_merchants (gw_db g0) @ made" "made_by_page syntax_ok (db_merchants (gw_db g0)) n None made"
    by auto
  from f(2) answers(1) show ?case
  proof (cases rule: register_answer_cases)
    case (refused t)
    then show ?thesis using old rest form f(3) made_by_page_more by (auto simp: refused_page_def)
  next
    case (made m)
    have add: "complete_merchant syntax_ok m" "m_email m \<notin> m_email ` set (db_merchants (gw_db g0) @ made)"
      using chosen_complete [OF f(1,2)] made(1,3) old(1) by simp_all
    have rows: "db_merchants (gw_db g') = db_merchants (gw_db g0) @ (made @ [m])"
      using made(2) old(1) by (simp add: on_merchants_def)
    from made(4) show ?thesis
    proof (elim disjE exE conjE)
      fix t assume "loses_answer net" "s' = refused_page t s"
      then show ?thesis using rows rest form f(3) made_by_page_add(1) [OF old(2) add] by (auto simp: refused_page_def)
    next
      fix a assume "s' = account_page_of a s" "na_merchant_id a = m_id m"
      then show ?thesis using rows rest form made_by_page_add(2) [OF old(2) add, of a] by (auto simp: account_page_of_def)
    qed
  qed
qed

lemma register_run_inv: "register_run syntax_ok g0 n c \<Longrightarrow> register_inv syntax_ok g0 n c"
proof (induction rule: register_run.induct)
  case opened
  then show ?case by (simp add: register_start_def chosen_start made_by_page_def)
next
  case (continued n c lost c')
  then show ?case by (blast intro: register_event_inv)
qed

lemma register_reach_run:
  assumes "(register_step syntax_ok)\<^sup>*\<^sup>* (g0, register_start, []) c"
  shows "\<exists>n. register_run syntax_ok g0 n c"
  using assms by (induction rule: rtranclp_induct) (auto simp: register_step_def intro: register_run.intros)

text \<open>However many answers get lost, every merchant the page makes is complete.\<close>

lemma register_reach_complete:
  assumes "(register_step syntax_ok)\<^sup>*\<^sup>* (g0, register_start, []) (g, s, w)"
  shows "\<exists>made. db_merchants (gw_db g) = db_merchants (gw_db g0) @ made \<and> list_all (complete_merchant syntax_ok) made"
  using register_reach_run [OF assms] by (auto dest!: register_run_inv simp: made_by_page_def)

text \<open>C35: However the form is edited, sent, refused and sent again in one life of the registration page, with
  n answers lost on their way back, every merchant made is complete (a name, an email and a webhook of
  the browser's syntax, an address, and only chains and assets of the two lists, none of them twice), no two
  have the same email and none an email that was taken, and there are at most n besides the one that the
  page shows, which is the last: without a lost answer the page makes at most one.\<close>

theorem page_makes_one_complete_merchant:
  assumes "register_run syntax_ok g0 n (g, s, w)"
  shows "\<exists>made. db_merchants (gw_db g) = db_merchants (gw_db g0) @ made \<and> list_all (complete_merchant syntax_ok) made
    \<and> distinct (map m_email made) \<and> m_email ` set made \<inter> m_email ` set (db_merchants (gw_db g0)) = {}
    \<and> (case rp_success s of None \<Rightarrow> length made \<le> n
       | Some a \<Rightarrow> length made \<le> Suc n \<and> made \<noteq> [] \<and> na_merchant_id a = m_id (last made))"
  using register_run_inv [OF assms] by (simp add: made_by_page_def)

section \<open>Login\<close>

text \<open>A login the browser lets through opens the dashboard for the merchant with that email and password, or is
  refused with one text that names neither.\<close>

lemma accepted_login_answered:
  assumes "list_all (field_accepts syntax_ok) (login_fields s)" "\<not> lp_loading s"
    and "login_click syntax_ok x Answered (g, b, s) = (g', b', s')"
  shows "g' = g \<and> ((\<exists>m \<in> set (db_merchants (gw_db g)). m_email m = Some (lp_email s)
        \<and> getItem ''cg_token'' b' = Some (generateToken (ax_auth x) (m_id m)) \<and> br_path b' = ''/dashboard'' \<and> lp_error s' = [])
     \<or> (b' = b \<and> lp_error s' = ''Invalid email or password''))"
proof -
  have filled: "lp_email s \<noteq> []" "lp_password s \<noteq> []"
    using assms(1) by (auto simp: login_fields_def the_field_def field_accepts_def split: if_splits)
  have inv: "js_includes ''Invalid email or password'' ''Invalid''" by code_simp
  show ?thesis
  proof (cases "login (ax_auth x) \<lparr> lr_email = lp_email s, lr_password = lp_password s \<rparr> (db_merchants (gw_db g))")
    case (Inl e)
    then have "e = plain_error ''Invalid email or password''"
      using filled by (auto simp: login_def split: option.splits if_splits)
    then show ?thesis using Inl assms inv
      by (auto simp: login_click_def login_submit_def apiRequest_def authApi_login_def auth_login_def reply_error_def reply_def
          failure_text_def json_get_def as_object_def as_text_def text_or_def plain_error_def Let_def)
  next
    case (Inr r)
    then obtain m where "m \<in> set (db_merchants (gw_db g))" "m_email m = Some (lp_email s)"
      "ar_token r = generateToken (ax_auth x) (m_id m)"
      by (auto simp: login_def dest!: tbl_find_SomeD split: option.splits if_splits)
    moreover have "g' = g" "getItem ''cg_token'' b' = Some (ar_token r)" "br_path b' = ''/dashboard''" "lp_error s' = []"
      using Inr assms by (auto simp: login_click_def login_submit_def apiRequest_def authApi_login_def auth_login_def reply_def
          data_text_def json_get_def as_object_def as_text_def text_or_def push_path_def getItem_def setItem_def)
    ultimately show ?thesis by auto
  qed
qed

section \<open>The account shows the merchant's own intents\<close>

definition row_for :: "locale_texts \<Rightarrow> payment_intent \<Rightarrow> intent_row" where
  "row_for l p = \<lparr> ir_order = pi_order_ref p, ir_amount = lt_number l (pi_target_amount p), ir_asset = pi_target_asset p,
     ir_badge = getStateBadge (state_name (pi_state p)), ir_state = spaced (state_name (pi_state p)),
     ir_created = lt_date l (pi_created_at p) \<rparr>"

lemma intent_row_of_summary: "intent_row_of l (as_object (summary_json p)) = row_for l p"
  by (simp add: intent_row_of_def row_for_def summary_json_def as_object_def as_text_def as_number_def as_time_def
      some_text_def json_get_def Let_def)

lemma copied_id_of_summary: "copy_intent_id (as_object (summary_json p)) = pi_id p"
  by (simp add: copy_intent_id_def summary_json_def as_object_def as_text_def some_text_def json_get_def)

lemma state_name_eq: "state_name s = state_name t \<longleftrightarrow> s = t"
  by (cases s; cases t) simp_all

lemma quick_stats_summaries:
  "quick_stats (map (\<lambda>p. as_object (summary_json p)) ps) =
     (length ps, length (filter (\<lambda>p. pi_state p = SETTLED) ps),
      length (filter (\<lambda>p. pi_state p = CREATED) ps) + length (filter (\<lambda>p. pi_state p = QUOTED) ps)
        + length (filter (\<lambda>p. pi_state p = AWAITING_PAYMENT) ps))"
proof -
  have "count_list (map (\<lambda>p. state_name (pi_state p)) ps) (state_name st) = length (filter (\<lambda>p. pi_state p = st) ps)" for st
    by (induction ps) (auto simp: state_name_eq)
  from this [of SETTLED] this [of CREATED] this [of QUOTED] this [of AWAITING_PAYMENT] show ?thesis
    by (simp add: quick_stats_def count_of_is_count summary_json_def as_object_def as_text_def some_text_def json_get_def
        comp_def Let_def)
qed

lemma listed_summaries:
  "listed_intents (JsonBody (JObj [(''intents'', JArr (map summary_json ps))])) = map (\<lambda>p. as_object (summary_json p)) ps"
  by (simp add: listed_intents_def json_get_def as_list_def as_object_def)

lemma valid_token_profile:
  assumes "validateToken e token ms = Some m"
  shows "getProfile (m_id m) ms = Some (m\<lparr> m_password_hash := None, m_password_salt := None, m_api_key_hash := None \<rparr>)"
proof -
  obtain i where "tbl_find (\<lambda>m. m_id m = i) ms = Some m"
    using assms by (auto simp: validateToken_def split: option.splits json.splits if_splits)
  moreover from this have "m_id m = i" by (auto dest: tbl_find_SomeD)
  ultimately show ?thesis by (simp add: getProfile_def)
qed

text \<open>C38: With a valid token the account page shows the newest twenty intents of that merchant, one row each in
  their order, and nobody else's; its three numbers count these rows only, so the first is never above
  twenty; the settlement is the merchant's.  The profile that the page is given is the merchant's row without
  the hash and the salt of the password and without the hash of the API key; what the page does show is the
  API key this browser has stored, or that there is none, and the first thirty characters of the token.\<close>

theorem account_shows_own_intents:
  assumes "getItem ''cg_token'' b = Some token" "token \<noteq> []" "m_id m \<noteq> []"
    and "validateToken (ax_auth x) token (db_merchants (gw_db g)) = Some m"
  shows "\<exists>p v ps. loadData x Answered Answered (g, b, account_start) = (g, b, p) \<and> account_view_of l p = Account_View v
    \<and> ps = map mapRow (take 20 (order_desc pi_created_at (filter (\<lambda>r. pi_merchant_id r = m_id m) (db_intents (gw_db g)))))
    \<and> av_rows v = (if ps = [] then None else Some (map (row_for l) ps))
    \<and> av_stats v = (length ps, length (filter (\<lambda>p. pi_state p = SETTLED) ps),
        length (filter (\<lambda>p. pi_state p = CREATED) ps) + length (filter (\<lambda>p. pi_state p = QUOTED) ps)
          + length (filter (\<lambda>p. pi_state p = AWAITING_PAYMENT) ps))
    \<and> fst (av_stats v) \<le> 20 \<and> av_error v = None \<and> av_settlement v = Some (settlement_shown_of l m)
    \<and> ac_profile p = Some (m\<lparr> m_password_hash := None, m_password_salt := None, m_api_key_hash := None \<rparr>)
    \<and> av_welcome v = ''Welcome back, '' @ text_or (Some (m_name m)) ''Merchant''
    \<and> av_key v = text_or (getItem ''cg_api_key'' b) ''Not available - re-login to view''
    \<and> curl_token (getItem ''cg_token'' b) = ''Authorization: Bearer '' @ take 30 token @ ''...''"
proof -
  define ps where "ps = getMerchantIntents g (m_id m) (Some 20) (Some 0)"
  let ?p = "account_start\<lparr> ac_profile := Some (m\<lparr> m_password_hash := None, m_password_salt := None, m_api_key_hash := None \<rparr>),
    ac_intents := map (\<lambda>p. as_object (summary_json p)) ps, ac_key := text_or (getItem ''cg_api_key'' b) [], ac_loading := False \<rparr>"
  have ps: "ps = map mapRow (take 20 (order_desc pi_created_at (filter (\<lambda>r. pi_merchant_id r = m_id m) (db_intents (gw_db g)))))"
    by (simp add: ps_def getMerchantIntents_def findByMerchantId_def)
  then have "length ps \<le> 20" by simp
  have load: "loadData x Answered Answered (g, b, account_start) = (g, b, ?p)"
    using profile_answer [OF assms(4,2)] list_answer [OF assms(4,2,3), folded ps_def] valid_token_profile [OF assms(4)] assms(1,2)
    by (simp add: loadData_def truthy_str_def listed_summaries)
  let ?v = "case account_view_of l ?p of Account_View v \<Rightarrow> v"
  have "account_view_of l ?p = Account_View ?v" "av_rows ?v = (if ps = [] then None else Some (map (row_for l) ps))"
    "av_stats ?v = (length ps, length (filter (\<lambda>p. pi_state p = SETTLED) ps),
        length (filter (\<lambda>p. pi_state p = CREATED) ps) + length (filter (\<lambda>p. pi_state p = QUOTED) ps)
          + length (filter (\<lambda>p. pi_state p = AWAITING_PAYMENT) ps))"
    "av_error ?v = None" "av_settlement ?v = Some (settlement_shown_of l m)"
    "av_welcome ?v = ''Welcome back, '' @ text_or (Some (m_name m)) ''Merchant''"
    "av_key ?v = text_or (getItem ''cg_api_key'' b) ''Not available - re-login to view''"
    by (simp_all add: account_view_of_def account_start_def quick_stats_summaries intent_row_of_summary settlement_shown_of_def
        truthy_str_def key_shown_def text_or_def comp_def split: option.splits)
  moreover have "curl_token (getItem ''cg_token'' b) = ''Authorization: Bearer '' @ take 30 token @ ''...''"
    using assms(1) by (simp add: curl_token_def)
  ultimately show ?thesis using load ps \<open>length ps \<le> 20\<close>
    by (intro exI [of _ ?p] exI [of _ ?v] exI [of _ ps]) simp
qed

section \<open>Examples\<close>

definition ex_filled :: register_form where
  "ex_filled = empty_form\<lparr> rf_name := ''Shop'', rf_email := ''a@b'', rf_password := ''password'', rf_address := ''0x1'' \<rparr>"

definition ex_filled_page :: register_page where
  "ex_filled_page = register_start\<lparr> rp_form := ex_filled \<rparr>"

lemma ex_filled_pressed:
  "register_press (\<lambda>_ _. True) ex_filled_page = Some (ex_filled_page\<lparr> rp_loading := True, rp_error := [] \<rparr>)"
  by (simp add: register_press_def ex_filled_page_def register_start_def ex_filled_def empty_form_def register_fields_def
      the_field_def field_accepts_def)

lemma ex_filled_registers:
  "\<exists>ms r. register_merchant (ax_auth (ex_api 0)) (form_request ex_filled) (db_merchants (gw_db (empty_gateway []))) = (ms, Inr r)"
  by (simp add: register_merchant_def ex_filled_def form_request_def empty_form_def ex_auth_def insert_merchant_def ex_api_def
      new_merchant_def hashPassword_def fits_def fits_opt_def text_or_def tbl_insert_def hashApiKey_def generateApiKey_def
      empty_gateway_def Let_def)

theorem accepted_form_registers_witness:
  "\<exists>g' s3 i k. register_answer (ex_api 0) Answered ex_filled (empty_gateway [], ex_filled_page\<lparr> rp_loading := True \<rparr>) = (g', s3)
     \<and> register_view_of s3 = Registered i k \<and> k \<noteq> [] \<and> length (db_merchants (gw_db g')) = 1"
proof -
  obtain ms r where reg: "register_merchant (ax_auth (ex_api 0)) (form_request ex_filled) (db_merchants (gw_db (empty_gateway []))) = (ms, Inr r)"
    using ex_filled_registers by blast
  obtain g' s3 where ans: "register_answer (ex_api 0) Answered (rp_form ex_filled_page) (empty_gateway [], ex_filled_page\<lparr> rp_loading := True \<rparr>) = (g', s3)"
    "rp_success s3 \<noteq> None"
    using register_answer_ok [OF reg, of "ex_filled_page\<lparr> rp_loading := True \<rparr>"] by (simp add: ex_filled_page_def)
  have "rp_success (ex_filled_page\<lparr> rp_loading := True \<rparr>) = None" by (simp add: ex_filled_page_def register_start_def)
  from accepted_form_registers [OF ex_filled_pressed ans(1) this] show ?thesis
    using ans by (auto simp: register_view_of_def ex_filled_page_def empty_gateway_def)
qed

text \<open>The page is filled in, and sent.\<close>

lemma ex_filled_sent:
  "register_run (\<lambda>_ _. True) (empty_gateway []) 0
     (empty_gateway [], ex_filled_page\<lparr> rp_loading := True, rp_error := [] \<rparr>, [ex_filled])"
proof -
  let ?reach = "\<lambda>p. register_run (\<lambda>_ _. True) (empty_gateway []) 0 (empty_gateway [], p, [])"
  have edit: "?reach (register_edit i v p)" if "?reach p" "rp_success p = None" "input_offers i v" for p i v
    using continued [OF that(1) edits [OF that(2,3)]] by simp
  have "?reach (register_edit In_Address ''0x1'' (register_edit In_Password ''password''
      (register_edit In_Email ''a@b'' (register_edit In_Name ''Shop'' register_start))))"
    by (intro edit opened) (simp_all add: register_edit_def register_start_def)
  moreover have "register_edit In_Address ''0x1'' (register_edit In_Password ''password'' (register_edit In_Email ''a@b'' (register_edit In_Name ''Shop'' register_start)))
      = ex_filled_page"
    by (simp add: register_edit_def register_start_def ex_filled_page_def ex_filled_def)
  ultimately have "?reach ex_filled_page" by simp
  from continued [OF this presses [OF ex_filled_pressed]] show ?thesis by (simp add: ex_filled_page_def)
qed

lemma register_run_reach:
  "register_run syntax_ok g0 n c \<Longrightarrow> (register_step syntax_ok)\<^sup>*\<^sup>* (g0, register_start, []) c"
  by (induction rule: register_run.induct) (auto simp: register_step_def intro: rtranclp.rtrancl_into_rtrancl)

lemma ex_registration_run:
  "\<exists>g s. (register_step (\<lambda>_ _. True))\<^sup>*\<^sup>* (empty_gateway [], register_start, []) (g, s, []) \<and> length (db_merchants (gw_db g)) = 1"
proof -
  obtain ms r where reg: "register_merchant (ax_auth (ex_api 0)) (form_request ex_filled) (db_merchants (gw_db (empty_gateway []))) = (ms, Inr r)"
    "ms = [new_merchant (ax_auth (ex_api 0)) (form_request ex_filled)]"
    using ex_filled_registers register_merchantD by (fastforce simp: empty_gateway_def)
  obtain g s where ans: "register_answer (ex_api 0) Answered ex_filled (empty_gateway [], ex_filled_page\<lparr> rp_loading := True, rp_error := [] \<rparr>) = (g, s)"
    "g = on_merchants ms (empty_gateway [])"
    using register_answer_ok [OF reg(1), of "ex_filled_page\<lparr> rp_loading := True, rp_error := [] \<rparr>"] by simp
  have "register_run (\<lambda>_ _. True) (empty_gateway []) (0 + of_bool (loses_answer Answered)) (g, s, [] @ [])"
    using ex_filled_sent by (intro continued [OF _ answers [OF ans(1)]]) simp
  then show ?thesis using ans(2) reg(2) by (auto dest!: register_run_reach simp: on_merchants_def intro!: exI [of _ g] exI [of _ s])
qed

text \<open>An answer is lost, the customer tries again under another email: two merchants.\<close>

definition ex_api_later :: api_env where
  "ex_api_later = (ex_api 1)\<lparr> ax_auth := (ex_auth 1)\<lparr> au_uuid := ''m3'' \<rparr> \<rparr>"

definition ex_refilled :: register_form where
  "ex_refilled = ex_filled\<lparr> rf_email := ''c@d'' \<rparr>"

lemma ex_refilled_registers:
  "\<exists>r. register_merchant (ax_auth ex_api_later) (form_request ex_refilled) [new_merchant (ax_auth (ex_api 0)) (form_request ex_filled)]
     = ([new_merchant (ax_auth (ex_api 0)) (form_request ex_filled), new_merchant (ax_auth ex_api_later) (form_request ex_refilled)], Inr r)"
  by (simp add: register_merchant_def ex_refilled_def ex_filled_def form_request_def empty_form_def ex_auth_def insert_merchant_def
      ex_api_def ex_api_later_def new_merchant_def hashPassword_def fits_def fits_opt_def text_or_def tbl_insert_def hashApiKey_def
      generateApiKey_def tbl_find_def Let_def)

lemma ex_lost_answer_run:
  "\<exists>g s. register_run (\<lambda>_ _. True) (empty_gateway []) 1 (g, s, []) \<and> length (db_merchants (gw_db g)) = 2"
proof -
  let ?lost = "Answer_Lost (JsThrown ''lost'')" and ?run = "register_run (\<lambda>_ _. True) (empty_gateway [])"
  let ?p = "ex_filled_page\<lparr> rp_loading := True, rp_error := [] \<rparr>"
  let ?m = "new_merchant (ax_auth (ex_api 0)) (form_request ex_filled)"
  obtain ms r where reg: "register_merchant (ax_auth (ex_api 0)) (form_request ex_filled) (db_merchants (gw_db (empty_gateway []))) = (ms, Inr r)"
    "ms = [?m]"
    using ex_filled_registers register_merchantD by (fastforce simp: empty_gateway_def)
  define g1 where "g1 = on_merchants [?m] (empty_gateway [])"
  define p1 where "p1 = ?p\<lparr> rp_error := message_of (JsThrown ''lost'') ''Registration failed'', rp_loading := False \<rparr>"
  have "register_answer (ex_api 0) ?lost ex_filled (empty_gateway [], ?p) = (g1, p1)"
    using register_answer_ok [OF reg(1), of ?p] reg(2) by (simp add: register_answer_unheard g1_def p1_def)
  from continued [OF _ answers [OF this, where u = "[]" and w = "[]"]] ex_filled_sent have one: "?run 1 (g1, p1, [])"
    by (fastforce simp: loses_answer_def)
  let ?p2 = "register_edit In_Email ''c@d'' p1"
  have start: "rp_success p1 = None" "rp_form ?p2 = ex_refilled"
    by (simp_all add: p1_def ex_filled_page_def register_start_def register_edit_def ex_refilled_def)
  have "?run 1 (g1, ?p2, [])" using continued [OF one edits [OF start(1)]] by simp
  moreover have "register_press (\<lambda>_ _. True) ?p2 = Some (?p2\<lparr> rp_loading := True, rp_error := [] \<rparr>)"
    by (simp add: register_press_def register_edit_def p1_def ex_filled_page_def register_start_def ex_filled_def empty_form_def
        register_fields_def the_field_def field_accepts_def)
  ultimately have sent: "?run 1 (g1, ?p2\<lparr> rp_loading := True, rp_error := [] \<rparr>, [ex_refilled])"
    using continued [OF _ presses] start(2) by fastforce
  obtain r2 where reg2: "register_merchant (ax_auth ex_api_later) (form_request ex_refilled) (db_merchants (gw_db g1))
      = ([?m, new_merchant (ax_auth ex_api_later) (form_request ex_refilled)], Inr r2)"
    using ex_refilled_registers by (auto simp: g1_def on_merchants_def)
  obtain g s where ans: "register_answer ex_api_later Answered ex_refilled (g1, ?p2\<lparr> rp_loading := True, rp_error := [] \<rparr>) = (g, s)"
    "length (db_merchants (gw_db g)) = 2"
    using register_answer_ok [OF reg2, of "?p2\<lparr> rp_loading := True, rp_error := [] \<rparr>"] by (simp add: on_merchants_def)
  from continued [OF _ answers [OF ans(1), where u = "[]" and w = "[]"]] sent have "?run 1 (g, s, [])"
    by (fastforce simp: loses_answer_def)
  with ans(2) show ?thesis by blast
qed

theorem page_makes_one_complete_merchant_witness:
  "\<exists>g s m1 m2. register_run (\<lambda>_ _. True) (empty_gateway []) 1 (g, s, [])
     \<and> db_merchants (gw_db g) = [m1, m2] \<and> complete_merchant (\<lambda>_ _. True) m1 \<and> complete_merchant (\<lambda>_ _. True) m2
     \<and> m_email m1 \<noteq> m_email m2"
proof -
  obtain g s where run: "register_run (\<lambda>_ _. True) (empty_gateway []) 1 (g, s, [])" "length (db_merchants (gw_db g)) = 2"
    using ex_lost_answer_run by blast
  from page_makes_one_complete_merchant [OF run(1)] obtain made where
    "db_merchants (gw_db g) = made" "list_all (complete_merchant (\<lambda>_ _. True)) made" "distinct (map m_email made)"
    by (auto simp: empty_gateway_def)
  then obtain m1 m2 where "db_merchants (gw_db g) = [m1, m2]" "complete_merchant (\<lambda>_ _. True) m1" "complete_merchant (\<lambda>_ _. True) m2"
    "m_email m1 \<noteq> m_email m2" using run(2) by (auto simp: length_Suc_conv numeral_2_eq_2)
  with run(1) show ?thesis by blast
qed

definition ex_locale :: locale_texts where
  "ex_locale = \<lparr> lt_plain = (\<lambda>_. ''1''), lt_number = (\<lambda>_. ''100''), lt_date = (\<lambda>_. ''today'') \<rparr>"

definition ex_account_gateway :: gateway where
  "ex_account_gateway = (empty_gateway [ex_merchant])\<lparr> gw_db := (gw_db (empty_gateway [ex_merchant]))\<lparr>
     db_intents := [ex_underpaid\<lparr> pi_merchant_id := ''m'' \<rparr>, ex_underpaid\<lparr> pi_id := ''other'', pi_merchant_id := ''n'' \<rparr>] \<rparr> \<rparr>"

theorem account_shows_own_intents_witness:
  "\<exists>p v b. loadData (ex_api 1) Answered Answered (ex_account_gateway, b, account_start) = (ex_account_gateway, b, p)
     \<and> account_view_of ex_locale p = Account_View v \<and> map_option (map ir_order) (av_rows v) = Some [pi_order_ref ex_underpaid]
     \<and> av_error v = None"
proof -
  let ?token = "generateToken (ax_auth (ex_api 1)) ''m''"
  let ?b = "\<lparr> br_storage = [(''cg_token'', ?token)], br_path = ''/dashboard'' \<rparr>"
  have "getItem ''cg_token'' ?b = Some ?token" by (simp add: getItem_def)
  moreover have "validateToken (ax_auth (ex_api 1)) ?token (db_merchants (gw_db ex_account_gateway)) = Some ex_merchant"
    by (simp add: validateToken_generateToken ex_account_gateway_def empty_gateway_def ex_merchant_def)
  moreover have "m_id ex_merchant \<noteq> []" by (simp add: ex_merchant_def)
  moreover have "order_desc pi_created_at (filter (\<lambda>r. pi_merchant_id r = m_id ex_merchant) (db_intents (gw_db ex_account_gateway)))
      = [ex_underpaid\<lparr> pi_merchant_id := ''m'' \<rparr>]"
    by (simp add: ex_account_gateway_def ex_merchant_def order_desc_def)
  ultimately show ?thesis
    using account_shows_own_intents [of ?b ?token ex_merchant "ex_api 1" ex_account_gateway ex_locale] token_nonempty
    by (fastforce simp: mapRow_def row_for_def)
qed

end
