(* ===== verification/Operations_Pages.thy ===== *)
theory Operations_Pages
  imports Merchant_Pages
begin

text \<open>
  The pages for operations: the data of \<open>dashboard/src/lib/mock-data.ts\<close> and what the six pages of
  \<open>app/(dashboard)\<close> show of it, without layout, colours of charts, icons and class names other than those
  chosen by a status.  No page calls the system: its numbers are constants or come from \<open>Math.random\<close>,
  which is a parameter, one number from 0 to below 1 for each call in the order of the calls.
\<close>

section \<open>Numbers of the locale en-US\<close>

text \<open>A comma before every third digit from the right, for the digits in reverse.\<close>

fun group_rev :: "string \<Rightarrow> string" where
  "group_rev (a # b # c # d # ds) = a # b # c # CHR '','' # group_rev (d # ds)"
| "group_rev ds = ds"

definition grouped :: "nat \<Rightarrow> string" where
  "grouped n = rev (group_rev (rev (nat_text n)))"

definition without_zeros :: "string \<Rightarrow> string" where
  "without_zeros s = rev (dropWhile (\<lambda>c. c = CHR ''0'') (rev s))"

text \<open>At most that many digits after the point, rounded half away from zero.\<close>

definition en_US :: "nat \<Rightarrow> rat \<Rightarrow> string" where
  "en_US digits v =
     (let n = nat \<lfloor>\<bar>v\<bar> * 10 ^ digits + 1 / 2\<rfloor>;
          frac = without_zeros (pad_start digits CHR ''0'' (nat_text (n mod 10 ^ digits)))
      in grouped (n div 10 ^ digits) @ (if frac = [] then [] else ''.'' @ frac))"

definition minus_of :: "rat \<Rightarrow> string" where
  "minus_of v = (if v < 0 then ''-'' else [])"

definition formatNumber :: "rat \<Rightarrow> string" where
  "formatNumber v = minus_of v @ en_US 3 v"

text \<open>The currency is USD, as in every call.\<close>

definition formatCurrency :: "rat \<Rightarrow> string" where
  "formatCurrency v = minus_of v @ ''$'' @ en_US 2 v"

section \<open>The data\<close>

record flow_metrics =
  fm_created :: rat
  fm_settled :: rat
  fm_success_rate :: rat
  fm_avg_time :: rat
  fm_volume :: rat
  fm_active :: rat

definition paymentFlowMetrics :: flow_metrics where
  "paymentFlowMetrics = \<lparr> fm_created = 12847, fm_settled = 11923, fm_success_rate = 928 / 10, fm_avg_time = 42,
     fm_volume = 2847593, fm_active = 924 \<rparr>"

text \<open>\<open>Math.floor(Math.random() * n) + low\<close>.\<close>

definition rnd_from :: "rat \<Rightarrow> int \<Rightarrow> int \<Rightarrow> json" where
  "rnd_from r n low = JNum (of_int (\<lfloor>r * of_int n\<rfloor> + low))"

definition hour_text :: "nat \<Rightarrow> string" where
  "hour_text i = padded 2 (int i) @ '':00''"

definition paymentFlowTimeSeries :: "(nat \<Rightarrow> rat) \<Rightarrow> payload list" where
  "paymentFlowTimeSeries rnd = map (\<lambda>i. [(''hour'', JStr (hour_text i)), (''created'', rnd_from (rnd (3 * i)) 800 400),
     (''settled'', rnd_from (rnd (3 * i + 1)) 700 350), (''failed'', rnd_from (rnd (3 * i + 2)) 50 10)]) [0..<24]"

definition slices :: "(string \<times> rat) list \<Rightarrow> payload list" where
  "slices xs = map (\<lambda>(name, v). [(''name'', JStr name), (''value'', JNum v)]) xs"

definition paymentFlowByChain :: "(string \<times> rat) list" where
  "paymentFlowByChain = [(''Ethereum'', 4230), (''Base'', 3120), (''Arbitrum'', 2890), (''Polygon'', 1580), (''Tron'', 680), (''Solana'', 347)]"

definition paymentFlowByStatus :: "(string \<times> rat) list" where
  "paymentFlowByStatus = [(''Settled'', 11923), (''Pending'', 524), (''Expired'', 218), (''Failed'', 182)]"

record settlement_metrics =
  sm_volume :: rat
  sm_success_rate :: rat
  sm_avg_latency :: rat
  sm_waiting :: rat
  sm_settled_today :: rat
  sm_failed_today :: rat

definition settlementMetrics :: settlement_metrics where
  "settlementMetrics = \<lparr> sm_volume = 2847593, sm_success_rate = 982 / 10, sm_avg_latency = 32 / 10, sm_waiting = 47,
     sm_settled_today = 1247, sm_failed_today = 12 \<rparr>"

definition day_text :: "nat \<Rightarrow> string" where
  "day_text i = ''Aug '' @ nat_text (i + 1)"

definition settlementTimeSeries :: "(nat \<Rightarrow> rat) \<Rightarrow> payload list" where
  "settlementTimeSeries rnd = map (\<lambda>i. [(''date'', JStr (day_text i)), (''volume'', rnd_from (rnd (3 * i)) 200000 80000),
     (''settlements'', rnd_from (rnd (3 * i + 1)) 500 200), (''latency'', rnd_from (rnd (3 * i + 2)) 5 1)]) [0..<30]"

definition settlementByAsset :: "(string \<times> rat) list" where
  "settlementByAsset = [(''USDC'', 1523400), (''USDT'', 987200), (''ETH'', 234500), (''DAI'', 102493)]"

record recovery_metrics =
  rm_total :: rat
  rm_resolved :: rat
  rm_resolution_rate :: rat
  rm_avg_time :: rat
  rm_waiting :: rat
  rm_escalated :: rat

definition recoveryMetrics :: recovery_metrics where
  "recoveryMetrics = \<lparr> rm_total = 347, rm_resolved = 312, rm_resolution_rate = 899 / 10, rm_avg_time = 42 / 10,
     rm_waiting = 23, rm_escalated = 12 \<rparr>"

definition recoveryTimeSeries :: "(nat \<Rightarrow> rat) \<Rightarrow> payload list" where
  "recoveryTimeSeries rnd = map (\<lambda>i. [(''date'', JStr (day_text i)), (''cases'', rnd_from (rnd (2 * i)) 20 5),
     (''resolved'', rnd_from (rnd (2 * i + 1)) 18 3)]) [0..<30]"

definition recoveryByType :: "(string \<times> rat) list" where
  "recoveryByType = [(''Underpaid'', 124), (''Overpaid'', 89), (''Misdirected'', 67), (''Stuck Tx'', 43), (''Wrong Chain'', 24)]"

record infrastructure_metrics =
  im_cpu :: rat
  im_memory :: rat
  im_disk :: rat
  im_network_in :: rat
  im_network_out :: rat
  im_connections :: rat

definition infrastructureMetrics :: infrastructure_metrics where
  "infrastructureMetrics = \<lparr> im_cpu = 673 / 10, im_memory = 721 / 10, im_disk = 458 / 10, im_network_in = 2345 / 10,
     im_network_out = 1892 / 10, im_connections = 1247 \<rparr>"

definition infrastructureTimeSeries :: "(nat \<Rightarrow> rat) \<Rightarrow> payload list" where
  "infrastructureTimeSeries rnd = map (\<lambda>i. [(''time'', JStr (nat_text i @ ''m ago'')),
     (''cpu'', rnd_from (rnd (5 * i)) 30 55), (''memory'', rnd_from (rnd (5 * i + 1)) 15 65), (''disk'', rnd_from (rnd (5 * i + 2)) 5 43),
     (''networkIn'', rnd_from (rnd (5 * i + 3)) 100 180), (''networkOut'', rnd_from (rnd (5 * i + 4)) 80 150)]) [0..<60]"

record blockchain_metrics =
  bm_eth_gas :: rat
  bm_base_gas :: rat
  bm_arbitrum_gas :: rat
  bm_avg_confirmation :: rat
  bm_fees :: rat
  bm_watchers :: rat

definition blockchainMetrics :: blockchain_metrics where
  "blockchainMetrics = \<lparr> bm_eth_gas = 124 / 10, bm_base_gas = 8 / 100, bm_arbitrum_gas = 12 / 100, bm_avg_confirmation = 32 / 10,
     bm_fees = 12450, bm_watchers = 6 \<rparr>"

text \<open>\<open>Math.floor(Math.random() * a * 100) / 100 + b\<close>.\<close>

definition rnd_hundredths :: "rat \<Rightarrow> rat \<Rightarrow> rat \<Rightarrow> json" where
  "rnd_hundredths r a b = JNum (of_int \<lfloor>r * a * 100\<rfloor> / 100 + b)"

definition gasPriceTimeSeries :: "(nat \<Rightarrow> rat) \<Rightarrow> payload list" where
  "gasPriceTimeSeries rnd = map (\<lambda>i. [(''hour'', JStr (hour_text i)), (''ethereum'', rnd_from (rnd (4 * i)) 20 8),
     (''base'', rnd_hundredths (rnd (4 * i + 1)) (15 / 100) (3 / 100)), (''arbitrum'', rnd_hundredths (rnd (4 * i + 2)) (20 / 100) (5 / 100)),
     (''polygon'', rnd_hundredths (rnd (4 * i + 3)) (1 / 100) (5 / 1000))]) [0..<24]"

definition confirmationTimeByChain :: "payload list" where
  "confirmationTimeByChain = map (\<lambda>(chain, t, n). [(''chain'', JStr chain), (''time'', JNum t), (''confirmations'', JNum n)])
     [(''Ethereum'', 124 / 10, 12), (''Base'', 21 / 10, 1), (''Arbitrum'', 18 / 10, 1), (''Polygon'', 24 / 10, 128),
      (''Tron'', 3, 19), (''Solana'', 4 / 10, 32)]"

definition feeCollectionTimeSeries :: "(nat \<Rightarrow> rat) \<Rightarrow> payload list" where
  "feeCollectionTimeSeries rnd = map (\<lambda>i. [(''date'', JStr (day_text i)), (''gasFees'', rnd_from (rnd (3 * i)) 300 100),
     (''bridgeFees'', rnd_from (rnd (3 * i + 1)) 500 200), (''relayerFees'', rnd_from (rnd (3 * i + 2)) 200 80)]) [0..<30]"

section \<open>The pages\<close>

datatype chart_kind = Area_Chart | Bar_Chart | Line_Chart

text \<open>A card of a page; a row of a table is its cells and the colours of its status.\<close>

datatype op_card =
    Metric_Card string string "string option" "(rat \<times> bool) option"
  | Notice_Card string string
  | Series_Card chart_kind string "payload list" string "(string \<times> string) list"
  | Pie_Card string "(string \<times> rat) list"
  | Summary_Card string "(string \<times> string) list"
  | Gauge_Card string string string rat string
  | Table_Card string "string list" "(string list \<times> string) list"

record op_page =
  og_title :: string
  og_subtitle :: string
  og_cards :: "op_card list"

text \<open>The texts of a number, and of \<open>toFixed(1)\<close>.\<close>

record number_texts =
  nt_plain :: "rat \<Rightarrow> string"
  nt_fixed1 :: "rat \<Rightarrow> string"

definition OverviewPage :: "number_texts \<Rightarrow> (nat \<Rightarrow> rat) \<Rightarrow> op_page" where
  "OverviewPage t rnd = \<lparr> og_title = ''Dashboard Overview'', og_subtitle = ''Real-time metrics across your crypto payment gateway'',
     og_cards =
       [Metric_Card ''Total Volume'' (formatCurrency (fm_volume paymentFlowMetrics)) (Some ''All-time settled volume'') (Some (125 / 10, True)),
        Metric_Card ''Intents Created'' (formatNumber (fm_created paymentFlowMetrics)) (Some ''Last 24 hours'') (Some (82 / 10, True)),
        Metric_Card ''Success Rate'' (formatPercent (nt_fixed1 t) (fm_success_rate paymentFlowMetrics)) (Some ''Payment success rate'') (Some (13 / 10, True)),
        Metric_Card ''Recovery Cases'' (nt_plain t (rm_total recoveryMetrics)) (Some (nt_plain t (rm_resolution_rate recoveryMetrics) @ ''% resolved'')) None,
        Series_Card Area_Chart ''Payment Flow (24h)'' (paymentFlowTimeSeries rnd) ''hour''
          [(''created'', ''Created''), (''settled'', ''Settled''), (''failed'', ''Failed'')],
        Pie_Card ''By Chain'' paymentFlowByChain,
        Summary_Card ''Settlement''
          [(''Today's Volume'', formatCurrency (sm_volume settlementMetrics * (5 / 100))),
           (''Success Rate'', formatPercent (nt_fixed1 t) (sm_success_rate settlementMetrics)),
           (''Avg Latency'', nt_plain t (sm_avg_latency settlementMetrics) @ ''s''), (''Pending'', nt_plain t (sm_waiting settlementMetrics))],
        Summary_Card ''Recovery''
          [(''Total Cases'', nt_plain t (rm_total recoveryMetrics)),
           (''Resolution Rate'', formatPercent (nt_fixed1 t) (rm_resolution_rate recoveryMetrics)),
           (''Pending'', nt_plain t (rm_waiting recoveryMetrics)), (''Escalated'', nt_plain t (rm_escalated recoveryMetrics))],
        Summary_Card ''Blockchain Health''
          [(''ETH Gas'', nt_plain t (bm_eth_gas blockchainMetrics) @ '' gwei''), (''Base Gas'', nt_plain t (bm_base_gas blockchainMetrics) @ '' gwei''),
           (''Avg Confirmation'', nt_plain t (bm_avg_confirmation blockchainMetrics) @ ''s''),
           (''Active Watchers'', nt_plain t (bm_watchers blockchainMetrics))]] \<rparr>"

definition flow_badge :: "string \<Rightarrow> string" where
  "flow_badge st = (if st = ''Settled'' then ''bg-emerald-100 text-emerald-800'' else if st = ''Failed'' then ''bg-red-100 text-red-800''
     else if st = ''Confirming'' then ''bg-blue-100 text-blue-800'' else ''bg-amber-100 text-amber-800'')"

text \<open>Rows whose last cell is a status.\<close>

definition badged :: "(string \<Rightarrow> string) \<Rightarrow> string list list \<Rightarrow> (string list \<times> string) list" where
  "badged badge rows = map (\<lambda>r. (r, badge (last r))) rows"

definition PaymentFlowPage :: "number_texts \<Rightarrow> (nat \<Rightarrow> rat) \<Rightarrow> op_page" where
  "PaymentFlowPage t rnd = \<lparr> og_title = ''Payment Flow'', og_subtitle = ''Monitor payment intents, success rates, and transaction volumes'',
     og_cards =
       [Metric_Card ''Intents Created'' (formatNumber (fm_created paymentFlowMetrics)) (Some ''Total payment intents'') (Some (125 / 10, True)),
        Metric_Card ''Intents Settled'' (formatNumber (fm_settled paymentFlowMetrics)) (Some ''Successfully completed'') (Some (82 / 10, True)),
        Metric_Card ''Success Rate'' (formatPercent (nt_fixed1 t) (fm_success_rate paymentFlowMetrics)) (Some ''Settlement success'') (Some (13 / 10, True)),
        Metric_Card ''Avg Settlement Time'' (formatLatency (nt_plain t) (nt_fixed1 t) (fm_avg_time paymentFlowMetrics * 1000)) (Some ''End-to-end latency'') None,
        Notice_Card (formatNumber (fm_active paymentFlowMetrics) @ '' Active Intents'') ''Currently awaiting payment or confirmation across all chains'',
        Series_Card Area_Chart ''Intents Created vs Settled (24h)'' (paymentFlowTimeSeries rnd) ''hour''
          [(''created'', ''Created''), (''settled'', ''Settled''), (''failed'', ''Failed'')],
        Series_Card Bar_Chart ''Intents by Chain'' (slices paymentFlowByChain) ''name'' [(''value'', ''Intents'')],
        Pie_Card ''Status Distribution'' paymentFlowByStatus,
        Table_Card ''Recent Intents'' [] (badged flow_badge
          [[''INT-8847'', ''Base'', ''$150.00'', ''2m ago'', ''Settled''], [''INT-8846'', ''Ethereum'', ''$2,400.00'', ''5m ago'', ''Confirming''],
           [''INT-8845'', ''Arbitrum'', ''$89.50'', ''8m ago'', ''Settled''], [''INT-8844'', ''Polygon'', ''$320.00'', ''12m ago'', ''Pending''],
           [''INT-8843'', ''Tron'', ''$45.00'', ''15m ago'', ''Settled''], [''INT-8842'', ''Base'', ''$1,200.00'', ''18m ago'', ''Failed'']])] \<rparr>"

definition settlement_badge :: "string \<Rightarrow> string" where
  "settlement_badge st = (if st = ''Settled'' then ''bg-emerald-100 text-emerald-800'' else ''bg-blue-100 text-blue-800'')"

definition SettlementPage :: "number_texts \<Rightarrow> (nat \<Rightarrow> rat) \<Rightarrow> op_page" where
  "SettlementPage t rnd = \<lparr> og_title = ''Settlement'', og_subtitle = ''Track settlement volume, success rates, and processing latency'',
     og_cards =
       [Metric_Card ''Total Volume'' (formatCurrency (sm_volume settlementMetrics)) (Some ''All-time settled'') (Some (153 / 10, True)),
        Metric_Card ''Success Rate'' (formatPercent (nt_fixed1 t) (sm_success_rate settlementMetrics)) (Some ''Settlement success'') (Some (8 / 10, True)),
        Metric_Card ''Avg Latency'' (formatLatency (nt_plain t) (nt_fixed1 t) (sm_avg_latency settlementMetrics * 1000)) (Some ''Processing time'') None,
        Metric_Card ''Failed Today'' (nt_plain t (sm_failed_today settlementMetrics)) (Some (nt_plain t (sm_settled_today settlementMetrics) @ '' settled'')) None,
        Notice_Card (nt_plain t (sm_waiting settlementMetrics) @ '' Pending Settlements'') ''Awaiting confirmation or processing across settlement chains'',
        Series_Card Area_Chart ''Settlement Volume (30d)'' (settlementTimeSeries rnd) ''date'' [(''volume'', ''Volume (USD)'')],
        Pie_Card ''By Asset'' settlementByAsset,
        Series_Card Line_Chart ''Settlement Latency (30d)'' (settlementTimeSeries rnd) ''date'' [(''latency'', ''Latency (seconds)'')],
        Series_Card Bar_Chart ''Settlements Per Day (30d)'' (settlementTimeSeries rnd) ''date'' [(''settlements'', ''Settlements'')],
        Table_Card ''Recent Settlements'' [''ID'', ''Chain'', ''Asset'', ''Amount'', ''Latency'', ''Status''] (badged settlement_badge
          [[''STL-447'', ''Base'', ''USDC'', ''$4,250.00'', ''1.8s'', ''Settled''], [''STL-446'', ''Ethereum'', ''USDT'', ''$12,800.00'', ''12.4s'', ''Settled''],
           [''STL-445'', ''Arbitrum'', ''USDC'', ''$890.00'', ''2.1s'', ''Settled''], [''STL-444'', ''Polygon'', ''USDC'', ''$3,200.00'', ''3.2s'', ''Processing''],
           [''STL-443'', ''Base'', ''ETH'', ''$8,400.00'', ''2.4s'', ''Settled''], [''STL-442'', ''Tron'', ''USDT'', ''$560.00'', ''4.8s'', ''Settled'']])] \<rparr>"

definition recovery_badge :: "string \<Rightarrow> string" where
  "recovery_badge st = (if st = ''Resolved'' then ''bg-emerald-100 text-emerald-800''
     else if st = ''Escalated'' then ''bg-red-100 text-red-800'' else ''bg-amber-100 text-amber-800'')"

definition RecoveryPage :: "number_texts \<Rightarrow> (nat \<Rightarrow> rat) \<Rightarrow> op_page" where
  "RecoveryPage t rnd = \<lparr> og_title = ''Recovery'', og_subtitle = ''Monitor recovery cases, resolution rates, and automated fixes'',
     og_cards =
       [Metric_Card ''Total Cases'' (formatNumber (rm_total recoveryMetrics)) (Some ''All-time recovery cases'') (Some (52 / 10, False)),
        Metric_Card ''Resolution Rate'' (formatPercent (nt_fixed1 t) (rm_resolution_rate recoveryMetrics)) (Some ''Successfully resolved'') (Some (21 / 10, True)),
        Metric_Card ''Avg Resolution Time'' (formatLatency (nt_plain t) (nt_fixed1 t) (rm_avg_time recoveryMetrics * 60 * 1000)) (Some ''Time to resolve'') None,
        Metric_Card ''Escalated'' (nt_plain t (rm_escalated recoveryMetrics)) (Some ''Requires manual review'') None,
        Notice_Card (nt_plain t (rm_waiting recoveryMetrics) @ '' Pending Cases'') ''Awaiting resolution or manual review by the operations team'',
        Series_Card Area_Chart ''Cases Created vs Resolved (30d)'' (recoveryTimeSeries rnd) ''date'' [(''cases'', ''Created''), (''resolved'', ''Resolved'')],
        Pie_Card ''Cases by Type'' recoveryByType,
        Table_Card ''Recent Recovery Cases'' [''Case ID'', ''Type'', ''Intent'', ''Chain'', ''Amount'', ''Status''] (badged recovery_badge
          [[''RCV-112'', ''Underpaid'', ''INT-8801'', ''Base'', ''$45.20'', ''Resolved''], [''RCV-111'', ''Overpaid'', ''INT-8799'', ''Ethereum'', ''$320.00'', ''Resolved''],
           [''RCV-110'', ''Misdirected'', ''INT-8795'', ''Polygon'', ''$1,200.00'', ''Pending''], [''RCV-109'', ''Stuck Tx'', ''INT-8790'', ''Tron'', ''$89.00'', ''Escalated''],
           [''RCV-108'', ''Wrong Chain'', ''INT-8785'', ''Arbitrum'', ''$560.00'', ''Resolved''], [''RCV-107'', ''Underpaid'', ''INT-8780'', ''Base'', ''$23.50'', ''Resolved'']])] \<rparr>"

text \<open>The colour of a gauge: red above 80, amber above 60, green otherwise.\<close>

definition gauge_colour :: "rat \<Rightarrow> string" where
  "gauge_colour v = (if 80 < v then ''#ef4444'' else if 60 < v then ''#f59e0b'' else ''#10b981'')"

definition UsageGauge :: "number_texts \<Rightarrow> string \<Rightarrow> rat \<Rightarrow> op_card" where
  "UsageGauge t title v = Gauge_Card title ''Usage'' (nt_plain t v @ ''%'') v (gauge_colour v)"

definition service_badge :: "string \<Rightarrow> string" where
  "service_badge st = (if st = ''Healthy'' then ''text-emerald-600'' else if st = ''Degraded'' then ''text-amber-600'' else ''text-red-600'')"

definition service_row :: "string \<Rightarrow> string \<Rightarrow> string \<Rightarrow> string \<Rightarrow> string list" where
  "service_row name status uptime latency = [name, ''Uptime: '' @ uptime, ''Latency: '' @ latency, status]"

definition InfrastructurePage :: "number_texts \<Rightarrow> (nat \<Rightarrow> rat) \<Rightarrow> op_page" where
  "InfrastructurePage t rnd = \<lparr> og_title = ''Infrastructure'', og_subtitle = ''Monitor system health, resource usage, and network performance'',
     og_cards =
       [Metric_Card ''CPU Usage'' (nt_plain t (im_cpu infrastructureMetrics) @ ''%'') (Some ''Average across nodes'') None,
        Metric_Card ''Memory Usage'' (nt_plain t (im_memory infrastructureMetrics) @ ''%'') (Some ''Heap utilization'') None,
        Metric_Card ''Disk Usage'' (nt_plain t (im_disk infrastructureMetrics) @ ''%'') (Some ''Storage utilization'') None,
        Metric_Card ''Active Connections'' (formatNumber (im_connections infrastructureMetrics)) (Some ''WebSocket + HTTP'') None,
        UsageGauge t ''CPU'' (im_cpu infrastructureMetrics), UsageGauge t ''Memory'' (im_memory infrastructureMetrics),
        UsageGauge t ''Disk'' (im_disk infrastructureMetrics),
        Series_Card Line_Chart ''CPU & Memory (60m)'' (infrastructureTimeSeries rnd) ''time'' [(''cpu'', ''CPU %''), (''memory'', ''Memory %'')],
        Series_Card Area_Chart ''Network Traffic (60m)'' (infrastructureTimeSeries rnd) ''time''
          [(''networkIn'', ''Inbound (MB/s)''), (''networkOut'', ''Outbound (MB/s)'')],
        Table_Card ''Service Status'' [] (badged service_badge
          [service_row ''API Gateway'' ''Healthy'' ''99.99%'' ''12ms'', service_row ''Payment Intent Service'' ''Healthy'' ''99.99%'' ''24ms'',
           service_row ''Routing Engine'' ''Healthy'' ''99.98%'' ''156ms'', service_row ''Gas Abstraction'' ''Healthy'' ''99.99%'' ''89ms'',
           service_row ''Settlement Service'' ''Healthy'' ''99.97%'' ''2.4s'', service_row ''Recovery Service'' ''Degraded'' ''99.90%'' ''340ms'',
           service_row ''Chain Watchers'' ''Healthy'' ''99.99%'' ''45ms'', service_row ''Reconciliation'' ''Healthy'' ''99.99%'' ''67ms''])] \<rparr>"

definition BlockchainPage :: "number_texts \<Rightarrow> (nat \<Rightarrow> rat) \<Rightarrow> (nat \<Rightarrow> rat) \<Rightarrow> op_page" where
  "BlockchainPage t rnd1 rnd2 = \<lparr> og_title = ''Blockchain'', og_subtitle = ''Monitor gas prices, confirmation times, and chain health'',
     og_cards =
       [Metric_Card ''ETH Gas Price'' (nt_plain t (bm_eth_gas blockchainMetrics) @ '' gwei'') (Some ''Ethereum L1'') None,
        Metric_Card ''Avg Confirmation'' (formatLatency (nt_plain t) (nt_fixed1 t) (bm_avg_confirmation blockchainMetrics * 1000)) (Some ''Across all chains'') None,
        Metric_Card ''Fees Collected'' (formatCurrency (bm_fees blockchainMetrics)) (Some ''Last 30 days'') (Some (84 / 10, True)),
        Metric_Card ''Active Watchers'' (nt_plain t (bm_watchers blockchainMetrics)) (Some ''Chain monitoring'') None,
        Series_Card Line_Chart ''Gas Prices by Chain (24h)'' (gasPriceTimeSeries rnd1) ''hour''
          [(''ethereum'', ''Ethereum (gwei)''), (''base'', ''Base (gwei)''), (''arbitrum'', ''Arbitrum (gwei)''), (''polygon'', ''Polygon (gwei)'')],
        Series_Card Bar_Chart ''Confirmation Times by Chain'' confirmationTimeByChain ''chain'' [(''time'', ''Time (seconds)'')],
        Series_Card Area_Chart ''Fee Collection (30d)'' (feeCollectionTimeSeries rnd2) ''date''
          [(''gasFees'', ''Gas Fees''), (''bridgeFees'', ''Bridge Fees''), (''relayerFees'', ''Relayer Fees'')],
        Table_Card ''Chain Health Status'' [''Chain'', ''Network'', ''Gas Price'', ''Block Time'', ''Confirmations'', ''Finality'', ''Status'']
          (badged (\<lambda>_. ''bg-emerald-100 text-emerald-800'')
          [[''Ethereum'', ''L1'', ''12.4 gwei'', ''~12s'', ''12'', ''~18 min'', ''Healthy''], [''Base'', ''L2 Rollup'', ''0.08 gwei'', ''~2s'', ''1'', ''~2s'', ''Healthy''],
           [''Arbitrum'', ''L2 Rollup'', ''0.12 gwei'', ''~0.25s'', ''1'', ''~1s'', ''Healthy''], [''Polygon'', ''L2 Sidechain'', ''30 gwei'', ''~2s'', ''128'', ''~5 min'', ''Healthy''],
           [''Tron'', ''L1'', ''TRX Energy'', ''~3s'', ''19'', ''~57s'', ''Healthy''], [''Solana'', ''L1'', ''0.000005 SOL'', ''~400ms'', ''32'', ''~13s'', ''Healthy'']])] \<rparr>"

text \<open>The page at a path of the sidebar's second part.\<close>

definition operations_page :: "number_texts \<Rightarrow> (nat \<Rightarrow> rat) \<Rightarrow> (nat \<Rightarrow> rat) \<Rightarrow> string \<Rightarrow> op_page option" where
  "operations_page t rnd1 rnd2 path = map_of
     [(''/'', OverviewPage t rnd1), (''/payment-flow'', PaymentFlowPage t rnd1), (''/settlement'', SettlementPage t rnd1),
      (''/recovery'', RecoveryPage t rnd1), (''/infrastructure'', InfrastructurePage t rnd1), (''/blockchain'', BlockchainPage t rnd1 rnd2)] path"

section \<open>What the numbers say\<close>

text \<open>The parts of the constant data add up to their totals, and the rates are theirs to one digit.\<close>

lemma mock_data_adds_up:
  "sum_list (map snd paymentFlowByChain) = fm_created paymentFlowMetrics"
  "sum_list (map snd paymentFlowByStatus) = fm_created paymentFlowMetrics"
  "fm_settled paymentFlowMetrics + fm_active paymentFlowMetrics = fm_created paymentFlowMetrics"
  "\<bar>fm_settled paymentFlowMetrics / fm_created paymentFlowMetrics * 100 - fm_success_rate paymentFlowMetrics\<bar> < 1 / 20"
  "sum_list (map snd settlementByAsset) = sm_volume settlementMetrics"
  "sum_list (map snd recoveryByType) = rm_total recoveryMetrics"
  "rm_resolved recoveryMetrics + rm_waiting recoveryMetrics + rm_escalated recoveryMetrics = rm_total recoveryMetrics"
  "\<bar>rm_resolved recoveryMetrics / rm_total recoveryMetrics * 100 - rm_resolution_rate recoveryMetrics\<bar> < 1 / 20"
  by (simp_all add: paymentFlowByChain_def paymentFlowByStatus_def paymentFlowMetrics_def settlementByAsset_def
      settlementMetrics_def recoveryByType_def recoveryMetrics_def)

text \<open>Without its commas a number reads as it does without grouping.\<close>

lemma group_rev_digits: "filter (\<lambda>c. c \<noteq> CHR '','') (group_rev ds) = filter (\<lambda>c. c \<noteq> CHR '','') ds"
  by (induction ds rule: group_rev.induct) simp_all

lemma formatNumber_digits: "filter (\<lambda>c. c \<noteq> CHR '','') (formatNumber (of_nat n)) = nat_text n"
proof -
  have "\<lfloor>rat_of_nat n * 1000 + 1 / 2\<rfloor> = int n * 1000" by (simp add: floor_eq_iff)
  then have "nat \<lfloor>\<bar>rat_of_nat n\<bar> * 10 ^ 3 + 1 / 2\<rfloor> = n * 1000" by simp
  moreover have "without_zeros (pad_start 3 CHR ''0'' (nat_text 0)) = []"
    by code_simp
  moreover have "\<forall>c \<in> set (nat_text n). c \<noteq> CHR '',''"
    using nat_text_digits(1) [of n] by (auto simp: is_digit_def digit_val_def)
  ultimately show ?thesis
    by (simp add: formatNumber_def minus_of_def en_US_def grouped_def rev_filter [symmetric] group_rev_digits filter_id_conv Let_def)
qed

text \<open>Every chart reads the axis and the series from fields its rows have.\<close>

definition chart_ok :: "op_card \<Rightarrow> bool" where
  "chart_ok c = (case c of
     Series_Card k title rows x ys \<Rightarrow> rows \<noteq> [] \<and> list_all (\<lambda>r. x \<in> fst ` set r \<and> fst ` set ys \<subseteq> fst ` set r) rows
   | _ \<Rightarrow> True)"

lemma charts_read_their_rows:
  assumes "operations_page t rnd1 rnd2 path = Some p"
  shows "list_all chart_ok (og_cards p)"
proof -
  have rows: "list_all P (map f ks) = (\<forall>k \<in> set ks. P (f k))" for P :: "payload \<Rightarrow> bool" and f and ks :: "'x list"
    by (auto simp: list_all_iff)
  have "upt 0 24 \<noteq> []" "upt 0 30 \<noteq> []" "upt 0 60 \<noteq> []" by simp_all
  then show ?thesis using assms
    by (auto simp: operations_page_def OverviewPage_def PaymentFlowPage_def SettlementPage_def RecoveryPage_def
        InfrastructurePage_def BlockchainPage_def UsageGauge_def chart_ok_def rows paymentFlowTimeSeries_def settlementTimeSeries_def
        recoveryTimeSeries_def infrastructureTimeSeries_def gasPriceTimeSeries_def feeCollectionTimeSeries_def slices_def
        paymentFlowByChain_def confirmationTimeByChain_def simp del: upt.simps upt_Suc split: if_splits)
qed

text \<open>Every item of the sidebar's second part has its page, and there is no other.\<close>

lemma sidebar_reaches_pages:
  "(operations_page t rnd1 rnd2 path \<noteq> None) = (path \<in> snd ` set merchantNavigation)"
  by (auto simp: operations_page_def merchantNavigation_def)

text \<open>The numbers of a chart stay within their range, but an hour may settle more than it creates, and Polygon's
  gas price never moves.\<close>

lemma rnd_from_range:
  assumes "0 \<le> r" "r < 1" "0 < n"
  shows "\<exists>k. rnd_from r n low = JNum (of_int k) \<and> low \<le> k \<and> k < low + n"
proof -
  have "0 \<le> r * of_int n" "r * of_int n < of_int n" using assms by simp_all
  then have "0 \<le> \<lfloor>r * of_int n\<rfloor>" "\<lfloor>r * of_int n\<rfloor> < n" by (simp_all add: floor_less_iff)
  then show ?thesis by (intro exI [of _ "\<lfloor>r * of_int n\<rfloor> + low"]) (simp add: rnd_from_def)
qed

lemma polygon_gas_constant:
  assumes "\<And>n. 0 \<le> rnd n \<and> rnd n < 1" "row \<in> set (gasPriceTimeSeries rnd)"
  shows "map_of row ''polygon'' = Some (JNum (5 / 1000))"
proof -
  have "\<lfloor>rnd n * (1 / 100) * 100\<rfloor> = 0" for n using assms(1) [of n] by (simp add: floor_eq_iff)
  then show ?thesis using assms(2) by (auto simp: gasPriceTimeSeries_def rnd_hundredths_def)
qed

end
