(* ===== verification/Demo_Page_View.thy ===== *)
theory Demo_Page_View
  imports Checkout_Page
begin

text \<open>
  What the demonstration page (\<open>dashboard/src/app/pay/demo/page.tsx\<close>) shows in each of its steps: the card of the
  step with its values and controls.  Amounts are the numbers \<open>toFixed\<close> prints; icons, the fixed QR pattern and
  class names are left out.
\<close>

section \<open>The cards\<close>

record method_option =
  mo_symbol :: string
  mo_name :: string
  mo_amount :: rat
  mo_chosen :: bool

record pay_card =
  pk_status :: string
  pk_hint :: string
  pk_amount :: rat
  pk_symbol :: string
  pk_usd :: rat
  pk_network :: string
  pk_address :: string
  pk_copied :: bool
  pk_bars :: "bool list"
  pk_elapsed :: nat

datatype demo_card =
    Select_Card "method_option list" "(string \<times> bool) list option" string bool
  | Quote_Card string string
  | Pay_Card pay_card
  | Done_Card string "(string \<times> string) list"

definition OPTION_NAMES :: "(string \<times> string) list" where
  "OPTION_NAMES = [(''ETH'', ''Ethereum''), (''USDC'', ''USD Coin''), (''USDT'', ''Tether'')]"

definition option_amount :: "string \<Rightarrow> string \<Rightarrow> rat" where
  "option_amount selected c =
     (if selected = c then cryptoAmount selected
      else to_fixed (if c = ''ETH'' then 6 else 2) (250 / (case map_of MOCK_RATES c of None \<Rightarrow> 1 | Some r \<Rightarrow> if r = 0 then 1 else r)))"

definition method_options :: "string \<Rightarrow> method_option list" where
  "method_options selected = map (\<lambda>(c, _). \<lparr> mo_symbol = c,
     mo_name = (case map_of OPTION_NAMES c of None \<Rightarrow> [] | Some n \<Rightarrow> n),
     mo_amount = option_amount selected c, mo_chosen = (selected = c) \<rparr>) CRYPTO_OPTIONS"

definition network_options :: "demo_page \<Rightarrow> (string \<times> bool) list option" where
  "network_options s =
     (if dm_crypto s = [] then None
      else Some (map (\<lambda>n. (n, dm_chain s = n)) (case map_of CRYPTO_OPTIONS (dm_crypto s) of None \<Rightarrow> [] | Some ns \<Rightarrow> ns)))"

definition status_texts :: "demo_state \<Rightarrow> string \<times> string" where
  "status_texts st = (case st of
     Waiting \<Rightarrow> (''Awaiting Payment'', ''Send exactly the amount below'')
   | Detected_Step \<Rightarrow> (''Payment Detected!'', ''Waiting for block confirmations...'')
   | Confirming_Step \<Rightarrow> (''Confirming on-chain'', ''Processing your transaction...'')
   | _ \<Rightarrow> ([], []))"

definition progressSteps :: "string list" where
  "progressSteps = [''Waiting'', ''Detected'', ''Confirming'', ''Settled'']"

definition pay_card_of :: "bool \<Rightarrow> demo_page \<Rightarrow> pay_card" where
  "pay_card_of copied s = \<lparr>
     pk_status = fst (status_texts (dm_step s)), pk_hint = snd (status_texts (dm_step s)),
     pk_amount = cryptoAmount (dm_crypto s), pk_symbol = dm_crypto s, pk_usd = to_fixed 2 250, pk_network = dm_chain s,
     pk_address = demo_address (dm_crypto s), pk_copied = copied,
     pk_bars = map (\<lambda>i. int i \<le> progress_index (dm_step s)) [0..<length progressSteps], pk_elapsed = dm_elapsed s \<rparr>"

text \<open>\<open>fixed\<close> is the text \<open>toFixed\<close> prints for a number.\<close>

definition demo_card_of :: "(rat \<Rightarrow> string) \<Rightarrow> bool \<Rightarrow> demo_page \<Rightarrow> demo_card" where
  "demo_card_of fixed copied s = (case dm_step s of
     Select \<Rightarrow> Select_Card (method_options (dm_crypto s)) (network_options s)
       (''Continue with '' @ (if dm_crypto s = [] then ''...'' else dm_crypto s)) (dm_crypto s = [] \<or> dm_chain s = [])
   | Quoting \<Rightarrow> Quote_Card ''Generating quote...'' ''Locking exchange rate''
   | Settled_Step \<Rightarrow>
       (let paid = fixed (cryptoAmount (dm_crypto s)) @ '' '' @ dm_crypto s in
        Done_Card (paid @ '' received'')
          [(''Amount'', paid), (''Network'', dm_chain s), (''Status'', ''Settled''), (''Tx Hash'', ''0x7f9fade...b3c4'')])
   | _ \<Rightarrow> Pay_Card (pay_card_of copied s))"

text \<open>The copy button: what goes to the clipboard, and the mark.\<close>

definition demo_copyAddress :: "demo_page \<Rightarrow> string \<times> bool" where
  "demo_copyAddress s = (demo_address (dm_crypto s), True)"

section \<open>What a customer can be shown\<close>

text \<open>The amount of an option does not depend on what is selected.\<close>

lemma option_amount_stable:
  assumes "c \<in> fst ` set CRYPTO_OPTIONS"
  shows "option_amount selected c = cryptoAmount c"
  using assms by (auto simp: option_amount_def CRYPTO_OPTIONS_def cryptoAmount_def demo_rate_def MOCK_RATES_def)

text \<open>Whatever is clicked, an address is shown only with the currency and network it belongs to, never the zero
  address, with one more bar for every step, and with fewer seconds than the step lasts.\<close>

theorem shown_address_belongs_to_choice:
  assumes "demo_step\<^sup>*\<^sup>* demo_start s" "demo_card_of fixed copied s = Pay_Card k"
  shows "(\<exists>ns. (pk_symbol k, ns) \<in> set CRYPTO_OPTIONS \<and> pk_network k \<in> set ns) \<and> (pk_symbol k, pk_address k) \<in> set MOCK_ADDRESSES
     \<and> pk_address k \<noteq> zero_address \<and> pk_amount k = option_amount [] (pk_symbol k) \<and> pk_elapsed k < 8
     \<and> length (filter id (pk_bars k)) = nat (progress_index (dm_step s)) + 1"
proof -
  have ok: "demo_ok s" using assms(1) by (rule demo_always_ok)
  have step: "dm_step s \<in> {Waiting, Detected_Step, Confirming_Step}" and k: "k = pay_card_of copied s"
    using assms(2) by (auto simp: demo_card_of_def Let_def split: demo_state.splits)
  obtain ns where ns: "map_of CRYPTO_OPTIONS (dm_crypto s) = Some ns" "dm_chain s \<in> set ns" "dm_elapsed s < 8"
    using ok step by (auto simp: demo_ok_def)
  have c: "dm_crypto s \<in> {''ETH'', ''USDC'', ''USDT''}" using ns(1) by (auto simp: CRYPTO_OPTIONS_def split: if_splits)
  then have "(dm_crypto s, demo_address (dm_crypto s)) \<in> set MOCK_ADDRESSES" "demo_address (dm_crypto s) \<noteq> zero_address"
    by (auto simp: demo_address_def MOCK_ADDRESSES_def zero_address_def)
  moreover have "cryptoAmount (dm_crypto s) = option_amount [] (dm_crypto s)"
    using c by (intro option_amount_stable [symmetric]) (auto simp: CRYPTO_OPTIONS_def)
  moreover have "length (filter id (map (\<lambda>i. int i \<le> progress_index (dm_step s)) [0..<length progressSteps]))
      = nat (progress_index (dm_step s)) + 1"
    using step by (auto simp: progress_index_def progressSteps_def upt_rec)
  ultimately show ?thesis using ns by (auto simp: k pay_card_of_def dest: map_of_SomeD)
qed

end
