(* ===== verification/Transactional_Queue.thy ===== *)
theory Transactional_Queue
  imports Database_Client Job_Queue
begin

text \<open>
  The two methods of the job queue that take part in a caller's transaction (\<open>worker/src/job-queue.ts\<close>):
  \<open>enqueue\<close> on a given client, and \<open>withTransaction\<close>.  What is stored is the caller's tables and the jobs.
\<close>

section \<open>Enqueueing on a client\<close>

text \<open>The INSERT as a statement on the stored tables; a refused one has the text of its error.\<close>

definition sql_enqueue :: "queue_options \<Rightarrow> int \<Rightarrow> string \<Rightarrow> enqueue_request \<Rightarrow> ('t \<times> job list, bool) sql_statement" where
  "sql_enqueue opts now i r d = (case d of (tables, jobs) \<Rightarrow>
     (case enqueue opts now i r jobs of
        (jobs', Inr b) \<Rightarrow> Inr (b, (tables, jobs'))
      | (jobs', Inl (JsError _ m)) \<Rightarrow> Inl (Refused m)
      | (jobs', Inl (JsThrown _)) \<Rightarrow> Inl (Refused [])))"

definition client_enqueue ::
    "queue_options \<Rightarrow> int \<Rightarrow> string \<Rightarrow> enqueue_request \<Rightarrow> ('t \<times> job list) session \<Rightarrow> ('t \<times> job list) session \<times> (sql_error + bool)" where
  "client_enqueue opts now i r s = send (sql_enqueue opts now i r) s"

text \<open>\<open>withTransaction\<close> hands the client of a transaction to its argument.\<close>

definition withTransaction ::
    "(sql_error \<Rightarrow> 'e) \<Rightarrow> sql_error option \<Rightarrow> (('t \<times> job list) session \<Rightarrow> ('t \<times> job list) session \<times> ('e + 'a))
      \<Rightarrow> ('t \<times> job list) session \<Rightarrow> ('t \<times> job list) session \<times> ('e + 'a)" where
  "withTransaction thrown_as refused fn s = transaction thrown_as refused (\<lambda>client. fn client) s"

section \<open>The job and the change of state commit together\<close>

text \<open>A statement on the caller's tables.\<close>

definition on_tables :: "('t, 'a) sql_statement \<Rightarrow> ('t \<times> job list, 'a) sql_statement" where
  "on_tables q d = (case q (fst d) of Inl e \<Rightarrow> Inl e | Inr (v, t) \<Rightarrow> Inr (v, (t, snd d)))"

definition change_and_enqueue ::
    "(sql_error \<Rightarrow> 'e) \<Rightarrow> ('t, 'a) sql_statement \<Rightarrow> queue_options \<Rightarrow> int \<Rightarrow> string \<Rightarrow> enqueue_request
      \<Rightarrow> ('t \<times> job list) session \<Rightarrow> ('t \<times> job list) session \<times> ('e + 'a \<times> bool)" where
  "change_and_enqueue thrown_as q opts now i r s =
     andThen (lift_error thrown_as (send (on_tables q) s)) (\<lambda>s v.
     andThen (lift_error thrown_as (client_enqueue opts now i r s)) (\<lambda>s b. (s, Inr (v, b))))"

lemma change_and_enqueue_body: "tx_body (change_and_enqueue f q opts now i r)"
  unfolding change_and_enqueue_def [abs_def] client_enqueue_def by (intro tx_intros)

lemma sql_enqueue_Inr:
  "sql_enqueue opts now i r d = Inr (b, d') \<longleftrightarrow> fst d' = fst d \<and> enqueue opts now i r (snd d) = (snd d', Inr b)"
  by (cases d; cases d') (auto simp: sql_enqueue_def split: prod.splits sum.splits js_error.splits)

lemma change_and_enqueue_result:
  assumes "change_and_enqueue f q opts now i r (begun s) = (s1, Inr (v, b))"
  obtains t jobs where "ss_tx s1 = In_Tx (t, jobs)" "q (fst (ss_stored s)) = Inr (v, t)"
    "enqueue opts now i r (snd (ss_stored s)) = (jobs, Inr b)"
proof -
  from assms obtain s0 where s0: "send (on_tables q) (begun s) = (s0, Inr v)" "client_enqueue opts now i r s0 = (s1, Inr b)"
    by (auto simp: change_and_enqueue_def lift_error_def elim!: andThenE split: prod.splits sum.splits)
  have "ss_tx (begun s) = In_Tx (ss_stored s)" by (simp add: begun_def)
  with s0(1) obtain d0 where "on_tables q (ss_stored s) = Inr (v, d0)" "ss_tx s0 = In_Tx d0" by (rule send_value)
  then obtain t where t: "q (fst (ss_stored s)) = Inr (v, t)" "ss_tx s0 = In_Tx (t, snd (ss_stored s))"
    by (auto simp: on_tables_def split: sum.splits)
  from s0(2) [unfolded client_enqueue_def] t(2) obtain d where "sql_enqueue opts now i r (t, snd (ss_stored s)) = Inr (b, d)" "ss_tx s1 = In_Tx d"
    by (rule send_value)
  with t(1) show ?thesis by (cases d) (auto simp: sql_enqueue_Inr intro: that)
qed

text \<open>The change and the job are both there, the job under its key.\<close>

definition both_stored :: "('t, 'a) sql_statement \<Rightarrow> queue_options \<Rightarrow> int \<Rightarrow> string \<Rightarrow> enqueue_request \<Rightarrow> 't \<times> job list
    \<Rightarrow> 'a \<times> bool \<Rightarrow> 't \<times> job list \<Rightarrow> bool" where
  "both_stored q opts now i r d vb d' = (q (fst d) = Inr (fst vb, fst d') \<and> enqueue opts now i r (snd d) = (snd d', Inr (snd vb))
     \<and> jb_key (new_job opts now i r) \<in> jb_key ` set (snd d'))"

lemma change_and_enqueue_both:
  assumes "change_and_enqueue f q opts now i r (begun s) = (s1, Inr vb)"
  shows "\<exists>d. ss_tx s1 = In_Tx d \<and> both_stored q opts now i r (ss_stored s) vb d"
proof -
  obtain v b where vb: "vb = (v, b)" by (cases vb)
  from assms [unfolded vb] show ?thesis
  proof (rule change_and_enqueue_result)
    fix t jobs assume t: "ss_tx s1 = In_Tx (t, jobs)" "q (fst (ss_stored s)) = Inr (v, t)" "enqueue opts now i r (snd (ss_stored s)) = (jobs, Inr b)"
    then have "jb_key (new_job opts now i r) \<in> jb_key ` set jobs"
      by (auto simp: enqueue_def Let_def tbl_insert_def split: if_splits)
    with t show ?thesis by (simp add: both_stored_def vb)
  qed
qed

text \<open>Either both the change and the job are stored, the job under its key, or neither is, whatever fails; after
  an error both can be there only if the answer to COMMIT was lost.\<close>

theorem job_commits_with_state:
  assumes "ss_tx s = No_Tx" "withTransaction f refused (change_and_enqueue f q opts now i r) s = (s', res)"
  shows "ss_tx s' = No_Tx \<and> ss_out s' = ss_out s \<and> (case res of
      Inl e \<Rightarrow> ss_stored s' = ss_stored s \<or> e = f Connection_Lost \<and> (\<exists>vb. both_stored q opts now i r (ss_stored s) vb (ss_stored s'))
    | Inr vb \<Rightarrow> both_stored q opts now i r (ss_stored s) vb (ss_stored s'))"
proof -
  note all = transaction_outcome [OF change_and_enqueue_body assms(1) assms(2) [unfolded withTransaction_def]]
  obtain s1 r1 where b: "change_and_enqueue f q opts now i r (begun s) = (s1, r1)" by fastforce
  show ?thesis
  proof (cases r1)
    case (Inr vb)
    from change_and_enqueue_both [OF b [unfolded Inr]] all b Inr show ?thesis
      by (cases res) (auto simp: commit_unheard_def simp del: split_paired_Ex)
  qed (use all b in \<open>auto simp: commit_unheard_def split: sum.splits\<close>)
qed

end
