(* ===== verification/Deployed_Chains.thy ===== *)
theory Deployed_Chains
  imports Merchant_Form_Properties Worker_Properties Worker_Boot Migrations
begin

text \<open>
  Which chains the parts of the system know: the catalogue of \<open>shared/src/types/chain-config.ts\<close>, the defaults
  inside the EVM client, the chains the worker can be configured for, and the chains the registration,
  its defaults and the seed give a merchant.
\<close>

section \<open>The catalogue\<close>

record catalog_entry =
  ce_chain_id :: string
  ce_chain_name :: string
  ce_rpc_url :: string
  ce_confirmation_depth :: int
  ce_block_time :: rat
  ce_native :: asset_info
  ce_explorer :: string
  ce_eip1559 :: bool
  ce_account_abstraction :: bool

definition CHAIN_IDS :: "(string \<times> string) list" where
  "CHAIN_IDS =
     [(''ETHEREUM'', ''1''), (''SEPOLIA'', ''11155111''), (''BASE'', ''8453''), (''BASE_SEPOLIA'', ''84532''),
      (''ARBITRUM'', ''42161''), (''ARBITRUM_SEPOLIA'', ''421614''), (''POLYGON'', ''137''), (''POLYGON_AMOY'', ''80002''),
      (''OPTIMISM'', ''10''), (''OPTIMISM_SEPOLIA'', ''11155420''), (''TRON'', ''tron-mainnet''), (''TRON_NILE'', ''tron-nile''),
      (''SOLANA'', ''solana-mainnet''), (''SOLANA_DEVNET'', ''solana-devnet'')]"

definition catalog_evm ::
    "string \<Rightarrow> string \<Rightarrow> string \<Rightarrow> int \<Rightarrow> rat \<Rightarrow> string \<Rightarrow> string \<Rightarrow> string \<Rightarrow> bool \<Rightarrow> string \<times> catalog_entry" where
  "catalog_evm i name rpc depth time coin coin_name explorer aa = (i,
     \<lparr> ce_chain_id = i, ce_chain_name = name, ce_rpc_url = rpc, ce_confirmation_depth = depth, ce_block_time = time,
       ce_native = \<lparr> as_address = zero_address, as_symbol = coin, as_decimals = 18, as_name = coin_name \<rparr>,
       ce_explorer = explorer, ce_eip1559 = True, ce_account_abstraction = aa \<rparr>)"

definition SHARED_CHAIN_CONFIGS :: "(string \<times> catalog_entry) list" where
  "SHARED_CHAIN_CONFIGS =
     [catalog_evm ''1'' ''Ethereum'' [] 12 12 ''ETH'' ''Ether'' ''https://etherscan.io'' True,
      catalog_evm ''8453'' ''Base'' [] 1 2 ''ETH'' ''Ether'' ''https://basescan.org'' True,
      catalog_evm ''42161'' ''Arbitrum One'' [] 1 (1 / 4) ''ETH'' ''Ether'' ''https://arbiscan.io'' True,
      catalog_evm ''137'' ''Polygon'' [] 128 2 ''POL'' ''POL'' ''https://polygonscan.com'' True,
      catalog_evm ''10'' ''Optimism'' [] 1 2 ''ETH'' ''Ether'' ''https://optimistic.etherscan.io'' True,
      catalog_evm ''11155111'' ''Sepolia'' ''https://rpc.sepolia.org'' 12 12 ''ETH'' ''Sepolia ETH'' ''https://sepolia.etherscan.io'' False,
      catalog_evm ''84532'' ''Base Sepolia'' ''https://sepolia.base.org'' 1 2 ''ETH'' ''Base Sepolia ETH''
        ''https://sepolia.basescan.org'' False]"

text \<open>The catalogue and the EVM client, which has its own table, agree on every chain of the catalogue.\<close>

lemma catalog_agrees_with_client:
  "list_all (\<lambda>(i, e). ce_chain_id e = i \<and> i \<in> snd ` set CHAIN_IDS
     \<and> (let c = new_evm_config i n url \<lparr> eo_depth = None, eo_block_time = None, eo_eip1559 = None \<rparr> in
        ec_depth c = ce_confirmation_depth e \<and> ec_block_time c = ce_block_time e \<and> ec_native c = ce_native e
        \<and> ec_eip1559 c = ce_eip1559 e)) SHARED_CHAIN_CONFIGS"
  by (simp add: SHARED_CHAIN_CONFIGS_def catalog_evm_def CHAIN_IDS_def new_evm_config_def DEFAULT_CONFIGS_def
      NATIVE_ASSETS_def native_def ZeroAddress_def zero_address_def Let_def)

text \<open>The worker is stricter or looser than the client's own default where both know a testnet.\<close>

lemma worker_depths_differ:
  "map_of (map (\<lambda>k. (kc_chain_id k, kc_default_depth k)) KNOWN_CHAINS) ''80002'' = Some 64"
  "map_option fst (map_of DEFAULT_CONFIGS ''80002'') = Some 128"
  by (simp_all add: KNOWN_CHAINS_def DEFAULT_CONFIGS_def)

section \<open>What the worker can watch\<close>

lemma loadConfig_chains:
  assumes "loadConfig sfx env = Inr c"
  shows "set (map rc_chain_id (wc_chains c)) \<subseteq> set (map kc_chain_id KNOWN_CHAINS)"
proof -
  from assms obtain cs where cs: "load_chains env KNOWN_CHAINS = Inr cs" "wc_chains c = cs"
    by (auto simp: loadConfig_def sum_bind_def split: sum.splits if_splits)
  have "map rc_chain_id cs = map kc_chain_id (enabled env KNOWN_CHAINS)"
    using load_chains_cases [OF known_chains_facts(1), of env] cs(1) by (auto simp: configured_chain_def)
  then have "set (map rc_chain_id cs) = set (map kc_chain_id (enabled env KNOWN_CHAINS))" by (rule arg_cong)
  then show ?thesis by (auto simp: cs(2) enabled_def)
qed

lemma runtime_chains:
  assumes "compose c = Inr r"
  shows "map client_id (wr_clients r) = map rc_chain_id (wc_chains c)"
  using assms by (cases "register_all (map createChainClient (wc_chains c)) empty_registry") (auto simp: compose_def Let_def)

lemma refreshes_stay_on_chains:
  assumes "live (dw_calls w) = subscribed w" "subscribed w \<subseteq> set cs \<times> UNIV"
  shows "live (dw_calls (fold (refresh cs) dbs w)) \<subseteq> set cs \<times> UNIV"
proof -
  have "live (dw_calls (fold (refresh cs) dbs w)) = subscribed (fold (refresh cs) dbs w)
      \<and> subscribed (fold (refresh cs) dbs w) \<subseteq> set cs \<times> UNIV"
    using assms
  proof (induction dbs arbitrary: w)
    case (Cons db dbs)
    have "live (dw_calls (refresh cs db w)) = subscribed (refresh cs db w)"
      unfolding refresh_def by (rule refresh_fold_live) (rule Cons.prems(1))
    moreover have "subscribed (refresh cs db w) \<subseteq> set cs \<times> UNIV"
      using Cons.prems(2) unfolding refresh_def refresh_fold by blast
    ultimately show ?case using Cons.IH by simp
  qed simp
  then show ?thesis by simp
qed

section \<open>What merchants accept\<close>

lemma known_chains_are_testnets: "fst ` set CHAINS \<inter> set (map kc_chain_id KNOWN_CHAINS) = {}"
  by (simp add: CHAINS_def KNOWN_CHAINS_def)

lemma seed_and_default_chains:
  "m \<in> set (seed_merchants now) \<Longrightarrow> set (m_accepted_chains m) \<subseteq> fst ` set CHAINS"
  "sg_chains d = None \<Longrightarrow> set (m_accepted_chains (new_merchant e d)) \<subseteq> fst ` set CHAINS"
  by (auto simp: seed_merchants_def seed_merchant_def CHAINS_def new_merchant_def split: prod.splits)

text \<open>C36: Whatever the environment of the worker enables, and however often its watcher refreshes on whatever
  tables, it has a client for none of the chains a merchant made by the registration page accepts or is paid
  on, however many the page made, and it never listens for a deposit on one of them.\<close>

theorem page_merchants_are_unwatched:
  assumes "(register_step syntax_ok)\<^sup>*\<^sup>* (g0, register_start, []) (g, s, w)"
    and "db_merchants (gw_db g) = db_merchants (gw_db g0) @ made" "m \<in> set made"
    and "loadConfig sfx env = Inr c" "compose c = Inr r"
  shows "set (map client_id (wr_clients r)) \<inter> insert (m_settlement_chain m) (set (m_accepted_chains m)) = {}
    \<and> live (dw_calls (fold (refresh (map client_id (wr_clients r))) dbs new_watcher)) \<inter> set (m_accepted_chains m) \<times> UNIV = {}"
proof -
  have "list_all (complete_merchant syntax_ok) made"
    using register_reach_complete [OF assms(1)] assms(2) by auto
  then have "complete_merchant syntax_ok m" using assms(3) by (simp add: list_all_iff)
  then have m: "insert (m_settlement_chain m) (set (m_accepted_chains m)) \<subseteq> fst ` set CHAINS"
    by (simp add: complete_merchant_def)
  have ids: "set (map client_id (wr_clients r)) \<subseteq> set (map kc_chain_id KNOWN_CHAINS)"
    using loadConfig_chains [OF assms(4)] by (simp only: runtime_chains [OF assms(5)])
  have "live (dw_calls (fold (refresh (map client_id (wr_clients r))) dbs new_watcher)) \<subseteq> set (map client_id (wr_clients r)) \<times> UNIV"
    by (rule refreshes_stay_on_chains) (simp_all add: new_watcher_def live_def subscribed_def)
  then show ?thesis using m ids known_chains_are_testnets by blast
qed

definition ex_worker_env :: "string \<Rightarrow> string option" where
  "ex_worker_env key = (if key = ''ETHEREUM_RPC_URL'' then Some ''http://rpc'' else None)"

lemma ex_worker_boots: "\<exists>c r. loadConfig ''w'' ex_worker_env = Inr c \<and> compose c = Inr r"
proof -
  have "env_ok ex_worker_env"
    by (simp add: env_ok_def ex_worker_env_def KNOWN_CHAINS_def int_setting_ok_def worker_settings_def truthy_str_def)
  then obtain c where c: "loadConfig ''w'' ex_worker_env = Inr c" "config_ok c"
    using loadConfig_cases [where sfx = "''w''" and env = ex_worker_env] by (auto split: sum.splits)
  with compose_ok [OF c(2)] show ?thesis by blast
qed

theorem page_merchants_are_unwatched_witness:
  "\<exists>(g :: gateway) m c r. db_merchants (gw_db g) = [m] \<and> loadConfig ''w'' ex_worker_env = Inr c \<and> compose c = Inr r
     \<and> set (map client_id (wr_clients r)) \<inter> insert (m_settlement_chain m) (set (m_accepted_chains m)) = {}"
proof -
  obtain g s where run: "(register_step (\<lambda>_ _. True))\<^sup>*\<^sup>* (empty_gateway [], register_start, []) (g, s, [])"
      "length (db_merchants (gw_db g)) = 1"
    using ex_registration_run by blast
  then obtain m where m: "db_merchants (gw_db g) = db_merchants (gw_db (empty_gateway [])) @ [m]"
    by (auto simp: empty_gateway_def length_Suc_conv)
  obtain c r where boot: "loadConfig ''w'' ex_worker_env = Inr c" "compose c = Inr r" using ex_worker_boots by blast
  have "db_merchants (gw_db g) = [m]" using m by (simp add: empty_gateway_def)
  moreover have "set (map client_id (wr_clients r)) \<inter> insert (m_settlement_chain m) (set (m_accepted_chains m)) = {}"
    using page_merchants_are_unwatched [OF run(1) m _ boot, of m "[]"] by simp
  ultimately have "db_merchants (gw_db g) = [m] \<and> loadConfig ''w'' ex_worker_env = Inr c \<and> compose c = Inr r
      \<and> set (map client_id (wr_clients r)) \<inter> insert (m_settlement_chain m) (set (m_accepted_chains m)) = {}"
    by (simp only: boot simp_thms)
  then show ?thesis by (intro exI)
qed

end
