(* ===== verification/Public_Checkout.thy ===== *)
theory Public_Checkout
  imports Api_Properties Deposit_Watcher Evm_Client
begin

text \<open>
  From a public checkout to the job for its deposit: what the gateway's route
  (\<open>api-gateway/src/routes/public-intents.ts\<close>) leaves in the database, what the deposit watcher
  (\<open>worker/src/deposit-watcher.ts\<close>) makes of an event a chain client reports, and the address such an event
  carries (\<open>chain-abstraction/src/evm/evm-chain-client.ts\<close>).  Whether the worker listens on the chain at
  all is not a matter of this theory.
\<close>

section \<open>The address of an event\<close>

lemma lower_char_idem: "lower_char (lower_char c) = lower_char c"
  by (cases "(of_char c :: nat) \<ge> 65 \<and> (of_char c :: nat) \<le> 90") (auto simp: lower_char_def Let_def)

lemma to_lower_idem: "to_lower (to_lower s) = to_lower s"
  by (simp add: to_lower_def lower_char_idem)

text \<open>A token transfer is reported at an address in lower case, a native one at the address as the provider
  spells it.\<close>

lemma token_address_lower:
  assumes "transfer_to lg = Some dest"
  shows "to_lower (de_to (token_event current n h lg dest amount)) = de_to (token_event current n h lg dest amount)"
proof -
  have "dest = ''0x'' @ to_lower (drop 26 (lo_topics lg ! 2))" using assms by (auto simp: transfer_to_def split: if_splits)
  moreover have "to_lower (''0x'' @ to_lower t) = ''0x'' @ to_lower t" for t
    using to_lower_idem [of t] by (simp add: to_lower_def lower_char_def Let_def)
  ultimately show ?thesis by (simp add: token_event_def)
qed

section \<open>The job of a deposit\<close>

definition deposit_request :: "intent_db \<Rightarrow> string \<Rightarrow> deposit_event \<Rightarrow> enqueue_request" where
  "deposit_request db chainId e = (case findAwaitingDepositAt db chainId (de_to e) of
     None \<Rightarrow> unattributed_request chainId e | Some p \<Rightarrow> record_request chainId e p)"

lemma onDeposit_enqueues:
  "snd (fst (onDeposit opts now i db chainId e (w, jobs))) = fst (enqueue opts now i (deposit_request db chainId e) jobs)"
  by (simp add: onDeposit_def deposit_request_def Let_def split: option.splits prod.splits)

lemma found_at_address:
  assumes "findAwaitingDepositAt db chain addr = Some q"
  shows "\<exists>r \<in> set (db_intents db). q = mapRow r \<and> pi_deposit_address r = Some addr"
proof -
  let ?rows = "filter (\<lambda>r. pi_deposit_chain r = Some chain \<and> pi_deposit_address r = Some addr \<and> expects_deposit (pi_state r)) (db_intents db)"
  obtain r t where r: "order_desc pi_created_at ?rows = r # t" "q = mapRow r"
    using assms by (auto simp: findAwaitingDepositAt_def split: list.splits)
  have "r \<in> set ?rows" using set_order_desc [of pi_created_at ?rows] r(1) by (metis list.set_intros(1))
  with r(2) show ?thesis by auto
qed

text \<open>An event at another address is never a deposit for an intent that is quoted at \<open>addr\<close>.\<close>

lemma elsewhere_not_recorded:
  assumes "gw_ok g" "r \<in> set (db_intents (gw_db g))" "pi_deposit_address r = Some addr" "de_to e \<noteq> addr"
  shows "map_of (er_payload (deposit_request (gw_db g) chain e)) ''intentId'' \<noteq> Some (JStr (pi_id r))"
proof (cases "findAwaitingDepositAt (gw_db g) chain (de_to e)")
  case None
  then show ?thesis by (simp add: deposit_request_def unattributed_request_def)
next
  case (Some q)
  then obtain z where z: "z \<in> set (db_intents (gw_db g))" "q = mapRow z" "pi_deposit_address z = Some (de_to e)"
    using found_at_address by blast
  have "pi_id z \<noteq> pi_id r"
    using gw_ok_distinct [OF assms(1)] z(1,3) assms(2-4) by (metis distinct_map inj_on_contraD option.inject)
  with Some z(2) show ?thesis by (simp add: deposit_request_def record_request_def)
qed

text \<open>C34: a public checkout for an order the merchant accepts, served alone, is answered 201 and leaves a new
  intent QUOTED for the amount asked.  When the watcher is then told of a deposit on that chain at the settlement
  address, spelled as it is stored, it enqueues the job that records it for the new intent; told of one
  at any other spelling or address, it enqueues no job for this intent.  The EVM client reports a token
  transfer in lower case, so a token deposit at an address with capitals is never recorded for the intent.\<close>

theorem public_checkout_quotes:
  assumes "gw_ok g" "fresh_all (w_env (ax_webhook x)) g" "getById (db_merchants (gw_db g)) mid = Some m"
    and "mid \<noteq> []" "ref \<noteq> []" "asset \<noteq> []" "chain \<noteq> []" "m_settlement_address m \<noteq> []"
    and "asset \<in> set (m_accepted_assets m)" "chain \<in> set (m_accepted_chains m)" "0 < amount" "amount \<le> 1000000"
    and "fits 255 ref" "fits 20 asset" "fits 20 chain" "fits 255 (m_settlement_address m)"
    and "\<forall>r \<in> set (db_intents (gw_db g)). pi_created_at r < e_now (w_env (ax_webhook x))"
  shows "\<exists>g' resp p. handle x (PostPublicIntent (Some mid) \<lparr> ib_merchant_id = None, ib_order_ref = Some ref,
        ib_target_amount = Some amount, ib_target_asset = Some asset, ib_target_chain = Some chain,
        ib_accepted_assets = assets \<rparr>) g = (g', resp)
     \<and> ap_status resp = 201 \<and> findAwaitingDepositAt (gw_db g') chain (m_settlement_address m) = Some p
     \<and> pi_state p = QUOTED \<and> pi_merchant_id p = mid \<and> \<bar>pi_target_amount p - amount\<bar> \<le> 1 / 200000000
     \<and> pi_id p \<notin> pi_id ` set (db_intents (gw_db g))
     \<and> (\<forall>opts now i w jobs e. \<exists>r. snd (fst (onDeposit opts now i (gw_db g') chain e (w, jobs))) = fst (enqueue opts now i r jobs)
          \<and> (if de_to e = m_settlement_address m then r = record_request chain e p
             else map_of (er_payload r) ''intentId'' \<noteq> Some (JStr (pi_id p))))
     \<and> (\<forall>lg dest current n h v. transfer_to lg = Some dest \<and> to_lower (m_settlement_address m) \<noteq> m_settlement_address m
          \<longrightarrow> de_to (token_event current n h lg dest v) \<noteq> m_settlement_address m)"
proof -
  let ?addr = "m_settlement_address m"
  obtain g' resp p where made: "handle x (PostPublicIntent (Some mid) \<lparr> ib_merchant_id = None, ib_order_ref = Some ref,
        ib_target_amount = Some amount, ib_target_asset = Some asset, ib_target_chain = Some chain,
        ib_accepted_assets = assets \<rparr>) g = (g', resp)"
      "ap_status resp = 201 \<and> findAwaitingDepositAt (gw_db g') chain ?addr = Some p \<and> pi_state p = QUOTED
        \<and> pi_merchant_id p = mid \<and> \<bar>pi_target_amount p - amount\<bar> \<le> 1 / 200000000 \<and> pi_id p \<notin> pi_id ` set (db_intents (gw_db g))"
    and ok: "gw_ok g'" and row: "\<exists>r \<in> set (db_intents (gw_db g')). p = mapRow r \<and> pi_deposit_address r = Some ?addr"
    using public_checkout_done [OF assms, of assets] by blast
  obtain r where r: "r \<in> set (db_intents (gw_db g'))" "pi_id r = pi_id p" "pi_deposit_address r = Some ?addr"
    using row by auto
  have jobs: "if de_to e = ?addr then deposit_request (gw_db g') chain e = record_request chain e p
      else map_of (er_payload (deposit_request (gw_db g') chain e)) ''intentId'' \<noteq> Some (JStr (pi_id p))" for e
    using made(2) elsewhere_not_recorded [OF ok r(1,3), of e chain] by (simp add: deposit_request_def r(2))
  have lower: "de_to (token_event current n h lg dest v) \<noteq> ?addr"
    if "transfer_to lg = Some dest" "to_lower ?addr \<noteq> ?addr" for lg dest current n h v
    using token_address_lower [OF that(1), of current n h v] that(2) by metis
  show ?thesis
    using made jobs lower onDeposit_enqueues by (intro exI [of _ g'] exI [of _ resp] exI [of _ p]) blast
qed

definition ex_deposit :: "string \<Rightarrow> deposit_event" where
  "ex_deposit addr = \<lparr> de_tx_hash = ''0xt'', de_from = ''0xc'', de_to = addr, de_asset = unknown_token ''0xu'', de_amount = ''100'',
     de_block_number = 7 \<rparr>"

definition ex_watch_queue :: queue_options where
  "ex_watch_queue = \<lparr> qo_worker_id = ''w'', qo_concurrency = 4, qo_default_max_attempts = 5, qo_backoff_base_ms = 1000,
     qo_backoff_max_ms = 300000, qo_visibility_timeout_ms = 120000 \<rparr>"

theorem public_checkout_quotes_witness:
  "\<exists>g' resp p. handle (ex_api 1) (PostPublicIntent (Some ''m'') \<lparr> ib_merchant_id = None, ib_order_ref = Some ''o1'',
        ib_target_amount = Some 100, ib_target_asset = Some ''USDC'', ib_target_chain = Some ''1'',
        ib_accepted_assets = None \<rparr>) (empty_gateway [ex_merchant]) = (g', resp)
     \<and> ap_status resp = 201 \<and> pi_state p = QUOTED
     \<and> snd (fst (onDeposit ex_watch_queue 2 ''j'' (gw_db g') ''1'' (ex_deposit ''0xshop'') (new_watcher, [])))
         = fst (enqueue ex_watch_queue 2 ''j'' (record_request ''1'' (ex_deposit ''0xshop'') p) [])"
proof -
  have fresh: "fresh_all (w_env (ax_webhook (ex_api 1))) (empty_gateway [ex_merchant])"
    using ex_uuid_inj by (simp add: fresh_all_def ex_api_def ex_env_def empty_gateway_def)
  have m: "getById (db_merchants (gw_db (empty_gateway [ex_merchant]))) ''m'' = Some ex_merchant"
    by (simp add: getById_def empty_gateway_def ex_merchant_def map_merchant_row_def)
  have addr: "m_settlement_address ex_merchant = ''0xshop''" by (simp add: ex_merchant_def)
  obtain g' resp p where r: "handle (ex_api 1) (PostPublicIntent (Some ''m'') \<lparr> ib_merchant_id = None, ib_order_ref = Some ''o1'',
        ib_target_amount = Some 100, ib_target_asset = Some ''USDC'', ib_target_chain = Some ''1'',
        ib_accepted_assets = None \<rparr>) (empty_gateway [ex_merchant]) = (g', resp)" "ap_status resp = 201" "pi_state p = QUOTED"
    and jobs: "\<forall>opts now i w jobs e. \<exists>r. snd (fst (onDeposit opts now i (gw_db g') ''1'' e (w, jobs))) = fst (enqueue opts now i r jobs)
          \<and> (if de_to e = ''0xshop'' then r = record_request ''1'' e p
             else map_of (er_payload r) ''intentId'' \<noteq> Some (JStr (pi_id p)))"
    using public_checkout_quotes [OF empty_gateway_ok fresh m, of "''o1''" "''USDC''" "''1''" 100 None]
    unfolding addr by (simp add: ex_merchant_def fits_def empty_gateway_def) blast
  have "de_to (ex_deposit ''0xshop'') = ''0xshop''" by (simp add: ex_deposit_def)
  then show ?thesis using r jobs by metis
qed

text \<open>The settlement address of the first seeded merchant has capitals.\<close>

lemma seeded_address_mixed:
  "to_lower ''0x742d35Cc6634C0532925a3b844Bc9e7595f2bD18'' \<noteq> ''0x742d35Cc6634C0532925a3b844Bc9e7595f2bD18''"
  by code_simp

end
