(* ===== verification/Http_Url.thy ===== *)
theory Http_Url
  imports Http_Client
begin

text \<open>
  The texts around the HTTP client (\<open>packages/shared/src/utils/http-client.ts\<close>): query strings
  as \<open>URLSearchParams\<close> writes and reads them, and the redaction of URLs.  A text is a list of bytes.
  The URL parser is a parameter: it gives what stands before the query, the query and the fragment of the
  normalised URL (an empty query belongs to the first part), or nothing for a text that is no URL.
\<close>

section \<open>Query strings\<close>

definition form_safe :: "char \<Rightarrow> bool" where
  "form_safe c = (let n = (of_char c :: nat) in
     48 \<le> n \<and> n \<le> 57 \<or> 65 \<le> n \<and> n \<le> 90 \<or> 97 \<le> n \<and> n \<le> 122 \<or> n = 42 \<or> n = 45 \<or> n = 46 \<or> n = 95)"

definition hex_digit :: "nat \<Rightarrow> char" where
  "hex_digit d = (if d < 10 then char_of (48 + d) else char_of (55 + d))"

text \<open>The coding of application/x-www-form-urlencoded.\<close>

definition form_byte :: "char \<Rightarrow> string" where
  "form_byte c = (if form_safe c then [c] else if c = CHR '' '' then ''+''
     else [CHR ''%'', hex_digit ((of_char c :: nat) div 16), hex_digit ((of_char c :: nat) mod 16)])"

definition form_encode :: "string \<Rightarrow> string" where
  "form_encode s = concat (map form_byte s)"

fun form_decode :: "string \<Rightarrow> string" where
  "form_decode [] = []"
| "form_decode (c # cs) =
     (if c = CHR ''+'' then CHR '' '' # form_decode cs
      else if c = CHR ''%'' then
        (case cs of
           a # b # ds \<Rightarrow>
             (case (digit_val a, digit_val b) of
                (Some x, Some y) \<Rightarrow> if x < 16 \<and> y < 16 then char_of (16 * x + y) # form_decode ds else c # form_decode cs
              | _ \<Rightarrow> c # form_decode cs)
         | _ \<Rightarrow> c # form_decode cs)
      else c # form_decode cs)"

definition query_item :: "string \<times> string \<Rightarrow> string" where
  "query_item kv = form_encode (fst kv) @ ''='' @ form_encode (snd kv)"

definition query_of :: "(string \<times> string) list \<Rightarrow> string" where
  "query_of ps = join ''&'' (map query_item ps)"

fun split_on :: "char \<Rightarrow> string \<Rightarrow> string list" where
  "split_on d [] = [[]]"
| "split_on d (c # cs) = (if c = d then [] # split_on d cs
     else (case split_on d cs of [] \<Rightarrow> [[c]] | w # ws \<Rightarrow> (c # w) # ws))"

definition parse_item :: "string \<Rightarrow> string \<times> string" where
  "parse_item s = (form_decode (takeWhile (\<lambda>c. c \<noteq> CHR ''='') s), form_decode (tl (dropWhile (\<lambda>c. c \<noteq> CHR ''='') s)))"

definition parse_query :: "string \<Rightarrow> (string \<times> string) list" where
  "parse_query q = map parse_item (filter (\<lambda>s. s \<noteq> []) (split_on CHR ''&'' q))"

text \<open>\<open>buildQueryString\<close>: the values as texts, \<open>None\<close> for undefined ones.\<close>

definition buildQueryString :: "(string \<times> string option) list option \<Rightarrow> string" where
  "buildQueryString query = (case query of
     None \<Rightarrow> []
   | Some entries \<Rightarrow>
       (let params = fold (\<lambda>(k, v) ps. case v of None \<Rightarrow> ps | Some s \<Rightarrow> js_map_set k s ps) entries [];
            str = query_of params
        in if str = [] then [] else ''?'' @ str))"

text \<open>\<open>set\<close> of a name that is there: the first occurrence takes the value, the others go.\<close>

fun param_set :: "string \<Rightarrow> string \<Rightarrow> (string \<times> string) list \<Rightarrow> (string \<times> string) list" where
  "param_set k v [] = [(k, v)]"
| "param_set k v ((k', v') # ps) = (if k' = k then (k, v) # filter (\<lambda>p. fst p \<noteq> k) ps else (k', v') # param_set k v ps)"

section \<open>Redaction\<close>

definition sensitiveParams :: "string list" where
  "sensitiveParams = [''apikey'', ''api_key'', ''key'', ''token'', ''secret'', ''access_token'']"

definition url_redacted :: string where "url_redacted = ''***REDACTED***''"

definition redact_params :: "(string \<times> string) list \<Rightarrow> (string \<times> string) list" where
  "redact_params ps = fold (\<lambda>name ps. if name \<in> fst ` set ps then param_set name url_redacted ps else ps) sensitiveParams ps"

text \<open>The replacement for a text that is no URL: every parameter with one of the names, in any case.\<close>

definition sensitive_at :: "string \<Rightarrow> string option" where
  "sensitive_at s = tbl_find (\<lambda>n. to_lower (take (length n + 1) s) = n @ ''='') sensitiveParams"

function redact_text :: "string \<Rightarrow> string" where
  "redact_text [] = []"
| "redact_text (c # cs) =
     (if c = CHR ''?'' \<or> c = CHR ''&'' then
        (case sensitive_at cs of
           Some n \<Rightarrow> ''&'' @ take (length n) cs @ ''='' @ url_redacted
             @ redact_text (dropWhile (\<lambda>d. d \<noteq> CHR ''&'') (drop (length n + 1) cs))
         | None \<Rightarrow> c # redact_text cs)
      else c # redact_text cs)"
  by pat_completeness auto
termination
proof (relation "measure length")
  show "(dropWhile (\<lambda>d. d \<noteq> CHR ''&'') (drop (length n + 1) cs), c # cs) \<in> measure length" for n c cs
    using length_dropWhile_le [of "\<lambda>d. d \<noteq> CHR ''&''" "drop (length n + 1) cs"] by simp
qed simp_all

text \<open>A URL in three parts; its query is written again only if a parameter was set.\<close>

definition redactUrl :: "(string \<Rightarrow> (string \<times> string \<times> string) option) \<Rightarrow> string \<Rightarrow> string" where
  "redactUrl parse_url url = (case parse_url url of
     None \<Rightarrow> redact_text url
   | Some (before, q, after) \<Rightarrow>
       (let ps = parse_query q; ps' = redact_params ps in
        before @ (if list_ex (\<lambda>n. n \<in> fst ` set ps) sensitiveParams then ''?'' @ query_of ps'
          else if q = [] then [] else ''?'' @ q) @ after))"

section \<open>Reading back what was written\<close>

lemma hex_digit_val: "d < 16 \<Longrightarrow> digit_val (hex_digit d) = Some d"
  by (auto simp: digit_val_def hex_digit_def Let_def)

lemma nibbles: "(of_char c :: nat) div 16 < 16" "(of_char c :: nat) mod 16 < 16"
  by (rule less_mult_imp_div_less) simp_all

lemma form_decode_byte: "form_decode (form_byte c @ t) = c # form_decode t"
proof -
  consider "form_safe c" | "\<not> form_safe c" "c = CHR '' ''" | "\<not> form_safe c" "c \<noteq> CHR '' ''" by blast
  then show ?thesis
  proof cases
    case 1
    then have "c \<noteq> CHR ''+''" "c \<noteq> CHR ''%''" by (auto simp: form_safe_def Let_def)
    with 1 show ?thesis by (simp add: form_byte_def)
  next
    case 2
    then show ?thesis by (simp add: form_byte_def)
  next
    case 3
    let ?n = "of_char c :: nat"
    have "16 * (?n div 16) + ?n mod 16 = ?n" by simp
    then show ?thesis using 3 by (simp add: form_byte_def hex_digit_val nibbles)
  qed
qed

lemma form_decode_encode: "form_decode (form_encode s) = s"
  by (induction s) (simp_all add: form_encode_def form_decode_byte)

lemma form_encode_plain: "CHR ''&'' \<notin> set (form_encode s)" "CHR ''='' \<notin> set (form_encode s)"
proof -
  have "CHR ''&'' \<notin> set (form_byte c) \<and> CHR ''='' \<notin> set (form_byte c)" for c
  proof -
    have hex: "hex_digit d \<noteq> CHR ''&'' \<and> hex_digit d \<noteq> CHR ''=''" if "d < 16" for d
      using hex_digit_val [OF that] by (auto simp: digit_val_def Let_def)
    have "CHR ''&'' \<notin> set (form_byte c) \<and> CHR ''='' \<notin> set (form_byte c)" if "form_safe c"
      using that by (auto simp: form_byte_def form_safe_def Let_def)
    then show ?thesis
      using hex [OF nibbles(1) [of c]] hex [OF nibbles(2) [of c]] by (cases "form_safe c") (auto simp: form_byte_def dest: sym)
  qed
  then show "CHR ''&'' \<notin> set (form_encode s)" "CHR ''='' \<notin> set (form_encode s)" by (auto simp: form_encode_def)
qed

lemma split_on_word: "d \<notin> set w \<Longrightarrow> split_on d w = [w]"
  by (induction w) auto

lemma split_on_first: "d \<notin> set w \<Longrightarrow> split_on d (w @ d # t) = w # split_on d t"
  by (induction w) auto

lemma split_on_join:
  "ws \<noteq> [] \<Longrightarrow> \<forall>w \<in> set ws. d \<notin> set w \<Longrightarrow> split_on d (join [d] ws) = ws"
proof (induction ws)
  case (Cons w ws)
  show ?case
  proof (cases ws)
    case Nil
    then show ?thesis using Cons.prems by (simp add: join_def split_on_word)
  next
    case (Cons v vs)
    then have "join [d] (w # ws) = w @ d # join [d] ws" by (simp add: join_def)
    then show ?thesis using Cons.IH Cons.prems Cons by (simp add: split_on_first)
  qed
qed simp

lemma parse_query_item: "parse_item (query_item kv) = kv" "query_item kv \<noteq> []" "CHR ''&'' \<notin> set (query_item kv)"
proof -
  obtain k v where kv: "kv = (k, v)" by (cases kv)
  have "\<forall>c \<in> set (form_encode k). c \<noteq> CHR ''=''" using form_encode_plain by auto
  then have "takeWhile (\<lambda>c. c \<noteq> CHR ''='') (query_item kv) = form_encode k"
    "dropWhile (\<lambda>c. c \<noteq> CHR ''='') (query_item kv) = ''='' @ form_encode v"
    by (simp_all add: kv query_item_def)
  then show "parse_item (query_item kv) = kv" by (simp add: parse_item_def form_decode_encode kv)
  show "query_item kv \<noteq> []" "CHR ''&'' \<notin> set (query_item kv)"
    by (simp_all add: query_item_def form_encode_plain)
qed

lemma parse_query_of: "parse_query (query_of ps) = ps"
proof (cases "ps = []")
  case True
  then show ?thesis by (simp add: query_of_def join_def parse_query_def)
next
  case False
  then have "split_on CHR ''&'' (query_of ps) = map query_item ps"
    unfolding query_of_def by (intro split_on_join) (auto simp: parse_query_item)
  then show ?thesis by (simp add: parse_query_def comp_def parse_query_item)
qed

lemma query_of_nonempty: "ps \<noteq> [] \<Longrightarrow> query_of ps \<noteq> []"
  using parse_query_of [of ps] by (auto simp: parse_query_def)

text \<open>The query string of a request carries its defined parameters, whatever bytes they hold.\<close>

lemma buildQueryString_roundtrip:
  assumes "distinct (map fst entries)"
  shows "parse_query (tl (buildQueryString (Some entries))) = List.map_filter (\<lambda>(k, v). map_option (Pair k) v) entries"
proof -
  have set_new: "js_map_set k v ps = ps @ [(k, v)]" if "k \<notin> fst ` set ps" for k v and ps :: "(string \<times> string) list"
    using that by (induction ps) auto
  have "fold (\<lambda>(k, v) ps. case v of None \<Rightarrow> ps | Some s \<Rightarrow> js_map_set k s ps) entries ps
      = ps @ List.map_filter (\<lambda>(k, v). map_option (Pair k) v) entries"
    if "distinct (map fst entries)" "fst ` set ps \<inter> fst ` set entries = {}" for ps
    using that
  proof (induction entries arbitrary: ps)
    case (Cons e es)
    obtain k v where e: "e = (k, v)" by (cases e)
    show ?case
      using Cons.prems by (cases v) (auto simp: e Cons.IH set_new List.map_filter_def)
  qed (simp add: List.map_filter_def)
  note all = this [OF assms, of "[]"]
  show ?thesis
  proof (cases "List.map_filter (\<lambda>(k, v). map_option (Pair k) v) entries = []")
    case True
    then show ?thesis using all parse_query_of [of "[]"] by (simp add: buildQueryString_def query_of_def join_def)
  next
    case False
    then show ?thesis using all query_of_nonempty [OF False] by (simp add: buildQueryString_def Let_def parse_query_of)
  qed
qed

section \<open>Nothing secret in a redacted URL\<close>

definition hidden :: "string \<Rightarrow> (string \<times> string) list \<Rightarrow> bool" where
  "hidden k ps = (\<forall>p \<in> set ps. fst p = k \<longrightarrow> snd p = url_redacted)"

lemma param_set_others: "filter (\<lambda>p. fst p \<noteq> k) (param_set k v ps) = filter (\<lambda>p. fst p \<noteq> k) ps"
  by (induction k v ps rule: param_set.induct) auto

lemma param_set_hides: "hidden k (param_set k url_redacted ps)"
  by (induction k url_redacted ps rule: param_set.induct) (auto simp: hidden_def)

lemma param_set_keeps_hidden: "hidden n ps \<Longrightarrow> hidden n (param_set k url_redacted ps)"
proof (cases "n = k")
  case False
  assume *: "hidden n ps"
  have "p \<in> set ps" if "p \<in> set (param_set k url_redacted ps)" "fst p = n" for p
  proof -
    have "p \<in> set (filter (\<lambda>p. fst p \<noteq> k) (param_set k url_redacted ps))" using that False by simp
    then show ?thesis unfolding param_set_others by simp
  qed
  then show ?thesis using * by (auto simp: hidden_def)
qed (simp add: param_set_hides)

definition redact_step :: "string \<Rightarrow> (string \<times> string) list \<Rightarrow> (string \<times> string) list" where
  "redact_step name ps = (if name \<in> fst ` set ps then param_set name url_redacted ps else ps)"

lemma redact_fold:
  "(\<forall>k \<in> set names. hidden k (fold redact_step names ps)) \<and> (\<forall>k. hidden k ps \<longrightarrow> hidden k (fold redact_step names ps))
   \<and> filter (\<lambda>p. fst p \<notin> set names) (fold redact_step names ps) = filter (\<lambda>p. fst p \<notin> set names) ps"
proof (induction names arbitrary: ps)
  case (Cons n names)
  have n: "hidden n (redact_step n ps)" "\<And>k. hidden k ps \<Longrightarrow> hidden k (redact_step n ps)"
    by (auto simp: redact_step_def param_set_hides param_set_keeps_hidden) (force simp: hidden_def)
  have "filter (\<lambda>p. fst p \<notin> set (n # names)) xs = filter (\<lambda>p. fst p \<noteq> n) (filter (\<lambda>p. fst p \<notin> set names) xs)"
    "filter (\<lambda>p. fst p \<notin> set (n # names)) xs = filter (\<lambda>p. fst p \<notin> set names) (filter (\<lambda>p. fst p \<noteq> n) xs)" for xs
    by (auto intro: filter_cong)
  moreover have "filter (\<lambda>p. fst p \<noteq> n) (redact_step n ps) = filter (\<lambda>p. fst p \<noteq> n) ps"
    by (simp add: redact_step_def param_set_others)
  ultimately have "filter (\<lambda>p. fst p \<notin> set (n # names)) (fold redact_step names (redact_step n ps))
      = filter (\<lambda>p. fst p \<notin> set (n # names)) ps"
    using Cons.IH [of "redact_step n ps"] by metis
  then show ?case using n Cons.IH [of "redact_step n ps"] by simp
qed simp

lemma redact_fold_nonempty: "ps \<noteq> [] \<Longrightarrow> fold redact_step names ps \<noteq> []"
proof (induction names arbitrary: ps)
  case (Cons n names)
  have "param_set n url_redacted ps \<noteq> []"
    using Cons.prems by (cases "(n, url_redacted, ps)" rule: param_set.cases) simp_all
  then show ?case using Cons by (simp add: redact_step_def)
qed simp

lemma redact_params_steps: "redact_params ps = fold redact_step sensitiveParams ps"
  by (simp add: redact_params_def redact_step_def [abs_def])

text \<open>C40: In a redacted URL every parameter with one of the six names reads REDACTED, whatever bytes the
  parameters hold, and the others read as before, in their order.\<close>

theorem redacted_url_keeps_no_secret:
  assumes "parse_url url = Some (before, q, after)"
  shows "\<exists>q'. redactUrl parse_url url = before @ (if q' = [] then [] else ''?'' @ q') @ after
    \<and> snd ` set (filter (\<lambda>p. fst p \<in> set sensitiveParams) (parse_query q')) \<subseteq> {url_redacted}
    \<and> filter (\<lambda>p. fst p \<notin> set sensitiveParams) (parse_query q') = filter (\<lambda>p. fst p \<notin> set sensitiveParams) (parse_query q)"
proof (cases "list_ex (\<lambda>n. n \<in> fst ` set (parse_query q)) sensitiveParams")
  case True
  let ?ps = "redact_params (parse_query q)"
  have ps: "\<forall>k \<in> set sensitiveParams. hidden k ?ps"
    "filter (\<lambda>p. fst p \<notin> set sensitiveParams) ?ps = filter (\<lambda>p. fst p \<notin> set sensitiveParams) (parse_query q)"
    using redact_fold [of sensitiveParams "parse_query q"] by (simp_all add: redact_params_steps)
  have "parse_query q \<noteq> []" using True by (auto simp: list_ex_iff)
  then have "?ps \<noteq> []" by (simp add: redact_params_steps redact_fold_nonempty)
  then have "redactUrl parse_url url = before @ (if query_of ?ps = [] then [] else ''?'' @ query_of ?ps) @ after"
    using True assms query_of_nonempty by (simp add: redactUrl_def Let_def)
  then show ?thesis using ps by (intro exI [of _ "query_of ?ps"]) (force simp: parse_query_of hidden_def)
next
  case False
  then have "filter (\<lambda>p. fst p \<in> set sensitiveParams) (parse_query q) = []"
    by (force simp: list_ex_iff filter_empty_conv)
  then show ?thesis using False assms by (intro exI [of _ q]) (simp add: redactUrl_def Let_def)
qed

theorem redacted_url_keeps_no_secret_witness:
  "\<exists>q'. redactUrl (\<lambda>u. Some (''https://a/'', ''key=s3&amount=1'', [])) ''https://a/?key=s3&amount=1''
      = ''https://a/'' @ (if q' = [] then [] else ''?'' @ q') @ []
    \<and> snd ` set (filter (\<lambda>p. fst p \<in> set sensitiveParams) (parse_query q')) \<subseteq> {url_redacted}
    \<and> filter (\<lambda>p. fst p \<notin> set sensitiveParams) (parse_query q') = [(''amount'', ''1'')]"
proof -
  have "filter (\<lambda>p. fst p \<notin> set sensitiveParams) (parse_query ''key=s3&amount=1'') = [(''amount'', ''1'')]"
    by (simp add: parse_query_def parse_item_def sensitiveParams_def)
  then show ?thesis
    using redacted_url_keeps_no_secret [of "\<lambda>u. Some (''https://a/'', ''key=s3&amount=1'', [])" "''https://a/?key=s3&amount=1''"]
    by simp
qed

text \<open>The names are compared exactly in a URL, but in any case in a text that is none; there the question mark
  becomes an ampersand.\<close>

lemma redaction_differs_by_branch:
  "redactUrl (\<lambda>u. Some (''https://a/'', ''apiKey=s3'', [])) ''https://a/?apiKey=s3'' = ''https://a/?apiKey=s3''"
  "redactUrl (\<lambda>u. None) ''/a?apiKey=s3&b=1'' = ''/a&apiKey='' @ url_redacted @ ''&b=1''"
  by code_simp+

end
