(* ===== verification/Shared_Utils.thy ===== *)
theory Shared_Utils
  imports Merchant_Auth
begin

text \<open>
  The functions of \<open>packages/shared/src/utils/index.ts\<close>: retrying with exponential backoff, the scores
  and the checks of amounts and addresses.  \<open>randomUUID\<close> and \<open>Math.random\<close> are parameters.
\<close>

section \<open>Retrying\<close>

text \<open>
  One turn of the loop for each attempt that is left; the pauses are recorded.  An operation is a step on
  the state it works on.
\<close>

fun retry_loop :: "('s \<Rightarrow> 's \<times> ('e + 'a)) \<Rightarrow> nat \<Rightarrow> nat \<Rightarrow> rat \<Rightarrow> rat list \<Rightarrow> 's \<Rightarrow> 's \<times> rat list \<times> ('e option + 'a)" where
  "retry_loop f attempt 0 base pauses s =
     (case f s of (s, Inr v) \<Rightarrow> (s, pauses, Inr v) | (s, Inl e) \<Rightarrow> (s, pauses, Inl (Some e)))"
| "retry_loop f attempt (Suc left) base pauses s =
     (case f s of (s, Inr v) \<Rightarrow> (s, pauses, Inr v)
      | (s, Inl e) \<Rightarrow> retry_loop f (Suc attempt) left base (pauses @ [base * 2 ^ attempt]) s)"

text \<open>With a negative number of retries nothing is tried and \<open>undefined\<close> is thrown, here \<open>None\<close>.\<close>

definition retryWithBackoff :: "('s \<Rightarrow> 's \<times> ('e + 'a)) \<Rightarrow> int \<Rightarrow> rat \<Rightarrow> 's \<Rightarrow> 's \<times> rat list \<times> ('e option + 'a)" where
  "retryWithBackoff f maxRetries baseDelayMs s =
     (if maxRetries < 0 then (s, [], Inl None) else retry_loop f 0 (nat maxRetries) baseDelayMs [] s)"

text \<open>The state before the n-th call.\<close>

definition before_call :: "('s \<Rightarrow> 's \<times> ('e + 'a)) \<Rightarrow> nat \<Rightarrow> 's \<Rightarrow> 's" where
  "before_call f n s = ((\<lambda>s. fst (f s)) ^^ n) s"

definition fails :: "('s \<Rightarrow> 's \<times> ('e + 'a)) \<Rightarrow> nat \<Rightarrow> 's \<Rightarrow> bool" where
  "fails f n s = (case snd (f (before_call f n s)) of Inl _ \<Rightarrow> True | Inr _ \<Rightarrow> False)"

lemma before_call_Suc: "before_call f (Suc n) s = before_call f n (fst (f s))"
  by (simp add: before_call_def funpow_Suc_right del: funpow.simps(2))

lemma retry_loop_first:
  "\<exists>n \<le> left. (\<forall>i < n. fails f i s) \<and> (n < left \<longrightarrow> \<not> fails f n s)
     \<and> retry_loop f k left base pauses s
         = (fst (f (before_call f n s)), pauses @ map (\<lambda>i. base * 2 ^ (k + i)) [0..<n],
            case snd (f (before_call f n s)) of Inl e \<Rightarrow> Inl (Some e) | Inr v \<Rightarrow> Inr v)"
proof (induction left arbitrary: k pauses s)
  case 0
  then show ?case by (auto simp: before_call_def split: prod.splits sum.splits)
next
  case (Suc left)
  obtain s1 r where f: "f s = (s1, r)" by (cases "f s")
  show ?case
  proof (cases r)
    case (Inr v)
    then show ?thesis using f by (intro exI [of _ 0]) (simp add: before_call_def fails_def)
  next
    case (Inl e)
    obtain n where n: "n \<le> left" "\<forall>i < n. fails f i s1" "n < left \<longrightarrow> \<not> fails f n s1"
      "retry_loop f (Suc k) left base (pauses @ [base * 2 ^ k]) s1
         = (fst (f (before_call f n s1)), (pauses @ [base * 2 ^ k]) @ map (\<lambda>i. base * 2 ^ (Suc k + i)) [0..<n],
            case snd (f (before_call f n s1)) of Inl e \<Rightarrow> Inl (Some e) | Inr v \<Rightarrow> Inr v)"
      using Suc.IH by blast
    have shift: "before_call f (Suc i) s = before_call f i s1" for i using f by (simp add: before_call_Suc)
    then have "fails f (Suc i) s = fails f i s1" for i by (simp add: fails_def)
    moreover have "fails f 0 s" using f Inl by (simp add: fails_def before_call_def)
    ultimately have "\<forall>i < Suc n. fails f i s" using n(2) by (metis less_Suc_eq_0_disj)
    moreover have "map (\<lambda>i. base * 2 ^ (k + i)) [0..<Suc n] = (base * 2 ^ k) # map (\<lambda>i. base * 2 ^ (Suc k + i)) [0..<n]"
      unfolding upt_conv_Cons [OF zero_less_Suc] map_Suc_upt [symmetric] by simp
    ultimately show ?thesis
      using n f Inl shift \<open>\<And>i. fails f (Suc i) s = fails f i s1\<close> by (intro exI [of _ "Suc n"]) simp
  qed
qed

text \<open>
  The call that is answered is the first that succeeds, or the last that is allowed; every one before it
  has failed and is followed by a pause that doubles.
\<close>

lemma retry_answers_first_success:
  assumes "0 \<le> maxRetries"
  shows "\<exists>n \<le> nat maxRetries. (\<forall>i < n. fails f i s) \<and> (n < nat maxRetries \<longrightarrow> \<not> fails f n s)
     \<and> retryWithBackoff f maxRetries base s
         = (fst (f (before_call f n s)), map (\<lambda>i. base * 2 ^ i) [0..<n],
            case snd (f (before_call f n s)) of Inl e \<Rightarrow> Inl (Some e) | Inr v \<Rightarrow> Inr v)"
  using retry_loop_first [of "nat maxRetries" f s 0 base "[]"] assms by (simp add: retryWithBackoff_def)

section \<open>Scores and checks\<close>

text \<open>\<open>Math.max(0, 1 - x / y)\<close>; for y zero the quotient is infinite or \<open>NaN\<close>, and a result that is not a
  finite number is \<open>None\<close>.\<close>

definition normalized :: "rat \<Rightarrow> rat \<Rightarrow> rat option" where
  "normalized x y = (if y = 0 then (if 0 < x then Some 0 else None) else Some (max 0 (1 - x / y)))"

definition isValidAmount :: "rat option \<Rightarrow> rat \<Rightarrow> rat \<Rightarrow> bool" where
  "isValidAmount amount lo hi = (case amount of None \<Rightarrow> False | Some a \<Rightarrow> lo \<le> a \<and> a \<le> hi)"

definition isValidEvmAddress :: "string \<Rightarrow> bool" where
  "isValidEvmAddress a = (take 2 a = ''0x'' \<and> length a = 42 \<and> list_all (is_digit 16) (drop 2 a))"

definition jitteredDelay :: "rat \<Rightarrow> rat \<Rightarrow> rat \<Rightarrow> rat" where
  "jitteredDelay rnd baseMs maxJitterMs = baseMs + rnd * maxJitterMs"

lemma jitteredDelay_bounds:
  "0 \<le> rnd \<Longrightarrow> rnd < 1 \<Longrightarrow> 0 \<le> j \<Longrightarrow> base \<le> jitteredDelay rnd base j \<and> jitteredDelay rnd base j \<le> base + j"
  by (simp add: jitteredDelay_def mult_left_le_one_le)

end
