(* ===== verification/Spec2Isabelle.thy ===== *)
theory Spec2Isabelle
  imports Worker_Properties Settlement_Properties Rate_Lock_Properties Price_Oracle Compliance_Orchestrator Route_Engine Recovery
    Reconciliation_Properties Gas_Abstraction Chain_Client_Properties External_Scorers Http_Client Api_Properties Intent_Refinement Worker_Boot Worker_Observability Route_Provider_Properties
    Migrations Service_Endpoints Error_Catalog Merchant_Form_Properties Operations_Pages Demo_Page_View Transactional_Queue Deployed_Chains Public_Checkout Http_Url Shared_Utils
begin

text \<open>
  Nexora gateway: a verification library.

  The repository is a gateway for crypto payments.  A merchant's shop creates a payment intent; the
  gateway quotes an amount and a deposit address; a worker watches the chains for the deposit,
  waits for its confirmations and the payout follows, with compliance screening, price locks, routing
  over bridge aggregators, recovery of payments that went wrong, and reconciliation of the books.
  This library is a shallow embedding of that TypeScript code: every operation is a function of the
  same name where the name is free, every error is a value, every table is the list of its rows.

  THE PARTS, AND WHERE THEY ARE (paths under src/packages)

  Shared ground.  \<open>Gateway_Prelude\<close>: JSON values, DECIMAL rounding, tables, \<open>andThen\<close> (the \<open>await\<close> of a method
  that may throw), the locales \<open>keyed_update\<close>, \<open>op_machine\<close> and \<open>ordered_machine\<close>.  \<open>Js_Text\<close>, \<open>Js_Json\<close>: texts
  of numbers and dates, parsing, base64.  \<open>Shared_Utils\<close>, \<open>Error_Catalog\<close>, \<open>Http_Client\<close>, \<open>Http_Url\<close>: shared/src/utils and
  shared/src/errors.

  Database (db/src).  \<open>Database_Client\<close>: pool, sessions with BEGIN, COMMIT and ROLLBACK, \<open>transaction\<close>;
  \<open>Migrations\<close>: the migration runner and the seed.  Every statement meets the next fault of the connection: it
  is heard, turned down by the server, or the connection is cut before or after the server obeyed, so the answer to a
  COMMIT that took effect can be lost.  \<open>transaction\<close> stores all of its writes or none, and nothing when it throws,
  unless it was the answer to the COMMIT that was lost.  On a connection that does not fail the multi-statement
  writes of the intent repository equal the one-step operations the other theories use, and on any other they
  store what those store or nothing; this is why every repository operation is a single step there.

  Payment intents (payment-intent/src, shared/src/types).  \<open>Intent_Types\<close>: states, transition table, events.
  \<open>Merchants\<close>, \<open>Intent_Repository\<close>, \<open>Intent_Invariant\<close>: the tables and what every write keeps.
  \<open>Webhook_Delivery\<close>, \<open>Intent_Service\<close>: deliveries and the handlers.  \<open>Intent_Lifecycle\<close>, \<open>Intent_Properties\<close>,
  \<open>Intent_Refinement\<close>: runs of the service, the event log as an audit trail, and a simulation of
  the service by an abstract machine of states and events.  \<open>Merchant_Auth\<close>: accounts, keys, tokens.

  Interface and pages (api-gateway/src, dashboard/src).  \<open>Api_Gateway\<close>, \<open>Api_Properties\<close>: middleware, routes and
  error handler as one function \<open>handle\<close> on the service's state.  \<open>Service_Endpoints\<close>: health routes and
  start of the API, the health server of the worker.  \<open>Checkout_Page\<close>, \<open>Demo_Page_View\<close>: the payment page and the demonstration.
  \<open>Merchant_Pages\<close>: the client of the API and the callbacks of the merchant's pages.  \<open>Merchant_Forms\<close>,
  \<open>Merchant_Form_Properties\<close>: what those pages show, the checks of the browser, and the life of the registration
  page beside the gateway as a step relation in which an answer can be lost on its way back (\<open>Answer_Lost\<close>).
  \<open>Public_Checkout\<close>: a public checkout and the watcher's look at the transfers to its deposit address.  \<open>Operations_Pages\<close>: the constant data and what its six pages show.
  \<open>Deployed_Chains\<close>: the catalogue of chains, and which chains the merchants have and the worker can watch.

  Worker (worker/src).  \<open>Job_Queue\<close>, \<open>Job_Queue_Properties\<close>: the jobs table, claims, retries, reclaim; \<open>Transactional_Queue\<close>:
  a job enqueued in the transaction of a change of state.
  \<open>Deposit_Watcher\<close>, \<open>Confirmation_Tracker\<close>, \<open>Worker\<close>, \<open>Worker_Properties\<close>: watching, confirming, the job handlers and
  the process as composed.  \<open>Worker_Boot\<close>: configuration, composition, shutdown.  \<open>Worker_Observability\<close>: the
  logger with its redaction, health and metrics.

  Chains (chain-abstraction/src, gas-abstraction/src).  \<open>Chain_Types\<close>, \<open>Evm_Client\<close>, \<open>Simulated_Clients\<close>,
  \<open>Chain_Client_Properties\<close>: the EVM client over any provider, the simulated Tron and Solana clients, the contract
  \<open>status_contract\<close> they share.  \<open>Gas_Abstraction\<close>: gasless estimates and execution.

  Routing (routing-engine/src).  \<open>Circuit_Breaker\<close>, \<open>Route_Engine\<close>: breaker, scorer, registry, engine.  A call through
  the breaker is two steps, its start and its outcome, which other calls come between.  Amounts, fees and times of a
  quote are numbers or NaN; the order a sort leaves when its comparisons answer NaN is the parameter \<open>arrange\<close>.
  \<open>Route_Adapters\<close>, \<open>Lifi_Provider\<close>, \<open>Socket_Provider\<close>, \<open>Mock_Providers\<close>, \<open>Route_Provider_Properties\<close>: the adapters under the
  contracts \<open>quote_adapter\<close> and \<open>scoring_adapter\<close>, and which requests the providers can quote at all.

  Prices and compliance (rate-lock/src, compliance/src).  \<open>Price_Oracle\<close>, \<open>Rate_Lock\<close>, \<open>Rate_Lock_Properties\<close>;
  \<open>Risk_Scorer\<close>, \<open>External_Scorers\<close>, \<open>Compliance_Gate\<close>, \<open>Velocity_Checker\<close>, \<open>Compliance_Orchestrator\<close>, with the contract
  \<open>risk_screening\<close> that the gate uses and all three scorers are shown to meet.

  Money (settlement/src, recovery/src, reconciliation/src).  \<open>Ledger\<close>, \<open>Settlement\<close>, \<open>Settlement_Properties\<close>: postings and
  payouts; \<open>Recovery\<close>; \<open>Reconciliation\<close>, \<open>Reconciliation_Properties\<close>.

  HOW THE PARTS INTERACT

  The service state \<open>gateway\<close> (intent tables, merchants, webhook deliveries) is what the API handles, what the
  watcher and the tracker read, and what the job handlers change; \<open>world\<close> adds the queue, the watcher
  and the tracker of the worker.  Composed statements: a public checkout ends in a quoted intent the watcher
  attributes a transfer of the chain's own coin to, and a token transfer only to an address without capitals; a reported deposit reaches the state machine if its queue is polled; a payout that
  settleIntent completes passes reconciliation, unless it is so small that its rounded amount differs too much; the
  books it leaves for the merchant's account are off by the payout; the public payment page never shows the
  payment it is made for, its two requests being refused; a registration the browser lets through makes a complete merchant, one unless an answer is lost,
  and reaches the account page, which lists that merchant's own intents; the worker can only be configured for
  test nets, so it listens on no chain such a merchant accepts; the process as composed polls a
  queue no deposit is enqueued into.

  WHAT THE GROUPS OF LEMMAS SHOW

  Invariants of a component are proved for one operation and lifted by \<open>op_machine\<close> or \<open>ordered_machine\<close> to all
  runs (repository, service, queue, accounts, rate locks, price cache, reconciliation, process).  UPDATE
  statements keep their primary key by interpretations of \<open>keyed_update\<close>.  The handlers of the service are
  runs of repository writes (\<open>runs_intros\<close>), and steps of the abstract life cycle (\<open>sims\<close>).  The bodies of
  transactions are composed by the rules \<open>tx_intros\<close>.

  CONVENTIONS AND BOUNDS

  Numbers of the language that are not integers are exact rationals: the rounding of doubles is not modelled,
  rounding the code asks for is (\<open>toFixed\<close>, \<open>Math.round\<close>, DECIMAL columns); NaN is \<open>None\<close> where the code can meet it.
  Bitwise hashes are computed on 32-bit words.  A call sees one instant unless the code reads the clock
  around an \<open>await\<close>, where each reading is an argument.  Identifiers are drawn from a stream; theorems that need
  them fresh say so.  The identifiers of merchants are texts, those of intents, settlements and
  cases UUIDs: a request is taken to spell the latter as UUIDs, as the database refuses any other text with an error.  A text is a list of bytes, and fixed texts with signs outside ASCII are written in ASCII.
  The wait for confirmations has fuel 151, which its termination theorem shows to be enough for the
  300000 ms in steps of 2000 ms; \<open>json_parse\<close> has fuel twice the length of the text plus one, every nested
  call consuming a character.  All other recursions are structural or have a measure.

  PARAMETERS

  Code that is not under src/ is a parameter with its documented behaviour as hypothesis: \<open>fetch\<close> and the HTTP
  answers, ethers and the JSON-RPC provider, PBKDF2, SHA-256 and HMAC, randomUUID and Math.random, the collation
  of the database, the choice SKIP LOCKED makes among the jobs, the effect of a migration's SQL text, the
  answer of the operating system to \<open>listen\<close>, whether the framework refuses an empty JSON body.

  NOT MODELLED

  The wrappers around the chart library, cards, icons and class names other than those a status chooses.
  Fastify itself (routing, parsing, CORS answers), React's rendering, the connections of the pool, sockets and
  timers of the operating system, and the texts the reader's locale makes of numbers and dates are outside.
  Concurrent transactions are not interleaved: the code takes row locks, and a session here runs alone.  Requests
  to the API run one after the other, except that \<open>checkout_between\<close> takes what others do to the state while a checkout
  awaits the merchant's webhook.
  SQL files, Docker and Kubernetes files, CI and documents are read for findings only.
\<close>

end
